(* ===== verification/VR_Prelude.thy ===== *)
theory VR_Prelude
  imports Main "HOL-Library.AList" "HOL-Library.List_Lexorder" "HOL-Library.Char_ord"
    "HOL-Library.Product_Lexorder"
begin

section \<open>Python containers, decimal text and parent pointers\<close>

text \<open>
  What the Python code uses of its language, shared by every component.

  \<^item> A \<open>str\<close> is the list of its UTF-8 bytes (HOL's \<open>string\<close>): concatenation, equality,
    prefix tests and the code-point order of \<open>sorted\<close> agree with Python on that
    representation; a character count is \<open>utf8_length\<close>.
  \<^item> A \<open>dict\<close> is an association list in insertion order. \<open>AList.update\<close> keeps the position
    of a key that is already there, as an assignment to a dict does.
  \<^item> \<open>fromkeys\<close> is \<open>list(dict.fromkeys(xs))\<close>: first occurrences, in order.
  \<^item> \<open>chase\<close> is the loop \<open>while current in edges\<close> with a \<open>seen\<close> set that the validators and
    the promotion code use to find cycles in a map of parent or canonical pointers; the
    locale \<open>successor\<close> gives its meaning.
\<close>

named_theorems vr_dict \<open>facts on dictionaries as association lists\<close>
named_theorems vr_text \<open>facts on decimal text and prefixes\<close>

type_synonym 'v strdict = "(string \<times> 'v) list"

subsection \<open>Dictionaries\<close>

fun fromkeys :: "'a list \<Rightarrow> 'a list" where
  "fromkeys [] = []"
| "fromkeys (x # xs) = x # filter (\<lambda>y. y \<noteq> x) (fromkeys xs)"

lemma set_fromkeys [simp]: "set (fromkeys xs) = set xs"
  by (induction xs) auto

lemma distinct_fromkeys [simp]: "distinct (fromkeys xs)"
  by (induction xs) auto

lemma fromkeys_distinct: "distinct xs \<Longrightarrow> fromkeys xs = xs"
  by (induction xs) (auto simp: filter_id_conv)

lemma fromkeys_idem [simp]: "fromkeys (fromkeys xs) = fromkeys xs"
  by (rule fromkeys_distinct) simp

lemma fromkeys_Nil_iff [simp]: "fromkeys xs = [] \<longleftrightarrow> xs = []"
  by (cases xs) auto

text \<open>\<open>d.setdefault(k, v)\<close>: the value of \<open>k\<close> afterwards, and the dict.\<close>

definition setdefault :: "('k \<times> 'v) list \<Rightarrow> 'k \<Rightarrow> 'v \<Rightarrow> 'v \<times> ('k \<times> 'v) list" where
  "setdefault d k v = (case map_of d k of Some w \<Rightarrow> (w, d) | None \<Rightarrow> (v, d @ [(k, v)]))"

lemma setdefault_map_of [vr_dict]:
  "map_of (snd (setdefault d k v)) = (map_of d)(k \<mapsto> fst (setdefault d k v))"
  by (auto simp: setdefault_def map_add_def fun_eq_iff split: option.splits)

lemma setdefault_fst [vr_dict]:
  "fst (setdefault d k v) = (case map_of d k of Some w \<Rightarrow> w | None \<Rightarrow> v)"
  by (simp add: setdefault_def split: option.splits)

text \<open>\<open>d.get(k, dflt)\<close>.\<close>

definition dict_get :: "('k \<times> 'v) list \<Rightarrow> 'k \<Rightarrow> 'v \<Rightarrow> 'v" where
  "dict_get d k dflt = (case map_of d k of Some v \<Rightarrow> v | None \<Rightarrow> dflt)"

lemma dict_get_update [vr_dict]:
  "dict_get (AList.update k v d) x dflt = (if x = k then v else dict_get d x dflt)"
  by (simp add: dict_get_def update_conv)

text \<open>\<open>{f(x): x for x in xs}\<close> and \<open>next(x for x in xs if f(x) == k)\<close>: the last and the first hit.\<close>

definition by_last :: "('a \<Rightarrow> 'k) \<Rightarrow> 'a list \<Rightarrow> 'k \<rightharpoonup> 'a" where
  "by_last f xs k = find (\<lambda>x. f x = k) (rev xs)"

definition first_by :: "('a \<Rightarrow> 'k) \<Rightarrow> 'a list \<Rightarrow> 'k \<rightharpoonup> 'a" where
  "first_by f xs k = find (\<lambda>x. f x = k) xs"

lemma first_by_Some_iff:
  assumes "distinct (map f xs)"
  shows "first_by f xs k = Some x \<longleftrightarrow> x \<in> set xs \<and> f x = k"
  using assms unfolding first_by_def
  by (induction xs) (auto simp: image_iff)

lemma first_by_SomeD: "first_by f xs k = Some x \<Longrightarrow> x \<in> set xs \<and> f x = k"
  unfolding first_by_def by (induction xs) (auto split: if_splits)

lemma first_by_None_iff: "first_by f xs k = None \<longleftrightarrow> k \<notin> f ` set xs"
  unfolding first_by_def by (induction xs) auto

lemma first_by_simps [simp]:
  "first_by f [] k = None"
  "first_by f (x # xs) k = (if f x = k then Some x else first_by f xs k)"
  by (simp_all add: first_by_def)

lemma distinct_map_eqD: "distinct (map f xs) \<Longrightarrow> x \<in> set xs \<Longrightarrow> y \<in> set xs \<Longrightarrow> f x = f y \<Longrightarrow> x = y"
  by (auto simp: distinct_map dest: inj_onD)

text \<open>Lookup as membership: these rewrite a property of the list into a case on the lookup.\<close>

lemma first_by_bex:
  "distinct (map f xs) \<Longrightarrow>
     (\<exists>x \<in> set xs. f x = k \<and> P x) \<longleftrightarrow> (case first_by f xs k of None \<Rightarrow> False | Some x \<Rightarrow> P x)"
  by (auto simp: first_by_Some_iff first_by_None_iff distinct_map dest: inj_onD split: option.split)

lemma first_by_mem: "k \<in> f ` set xs \<longleftrightarrow> first_by f xs k \<noteq> None"
  by (simp add: first_by_None_iff)

lemma by_last_first_by: "distinct (map f xs) \<Longrightarrow> by_last f xs = first_by f xs"
proof
  fix k assume d: "distinct (map f xs)"
  have dr: "distinct (map f (rev xs))" using d by (simp add: rev_map [symmetric])
  have "first_by f (rev xs) k = first_by f xs k"
  proof (cases "first_by f xs k")
    case None
    then have "k \<notin> f ` set xs" using first_by_None_iff by metis
    then have "first_by f (rev xs) k = None" by (simp add: first_by_None_iff)
    with None show ?thesis by simp
  next
    case (Some x)
    then have "first_by f (rev xs) k = Some x"
      by (simp only: first_by_Some_iff [OF d] first_by_Some_iff [OF dr] set_rev)
    with Some show ?thesis by simp
  qed
  then show "by_last f xs k = first_by f xs k" by (simp add: by_last_def first_by_def)
qed

lemma by_last_SomeD: "by_last f xs k = Some x \<Longrightarrow> x \<in> set xs \<and> f x = k"
  using first_by_SomeD [of f "rev xs" k x] by (simp add: by_last_def first_by_def)

lemma by_last_None_iff: "by_last f xs k = None \<longleftrightarrow> k \<notin> f ` set xs"
  using first_by_None_iff [of f "rev xs" k] by (simp add: by_last_def first_by_def)

subsection \<open>Lists with an index, filters of one element\<close>

lemma list_all_enumerate:
  "list_all (\<lambda>(i, x). P x) (enumerate n xs) \<longleftrightarrow> list_all P xs"
  by (induction xs arbitrary: n) auto

lemma ball_enumerate: "(\<forall>(i, x) \<in> set (enumerate n xs). P x) \<longleftrightarrow> (\<forall>x \<in> set xs. P x)"
  by (induction xs arbitrary: n) auto

lemma filter_single_eq:
  assumes "filter P xs = [y]" and "x \<in> set xs" and "P x" shows "x = y"
proof -
  have "x \<in> set (filter P xs)" using assms(2,3) by simp
  then show ?thesis using assms(1) by simp
qed

text \<open>
  \<open>d = defaultdict(list); for x in xs: d[f(x)].append(x)\<close>: what \<open>d[k]\<close> (or \<open>d.get(k, [])\<close>) then is.
\<close>

definition grouped_by :: "('a \<Rightarrow> 'k) \<Rightarrow> 'a list \<Rightarrow> 'k \<Rightarrow> 'a list" where
  "grouped_by f xs k = filter (\<lambda>x. f x = k) xs"

lemma set_grouped_by [simp]: "set (grouped_by f xs k) = {x \<in> set xs. f x = k}"
  by (auto simp: grouped_by_def)

lemma grouped_by_single: "grouped_by f xs k = [y] \<Longrightarrow> x \<in> set xs \<Longrightarrow> f x = k \<Longrightarrow> x = y"
  by (metis (mono_tags, lifting) empty_set list.simps(15) mem_Collect_eq set_grouped_by singletonD)

text \<open>Exactly one element of a list has the key.\<close>

definition exactly_one :: "('a \<Rightarrow> bool) \<Rightarrow> 'a list \<Rightarrow> bool" where
  "exactly_one P xs \<longleftrightarrow> (\<exists>x. filter P xs = [x])"

lemma length_grouped_by_1: "length (grouped_by f xs k) = 1 \<longleftrightarrow> exactly_one (\<lambda>x. f x = k) xs"
  by (simp add: grouped_by_def exactly_one_def length_Suc_conv)

lemma exactly_oneE:
  assumes "exactly_one P xs"
  obtains x where "x \<in> set xs" "P x" "\<And>y. y \<in> set xs \<Longrightarrow> P y \<Longrightarrow> y = x" "filter P xs = [x]"
proof -
  from assms obtain x where x: "filter P xs = [x]" by (auto simp: exactly_one_def)
  have "x \<in> set (filter P xs)" by (simp add: x)
  then have "x \<in> set xs" "P x" by simp_all
  then show thesis using that x filter_single_eq by metis
qed

subsection \<open>Decimal text\<close>

definition is_digit :: "char \<Rightarrow> bool" where
  "is_digit c \<longleftrightarrow> 48 \<le> (of_char c :: nat) \<and> (of_char c :: nat) \<le> 57"

definition digit_char :: "nat \<Rightarrow> char" where
  "digit_char n = char_of (48 + n)"

definition digit_val :: "char \<Rightarrow> nat" where
  "digit_val c = of_char c - 48"

text \<open>\<open>str(n)\<close>, \<open>f"{n:0wd}"\<close> and \<open>int(s)\<close> for a string of ASCII digits.\<close>

fun nat_str :: "nat \<Rightarrow> string" where
  "nat_str n = (if n < 10 then [digit_char n] else nat_str (n div 10) @ [digit_char (n mod 10)])"

declare nat_str.simps [simp del]

definition pad_str :: "nat \<Rightarrow> nat \<Rightarrow> string" where
  "pad_str w n = replicate (w - length (nat_str n)) (CHR ''0'') @ nat_str n"

definition str_nat :: "string \<Rightarrow> nat" where
  "str_nat s = foldl (\<lambda>a c. 10 * a + digit_val c) 0 s"

lemma is_digit_digit_char: "n < 10 \<Longrightarrow> is_digit (digit_char n)"
  by (simp add: is_digit_def digit_char_def)

lemma digit_val_digit_char: "n < 10 \<Longrightarrow> digit_val (digit_char n) = n"
  by (simp add: digit_val_def digit_char_def)

lemma nat_str_digits [vr_text]: "list_all is_digit (nat_str n)"
  by (induction n rule: nat_str.induct) (subst nat_str.simps, simp add: is_digit_digit_char)

lemma nat_str_nonempty [simp]: "nat_str n \<noteq> []"
  by (subst nat_str.simps) simp

lemma str_nat_snoc: "str_nat (s @ [c]) = 10 * str_nat s + digit_val c"
  by (simp add: str_nat_def)

lemma str_nat_nat_str [vr_text]: "str_nat (nat_str n) = n"
proof (induction n rule: nat_str.induct)
  case (1 n)
  show ?case
  proof (cases "n < 10")
    case True
    then show ?thesis
      by (subst nat_str.simps) (simp add: str_nat_def digit_val_digit_char)
  next
    case False
    with "1.IH" have "str_nat (nat_str (n div 10)) = n div 10" by simp
    with False show ?thesis
      by (subst nat_str.simps) (simp add: str_nat_snoc digit_val_digit_char)
  qed
qed

lemma str_nat_zeros: "str_nat (replicate k (CHR ''0'') @ s) = str_nat s"
  by (induction k) (simp_all add: str_nat_def digit_val_def)

lemma str_nat_pad_str [vr_text]: "str_nat (pad_str w n) = n"
  by (simp add: pad_str_def str_nat_zeros vr_text)

lemma pad_str_digits [vr_text]: "list_all is_digit (pad_str w n)"
  by (simp add: pad_str_def vr_text) (simp add: list_all_iff is_digit_def)

lemma pad_str_inj: "pad_str w m = pad_str w n \<Longrightarrow> m = n"
  by (metis str_nat_pad_str)

lemma length_nat_str_le: "n < 10 ^ Suc k \<Longrightarrow> length (nat_str n) \<le> Suc k"
proof (induction k arbitrary: n)
  case 0
  then show ?case by (subst nat_str.simps) simp
next
  case (Suc k)
  then have "n div 10 < 10 ^ Suc k" by (simp add: less_mult_imp_div_less)
  then have "length (nat_str (n div 10)) \<le> Suc k" by (rule Suc.IH)
  then show ?case by (subst nat_str.simps) simp
qed

lemma length_pad_str: "n < 10 ^ Suc k \<Longrightarrow> length (pad_str (Suc k) n) = Suc k"
  using length_nat_str_le [of n k] by (simp add: pad_str_def)

lemma length_pad_str_ge: "w \<le> length (pad_str w n)"
  by (simp add: pad_str_def)

subsection \<open>Prefixes\<close>

definition starts_with :: "string \<Rightarrow> string \<Rightarrow> bool" where
  "starts_with p s \<longleftrightarrow> take (length p) s = p"

definition removeprefix :: "string \<Rightarrow> string \<Rightarrow> string" where
  "removeprefix p s = (if starts_with p s then drop (length p) s else s)"

lemma starts_with_append [simp]: "starts_with p (p @ s)"
  by (simp add: starts_with_def)

lemma removeprefix_append [simp]: "removeprefix p (p @ s) = s"
  by (simp add: removeprefix_def)

lemma starts_with_iff: "starts_with p s \<longleftrightarrow> (\<exists>r. s = p @ r)"
  unfolding starts_with_def by (metis append_eq_conv_conj append_take_drop_id)

text \<open>\<open>sep.join(parts)\<close>.\<close>

fun join_with :: "string \<Rightarrow> string list \<Rightarrow> string" where
  "join_with sep [] = ''''"
| "join_with sep [x] = x"
| "join_with sep (x # y # ys) = x @ sep @ join_with sep (y # ys)"

text \<open>The number of code points of a UTF-8 byte string: its bytes less the continuation bytes.\<close>

definition utf8_length :: "string \<Rightarrow> nat" where
  "utf8_length s = length (filter (\<lambda>c. \<not> (128 \<le> (of_char c :: nat) \<and> (of_char c :: nat) < 192)) s)"

lemma utf8_length_le: "utf8_length s \<le> length s"
  by (simp add: utf8_length_def)

subsection \<open>Pointer chains and cycles\<close>

function chase :: "('a \<times> 'a) list \<Rightarrow> 'a set \<Rightarrow> 'a \<Rightarrow> bool" where
  "chase edges seen current =
     (case map_of edges current of
        None \<Rightarrow> False
      | Some nxt \<Rightarrow>
          if current \<in> seen then True else chase edges (insert current seen) nxt)"
  by pat_completeness auto
termination
proof (relation "measure (\<lambda>(edges, seen, current). card (fst ` set edges - seen))", goal_cases)
  case 1
  then show ?case by simp
next
  case (2 edges seen current nxt)
  then have "current \<in> fst ` set edges - seen"
    by (force dest: map_of_SomeD)
  then have "fst ` set edges - insert current seen \<subset> fst ` set edges - seen" by blast
  then show ?case by (simp add: psubset_card_mono)
qed

declare chase.simps [simp del]

locale successor =
  fixes nxt :: "'a \<rightharpoonup> 'a"
  assumes finite_nxt: "finite (dom nxt)"
begin

definition step :: "('a \<times> 'a) set" where
  "step = {(a, b). nxt a = Some b}"

definition halts :: "'a \<Rightarrow> bool" where
  "halts = Wellfounded.accp (\<lambda>b a. nxt a = Some b)"

lemma halts_iff: "halts a \<longleftrightarrow> (\<forall>b. nxt a = Some b \<longrightarrow> halts b)"
  unfolding halts_def by (auto intro: accp.intros elim: accp.cases)

lemma halts_induct [consumes 1, case_names halts]:
  assumes "halts a" and "\<And>a. (\<And>b. nxt a = Some b \<Longrightarrow> P b) \<Longrightarrow> P a"
  shows "P a"
  using assms(1) unfolding halts_def
  by (induction rule: accp.induct) (metis assms(2))

lemma step_rtrancl_halts: "(a, b) \<in> step\<^sup>* \<Longrightarrow> halts a \<Longrightarrow> halts b"
proof (induction rule: rtrancl_induct)
  case base
  then show ?case .
next
  case (step y z)
  then have "halts y" and "nxt y = Some z" by (simp_all add: step_def)
  then show ?case using halts_iff by blast
qed

lemma trancl_dom: "(a, b) \<in> step\<^sup>+ \<Longrightarrow> \<exists>c. nxt a = Some c"
  by (induction rule: converse_trancl_induct) (auto simp: step_def)

lemma step_trancl_from: "(a, b) \<in> step\<^sup>+ \<Longrightarrow> nxt a = Some c \<Longrightarrow> (c, b) \<in> step\<^sup>*"
  by (induction rule: converse_trancl_induct) (auto simp: step_def)

lemma cycle_not_halts: "halts a \<Longrightarrow> (a, a) \<notin> step\<^sup>+"
proof (induction rule: halts_induct)
  case (halts a)
  show ?case
  proof
    assume cyc: "(a, a) \<in> step\<^sup>+"
    then obtain b where b: "nxt a = Some b" using trancl_dom by blast
    have "(b, a) \<in> step\<^sup>*" using cyc b by (rule step_trancl_from)
    moreover have "(a, b) \<in> step" using b by (simp add: step_def)
    ultimately have "(b, b) \<in> step\<^sup>+" by (rule rtrancl_into_trancl1)
    with halts [OF b] show False by blast
  qed
qed

lemma finite_step: "finite step"
proof -
  have "step \<subseteq> (\<lambda>a. (a, the (nxt a))) ` dom nxt" by (auto simp: step_def)
  then show ?thesis using finite_nxt by (auto intro: finite_subset)
qed

lemma acyclic_halts: "acyclic step \<Longrightarrow> halts a"
proof -
  assume "acyclic step"
  then have "wf (step\<inverse>)" by (rule finite_acyclic_wf_converse [OF finite_step])
  then show "halts a"
  proof (induction a rule: wf_induct_rule)
    case (less a)
    show ?case
    proof (subst halts_iff, intro allI impI)
      fix b assume "nxt a = Some b"
      then have "(b, a) \<in> step\<inverse>" by (simp add: step_def)
      then show "halts b" by (rule less)
    qed
  qed
qed

lemma acyclic_iff_halts: "acyclic step \<longleftrightarrow> (\<forall>a \<in> dom nxt. halts a)"
proof
  assume "acyclic step"
  then show "\<forall>a \<in> dom nxt. halts a" by (auto intro: acyclic_halts)
next
  assume h: "\<forall>a \<in> dom nxt. halts a"
  show "acyclic step"
  proof (rule acyclicI, rule allI)
    fix a
    show "(a, a) \<notin> step\<^sup>+"
    proof
      assume cyc: "(a, a) \<in> step\<^sup>+"
      then have "a \<in> dom nxt" using trancl_dom by blast
      with h cyc show False by (auto dest: cycle_not_halts)
    qed
  qed
qed

text \<open>Where a chain stops: the first element with no successor.\<close>

lemma halts_end: "halts a \<Longrightarrow> \<exists>b. (a, b) \<in> step\<^sup>* \<and> nxt b = None"
proof (induction rule: halts_induct)
  case (halts a)
  show ?case
  proof (cases "nxt a")
    case None
    then show ?thesis by blast
  next
    case (Some b)
    with halts obtain c where "(b, c) \<in> step\<^sup>*" "nxt c = None" by blast
    moreover have "(a, b) \<in> step" using Some by (simp add: step_def)
    ultimately show ?thesis by (blast intro: converse_rtrancl_into_rtrancl)
  qed
qed

end

interpretation edges: successor "map_of es" for es :: "('a \<times> 'a) list"
  by unfold_locales (rule finite_dom_map_of)

lemma chase_sound:
  "chase es seen a \<Longrightarrow> (\<forall>x \<in> seen. (x, a) \<in> (edges.step es)\<^sup>+) \<Longrightarrow> \<not> edges.halts es a"
proof (induction es seen a rule: chase.induct)
  case (1 es seen a)
  from "1.prems"(1) obtain b where b: "map_of es a = Some b"
    by (subst (asm) chase.simps) (auto split: option.splits)
  have ab: "(a, b) \<in> edges.step es" using b by (simp add: edges.step_def)
  show ?case
  proof (cases "a \<in> seen")
    case True
    with "1.prems"(2) have "(a, a) \<in> (edges.step es)\<^sup>+" by blast
    then show ?thesis by (auto dest: edges.cycle_not_halts)
  next
    case False
    have "chase es (insert a seen) b"
      using "1.prems"(1) b False by (subst (asm) chase.simps) simp
    moreover have "\<forall>x \<in> insert a seen. (x, b) \<in> (edges.step es)\<^sup>+"
      using "1.prems"(2) ab by (auto intro: trancl_into_trancl)
    ultimately have "\<not> edges.halts es b" using "1.IH" [OF b False] by blast
    with b show ?thesis using edges.halts_iff [of es a] by blast
  qed
qed

lemma chase_complete: "\<not> chase es seen a \<Longrightarrow> edges.halts es a"
proof (induction es seen a rule: chase.induct)
  case (1 es seen a)
  show ?case
  proof (subst edges.halts_iff, intro allI impI)
    fix b assume b: "map_of es a = Some b"
    with "1.prems" have ns: "a \<notin> seen" by (subst (asm) chase.simps) auto
    with "1.prems" b have "\<not> chase es (insert a seen) b"
      by (subst (asm) chase.simps) simp
    then show "edges.halts es b" by (rule "1.IH" [OF b ns])
  qed
qed

text \<open>The loop reports a start exactly when the chain of pointers from it does not stop.\<close>

lemma chase_iff: "chase es {} a \<longleftrightarrow> \<not> edges.halts es a"
  using chase_sound [of es "{}" a] chase_complete [of es "{}" a] by blast

lemma chase_none_iff_acyclic:
  "(\<forall>a \<in> fst ` set es. \<not> chase es {} a) \<longleftrightarrow> acyclic (edges.step es)"
  by (simp add: chase_iff edges.acyclic_iff_halts dom_map_of_conv_image_fst)

end
