(* ===== verification/VR_Hashing.thy ===== *)
theory VR_Hashing
  imports VR_Prelude "HOL-Library.Word"
begin

unbundle bit_operations_syntax

section \<open>SHA-256 content hashes\<close>

text \<open>
  \<open>runtime/hashing.py\<close> and \<open>ids.py\<close> hash the UTF-8 bytes of a text with \<open>hashlib.sha256\<close>
  and write the digest as \<open>sha256:\<close> followed by 64 lowercase hexadecimal digits. The digest
  of the standard library is modelled by the algorithm itself (FIPS 180-4) on 32-bit words, so
  that no hash function is left abstract: padding to 64-byte blocks, the message schedule,
  the 64 rounds of the compression function and the big-endian output.
\<close>

type_synonym w32 = "32 word"

definition sha_k :: "w32 list" where
  "sha_k = [
   1116352408, 1899447441, 3049323471, 3921009573, 961987163, 1508970993, 2453635748, 2870763221,
   3624381080, 310598401, 607225278, 1426881987, 1925078388, 2162078206, 2614888103, 3248222580,
   3835390401, 4022224774, 264347078, 604807628, 770255983, 1249150122, 1555081692, 1996064986,
   2554220882, 2821834349, 2952996808, 3210313671, 3336571891, 3584528711, 113926993, 338241895,
   666307205, 773529912, 1294757372, 1396182291, 1695183700, 1986661051, 2177026350, 2456956037,
   2730485921, 2820302411, 3259730800, 3345764771, 3516065817, 3600352804, 4094571909, 275423344,
   430227734, 506948616, 659060556, 883997877, 958139571, 1322822218, 1537002063, 1747873779,
   1955562222, 2024104815, 2227730452, 2361852424, 2428436474, 2756734187, 3204031479, 3329325298]"

definition sha_init :: "w32 list" where
  "sha_init = [1779033703, 3144134277, 1013904242, 2773480762, 1359893119, 2600822924, 528734635, 1541459225]"

definition sha_rotr :: "nat \<Rightarrow> w32 \<Rightarrow> w32" where
  "sha_rotr n x = (drop_bit n x) OR (push_bit (32 - n) x)"

text \<open>Bytes as numbers below 256; the 64-bit bit length, big-endian.\<close>

definition be_length :: "nat \<Rightarrow> nat list" where
  "be_length n = map (\<lambda>i. unat (drop_bit (56 - 8 * i) (of_nat n :: 64 word) AND 255)) [0..<8]"

definition sha_pad :: "nat list \<Rightarrow> nat list" where
  "sha_pad bs = bs @ [128] @ replicate ((119 - length bs mod 64) mod 64) 0 @ be_length (8 * length bs)"

fun be_words :: "nat list \<Rightarrow> w32 list" where
  "be_words (a # b # c # d # rest) = (((of_nat a * 256 + of_nat b) * 256 + of_nat c) * 256 + of_nat d) # be_words rest"
| "be_words _ = []"

text \<open>The message schedule, newest word first.\<close>

definition sha_sigma0 :: "w32 \<Rightarrow> w32" where
  "sha_sigma0 x = sha_rotr 7 x XOR sha_rotr 18 x XOR drop_bit 3 x"

definition sha_sigma1 :: "w32 \<Rightarrow> w32" where
  "sha_sigma1 x = sha_rotr 17 x XOR sha_rotr 19 x XOR drop_bit 10 x"

fun sha_extend :: "nat \<Rightarrow> w32 list \<Rightarrow> w32 list" where
  "sha_extend 0 ws = ws"
| "sha_extend (Suc n) ws =
     sha_extend n ((ws ! 15 + sha_sigma0 (ws ! 14) + ws ! 6 + sha_sigma1 (ws ! 1)) # ws)"

definition sha_schedule :: "w32 list \<Rightarrow> w32 list" where
  "sha_schedule block = rev (sha_extend 48 (rev block))"

fun sha_round :: "w32 list \<Rightarrow> w32 \<times> w32 \<Rightarrow> w32 list" where
  "sha_round [a, b, c, d, e, f, g, h] (k, w) =
     (let s1 = sha_rotr 6 e XOR sha_rotr 11 e XOR sha_rotr 25 e;
          ch = (e AND f) XOR (NOT e AND g);
          t1 = h + s1 + ch + k + w;
          s0 = sha_rotr 2 a XOR sha_rotr 13 a XOR sha_rotr 22 a;
          maj = (a AND b) XOR (a AND c) XOR (b AND c);
          t2 = s0 + maj
      in [t1 + t2, a, b, c, d + t1, e, f, g])"
| "sha_round st _ = st"

definition sha_compress :: "w32 list \<Rightarrow> w32 list \<Rightarrow> w32 list" where
  "sha_compress st block = map2 (+) st (foldl sha_round st (zip sha_k (sha_schedule block)))"

function sha_blocks :: "w32 list \<Rightarrow> w32 list \<Rightarrow> w32 list" where
  "sha_blocks st ws = (if length ws < 16 then st else sha_blocks (sha_compress st (take 16 ws)) (drop 16 ws))"
  by pat_completeness auto
termination by (relation "measure (\<lambda>(st, ws). length ws)") auto

declare sha_blocks.simps [simp del]

definition hex_char :: "nat \<Rightarrow> char" where
  "hex_char n = (if n < 10 then char_of (48 + n) else char_of (87 + n))"

definition hex_word :: "w32 \<Rightarrow> string" where
  "hex_word w = map (\<lambda>i. hex_char (unat (drop_bit (28 - 4 * i) w AND 15))) [0..<8]"

definition sha256_hexdigest :: "nat list \<Rightarrow> string" where
  "sha256_hexdigest bs = concat (map hex_word (sha_blocks sha_init (be_words (sha_pad bs))))"

text \<open>\<open>hash_bytes\<close> and \<open>hash_text\<close>.\<close>

definition hash_bytes :: "string \<Rightarrow> string" where
  "hash_bytes value = ''sha256:'' @ sha256_hexdigest (map of_char value)"

definition hash_text :: "string \<Rightarrow> string" where
  "hash_text value = hash_bytes value"

subsection \<open>Every hash is a canonical SHA-256 identifier\<close>

definition is_hex :: "char \<Rightarrow> bool" where
  "is_hex c \<longleftrightarrow> is_digit c \<or> (97 \<le> (of_char c :: nat) \<and> (of_char c :: nat) \<le> 102)"

lemma is_hex_hex_char: "n < 16 \<Longrightarrow> is_hex (hex_char n)"
  by (auto simp: is_hex_def is_digit_def hex_char_def)

lemma unat_and_15: "unat (w AND 15 :: w32) < 16"
proof -
  have "unat (w AND 15) \<le> unat (15 :: w32)"
    by (rule word_and_le1 [THEN word_le_nat_alt [THEN iffD1]])
  then show ?thesis by simp
qed

lemma hex_word_hex: "list_all is_hex (hex_word w)"
  by (simp add: hex_word_def list_all_iff is_hex_hex_char unat_and_15)

lemma length_hex_word [simp]: "length (hex_word w) = 8"
  by (simp add: hex_word_def)

lemma length_sha_round: "length st = 8 \<Longrightarrow> length (sha_round st kw) = 8"
  by (cases "(st, kw)" rule: sha_round.cases) (auto simp: Let_def)

lemma length_sha_rounds: "length st = 8 \<Longrightarrow> length (foldl sha_round st kws) = 8"
  by (induction kws arbitrary: st) (simp_all add: length_sha_round)

lemma length_sha_blocks: "length st = 8 \<Longrightarrow> length (sha_blocks st ws) = 8"
proof (induction st ws rule: sha_blocks.induct)
  case (1 st ws)
  then show ?case
    by (subst sha_blocks.simps) (simp add: sha_compress_def length_sha_rounds)
qed

lemma length_concat_hex: "length (concat (map hex_word ws)) = 8 * length ws"
  by (induction ws) simp_all

lemma sha256_hexdigest_shape:
  "length (sha256_hexdigest bs) = 64 \<and> list_all is_hex (sha256_hexdigest bs)"
proof
  have "length (sha_blocks sha_init (be_words (sha_pad bs))) = 8"
    by (rule length_sha_blocks) (simp add: sha_init_def)
  then show "length (sha256_hexdigest bs) = 64"
    by (simp add: sha256_hexdigest_def length_concat_hex)
  show "list_all is_hex (sha256_hexdigest bs)"
    using hex_word_hex by (simp add: sha256_hexdigest_def list_all_iff)
qed

end
