(* ===== verification/VR_Enums.thy ===== *)
theory VR_Enums
  imports VR_Prelude
begin

section \<open>Canonical enumerations (\<open>enums.py\<close>)\<close>

text \<open>
  Each \<open>StrEnum\<close> class is a datatype with the members of the class in its order, and a
  function \<open>X_value\<close> for the member's string value. Members of different classes share
  names, so a constructor is always written with its class, as in the source
  (\<open>EvidenceRelation.UNCLEAR\<close>). A \<open>StrEnum\<close> member compares as its string; the value
  functions are injective, so equality of members of one class is equality in the datatype.
\<close>

named_theorems enum_value_inject \<open>two members of a class with the same value are equal\<close>

datatype Origin = DEEP_RESEARCH | CORPUS_CHALLENGER | GENERATED | HUMAN

fun Origin_value :: "Origin \<Rightarrow> string" where
  "Origin_value Origin.DEEP_RESEARCH = ''deep_research''"
| "Origin_value Origin.CORPUS_CHALLENGER = ''corpus_challenger''"
| "Origin_value Origin.GENERATED = ''generated''"
| "Origin_value Origin.HUMAN = ''human''"

lemma Origin_value_inject [enum_value_inject]: "Origin_value a = Origin_value b \<longleftrightarrow> a = b"
  by (cases a; cases b) simp_all

datatype IndependenceStatus = INDEPENDENT | SHARED_DATASET | EXTENDED_PUBLICATION | UNKNOWN

fun IndependenceStatus_value :: "IndependenceStatus \<Rightarrow> string" where
  "IndependenceStatus_value IndependenceStatus.INDEPENDENT = ''independent''"
| "IndependenceStatus_value IndependenceStatus.SHARED_DATASET = ''shared_dataset''"
| "IndependenceStatus_value IndependenceStatus.EXTENDED_PUBLICATION = ''extended_publication''"
| "IndependenceStatus_value IndependenceStatus.UNKNOWN = ''unknown''"

lemma IndependenceStatus_value_inject [enum_value_inject]: "IndependenceStatus_value a = IndependenceStatus_value b \<longleftrightarrow> a = b"
  by (cases a; cases b) simp_all

datatype RetrievalIntent = SUPPORT | CONTRADICTION | BOUNDARY | ALTERNATIVE | METHOD_CHALLENGE | NULL_RESULT

fun RetrievalIntent_value :: "RetrievalIntent \<Rightarrow> string" where
  "RetrievalIntent_value RetrievalIntent.SUPPORT = ''support''"
| "RetrievalIntent_value RetrievalIntent.CONTRADICTION = ''contradiction''"
| "RetrievalIntent_value RetrievalIntent.BOUNDARY = ''boundary''"
| "RetrievalIntent_value RetrievalIntent.ALTERNATIVE = ''alternative''"
| "RetrievalIntent_value RetrievalIntent.METHOD_CHALLENGE = ''method_challenge''"
| "RetrievalIntent_value RetrievalIntent.NULL_RESULT = ''null_result''"

lemma RetrievalIntent_value_inject [enum_value_inject]: "RetrievalIntent_value a = RetrievalIntent_value b \<longleftrightarrow> a = b"
  by (cases a; cases b) simp_all

datatype RetrievalDispositionStatus = ASSESSED | DUPLICATE | REDUNDANT | EXCLUDED_BY_BUDGET | INVALID_LOCATOR

fun RetrievalDispositionStatus_value :: "RetrievalDispositionStatus \<Rightarrow> string" where
  "RetrievalDispositionStatus_value RetrievalDispositionStatus.ASSESSED = ''assessed''"
| "RetrievalDispositionStatus_value RetrievalDispositionStatus.DUPLICATE = ''duplicate''"
| "RetrievalDispositionStatus_value RetrievalDispositionStatus.REDUNDANT = ''redundant''"
| "RetrievalDispositionStatus_value RetrievalDispositionStatus.EXCLUDED_BY_BUDGET = ''excluded_by_budget''"
| "RetrievalDispositionStatus_value RetrievalDispositionStatus.INVALID_LOCATOR = ''invalid_locator''"

lemma RetrievalDispositionStatus_value_inject [enum_value_inject]: "RetrievalDispositionStatus_value a = RetrievalDispositionStatus_value b \<longleftrightarrow> a = b"
  by (cases a; cases b) simp_all

datatype EvidenceRelation = SUPPORTS | CONTRADICTS | QUALIFIES | CONTEXTUAL | UNCLEAR

fun EvidenceRelation_value :: "EvidenceRelation \<Rightarrow> string" where
  "EvidenceRelation_value EvidenceRelation.SUPPORTS = ''supports''"
| "EvidenceRelation_value EvidenceRelation.CONTRADICTS = ''contradicts''"
| "EvidenceRelation_value EvidenceRelation.QUALIFIES = ''qualifies''"
| "EvidenceRelation_value EvidenceRelation.CONTEXTUAL = ''contextual''"
| "EvidenceRelation_value EvidenceRelation.UNCLEAR = ''unclear''"

lemma EvidenceRelation_value_inject [enum_value_inject]: "EvidenceRelation_value a = EvidenceRelation_value b \<longleftrightarrow> a = b"
  by (cases a; cases b) simp_all

datatype EvidenceDirectness = DIRECT | INDIRECT | UNCLEAR | NOT_ASSESSABLE

fun EvidenceDirectness_value :: "EvidenceDirectness \<Rightarrow> string" where
  "EvidenceDirectness_value EvidenceDirectness.DIRECT = ''direct''"
| "EvidenceDirectness_value EvidenceDirectness.INDIRECT = ''indirect''"
| "EvidenceDirectness_value EvidenceDirectness.UNCLEAR = ''unclear''"
| "EvidenceDirectness_value EvidenceDirectness.NOT_ASSESSABLE = ''not_assessable''"

lemma EvidenceDirectness_value_inject [enum_value_inject]: "EvidenceDirectness_value a = EvidenceDirectness_value b \<longleftrightarrow> a = b"
  by (cases a; cases b) simp_all

datatype MethodologicalRelevance = HIGH | MODERATE | LOW | UNCLEAR | NOT_ASSESSABLE

fun MethodologicalRelevance_value :: "MethodologicalRelevance \<Rightarrow> string" where
  "MethodologicalRelevance_value MethodologicalRelevance.HIGH = ''high''"
| "MethodologicalRelevance_value MethodologicalRelevance.MODERATE = ''moderate''"
| "MethodologicalRelevance_value MethodologicalRelevance.LOW = ''low''"
| "MethodologicalRelevance_value MethodologicalRelevance.UNCLEAR = ''unclear''"
| "MethodologicalRelevance_value MethodologicalRelevance.NOT_ASSESSABLE = ''not_assessable''"

lemma MethodologicalRelevance_value_inject [enum_value_inject]: "MethodologicalRelevance_value a = MethodologicalRelevance_value b \<longleftrightarrow> a = b"
  by (cases a; cases b) simp_all

datatype EvidenceStrength = LOW | MODERATE | HIGH | UNKNOWN | NOT_ASSESSABLE

fun EvidenceStrength_value :: "EvidenceStrength \<Rightarrow> string" where
  "EvidenceStrength_value EvidenceStrength.LOW = ''low''"
| "EvidenceStrength_value EvidenceStrength.MODERATE = ''moderate''"
| "EvidenceStrength_value EvidenceStrength.HIGH = ''high''"
| "EvidenceStrength_value EvidenceStrength.UNKNOWN = ''unknown''"
| "EvidenceStrength_value EvidenceStrength.NOT_ASSESSABLE = ''not_assessable''"

lemma EvidenceStrength_value_inject [enum_value_inject]: "EvidenceStrength_value a = EvidenceStrength_value b \<longleftrightarrow> a = b"
  by (cases a; cases b) simp_all

datatype Assessability = FULL | PARTIAL | NOT_ASSESSABLE

fun Assessability_value :: "Assessability \<Rightarrow> string" where
  "Assessability_value Assessability.FULL = ''full''"
| "Assessability_value Assessability.PARTIAL = ''partial''"
| "Assessability_value Assessability.NOT_ASSESSABLE = ''not_assessable''"

lemma Assessability_value_inject [enum_value_inject]: "Assessability_value a = Assessability_value b \<longleftrightarrow> a = b"
  by (cases a; cases b) simp_all

datatype AggregateRelation = SUPPORTS | CONTRADICTS | QUALIFIES | CONTEXTUAL | MIXED | UNCLEAR

fun AggregateRelation_value :: "AggregateRelation \<Rightarrow> string" where
  "AggregateRelation_value AggregateRelation.SUPPORTS = ''supports''"
| "AggregateRelation_value AggregateRelation.CONTRADICTS = ''contradicts''"
| "AggregateRelation_value AggregateRelation.QUALIFIES = ''qualifies''"
| "AggregateRelation_value AggregateRelation.CONTEXTUAL = ''contextual''"
| "AggregateRelation_value AggregateRelation.MIXED = ''mixed''"
| "AggregateRelation_value AggregateRelation.UNCLEAR = ''unclear''"

lemma AggregateRelation_value_inject [enum_value_inject]: "AggregateRelation_value a = AggregateRelation_value b \<longleftrightarrow> a = b"
  by (cases a; cases b) simp_all

datatype WithinPaperConsistency = CONSISTENT | MIXED | UNCLEAR

fun WithinPaperConsistency_value :: "WithinPaperConsistency \<Rightarrow> string" where
  "WithinPaperConsistency_value WithinPaperConsistency.CONSISTENT = ''consistent''"
| "WithinPaperConsistency_value WithinPaperConsistency.MIXED = ''mixed''"
| "WithinPaperConsistency_value WithinPaperConsistency.UNCLEAR = ''unclear''"

lemma WithinPaperConsistency_value_inject [enum_value_inject]: "WithinPaperConsistency_value a = WithinPaperConsistency_value b \<longleftrightarrow> a = b"
  by (cases a; cases b) simp_all

datatype AggregateStrength = LOW | MODERATE | HIGH | UNKNOWN

fun AggregateStrength_value :: "AggregateStrength \<Rightarrow> string" where
  "AggregateStrength_value AggregateStrength.LOW = ''low''"
| "AggregateStrength_value AggregateStrength.MODERATE = ''moderate''"
| "AggregateStrength_value AggregateStrength.HIGH = ''high''"
| "AggregateStrength_value AggregateStrength.UNKNOWN = ''unknown''"

lemma AggregateStrength_value_inject [enum_value_inject]: "AggregateStrength_value a = AggregateStrength_value b \<longleftrightarrow> a = b"
  by (cases a; cases b) simp_all

datatype EvidenceSufficiency = SUFFICIENT | INSUFFICIENT | UNCLEAR

fun EvidenceSufficiency_value :: "EvidenceSufficiency \<Rightarrow> string" where
  "EvidenceSufficiency_value EvidenceSufficiency.SUFFICIENT = ''sufficient''"
| "EvidenceSufficiency_value EvidenceSufficiency.INSUFFICIENT = ''insufficient''"
| "EvidenceSufficiency_value EvidenceSufficiency.UNCLEAR = ''unclear''"

lemma EvidenceSufficiency_value_inject [enum_value_inject]: "EvidenceSufficiency_value a = EvidenceSufficiency_value b \<longleftrightarrow> a = b"
  by (cases a; cases b) simp_all

datatype ClaimDecision = RETAIN | WEAKEN | NARROW | REFORMULATE | REJECT

fun ClaimDecision_value :: "ClaimDecision \<Rightarrow> string" where
  "ClaimDecision_value ClaimDecision.RETAIN = ''RETAIN''"
| "ClaimDecision_value ClaimDecision.WEAKEN = ''WEAKEN''"
| "ClaimDecision_value ClaimDecision.NARROW = ''NARROW''"
| "ClaimDecision_value ClaimDecision.REFORMULATE = ''REFORMULATE''"
| "ClaimDecision_value ClaimDecision.REJECT = ''REJECT''"

lemma ClaimDecision_value_inject [enum_value_inject]: "ClaimDecision_value a = ClaimDecision_value b \<longleftrightarrow> a = b"
  by (cases a; cases b) simp_all

datatype RejectionBasis = INSUFFICIENT_EVIDENCE | CONTRADICTED | OUT_OF_SCOPE | UNRESOLVABLE

fun RejectionBasis_value :: "RejectionBasis \<Rightarrow> string" where
  "RejectionBasis_value RejectionBasis.INSUFFICIENT_EVIDENCE = ''insufficient_evidence''"
| "RejectionBasis_value RejectionBasis.CONTRADICTED = ''contradicted''"
| "RejectionBasis_value RejectionBasis.OUT_OF_SCOPE = ''out_of_scope''"
| "RejectionBasis_value RejectionBasis.UNRESOLVABLE = ''unresolvable''"

lemma RejectionBasis_value_inject [enum_value_inject]: "RejectionBasis_value a = RejectionBasis_value b \<longleftrightarrow> a = b"
  by (cases a; cases b) simp_all

datatype FinalClaimStatus = VALID | REVISE_AGAIN | REJECT | UNCLEAR

fun FinalClaimStatus_value :: "FinalClaimStatus \<Rightarrow> string" where
  "FinalClaimStatus_value FinalClaimStatus.VALID = ''VALID''"
| "FinalClaimStatus_value FinalClaimStatus.REVISE_AGAIN = ''REVISE_AGAIN''"
| "FinalClaimStatus_value FinalClaimStatus.REJECT = ''REJECT''"
| "FinalClaimStatus_value FinalClaimStatus.UNCLEAR = ''UNCLEAR''"

lemma FinalClaimStatus_value_inject [enum_value_inject]: "FinalClaimStatus_value a = FinalClaimStatus_value b \<longleftrightarrow> a = b"
  by (cases a; cases b) simp_all

datatype ValidationCheckResult = PASS | FAIL | UNCLEAR | NOT_APPLICABLE

fun ValidationCheckResult_value :: "ValidationCheckResult \<Rightarrow> string" where
  "ValidationCheckResult_value ValidationCheckResult.PASS = ''pass''"
| "ValidationCheckResult_value ValidationCheckResult.FAIL = ''fail''"
| "ValidationCheckResult_value ValidationCheckResult.UNCLEAR = ''unclear''"
| "ValidationCheckResult_value ValidationCheckResult.NOT_APPLICABLE = ''not_applicable''"

lemma ValidationCheckResult_value_inject [enum_value_inject]: "ValidationCheckResult_value a = ValidationCheckResult_value b \<longleftrightarrow> a = b"
  by (cases a; cases b) simp_all

datatype CorpusFactDerivationType = REGISTRY_ARITHMETIC | DETERMINISTIC_METADATA_QUERY | SEMANTIC_CLASSIFICATION

fun CorpusFactDerivationType_value :: "CorpusFactDerivationType \<Rightarrow> string" where
  "CorpusFactDerivationType_value CorpusFactDerivationType.REGISTRY_ARITHMETIC = ''registry_arithmetic''"
| "CorpusFactDerivationType_value CorpusFactDerivationType.DETERMINISTIC_METADATA_QUERY = ''deterministic_metadata_query''"
| "CorpusFactDerivationType_value CorpusFactDerivationType.SEMANTIC_CLASSIFICATION = ''semantic_classification''"

lemma CorpusFactDerivationType_value_inject [enum_value_inject]: "CorpusFactDerivationType_value a = CorpusFactDerivationType_value b \<longleftrightarrow> a = b"
  by (cases a; cases b) simp_all

datatype ReviewProcessSourceType = PROJECT_CONFIG | RUN_MANIFEST | PIPELINE_LOG

fun ReviewProcessSourceType_value :: "ReviewProcessSourceType \<Rightarrow> string" where
  "ReviewProcessSourceType_value ReviewProcessSourceType.PROJECT_CONFIG = ''project_config''"
| "ReviewProcessSourceType_value ReviewProcessSourceType.RUN_MANIFEST = ''run_manifest''"
| "ReviewProcessSourceType_value ReviewProcessSourceType.PIPELINE_LOG = ''pipeline_log''"

lemma ReviewProcessSourceType_value_inject [enum_value_inject]: "ReviewProcessSourceType_value a = ReviewProcessSourceType_value b \<longleftrightarrow> a = b"
  by (cases a; cases b) simp_all

datatype PropositionContentClass = SCIENTIFIC_CLAIM | CORPUS_FACT | REVIEW_PROCESS_STATEMENT | RHETORICAL

fun PropositionContentClass_value :: "PropositionContentClass \<Rightarrow> string" where
  "PropositionContentClass_value PropositionContentClass.SCIENTIFIC_CLAIM = ''ScientificClaim''"
| "PropositionContentClass_value PropositionContentClass.CORPUS_FACT = ''CorpusFact''"
| "PropositionContentClass_value PropositionContentClass.REVIEW_PROCESS_STATEMENT = ''ReviewProcessStatement''"
| "PropositionContentClass_value PropositionContentClass.RHETORICAL = ''Rhetorical''"

lemma PropositionContentClass_value_inject [enum_value_inject]: "PropositionContentClass_value a = PropositionContentClass_value b \<longleftrightarrow> a = b"
  by (cases a; cases b) simp_all

datatype AuditClassVerdict = CORRECT | MISCLASSIFIED | UNCLEAR

fun AuditClassVerdict_value :: "AuditClassVerdict \<Rightarrow> string" where
  "AuditClassVerdict_value AuditClassVerdict.CORRECT = ''CORRECT''"
| "AuditClassVerdict_value AuditClassVerdict.MISCLASSIFIED = ''MISCLASSIFIED''"
| "AuditClassVerdict_value AuditClassVerdict.UNCLEAR = ''UNCLEAR''"

lemma AuditClassVerdict_value_inject [enum_value_inject]: "AuditClassVerdict_value a = AuditClassVerdict_value b \<longleftrightarrow> a = b"
  by (cases a; cases b) simp_all

datatype AuditProvenanceVerdict = ENTAILED | PARTIALLY_SUPPORTED | OVERSTATED | UNSUPPORTED | UNCLEAR

fun AuditProvenanceVerdict_value :: "AuditProvenanceVerdict \<Rightarrow> string" where
  "AuditProvenanceVerdict_value AuditProvenanceVerdict.ENTAILED = ''ENTAILED''"
| "AuditProvenanceVerdict_value AuditProvenanceVerdict.PARTIALLY_SUPPORTED = ''PARTIALLY_SUPPORTED''"
| "AuditProvenanceVerdict_value AuditProvenanceVerdict.OVERSTATED = ''OVERSTATED''"
| "AuditProvenanceVerdict_value AuditProvenanceVerdict.UNSUPPORTED = ''UNSUPPORTED''"
| "AuditProvenanceVerdict_value AuditProvenanceVerdict.UNCLEAR = ''UNCLEAR''"

lemma AuditProvenanceVerdict_value_inject [enum_value_inject]: "AuditProvenanceVerdict_value a = AuditProvenanceVerdict_value b \<longleftrightarrow> a = b"
  by (cases a; cases b) simp_all

datatype AuditDisposition = PASS | REPAIR | REPAIR_BLOCKING | HUMAN_REVIEW

fun AuditDisposition_value :: "AuditDisposition \<Rightarrow> string" where
  "AuditDisposition_value AuditDisposition.PASS = ''PASS''"
| "AuditDisposition_value AuditDisposition.REPAIR = ''REPAIR''"
| "AuditDisposition_value AuditDisposition.REPAIR_BLOCKING = ''REPAIR_BLOCKING''"
| "AuditDisposition_value AuditDisposition.HUMAN_REVIEW = ''HUMAN_REVIEW''"

lemma AuditDisposition_value_inject [enum_value_inject]: "AuditDisposition_value a = AuditDisposition_value b \<longleftrightarrow> a = b"
  by (cases a; cases b) simp_all

end
