(* ===== verification/VR_Ids.thy ===== *)
theory VR_Ids
  imports VR_Hashing VR_Enums
begin

section \<open>Identifiers, DOIs and identity keys (\<open>ids.py\<close>)\<close>

text \<open>
  The identifier patterns are predicates on strings (a pydantic \<open>pattern\<close> anchored at both
  ends accepts the whole string only), \<open>parse_query_id\<close> and the DOI and identity-key
  normalisers are functions into \<open>result\<close>, whose left values are the messages of the
  \<open>ValueError\<close>s. Whitespace and letter case are those of ASCII: what is proved about
  normalisation is about ASCII keys.
\<close>

type_synonym 'a result = "string + 'a"

subsection \<open>Identifier patterns\<close>

definition digits_exactly :: "nat \<Rightarrow> string \<Rightarrow> bool" where
  "digits_exactly n s \<longleftrightarrow> length s = n \<and> list_all is_digit s"

definition digits_at_least :: "nat \<Rightarrow> string \<Rightarrow> bool" where
  "digits_at_least n s \<longleftrightarrow> n \<le> length s \<and> list_all is_digit s"

definition tagged :: "string \<Rightarrow> (string \<Rightarrow> bool) \<Rightarrow> string \<Rightarrow> bool" where
  "tagged p ok s \<longleftrightarrow> starts_with p s \<and> ok (drop (length p) s)"

definition is_ThemeId :: "string \<Rightarrow> bool" where
  "is_ThemeId = tagged ''T'' (digits_exactly 4)"

definition is_PaperId :: "string \<Rightarrow> bool" where
  "is_PaperId = tagged ''P'' (digits_exactly 4)"

definition is_ClaimId :: "string \<Rightarrow> bool" where
  "is_ClaimId = tagged ''C'' (digits_exactly 4)"

definition is_SpanId :: "string \<Rightarrow> bool" where
  "is_SpanId = tagged ''R'' (digits_at_least 4)"

definition is_EvidenceId :: "string \<Rightarrow> bool" where
  "is_EvidenceId = tagged ''E'' (digits_at_least 4)"

definition is_ClaimPaperEvidenceId :: "string \<Rightarrow> bool" where
  "is_ClaimPaperEvidenceId s \<longleftrightarrow>
     length s = 15 \<and> take 4 s = ''CPE-'' \<and> is_ClaimId (take 5 (drop 4 s)) \<and>
     s ! 9 = CHR ''-'' \<and> is_PaperId (drop 10 s)"

definition is_CorpusFactId :: "string \<Rightarrow> bool" where
  "is_CorpusFactId = tagged ''CF'' (digits_at_least 4)"

definition is_ProcessFactId :: "string \<Rightarrow> bool" where
  "is_ProcessFactId = tagged ''PF'' (digits_at_least 4)"

definition is_PropositionId :: "string \<Rightarrow> bool" where
  "is_PropositionId = tagged ''PR'' (digits_at_least 4)"

definition is_SemanticAuditId :: "string \<Rightarrow> bool" where
  "is_SemanticAuditId = tagged ''SA'' (digits_at_least 4)"

definition is_SentenceId :: "string \<Rightarrow> bool" where
  "is_SentenceId = tagged ''RS'' (digits_at_least 4)"

definition is_SentenceAuditId :: "string \<Rightarrow> bool" where
  "is_SentenceAuditId = tagged ''RSA'' (digits_at_least 4)"

definition is_Sha256 :: "string \<Rightarrow> bool" where
  "is_Sha256 s \<longleftrightarrow> starts_with ''sha256:'' s \<and> length s = 71 \<and> list_all is_hex (drop 7 s)"

text \<open>\<open>QUERY_INTENT_CODES\<close> and the groups of \<open>_QUERY_RE\<close>.\<close>

definition QUERY_INTENT_CODES :: "string strdict" where
  "QUERY_INTENT_CODES =
     [(''SUP'', ''support''), (''CON'', ''contradiction''), (''BND'', ''boundary''),
      (''ALT'', ''alternative''), (''MTH'', ''method_challenge''), (''NUL'', ''null_result'')]"

definition query_match :: "string \<Rightarrow> (string \<times> string) option" where
  "query_match s =
     (let code = take 3 (drop 8 s); ordinal = drop 12 s in
      if length s = 14 \<and> take 2 s = ''Q-'' \<and> is_ClaimId (take 5 (drop 2 s)) \<and> s ! 7 = CHR ''-''
         \<and> code \<in> set (map fst QUERY_INTENT_CODES) \<and> s ! 11 = CHR ''-''
         \<and> list_all is_digit ordinal \<and> ordinal \<noteq> ''00''
      then Some (code, ordinal) else None)"

definition is_QueryId :: "string \<Rightarrow> bool" where
  "is_QueryId s \<longleftrightarrow> query_match s \<noteq> None"

subsection \<open>The candidate-claim hash\<close>

definition candidate_claim_hash :: "string \<Rightarrow> string" where
  "candidate_claim_hash candidate_claim =
     ''sha256:'' @ sha256_hexdigest (map of_char candidate_claim)"

lemma candidate_claim_hash_is_Sha256: "is_Sha256 (candidate_claim_hash s)"
  using sha256_hexdigest_shape by (simp add: is_Sha256_def candidate_claim_hash_def starts_with_def)

subsection \<open>\<open>parse_query_id\<close>\<close>

text \<open>\<open>s.split("-", 3)[1]\<close>: the text between the first two dashes.\<close>

definition second_field :: "string \<Rightarrow> string" where
  "second_field s = takeWhile (\<lambda>c. c \<noteq> CHR ''-'') (tl (dropWhile (\<lambda>c. c \<noteq> CHR ''-'') s))"

definition parse_query_id :: "string \<Rightarrow> (string \<times> string \<times> nat) result" where
  "parse_query_id query_id =
     (case query_match query_id of
        None \<Rightarrow> Inl ''invalid retrieval query ID''
      | Some (code, ordinal) \<Rightarrow>
          Inr (second_field query_id, the (map_of QUERY_INTENT_CODES code), str_nat ordinal))"

lemma is_digit_not_dash: "is_digit c \<Longrightarrow> c \<noteq> CHR ''-''"
  by (auto simp: is_digit_def)

lemma is_ClaimId_iff: "is_ClaimId s \<longleftrightarrow> (\<exists>d. s = CHR ''C'' # d \<and> length d = 4 \<and> list_all is_digit d)"
  unfolding is_ClaimId_def tagged_def starts_with_iff digits_exactly_def by auto

lemma is_PaperId_iff: "is_PaperId s \<longleftrightarrow> (\<exists>d. s = CHR ''P'' # d \<and> length d = 4 \<and> list_all is_digit d)"
  unfolding is_PaperId_def tagged_def starts_with_iff digits_exactly_def by auto

text \<open>A query ID is its four fields put together.\<close>

definition query_id_text :: "string \<Rightarrow> string \<Rightarrow> string \<Rightarrow> string" where
  "query_id_text claim code ordinal = ''Q-'' @ claim @ ''-'' @ code @ ''-'' @ ordinal"

lemma second_field_query_id_text:
  assumes "is_ClaimId claim"
  shows "second_field (query_id_text claim code ordinal) = claim"
proof -
  from assms obtain d where d: "claim = CHR ''C'' # d" "list_all is_digit d"
    unfolding is_ClaimId_iff by blast
  then have "\<forall>c \<in> set claim. c \<noteq> CHR ''-''"
    by (auto simp: list_all_iff dest: is_digit_not_dash)
  then have "takeWhile (\<lambda>c. c \<noteq> CHR ''-'') (claim @ CHR ''-'' # r) = claim" for r
    by (simp add: takeWhile_append2 [of claim])
  then show ?thesis by (simp add: second_field_def query_id_text_def)
qed

lemma query_match_text:
  assumes "is_ClaimId claim" "code \<in> fst ` set QUERY_INTENT_CODES"
    "length ordinal = 2" "list_all is_digit ordinal" "ordinal \<noteq> ''00''"
  shows "query_match (query_id_text claim code ordinal) = Some (code, ordinal)"
proof -
  from assms(1) obtain d where d: "claim = CHR ''C'' # d" "length d = 4"
    unfolding is_ClaimId_iff by blast
  then obtain d1 d2 d3 d4 where ds: "d = [d1, d2, d3, d4]"
    by (auto simp: numeral_eq_Suc length_Suc_conv)
  from assms(2) obtain c1 c2 c3 where cs: "code = [c1, c2, c3]"
    by (auto simp: QUERY_INTENT_CODES_def)
  from assms(3) obtain o1 o2 where os: "ordinal = [o1, o2]"
    by (auto simp: numeral_eq_Suc length_Suc_conv)
  show ?thesis
    using assms by (simp add: query_match_def query_id_text_def d ds cs os)
qed

lemma parse_query_id_text:
  assumes "is_ClaimId claim" "map_of QUERY_INTENT_CODES code = Some intent"
    "length ordinal = 2" "list_all is_digit ordinal" "ordinal \<noteq> ''00''"
  shows "parse_query_id (query_id_text claim code ordinal) = Inr (claim, intent, str_nat ordinal)"
proof -
  have "code \<in> fst ` set QUERY_INTENT_CODES" using assms(2) by (force dest: map_of_SomeD)
  with assms show ?thesis
    by (simp add: parse_query_id_def query_match_text second_field_query_id_text)
qed

text \<open>Every ID the pattern accepts comes from its fields.\<close>

lemma query_match_inverse:
  assumes "query_match s = Some (code, ordinal)"
  shows "\<exists>claim. is_ClaimId claim \<and> s = query_id_text claim code ordinal \<and> length ordinal = 2
    \<and> list_all is_digit ordinal \<and> ordinal \<noteq> ''00'' \<and> code \<in> fst ` set QUERY_INTENT_CODES"
proof -
  from assms have len: "length s = 14" and tk: "take 2 s = ''Q-''" and cl: "is_ClaimId (take 5 (drop 2 s))"
    and d7: "s ! 7 = CHR ''-''" and cd: "code = take 3 (drop 8 s)"
    and cin: "code \<in> fst ` set QUERY_INTENT_CODES" and d11: "s ! 11 = CHR ''-''"
    and od: "ordinal = drop 12 s" and dg: "list_all is_digit ordinal" and nz: "ordinal \<noteq> ''00''"
    by (auto simp: query_match_def Let_def split: if_splits)
  have "s = take 2 s @ take 5 (drop 2 s) @ [s ! 7] @ take 3 (drop 8 s) @ [s ! 11] @ drop 12 s"
    using len by (simp add: numeral_eq_Suc length_Suc_conv) (elim exE conjE, simp)
  then have "s = query_id_text (take 5 (drop 2 s)) code ordinal"
    using tk d7 d11 cd od by (simp add: query_id_text_def)
  then show ?thesis using cl len od dg nz cin by auto
qed

subsection \<open>Whitespace, case and DOI prefixes\<close>

definition is_space :: "char \<Rightarrow> bool" where
  "is_space c \<longleftrightarrow> (9 \<le> (of_char c :: nat) \<and> (of_char c :: nat) \<le> 13) \<or>
                 (28 \<le> (of_char c :: nat) \<and> (of_char c :: nat) \<le> 32)"

definition py_strip :: "string \<Rightarrow> string" where
  "py_strip s = rev (dropWhile is_space (rev (dropWhile is_space s)))"

definition lower_char :: "char \<Rightarrow> char" where
  "lower_char c = (if 65 \<le> (of_char c :: nat) \<and> (of_char c :: nat) \<le> 90 then char_of ((of_char c :: nat) + 32) else c)"

definition py_lower :: "string \<Rightarrow> string" where
  "py_lower s = map lower_char s"

function py_split :: "string \<Rightarrow> string list" where
  "py_split s =
     (let t = dropWhile is_space s in
      if t = [] then []
      else takeWhile (\<lambda>c. \<not> is_space c) t # py_split (dropWhile (\<lambda>c. \<not> is_space c) t))"
  by pat_completeness auto
termination
proof (relation "measure length", goal_cases)
  case (2 s t)
  then obtain x xs where t: "t = x # xs" and "\<not> is_space x"
    by (metis hd_dropWhile list.exhaust_sel)
  then have "length (dropWhile (\<lambda>c. \<not> is_space c) t) < length t"
    by (simp add: length_dropWhile_le less_Suc_eq_le)
  also have "\<dots> \<le> length s" using 2(1) by (simp add: length_dropWhile_le)
  finally show ?case by simp
qed simp

declare py_split.simps [simp del]

definition starts_with_ci :: "string \<Rightarrow> string \<Rightarrow> bool" where
  "starts_with_ci p s \<longleftrightarrow> starts_with p (py_lower s)"

text \<open>\<open>_DOI_URL_RE.sub("", s)\<close>, with \<open>_DOI_URL_RE = ^https?://(?:dx\.)?doi\.org/\<close> ignoring case.\<close>

definition strip_ci :: "string \<Rightarrow> string \<Rightarrow> string option" where
  "strip_ci p s = (if starts_with_ci p s then Some (drop (length p) s) else None)"

definition optional_ci :: "string \<Rightarrow> string \<Rightarrow> string" where
  "optional_ci p s = (case strip_ci p s of Some r \<Rightarrow> r | None \<Rightarrow> s)"

definition sub_doi_url :: "string \<Rightarrow> string" where
  "sub_doi_url s =
     (case strip_ci ''http'' s of
        None \<Rightarrow> s
      | Some r1 \<Rightarrow>
          (case strip_ci ''://'' (optional_ci ''s'' r1) of
             None \<Rightarrow> s
           | Some r2 \<Rightarrow>
               (case strip_ci ''doi.org/'' (optional_ci ''dx.'' r2) of
                  None \<Rightarrow> s
                | Some r3 \<Rightarrow> r3)))"

text \<open>\<open>_DOI_PREFIX_RE.sub("", s)\<close>, with \<open>_DOI_PREFIX_RE = ^doi:\s*\<close> ignoring case.\<close>

definition sub_doi_prefix :: "string \<Rightarrow> string" where
  "sub_doi_prefix s =
     (case strip_ci ''doi:'' s of None \<Rightarrow> s | Some r \<Rightarrow> dropWhile is_space r)"

text \<open>\<open>_RAW_DOI_RE.fullmatch(s)\<close>, with \<open>_RAW_DOI_RE = ^10\.\d{4,9}/\S+$\<close>.\<close>

definition raw_doi :: "string \<Rightarrow> bool" where
  "raw_doi s =
     (let r = drop 3 s; ds = takeWhile is_digit r; rest = drop (length ds) r in
      starts_with ''10.'' s \<and> 4 \<le> length ds \<and> length ds \<le> 9 \<and>
      starts_with ''/'' rest \<and> tl rest \<noteq> [] \<and> list_all (\<lambda>c. \<not> is_space c) (tl rest))"

definition normalize_doi :: "string \<Rightarrow> string result" where
  "normalize_doi value =
     (let normalized = py_lower (py_strip (sub_doi_prefix (sub_doi_url (py_strip value)))) in
      if normalized = '''' then Inl ''DOI must not be empty''
      else Inr (''doi:'' @ normalized))"

definition normalize_identity_key :: "string \<Rightarrow> string result" where
  "normalize_identity_key value =
     (let key = py_strip value in
      if key = '''' then Inl ''identity key must not be empty''
      else if sub_doi_url key \<noteq> key \<or> sub_doi_prefix key \<noteq> key \<or> raw_doi key
      then normalize_doi key
      else if starts_with_ci ''sha256:'' key
      then (if is_Sha256 key then Inr key
            else Inl ''SHA-256 identity key must use canonical lowercase form'')
      else if starts_with_ci ''bib:'' key
      then (let payload = py_lower (join_with '' '' (py_split (py_strip (drop 4 key)))) in
            if payload = '''' then Inl ''bibliographic identity key must not be empty''
            else Inr (''bib:'' @ payload))
      else Inr key)"

subsection \<open>Normalisation is idempotent\<close>

definition stripped :: "string \<Rightarrow> bool" where
  "stripped s \<longleftrightarrow> s = [] \<or> (\<not> is_space (hd s) \<and> \<not> is_space (last s))"

lemma last_dropWhile_ne: "dropWhile P xs \<noteq> [] \<Longrightarrow> last (dropWhile P xs) = last xs"
  by (induction xs) auto

lemma hd_dropWhile_ne: "dropWhile P xs \<noteq> [] \<Longrightarrow> \<not> P (hd (dropWhile P xs))"
  by (induction xs) auto

lemma stripped_py_strip: "stripped (py_strip s)"
proof -
  let ?t = "dropWhile is_space s"
  let ?u = "dropWhile is_space (rev ?t)"
  show ?thesis
  proof (cases "?u = []")
    case True
    then show ?thesis by (simp add: stripped_def py_strip_def)
  next
    case False
    have t: "?t \<noteq> []"
    proof
      assume "?t = []"
      then have "?u = []" by (simp only: rev.simps dropWhile.simps)
      with False show False by contradiction
    qed
    have "\<not> is_space (hd ?u)" using False by (rule hd_dropWhile_ne)
    moreover have "last ?u = hd ?t" using last_dropWhile_ne [OF False] t by (simp add: last_rev)
    moreover have "\<not> is_space (hd ?t)" using t by (rule hd_dropWhile_ne)
    ultimately show ?thesis using False by (simp add: stripped_def py_strip_def hd_rev last_rev)
  qed
qed

lemma py_strip_id: "stripped s \<Longrightarrow> py_strip s = s"
proof (cases "s = []")
  case False
  assume "stripped s"
  with False have "\<not> is_space (hd s)" "\<not> is_space (last s)" by (auto simp: stripped_def)
  then have "dropWhile is_space s = s" "dropWhile is_space (rev s) = rev s"
    using False by (auto simp: hd_rev dropWhile_eq_self_iff)
  then show ?thesis by (simp add: py_strip_def)
qed (simp add: py_strip_def)

lemma py_strip_idem [simp]: "py_strip (py_strip s) = py_strip s"
  by (rule py_strip_id) (rule stripped_py_strip)

lemma lower_char_idem [simp]: "lower_char (lower_char c) = lower_char c"
  by (simp add: lower_char_def)

lemma is_space_lower [simp]: "is_space (lower_char c) = is_space c"
  by (auto simp: lower_char_def is_space_def)

lemma py_lower_idem [simp]: "py_lower (py_lower s) = py_lower s"
  by (simp add: py_lower_def)

lemma py_lower_Nil_iff [simp]: "py_lower s = [] \<longleftrightarrow> s = []"
  by (simp add: py_lower_def)

lemma stripped_py_lower: "stripped s \<Longrightarrow> stripped (py_lower s)"
  by (auto simp: stripped_def py_lower_def hd_map last_map)

lemma stripped_append: "s \<noteq> [] \<Longrightarrow> t \<noteq> [] \<Longrightarrow> \<not> is_space (hd s) \<Longrightarrow> stripped t \<Longrightarrow> stripped (s @ t)"
  by (simp add: stripped_def)

lemma not_space_doi [simp]: "\<not> is_space (CHR ''d'')" "\<not> is_space (CHR ''b'')" "is_space (CHR '' '')"
  by (simp_all add: is_space_def)

lemma sub_doi_url_doi [simp]: "sub_doi_url (CHR ''d'' # s) = CHR ''d'' # s"
  by (simp add: sub_doi_url_def strip_ci_def starts_with_ci_def starts_with_def py_lower_def lower_char_def)

lemma sub_doi_prefix_doi: "stripped n \<Longrightarrow> sub_doi_prefix (''doi:'' @ n) = n"
  by (cases n) (auto simp: sub_doi_prefix_def strip_ci_def starts_with_ci_def starts_with_def
      py_lower_def lower_char_def stripped_def)

lemma normalize_doi_canonical:
  assumes "stripped n" "py_lower n = n" "n \<noteq> []"
  shows "normalize_doi (''doi:'' @ n) = Inr (''doi:'' @ n)"
proof -
  have "stripped (''doi:'' @ n)" using assms by (intro stripped_append) simp_all
  then have "py_strip (''doi:'' @ n) = ''doi:'' @ n" by (rule py_strip_id)
  moreover have "sub_doi_prefix (''doi:'' @ n) = n" using assms(1) by (rule sub_doi_prefix_doi)
  ultimately show ?thesis
    using assms by (simp add: normalize_doi_def py_strip_id)
qed

lemma normalize_doi_result:
  assumes "normalize_doi v = Inr r"
  obtains n where "r = ''doi:'' @ n" "stripped n" "py_lower n = n" "n \<noteq> []"
  using assms
  by (auto simp: normalize_doi_def Let_def stripped_py_lower stripped_py_strip split: if_splits)

lemma normalize_doi_idem: "normalize_doi v = Inr r \<Longrightarrow> normalize_doi r = Inr r"
  by (elim normalize_doi_result) (simp only: normalize_doi_canonical simp_thms)

text \<open>Joining words by one blank and splitting again gives the words back.\<close>

definition is_word :: "string \<Rightarrow> bool" where
  "is_word w \<longleftrightarrow> w \<noteq> [] \<and> (\<forall>c \<in> set w. \<not> is_space c)"

lemma py_split_words: "\<forall>w \<in> set (py_split s). is_word w"
proof (induction s rule: py_split.induct)
  case (1 s)
  show ?case
  proof (cases "dropWhile is_space s = []")
    case True
    then show ?thesis by (subst py_split.simps) simp
  next
    case False
    let ?t = "dropWhile is_space s"
    have "is_word (takeWhile (\<lambda>c. \<not> is_space c) ?t)"
      using hd_dropWhile_ne [OF False] False
      by (auto simp: is_word_def takeWhile_eq_Nil_iff dest: set_takeWhileD)
    with "1.IH" [OF refl False] False show ?thesis by (subst py_split.simps) (simp add: Let_def)
  qed
qed

lemma takeWhile_word: "is_word w \<Longrightarrow> takeWhile (\<lambda>c. \<not> is_space c) (w @ CHR '' '' # r) = w"
  by (induction w) (auto simp: is_word_def takeWhile_append2)

lemma py_split_join: "\<forall>w \<in> set ws. is_word w \<Longrightarrow> py_split (join_with '' '' ws) = ws"
proof (induction "'' ''" ws rule: join_with.induct)
  case 1
  then show ?case by (subst py_split.simps) simp
next
  case (2 x)
  then have x: "x \<noteq> []" "\<forall>c \<in> set x. \<not> is_space c" by (auto simp: is_word_def)
  then have "dropWhile is_space x = x" by (cases x) auto
  moreover have "takeWhile (\<lambda>c. \<not> is_space c) x = x" "dropWhile (\<lambda>c. \<not> is_space c) x = []"
    using x by auto
  moreover have "py_split [] = []" by (subst py_split.simps) simp
  ultimately show ?case using x by (subst py_split.simps) (simp only: Let_def join_with.simps, simp)
next
  case (3 x y ys)
  let ?r = "join_with '' '' (y # ys)"
  from 3(2) have x: "x \<noteq> []" "\<forall>c \<in> set x. \<not> is_space c" by (auto simp: is_word_def)
  have "dropWhile is_space (x @ '' '' @ ?r) = x @ '' '' @ ?r" using x by (cases x) auto
  moreover have "takeWhile (\<lambda>c. \<not> is_space c) (x @ '' '' @ ?r) = x"
    using 3(2) takeWhile_word [of x ?r] by simp
  moreover have "dropWhile (\<lambda>c. \<not> is_space c) (x @ '' '' @ ?r) = '' '' @ ?r"
    using x by (simp add: dropWhile_append2)
  moreover have "py_split ('' '' @ ?r) = py_split ?r"
    by (subst (1 2) py_split.simps) simp
  moreover have "py_split ?r = y # ys" using 3 by simp
  ultimately show ?case using x by (subst py_split.simps) (simp add: Let_def)
qed

lemma is_word_lower: "is_word w \<Longrightarrow> is_word (py_lower w)"
  by (auto simp: is_word_def py_lower_def)

lemma lower_char_blank [simp]: "lower_char (CHR '' '') = CHR '' ''"
  by (simp add: lower_char_def)

lemma py_lower_join: "py_lower (join_with '' '' ws) = join_with '' '' (map py_lower ws)"
  by (induction "'' ''" ws rule: join_with.induct) (simp_all add: py_lower_def)

lemma join_words_stripped: "\<forall>w \<in> set ws. is_word w \<Longrightarrow> stripped (join_with '' '' ws)"
proof (induction "'' ''" ws rule: join_with.induct)
  case (2 x)
  then show ?case by (auto simp: is_word_def stripped_def)
next
  case (3 x y ys)
  from 3(2) have "x \<noteq> []" "\<not> is_space (hd x)" by (auto simp: is_word_def)
  moreover from 3 have "stripped (join_with '' '' (y # ys))" by simp
  moreover from 3(2) have "join_with '' '' (y # ys) \<noteq> []" by (cases ys) (auto simp: is_word_def)
  ultimately show ?case by (simp add: stripped_def)
qed (simp add: stripped_def)

definition bib_payload :: "string \<Rightarrow> string" where
  "bib_payload s = py_lower (join_with '' '' (py_split (py_strip s)))"

lemma bib_payload_idem: "bib_payload (bib_payload s) = bib_payload s"
proof -
  let ?ws = "map py_lower (py_split (py_strip s))"
  have ws: "\<forall>w \<in> set ?ws. is_word w" using py_split_words by (auto intro: is_word_lower)
  have p: "bib_payload s = join_with '' '' ?ws" by (simp add: bib_payload_def py_lower_join)
  then have "py_strip (bib_payload s) = bib_payload s"
    using join_words_stripped [OF ws] by (simp add: py_strip_id)
  then have "bib_payload (bib_payload s) = py_lower (join_with '' '' (py_split (bib_payload s)))"
    by (simp add: bib_payload_def)
  also have "py_split (bib_payload s) = ?ws" unfolding p by (rule py_split_join [OF ws])
  finally show ?thesis unfolding p by (simp add: py_lower_join comp_def)
qed

lemma bib_payload_stripped: "stripped (bib_payload s)"
proof -
  have "\<forall>w \<in> set (map py_lower (py_split (py_strip s))). is_word w"
    using py_split_words by (auto intro: is_word_lower)
  from join_words_stripped [OF this] show ?thesis by (simp add: bib_payload_def py_lower_join)
qed
lemma sub_doi_url_bib [simp]: "sub_doi_url (CHR ''b'' # s) = CHR ''b'' # s"
  by (simp add: sub_doi_url_def strip_ci_def starts_with_ci_def starts_with_def py_lower_def lower_char_def)

lemma sub_doi_prefix_bib [simp]: "sub_doi_prefix (CHR ''b'' # s) = CHR ''b'' # s"
  by (simp add: sub_doi_prefix_def strip_ci_def starts_with_ci_def starts_with_def py_lower_def lower_char_def)

lemma normalize_bib_key:
  assumes "bib_payload p = p" "stripped p" "p \<noteq> []"
  shows "normalize_identity_key (''bib:'' @ p) = Inr (''bib:'' @ p)"
proof -
  have "stripped (''bib:'' @ p)" using assms by (intro stripped_append) simp_all
  then have st: "py_strip (''bib:'' @ p) = ''bib:'' @ p" by (rule py_strip_id)
  have "\<not> raw_doi (''bib:'' @ p)" "\<not> starts_with_ci ''sha256:'' (''bib:'' @ p)"
    "starts_with_ci ''bib:'' (''bib:'' @ p)"
    by (simp_all add: raw_doi_def starts_with_def starts_with_ci_def py_lower_def lower_char_def)
  then show ?thesis using st assms
    by (simp add: normalize_identity_key_def bib_payload_def Let_def)
qed

lemma normalize_doi_key:
  assumes "normalize_doi v = Inr r"
  shows "normalize_identity_key r = Inr r"
proof -
  obtain n where n: "r = ''doi:'' @ n" "stripped n" "py_lower n = n" "n \<noteq> []"
    using assms by (rule normalize_doi_result)
  have "stripped r" unfolding n(1) using n(2,4) by (intro stripped_append) simp_all
  then have st: "py_strip r = r" by (rule py_strip_id)
  have "sub_doi_prefix r = n" using n sub_doi_prefix_doi by simp
  then have ne: "sub_doi_prefix r \<noteq> r" using n by (simp add: n(1))
  have "normalize_doi r = Inr r" using assms by (rule normalize_doi_idem)
  then show ?thesis using st ne n by (simp add: normalize_identity_key_def)
qed

lemma normalize_identity_key_cases:
  assumes "normalize_identity_key value = Inr key"
  shows "normalize_doi (py_strip value) = Inr key \<or>
    (key = ''bib:'' @ bib_payload (drop 4 (py_strip value)) \<and> bib_payload (drop 4 (py_strip value)) \<noteq> []) \<or>
    key = py_strip value"
  using assms unfolding normalize_identity_key_def Let_def bib_payload_def [symmetric]
  by (metis Inl_Inr_False Inr_inject)

text \<open>
  Normalising an identity key twice is normalising it once, whatever family the key belongs to
  (a DOI in any of its written forms, a SHA-256 key, a bibliographic key, an unknown alias).
\<close>

lemma normalize_identity_key_stable:
  assumes "normalize_identity_key value = Inr key"
  shows "normalize_identity_key key = Inr key"
proof -
  let ?k = "py_strip value"
  consider (doi) "normalize_doi ?k = Inr key"
    | (bib) "key = ''bib:'' @ bib_payload (drop 4 ?k)" "bib_payload (drop 4 ?k) \<noteq> []"
    | (same) "key = ?k"
    using normalize_identity_key_cases [OF assms] by blast
  then show ?thesis
  proof cases
    case doi
    then show ?thesis by (rule normalize_doi_key)
  next
    case bib
    then show ?thesis
      using normalize_bib_key [OF bib_payload_idem bib_payload_stripped] by simp
  next
    case same
    then have "py_strip key = ?k" by simp
    with assms show ?thesis unfolding normalize_identity_key_def by (simp only: same py_strip_idem)
  qed
qed

text \<open>Two query IDs with the same parse are the same ID.\<close>

lemma map_of_QUERY_INTENT_CODES_inj:
  "map_of QUERY_INTENT_CODES c = Some v \<Longrightarrow> map_of QUERY_INTENT_CODES d = Some v \<Longrightarrow> c = d"
  by (auto simp: QUERY_INTENT_CODES_def split: if_splits)

lemma parse_query_id_InrD:
  assumes "parse_query_id s = Inr (claim, intent, n)"
  shows "\<exists>code ordinal. s = query_id_text claim code ordinal \<and> is_ClaimId claim \<and>
    map_of QUERY_INTENT_CODES code = Some intent \<and> length ordinal = 2 \<and>
    list_all is_digit ordinal \<and> str_nat ordinal = n \<and> ordinal \<noteq> ''00''"
proof -
  from assms obtain code ordinal where m: "query_match s = Some (code, ordinal)"
    and r: "second_field s = claim" "the (map_of QUERY_INTENT_CODES code) = intent" "str_nat ordinal = n"
    by (auto simp: parse_query_id_def split: option.splits)
  from query_match_inverse [OF m] obtain cl where
    cl: "is_ClaimId cl" "s = query_id_text cl code ordinal" and
    o: "length ordinal = 2" "list_all is_digit ordinal" "ordinal \<noteq> ''00''" and
    c: "code \<in> fst ` set QUERY_INTENT_CODES" by blast
  from cl r(1) have "cl = claim" by (simp add: second_field_query_id_text)
  moreover from c obtain v where "map_of QUERY_INTENT_CODES code = Some v"
    by (metis map_of_eq_None_iff option.exhaust)
  ultimately show ?thesis using cl o r by auto
qed

lemma is_digit_val: "is_digit c \<Longrightarrow> (of_char c :: nat) = 48 + digit_val c \<and> digit_val c < 10"
  by (auto simp: is_digit_def digit_val_def)

lemma two_digits_eq:
  fixes x y u v :: nat
  assumes "10 * x + y = 10 * u + v" "y < 10" "v < 10"
  shows "x = u \<and> y = v"
proof -
  have "(10 * x + y) div 10 = x" "(10 * u + v) div 10 = u" using assms(2,3) by simp_all
  with assms(1) show ?thesis by simp
qed

lemma two_digits_inj:
  assumes "length a = 2" "length b = 2" "list_all is_digit a" "list_all is_digit b" "str_nat a = str_nat b"
  shows "a = b"
proof -
  from assms(1) obtain a1 a2 where a: "a = [a1, a2]" by (auto simp: numeral_eq_Suc length_Suc_conv)
  from assms(2) obtain b1 b2 where b: "b = [b1, b2]" by (auto simp: numeral_eq_Suc length_Suc_conv)
  have "10 * digit_val a1 + digit_val a2 = 10 * digit_val b1 + digit_val b2"
    using assms(5) by (simp add: a b str_nat_def)
  moreover have d: "is_digit a1" "is_digit a2" "is_digit b1" "is_digit b2"
    using assms(3,4) by (simp_all add: a b)
  moreover have "digit_val a2 < 10" "digit_val b2 < 10" using d is_digit_val by simp_all
  ultimately have "digit_val a1 = digit_val b1" "digit_val a2 = digit_val b2"
    using two_digits_eq by blast+
  with d have "a1 = b1" "a2 = b2" by (metis is_digit_val of_char_eq_iff)+
  then show ?thesis by (simp add: a b)
qed

lemma parse_query_id_inj:
  assumes "parse_query_id s = Inr x" "parse_query_id t = Inr x"
  shows "s = t"
proof -
  obtain claim intent n where x: "x = (claim, intent, n)" by (cases x)
  obtain c o1 where s: "s = query_id_text claim c o1" "map_of QUERY_INTENT_CODES c = Some intent"
    "length o1 = 2" "list_all is_digit o1" "str_nat o1 = n"
    using parse_query_id_InrD assms(1) unfolding x by blast
  obtain d o2 where t: "t = query_id_text claim d o2" "map_of QUERY_INTENT_CODES d = Some intent"
    "length o2 = 2" "list_all is_digit o2" "str_nat o2 = n"
    using parse_query_id_InrD assms(2) unfolding x by blast
  have "o1 = o2" using two_digits_inj s t by metis
  moreover have "c = d" using map_of_QUERY_INTENT_CODES_inj s(2) t(2) by blast
  ultimately show ?thesis using s t by simp
qed

end
