(* ===== verification/VR_Issues.thy ===== *)
theory VR_Issues
  imports VR_Prelude
begin

section \<open>Validation findings and the collector (\<open>errors.py\<close>, head of \<open>validators.py\<close>)\<close>

text \<open>
  A \<open>_Collector\<close> is the list of issues it has been given. A function of the source that is
  passed a collector is modelled by the list of the issues it appends, in order; calling two
  of them one after the other is appending the lists. \<open>finish\<close> builds the report and either
  returns it or raises \<open>RepositoryValidationError\<close> with it (the left value).
  The simp rules collected in \<open>no_errors\<close> read off from the list which conditions hold when
  nothing of severity \<open>ERROR\<close> was appended.
\<close>

named_theorems no_errors \<open>when a list of appended issues holds no error\<close>

datatype IssueSeverity = ERROR | WARNING

record ValidationIssue =
  severity :: IssueSeverity
  code :: string
  path :: string
  message :: string

record ValidationReport =
  issues :: "ValidationIssue list"

definition report_errors :: "ValidationReport \<Rightarrow> ValidationIssue list" where
  "report_errors r = filter (\<lambda>i. severity i = IssueSeverity.ERROR) (issues r)"

definition report_warnings :: "ValidationReport \<Rightarrow> ValidationIssue list" where
  "report_warnings r = filter (\<lambda>i. severity i = IssueSeverity.WARNING) (issues r)"

definition report_ok :: "ValidationReport \<Rightarrow> bool" where
  "report_ok r \<longleftrightarrow> report_errors r = []"

definition report_codes :: "ValidationReport \<Rightarrow> string set" where
  "report_codes r = code ` set (issues r)"

text \<open>\<open>_Collector.error\<close>, \<open>warning\<close>, \<open>report\<close> and \<open>finish\<close>.\<close>

definition collector_error :: "string \<Rightarrow> string \<Rightarrow> string \<Rightarrow> ValidationIssue list" where
  "collector_error c p m = [\<lparr>severity = IssueSeverity.ERROR, code = c, path = p, message = m\<rparr>]"

definition collector_warning :: "string \<Rightarrow> string \<Rightarrow> string \<Rightarrow> ValidationIssue list" where
  "collector_warning c p m = [\<lparr>severity = IssueSeverity.WARNING, code = c, path = p, message = m\<rparr>]"

definition collector_report :: "ValidationIssue list \<Rightarrow> ValidationReport" where
  "collector_report is = \<lparr>issues = fromkeys is\<rparr>"

definition finish :: "ValidationIssue list \<Rightarrow> ValidationReport + ValidationReport" where
  "finish is =
     (let report = collector_report is in if \<not> report_ok report then Inl report else Inr report)"

text \<open>\<open>if b: collector.error(c, p, m)\<close>.\<close>

definition error_if :: "bool \<Rightarrow> string \<Rightarrow> string \<Rightarrow> string \<Rightarrow> ValidationIssue list" where
  "error_if b c p m = (if b then collector_error c p m else [])"

text \<open>\<open>for position, x in enumerate(xs): body\<close>.\<close>

definition for_each :: "'a list \<Rightarrow> (nat \<Rightarrow> 'a \<Rightarrow> ValidationIssue list) \<Rightarrow> ValidationIssue list" where
  "for_each xs body = concat (map (\<lambda>(i, x). body i x) (enumerate 0 xs))"

text \<open>f-string pieces: \<open>label[position]\<close> and \<open>label[key]\<close>.\<close>

definition at_pos :: "string \<Rightarrow> nat \<Rightarrow> string" where
  "at_pos label n = label @ ''['' @ nat_str n @ '']''"

definition at_key :: "string \<Rightarrow> string \<Rightarrow> string" where
  "at_key label k = label @ ''['' @ k @ '']''"

subsection \<open>Lists without errors\<close>

definition clean :: "ValidationIssue list \<Rightarrow> bool" where
  "clean is \<longleftrightarrow> (\<forall>i \<in> set is. severity i \<noteq> IssueSeverity.ERROR)"

lemma clean_Nil [simp, no_errors]: "clean []"
  by (simp add: clean_def)

lemma clean_append [simp, no_errors]: "clean (xs @ ys) \<longleftrightarrow> clean xs \<and> clean ys"
  by (auto simp: clean_def)

lemma clean_error [simp, no_errors]: "\<not> clean (collector_error c p m)"
  by (simp add: clean_def collector_error_def)

lemma clean_warning [simp, no_errors]: "clean (collector_warning c p m)"
  by (simp add: clean_def collector_warning_def)

lemma clean_error_if [simp, no_errors]: "clean (error_if b c p m) \<longleftrightarrow> \<not> b"
  by (simp add: error_if_def)

lemma clean_if [no_errors]: "clean (if b then xs else ys) \<longleftrightarrow> (if b then clean xs else clean ys)"
  by simp

lemma clean_concat_map [simp, no_errors]: "clean (concat (map f xs)) \<longleftrightarrow> (\<forall>x \<in> set xs. clean (f x))"
  by (auto simp: clean_def)

lemma clean_for_each:
  assumes "\<And>i x. clean (body i x) \<longleftrightarrow> P x"
  shows "clean (for_each xs body) \<longleftrightarrow> (\<forall>x \<in> set xs. P x)"
proof -
  have "clean (for_each xs body) \<longleftrightarrow> (\<forall>(i, x) \<in> set (enumerate 0 xs). P x)"
    by (auto simp: for_each_def assms)
  then show ?thesis by (simp only: ball_enumerate)
qed

lemma clean_for_each_mem:
  assumes "\<And>i x. x \<in> set xs \<Longrightarrow> clean (body i x) \<longleftrightarrow> P x"
  shows "clean (for_each xs body) \<longleftrightarrow> (\<forall>x \<in> set xs. P x)"
proof -
  have "x \<in> set xs" if "(i, x) \<in> set (enumerate 0 xs)" for i x
    using that by (auto simp: in_set_enumerate_eq)
  then have "clean (for_each xs body) \<longleftrightarrow> (\<forall>(i, x) \<in> set (enumerate 0 xs). P x)"
    unfolding for_each_def clean_concat_map using assms by (intro ball_cong refl) (auto split: prod.splits)
  then show ?thesis by (simp only: ball_enumerate)
qed

lemma clean_for_eachD: "clean (for_each xs body) \<Longrightarrow> x \<in> set xs \<Longrightarrow> \<exists>i. clean (body i x)"
proof -
  assume c: "clean (for_each xs body)" and "x \<in> set xs"
  then obtain i where "i < length xs" "xs ! i = x" by (auto simp: in_set_conv_nth)
  then have "(i, x) \<in> set (enumerate 0 xs)" by (force simp: in_set_enumerate_eq)
  with c show ?thesis by (auto simp: for_each_def)
qed

lemma finish_Inr_iff: "finish is = Inr r \<longleftrightarrow> clean is \<and> r = \<lparr>issues = fromkeys is\<rparr>"
  by (auto simp: finish_def collector_report_def report_ok_def report_errors_def clean_def filter_empty_conv Let_def)

lemma finish_ok_iff: "(\<exists>r. finish is = Inr r) \<longleftrightarrow> clean is"
  by (simp add: finish_Inr_iff)

lemma finish_Inl_iff: "finish is = Inl r \<longleftrightarrow> \<not> clean is \<and> r = \<lparr>issues = fromkeys is\<rparr>"
  by (auto simp: finish_def collector_report_def report_ok_def report_errors_def clean_def filter_empty_conv Let_def)

subsection \<open>\<open>_index\<close>\<close>

text \<open>
  \<open>_index(objects, attribute, label, collector)\<close>: the dict from the attribute to the first
  object with that value, and an error for every later object with the same value.
\<close>

fun index_loop :: "('a \<Rightarrow> string) \<Rightarrow> string \<Rightarrow> string \<Rightarrow> nat \<Rightarrow> 'a list \<Rightarrow> 'a strdict
    \<Rightarrow> 'a strdict \<times> ValidationIssue list" where
  "index_loop key attribute label position [] result = (result, [])"
| "index_loop key attribute label position (obj # objs) result =
     (if map_of result (key obj) \<noteq> None
      then (let (d, is) = index_loop key attribute label (Suc position) objs result
            in (d, collector_error ''DUPLICATE_OBJECT_ID''
                     (at_pos label position @ ''.'' @ attribute)
                     (''duplicate '' @ label @ '' identifier '' @ key obj) @ is))
      else index_loop key attribute label (Suc position) objs (result @ [(key obj, obj)]))"

definition index :: "('a \<Rightarrow> string) \<Rightarrow> string \<Rightarrow> string \<Rightarrow> 'a list \<Rightarrow> 'a strdict \<times> ValidationIssue list" where
  "index key attribute label objects = index_loop key attribute label 0 objects []"

lemma index_loop_map_of:
  "map_of (fst (index_loop key a l n xs d)) k =
     (case map_of d k of Some v \<Rightarrow> Some v | None \<Rightarrow> first_by key xs k)"
  by (induction key a l n xs d rule: index_loop.induct)
     (auto simp: map_add_def split: option.splits prod.splits)

lemma index_loop_clean:
  "clean (snd (index_loop key a l n xs d)) \<longleftrightarrow>
     distinct (map key xs) \<and> (\<forall>x \<in> set xs. map_of d (key x) = None)"
proof (induction key a l n xs d rule: index_loop.induct)
  case (2 key a l n x xs d)
  show ?case
  proof (cases "map_of d (key x)")
    case None
    let ?d = "d @ [(key x, x)]"
    have eq: "map_of ?d (key y) = None \<longleftrightarrow> key y \<noteq> key x \<and> map_of d (key y) = None" for y
      by (simp add: map_add_def split: option.splits)
    have "clean (snd (index_loop key a l n (x # xs) d)) \<longleftrightarrow> clean (snd (index_loop key a l (Suc n) xs ?d))"
      using None by simp
    also have "\<dots> \<longleftrightarrow> distinct (map key xs) \<and> (\<forall>y \<in> set xs. map_of ?d (key y) = None)"
      using "2.IH"(2) None by blast
    also have "\<dots> \<longleftrightarrow> distinct (map key (x # xs)) \<and> (\<forall>y \<in> set (x # xs). map_of d (key y) = None)"
      unfolding eq using None by (simp del: map_of_append) (metis (no_types, lifting) imageE image_eqI)
    finally show ?thesis .
  next
    case (Some v)
    then show ?thesis by (simp split: prod.splits)
  qed
qed simp

lemma index_loop_keys:
  "map fst (fst (index_loop key a l n xs d)) =
     map fst d @ filter (\<lambda>k. k \<notin> fst ` set d) (fromkeys (map key xs))"
proof (induction key a l n xs d rule: index_loop.induct)
  case (2 key a l n x xs d)
  let ?F = "fst ` set d"
  show ?case
  proof (cases "map_of d (key x)")
    case None
    then have "key x \<notin> ?F" by (simp add: map_of_eq_None_iff)
    moreover have "map fst (fst (index_loop key a l n (x # xs) d)) =
        map fst (d @ [(key x, x)]) @ filter (\<lambda>k. k \<notin> fst ` set (d @ [(key x, x)])) (fromkeys (map key xs))"
      using "2.IH"(2) None by simp
    ultimately show ?thesis by (simp add: conj_commute)
  next
    case (Some v)
    then have k: "key x \<in> ?F" by (force dest: map_of_SomeD)
    have "map fst (fst (index_loop key a l n (x # xs) d)) =
        map fst d @ filter (\<lambda>k. k \<notin> ?F) (fromkeys (map key xs))"
      using "2.IH"(1) Some by (cases "index_loop key a l (Suc n) xs d") simp
    moreover have "filter (\<lambda>k. k \<noteq> key x \<and> k \<notin> ?F) (fromkeys (map key xs)) =
        filter (\<lambda>k. k \<notin> ?F) (fromkeys (map key xs))"
      by (intro filter_cong refl) (metis k)
    ultimately show ?thesis using k by simp
  qed
qed simp

lemma index_map_of [simp]: "map_of (fst (index key a l xs)) = first_by key xs"
  by (simp add: index_def index_loop_map_of fun_eq_iff)

lemma index_clean [simp, no_errors]: "clean (snd (index key a l xs)) \<longleftrightarrow> distinct (map key xs)"
  by (simp add: index_def index_loop_clean)

lemma index_keys [simp]: "map fst (fst (index key a l xs)) = fromkeys (map key xs)"
  by (simp add: index_def index_loop_keys)

lemma index_key_set [simp]: "fst ` set (fst (index key a l xs)) = key ` set xs"
  by (metis index_keys set_map set_fromkeys)

text \<open>
  A validator raises exactly when it appended an issue of severity \<open>ERROR\<close>; the report it
  returns or raises with lists every appended issue once.
\<close>

lemma finish_report:
  "case finish is of
     Inl r \<Rightarrow> \<not> clean is \<and> distinct (issues r) \<and> set (issues r) = set is
   | Inr r \<Rightarrow> clean is \<and> distinct (issues r) \<and> set (issues r) = set is"
  by (auto simp: finish_def collector_report_def report_ok_def report_errors_def Let_def
        filter_empty_conv clean_def split: sum.splits if_splits)

end
