(* ===== verification/VR_Models.thy ===== *)
theory VR_Models
  imports VR_Ids VR_Issues
begin

section \<open>Scientific records and their intrinsic contract (\<open>models.py\<close>)\<close>

text \<open>
  Each pydantic class is a record with the fields of the class in its order (a field name that
  several classes share is written with its class, \<open>CandidateClaim.claim_id\<close>). For each class
  \<open>X_fields\<close> is the field constraints (identifier patterns, minimum lengths, bounds), \<open>X_validator\<close>
  the body of its \<open>model_validator\<close> (the message of the \<open>ValueError\<close>, if it raises one), and
  \<open>valid_X\<close> says that the constructor accepts the record; enumerations and optional fields are
  enforced by the types. The \<open>mode="before"\<close> validators of \<open>Paper\<close> rewrite the input:
  \<open>Paper_normalize\<close>. A \<open>retrieval_score\<close> is a finite binary double, mantissa and exponent
  (\<open>allow_inf_nan=False\<close>); no validation reads it.
\<close>

type_synonym pyfloat = "int \<times> int"

text \<open>\<open>if cond: raise ValueError(msg)\<close>, then the rest.\<close>

definition raise_if :: "bool \<Rightarrow> string \<Rightarrow> string option \<Rightarrow> string option" where
  "raise_if b msg rest = (if b then Some msg else rest)"

lemma raise_if_None [simp]: "raise_if b msg rest = None \<longleftrightarrow> \<not> b \<and> rest = None"
  by (simp add: raise_if_def)

definition opt_all :: "('a \<Rightarrow> bool) \<Rightarrow> 'a option \<Rightarrow> bool" where
  "opt_all P v = (case v of None \<Rightarrow> True | Some x \<Rightarrow> P x)"

lemma opt_all_simps [simp]: "opt_all P None" "opt_all P (Some x) = P x"
  by (simp_all add: opt_all_def)

subsection \<open>Themes, papers, claims\<close>

record ThemeRecord =
  theme_id :: string
  title :: string
  description :: string
  origin :: Origin
  parent_theme_id :: "string option"

definition valid_ThemeRecord :: "ThemeRecord \<Rightarrow> bool" where
  "valid_ThemeRecord t \<longleftrightarrow> is_ThemeId (theme_id t) \<and> opt_all is_ThemeId (parent_theme_id t)"

record Paper =
  paper_id :: string
  title :: "string option"
  authors :: "string list option"
  year :: "int option"
  doi :: "string option"
  journal :: "string option"
  identity_keys :: "string list"
  study_group_id :: "string option"
  related_publications :: "string list"
  independence_status :: IndependenceStatus
  raw_md_path :: string
  source_hash :: string
  raw_md_hash :: string

definition Paper_fields :: "Paper \<Rightarrow> bool" where
  "Paper_fields p \<longleftrightarrow>
     is_PaperId (paper_id p) \<and> identity_keys p \<noteq> [] \<and> list_all is_PaperId (related_publications p) \<and>
     Paper.raw_md_path p \<noteq> '''' \<and> is_Sha256 (source_hash p) \<and> is_Sha256 (raw_md_hash p)"

fun traverse_result :: "('a \<Rightarrow> 'b result) \<Rightarrow> 'a list \<Rightarrow> 'b list result" where
  "traverse_result f [] = Inr []"
| "traverse_result f (x # xs) =
     (case f x of Inl e \<Rightarrow> Inl e
      | Inr y \<Rightarrow> (case traverse_result f xs of Inl e \<Rightarrow> Inl e | Inr ys \<Rightarrow> Inr (y # ys)))"

definition normalize_doi_field :: "string option \<Rightarrow> string option result" where
  "normalize_doi_field value =
     (case value of None \<Rightarrow> Inr None
      | Some v \<Rightarrow> (case normalize_doi v of Inl e \<Rightarrow> Inl e | Inr d \<Rightarrow> Inr (Some d)))"

definition normalize_identity_keys :: "string list \<Rightarrow> string list result" where
  "normalize_identity_keys value =
     (case traverse_result normalize_identity_key value of Inl e \<Rightarrow> Inl e
      | Inr normalized \<Rightarrow> Inr (fromkeys normalized))"

definition Paper_normalize :: "Paper \<Rightarrow> Paper result" where
  "Paper_normalize p =
     (case normalize_doi_field (doi p) of Inl e \<Rightarrow> Inl e
      | Inr d \<Rightarrow>
          (case normalize_identity_keys (identity_keys p) of Inl e \<Rightarrow> Inl e
           | Inr ks \<Rightarrow>
               (let q = p\<lparr>doi := d, identity_keys := ks\<rparr> in
                if Paper_fields q then Inr q else Inl ''Paper field constraint'')))"

definition valid_Paper :: "Paper \<Rightarrow> bool" where
  "valid_Paper p \<longleftrightarrow> Paper_normalize p = Inr p"

record CandidateClaim =
  claim_id :: string
  theme_id :: string
  candidate_claim :: string
  origin :: Origin
  origin_refs :: "string list"

definition valid_CandidateClaim :: "CandidateClaim \<Rightarrow> bool" where
  "valid_CandidateClaim c \<longleftrightarrow>
     is_ClaimId (claim_id c) \<and> is_ThemeId (CandidateClaim.theme_id c) \<and> candidate_claim c \<noteq> ''''"

subsection \<open>Retrieval\<close>

record RetrievalQuery =
  query_id :: string
  claim_id :: string
  candidate_claim_hash :: string
  intent :: RetrievalIntent
  query_text :: string

definition RetrievalQuery_validator :: "RetrievalQuery \<Rightarrow> string option" where
  "RetrievalQuery_validator q =
     (case parse_query_id (query_id q) of
        Inl e \<Rightarrow> Some e
      | Inr (encoded_claim, encoded_intent, _) \<Rightarrow>
          raise_if (encoded_claim \<noteq> RetrievalQuery.claim_id q)
            ''query ID claim component must equal claim_id''
         (raise_if (encoded_intent \<noteq> RetrievalIntent_value (intent q))
            ''query ID intent code must equal intent'' None))"

definition valid_RetrievalQuery :: "RetrievalQuery \<Rightarrow> bool" where
  "valid_RetrievalQuery q \<longleftrightarrow>
     is_QueryId (query_id q) \<and> is_ClaimId (RetrievalQuery.claim_id q) \<and>
     is_Sha256 (RetrievalQuery.candidate_claim_hash q) \<and> query_text q \<noteq> '''' \<and>
     RetrievalQuery_validator q = None"

record SpanLocator =
  raw_md_path :: string
  page :: "int option"
  "section" :: "string option"
  start_offset :: int
  end_offset :: int
  source_span_hash :: string

definition SpanLocator_validator :: "SpanLocator \<Rightarrow> string option" where
  "SpanLocator_validator l =
     raise_if (end_offset l \<le> start_offset l) ''end_offset must be greater than start_offset'' None"

definition valid_SpanLocator :: "SpanLocator \<Rightarrow> bool" where
  "valid_SpanLocator l \<longleftrightarrow>
     SpanLocator.raw_md_path l \<noteq> '''' \<and> opt_all (\<lambda>n. 1 \<le> n) (page l) \<and> 0 \<le> start_offset l \<and>
     is_Sha256 (source_span_hash l) \<and> SpanLocator_validator l = None"

record RetrievalMetadata =
  query_id :: string
  intent :: RetrievalIntent
  retrieval_score :: pyfloat

definition valid_RetrievalMetadata :: "RetrievalMetadata \<Rightarrow> bool" where
  "valid_RetrievalMetadata m \<longleftrightarrow> is_QueryId (RetrievalMetadata.query_id m)"

record RetrievedSpan =
  span_id :: string
  paper_id :: string
  locator :: SpanLocator
  source_text :: string
  retrieval :: RetrievalMetadata

definition valid_RetrievedSpan :: "RetrievedSpan \<Rightarrow> bool" where
  "valid_RetrievedSpan s \<longleftrightarrow>
     is_SpanId (span_id s) \<and> is_PaperId (RetrievedSpan.paper_id s) \<and> valid_SpanLocator (locator s) \<and>
     source_text s \<noteq> '''' \<and> valid_RetrievalMetadata (retrieval s)"

record RetrievalDisposition =
  span_id :: string
  status :: RetrievalDispositionStatus
  reason :: "string option"
  canonical_span_id :: "string option"

text \<open>\<open>not reason\<close> for an optional string: \<open>None\<close> or empty.\<close>

definition absent :: "string option \<Rightarrow> bool" where
  "absent r \<longleftrightarrow> r = None \<or> r = Some ''''"

definition RetrievalDisposition_validator :: "RetrievalDisposition \<Rightarrow> string option" where
  "RetrievalDisposition_validator d =
     (case status d of
        RetrievalDispositionStatus.ASSESSED \<Rightarrow>
          raise_if (canonical_span_id d \<noteq> None) ''assessed disposition cannot have canonical_span_id'' None
      | RetrievalDispositionStatus.DUPLICATE \<Rightarrow>
          raise_if (canonical_span_id d = None) ''duplicate disposition requires canonical_span_id'' None
      | RetrievalDispositionStatus.REDUNDANT \<Rightarrow>
          raise_if (canonical_span_id d = None \<and> absent (reason d))
            ''redundant disposition requires canonical_span_id or reason'' None
      | other \<Rightarrow>
          raise_if (absent (reason d))
            (RetrievalDispositionStatus_value other @ '' disposition requires reason'') None)"

definition valid_RetrievalDisposition :: "RetrievalDisposition \<Rightarrow> bool" where
  "valid_RetrievalDisposition d \<longleftrightarrow>
     is_SpanId (RetrievalDisposition.span_id d) \<and> opt_all is_SpanId (canonical_span_id d) \<and>
     RetrievalDisposition_validator d = None"

subsection \<open>Evidence\<close>

record EvidenceQuality =
  directness :: EvidenceDirectness
  methodological_relevance :: MethodologicalRelevance
  strength :: EvidenceStrength
  assessability :: Assessability
  limitations :: "string list"

definition EvidenceQuality_validator :: "EvidenceQuality \<Rightarrow> string option" where
  "EvidenceQuality_validator q =
     (if assessability q = Assessability.NOT_ASSESSABLE then
        raise_if (EvidenceQuality.strength q \<notin> {EvidenceStrength.UNKNOWN, EvidenceStrength.NOT_ASSESSABLE})
          ''not-assessable evidence cannot have authoritative strength''
       (raise_if (methodological_relevance q \<in> {MethodologicalRelevance.HIGH, MethodologicalRelevance.MODERATE})
          ''not-assessable evidence cannot have authoritative methodological relevance''
       (raise_if (directness q \<notin> {EvidenceDirectness.UNCLEAR, EvidenceDirectness.NOT_ASSESSABLE})
          ''not-assessable evidence cannot have authoritative directness'' None))
      else None)"

record EvidenceRecord =
  evidence_id :: string
  claim_id :: string
  retrieved_span_id :: string
  paper_id :: string
  relation_to_candidate :: EvidenceRelation
  evidence_summary :: string
  quality :: EvidenceQuality
  assessment_note :: string

definition valid_EvidenceRecord :: "EvidenceRecord \<Rightarrow> bool" where
  "valid_EvidenceRecord e \<longleftrightarrow>
     is_EvidenceId (evidence_id e) \<and> is_ClaimId (EvidenceRecord.claim_id e) \<and>
     is_SpanId (retrieved_span_id e) \<and> is_PaperId (EvidenceRecord.paper_id e) \<and>
     EvidenceQuality_validator (quality e) = None"

record ComponentRelations =
  supports :: "string list"
  contradicts :: "string list"
  qualifies :: "string list"
  contextual :: "string list"
  unclear :: "string list"

definition grouped :: "ComponentRelations \<Rightarrow> (EvidenceRelation \<times> string list) list" where
  "grouped r =
     [(EvidenceRelation.SUPPORTS, supports r),
      (EvidenceRelation.CONTRADICTS, contradicts r),
      (EvidenceRelation.QUALIFIES, qualifies r),
      (EvidenceRelation.CONTEXTUAL, contextual r),
      (EvidenceRelation.UNCLEAR, unclear r)]"

definition grouped_ids :: "ComponentRelations \<Rightarrow> string list" where
  "grouped_ids r = concat (map snd (grouped r))"

definition valid_ComponentRelations :: "ComponentRelations \<Rightarrow> bool" where
  "valid_ComponentRelations r \<longleftrightarrow> list_all is_EvidenceId (grouped_ids r)"

record ClaimPaperEvidence =
  claim_paper_evidence_id :: string
  claim_id :: string
  paper_id :: string
  evidence_ids :: "string list"
  relation_to_candidate :: AggregateRelation
  component_relations :: ComponentRelations
  strength :: EvidenceStrength
  within_paper_consistency :: WithinPaperConsistency
  assessment_note :: string

text \<open>The checks of the aggregate relation against the groups: \<open>sum(bool(group) ...)\<close>, the set of
  populated substantive relations.\<close>

definition count_nonempty :: "'a list list \<Rightarrow> nat" where
  "count_nonempty groups = length (filter (\<lambda>g. g \<noteq> []) groups)"

definition substantive_groups :: "ComponentRelations \<Rightarrow> (AggregateRelation \<times> string list) list" where
  "substantive_groups r =
     [(AggregateRelation.SUPPORTS, supports r),
      (AggregateRelation.CONTRADICTS, contradicts r),
      (AggregateRelation.QUALIFIES, qualifies r)]"

definition populated_substantive :: "ComponentRelations \<Rightarrow> AggregateRelation set" where
  "populated_substantive r = set (map fst (filter (\<lambda>(_, values). values \<noteq> []) (substantive_groups r)))"

definition aggregate_check :: "AggregateRelation \<Rightarrow> ComponentRelations \<Rightarrow> string option" where
  "aggregate_check relation r =
     (if relation = AggregateRelation.MIXED then
        raise_if (count_nonempty [supports r, contradicts r, qualifies r] < 2)
          ''mixed CPE requires at least two substantive relation groups'' None
      else if relation \<in> fst ` set (substantive_groups r) then
        raise_if (populated_substantive r \<noteq> {relation})
          ''aggregate relation must match the sole substantive component relation'' None
      else if relation = AggregateRelation.CONTEXTUAL then
        raise_if (populated_substantive r \<noteq> {} \<or> contextual r = [])
          ''contextual aggregate requires contextual evidence and no substantive group'' None
      else if relation = AggregateRelation.UNCLEAR then
        raise_if (populated_substantive r \<noteq> {} \<or> unclear r = [])
          ''unclear aggregate requires unclear evidence and no substantive group'' None
      else None)"

definition ClaimPaperEvidence_validator :: "ClaimPaperEvidence \<Rightarrow> string option" where
  "ClaimPaperEvidence_validator c =
     (let ids = evidence_ids c; grouped = grouped_ids (component_relations c) in
      raise_if (\<not> distinct ids) ''evidence_ids must not contain duplicates''
     (raise_if (\<not> distinct grouped) ''each evidence ID must appear in exactly one component group''
     (raise_if (set grouped \<noteq> set ids) ''component relation union must equal evidence_ids''
     (aggregate_check (ClaimPaperEvidence.relation_to_candidate c) (component_relations c)))))"

definition valid_ClaimPaperEvidence :: "ClaimPaperEvidence \<Rightarrow> bool" where
  "valid_ClaimPaperEvidence c \<longleftrightarrow>
     is_ClaimPaperEvidenceId (claim_paper_evidence_id c) \<and> is_ClaimId (ClaimPaperEvidence.claim_id c) \<and>
     is_PaperId (ClaimPaperEvidence.paper_id c) \<and> evidence_ids c \<noteq> [] \<and>
     list_all is_EvidenceId (evidence_ids c) \<and> valid_ComponentRelations (component_relations c) \<and>
     ClaimPaperEvidence_validator c = None"

subsection \<open>Claims\<close>

record ClaimAssessment =
  claim_id :: string
  aggregate_strength :: AggregateStrength
  evidence_sufficiency :: EvidenceSufficiency
  decision :: ClaimDecision
  rejection_basis :: "RejectionBasis option"
  support_summary :: string
  contradiction_summary :: string
  qualification_summary :: string
  reason :: string

definition ClaimAssessment_validator :: "ClaimAssessment \<Rightarrow> string option" where
  "ClaimAssessment_validator a =
     raise_if (decision a = ClaimDecision.REJECT \<and> rejection_basis a = None) ''REJECT requires rejection_basis''
    (raise_if (decision a \<noteq> ClaimDecision.REJECT \<and> rejection_basis a \<noteq> None)
       ''non-REJECT decision cannot have rejection_basis'' None)"

definition valid_ClaimAssessment :: "ClaimAssessment \<Rightarrow> bool" where
  "valid_ClaimAssessment a \<longleftrightarrow> is_ClaimId (ClaimAssessment.claim_id a) \<and> ClaimAssessment_validator a = None"

record FinalPaperRelation =
  claim_paper_evidence_id :: string
  paper_id :: string
  relation_to_final_claim :: AggregateRelation

definition valid_FinalPaperRelation :: "FinalPaperRelation \<Rightarrow> bool" where
  "valid_FinalPaperRelation r \<longleftrightarrow>
     is_ClaimPaperEvidenceId (FinalPaperRelation.claim_paper_evidence_id r) \<and>
     is_PaperId (FinalPaperRelation.paper_id r)"

record FinalClaimValidation =
  claim_id :: string
  final_claim :: string
  status :: FinalClaimStatus
  paper_relations :: "FinalPaperRelation list"
  scope_check :: ValidationCheckResult
  certainty_check :: ValidationCheckResult
  causal_language_check :: ValidationCheckResult
  numerical_claim_check :: ValidationCheckResult
  "notes" :: string

definition final_checks :: "FinalClaimValidation \<Rightarrow> ValidationCheckResult list" where
  "final_checks f = [scope_check f, certainty_check f, causal_language_check f, numerical_claim_check f]"

definition FinalClaimValidation_validator :: "FinalClaimValidation \<Rightarrow> string option" where
  "FinalClaimValidation_validator f =
     (let valid = (FinalClaimValidation.status f = FinalClaimStatus.VALID) in
      raise_if (valid \<and> list_ex (\<lambda>c. c \<in> {ValidationCheckResult.FAIL, ValidationCheckResult.UNCLEAR}) (final_checks f))
        ''VALID final claim cannot contain failed or unclear checks''
     (raise_if (valid \<and> paper_relations f = []) ''VALID final claim requires at least one paper relation''
     (raise_if (valid \<and> scope_check f \<noteq> ValidationCheckResult.PASS) ''VALID final claim requires scope_check=pass''
     (raise_if (valid \<and> certainty_check f \<noteq> ValidationCheckResult.PASS) ''VALID final claim requires certainty_check=pass''
     (raise_if (valid \<and> causal_language_check f \<notin> {ValidationCheckResult.PASS, ValidationCheckResult.NOT_APPLICABLE})
        ''VALID final claim requires causal_language_check=pass or not_applicable''
     (raise_if (valid \<and> numerical_claim_check f \<notin> {ValidationCheckResult.PASS, ValidationCheckResult.NOT_APPLICABLE})
        ''VALID final claim requires numerical_claim_check=pass or not_applicable''
     (raise_if (\<not> distinct (map FinalPaperRelation.claim_paper_evidence_id (paper_relations f)))
        ''each CPE may occur only once in final paper relations'' None)))))))"

definition valid_FinalClaimValidation :: "FinalClaimValidation \<Rightarrow> bool" where
  "valid_FinalClaimValidation f \<longleftrightarrow>
     is_ClaimId (FinalClaimValidation.claim_id f) \<and> final_claim f \<noteq> '''' \<and>
     list_all valid_FinalPaperRelation (paper_relations f) \<and> FinalClaimValidation_validator f = None"

record ClaimPacket =
  claim_id :: string
  theme_id :: string
  candidate_claim :: string
  final_claim :: string
  aggregate_strength :: AggregateStrength
  claim_paper_evidence_ids :: "string list"

definition valid_ClaimPacket :: "ClaimPacket \<Rightarrow> bool" where
  "valid_ClaimPacket p \<longleftrightarrow>
     is_ClaimId (ClaimPacket.claim_id p) \<and> is_ThemeId (ClaimPacket.theme_id p) \<and>
     ClaimPacket.candidate_claim p \<noteq> '''' \<and> ClaimPacket.final_claim p \<noteq> '''' \<and>
     claim_paper_evidence_ids p \<noteq> [] \<and> list_all is_ClaimPaperEvidenceId (claim_paper_evidence_ids p)"

record CitationBinding =
  paper_id :: string
  claim_id :: string
  claim_paper_evidence_id :: string

definition valid_CitationBinding :: "CitationBinding \<Rightarrow> bool" where
  "valid_CitationBinding b \<longleftrightarrow>
     is_PaperId (CitationBinding.paper_id b) \<and> is_ClaimId (CitationBinding.claim_id b) \<and>
     is_ClaimPaperEvidenceId (CitationBinding.claim_paper_evidence_id b)"

subsection \<open>Facts and propositions\<close>

record CorpusFactDerivation =
  task_version :: "string option"
  model_signature :: "string option"
  input_hash :: "string option"
  output_hash :: "string option"

record CorpusFact =
  corpus_fact_id :: string
  "text" :: string
  derivation_type :: CorpusFactDerivationType
  source_paper_ids :: "string list"
  derivation :: CorpusFactDerivation

definition CorpusFact_validator :: "CorpusFact \<Rightarrow> string option" where
  "CorpusFact_validator f =
     (let d = derivation f in
      raise_if (derivation_type f = CorpusFactDerivationType.SEMANTIC_CLASSIFICATION \<and>
                (task_version d = None \<or> model_signature d = None \<or> input_hash d = None \<or> output_hash d = None))
        ''semantic classification requires complete provenance metadata'' None)"

definition valid_CorpusFact :: "CorpusFact \<Rightarrow> bool" where
  "valid_CorpusFact f \<longleftrightarrow>
     is_CorpusFactId (corpus_fact_id f) \<and> list_all is_PaperId (source_paper_ids f) \<and>
     opt_all is_Sha256 (input_hash (derivation f)) \<and> opt_all is_Sha256 (output_hash (derivation f)) \<and>
     CorpusFact_validator f = None"

record ReviewProcessFact =
  process_fact_id :: string
  "text" :: string
  source_type :: ReviewProcessSourceType
  source_key :: string

definition valid_ReviewProcessFact :: "ReviewProcessFact \<Rightarrow> bool" where
  "valid_ReviewProcessFact f \<longleftrightarrow> is_ProcessFactId (process_fact_id f)"

record PropositionRecord =
  proposition_id :: string
  "text" :: string
  content_class :: PropositionContentClass
  claim_ids :: "string list"
  citation_bindings :: "CitationBinding list"
  corpus_fact_ids :: "string list"
  process_fact_ids :: "string list"

definition PropositionRecord_validator :: "PropositionRecord \<Rightarrow> string option" where
  "PropositionRecord_validator p =
     (case content_class p of
        PropositionContentClass.SCIENTIFIC_CLAIM \<Rightarrow>
          raise_if (claim_ids p = [] \<or> citation_bindings p = [])
            ''ScientificClaim requires claims and citation bindings''
         (raise_if (corpus_fact_ids p \<noteq> [] \<or> process_fact_ids p \<noteq> [])
            ''ScientificClaim cannot contain other provenance classes''
         (raise_if (CitationBinding.claim_id ` set (citation_bindings p) \<noteq> set (claim_ids p))
            ''ScientificClaim citations must cover every and only declared claim'' None))
      | PropositionContentClass.CORPUS_FACT \<Rightarrow>
          raise_if (claim_ids p \<noteq> [] \<or> citation_bindings p \<noteq> [] \<or> corpus_fact_ids p = [] \<or> process_fact_ids p \<noteq> [])
            ''CorpusFact proposition must contain only corpus-fact provenance'' None
      | PropositionContentClass.REVIEW_PROCESS_STATEMENT \<Rightarrow>
          raise_if (claim_ids p \<noteq> [] \<or> citation_bindings p \<noteq> [] \<or> corpus_fact_ids p \<noteq> [] \<or> process_fact_ids p = [])
            ''ReviewProcessStatement must contain only process-fact provenance'' None
      | PropositionContentClass.RHETORICAL \<Rightarrow>
          raise_if (claim_ids p \<noteq> [] \<or> citation_bindings p \<noteq> [] \<or> corpus_fact_ids p \<noteq> [] \<or> process_fact_ids p \<noteq> [])
            ''Rhetorical proposition cannot contain provenance'' None)"

definition valid_PropositionRecord :: "PropositionRecord \<Rightarrow> bool" where
  "valid_PropositionRecord p \<longleftrightarrow>
     is_PropositionId (proposition_id p) \<and> list_all is_ClaimId (claim_ids p) \<and>
     list_all valid_CitationBinding (citation_bindings p) \<and>
     list_all is_CorpusFactId (corpus_fact_ids p) \<and> list_all is_ProcessFactId (process_fact_ids p) \<and>
     PropositionRecord_validator p = None"

text \<open>\<open>target_type\<close> is the literal \<open>PropositionRecord\<close>, which the type leaves out.\<close>

record SemanticAuditResult =
  audit_id :: string
  target_id :: string
  class_verdict :: AuditClassVerdict
  provenance_verdict :: AuditProvenanceVerdict
  reason :: string
  referenced_claim_ids :: "string list"
  referenced_corpus_fact_ids :: "string list"
  referenced_process_fact_ids :: "string list"

definition valid_SemanticAuditResult :: "SemanticAuditResult \<Rightarrow> bool" where
  "valid_SemanticAuditResult a \<longleftrightarrow>
     is_SemanticAuditId (audit_id a) \<and> is_PropositionId (target_id a) \<and>
     list_all is_ClaimId (referenced_claim_ids a) \<and>
     list_all is_CorpusFactId (referenced_corpus_fact_ids a) \<and>
     list_all is_ProcessFactId (referenced_process_fact_ids a)"

record RenderedSentence =
  sentence_id :: string
  "text" :: string
  source_proposition_ids :: "string list"

definition valid_RenderedSentence :: "RenderedSentence \<Rightarrow> bool" where
  "valid_RenderedSentence s \<longleftrightarrow>
     is_SentenceId (sentence_id s) \<and> RenderedSentence.text s \<noteq> '''' \<and>
     source_proposition_ids s \<noteq> [] \<and> list_all is_PropositionId (source_proposition_ids s)"

record RenderedSentenceAudit =
  audit_id :: string
  sentence_id :: string
  verdict :: AuditProvenanceVerdict
  reason :: string

definition valid_RenderedSentenceAudit :: "RenderedSentenceAudit \<Rightarrow> bool" where
  "valid_RenderedSentenceAudit a \<longleftrightarrow>
     is_SentenceAuditId (RenderedSentenceAudit.audit_id a) \<and> is_SentenceId (RenderedSentenceAudit.sentence_id a)"

subsection \<open>Normalised papers\<close>

lemma traverse_result_Inr_iff:
  "traverse_result f xs = Inr ys \<longleftrightarrow> list_all2 (\<lambda>x y. f x = Inr y) xs ys"
proof (induction xs arbitrary: ys)
  case (Cons x xs)
  then show ?case
    by (cases ys; cases "f x"; cases "traverse_result f xs") auto
qed auto

lemma traverse_result_image:
  assumes "traverse_result f xs = Inr ys" and "y \<in> set ys"
  shows "\<exists>x. f x = Inr y"
proof -
  have "list_all2 (\<lambda>x y. f x = Inr y) xs ys" using assms(1) by (simp add: traverse_result_Inr_iff)
  then show ?thesis using assms(2) by (induction rule: list_all2_induct) auto
qed

lemma normalize_identity_keys_stable:
  assumes "normalize_identity_keys ks = Inr ms"
  shows "normalize_identity_keys ms = Inr ms"
proof -
  from assms obtain ys where t: "traverse_result normalize_identity_key ks = Inr ys" and m: "ms = fromkeys ys"
    by (auto simp: normalize_identity_keys_def split: sum.splits)
  have "\<forall>y \<in> set ms. normalize_identity_key y = Inr y"
  proof
    fix y assume "y \<in> set ms"
    then have "y \<in> set ys" by (simp add: m)
    then obtain x where "normalize_identity_key x = Inr y"
      using traverse_result_image [OF t] by blast
    then show "normalize_identity_key y = Inr y" by (rule normalize_identity_key_stable)
  qed
  then have "traverse_result normalize_identity_key ms = Inr ms"
    by (simp add: traverse_result_Inr_iff list_all2_same)
  then show ?thesis by (simp add: normalize_identity_keys_def m)
qed

lemma normalize_doi_field_stable: "normalize_doi_field v = Inr d \<Longrightarrow> normalize_doi_field d = Inr d"
  by (auto simp: normalize_doi_field_def dest: normalize_doi_idem split: option.splits sum.splits)

text \<open>
  A paper record that the constructor accepted is accepted again unchanged: running the
  normalising validators on their own output (which happens whenever a persisted snapshot is
  loaded, before its hash is compared with the manifest) neither fails nor rewrites the DOI
  or the identity keys, and the normalisation leaves every other field as it was given.
\<close>

theorem Paper_normalize_stable:
  assumes "Paper_normalize raw = Inr p"
  shows "Paper_normalize p = Inr p \<and> distinct (identity_keys p) \<and>
    p = raw\<lparr>doi := doi p, identity_keys := identity_keys p\<rparr>"
proof -
  obtain d where d: "normalize_doi_field (doi raw) = Inr d"
    using assms by (cases "normalize_doi_field (doi raw)") (simp_all add: Paper_normalize_def)
  obtain ks where ks: "normalize_identity_keys (identity_keys raw) = Inr ks"
    using assms d by (cases "normalize_identity_keys (identity_keys raw)") (simp_all add: Paper_normalize_def)
  let ?q = "raw\<lparr>doi := d, identity_keys := ks\<rparr>"
  have "Paper_fields ?q \<and> p = ?q"
    using assms by (cases "Paper_fields ?q") (simp_all add: Paper_normalize_def d ks)
  then have p: "p = ?q" and f: "Paper_fields p" by simp_all
  have "normalize_doi_field (doi p) = Inr (doi p)" "normalize_identity_keys (identity_keys p) = Inr (identity_keys p)"
    using normalize_doi_field_stable [OF d] normalize_identity_keys_stable [OF ks] by (simp_all add: p)
  then have "Paper_normalize p = Inr p"
    using f by (simp add: Paper_normalize_def Let_def)
  moreover have "distinct ks"
    using ks by (auto simp: normalize_identity_keys_def split: sum.splits)
  ultimately show ?thesis by (simp add: p)
qed

definition sample_paper :: Paper where
  "sample_paper = \<lparr>Paper.paper_id = ''P0001'', title = None, authors = None, year = Some 2020,
     doi = Some '' https://DOI.org/10.1000/ABC'', journal = None,
     identity_keys = [''doi: 10.1000/abc'', '' 10.1000/ABC '', ''BIB: Some   Title''],
     study_group_id = None, related_publications = [], independence_status = IndependenceStatus.UNKNOWN,
     Paper.raw_md_path = ''a.md'', source_hash = VR_Ids.candidate_claim_hash ''s'',
     raw_md_hash = VR_Ids.candidate_claim_hash ''r''\<rparr>"

lemma sample_paper_normalize:
  "Paper_normalize sample_paper = Inr (sample_paper
     \<lparr>doi := Some ''doi:10.1000/abc'', identity_keys := [''doi:10.1000/abc'', ''bib:some title'']\<rparr>)"
proof -
  have "normalize_doi_field (doi sample_paper) = Inr (Some ''doi:10.1000/abc'')"
    unfolding sample_paper_def Paper.simps by code_simp
  moreover have "normalize_identity_keys (identity_keys sample_paper) = Inr [''doi:10.1000/abc'', ''bib:some title'']"
    unfolding sample_paper_def Paper.simps by code_simp
  moreover have "is_PaperId (Paper.paper_id sample_paper)"
    unfolding sample_paper_def Paper.simps by code_simp
  ultimately show ?thesis
    by (simp add: Paper_normalize_def Paper_fields_def sample_paper_def candidate_claim_hash_is_Sha256)
qed

theorem Paper_normalize_stable_witness:
  "\<exists>p. Paper_normalize sample_paper = Inr p \<and> Paper_normalize p = Inr p \<and> doi p = Some ''doi:10.1000/abc''"
  using Paper_normalize_stable [OF sample_paper_normalize] sample_paper_normalize by auto

end
