(* ===== verification/VR_Val_Identity.thy ===== *)
theory VR_Val_Identity
  imports VR_Models
begin

section \<open>Identity registry and theme hierarchy (\<open>validators.py\<close>)\<close>

text \<open>
  \<open>_collect_identity_registry\<close> walks the papers once, keeping for each strong key (DOI,
  source hash) and each weak bibliographic key the first paper that used it; sharing a strong
  key is an error, sharing a weak one a warning. \<open>_collect_theme_hierarchy\<close> checks the parent
  references and runs a three-colour depth-first search (\<open>state\<close> 1 while a theme is on the
  trail, 2 when it is finished) for cycles. Both are shown equivalent to a declarative contract.
\<close>

subsection \<open>The identity registry\<close>

text \<open>\<open>for k in keys: owner = owners.setdefault(k, paper_id); if owner != paper_id: report\<close>.\<close>

fun claim_keys :: "(string \<Rightarrow> string \<Rightarrow> ValidationIssue list) \<Rightarrow> string \<Rightarrow> string list \<Rightarrow> string strdict
    \<Rightarrow> string strdict \<times> ValidationIssue list" where
  "claim_keys report pid [] owners = (owners, [])"
| "claim_keys report pid (k # ks) owners =
     (let (owner, owners1) = setdefault owners k pid;
          (owners2, is) = claim_keys report pid ks owners1
      in (owners2, (if owner \<noteq> pid then report k owner else []) @ is))"

definition doi_keys :: "Paper \<Rightarrow> string list" where
  "doi_keys paper =
     sort (fromkeys (filter (starts_with ''doi:'') (identity_keys paper) @
       (case doi paper of None \<Rightarrow> [] | Some d \<Rightarrow> [d])))"

definition bib_keys :: "Paper \<Rightarrow> string list" where
  "bib_keys paper = sort (filter (starts_with ''bib:'') (identity_keys paper))"

type_synonym owners = "string strdict \<times> string strdict \<times> string strdict"

definition identity_step :: "Paper strdict \<Rightarrow> nat \<Rightarrow> Paper \<Rightarrow> owners \<Rightarrow> owners \<times> ValidationIssue list" where
  "identity_step paper_by_id position paper owners =
     (let (doi_owners, source_owners, bib_owners) = owners;
          pid = Paper.paper_id paper; here = at_pos ''papers'' position;
          related = concat (map (\<lambda>related_id.
            error_if (map_of paper_by_id related_id = None) ''INVALID_REFERENCE''
              (here @ ''.related_publications'')
              (''related Paper '' @ related_id @ '' does not exist'')) (related_publications paper));
          (doi_owners1, doi_issues) = claim_keys (\<lambda>k owner.
            collector_error ''DUPLICATE_IDENTITY_CONFLICT'' (here @ ''.identity_keys'')
              (''DOI '' @ k @ '' is shared by '' @ owner @ '' and '' @ pid))
            pid (doi_keys paper) doi_owners;
          (source_owners1, source_issues) = claim_keys (\<lambda>k owner.
            collector_error ''DUPLICATE_IDENTITY_CONFLICT'' (here @ ''.source_hash'')
              (''source hash '' @ k @ '' is shared by '' @ owner @ '' and '' @ pid))
            pid [source_hash paper] source_owners;
          (bib_owners1, bib_issues) = claim_keys (\<lambda>k owner.
            collector_warning ''POSSIBLE_DUPLICATE_WARNING'' (here @ ''.identity_keys'')
              (''weak bibliographic key '' @ k @ '' is shared by '' @ owner @ '' and '' @ pid))
            pid (bib_keys paper) bib_owners
      in ((doi_owners1, source_owners1, bib_owners1), related @ doi_issues @ source_issues @ bib_issues))"

fun identity_loop :: "Paper strdict \<Rightarrow> nat \<Rightarrow> Paper list \<Rightarrow> owners \<Rightarrow> ValidationIssue list" where
  "identity_loop paper_by_id position [] owners = []"
| "identity_loop paper_by_id position (paper # papers) owners =
     (let (owners1, is) = identity_step paper_by_id position paper owners
      in is @ identity_loop paper_by_id (Suc position) papers owners1)"

definition collect_identity_registry :: "Paper list \<Rightarrow> ValidationIssue list" where
  "collect_identity_registry papers =
     (let (paper_by_id, is) = index Paper.paper_id ''paper_id'' ''papers'' papers
      in is @ identity_loop paper_by_id 0 papers ([], [], []))"

definition validate_identity_registry :: "Paper list \<Rightarrow> ValidationReport + ValidationReport" where
  "validate_identity_registry papers = finish (collect_identity_registry papers)"

lemma claim_keys_map_of:
  "map_of (fst (claim_keys rep pid ks ow)) k =
     (case map_of ow k of Some w \<Rightarrow> Some w | None \<Rightarrow> if k \<in> set ks then Some pid else None)"
proof (induction rep pid ks ow rule: claim_keys.induct)
  case (2 rep pid x ks ow)
  obtain w ow1 where s: "setdefault ow x pid = (w, ow1)" by (cases "setdefault ow x pid")
  have "map_of ow1 = (map_of ow)(x \<mapsto> w)" "w = (case map_of ow x of Some v \<Rightarrow> v | None \<Rightarrow> pid)"
    using setdefault_map_of [of ow x pid] setdefault_fst [of ow x pid] by (simp_all add: s)
  with 2 [OF s [symmetric] refl] show ?case
    by (cases "claim_keys rep pid ks ow1") (auto simp: s split: option.splits)
qed (simp split: option.splits)

lemma claim_keys_clean:
  assumes "\<And>k w. \<not> clean (rep k w)"
  shows "clean (snd (claim_keys rep pid ks ow)) \<longleftrightarrow> (\<forall>k \<in> set ks. map_of ow k = None \<or> map_of ow k = Some pid)"
  using assms
proof (induction rep pid ks ow rule: claim_keys.induct)
  case (2 rep pid x ks ow)
  obtain w ow1 where s: "setdefault ow x pid = (w, ow1)" by (cases "setdefault ow x pid")
  have m: "map_of ow1 = (map_of ow)(x \<mapsto> w)" "w = (case map_of ow x of Some v \<Rightarrow> v | None \<Rightarrow> pid)"
    using setdefault_map_of [of ow x pid] setdefault_fst [of ow x pid] by (simp_all add: s)
  have "clean (snd (claim_keys rep pid (x # ks) ow)) \<longleftrightarrow> w = pid \<and> clean (snd (claim_keys rep pid ks ow1))"
    using 2(2) by (cases "claim_keys rep pid ks ow1") (simp add: s)
  also have "clean (snd (claim_keys rep pid ks ow1)) \<longleftrightarrow> (\<forall>k \<in> set ks. map_of ow1 k = None \<or> map_of ow1 k = Some pid)"
    using 2(1) [OF s [symmetric] refl] 2(2) by blast
  finally show ?case using m by (auto split: option.splits if_splits)
qed simp

lemma claim_keys_warn: "(\<And>k w. clean (rep k w)) \<Longrightarrow> clean (snd (claim_keys rep pid ks ow))"
  by (induction rep pid ks ow rule: claim_keys.induct) (auto split: prod.splits)

text \<open>No key of a later entry belongs to another owner.\<close>

fun no_conflict :: "string strdict \<Rightarrow> (string \<times> string list) list \<Rightarrow> bool" where
  "no_conflict ow [] \<longleftrightarrow> True"
| "no_conflict ow ((pid, ks) # es) \<longleftrightarrow>
     (\<forall>k \<in> set ks. map_of ow k = None \<or> map_of ow k = Some pid) \<and>
     no_conflict (fst (claim_keys (\<lambda>_ _. []) pid ks ow)) es"

lemma no_conflict_cong: "map_of ow = map_of ow' \<Longrightarrow> no_conflict ow es = no_conflict ow' es"
proof (induction es arbitrary: ow ow')
  case (Cons e es)
  obtain pid ks where e: "e = (pid, ks)" by (cases e)
  have "map_of (fst (claim_keys (\<lambda>_ _. []) pid ks ow)) = map_of (fst (claim_keys (\<lambda>_ _. []) pid ks ow'))"
    by (simp add: fun_eq_iff claim_keys_map_of Cons.prems)
  from Cons.IH [OF this] show ?case by (simp add: e Cons.prems)
qed simp

definition free_for :: "string strdict \<Rightarrow> string \<Rightarrow> string \<Rightarrow> bool" where
  "free_for ow p k \<longleftrightarrow> map_of ow k = None \<or> map_of ow k = Some p"

lemma free_for_claim_keys:
  "free_for (fst (claim_keys rep pid ks ow)) q k \<longleftrightarrow>
     free_for ow q k \<and> (map_of ow k = None \<and> k \<in> set ks \<longrightarrow> q = pid)"
  unfolding free_for_def claim_keys_map_of by (auto split: option.splits)

definition all_free :: "string strdict \<Rightarrow> (string \<times> string list) list \<Rightarrow> bool" where
  "all_free ow es \<longleftrightarrow> (\<forall>p ks k. (p, ks) \<in> set es \<longrightarrow> k \<in> set ks \<longrightarrow> free_for ow p k)"

definition owners_agree :: "(string \<times> string list) list \<Rightarrow> bool" where
  "owners_agree es \<longleftrightarrow>
     (\<forall>p ks q ls k. (p, ks) \<in> set es \<longrightarrow> (q, ls) \<in> set es \<longrightarrow> k \<in> set ks \<longrightarrow> k \<in> set ls \<longrightarrow> p = q)"

lemma no_conflict_iff: "no_conflict ow es \<longleftrightarrow> all_free ow es \<and> owners_agree es"
proof (induction es arbitrary: ow)
  case (Cons e es)
  obtain pid ks where e: "e = (pid, ks)" by (cases e)
  let ?ow = "fst (claim_keys (\<lambda>_ _. []) pid ks ow)"
  have IH: "no_conflict ow (e # es) \<longleftrightarrow> (\<forall>k \<in> set ks. free_for ow pid k) \<and> all_free ?ow es \<and> owners_agree es"
    by (simp add: e Cons.IH free_for_def)
  show ?case
  proof
    assume "no_conflict ow (e # es)"
    then have h: "\<And>k. k \<in> set ks \<Longrightarrow> free_for ow pid k"
      and t: "\<And>q ls k. (q, ls) \<in> set es \<Longrightarrow> k \<in> set ls \<Longrightarrow>
                free_for ow q k \<and> (map_of ow k = None \<and> k \<in> set ks \<longrightarrow> q = pid)"
      and r: "owners_agree es"
      unfolding IH all_free_def free_for_claim_keys by blast+
    have ht: "q = pid" if "(q, ls) \<in> set es" "k \<in> set ls" "k \<in> set ks" for q ls k
      using t [OF that(1,2)] h [OF that(3)] that(3) by (auto simp: free_for_def)
    have "all_free ow (e # es)" unfolding all_free_def e using h t by auto
    moreover have "owners_agree (e # es)"
      unfolding owners_agree_def e
    proof (intro allI impI)
      fix p ks1 q ls k
      assume "(p, ks1) \<in> set ((pid, ks) # es)" "(q, ls) \<in> set ((pid, ks) # es)" "k \<in> set ks1" "k \<in> set ls"
      then show "p = q" using ht [of _ _ k] r unfolding owners_agree_def by (auto; metis)
    qed
    ultimately show "all_free ow (e # es) \<and> owners_agree (e # es)" ..
  next
    assume "all_free ow (e # es) \<and> owners_agree (e # es)"
    then have f: "\<And>p ls k. (p, ls) \<in> set (e # es) \<Longrightarrow> k \<in> set ls \<Longrightarrow> free_for ow p k"
      and g: "\<And>p ks q ls k. (p, ks) \<in> set (e # es) \<Longrightarrow> (q, ls) \<in> set (e # es) \<Longrightarrow> k \<in> set ks \<Longrightarrow> k \<in> set ls \<Longrightarrow> p = q"
      unfolding all_free_def owners_agree_def by blast+
    have "\<forall>k \<in> set ks. free_for ow pid k" using f [of pid ks] by (simp add: e)
    moreover have "all_free ?ow es"
      unfolding all_free_def free_for_claim_keys
    proof (intro allI impI conjI)
      fix p ls k assume in_es: "(p, ls) \<in> set es" and k: "k \<in> set ls"
      then show "free_for ow p k" using f [of p ls k] by simp
      assume "map_of ow k = None \<and> k \<in> set ks"
      then show "p = pid" using g [of p ls pid ks k] in_es k by (simp add: e)
    qed
    moreover have "owners_agree es" unfolding owners_agree_def using g by (meson list.set_intros(2))
    ultimately show "no_conflict ow (e # es)" unfolding IH by blast
  qed
qed (simp add: all_free_def owners_agree_def)

lemma no_conflict_Nil: "no_conflict [] es \<longleftrightarrow> owners_agree es"
  by (simp add: no_conflict_iff all_free_def free_for_def)

lemma claim_keys_dict_indep: "fst (claim_keys rep pid ks ow) = fst (claim_keys (\<lambda>_ _. []) pid ks ow)"
proof (induction rep pid ks ow rule: claim_keys.induct)
  case (2 rep pid x ks ow)
  obtain w ow1 where s: "setdefault ow x pid = (w, ow1)" by (cases "setdefault ow x pid")
  have st: "fst (claim_keys r pid (x # ks) ow) = fst (claim_keys r pid ks ow1)" for r
    by (simp add: s split_beta)
  show ?case unfolding st by (rule 2 [OF s [symmetric] refl])
qed simp

lemma identity_step_owners:
  "fst (identity_step idx n p (d, s, b)) =
     (fst (claim_keys (\<lambda>_ _. []) (Paper.paper_id p) (doi_keys p) d),
      fst (claim_keys (\<lambda>_ _. []) (Paper.paper_id p) [source_hash p] s),
      fst (claim_keys (\<lambda>_ _. []) (Paper.paper_id p) (bib_keys p) b))"
proof -
  have i: "fst (claim_keys rep pid ks ow) = fst (claim_keys (\<lambda>_ _. []) pid ks ow)" for rep pid ks ow
    by (rule claim_keys_dict_indep)
  show ?thesis
    unfolding identity_step_def Let_def split_beta fst_conv snd_conv
    by (intro arg_cong2 [where f = Pair] i)
qed

lemma identity_step_clean:
  "clean (snd (identity_step idx n p (d, s, b))) \<longleftrightarrow>
     (\<forall>r \<in> set (related_publications p). map_of idx r \<noteq> None) \<and>
     (\<forall>k \<in> set (doi_keys p). free_for d (Paper.paper_id p) k) \<and>
     free_for s (Paper.paper_id p) (source_hash p)"
  unfolding identity_step_def Let_def
  by (simp add: split_beta claim_keys_clean claim_keys_warn free_for_def del: claim_keys.simps)

lemma identity_loop_clean:
  "clean (identity_loop idx n papers (d, s, b)) \<longleftrightarrow>
     (\<forall>p \<in> set papers. \<forall>r \<in> set (related_publications p). map_of idx r \<noteq> None) \<and>
     no_conflict d (map (\<lambda>p. (Paper.paper_id p, doi_keys p)) papers) \<and>
     no_conflict s (map (\<lambda>p. (Paper.paper_id p, [source_hash p])) papers)"
proof (induction papers arbitrary: n d s b)
  case (Cons p papers)
  obtain st iss where st: "identity_step idx n p (d, s, b) = (st, iss)"
    by (cases "identity_step idx n p (d, s, b)")
  have f: "st = (fst (claim_keys (\<lambda>_ _. []) (Paper.paper_id p) (doi_keys p) d),
      fst (claim_keys (\<lambda>_ _. []) (Paper.paper_id p) [source_hash p] s),
      fst (claim_keys (\<lambda>_ _. []) (Paper.paper_id p) (bib_keys p) b))"
    using identity_step_owners [of idx n p d s b] by (simp add: st)
  have c: "clean iss \<longleftrightarrow>
     (\<forall>r \<in> set (related_publications p). map_of idx r \<noteq> None) \<and>
     (\<forall>k \<in> set (doi_keys p). free_for d (Paper.paper_id p) k) \<and>
     free_for s (Paper.paper_id p) (source_hash p)"
    using identity_step_clean [of idx n p d s b] by (simp add: st)
  have "clean (identity_loop idx n (p # papers) (d, s, b)) \<longleftrightarrow> clean iss \<and> clean (identity_loop idx (Suc n) papers st)"
    by (simp add: st)
  also have "clean (identity_loop idx (Suc n) papers st) \<longleftrightarrow>
     (\<forall>p \<in> set papers. \<forall>r \<in> set (related_publications p). map_of idx r \<noteq> None) \<and>
     no_conflict (fst (claim_keys (\<lambda>_ _. []) (Paper.paper_id p) (doi_keys p) d)) (map (\<lambda>p. (Paper.paper_id p, doi_keys p)) papers) \<and>
     no_conflict (fst (claim_keys (\<lambda>_ _. []) (Paper.paper_id p) [source_hash p] s)) (map (\<lambda>p. (Paper.paper_id p, [source_hash p])) papers)"
    unfolding f by (rule Cons.IH)
  finally show ?case unfolding c by (auto simp: free_for_def simp del: claim_keys.simps)
qed simp

lemma set_doi_keys: "set (doi_keys p) = {k \<in> set (identity_keys p). starts_with ''doi:'' k} \<union> set_option (doi p)"
  by (auto simp: doi_keys_def split: option.splits)

text \<open>
  The strong identity keys of a paper, and the contract of the registry: no two papers have the
  same ID or share a DOI or a source hash, and every related publication is registered.
\<close>

definition paper_dois :: "Paper \<Rightarrow> string set" where
  "paper_dois p = {k \<in> set (identity_keys p). starts_with ''doi:'' k} \<union> set_option (doi p)"

definition identity_contract :: "Paper list \<Rightarrow> bool" where
  "identity_contract papers \<longleftrightarrow>
     distinct (map Paper.paper_id papers) \<and>
     (\<forall>p \<in> set papers. set (related_publications p) \<subseteq> Paper.paper_id ` set papers) \<and>
     (\<forall>p \<in> set papers. \<forall>q \<in> set papers. p \<noteq> q \<longrightarrow>
        paper_dois p \<inter> paper_dois q = {} \<and> source_hash p \<noteq> source_hash q)"

lemma collect_identity_registry_clean:
  "clean (collect_identity_registry papers) \<longleftrightarrow>
     distinct (map Paper.paper_id papers) \<and>
     (\<forall>p \<in> set papers. set (related_publications p) \<subseteq> Paper.paper_id ` set papers) \<and>
     owners_agree (map (\<lambda>p. (Paper.paper_id p, doi_keys p)) papers) \<and>
     owners_agree (map (\<lambda>p. (Paper.paper_id p, [source_hash p])) papers)"
proof -
  let ?ix = "index Paper.paper_id ''paper_id'' ''papers'' papers"
  have m: "map_of (fst ?ix) r \<noteq> None \<longleftrightarrow> r \<in> Paper.paper_id ` set papers" for r
    by (simp add: first_by_None_iff)
  have "clean (collect_identity_registry papers) \<longleftrightarrow>
      clean (snd ?ix) \<and> clean (identity_loop (fst ?ix) 0 papers ([], [], []))"
    by (simp add: collect_identity_registry_def split_beta)
  then show ?thesis
    unfolding identity_loop_clean no_conflict_Nil index_clean m by blast
qed

lemma collect_identity_contract_clean: "clean (collect_identity_registry papers) \<longleftrightarrow> identity_contract papers"
proof (cases "distinct (map Paper.paper_id papers)")
  case True
  then have inj: "inj_on Paper.paper_id (set papers)" by (simp add: distinct_map)
  have agree: "owners_agree (map (\<lambda>p. (Paper.paper_id p, ks p)) papers) \<longleftrightarrow>
      (\<forall>p \<in> set papers. \<forall>q \<in> set papers. p \<noteq> q \<longrightarrow> set (ks p) \<inter> set (ks q) = {})" for ks
  proof
    assume a: "owners_agree (map (\<lambda>p. (Paper.paper_id p, ks p)) papers)"
    show "\<forall>p \<in> set papers. \<forall>q \<in> set papers. p \<noteq> q \<longrightarrow> set (ks p) \<inter> set (ks q) = {}"
    proof (intro ballI impI, rule ccontr)
      fix p q assume p: "p \<in> set papers" and q: "q \<in> set papers" and pq: "p \<noteq> q"
        and "set (ks p) \<inter> set (ks q) \<noteq> {}"
      then obtain k where k: "k \<in> set (ks p)" "k \<in> set (ks q)" by blast
      have m: "(Paper.paper_id x, ks x) \<in> set (map (\<lambda>p. (Paper.paper_id p, ks p)) papers)"
        if "x \<in> set papers" for x using that by simp
      have "Paper.paper_id p = Paper.paper_id q"
        using a [unfolded owners_agree_def, rule_format, OF m [OF p] m [OF q] k] .
      with pq show False using inj_onD [OF inj _ p q] by blast
    qed
  next
    assume r: "\<forall>p \<in> set papers. \<forall>q \<in> set papers. p \<noteq> q \<longrightarrow> set (ks p) \<inter> set (ks q) = {}"
    show "owners_agree (map (\<lambda>p. (Paper.paper_id p, ks p)) papers)"
      unfolding owners_agree_def
    proof (intro allI impI)
      fix a as b bs k
      assume "(a, as) \<in> set (map (\<lambda>p. (Paper.paper_id p, ks p)) papers)"
        and "(b, bs) \<in> set (map (\<lambda>p. (Paper.paper_id p, ks p)) papers)"
        and k: "k \<in> set as" "k \<in> set bs"
      then obtain p q where "p \<in> set papers" "a = Paper.paper_id p" "as = ks p"
        and "q \<in> set papers" "b = Paper.paper_id q" "bs = ks q" by auto
      with r k show "a = b" by (cases "p = q") auto
    qed
  qed
  have hash: "set [source_hash p] \<inter> set [source_hash q] = {} \<longleftrightarrow> source_hash p \<noteq> source_hash q" for p q
    by auto
  show ?thesis
    unfolding collect_identity_registry_clean identity_contract_def agree hash
      set_doi_keys paper_dois_def [symmetric]
    by blast
next
  case False
  then show ?thesis by (simp add: collect_identity_registry_clean identity_contract_def)
qed

text \<open>
  The one-pass ownership dictionaries of the identity registry decide the pairwise contract:
  the validator succeeds exactly when paper IDs are unique, every related publication is
  registered, and no two different papers share a DOI (in \<open>doi\<close> or among the identity keys) or a
  source hash; weak bibliographic collisions never make it fail.
\<close>

theorem identity_registry_correct:
  "(\<exists>r. validate_identity_registry papers = Inr r) \<longleftrightarrow> identity_contract papers"
  by (simp add: validate_identity_registry_def finish_ok_iff collect_identity_contract_clean)

subsection \<open>The theme hierarchy\<close>

text \<open>
  \<open>state\<close> is the dict of colours; \<open>trail\<close> the themes being visited. The missing branch of
  the lookup \<open>theme_by_id[theme_id]\<close> is not reached: every visited theme is a key. CPython's limit on
  nested calls, which a chain of about a thousand parents would reach, is not modelled.
\<close>

function visit :: "ThemeRecord strdict \<Rightarrow> string list \<Rightarrow> string \<Rightarrow> (string \<rightharpoonup> nat)
    \<Rightarrow> (string \<rightharpoonup> nat) \<times> ValidationIssue list" where
  "visit theme_by_id trail tid state =
     (if state tid = Some 2 then (state, [])
      else if state tid = Some 1 then
        (state, collector_error ''THEME_CYCLE'' (at_key ''themes'' tid)
           (''theme hierarchy is cyclic: '' @
            join_with '' -> '' (dropWhile (\<lambda>t. t \<noteq> tid) trail @ [tid])))
      else (case map_of theme_by_id tid of
          None \<Rightarrow> (state, [])
        | Some theme \<Rightarrow>
            (case parent_theme_id theme of
               None \<Rightarrow> (state(tid \<mapsto> 1, tid \<mapsto> 2), [])
             | Some parent_id \<Rightarrow>
                 if map_of theme_by_id parent_id \<noteq> None \<and> parent_id \<noteq> tid
                 then (let (state2, is) = visit theme_by_id (trail @ [tid]) parent_id (state(tid \<mapsto> 1))
                       in (state2(tid \<mapsto> 2), is))
                 else (state(tid \<mapsto> 1, tid \<mapsto> 2), []))))"
  by pat_completeness auto
termination
proof (relation "measure (\<lambda>(idx, trail, tid, state).
    card {k \<in> fst ` set idx. state k \<noteq> Some 1 \<and> state k \<noteq> Some 2})", goal_cases)
  case 1
  then show ?case by simp
next
  case (2 idx trail tid state theme parent_id)
  then have t: "tid \<in> fst ` set idx" by (force dest: map_of_SomeD)
  have "{k \<in> fst ` set idx. (state(tid \<mapsto> 1)) k \<noteq> Some 1 \<and> (state(tid \<mapsto> 1)) k \<noteq> Some 2}
      \<subset> {k \<in> fst ` set idx. state k \<noteq> Some 1 \<and> state k \<noteq> Some 2}"
    using 2 t by auto
  then show ?case by (simp add: psubset_card_mono)
qed

declare visit.simps [simp del]

fun visit_all :: "ThemeRecord strdict \<Rightarrow> string list \<Rightarrow> (string \<rightharpoonup> nat) \<Rightarrow> ValidationIssue list" where
  "visit_all theme_by_id [] state = []"
| "visit_all theme_by_id (tid # tids) state =
     (if state tid = None
      then (let (state1, is) = visit theme_by_id [] tid state in is @ visit_all theme_by_id tids state1)
      else visit_all theme_by_id tids state)"

definition collect_theme_hierarchy :: "ThemeRecord list \<Rightarrow> ValidationIssue list" where
  "collect_theme_hierarchy themes =
     (let (theme_by_id, is) = index ThemeRecord.theme_id ''theme_id'' ''themes'' themes
      in is @
         for_each themes (\<lambda>position theme.
           (case parent_theme_id theme of
              None \<Rightarrow> []
            | Some parent_id \<Rightarrow>
                if parent_id = ThemeRecord.theme_id theme
                then collector_error ''THEME_SELF_PARENT'' (at_pos ''themes'' position @ ''.parent_theme_id'')
                       (''theme '' @ ThemeRecord.theme_id theme @ '' cannot parent itself'')
                else error_if (map_of theme_by_id parent_id = None) ''INVALID_REFERENCE''
                       (at_pos ''themes'' position @ ''.parent_theme_id'')
                       (''parent theme '' @ parent_id @ '' does not exist''))) @
         visit_all theme_by_id (map fst theme_by_id) Map.empty)"

definition validate_theme_hierarchy :: "ThemeRecord list \<Rightarrow> ValidationReport + ValidationReport" where
  "validate_theme_hierarchy themes = finish (collect_theme_hierarchy themes)"

text \<open>The pointer the search follows: the parent, when it is another registered theme.\<close>

definition theme_next :: "ThemeRecord strdict \<Rightarrow> string \<rightharpoonup> string" where
  "theme_next idx t = (case map_of idx t of None \<Rightarrow> None
     | Some theme \<Rightarrow> (case parent_theme_id theme of None \<Rightarrow> None
         | Some p \<Rightarrow> if map_of idx p \<noteq> None \<and> p \<noteq> t then Some p else None))"

lemma dom_theme_next: "dom (theme_next idx) \<subseteq> fst ` set idx"
  by (auto simp: theme_next_def dom_def split: option.splits intro: rev_image_eqI dest: map_of_SomeD)

interpretation theme: successor "theme_next idx" for idx
  by unfold_locales (rule finite_subset [OF dom_theme_next], simp)

text \<open>One unfolding of \<open>visit\<close> per colour of the visited theme.\<close>

lemma visit_black: "state tid = Some 2 \<Longrightarrow> visit idx trail tid state = (state, [])"
  by (simp add: visit.simps)

lemma visit_grey: "state tid = Some 1 \<Longrightarrow> \<not> clean (snd (visit idx trail tid state)) \<and> fst (visit idx trail tid state) = state"
  by (simp add: visit.simps)

lemma visit_white_end:
  assumes "state tid \<noteq> Some 1" "state tid \<noteq> Some 2" "theme_next idx tid = None"
  shows "visit idx trail tid state = (if map_of idx tid = None then state else state(tid \<mapsto> 2), [])"
proof (cases "map_of idx tid")
  case (Some th)
  show ?thesis
  proof (cases "parent_theme_id th")
    case (Some q)
    then have "\<not> (map_of idx q \<noteq> None \<and> q \<noteq> tid)"
      using \<open>map_of idx tid = Some th\<close> assms(3) by (auto simp: theme_next_def split: if_splits)
    with Some \<open>map_of idx tid = Some th\<close> assms(1,2) show ?thesis
      by (subst visit.simps) auto
  qed (use Some assms(1,2) in \<open>simp add: visit.simps [of idx trail tid state]\<close>)
qed (use assms(1,2) in \<open>simp add: visit.simps [of idx trail tid state]\<close>)

lemma visit_white_step:
  assumes "state tid \<noteq> Some 1" "state tid \<noteq> Some 2" "theme_next idx tid = Some p"
  shows "visit idx trail tid state =
    ((fst (visit idx (trail @ [tid]) p (state(tid \<mapsto> 1))))(tid \<mapsto> 2), snd (visit idx (trail @ [tid]) p (state(tid \<mapsto> 1))))"
proof -
  from assms(3) obtain th where "map_of idx tid = Some th" "parent_theme_id th = Some p"
      "map_of idx p \<noteq> None \<and> p \<noteq> tid"
    unfolding theme_next_def by (auto split: option.splits if_splits)
  then show ?thesis
    using assms(1,2) by (subst visit.simps) (simp add: split_beta)
qed

lemma visit_induct [case_names black grey white_end white_step]:
  assumes "\<And>trail tid (state :: string \<rightharpoonup> nat). state tid = Some 2 \<Longrightarrow> P trail tid state"
    and "\<And>trail tid state. state tid = Some 1 \<Longrightarrow> P trail tid state"
    and "\<And>trail tid state. state tid \<noteq> Some 1 \<Longrightarrow> state tid \<noteq> Some 2 \<Longrightarrow> theme_next idx tid = None \<Longrightarrow> P trail tid state"
    and "\<And>trail tid state p. state tid \<noteq> Some 1 \<Longrightarrow> state tid \<noteq> Some 2 \<Longrightarrow> theme_next idx tid = Some p \<Longrightarrow>
           P (trail @ [tid]) p (state(tid \<mapsto> 1)) \<Longrightarrow> P trail tid state"
  shows "P trail tid state"
proof -
  have "P trail tid state" if "i = idx" for i :: "ThemeRecord strdict"
    using that
  proof (induction i trail tid state rule: visit.induct)
    case (1 i trail tid state)
    show ?case
    proof (cases "state tid = Some 2 \<or> state tid = Some 1")
      case True
      then show ?thesis using assms(1,2) by blast
    next
      case False
      show ?thesis
      proof (cases "theme_next idx tid")
        case None
        then show ?thesis using assms(3) False by blast
      next
        case (Some p)
        then obtain th where "map_of idx tid = Some th" "parent_theme_id th = Some p"
            "map_of idx p \<noteq> None \<and> p \<noteq> tid"
          unfolding theme_next_def by (auto split: option.splits if_splits)
        then show ?thesis using assms(4) [OF _ _ Some] 1 False by blast
      qed
    qed
  qed
  then show ?thesis by blast
qed

lemma visit_greys: "fst (visit idx trail tid state) g = Some 1 \<longleftrightarrow> state g = Some 1"
proof (induction trail tid state rule: visit_induct [of _ idx])
  case (white_step trail tid state p)
  have "fst (visit idx (trail @ [tid]) p (state(tid \<mapsto> 1))) g = Some 1 \<longleftrightarrow> (state(tid \<mapsto> 1)) g = Some 1"
    by (rule white_step.IH)
  then show ?case using white_step(1) unfolding visit_white_step [of state tid idx p trail, OF white_step(1-3)]
    by auto
qed (auto simp: visit_black visit_grey visit_white_end)

lemma visit_colours: "ran state \<subseteq> {1, 2} \<Longrightarrow> ran (fst (visit idx trail tid state)) \<subseteq> {1, 2}"
proof (induction trail tid state rule: visit_induct [of _ idx])
  case (white_step trail tid state p)
  have "ran (fst (visit idx (trail @ [tid]) p (state(tid \<mapsto> 1)))) \<subseteq> {1, 2}"
    by (rule white_step.IH) (use white_step.prems in \<open>auto simp: ran_def split: if_splits\<close>)
  then show ?case unfolding visit_white_step [of state tid idx p trail, OF white_step(1-3)]
    by (auto simp: ran_def)
qed (auto simp: visit_black visit_grey visit_white_end ran_def)

lemma visit_complete:
  "clean (snd (visit idx trail tid state)) \<Longrightarrow> (\<And>b. state b = Some 2 \<Longrightarrow> theme.halts idx b) \<Longrightarrow>
     theme.halts idx tid \<and> (\<forall>b. fst (visit idx trail tid state) b = Some 2 \<longrightarrow> theme.halts idx b)"
proof (induction trail tid state rule: visit_induct [of _ idx])
  case (white_step trail tid state p)
  note v = visit_white_step [of state tid idx p trail, OF white_step(1-3)]
  have "theme.halts idx p \<and> (\<forall>b. fst (visit idx (trail @ [tid]) p (state(tid \<mapsto> 1))) b = Some 2 \<longrightarrow> theme.halts idx b)"
  proof (rule white_step.IH)
    show "clean (snd (visit idx (trail @ [tid]) p (state(tid \<mapsto> 1))))" using white_step(5) by (simp add: v)
    show "theme.halts idx b" if "(state(tid \<mapsto> 1)) b = Some 2" for b
      using that white_step(6) by (simp split: if_splits)
  qed
  moreover from this have "theme.halts idx tid" by (subst theme.halts_iff) (simp add: white_step(3))
  ultimately show ?case by (simp add: v)
next
  case (white_end trail tid state)
  then have "theme.halts idx tid" by (subst theme.halts_iff) simp
  with white_end show ?case by (simp add: visit_white_end)
qed (auto simp: visit_black visit_grey)

lemma visit_sound:
  "\<not> clean (snd (visit idx trail tid state)) \<Longrightarrow> (\<And>g. state g = Some 1 \<Longrightarrow> (g, tid) \<in> (theme.step idx)\<^sup>+) \<Longrightarrow>
     \<not> acyclic (theme.step idx)"
proof (induction trail tid state rule: visit_induct [of _ idx])
  case (white_step trail tid state p)
  have s: "(tid, p) \<in> theme.step idx" using white_step(3) by (simp add: theme.step_def)
  show ?case
  proof (rule white_step.IH)
    show "\<not> clean (snd (visit idx (trail @ [tid]) p (state(tid \<mapsto> 1))))"
      using white_step(5) by (simp add: visit_white_step [of state tid idx p trail, OF white_step(1-3)] del: One_nat_def)
    fix g assume "(state(tid \<mapsto> 1)) g = Some 1"
    then show "(g, p) \<in> (theme.step idx)\<^sup>+"
      using white_step(6) [of g] s by (cases "g = tid") (auto intro: trancl_into_trancl)
  qed
qed (auto simp: visit_black visit_white_end acyclic_def)

lemma visit_all_sound:
  assumes ac: "acyclic (theme.step idx)"
  shows "(\<And>g. state g \<noteq> Some 1) \<Longrightarrow> clean (visit_all idx tids state)"
proof (induction tids arbitrary: state)
  case (Cons t tids)
  have "clean (snd (visit idx [] t state))"
    using visit_sound [of idx "[]" t state] Cons.prems ac by blast
  moreover have "clean (visit_all idx tids (fst (visit idx [] t state)))"
    by (rule Cons.IH) (simp add: visit_greys Cons.prems del: One_nat_def)
  ultimately show ?case using Cons.IH [OF Cons.prems] by (simp add: split_beta)
qed simp

lemma visit_all_complete:
  assumes "clean (visit_all idx tids state)"
    and "ran state \<subseteq> {1, 2}" "\<And>g. state g \<noteq> Some 1" "\<And>b. state b = Some 2 \<Longrightarrow> theme.halts idx b"
    and "t \<in> set tids"
  shows "theme.halts idx t"
  using assms
proof (induction tids arbitrary: state)
  case (Cons u tids)
  show ?case
  proof (cases "state u")
    case None
    let ?s = "fst (visit idx [] u state)"
    have c: "clean (snd (visit idx [] u state))" and cs: "clean (visit_all idx tids ?s)"
      using Cons.prems(1) None by (simp_all add: split_beta)
    note h = visit_complete [OF c Cons.prems(4)]
    have "theme.halts idx t" if "t \<in> set tids"
      by (rule Cons.IH [OF cs visit_colours [OF Cons.prems(2)] _ _ that])
        (use h Cons.prems(3) visit_greys in blast)+
    then show ?thesis using h Cons.prems(5) by auto
  next
    case (Some c)
    then have "c = 2" using Cons.prems(2,3) by (auto simp: ran_def)
    then have "theme.halts idx u" using Cons.prems(4) Some by blast
    moreover have "theme.halts idx t" if "t \<in> set tids"
      using Cons.IH [OF _ Cons.prems(2-4) that] Cons.prems(1) Some by simp
    ultimately show ?thesis using Cons.prems(5) by auto
  qed
qed simp

lemma visit_all_clean: "clean (visit_all idx (map fst idx) Map.empty) \<longleftrightarrow> acyclic (theme.step idx)"
proof
  assume c: "clean (visit_all idx (map fst idx) Map.empty)"
  have "theme.halts idx t" if "t \<in> dom (theme_next idx)" for t
    by (rule visit_all_complete [OF c]) (use that dom_theme_next [of idx] in auto)
  then show "acyclic (theme.step idx)" by (simp add: theme.acyclic_iff_halts)
qed (auto intro: visit_all_sound)

text \<open>
  The contract of the hierarchy: unique IDs, registered parents, and a parent relation without
  cycles (a theme that is its own parent is a cycle).
\<close>

definition parent_rel :: "ThemeRecord list \<Rightarrow> (string \<times> string) set" where
  "parent_rel themes =
     {(ThemeRecord.theme_id t, p) | t p. t \<in> set themes \<and> parent_theme_id t = Some p}"

definition theme_contract :: "ThemeRecord list \<Rightarrow> bool" where
  "theme_contract themes \<longleftrightarrow>
     distinct (map ThemeRecord.theme_id themes) \<and>
     (\<forall>t \<in> set themes. \<forall>p. parent_theme_id t = Some p \<longrightarrow> p \<in> ThemeRecord.theme_id ` set themes) \<and>
     acyclic (parent_rel themes)"

lemma theme_step_parent_rel:
  assumes "distinct (map ThemeRecord.theme_id themes)"
    and "\<forall>t \<in> set themes. \<forall>p. parent_theme_id t = Some p \<longrightarrow>
           p \<noteq> ThemeRecord.theme_id t \<and> p \<in> ThemeRecord.theme_id ` set themes"
  shows "theme.step (fst (index ThemeRecord.theme_id a l themes)) = parent_rel themes"
proof -
  have "theme_next (fst (index ThemeRecord.theme_id a l themes)) x = Some y \<longleftrightarrow>
      (\<exists>t \<in> set themes. ThemeRecord.theme_id t = x \<and> parent_theme_id t = Some y)" for x y
  proof -
    have "theme_next (fst (index ThemeRecord.theme_id a l themes)) x = Some y \<longleftrightarrow>
        (\<exists>t. first_by ThemeRecord.theme_id themes x = Some t \<and> parent_theme_id t = Some y \<and>
          first_by ThemeRecord.theme_id themes y \<noteq> None \<and> y \<noteq> x)"
      by (auto simp: theme_next_def split: option.splits)
    then show ?thesis using assms by (auto simp: first_by_Some_iff first_by_None_iff)
  qed
  then show ?thesis by (auto simp: theme.step_def parent_rel_def)
qed

lemma collect_theme_hierarchy_clean: "clean (collect_theme_hierarchy themes) \<longleftrightarrow> theme_contract themes"
proof -
  let ?ix = "index ThemeRecord.theme_id ''theme_id'' ''themes'' themes"
  let ?D = "distinct (map ThemeRecord.theme_id themes)"
  let ?P = "\<forall>t \<in> set themes. \<forall>p. parent_theme_id t = Some p \<longrightarrow>
           p \<noteq> ThemeRecord.theme_id t \<and> p \<in> ThemeRecord.theme_id ` set themes"
  have "clean (collect_theme_hierarchy themes) \<longleftrightarrow> ?D \<and> ?P \<and> acyclic (theme.step (fst ?ix))"
    unfolding collect_theme_hierarchy_def Let_def split_beta clean_append index_clean visit_all_clean
    by (subst clean_for_each
          [where P = "\<lambda>t. \<forall>p. parent_theme_id t = Some p \<longrightarrow>
             p \<noteq> ThemeRecord.theme_id t \<and> p \<in> ThemeRecord.theme_id ` set themes"])
       (auto simp: first_by_None_iff split: option.splits)
  also have "\<dots> \<longleftrightarrow> ?D \<and> ?P \<and> acyclic (parent_rel themes)"
    using theme_step_parent_rel by metis
  also have "\<dots> \<longleftrightarrow> theme_contract themes"
  proof -
    have "p \<noteq> ThemeRecord.theme_id t"
      if "acyclic (parent_rel themes)" "t \<in> set themes" "parent_theme_id t = Some p" for t p
    proof
      assume "p = ThemeRecord.theme_id t"
      then have "(p, p) \<in> parent_rel themes" using that by (auto simp: parent_rel_def)
      then show False using that(1) by (auto simp: acyclic_def)
    qed
    then show ?thesis unfolding theme_contract_def by blast
  qed
  finally show ?thesis .
qed

text \<open>
  C25: The coloured depth-first search decides acyclicity: the theme hierarchy validator succeeds
  exactly when theme IDs are unique, every parent is a registered theme and the parent relation
  has no cycle. In particular the recursion of \<open>visit\<close> terminates on every input.
\<close>

theorem theme_hierarchy_correct:
  "(\<exists>r. validate_theme_hierarchy themes = Inr r) \<longleftrightarrow> theme_contract themes"
  by (simp add: validate_theme_hierarchy_def finish_ok_iff collect_theme_hierarchy_clean)

end
