(* ===== verification/VR_Val_Retrieval.thy ===== *)
theory VR_Val_Retrieval
  imports VR_Models
begin

section \<open>Retrieval and evidence bundles (\<open>validators.py\<close>)\<close>

text \<open>
  \<open>_collect_retrieval_bundle\<close> ties queries to claims (by the hash of the claim's text and by the
  ID grammar), spans to queries and papers, and checks that every span has exactly one
  disposition and that the canonical-span pointers stay in a paper and do not loop.
  \<open>_collect_evidence_bundle\<close> checks that the assessed spans and the evidence records correspond
  one to one. One definition per loop of the source; the lemmas \<open>X_clean\<close> state which condition
  of the data makes the loop append no error.
\<close>

subsection \<open>Queries\<close>

definition query_hash_issues :: "CandidateClaim strdict \<Rightarrow> nat \<Rightarrow> RetrievalQuery \<Rightarrow> ValidationIssue list" where
  "query_hash_issues claim_by_id position query =
     (let here = at_pos ''retrieval_queries'' position in
      case map_of claim_by_id (RetrievalQuery.claim_id query) of
        None \<Rightarrow> collector_error ''INVALID_REFERENCE'' (here @ ''.claim_id'')
                  (''candidate claim '' @ RetrievalQuery.claim_id query @ '' does not exist'')
      | Some claim \<Rightarrow>
          error_if (RetrievalQuery.candidate_claim_hash query \<noteq>
                    VR_Ids.candidate_claim_hash (CandidateClaim.candidate_claim claim))
            ''CANDIDATE_CLAIM_MUTATED_AFTER_RETRIEVAL'' (here @ ''.candidate_claim_hash'')
            (''query hash does not match current text of '' @ RetrievalQuery.claim_id query))"

definition query_id_issues :: "nat \<Rightarrow> RetrievalQuery \<Rightarrow> ValidationIssue list" where
  "query_id_issues position query =
     (let here = at_pos ''retrieval_queries'' position @ ''.query_id'' in
      case parse_query_id (RetrievalQuery.query_id query) of
        Inl _ \<Rightarrow> collector_error ''QUERY_ID_MISMATCH'' here
                   (''query ID '' @ RetrievalQuery.query_id query @
                    '' does not satisfy the canonical grammar'')
      | Inr (encoded_claim, encoded_intent, ordinal) \<Rightarrow>
          error_if (encoded_claim \<noteq> RetrievalQuery.claim_id query) ''QUERY_ID_MISMATCH'' here
            ''query ID claim component does not equal claim_id'' @
          error_if (encoded_intent \<noteq> RetrievalIntent_value (RetrievalQuery.intent query))
            ''QUERY_ID_MISMATCH'' here ''query ID intent code does not equal intent'' @
          error_if (\<not> (1 \<le> ordinal \<and> ordinal \<le> 99)) ''QUERY_ID_MISMATCH'' here
            ''query ordinal must be between 01 and 99'')"

text \<open>What a query promises about the claim it was made for.\<close>

definition query_bound :: "CandidateClaim list \<Rightarrow> RetrievalQuery \<Rightarrow> bool" where
  "query_bound claims query \<longleftrightarrow>
     (\<exists>claim \<in> set claims.
        CandidateClaim.claim_id claim = RetrievalQuery.claim_id query \<and>
        RetrievalQuery.candidate_claim_hash query =
          VR_Ids.candidate_claim_hash (CandidateClaim.candidate_claim claim)) \<and>
     (\<exists>ordinal. 1 \<le> ordinal \<and> ordinal \<le> 99 \<and>
        parse_query_id (RetrievalQuery.query_id query) =
          Inr (RetrievalQuery.claim_id query, RetrievalIntent_value (RetrievalQuery.intent query), ordinal))"

lemma query_issues_clean:
  assumes "distinct (map CandidateClaim.claim_id claims)"
    and "map_of claim_by_id = first_by CandidateClaim.claim_id claims"
  shows "clean (query_hash_issues claim_by_id i query) \<and> clean (query_id_issues i query) \<longleftrightarrow> query_bound claims query"
proof -
  have "clean (query_hash_issues claim_by_id i query) \<longleftrightarrow>
      (\<exists>claim \<in> set claims. CandidateClaim.claim_id claim = RetrievalQuery.claim_id query \<and>
        RetrievalQuery.candidate_claim_hash query = VR_Ids.candidate_claim_hash (CandidateClaim.candidate_claim claim))"
    unfolding first_by_bex [OF assms(1)]
    by (simp add: query_hash_issues_def assms(2) split: option.splits)
  moreover have "clean (query_id_issues i query) \<longleftrightarrow>
      (\<exists>ordinal. 1 \<le> ordinal \<and> ordinal \<le> 99 \<and> parse_query_id (RetrievalQuery.query_id query) =
          Inr (RetrievalQuery.claim_id query, RetrievalIntent_value (RetrievalQuery.intent query), ordinal))"
    by (cases "parse_query_id (RetrievalQuery.query_id query)") (auto simp: query_id_issues_def Let_def)
  ultimately show ?thesis by (simp add: query_bound_def)
qed

subsection \<open>Spans\<close>

definition span_issues :: "RetrievalQuery strdict \<Rightarrow> Paper strdict \<Rightarrow> nat \<Rightarrow> RetrievedSpan \<Rightarrow> ValidationIssue list" where
  "span_issues query_by_id paper_by_id position span =
     (let here = at_pos ''retrieved_spans'' position; r = retrieval span in
      (case map_of query_by_id (RetrievalMetadata.query_id r) of
         None \<Rightarrow> collector_error ''INVALID_REFERENCE'' (here @ ''.retrieval.query_id'')
                   (''retrieval query '' @ RetrievalMetadata.query_id r @ '' does not exist'')
       | Some query \<Rightarrow>
           error_if (RetrievalMetadata.intent r \<noteq> RetrievalQuery.intent query)
             ''RETRIEVAL_INTENT_MISMATCH'' (here @ ''.retrieval.intent'')
             (''span intent does not match query '' @ RetrievalQuery.query_id query)) @
      error_if (map_of paper_by_id (RetrievedSpan.paper_id span) = None) ''INVALID_REFERENCE''
        (here @ ''.paper_id'') (''paper '' @ RetrievedSpan.paper_id span @ '' does not exist''))"

definition span_bound :: "RetrievalQuery list \<Rightarrow> Paper list \<Rightarrow> RetrievedSpan \<Rightarrow> bool" where
  "span_bound queries papers span \<longleftrightarrow>
     (\<exists>query \<in> set queries.
        RetrievalQuery.query_id query = RetrievalMetadata.query_id (retrieval span) \<and>
        RetrievalQuery.intent query = RetrievalMetadata.intent (retrieval span)) \<and>
     RetrievedSpan.paper_id span \<in> Paper.paper_id ` set papers"

lemma span_issues_clean:
  assumes "distinct (map RetrievalQuery.query_id queries)"
    and "map_of query_by_id = first_by RetrievalQuery.query_id queries"
    and "map_of paper_by_id = first_by Paper.paper_id papers"
  shows "clean (span_issues query_by_id paper_by_id i span) \<longleftrightarrow> span_bound queries papers span"
  unfolding span_issues_def span_bound_def Let_def first_by_bex [OF assms(1)] first_by_mem
  by (auto simp: assms(2,3) split: option.splits)

subsection \<open>Dispositions and canonical spans\<close>

definition disposition_issues :: "RetrievedSpan strdict \<Rightarrow> nat \<Rightarrow> RetrievalDisposition \<Rightarrow> ValidationIssue list" where
  "disposition_issues span_by_id position disposition =
     (let here = at_pos ''retrieval_dispositions'' position;
          sid = RetrievalDisposition.span_id disposition in
      error_if (map_of span_by_id sid = None) ''INVALID_REFERENCE'' (here @ ''.span_id'')
        (''retrieved span '' @ sid @ '' does not exist'') @
      (case canonical_span_id disposition of
         None \<Rightarrow> []
       | Some canonical \<Rightarrow>
           error_if (map_of span_by_id canonical = None) ''INVALID_REFERENCE''
             (here @ ''.canonical_span_id'') (''canonical span '' @ canonical @ '' does not exist'') @
           error_if (canonical = sid) ''CANONICAL_SPAN_SELF_REFERENCE'' (here @ ''.canonical_span_id'')
             ''duplicate/redundant span cannot reference itself'' @
           (case (map_of span_by_id sid, map_of span_by_id canonical) of
              (Some source, Some target) \<Rightarrow>
                error_if (RetrievedSpan.paper_id source \<noteq> RetrievedSpan.paper_id target)
                  ''CANONICAL_SPAN_CROSS_PAPER'' (here @ ''.canonical_span_id'')
                  ''duplicate/redundant canonicalization cannot cross papers''
            | _ \<Rightarrow> [])))"

fun canonical_edges :: "RetrievalDisposition list \<Rightarrow> string strdict \<Rightarrow> string strdict" where
  "canonical_edges [] edges = edges"
| "canonical_edges (d # ds) edges =
     canonical_edges ds
       (case canonical_span_id d of None \<Rightarrow> edges
        | Some c \<Rightarrow> AList.update (RetrievalDisposition.span_id d) c edges)"

definition cardinality_issues :: "RetrievedSpan strdict \<Rightarrow> RetrievalDisposition list \<Rightarrow> ValidationIssue list" where
  "cardinality_issues span_by_id dispositions =
     concat (map (\<lambda>(sid, _).
       let count = length (grouped_by RetrievalDisposition.span_id dispositions sid) in
       error_if (count \<noteq> 1) ''CARDINALITY_VIOLATION'' (at_key ''retrieved_spans'' sid @ ''.disposition'')
         (''retrieved span '' @ sid @ '' requires exactly one disposition; found '' @ nat_str count))
       span_by_id)"

definition cycle_issues :: "string strdict \<Rightarrow> ValidationIssue list" where
  "cycle_issues edges =
     concat (map (\<lambda>(start, _).
       error_if (chase edges {} start) ''CANONICAL_SPAN_CYCLE''
         (at_key ''retrieval_dispositions'' start @ ''.canonical_span_id'')
         ''duplicate/redundant canonical-span references form a cycle'') edges)"

definition collect_retrieval_bundle ::
  "CandidateClaim list \<Rightarrow> RetrievalQuery list \<Rightarrow> RetrievedSpan list \<Rightarrow> RetrievalDisposition list
    \<Rightarrow> Paper list \<Rightarrow> ValidationIssue list" where
  "collect_retrieval_bundle claims queries spans dispositions papers =
     (let (claim_by_id, is1) = index CandidateClaim.claim_id ''claim_id'' ''candidate_claims'' claims;
          (query_by_id, is2) = index RetrievalQuery.query_id ''query_id'' ''retrieval_queries'' queries;
          (span_by_id, is3) = index RetrievedSpan.span_id ''span_id'' ''retrieved_spans'' spans;
          (paper_by_id, is4) = index Paper.paper_id ''paper_id'' ''papers'' papers
      in is1 @ is2 @ is3 @ is4 @
         for_each queries (\<lambda>i query. query_hash_issues claim_by_id i query @ query_id_issues i query) @
         for_each spans (span_issues query_by_id paper_by_id) @
         for_each dispositions (disposition_issues span_by_id) @
         cardinality_issues span_by_id dispositions @
         cycle_issues (canonical_edges dispositions []))"

definition validate_retrieval_bundle ::
  "CandidateClaim list \<Rightarrow> RetrievalQuery list \<Rightarrow> RetrievedSpan list \<Rightarrow> RetrievalDisposition list
    \<Rightarrow> Paper list \<Rightarrow> ValidationReport + ValidationReport" where
  "validate_retrieval_bundle claims queries spans dispositions papers =
     finish (collect_retrieval_bundle claims queries spans dispositions papers)"

text \<open>The canonical pointer of a span, and what a disposition promises about it.\<close>

definition canonical_rel :: "RetrievalDisposition list \<Rightarrow> (string \<times> string) set" where
  "canonical_rel dispositions =
     {(RetrievalDisposition.span_id d, c) | d c. d \<in> set dispositions \<and> canonical_span_id d = Some c}"

definition disposition_bound :: "RetrievedSpan list \<Rightarrow> RetrievalDisposition \<Rightarrow> bool" where
  "disposition_bound spans d \<longleftrightarrow>
     (\<exists>source \<in> set spans. RetrievedSpan.span_id source = RetrievalDisposition.span_id d \<and>
        (\<forall>c. canonical_span_id d = Some c \<longrightarrow>
           (\<exists>target \<in> set spans. RetrievedSpan.span_id target = c \<and> target \<noteq> source \<and>
              RetrievedSpan.paper_id target = RetrievedSpan.paper_id source)))"

definition retrieval_contract ::
  "CandidateClaim list \<Rightarrow> RetrievalQuery list \<Rightarrow> RetrievedSpan list \<Rightarrow> RetrievalDisposition list
    \<Rightarrow> Paper list \<Rightarrow> bool" where
  "retrieval_contract claims queries spans dispositions papers \<longleftrightarrow>
     distinct (map CandidateClaim.claim_id claims) \<and> distinct (map RetrievalQuery.query_id queries) \<and>
     distinct (map RetrievedSpan.span_id spans) \<and> distinct (map Paper.paper_id papers) \<and>
     (\<forall>q \<in> set queries. query_bound claims q) \<and>
     (\<forall>s \<in> set spans. span_bound queries papers s) \<and>
     (\<forall>d \<in> set dispositions. disposition_bound spans d) \<and>
     (\<forall>s \<in> set spans. exactly_one (\<lambda>d. RetrievalDisposition.span_id d = RetrievedSpan.span_id s) dispositions) \<and>
     acyclic (canonical_rel dispositions)"

lemma disposition_issues_clean:
  assumes d: "distinct (map RetrievedSpan.span_id spans)"
    and m: "map_of span_by_id = first_by RetrievedSpan.span_id spans"
  shows "clean (disposition_issues span_by_id i d) \<longleftrightarrow> disposition_bound spans d"
proof -
  let ?f = "first_by RetrievedSpan.span_id spans"
  have key: "?f k = Some s \<Longrightarrow> RetrievedSpan.span_id s = k" for k s
    using first_by_SomeD by fast
  show ?thesis
    unfolding disposition_bound_def first_by_bex [OF d]
    using key by (cases "canonical_span_id d") (auto simp: disposition_issues_def m Let_def split: option.splits)
qed

lemma canonical_edges_map_of:
  "map_of (canonical_edges ds e) k = Some c \<Longrightarrow>
     map_of e k = Some c \<or> (\<exists>d \<in> set ds. RetrievalDisposition.span_id d = k \<and> canonical_span_id d = Some c)"
  by (induction ds e rule: canonical_edges.induct)
     (auto simp: update_conv split: option.splits if_splits)

lemma canonical_edges_keep:
  "map_of e k = Some c \<Longrightarrow> (\<And>d. d \<in> set ds \<Longrightarrow> RetrievalDisposition.span_id d = k \<Longrightarrow> canonical_span_id d = Some c) \<Longrightarrow>
     map_of (canonical_edges ds e) k = Some c"
  by (induction ds e rule: canonical_edges.induct)
     (auto simp: update_conv split: option.splits)

lemma canonical_edges_step:
  assumes "\<And>d d'. d \<in> set ds \<Longrightarrow> d' \<in> set ds \<Longrightarrow> RetrievalDisposition.span_id d = RetrievalDisposition.span_id d' \<Longrightarrow> d = d'"
    and "d \<in> set ds" "canonical_span_id d = Some c"
  shows "map_of (canonical_edges ds e) (RetrievalDisposition.span_id d) = Some c"
  using assms
proof (induction ds e rule: canonical_edges.induct)
  case (2 x ds e)
  let ?e = "case canonical_span_id x of None \<Rightarrow> e | Some c \<Rightarrow> AList.update (RetrievalDisposition.span_id x) c e"
  show ?case
  proof (cases "d = x")
    case True
    have "map_of (canonical_edges ds ?e) (RetrievalDisposition.span_id d) = Some c"
    proof (rule canonical_edges_keep)
      show "map_of ?e (RetrievalDisposition.span_id d) = Some c" using True 2(4) by (simp add: update_conv)
      fix d' assume "d' \<in> set ds" "RetrievalDisposition.span_id d' = RetrievalDisposition.span_id d"
      then show "canonical_span_id d' = Some c" using 2(2) [of d' d] 2(3,4) by simp
    qed
    then show ?thesis by simp
  next
    case False
    then have "d \<in> set ds" using 2(3) by simp
    have "map_of (canonical_edges ds ?e) (RetrievalDisposition.span_id d) = Some c"
      by (rule 2(1) [OF 2(2)]) (use \<open>d \<in> set ds\<close> 2(4) in simp_all)
    then show ?thesis by simp
  qed
qed simp

lemma canonical_edges_rel:
  assumes "\<And>d d'. d \<in> set ds \<Longrightarrow> d' \<in> set ds \<Longrightarrow> RetrievalDisposition.span_id d = RetrievalDisposition.span_id d' \<Longrightarrow> d = d'"
  shows "edges.step (canonical_edges ds []) = canonical_rel ds"
proof -
  have "map_of (canonical_edges ds []) k = Some c \<longleftrightarrow>
      (\<exists>d \<in> set ds. RetrievalDisposition.span_id d = k \<and> canonical_span_id d = Some c)" for k c
  proof
    assume "map_of (canonical_edges ds []) k = Some c"
    from canonical_edges_map_of [OF this]
    show "\<exists>d \<in> set ds. RetrievalDisposition.span_id d = k \<and> canonical_span_id d = Some c" by simp
  next
    assume "\<exists>d \<in> set ds. RetrievalDisposition.span_id d = k \<and> canonical_span_id d = Some c"
    then obtain d where d: "d \<in> set ds" "RetrievalDisposition.span_id d = k" "canonical_span_id d = Some c" by blast
    have "map_of (canonical_edges ds []) (RetrievalDisposition.span_id d) = Some c"
      by (rule canonical_edges_step [OF _ d(1,3)]) (rule assms)
    then show "map_of (canonical_edges ds []) k = Some c" by (simp only: d(2))
  qed
  then show ?thesis by (auto simp: edges.step_def canonical_rel_def)
qed

lemma cycle_issues_clean: "clean (cycle_issues es) \<longleftrightarrow> acyclic (edges.step es)"
  unfolding cycle_issues_def chase_none_iff_acyclic [symmetric] by (auto split: prod.splits)

lemma cardinality_issues_clean:
  assumes "fst ` set span_by_id = RetrievedSpan.span_id ` set spans"
  shows "clean (cardinality_issues span_by_id ds) \<longleftrightarrow>
    (\<forall>s \<in> set spans. exactly_one (\<lambda>d. RetrievalDisposition.span_id d = RetrievedSpan.span_id s) ds)"
proof -
  have "clean (cardinality_issues span_by_id ds) \<longleftrightarrow>
      (\<forall>k \<in> fst ` set span_by_id. exactly_one (\<lambda>d. RetrievalDisposition.span_id d = k) ds)"
    by (auto simp: cardinality_issues_def Let_def length_grouped_by_1 simp del: One_nat_def)
  then show ?thesis by (simp add: assms)
qed

lemma disposition_unique:
  assumes "\<forall>d \<in> set ds. disposition_bound spans d"
    and "\<forall>s \<in> set spans. exactly_one (\<lambda>d. RetrievalDisposition.span_id d = RetrievedSpan.span_id s) ds"
    and "d \<in> set ds" "d' \<in> set ds" "RetrievalDisposition.span_id d = RetrievalDisposition.span_id d'"
  shows "d = d'"
proof -
  from assms(1,3) obtain s where "s \<in> set spans" "RetrievedSpan.span_id s = RetrievalDisposition.span_id d"
    by (auto simp: disposition_bound_def)
  with assms(2) have "exactly_one (\<lambda>y. RetrievalDisposition.span_id y = RetrievalDisposition.span_id d) ds"
    by metis
  then obtain x where
    x: "\<And>y. y \<in> set ds \<Longrightarrow> RetrievalDisposition.span_id y = RetrievalDisposition.span_id d \<Longrightarrow> y = x"
    by (rule exactly_oneE) blast
  show ?thesis using x [OF assms(3) refl] x [OF assms(4) assms(5) [symmetric]] by simp
qed

lemma collect_retrieval_bundle_clean:
  "clean (collect_retrieval_bundle claims queries spans dispositions papers) \<longleftrightarrow>
     retrieval_contract claims queries spans dispositions papers"
proof -
  let ?D = "distinct (map CandidateClaim.claim_id claims) \<and> distinct (map RetrievalQuery.query_id queries) \<and>
     distinct (map RetrievedSpan.span_id spans) \<and> distinct (map Paper.paper_id papers)"
  let ?R = "(\<forall>q \<in> set queries. query_bound claims q) \<and> (\<forall>s \<in> set spans. span_bound queries papers s) \<and>
     (\<forall>d \<in> set dispositions. disposition_bound spans d) \<and>
     (\<forall>s \<in> set spans. exactly_one (\<lambda>d. RetrievalDisposition.span_id d = RetrievedSpan.span_id s) dispositions)"
  have "clean (collect_retrieval_bundle claims queries spans dispositions papers) \<longleftrightarrow>
      ?D \<and> ?R \<and> acyclic (edges.step (canonical_edges dispositions []))"
  proof (cases ?D)
    case True
    then have d: "distinct (map CandidateClaim.claim_id claims)" "distinct (map RetrievalQuery.query_id queries)"
      "distinct (map RetrievedSpan.span_id spans)" by blast+
    note q = query_issues_clean [OF d(1), of "fst (index CandidateClaim.claim_id ''claim_id'' ''candidate_claims'' claims)"]
    note s = span_issues_clean [OF d(2), of "fst (index RetrievalQuery.query_id ''query_id'' ''retrieval_queries'' queries)"
        "fst (index Paper.paper_id ''paper_id'' ''papers'' papers)" papers]
    note p = disposition_issues_clean [OF d(3), of "fst (index RetrievedSpan.span_id ''span_id'' ''retrieved_spans'' spans)"]
    show ?thesis
      unfolding collect_retrieval_bundle_def Let_def split_beta clean_append index_clean cycle_issues_clean
        cardinality_issues_clean [OF index_key_set]
        clean_for_each [OF s [OF index_map_of index_map_of]] clean_for_each [OF p [OF index_map_of]]
      by (subst clean_for_each [where P = "query_bound claims"])
         (use True in \<open>auto simp only: clean_append q [OF index_map_of]\<close>)
  next
    case False
    then show ?thesis
      unfolding collect_retrieval_bundle_def Let_def split_beta clean_append index_clean by blast
  qed
  also have "\<dots> \<longleftrightarrow> ?D \<and> ?R \<and> acyclic (canonical_rel dispositions)"
  proof (intro conj_cong refl)
    assume ?R
    then have "edges.step (canonical_edges dispositions []) = canonical_rel dispositions"
      by (intro canonical_edges_rel) (rule disposition_unique [of dispositions spans], blast+)
    then show "acyclic (edges.step (canonical_edges dispositions [])) = acyclic (canonical_rel dispositions)"
      by (simp only:)
  qed
  finally show ?thesis unfolding retrieval_contract_def by blast
qed

text \<open>
  C26: The retrieval validator decides its contract: it succeeds exactly when IDs are unique, every
  query names an existing claim, carries the hash of that claim's current text and parses to its
  own claim and intent with an ordinal from 1 to 99, every span comes from an existing query of
  its intent and an existing paper, every span has exactly one disposition, and the canonical
  pointers join different spans of one paper without a cycle.
\<close>

theorem retrieval_bundle_correct:
  "(\<exists>r. validate_retrieval_bundle claims queries spans dispositions papers = Inr r) \<longleftrightarrow>
     retrieval_contract claims queries spans dispositions papers"
  by (simp add: validate_retrieval_bundle_def finish_ok_iff collect_retrieval_bundle_clean)

text \<open>Following canonical pointers: the spans a retrieved span is redirected to.\<close>

lemma canonical_rel_paper:
  assumes "\<forall>d \<in> set ds. disposition_bound spans d" "distinct (map RetrievedSpan.span_id spans)"
    and "(RetrievedSpan.span_id s, k) \<in> (canonical_rel ds)\<^sup>*" "s \<in> set spans"
  shows "\<exists>t \<in> set spans. RetrievedSpan.span_id t = k \<and> RetrievedSpan.paper_id t = RetrievedSpan.paper_id s"
  using assms(3)
proof (induction rule: rtrancl_induct)
  case base
  then show ?case using assms(4) by blast
next
  case (step y z)
  from step(2) obtain d where d: "d \<in> set ds" "RetrievalDisposition.span_id d = y" "canonical_span_id d = Some z"
    by (auto simp: canonical_rel_def)
  from step(3) obtain t where t: "t \<in> set spans" "RetrievedSpan.span_id t = y"
      "RetrievedSpan.paper_id t = RetrievedSpan.paper_id s" by blast
  from assms(1) d obtain u v where u: "u \<in> set spans" "RetrievedSpan.span_id u = y"
      and v: "v \<in> set spans" "RetrievedSpan.span_id v = z" "RetrievedSpan.paper_id v = RetrievedSpan.paper_id u"
    unfolding disposition_bound_def by blast
  have "u = t" using assms(2) u(1,2) t(1,2) by (auto simp: distinct_map dest: inj_onD)
  with v t show ?case by auto
qed

text \<open>
  C27: In a retrieval bundle that validates, following the canonical pointers from any retrieved
  span reaches, after finitely many steps, a span of the same paper that has no canonical
  pointer of its own; no chain of duplicates loops or leaves its paper.
\<close>

theorem canonical_span_resolves:
  assumes "validate_retrieval_bundle claims queries spans dispositions papers = Inr r" and "s \<in> set spans"
  shows "\<exists>t \<in> set spans. (RetrievedSpan.span_id s, RetrievedSpan.span_id t) \<in> (canonical_rel dispositions)\<^sup>* \<and>
    RetrievedSpan.paper_id t = RetrievedSpan.paper_id s \<and>
    RetrievedSpan.span_id t \<notin> Domain (canonical_rel dispositions)"
proof -
  have c: "retrieval_contract claims queries spans dispositions papers"
    using assms(1) collect_retrieval_bundle_clean by (simp add: validate_retrieval_bundle_def finish_Inr_iff)
  let ?e = "canonical_edges dispositions []"
  have step: "edges.step ?e = canonical_rel dispositions"
    using c unfolding retrieval_contract_def
    by (intro canonical_edges_rel) (rule disposition_unique [of dispositions spans], blast+)
  then have "edges.halts ?e (RetrievedSpan.span_id s)"
    using c by (intro edges.acyclic_halts) (simp add: retrieval_contract_def)
  then obtain b where b: "(RetrievedSpan.span_id s, b) \<in> (canonical_rel dispositions)\<^sup>*" "map_of ?e b = None"
    using edges.halts_end [of ?e] by (auto simp: step)
  have "b \<notin> Domain (canonical_rel dispositions)"
    using b(2) unfolding step [symmetric] by (auto simp: edges.step_def)
  moreover obtain t where "t \<in> set spans" "RetrievedSpan.span_id t = b"
      "RetrievedSpan.paper_id t = RetrievedSpan.paper_id s"
    using canonical_rel_paper [OF _ _ b(1) assms(2)] c by (auto simp: retrieval_contract_def)
  ultimately show ?thesis using b(1) by blast
qed

subsection \<open>Evidence records\<close>

definition evidence_issues ::
  "CandidateClaim strdict \<Rightarrow> RetrievalQuery strdict \<Rightarrow> RetrievedSpan strdict \<Rightarrow> RetrievalDisposition list
    \<Rightarrow> nat \<Rightarrow> EvidenceRecord \<Rightarrow> ValidationIssue list" where
  "evidence_issues claim_by_id query_by_id span_by_id retrieval_dispositions position evidence =
     (let here = at_pos ''evidence_records'' position in
      error_if (map_of claim_by_id (EvidenceRecord.claim_id evidence) = None) ''INVALID_REFERENCE''
        (here @ ''.claim_id'') (''candidate claim '' @ EvidenceRecord.claim_id evidence @ '' does not exist'') @
      (case map_of span_by_id (retrieved_span_id evidence) of
         None \<Rightarrow> collector_error ''INVALID_REFERENCE'' (here @ ''.retrieved_span_id'')
                   (''retrieved span '' @ retrieved_span_id evidence @ '' does not exist'')
       | Some span \<Rightarrow>
           (case map_of query_by_id (RetrievalMetadata.query_id (retrieval span)) of
              None \<Rightarrow> collector_error ''INVALID_REFERENCE''
                        (at_key ''retrieved_spans'' (RetrievedSpan.span_id span) @ ''.retrieval.query_id'')
                        (''retrieval query '' @ RetrievalMetadata.query_id (retrieval span) @ '' does not exist'')
            | Some query \<Rightarrow>
                error_if (EvidenceRecord.claim_id evidence \<noteq> RetrievalQuery.claim_id query)
                  ''EVIDENCE_CLAIM_MISMATCH'' (here @ ''.claim_id'')
                  (''evidence claim does not match retrieval query '' @ RetrievalQuery.query_id query)) @
           error_if (EvidenceRecord.paper_id evidence \<noteq> RetrievedSpan.paper_id span)
             ''EVIDENCE_PAPER_MISMATCH'' (here @ ''.paper_id'')
             (''evidence paper does not match retrieved span '' @ RetrievedSpan.span_id span) @
           (case grouped_by RetrievalDisposition.span_id retrieval_dispositions (RetrievedSpan.span_id span) of
              [d] \<Rightarrow> error_if (RetrievalDisposition.status d \<noteq> RetrievalDispositionStatus.ASSESSED)
                       ''DISCARDED_SPAN_HAS_EVIDENCE'' (here @ ''.retrieved_span_id'')
                       (''span '' @ RetrievedSpan.span_id span @ '' is not uniquely disposed as assessed'')
            | _ \<Rightarrow> collector_error ''DISCARDED_SPAN_HAS_EVIDENCE'' (here @ ''.retrieved_span_id'')
                       (''span '' @ RetrievedSpan.span_id span @ '' is not uniquely disposed as assessed''))))"

definition span_evidence_issues ::
  "RetrievalQuery strdict \<Rightarrow> RetrievalDisposition list \<Rightarrow> EvidenceRecord list \<Rightarrow> RetrievedSpan
    \<Rightarrow> ValidationIssue list" where
  "span_evidence_issues query_by_id retrieval_dispositions evidence_records span =
     (let sid = RetrievedSpan.span_id span;
          here = at_key ''retrieved_spans'' sid @ ''.evidence'' in
      case grouped_by RetrievalDisposition.span_id retrieval_dispositions sid of
        [d] \<Rightarrow>
          (let records = grouped_by retrieved_span_id evidence_records sid in
           if RetrievalDisposition.status d = RetrievalDispositionStatus.ASSESSED then
             (let relevant =
                (case map_of query_by_id (RetrievalMetadata.query_id (retrieval span)) of
                   None \<Rightarrow> []
                 | Some query \<Rightarrow>
                     filter (\<lambda>record. EvidenceRecord.claim_id record = RetrievalQuery.claim_id query) records)
              in error_if (length relevant \<noteq> 1) ''ASSESSED_SPAN_EVIDENCE_CARDINALITY'' here
                   (''assessed span requires exactly one relevant EvidenceRecord; found '' @
                    nat_str (length relevant)))
           else error_if (records \<noteq> []) ''DISCARDED_SPAN_HAS_EVIDENCE'' here
                  (''discarded span '' @ sid @ '' cannot generate EvidenceRecords''))
      | _ \<Rightarrow> [])"

definition collect_evidence_bundle ::
  "CandidateClaim list \<Rightarrow> RetrievalQuery list \<Rightarrow> RetrievedSpan list \<Rightarrow> RetrievalDisposition list
    \<Rightarrow> EvidenceRecord list \<Rightarrow> ValidationIssue list" where
  "collect_evidence_bundle claims queries spans dispositions evidence =
     (let (claim_by_id, is1) = index CandidateClaim.claim_id ''claim_id'' ''candidate_claims'' claims;
          (query_by_id, is2) = index RetrievalQuery.query_id ''query_id'' ''retrieval_queries'' queries;
          (span_by_id, is3) = index RetrievedSpan.span_id ''span_id'' ''retrieved_spans'' spans;
          (_, is4) = index evidence_id ''evidence_id'' ''evidence_records'' evidence
      in is1 @ is2 @ is3 @ is4 @
         for_each evidence (evidence_issues claim_by_id query_by_id span_by_id dispositions) @
         concat (map (span_evidence_issues query_by_id dispositions evidence) spans))"

definition validate_evidence_bundle ::
  "CandidateClaim list \<Rightarrow> RetrievalQuery list \<Rightarrow> RetrievedSpan list \<Rightarrow> RetrievalDisposition list
    \<Rightarrow> EvidenceRecord list \<Rightarrow> ValidationReport + ValidationReport" where
  "validate_evidence_bundle claims queries spans dispositions evidence =
     finish (collect_evidence_bundle claims queries spans dispositions evidence)"

text \<open>A span is assessed when its only disposition says so.\<close>

definition assessed :: "RetrievalDisposition list \<Rightarrow> string \<Rightarrow> bool" where
  "assessed dispositions sid \<longleftrightarrow>
     (\<exists>d. grouped_by RetrievalDisposition.span_id dispositions sid = [d] \<and>
        RetrievalDisposition.status d = RetrievalDispositionStatus.ASSESSED)"

definition evidence_bound ::
  "CandidateClaim list \<Rightarrow> RetrievalQuery list \<Rightarrow> RetrievedSpan list \<Rightarrow> RetrievalDisposition list
    \<Rightarrow> EvidenceRecord \<Rightarrow> bool" where
  "evidence_bound claims queries spans dispositions e \<longleftrightarrow>
     EvidenceRecord.claim_id e \<in> CandidateClaim.claim_id ` set claims \<and>
     (\<exists>span \<in> set spans. RetrievedSpan.span_id span = retrieved_span_id e \<and>
        RetrievedSpan.paper_id span = EvidenceRecord.paper_id e \<and>
        assessed dispositions (retrieved_span_id e) \<and>
        (\<exists>query \<in> set queries.
           RetrievalQuery.query_id query = RetrievalMetadata.query_id (retrieval span) \<and>
           RetrievalQuery.claim_id query = EvidenceRecord.claim_id e))"

definition evidence_contract ::
  "CandidateClaim list \<Rightarrow> RetrievalQuery list \<Rightarrow> RetrievedSpan list \<Rightarrow> RetrievalDisposition list
    \<Rightarrow> EvidenceRecord list \<Rightarrow> bool" where
  "evidence_contract claims queries spans dispositions evidence \<longleftrightarrow>
     distinct (map CandidateClaim.claim_id claims) \<and> distinct (map RetrievalQuery.query_id queries) \<and>
     distinct (map RetrievedSpan.span_id spans) \<and> distinct (map evidence_id evidence) \<and>
     (\<forall>e \<in> set evidence. evidence_bound claims queries spans dispositions e) \<and>
     (\<forall>s \<in> set spans. assessed dispositions (RetrievedSpan.span_id s) \<longrightarrow>
        exactly_one (\<lambda>e. retrieved_span_id e = RetrievedSpan.span_id s) evidence)"

lemma assessed_case:
  "clean (case grouped_by RetrievalDisposition.span_id ds k of [d] \<Rightarrow> error_if (RetrievalDisposition.status d \<noteq> RetrievalDispositionStatus.ASSESSED) c p m
     | _ \<Rightarrow> collector_error c p m) \<longleftrightarrow> assessed ds k"
  by (auto simp: assessed_def split: list.splits)

lemma evidence_issues_clean:
  assumes "distinct (map RetrievalQuery.query_id queries)" "distinct (map RetrievedSpan.span_id spans)"
    and "map_of claim_by_id = first_by CandidateClaim.claim_id claims"
    and "map_of query_by_id = first_by RetrievalQuery.query_id queries"
    and "map_of span_by_id = first_by RetrievedSpan.span_id spans"
  shows "clean (evidence_issues claim_by_id query_by_id span_by_id ds i e) \<longleftrightarrow>
    evidence_bound claims queries spans ds e"
proof -
  have key: "first_by RetrievedSpan.span_id spans k = Some s \<Longrightarrow> RetrievedSpan.span_id s = k" for k s
    using first_by_SomeD by fast
  show ?thesis
    unfolding evidence_bound_def first_by_bex [OF assms(1)] first_by_bex [OF assms(2)] first_by_mem
      evidence_issues_def Let_def assms(3-5)
    by (auto simp: assessed_case dest: key split: option.splits)
qed

lemma span_evidence_issues_clean:
  assumes d: "distinct (map RetrievalQuery.query_id queries)" "distinct (map RetrievedSpan.span_id spans)"
    and m: "map_of query_by_id = first_by RetrievalQuery.query_id queries"
    and b: "\<forall>e \<in> set evidence. evidence_bound claims queries spans ds e"
    and s: "s \<in> set spans"
  shows "clean (span_evidence_issues query_by_id ds evidence s) \<longleftrightarrow>
    (assessed ds (RetrievedSpan.span_id s) \<longrightarrow> exactly_one (\<lambda>e. retrieved_span_id e = RetrievedSpan.span_id s) evidence)"
proof -
  let ?k = "RetrievedSpan.span_id s"
  let ?q = "first_by RetrievalQuery.query_id queries (RetrievalMetadata.query_id (retrieval s))"
  let ?records = "grouped_by retrieved_span_id evidence ?k"
  have rec: "assessed ds ?k \<and> (\<exists>q. ?q = Some q \<and> RetrievalQuery.claim_id q = EvidenceRecord.claim_id e)"
    if "e \<in> set ?records" for e
  proof -
    from that b have "evidence_bound claims queries spans ds e" "retrieved_span_id e = ?k" by auto
    then obtain t q where t: "t \<in> set spans" "RetrievedSpan.span_id t = ?k" "assessed ds ?k"
      and q: "q \<in> set queries" "RetrievalQuery.query_id q = RetrievalMetadata.query_id (retrieval t)"
        "RetrievalQuery.claim_id q = EvidenceRecord.claim_id e"
      unfolding evidence_bound_def by metis
    have "t = s" using d(2) t(1,2) s by (auto simp: distinct_map dest: inj_onD)
    with q t(3) show ?thesis by (auto simp: first_by_Some_iff [OF d(1)])
  qed
  show ?thesis
  proof (cases "assessed ds ?k")
    case True
    then obtain x where x: "grouped_by RetrievalDisposition.span_id ds ?k = [x]"
        "RetrievalDisposition.status x = RetrievalDispositionStatus.ASSESSED" by (auto simp: assessed_def)
    have "(case ?q of None \<Rightarrow> [] | Some query \<Rightarrow>
        filter (\<lambda>record. EvidenceRecord.claim_id record = RetrievalQuery.claim_id query) ?records) = ?records"
    proof (cases "?records = []")
      case False
      then obtain e where "e \<in> set ?records" by (cases ?records) auto
      then obtain q where q: "?q = Some q" using rec by blast
      have "\<forall>e \<in> set ?records. EvidenceRecord.claim_id e = RetrievalQuery.claim_id q"
        using rec q by (metis option.inject)
      then show ?thesis by (simp only: q option.case filter_True)
    qed (simp split: option.split)
    then have "clean (span_evidence_issues query_by_id ds evidence s) \<longleftrightarrow> length ?records = 1"
      by (simp add: span_evidence_issues_def Let_def x m)
    then show ?thesis using True by (simp only: length_grouped_by_1 simp_thms)
  next
    case False
    then have "?records = []" using rec by (cases ?records) auto
    then show ?thesis using False
      by (auto simp: span_evidence_issues_def Let_def assessed_def split: list.splits)
  qed
qed

lemma collect_evidence_bundle_clean:
  "clean (collect_evidence_bundle claims queries spans ds evidence) \<longleftrightarrow>
     evidence_contract claims queries spans ds evidence"
proof (cases "distinct (map RetrievalQuery.query_id queries) \<and> distinct (map RetrievedSpan.span_id spans)")
  case True
  then have d: "distinct (map RetrievalQuery.query_id queries)" "distinct (map RetrievedSpan.span_id spans)" by blast+
  note e = evidence_issues_clean [OF d index_map_of index_map_of index_map_of]
  have s: "(\<forall>e \<in> set evidence. evidence_bound claims queries spans ds e) \<Longrightarrow>
      clean (concat (map (span_evidence_issues (fst (index RetrievalQuery.query_id a l queries)) ds evidence) spans)) \<longleftrightarrow>
      (\<forall>s \<in> set spans. assessed ds (RetrievedSpan.span_id s) \<longrightarrow>
        exactly_one (\<lambda>e. retrieved_span_id e = RetrievedSpan.span_id s) evidence)" for a l
    using span_evidence_issues_clean [OF d index_map_of, of evidence claims ds] by simp
  show ?thesis
    unfolding collect_evidence_bundle_def evidence_contract_def Let_def split_beta clean_append index_clean
      clean_for_each [OF e] conj_assoc
    by (intro conj_cong refl s)
next
  case False
  then show ?thesis
    unfolding collect_evidence_bundle_def evidence_contract_def Let_def split_beta clean_append index_clean by blast
qed

text \<open>
  C28: The evidence validator decides its contract: it succeeds exactly when IDs are unique, every
  evidence record names an existing claim and an assessed span of its own paper that was retrieved
  by a query for that same claim, and every assessed span has exactly one evidence record. So
  evidence records and assessed spans correspond one to one.
\<close>

theorem evidence_bundle_correct:
  "(\<exists>r. validate_evidence_bundle claims queries spans ds evidence = Inr r) \<longleftrightarrow>
     evidence_contract claims queries spans ds evidence"
  by (simp add: validate_evidence_bundle_def finish_ok_iff collect_evidence_bundle_clean)

end
