(* ===== verification/VR_Val_Claims.thy ===== *)
theory VR_Val_Claims
  imports VR_Models
begin

section \<open>Claim-paper evidence and claim packets (\<open>validators.py\<close>)\<close>

text \<open>
  \<open>_collect_claim_evidence_bundle\<close> checks that each claim-paper evidence object (CPE) partitions
  its evidence records by their stance, \<open>_collect_claim_bundle\<close> that a claim packet repeats the
  claim, its assessment and its final validation, and \<open>_collect_packet_evidence_closure\<close> that a
  packet leaves no evidence record of its claim outside the CPEs.
\<close>

subsection \<open>Claim-paper evidence\<close>

definition cpe_member_issues ::
  "EvidenceRecord strdict \<Rightarrow> string \<Rightarrow> ClaimPaperEvidence \<Rightarrow> EvidenceRelation \<Rightarrow> string \<Rightarrow> ValidationIssue list" where
  "cpe_member_issues evidence_by_id here cpe relation eid =
     (case map_of evidence_by_id eid of
        None \<Rightarrow> collector_error ''INVALID_REFERENCE''
                  (here @ ''.component_relations.'' @ EvidenceRelation_value relation)
                  (''EvidenceRecord '' @ eid @ '' does not exist'')
      | Some evidence \<Rightarrow>
          error_if (EvidenceRecord.claim_id evidence \<noteq> ClaimPaperEvidence.claim_id cpe)
            ''CPE_CLAIM_MISMATCH'' (here @ ''.evidence_ids'')
            (''evidence '' @ eid @ '' belongs to '' @ EvidenceRecord.claim_id evidence) @
          error_if (EvidenceRecord.paper_id evidence \<noteq> ClaimPaperEvidence.paper_id cpe)
            ''CPE_PAPER_MISMATCH'' (here @ ''.evidence_ids'')
            (''evidence '' @ eid @ '' belongs to '' @ EvidenceRecord.paper_id evidence) @
          error_if (EvidenceRecord.relation_to_candidate evidence \<noteq> relation)
            ''CPE_RELATION_MISMATCH'' (here @ ''.component_relations.'' @ EvidenceRelation_value relation)
            (''evidence '' @ eid @ '' has stance '' @
             EvidenceRelation_value (EvidenceRecord.relation_to_candidate evidence)))"

definition cpe_issues ::
  "CandidateClaim strdict \<Rightarrow> Paper strdict \<Rightarrow> EvidenceRecord strdict \<Rightarrow> nat \<Rightarrow> ClaimPaperEvidence
    \<Rightarrow> ValidationIssue list" where
  "cpe_issues claim_by_id paper_by_id evidence_by_id position cpe =
     (let here = at_pos ''claim_paper_evidence'' position;
          groups = grouped (component_relations cpe);
          ids = grouped_ids (component_relations cpe) in
      error_if (map_of claim_by_id (ClaimPaperEvidence.claim_id cpe) = None) ''INVALID_REFERENCE''
        (here @ ''.claim_id'') (''candidate claim '' @ ClaimPaperEvidence.claim_id cpe @ '' does not exist'') @
      error_if (map_of paper_by_id (ClaimPaperEvidence.paper_id cpe) = None) ''INVALID_REFERENCE''
        (here @ ''.paper_id'') (''paper '' @ ClaimPaperEvidence.paper_id cpe @ '' does not exist'') @
      error_if (length (evidence_ids cpe) \<noteq> card (set (evidence_ids cpe)) \<or> length ids \<noteq> card (set ids))
        ''CPE_EVIDENCE_PARTITION_MISMATCH'' (here @ ''.component_relations'')
        ''CPE evidence IDs must occur exactly once'' @
      error_if (set ids \<noteq> set (evidence_ids cpe))
        ''CPE_EVIDENCE_PARTITION_MISMATCH'' (here @ ''.component_relations'')
        ''component relation union must equal evidence_ids'' @
      concat (map (\<lambda>(relation, eids).
        concat (map (cpe_member_issues evidence_by_id here cpe relation) eids)) groups) @
      error_if (ClaimPaperEvidence.relation_to_candidate cpe = AggregateRelation.MIXED \<and>
          count_nonempty [supports (component_relations cpe), contradicts (component_relations cpe),
            qualifies (component_relations cpe)] < 2)
        ''INVALID_MIXED_CPE'' (here @ ''.relation_to_candidate'')
        ''mixed CPE requires at least two substantive evidence categories'')"

definition collect_claim_evidence_bundle ::
  "CandidateClaim list \<Rightarrow> Paper list \<Rightarrow> EvidenceRecord list \<Rightarrow> ClaimPaperEvidence list
    \<Rightarrow> ValidationIssue list" where
  "collect_claim_evidence_bundle claims papers evidence cpes =
     (let (claim_by_id, is1) = index CandidateClaim.claim_id ''claim_id'' ''candidate_claims'' claims;
          (paper_by_id, is2) = index Paper.paper_id ''paper_id'' ''papers'' papers;
          (evidence_by_id, is3) = index evidence_id ''evidence_id'' ''evidence_records'' evidence;
          (_, is4) = index ClaimPaperEvidence.claim_paper_evidence_id ''claim_paper_evidence_id''
            ''claim_paper_evidence'' cpes
      in is1 @ is2 @ is3 @ is4 @
         for_each cpes (cpe_issues claim_by_id paper_by_id evidence_by_id))"

definition validate_claim_evidence_bundle ::
  "CandidateClaim list \<Rightarrow> Paper list \<Rightarrow> EvidenceRecord list \<Rightarrow> ClaimPaperEvidence list
    \<Rightarrow> ValidationReport + ValidationReport" where
  "validate_claim_evidence_bundle claims papers evidence cpes =
     finish (collect_claim_evidence_bundle claims papers evidence cpes)"

text \<open>
  The members of a CPE: every listed evidence record exists, is about the CPE's claim and paper,
  and stands in the group of its own stance; the groups partition the list.
\<close>

definition cpe_member :: "EvidenceRecord list \<Rightarrow> ClaimPaperEvidence \<Rightarrow> EvidenceRelation \<Rightarrow> string \<Rightarrow> bool" where
  "cpe_member evidence cpe relation eid \<longleftrightarrow>
     (\<exists>e \<in> set evidence. evidence_id e = eid \<and>
        EvidenceRecord.claim_id e = ClaimPaperEvidence.claim_id cpe \<and>
        EvidenceRecord.paper_id e = ClaimPaperEvidence.paper_id cpe \<and>
        EvidenceRecord.relation_to_candidate e = relation)"

definition cpe_bound :: "CandidateClaim list \<Rightarrow> Paper list \<Rightarrow> EvidenceRecord list \<Rightarrow> ClaimPaperEvidence \<Rightarrow> bool" where
  "cpe_bound claims papers evidence cpe \<longleftrightarrow>
     ClaimPaperEvidence.claim_id cpe \<in> CandidateClaim.claim_id ` set claims \<and>
     ClaimPaperEvidence.paper_id cpe \<in> Paper.paper_id ` set papers \<and>
     distinct (evidence_ids cpe) \<and> distinct (grouped_ids (component_relations cpe)) \<and>
     set (grouped_ids (component_relations cpe)) = set (evidence_ids cpe) \<and>
     (\<forall>(relation, eids) \<in> set (grouped (component_relations cpe)). \<forall>eid \<in> set eids.
        cpe_member evidence cpe relation eid) \<and>
     (ClaimPaperEvidence.relation_to_candidate cpe = AggregateRelation.MIXED \<longrightarrow>
        2 \<le> count_nonempty [supports (component_relations cpe), contradicts (component_relations cpe),
              qualifies (component_relations cpe)])"

definition claim_evidence_contract ::
  "CandidateClaim list \<Rightarrow> Paper list \<Rightarrow> EvidenceRecord list \<Rightarrow> ClaimPaperEvidence list \<Rightarrow> bool" where
  "claim_evidence_contract claims papers evidence cpes \<longleftrightarrow>
     distinct (map CandidateClaim.claim_id claims) \<and> distinct (map Paper.paper_id papers) \<and>
     distinct (map evidence_id evidence) \<and>
     distinct (map ClaimPaperEvidence.claim_paper_evidence_id cpes) \<and>
     (\<forall>cpe \<in> set cpes. cpe_bound claims papers evidence cpe)"

lemma cpe_member_issues_clean:
  assumes "distinct (map evidence_id evidence)" "map_of evidence_by_id = first_by evidence_id evidence"
  shows "clean (cpe_member_issues evidence_by_id here cpe relation eid) \<longleftrightarrow> cpe_member evidence cpe relation eid"
  unfolding cpe_member_def first_by_bex [OF assms(1)] cpe_member_issues_def assms(2)
  by (auto split: option.splits)

lemma length_card_distinct: "length xs \<noteq> card (set xs) \<longleftrightarrow> \<not> distinct xs"
  by (metis card_distinct distinct_card)

lemma cpe_issues_clean:
  assumes "distinct (map evidence_id evidence)" "map_of evidence_by_id = first_by evidence_id evidence"
    and "map_of claim_by_id = first_by CandidateClaim.claim_id claims"
    and "map_of paper_by_id = first_by Paper.paper_id papers"
  shows "clean (cpe_issues claim_by_id paper_by_id evidence_by_id i cpe) \<longleftrightarrow> cpe_bound claims papers evidence cpe"
proof -
  have groups: "clean (concat (map (\<lambda>(relation, eids).
        concat (map (cpe_member_issues evidence_by_id here cpe relation) eids)) gs)) \<longleftrightarrow>
      (\<forall>(relation, eids) \<in> set gs. \<forall>eid \<in> set eids. cpe_member evidence cpe relation eid)" for here gs
    by (simp add: split_beta cpe_member_issues_clean [OF assms(1,2)])
  show ?thesis
    unfolding cpe_issues_def cpe_bound_def Let_def clean_append groups clean_error_if
      length_card_distinct first_by_mem assms(3,4)
    by (auto simp: not_less)
qed

lemma collect_claim_evidence_bundle_clean:
  "clean (collect_claim_evidence_bundle claims papers evidence cpes) \<longleftrightarrow>
     claim_evidence_contract claims papers evidence cpes"
proof (cases "distinct (map evidence_id evidence)")
  case True
  show ?thesis
    unfolding collect_claim_evidence_bundle_def claim_evidence_contract_def Let_def split_beta clean_append
      index_clean clean_for_each [OF cpe_issues_clean [OF True index_map_of index_map_of index_map_of]] conj_assoc ..
next
  case False
  then show ?thesis
    unfolding collect_claim_evidence_bundle_def claim_evidence_contract_def Let_def split_beta clean_append index_clean
    by blast
qed

text \<open>
  C29: The claim-evidence validator decides its contract: it succeeds exactly when IDs are unique
  and every CPE lists each of its evidence records once, puts each into exactly one group, the
  group of the record's own stance, all of them are about the CPE's claim and paper, and a mixed
  CPE has at least two substantive groups.
\<close>

theorem claim_evidence_bundle_correct:
  "(\<exists>r. validate_claim_evidence_bundle claims papers evidence cpes = Inr r) \<longleftrightarrow>
     claim_evidence_contract claims papers evidence cpes"
  by (simp add: validate_claim_evidence_bundle_def finish_ok_iff collect_claim_evidence_bundle_clean)

subsection \<open>Assessments, final validations and packets\<close>

definition claim_ref_issues :: "CandidateClaim strdict \<Rightarrow> string \<Rightarrow> string list \<Rightarrow> ValidationIssue list" where
  "claim_ref_issues claim_by_id label cids =
     for_each cids (\<lambda>position cid.
       error_if (map_of claim_by_id cid = None) ''INVALID_REFERENCE'' (at_pos label position @ ''.claim_id'')
         (''candidate claim '' @ cid @ '' does not exist''))"

definition final_relation_issues ::
  "ClaimPaperEvidence strdict \<Rightarrow> string \<Rightarrow> FinalClaimValidation \<Rightarrow> nat \<Rightarrow> FinalPaperRelation
    \<Rightarrow> ValidationIssue list" where
  "final_relation_issues cpe_by_id here final relation_position relation =
     (let loc = at_pos (here @ ''.paper_relations'') relation_position in
      case map_of cpe_by_id (FinalPaperRelation.claim_paper_evidence_id relation) of
        None \<Rightarrow> collector_error ''INVALID_REFERENCE'' (loc @ ''.claim_paper_evidence_id'')
                  (''CPE '' @ FinalPaperRelation.claim_paper_evidence_id relation @ '' does not exist'')
      | Some cpe \<Rightarrow>
          error_if (ClaimPaperEvidence.claim_id cpe \<noteq> FinalClaimValidation.claim_id final)
            ''CPE_SET_CONTINUITY_MISMATCH'' (loc @ ''.claim_paper_evidence_id'')
            (''CPE belongs to '' @ ClaimPaperEvidence.claim_id cpe @ '', not '' @
             FinalClaimValidation.claim_id final) @
          error_if (ClaimPaperEvidence.paper_id cpe \<noteq> FinalPaperRelation.paper_id relation)
            ''FINAL_RELATION_PAPER_MISMATCH'' (loc @ ''.paper_id'')
            (''paper relation does not match CPE '' @ ClaimPaperEvidence.claim_paper_evidence_id cpe))"

definition packet_claim_issues :: "CandidateClaim strdict \<Rightarrow> string \<Rightarrow> ClaimPacket \<Rightarrow> ValidationIssue list" where
  "packet_claim_issues claim_by_id loc packet =
     (case map_of claim_by_id (ClaimPacket.claim_id packet) of
        None \<Rightarrow> []
      | Some claim \<Rightarrow>
          error_if (ClaimPacket.candidate_claim packet \<noteq> CandidateClaim.candidate_claim claim)
            ''CLAIM_PACKET_UPSTREAM_MISMATCH'' (loc @ ''.candidate_claim'')
            ''candidate_claim differs from CandidateClaim'' @
          error_if (ClaimPacket.theme_id packet \<noteq> CandidateClaim.theme_id claim)
            ''CLAIM_PACKET_UPSTREAM_MISMATCH'' (loc @ ''.theme_id'') ''theme_id differs from CandidateClaim'')"

definition packet_assessment_issues :: "ClaimAssessment strdict \<Rightarrow> string \<Rightarrow> ClaimPacket \<Rightarrow> ValidationIssue list" where
  "packet_assessment_issues assessment_by_claim loc packet =
     (case map_of assessment_by_claim (ClaimPacket.claim_id packet) of
        None \<Rightarrow> collector_error ''INVALID_REFERENCE'' (loc @ ''.claim_id'')
                  (''ClaimAssessment for '' @ ClaimPacket.claim_id packet @ '' does not exist'')
      | Some assessment \<Rightarrow>
          error_if (ClaimPacket.aggregate_strength packet \<noteq> ClaimAssessment.aggregate_strength assessment)
            ''CLAIM_PACKET_UPSTREAM_MISMATCH'' (loc @ ''.aggregate_strength'')
            ''aggregate_strength differs from ClaimAssessment'' @
          error_if (decision assessment = ClaimDecision.REJECT)
            ''REJECT_CANNOT_YIELD_CLAIM_PACKET'' (loc @ ''.claim_id'')
            ''a rejected ClaimAssessment cannot yield a ClaimPacket'')"

definition packet_final_issues ::
  "ClaimPaperEvidence list \<Rightarrow> FinalClaimValidation strdict \<Rightarrow> string \<Rightarrow> ClaimPacket \<Rightarrow> ValidationIssue list" where
  "packet_final_issues claim_paper_evidence final_by_claim loc packet =
     (case map_of final_by_claim (ClaimPacket.claim_id packet) of
        None \<Rightarrow> collector_error ''INVALID_REFERENCE'' (loc @ ''.claim_id'')
                  (''FinalClaimValidation for '' @ ClaimPacket.claim_id packet @ '' does not exist'')
      | Some final \<Rightarrow>
          (let relation_ids = map FinalPaperRelation.claim_paper_evidence_id (paper_relations final);
               packet_ids = claim_paper_evidence_ids packet;
               claim_cpe_ids = set (map ClaimPaperEvidence.claim_paper_evidence_id
                 (filter (\<lambda>cpe. ClaimPaperEvidence.claim_id cpe = ClaimPacket.claim_id packet)
                    claim_paper_evidence)) in
           error_if (FinalClaimValidation.status final \<noteq> FinalClaimStatus.VALID)
             ''CLAIM_PACKET_REQUIRES_VALID_FINAL_CLAIM'' (loc @ ''.claim_id'')
             (''final validation status is '' @ FinalClaimStatus_value (FinalClaimValidation.status final)) @
           error_if (ClaimPacket.final_claim packet \<noteq> FinalClaimValidation.final_claim final)
             ''CLAIM_PACKET_UPSTREAM_MISMATCH'' (loc @ ''.final_claim'')
             ''final_claim differs from FinalClaimValidation'' @
           error_if (length packet_ids \<noteq> card (set packet_ids) \<or>
                     length relation_ids \<noteq> card (set relation_ids) \<or> set packet_ids \<noteq> set relation_ids)
             ''CPE_SET_CONTINUITY_MISMATCH'' (loc @ ''.claim_paper_evidence_ids'')
             ''ClaimPacket CPE set must exactly equal final paper-relation CPE set'' @
           error_if (set relation_ids \<noteq> claim_cpe_ids)
             ''FINAL_CPE_COVERAGE_MISMATCH'' (loc @ ''.claim_id'')
             (''final validation paper_relations must exactly cover every current CPE for '' @
              ClaimPacket.claim_id packet @ '' while a ClaimPacket exists'')))"

definition packet_cpe_issues :: "ClaimPaperEvidence strdict \<Rightarrow> string \<Rightarrow> ClaimPacket \<Rightarrow> string \<Rightarrow> ValidationIssue list" where
  "packet_cpe_issues cpe_by_id loc packet cpe_id =
     (case map_of cpe_by_id cpe_id of
        None \<Rightarrow> collector_error ''INVALID_REFERENCE'' (loc @ ''.claim_paper_evidence_ids'')
                  (''CPE '' @ cpe_id @ '' does not exist'')
      | Some cpe \<Rightarrow>
          error_if (ClaimPaperEvidence.claim_id cpe \<noteq> ClaimPacket.claim_id packet)
            ''CPE_SET_CONTINUITY_MISMATCH'' (loc @ ''.claim_paper_evidence_ids'')
            (''CPE '' @ cpe_id @ '' belongs to '' @ ClaimPaperEvidence.claim_id cpe))"

definition collect_claim_bundle ::
  "CandidateClaim list \<Rightarrow> ClaimPaperEvidence list \<Rightarrow> ClaimAssessment list \<Rightarrow> FinalClaimValidation list
    \<Rightarrow> ClaimPacket list \<Rightarrow> ValidationIssue list" where
  "collect_claim_bundle claims cpes assessments finals packets =
     (let (claim_by_id, is1) = index CandidateClaim.claim_id ''claim_id'' ''candidate_claims'' claims;
          (cpe_by_id, is2) = index ClaimPaperEvidence.claim_paper_evidence_id ''claim_paper_evidence_id''
            ''claim_paper_evidence'' cpes;
          (assessment_by_claim, is3) = index ClaimAssessment.claim_id ''claim_id'' ''claim_assessments'' assessments;
          (final_by_claim, is4) = index FinalClaimValidation.claim_id ''claim_id'' ''final_claim_validations'' finals;
          (_, is5) = index ClaimPacket.claim_id ''claim_id'' ''claim_packets'' packets
      in is1 @ is2 @ is3 @ is4 @ is5 @
         claim_ref_issues claim_by_id ''claim_assessments'' (map ClaimAssessment.claim_id assessments) @
         claim_ref_issues claim_by_id ''final_claim_validations'' (map FinalClaimValidation.claim_id finals) @
         claim_ref_issues claim_by_id ''claim_packets'' (map ClaimPacket.claim_id packets) @
         for_each finals (\<lambda>position final.
           for_each (paper_relations final)
             (final_relation_issues cpe_by_id (at_pos ''final_claim_validations'' position) final)) @
         for_each packets (\<lambda>position packet.
           let loc = at_pos ''claim_packets'' position in
           packet_claim_issues claim_by_id loc packet @
           packet_assessment_issues assessment_by_claim loc packet @
           packet_final_issues cpes final_by_claim loc packet @
           concat (map (packet_cpe_issues cpe_by_id loc packet) (claim_paper_evidence_ids packet))))"

definition validate_claim_bundle ::
  "CandidateClaim list \<Rightarrow> ClaimPaperEvidence list \<Rightarrow> ClaimAssessment list \<Rightarrow> FinalClaimValidation list
    \<Rightarrow> ClaimPacket list \<Rightarrow> ValidationReport + ValidationReport" where
  "validate_claim_bundle claims cpes assessments finals packets =
     finish (collect_claim_bundle claims cpes assessments finals packets)"

text \<open>What a final validation and a packet promise about the records they repeat.\<close>

definition final_bound :: "ClaimPaperEvidence list \<Rightarrow> FinalClaimValidation \<Rightarrow> bool" where
  "final_bound cpes final \<longleftrightarrow>
     (\<forall>relation \<in> set (paper_relations final). \<exists>cpe \<in> set cpes.
        ClaimPaperEvidence.claim_paper_evidence_id cpe = FinalPaperRelation.claim_paper_evidence_id relation \<and>
        ClaimPaperEvidence.claim_id cpe = FinalClaimValidation.claim_id final \<and>
        ClaimPaperEvidence.paper_id cpe = FinalPaperRelation.paper_id relation)"

definition claim_cpes :: "ClaimPaperEvidence list \<Rightarrow> string \<Rightarrow> string set" where
  "claim_cpes cpes cid =
     ClaimPaperEvidence.claim_paper_evidence_id ` {cpe \<in> set cpes. ClaimPaperEvidence.claim_id cpe = cid}"

definition packet_bound ::
  "CandidateClaim list \<Rightarrow> ClaimPaperEvidence list \<Rightarrow> ClaimAssessment list \<Rightarrow> FinalClaimValidation list
    \<Rightarrow> ClaimPacket \<Rightarrow> bool" where
  "packet_bound claims cpes assessments finals packet \<longleftrightarrow>
     (\<exists>claim \<in> set claims. CandidateClaim.claim_id claim = ClaimPacket.claim_id packet \<and>
        CandidateClaim.candidate_claim claim = ClaimPacket.candidate_claim packet \<and>
        CandidateClaim.theme_id claim = ClaimPacket.theme_id packet) \<and>
     (\<exists>assessment \<in> set assessments. ClaimAssessment.claim_id assessment = ClaimPacket.claim_id packet \<and>
        ClaimAssessment.aggregate_strength assessment = ClaimPacket.aggregate_strength packet \<and>
        decision assessment \<noteq> ClaimDecision.REJECT) \<and>
     (\<exists>final \<in> set finals. FinalClaimValidation.claim_id final = ClaimPacket.claim_id packet \<and>
        FinalClaimValidation.status final = FinalClaimStatus.VALID \<and>
        FinalClaimValidation.final_claim final = ClaimPacket.final_claim packet \<and>
        distinct (map FinalPaperRelation.claim_paper_evidence_id (paper_relations final)) \<and>
        FinalPaperRelation.claim_paper_evidence_id ` set (paper_relations final) =
          set (claim_paper_evidence_ids packet)) \<and>
     distinct (claim_paper_evidence_ids packet) \<and>
     set (claim_paper_evidence_ids packet) = claim_cpes cpes (ClaimPacket.claim_id packet)"

definition claim_contract ::
  "CandidateClaim list \<Rightarrow> ClaimPaperEvidence list \<Rightarrow> ClaimAssessment list \<Rightarrow> FinalClaimValidation list
    \<Rightarrow> ClaimPacket list \<Rightarrow> bool" where
  "claim_contract claims cpes assessments finals packets \<longleftrightarrow>
     distinct (map CandidateClaim.claim_id claims) \<and>
     distinct (map ClaimPaperEvidence.claim_paper_evidence_id cpes) \<and>
     distinct (map ClaimAssessment.claim_id assessments) \<and>
     distinct (map FinalClaimValidation.claim_id finals) \<and>
     distinct (map ClaimPacket.claim_id packets) \<and>
     ClaimAssessment.claim_id ` set assessments \<subseteq> CandidateClaim.claim_id ` set claims \<and>
     FinalClaimValidation.claim_id ` set finals \<subseteq> CandidateClaim.claim_id ` set claims \<and>
     (\<forall>final \<in> set finals. final_bound cpes final) \<and>
     (\<forall>packet \<in> set packets. packet_bound claims cpes assessments finals packet)"

lemma claim_ref_issues_clean:
  assumes "map_of claim_by_id = first_by CandidateClaim.claim_id claims"
  shows "clean (claim_ref_issues claim_by_id label cids) \<longleftrightarrow> set cids \<subseteq> CandidateClaim.claim_id ` set claims"
  unfolding claim_ref_issues_def
  by (subst clean_for_each [where P = "\<lambda>c. c \<in> CandidateClaim.claim_id ` set claims"])
     (auto simp: assms first_by_None_iff)

lemma final_relation_issues_clean:
  assumes "distinct (map ClaimPaperEvidence.claim_paper_evidence_id cpes)"
    and "map_of cpe_by_id = first_by ClaimPaperEvidence.claim_paper_evidence_id cpes"
  shows "clean (for_each (paper_relations final) (final_relation_issues cpe_by_id here final)) \<longleftrightarrow>
    final_bound cpes final"
proof -
  have "clean (final_relation_issues cpe_by_id here final i relation) \<longleftrightarrow>
     (\<exists>cpe \<in> set cpes.
        ClaimPaperEvidence.claim_paper_evidence_id cpe = FinalPaperRelation.claim_paper_evidence_id relation \<and>
        ClaimPaperEvidence.claim_id cpe = FinalClaimValidation.claim_id final \<and>
        ClaimPaperEvidence.paper_id cpe = FinalPaperRelation.paper_id relation)" for i relation
    unfolding final_relation_issues_def first_by_bex [OF assms(1)] assms(2) Let_def
    by (simp split: option.split)
  from clean_for_each [OF this] show ?thesis by (simp only: final_bound_def)
qed

text \<open>The four loops over one packet, together.\<close>

definition packet_issues ::
  "CandidateClaim strdict \<Rightarrow> ClaimPaperEvidence list \<Rightarrow> ClaimPaperEvidence strdict \<Rightarrow> ClaimAssessment strdict
    \<Rightarrow> FinalClaimValidation strdict \<Rightarrow> string \<Rightarrow> ClaimPacket \<Rightarrow> ValidationIssue list" where
  "packet_issues claim_by_id cpes cpe_by_id assessment_by_claim final_by_claim loc packet =
     packet_claim_issues claim_by_id loc packet @
     packet_assessment_issues assessment_by_claim loc packet @
     packet_final_issues cpes final_by_claim loc packet @
     concat (map (packet_cpe_issues cpe_by_id loc packet) (claim_paper_evidence_ids packet))"

lemma packet_cpe_issues_clean:
  assumes "distinct (map ClaimPaperEvidence.claim_paper_evidence_id cpes)"
    and "map_of cpe_by_id = first_by ClaimPaperEvidence.claim_paper_evidence_id cpes"
  shows "clean (packet_cpe_issues cpe_by_id loc packet k) \<longleftrightarrow> k \<in> claim_cpes cpes (ClaimPacket.claim_id packet)"
proof -
  have "k \<in> claim_cpes cpes c \<longleftrightarrow>
      (\<exists>cpe \<in> set cpes. ClaimPaperEvidence.claim_paper_evidence_id cpe = k \<and> ClaimPaperEvidence.claim_id cpe = c)" for c
    unfolding claim_cpes_def by auto
  then show ?thesis
    unfolding first_by_bex [OF assms(1)] packet_cpe_issues_def assms(2) by (simp split: option.split)
qed

lemma packet_issues_clean:
  assumes d: "distinct (map CandidateClaim.claim_id claims)" "distinct (map ClaimAssessment.claim_id assessments)"
      "distinct (map FinalClaimValidation.claim_id finals)"
      "distinct (map ClaimPaperEvidence.claim_paper_evidence_id cpes)"
    and m: "map_of claim_by_id = first_by CandidateClaim.claim_id claims"
      "map_of assessment_by_claim = first_by ClaimAssessment.claim_id assessments"
      "map_of final_by_claim = first_by FinalClaimValidation.claim_id finals"
      "map_of cpe_by_id = first_by ClaimPaperEvidence.claim_paper_evidence_id cpes"
  shows "clean (packet_issues claim_by_id cpes cpe_by_id assessment_by_claim final_by_claim loc packet) \<and>
      ClaimPacket.claim_id packet \<in> CandidateClaim.claim_id ` set claims \<longleftrightarrow>
    packet_bound claims cpes assessments finals packet"
proof -
  let ?k = "ClaimPacket.claim_id packet"
  have c: "clean (packet_claim_issues claim_by_id loc packet) \<and> ?k \<in> CandidateClaim.claim_id ` set claims \<longleftrightarrow>
      (\<exists>claim \<in> set claims. CandidateClaim.claim_id claim = ?k \<and>
        CandidateClaim.candidate_claim claim = ClaimPacket.candidate_claim packet \<and>
        CandidateClaim.theme_id claim = ClaimPacket.theme_id packet)"
    unfolding first_by_bex [OF d(1)] packet_claim_issues_def m first_by_mem by (auto split: option.split)
  have a: "clean (packet_assessment_issues assessment_by_claim loc packet) \<longleftrightarrow>
      (\<exists>assessment \<in> set assessments. ClaimAssessment.claim_id assessment = ?k \<and>
        ClaimAssessment.aggregate_strength assessment = ClaimPacket.aggregate_strength packet \<and>
        decision assessment \<noteq> ClaimDecision.REJECT)"
    unfolding first_by_bex [OF d(2)] packet_assessment_issues_def m by (auto split: option.split)
  have cc: "set (map ClaimPaperEvidence.claim_paper_evidence_id
      (filter (\<lambda>cpe. ClaimPaperEvidence.claim_id cpe = ?k) cpes)) = claim_cpes cpes ?k"
    by (auto simp: claim_cpes_def)
  have f: "clean (packet_final_issues cpes final_by_claim loc packet) \<longleftrightarrow>
      (\<exists>final \<in> set finals. FinalClaimValidation.claim_id final = ?k \<and>
        FinalClaimValidation.status final = FinalClaimStatus.VALID \<and>
        FinalClaimValidation.final_claim final = ClaimPacket.final_claim packet \<and>
        distinct (map FinalPaperRelation.claim_paper_evidence_id (paper_relations final)) \<and>
        FinalPaperRelation.claim_paper_evidence_id ` set (paper_relations final) =
          set (claim_paper_evidence_ids packet)) \<and>
      distinct (claim_paper_evidence_ids packet) \<and>
      set (claim_paper_evidence_ids packet) = claim_cpes cpes ?k"
    unfolding first_by_bex [OF d(3)] packet_final_issues_def m Let_def length_card_distinct cc
    by (auto simp: distinct_map split: option.split)
  have e: "clean (concat (map (packet_cpe_issues cpe_by_id loc packet) (claim_paper_evidence_ids packet))) \<longleftrightarrow>
      set (claim_paper_evidence_ids packet) \<subseteq> claim_cpes cpes ?k"
    using packet_cpe_issues_clean [OF d(4) m(4)] by auto
  show ?thesis
    unfolding packet_issues_def packet_bound_def clean_append c [symmetric] a [symmetric] e using f by blast
qed

lemma packet_bound_claim:
  assumes "packet_bound claims cpes assessments finals packet"
  shows "ClaimPacket.claim_id packet \<in> CandidateClaim.claim_id ` set claims"
proof -
  from assms obtain c where "c \<in> set claims" "CandidateClaim.claim_id c = ClaimPacket.claim_id packet"
    unfolding packet_bound_def by blast
  then show ?thesis by (metis imageI)
qed

lemma collect_claim_bundle_clean:
  "clean (collect_claim_bundle claims cpes assessments finals packets) \<longleftrightarrow>
     claim_contract claims cpes assessments finals packets"
proof (cases "distinct (map CandidateClaim.claim_id claims) \<and> distinct (map ClaimAssessment.claim_id assessments) \<and>
      distinct (map FinalClaimValidation.claim_id finals) \<and>
      distinct (map ClaimPaperEvidence.claim_paper_evidence_id cpes)")
  case True
  then have d: "distinct (map CandidateClaim.claim_id claims)" "distinct (map ClaimAssessment.claim_id assessments)"
      "distinct (map FinalClaimValidation.claim_id finals)"
      "distinct (map ClaimPaperEvidence.claim_paper_evidence_id cpes)" by blast+
  note p = packet_issues_clean [OF d index_map_of index_map_of index_map_of index_map_of]
  let ?P = "\<lambda>a b c e f g h j. for_each packets (\<lambda>i. packet_issues (fst (index CandidateClaim.claim_id a b claims)) cpes
      (fst (index ClaimPaperEvidence.claim_paper_evidence_id c e cpes)) (fst (index ClaimAssessment.claim_id f g assessments))
      (fst (index FinalClaimValidation.claim_id h j finals)) (at_pos ''claim_packets'' i))"
  have packets: "clean (?P a b c e f g h j) \<and> ClaimPacket.claim_id ` set packets \<subseteq> CandidateClaim.claim_id ` set claims \<longleftrightarrow>
      (\<forall>packet \<in> set packets. packet_bound claims cpes assessments finals packet)" for a b c e f g h j
  proof -
    let ?Q = "\<lambda>packet. ClaimPacket.claim_id packet \<in> CandidateClaim.claim_id ` set claims \<longrightarrow>
        packet_bound claims cpes assessments finals packet"
    show ?thesis
    proof (cases "ClaimPacket.claim_id ` set packets \<subseteq> CandidateClaim.claim_id ` set claims")
      case True
      have "clean (?P a b c e f g h j) \<longleftrightarrow> (\<forall>packet \<in> set packets. packet_bound claims cpes assessments finals packet)"
      proof (rule clean_for_each_mem)
        fix i packet assume "packet \<in> set packets"
        with True have "ClaimPacket.claim_id packet \<in> CandidateClaim.claim_id ` set claims" by blast
        with p show "clean (packet_issues (fst (index CandidateClaim.claim_id a b claims)) cpes
            (fst (index ClaimPaperEvidence.claim_paper_evidence_id c e cpes)) (fst (index ClaimAssessment.claim_id f g assessments))
            (fst (index FinalClaimValidation.claim_id h j finals)) (at_pos ''claim_packets'' i) packet) \<longleftrightarrow>
          packet_bound claims cpes assessments finals packet" by blast
      qed
      then show ?thesis using True by blast
    next
      case False
      have "\<not> (\<forall>packet \<in> set packets. packet_bound claims cpes assessments finals packet)"
      proof
        assume "\<forall>packet \<in> set packets. packet_bound claims cpes assessments finals packet"
        then have "ClaimPacket.claim_id ` set packets \<subseteq> CandidateClaim.claim_id ` set claims"
          by (intro image_subsetI) (blast intro: packet_bound_claim)
        with False show False by contradiction
      qed
      then show ?thesis using False by (simp only: simp_thms)
    qed
  qed
  note packets' = packets [of "''claim_id''" "''candidate_claims''" "''claim_paper_evidence_id''"
      "''claim_paper_evidence''" "''claim_id''" "''claim_assessments''" "''claim_id''" "''final_claim_validations''"]
  show ?thesis
    unfolding collect_claim_bundle_def claim_contract_def Let_def split_beta clean_append index_clean
      claim_ref_issues_clean [OF index_map_of] set_map packet_issues_def [symmetric] conj_assoc
      clean_for_each [OF final_relation_issues_clean [OF d(4) index_map_of]] packets' [symmetric]
    by (rule iffI; elim conjE; intro conjI; assumption)
next
  case False
  then show ?thesis
    unfolding collect_claim_bundle_def claim_contract_def Let_def split_beta clean_append index_clean by blast
qed

text \<open>
  C30: The claim validator decides its contract: it succeeds exactly when IDs are unique, references
  resolve, final paper relations agree with their CPEs, and every claim packet repeats the text and
  theme of its claim, the strength of an assessment that is not a rejection and the wording of a
  VALID final validation, and its CPE list, without repetition, is the list of the final
  validation and exactly the CPEs of the claim.
\<close>

theorem claim_bundle_correct:
  "(\<exists>r. validate_claim_bundle claims cpes assessments finals packets = Inr r) \<longleftrightarrow>
     claim_contract claims cpes assessments finals packets"
  by (simp add: validate_claim_bundle_def finish_ok_iff collect_claim_bundle_clean)

subsection \<open>Closure of a claim by its packet\<close>

definition collect_packet_evidence_closure ::
  "EvidenceRecord list \<Rightarrow> ClaimPaperEvidence list \<Rightarrow> ClaimPacket list \<Rightarrow> ValidationIssue list" where
  "collect_packet_evidence_closure evidence cpes packets =
     (let packet_claims = set (map ClaimPacket.claim_id packets) in
      if packet_claims = {} then []
      else (let aggregated = set (concat (map evidence_ids cpes)) in
        for_each evidence (\<lambda>position e.
          error_if (EvidenceRecord.claim_id e \<in> packet_claims \<and> evidence_id e \<notin> aggregated)
            ''UNAGGREGATED_EVIDENCE_AFTER_PACKET'' (at_pos ''evidence_records'' position @ ''.evidence_id'')
            (''EvidenceRecord '' @ evidence_id e @ '' belongs to no ClaimPaperEvidence although a ClaimPacket exists for '' @
             EvidenceRecord.claim_id e))))"

definition evidence_closed :: "EvidenceRecord list \<Rightarrow> ClaimPaperEvidence list \<Rightarrow> ClaimPacket list \<Rightarrow> bool" where
  "evidence_closed evidence cpes packets \<longleftrightarrow>
     (\<forall>e \<in> set evidence. \<forall>packet \<in> set packets. EvidenceRecord.claim_id e = ClaimPacket.claim_id packet \<longrightarrow>
        (\<exists>cpe \<in> set cpes. evidence_id e \<in> set (evidence_ids cpe)))"

lemma collect_packet_evidence_closure_clean:
  "clean (collect_packet_evidence_closure evidence cpes packets) \<longleftrightarrow> evidence_closed evidence cpes packets"
proof -
  have "clean (for_each evidence (\<lambda>position e.
          error_if (EvidenceRecord.claim_id e \<in> S \<and> evidence_id e \<notin> A) c (f position) (g e))) \<longleftrightarrow>
      (\<forall>e \<in> set evidence. EvidenceRecord.claim_id e \<in> S \<longrightarrow> evidence_id e \<in> A)" for S A c f g
    by (rule clean_for_each) simp
  note eq = this
  show ?thesis
    unfolding collect_packet_evidence_closure_def evidence_closed_def Let_def if_distrib [of clean] eq
    by auto
qed

end
