(* ===== verification/VR_Val_Prose.thy ===== *)
theory VR_Val_Prose
  imports VR_Models
begin

section \<open>Propositions, audits and rendered prose (\<open>validators.py\<close>)\<close>

text \<open>
  \<open>derive_semantic_audit_disposition\<close> is the release decision on a proposition;
  \<open>_collect_proposition_bundle\<close> checks its provenance and its audit,
  \<open>_collect_rendered_prose_bundle\<close> that sentences are rendered from passing propositions only.
\<close>

definition derive_semantic_audit_disposition :: "SemanticAuditResult \<Rightarrow> AuditDisposition" where
  "derive_semantic_audit_disposition audit =
     (if class_verdict audit = AuditClassVerdict.UNCLEAR \<or>
         provenance_verdict audit = AuditProvenanceVerdict.UNCLEAR then AuditDisposition.HUMAN_REVIEW
      else if class_verdict audit = AuditClassVerdict.MISCLASSIFIED then AuditDisposition.REPAIR_BLOCKING
      else if provenance_verdict audit \<in> {AuditProvenanceVerdict.OVERSTATED, AuditProvenanceVerdict.UNSUPPORTED}
        then AuditDisposition.REPAIR_BLOCKING
      else if provenance_verdict audit = AuditProvenanceVerdict.PARTIALLY_SUPPORTED then AuditDisposition.REPAIR
      else AuditDisposition.PASS)"

text \<open>
  The release decision is total and passes exactly the audits that found the proposition both
  correctly classified and entailed; whatever is unclear goes to a human, even when the other
  verdict alone would block, and only a partially supported, correctly classified proposition is
  repaired without blocking.
\<close>

theorem semantic_audit_disposition_table:
  "(derive_semantic_audit_disposition audit = AuditDisposition.PASS \<longleftrightarrow>
      class_verdict audit = AuditClassVerdict.CORRECT \<and>
      provenance_verdict audit = AuditProvenanceVerdict.ENTAILED) \<and>
   (derive_semantic_audit_disposition audit = AuditDisposition.HUMAN_REVIEW \<longleftrightarrow>
      class_verdict audit = AuditClassVerdict.UNCLEAR \<or>
      provenance_verdict audit = AuditProvenanceVerdict.UNCLEAR) \<and>
   (derive_semantic_audit_disposition audit = AuditDisposition.REPAIR \<longleftrightarrow>
      class_verdict audit = AuditClassVerdict.CORRECT \<and>
      provenance_verdict audit = AuditProvenanceVerdict.PARTIALLY_SUPPORTED)"
  by (cases "class_verdict audit"; cases "provenance_verdict audit")
     (simp_all add: derive_semantic_audit_disposition_def)

subsection \<open>Propositions\<close>

definition missing_refs :: "'a strdict \<Rightarrow> string \<Rightarrow> string \<Rightarrow> string list \<Rightarrow> ValidationIssue list" where
  "missing_refs by_id loc what ids =
     concat (map (\<lambda>x. error_if (map_of by_id x = None) ''INVALID_REFERENCE'' loc
       (what @ '' '' @ x @ '' does not exist'')) ids)"

definition binding_issues ::
  "ClaimPaperEvidence strdict \<Rightarrow> ClaimPacket strdict \<Rightarrow> string \<Rightarrow> nat \<Rightarrow> CitationBinding \<Rightarrow> ValidationIssue list" where
  "binding_issues cpe_by_id packet_by_claim loc binding_position binding =
     (let binding_path = at_pos (loc @ ''.citation_bindings'') binding_position in
      case map_of cpe_by_id (CitationBinding.claim_paper_evidence_id binding) of
        None \<Rightarrow> collector_error ''INVALID_REFERENCE'' (binding_path @ ''.claim_paper_evidence_id'')
                  (''CPE '' @ CitationBinding.claim_paper_evidence_id binding @ '' does not exist'')
      | Some cpe \<Rightarrow>
          error_if (CitationBinding.claim_id binding \<noteq> ClaimPaperEvidence.claim_id cpe)
            ''CITATION_BINDING_CLAIM_MISMATCH'' (binding_path @ ''.claim_id'')
            (''citation claim does not match CPE '' @ ClaimPaperEvidence.claim_paper_evidence_id cpe) @
          error_if (CitationBinding.paper_id binding \<noteq> ClaimPaperEvidence.paper_id cpe)
            ''CITATION_BINDING_PAPER_MISMATCH'' (binding_path @ ''.paper_id'')
            (''citation paper does not match CPE '' @ ClaimPaperEvidence.claim_paper_evidence_id cpe) @
          (case map_of packet_by_claim (CitationBinding.claim_id binding) of
             None \<Rightarrow> []
           | Some packet \<Rightarrow>
               error_if (CitationBinding.claim_paper_evidence_id binding \<notin> set (claim_paper_evidence_ids packet))
                 ''CITATION_BINDING_UNLICENSED_CPE'' (binding_path @ ''.claim_paper_evidence_id'')
                 ''citation binding CPE is not licensed by the claim's ClaimPacket''))"

definition proposition_issues ::
  "ClaimPacket strdict \<Rightarrow> ClaimPaperEvidence strdict \<Rightarrow> CorpusFact strdict \<Rightarrow> ReviewProcessFact strdict
    \<Rightarrow> nat \<Rightarrow> PropositionRecord \<Rightarrow> ValidationIssue list" where
  "proposition_issues packet_by_claim cpe_by_id corpus_by_id process_by_id position proposition =
     (let loc = at_pos ''proposition_records'' position in
      missing_refs packet_by_claim (loc @ ''.claim_ids'') ''approved ClaimPacket'' (claim_ids proposition) @
      missing_refs corpus_by_id (loc @ ''.corpus_fact_ids'') ''CorpusFact'' (corpus_fact_ids proposition) @
      missing_refs process_by_id (loc @ ''.process_fact_ids'') ''ReviewProcessFact'' (process_fact_ids proposition) @
      for_each (citation_bindings proposition) (binding_issues cpe_by_id packet_by_claim loc) @
      error_if (content_class proposition = PropositionContentClass.SCIENTIFIC_CLAIM \<and>
          CitationBinding.claim_id ` set (citation_bindings proposition) \<noteq> set (claim_ids proposition))
        ''SCIENTIFIC_CLAIM_CITATION_COVERAGE'' (loc @ ''.citation_bindings'')
        ''citation binding claims must exactly cover proposition claim_ids'')"

definition audit_issues :: "PropositionRecord strdict \<Rightarrow> nat \<Rightarrow> SemanticAuditResult \<Rightarrow> ValidationIssue list" where
  "audit_issues proposition_by_id position audit =
     (let loc = at_pos ''semantic_audits'' position in
      case map_of proposition_by_id (target_id audit) of
        None \<Rightarrow> collector_error ''INVALID_REFERENCE'' (loc @ ''.target_id'')
                  (''PropositionRecord '' @ target_id audit @ '' does not exist'')
      | Some proposition \<Rightarrow>
          error_if (set (referenced_claim_ids audit) \<noteq> set (claim_ids proposition) \<or>
                    set (referenced_corpus_fact_ids audit) \<noteq> set (corpus_fact_ids proposition) \<or>
                    set (referenced_process_fact_ids audit) \<noteq> set (process_fact_ids proposition))
            ''SEMANTIC_AUDIT_INCOMPLETE_PROVENANCE'' loc
            ''semantic audit references must exactly equal target provenance'')"

text \<open>\<open>for id in by_id: count = len(grouped[id]); if count != 1: report\<close>.\<close>

definition count_issues :: "('b \<Rightarrow> string) \<Rightarrow> 'b list \<Rightarrow> string \<Rightarrow> string \<Rightarrow> 'a strdict \<Rightarrow> ValidationIssue list" where
  "count_issues key xs label what by_id =
     concat (map (\<lambda>(k, _).
       let count = length (grouped_by key xs k) in
       error_if (count \<noteq> 1) ''CARDINALITY_VIOLATION'' (at_key label k @ ''.audit'') (what @ nat_str count)) by_id)"

definition collect_proposition_bundle ::
  "ClaimPacket list \<Rightarrow> ClaimPaperEvidence list \<Rightarrow> CorpusFact list \<Rightarrow> ReviewProcessFact list
    \<Rightarrow> PropositionRecord list \<Rightarrow> SemanticAuditResult list \<Rightarrow> ValidationIssue list" where
  "collect_proposition_bundle packets cpes corpus process propositions audits =
     (let (packet_by_claim, is1) = index ClaimPacket.claim_id ''claim_id'' ''claim_packets'' packets;
          (cpe_by_id, is2) = index ClaimPaperEvidence.claim_paper_evidence_id ''claim_paper_evidence_id''
            ''claim_paper_evidence'' cpes;
          (corpus_by_id, is3) = index corpus_fact_id ''corpus_fact_id'' ''corpus_facts'' corpus;
          (process_by_id, is4) = index process_fact_id ''process_fact_id'' ''process_facts'' process;
          (proposition_by_id, is5) = index proposition_id ''proposition_id'' ''proposition_records'' propositions;
          (_, is6) = index SemanticAuditResult.audit_id ''audit_id'' ''semantic_audits'' audits
      in is1 @ is2 @ is3 @ is4 @ is5 @ is6 @
         for_each propositions (proposition_issues packet_by_claim cpe_by_id corpus_by_id process_by_id) @
         for_each audits (audit_issues proposition_by_id) @
         count_issues target_id audits ''proposition_records''
           ''proposition requires exactly one current semantic audit; found '' proposition_by_id)"

definition validate_proposition_bundle ::
  "ClaimPacket list \<Rightarrow> ClaimPaperEvidence list \<Rightarrow> CorpusFact list \<Rightarrow> ReviewProcessFact list
    \<Rightarrow> PropositionRecord list \<Rightarrow> SemanticAuditResult list \<Rightarrow> ValidationReport + ValidationReport" where
  "validate_proposition_bundle packets cpes corpus process propositions audits =
     finish (collect_proposition_bundle packets cpes corpus process propositions audits)"

subsection \<open>Rendered sentences\<close>

definition sentence_issues ::
  "PropositionRecord strdict \<Rightarrow> SemanticAuditResult list \<Rightarrow> nat \<Rightarrow> RenderedSentence \<Rightarrow> ValidationIssue list" where
  "sentence_issues proposition_by_id semantic_audits position sentence =
     (let loc = at_pos ''rendered_sentences'' position @ ''.source_proposition_ids'' in
      concat (map (\<lambda>pid.
        if map_of proposition_by_id pid = None then
          collector_error ''INVALID_REFERENCE'' loc (''PropositionRecord '' @ pid @ '' does not exist'')
        else
          (case grouped_by target_id semantic_audits pid of
             [audit] \<Rightarrow>
               error_if (derive_semantic_audit_disposition audit \<noteq> AuditDisposition.PASS)
                 ''RENDERED_FROM_NONPASSING_PROPOSITION'' loc
                 (''proposition '' @ pid @ '' lacks exactly one passing audit'')
           | _ \<Rightarrow> collector_error ''RENDERED_FROM_NONPASSING_PROPOSITION'' loc
                    (''proposition '' @ pid @ '' lacks exactly one passing audit'')))
        (source_proposition_ids sentence)))"

definition sentence_audit_issues :: "RenderedSentence strdict \<Rightarrow> nat \<Rightarrow> RenderedSentenceAudit \<Rightarrow> ValidationIssue list" where
  "sentence_audit_issues sentence_by_id position audit =
     (let loc = at_pos ''rendered_sentence_audits'' position in
      error_if (map_of sentence_by_id (RenderedSentenceAudit.sentence_id audit) = None) ''INVALID_REFERENCE''
        (loc @ ''.sentence_id'')
        (''RenderedSentence '' @ RenderedSentenceAudit.sentence_id audit @ '' does not exist'') @
      error_if (verdict audit \<noteq> AuditProvenanceVerdict.ENTAILED) ''RENDERED_SENTENCE_NOT_ENTAILED''
        (loc @ ''.verdict'') ''only ENTAILED rendered sentences qualify for deterministic rendering'')"

definition collect_rendered_prose_bundle ::
  "PropositionRecord list \<Rightarrow> SemanticAuditResult list \<Rightarrow> RenderedSentence list \<Rightarrow> RenderedSentenceAudit list
    \<Rightarrow> ValidationIssue list" where
  "collect_rendered_prose_bundle propositions audits sentences sentence_audits =
     (let (proposition_by_id, is1) = index proposition_id ''proposition_id'' ''proposition_records'' propositions;
          (sentence_by_id, is2) = index RenderedSentence.sentence_id ''sentence_id'' ''rendered_sentences'' sentences;
          (_, is3) = index RenderedSentenceAudit.audit_id ''audit_id'' ''rendered_sentence_audits'' sentence_audits
      in is1 @ is2 @ is3 @
         for_each sentences (sentence_issues proposition_by_id audits) @
         for_each sentence_audits (sentence_audit_issues sentence_by_id) @
         count_issues RenderedSentenceAudit.sentence_id sentence_audits ''rendered_sentences''
           ''rendered sentence requires exactly one current audit; found '' sentence_by_id)"

definition validate_rendered_prose_bundle ::
  "PropositionRecord list \<Rightarrow> SemanticAuditResult list \<Rightarrow> RenderedSentence list \<Rightarrow> RenderedSentenceAudit list
    \<Rightarrow> ValidationReport + ValidationReport" where
  "validate_rendered_prose_bundle propositions audits sentences sentence_audits =
     finish (collect_rendered_prose_bundle propositions audits sentences sentence_audits)"

subsection \<open>References between the bundles\<close>

definition collect_cross_repository_references ::
  "ThemeRecord list \<Rightarrow> Paper list \<Rightarrow> CandidateClaim list \<Rightarrow> CorpusFact list \<Rightarrow> ValidationIssue list" where
  "collect_cross_repository_references themes papers claims corpus =
     for_each claims (\<lambda>position claim.
       error_if (by_last ThemeRecord.theme_id themes (CandidateClaim.theme_id claim) = None) ''INVALID_REFERENCE''
         (at_pos ''candidate_claims'' position @ ''.theme_id'')
         (''ThemeRecord '' @ CandidateClaim.theme_id claim @ '' does not exist'')) @
     for_each corpus (\<lambda>position fact.
       concat (map (\<lambda>pid.
         error_if (by_last Paper.paper_id papers pid = None) ''INVALID_REFERENCE''
           (at_pos ''corpus_facts'' position @ ''.source_paper_ids'')
           (''Paper '' @ pid @ '' does not exist'')) (source_paper_ids fact)))"

subsection \<open>Contracts\<close>

definition binding_bound :: "ClaimPacket list \<Rightarrow> ClaimPaperEvidence list \<Rightarrow> CitationBinding \<Rightarrow> bool" where
  "binding_bound packets cpes b \<longleftrightarrow>
     (\<exists>cpe \<in> set cpes. ClaimPaperEvidence.claim_paper_evidence_id cpe = CitationBinding.claim_paper_evidence_id b \<and>
        ClaimPaperEvidence.claim_id cpe = CitationBinding.claim_id b \<and>
        ClaimPaperEvidence.paper_id cpe = CitationBinding.paper_id b) \<and>
     (\<forall>packet \<in> set packets. ClaimPacket.claim_id packet = CitationBinding.claim_id b \<longrightarrow>
        CitationBinding.claim_paper_evidence_id b \<in> set (claim_paper_evidence_ids packet))"

definition proposition_bound ::
  "ClaimPacket list \<Rightarrow> ClaimPaperEvidence list \<Rightarrow> CorpusFact list \<Rightarrow> ReviewProcessFact list
    \<Rightarrow> PropositionRecord \<Rightarrow> bool" where
  "proposition_bound packets cpes corpus process p \<longleftrightarrow>
     set (claim_ids p) \<subseteq> ClaimPacket.claim_id ` set packets \<and>
     set (corpus_fact_ids p) \<subseteq> corpus_fact_id ` set corpus \<and>
     set (process_fact_ids p) \<subseteq> process_fact_id ` set process \<and>
     (\<forall>b \<in> set (citation_bindings p). binding_bound packets cpes b) \<and>
     (content_class p = PropositionContentClass.SCIENTIFIC_CLAIM \<longrightarrow>
        CitationBinding.claim_id ` set (citation_bindings p) = set (claim_ids p))"

definition audit_bound :: "PropositionRecord list \<Rightarrow> SemanticAuditResult \<Rightarrow> bool" where
  "audit_bound propositions audit \<longleftrightarrow>
     (\<exists>p \<in> set propositions. proposition_id p = target_id audit \<and>
        set (referenced_claim_ids audit) = set (claim_ids p) \<and>
        set (referenced_corpus_fact_ids audit) = set (corpus_fact_ids p) \<and>
        set (referenced_process_fact_ids audit) = set (process_fact_ids p))"

definition proposition_contract ::
  "ClaimPacket list \<Rightarrow> ClaimPaperEvidence list \<Rightarrow> CorpusFact list \<Rightarrow> ReviewProcessFact list
    \<Rightarrow> PropositionRecord list \<Rightarrow> SemanticAuditResult list \<Rightarrow> bool" where
  "proposition_contract packets cpes corpus process propositions audits \<longleftrightarrow>
     distinct (map ClaimPacket.claim_id packets) \<and>
     distinct (map ClaimPaperEvidence.claim_paper_evidence_id cpes) \<and>
     distinct (map corpus_fact_id corpus) \<and> distinct (map process_fact_id process) \<and>
     distinct (map proposition_id propositions) \<and> distinct (map SemanticAuditResult.audit_id audits) \<and>
     (\<forall>p \<in> set propositions. proposition_bound packets cpes corpus process p) \<and>
     (\<forall>a \<in> set audits. audit_bound propositions a) \<and>
     (\<forall>p \<in> set propositions. exactly_one (\<lambda>a. target_id a = proposition_id p) audits)"

text \<open>A proposition is released when its only audit passes.\<close>

definition released :: "SemanticAuditResult list \<Rightarrow> string \<Rightarrow> bool" where
  "released audits pid \<longleftrightarrow>
     (\<exists>a. grouped_by target_id audits pid = [a] \<and> derive_semantic_audit_disposition a = AuditDisposition.PASS)"

definition prose_contract ::
  "PropositionRecord list \<Rightarrow> SemanticAuditResult list \<Rightarrow> RenderedSentence list \<Rightarrow> RenderedSentenceAudit list
    \<Rightarrow> bool" where
  "prose_contract propositions audits sentences sentence_audits \<longleftrightarrow>
     distinct (map proposition_id propositions) \<and> distinct (map RenderedSentence.sentence_id sentences) \<and>
     distinct (map RenderedSentenceAudit.audit_id sentence_audits) \<and>
     (\<forall>s \<in> set sentences. \<forall>pid \<in> set (source_proposition_ids s).
        pid \<in> proposition_id ` set propositions \<and> released audits pid) \<and>
     (\<forall>a \<in> set sentence_audits. RenderedSentenceAudit.sentence_id a \<in> RenderedSentence.sentence_id ` set sentences \<and>
        verdict a = AuditProvenanceVerdict.ENTAILED) \<and>
     (\<forall>s \<in> set sentences.
        exactly_one (\<lambda>a. RenderedSentenceAudit.sentence_id a = RenderedSentence.sentence_id s) sentence_audits)"

lemma missing_refs_clean:
  "map_of by_id = first_by f xs \<Longrightarrow> clean (missing_refs by_id loc what ids) \<longleftrightarrow> set ids \<subseteq> f ` set xs"
  by (auto simp: missing_refs_def first_by_None_iff)

lemma count_issues_clean:
  assumes "fst ` set by_id = f ` set ys"
  shows "clean (count_issues key xs label what by_id) \<longleftrightarrow> (\<forall>y \<in> set ys. exactly_one (\<lambda>x. key x = f y) xs)"
proof -
  have "clean (count_issues key xs label what by_id) \<longleftrightarrow> (\<forall>k \<in> fst ` set by_id. exactly_one (\<lambda>x. key x = k) xs)"
    by (auto simp: count_issues_def Let_def length_grouped_by_1 simp del: One_nat_def)
  then show ?thesis by (simp add: assms)
qed

lemma first_by_ball:
  "distinct (map f xs) \<Longrightarrow>
     (\<forall>x \<in> set xs. f x = k \<longrightarrow> P x) \<longleftrightarrow> (case first_by f xs k of None \<Rightarrow> True | Some x \<Rightarrow> P x)"
  using first_by_bex [of f xs k "\<lambda>x. \<not> P x"] by (auto split: option.splits)

lemma binding_issues_clean:
  assumes d: "distinct (map ClaimPaperEvidence.claim_paper_evidence_id cpes)" "distinct (map ClaimPacket.claim_id packets)"
    and m: "map_of cpe_by_id = first_by ClaimPaperEvidence.claim_paper_evidence_id cpes"
      "map_of packet_by_claim = first_by ClaimPacket.claim_id packets"
  shows "clean (binding_issues cpe_by_id packet_by_claim loc i b) \<longleftrightarrow> binding_bound packets cpes b"
  unfolding binding_bound_def first_by_bex [OF d(1)] first_by_ball [OF d(2)] binding_issues_def Let_def m
  by (auto split: option.split)

lemma proposition_issues_clean:
  assumes d: "distinct (map ClaimPaperEvidence.claim_paper_evidence_id cpes)" "distinct (map ClaimPacket.claim_id packets)"
    and m: "map_of cpe_by_id = first_by ClaimPaperEvidence.claim_paper_evidence_id cpes"
      "map_of packet_by_claim = first_by ClaimPacket.claim_id packets"
      "map_of corpus_by_id = first_by corpus_fact_id corpus" "map_of process_by_id = first_by process_fact_id process"
  shows "clean (proposition_issues packet_by_claim cpe_by_id corpus_by_id process_by_id i p) \<longleftrightarrow>
    proposition_bound packets cpes corpus process p"
  unfolding proposition_issues_def proposition_bound_def Let_def clean_append clean_error_if
    missing_refs_clean [OF m(2)] missing_refs_clean [OF m(3)] missing_refs_clean [OF m(4)]
    clean_for_each [OF binding_issues_clean [OF d m(1,2)]]
  by blast

lemma audit_issues_clean:
  assumes "distinct (map proposition_id propositions)" "map_of proposition_by_id = first_by proposition_id propositions"
  shows "clean (audit_issues proposition_by_id i a) \<longleftrightarrow> audit_bound propositions a"
  unfolding audit_bound_def first_by_bex [OF assms(1)] audit_issues_def Let_def assms(2)
  by (auto split: option.split)

lemma collect_proposition_bundle_clean:
  "clean (collect_proposition_bundle packets cpes corpus process propositions audits) \<longleftrightarrow>
     proposition_contract packets cpes corpus process propositions audits"
proof (cases "distinct (map ClaimPaperEvidence.claim_paper_evidence_id cpes) \<and>
    distinct (map ClaimPacket.claim_id packets) \<and> distinct (map proposition_id propositions)")
  case True
  then have d: "distinct (map ClaimPaperEvidence.claim_paper_evidence_id cpes)"
    "distinct (map ClaimPacket.claim_id packets)" "distinct (map proposition_id propositions)" by blast+
  show ?thesis
    unfolding collect_proposition_bundle_def proposition_contract_def Let_def split_beta clean_append index_clean
      clean_for_each [OF proposition_issues_clean [OF d(1,2) index_map_of index_map_of index_map_of index_map_of]]
      clean_for_each [OF audit_issues_clean [OF d(3) index_map_of]] count_issues_clean [OF index_key_set] conj_assoc ..
next
  case False
  then show ?thesis
    unfolding collect_proposition_bundle_def proposition_contract_def Let_def split_beta clean_append index_clean by blast
qed

text \<open>
  C31: The proposition validator decides its contract: it succeeds exactly when IDs are unique, every
  proposition refers to existing packets and facts, its citations name a CPE of the cited claim
  and paper that the claim's packet licenses (and, for a scientific claim, cover its claims
  exactly), and every proposition has exactly one audit, which lists exactly its provenance.
\<close>

theorem proposition_bundle_correct:
  "(\<exists>r. validate_proposition_bundle packets cpes corpus process propositions audits = Inr r) \<longleftrightarrow>
     proposition_contract packets cpes corpus process propositions audits"
  by (simp add: validate_proposition_bundle_def finish_ok_iff collect_proposition_bundle_clean)

lemma released_case:
  "clean (case grouped_by target_id audits k of
       [a] \<Rightarrow> error_if (derive_semantic_audit_disposition a \<noteq> AuditDisposition.PASS) c l m
     | _ \<Rightarrow> collector_error c l m) \<longleftrightarrow> released audits k"
  by (auto simp: released_def split: list.splits)

lemma sentence_issues_clean:
  assumes "map_of proposition_by_id = first_by proposition_id propositions"
  shows "clean (sentence_issues proposition_by_id audits i s) \<longleftrightarrow>
    (\<forall>pid \<in> set (source_proposition_ids s). pid \<in> proposition_id ` set propositions \<and> released audits pid)"
  unfolding sentence_issues_def Let_def assms first_by_mem clean_concat_map if_distrib [of clean] released_case
  by auto

lemma sentence_audit_issues_clean:
  assumes "map_of sentence_by_id = first_by RenderedSentence.sentence_id sentences"
  shows "clean (sentence_audit_issues sentence_by_id i a) \<longleftrightarrow>
    RenderedSentenceAudit.sentence_id a \<in> RenderedSentence.sentence_id ` set sentences \<and>
    verdict a = AuditProvenanceVerdict.ENTAILED"
  by (auto simp: sentence_audit_issues_def Let_def assms first_by_None_iff)

lemma collect_rendered_prose_bundle_clean:
  "clean (collect_rendered_prose_bundle propositions audits sentences sentence_audits) \<longleftrightarrow>
     prose_contract propositions audits sentences sentence_audits"
  unfolding collect_rendered_prose_bundle_def prose_contract_def Let_def split_beta clean_append index_clean
    clean_for_each [OF sentence_issues_clean [OF index_map_of]]
    clean_for_each [OF sentence_audit_issues_clean [OF index_map_of]] count_issues_clean [OF index_key_set] conj_assoc ..

text \<open>
  C32: The prose validator decides its contract: it succeeds exactly when IDs are unique, every
  rendered sentence comes only from existing propositions whose single audit passed, every
  sentence audit is about an existing sentence and says ENTAILED, and every sentence has exactly
  one audit.
\<close>

theorem rendered_prose_bundle_correct:
  "(\<exists>r. validate_rendered_prose_bundle propositions audits sentences sentence_audits = Inr r) \<longleftrightarrow>
     prose_contract propositions audits sentences sentence_audits"
  by (simp add: validate_rendered_prose_bundle_def finish_ok_iff collect_rendered_prose_bundle_clean)

definition cross_contract :: "ThemeRecord list \<Rightarrow> Paper list \<Rightarrow> CandidateClaim list \<Rightarrow> CorpusFact list \<Rightarrow> bool" where
  "cross_contract themes papers claims corpus \<longleftrightarrow>
     CandidateClaim.theme_id ` set claims \<subseteq> ThemeRecord.theme_id ` set themes \<and>
     (\<forall>fact \<in> set corpus. set (source_paper_ids fact) \<subseteq> Paper.paper_id ` set papers)"

lemma collect_cross_repository_references_clean:
  "clean (collect_cross_repository_references themes papers claims corpus) \<longleftrightarrow>
     cross_contract themes papers claims corpus"
proof -
  have a: "clean (for_each claims (\<lambda>position claim.
       error_if (by_last ThemeRecord.theme_id themes (CandidateClaim.theme_id claim) = None) c (f position) (g claim))) \<longleftrightarrow>
     (\<forall>claim \<in> set claims. CandidateClaim.theme_id claim \<in> ThemeRecord.theme_id ` set themes)" for c f g
    by (rule clean_for_each) (simp add: by_last_None_iff)
  have b: "clean (for_each corpus (\<lambda>position fact. concat (map (\<lambda>pid.
         error_if (by_last Paper.paper_id papers pid = None) c (f position) (g pid)) (source_paper_ids fact)))) \<longleftrightarrow>
     (\<forall>fact \<in> set corpus. set (source_paper_ids fact) \<subseteq> Paper.paper_id ` set papers)" for c f g
    by (rule clean_for_each) (auto simp: by_last_None_iff)
  show ?thesis
    unfolding collect_cross_repository_references_def cross_contract_def clean_append a b by blast
qed

end
