(* ===== verification/VR_Repository.thy ===== *)
theory VR_Repository
  imports VR_Val_Identity VR_Val_Retrieval VR_Val_Claims VR_Val_Prose
begin

section \<open>The repository snapshot and its validation (\<open>runtime/state.py\<close>, \<open>validators.py\<close>)\<close>

text \<open>
  A snapshot holds the seventeen collections. \<open>validate_repository\<close> runs every collector over it;
  the theorems say what a snapshot that validates guarantees from end to end, and what
  \<open>object_index\<close> finds in it.
\<close>

record RepositorySnapshot =
  themes :: "ThemeRecord list"
  papers :: "Paper list"
  candidate_claims :: "CandidateClaim list"
  retrieval_queries :: "RetrievalQuery list"
  retrieved_spans :: "RetrievedSpan list"
  retrieval_dispositions :: "RetrievalDisposition list"
  evidence_records :: "EvidenceRecord list"
  claim_paper_evidence :: "ClaimPaperEvidence list"
  claim_assessments :: "ClaimAssessment list"
  final_claim_validations :: "FinalClaimValidation list"
  claim_packets :: "ClaimPacket list"
  corpus_facts :: "CorpusFact list"
  process_facts :: "ReviewProcessFact list"
  proposition_records :: "PropositionRecord list"
  semantic_audits :: "SemanticAuditResult list"
  rendered_sentences :: "RenderedSentence list"
  rendered_sentence_audits :: "RenderedSentenceAudit list"

text \<open>What the constructor of the snapshot checks: each record is accepted by its own class.\<close>

definition valid_snapshot :: "RepositorySnapshot \<Rightarrow> bool" where
  "valid_snapshot R \<longleftrightarrow>
     list_all valid_ThemeRecord (themes R) \<and> list_all valid_Paper (papers R) \<and>
     list_all valid_CandidateClaim (candidate_claims R) \<and> list_all valid_RetrievalQuery (retrieval_queries R) \<and>
     list_all valid_RetrievedSpan (retrieved_spans R) \<and>
     list_all valid_RetrievalDisposition (retrieval_dispositions R) \<and>
     list_all valid_EvidenceRecord (evidence_records R) \<and>
     list_all valid_ClaimPaperEvidence (claim_paper_evidence R) \<and>
     list_all valid_ClaimAssessment (claim_assessments R) \<and>
     list_all valid_FinalClaimValidation (final_claim_validations R) \<and>
     list_all valid_ClaimPacket (claim_packets R) \<and> list_all valid_CorpusFact (corpus_facts R) \<and>
     list_all valid_ReviewProcessFact (process_facts R) \<and>
     list_all valid_PropositionRecord (proposition_records R) \<and>
     list_all valid_SemanticAuditResult (semantic_audits R) \<and>
     list_all valid_RenderedSentence (rendered_sentences R) \<and>
     list_all valid_RenderedSentenceAudit (rendered_sentence_audits R)"

definition collect_repository :: "RepositorySnapshot \<Rightarrow> ValidationIssue list" where
  "collect_repository R =
     collect_identity_registry (papers R) @
     collect_theme_hierarchy (themes R) @
     collect_cross_repository_references (themes R) (papers R) (candidate_claims R) (corpus_facts R) @
     collect_retrieval_bundle (candidate_claims R) (retrieval_queries R) (retrieved_spans R)
       (retrieval_dispositions R) (papers R) @
     collect_evidence_bundle (candidate_claims R) (retrieval_queries R) (retrieved_spans R)
       (retrieval_dispositions R) (evidence_records R) @
     collect_claim_evidence_bundle (candidate_claims R) (papers R) (evidence_records R)
       (claim_paper_evidence R) @
     collect_claim_bundle (candidate_claims R) (claim_paper_evidence R) (claim_assessments R)
       (final_claim_validations R) (claim_packets R) @
     collect_packet_evidence_closure (evidence_records R) (claim_paper_evidence R) (claim_packets R) @
     collect_proposition_bundle (claim_packets R) (claim_paper_evidence R) (corpus_facts R)
       (process_facts R) (proposition_records R) (semantic_audits R) @
     collect_rendered_prose_bundle (proposition_records R) (semantic_audits R) (rendered_sentences R)
       (rendered_sentence_audits R)"

definition validate_repository :: "RepositorySnapshot \<Rightarrow> ValidationReport + ValidationReport" where
  "validate_repository R = finish (collect_repository R)"

text \<open>The contracts of all bundles together.\<close>

definition repository_contract :: "RepositorySnapshot \<Rightarrow> bool" where
  "repository_contract R \<longleftrightarrow>
     identity_contract (papers R) \<and> theme_contract (themes R) \<and>
     cross_contract (themes R) (papers R) (candidate_claims R) (corpus_facts R) \<and>
     retrieval_contract (candidate_claims R) (retrieval_queries R) (retrieved_spans R)
       (retrieval_dispositions R) (papers R) \<and>
     evidence_contract (candidate_claims R) (retrieval_queries R) (retrieved_spans R)
       (retrieval_dispositions R) (evidence_records R) \<and>
     claim_evidence_contract (candidate_claims R) (papers R) (evidence_records R) (claim_paper_evidence R) \<and>
     claim_contract (candidate_claims R) (claim_paper_evidence R) (claim_assessments R)
       (final_claim_validations R) (claim_packets R) \<and>
     evidence_closed (evidence_records R) (claim_paper_evidence R) (claim_packets R) \<and>
     proposition_contract (claim_packets R) (claim_paper_evidence R) (corpus_facts R) (process_facts R)
       (proposition_records R) (semantic_audits R) \<and>
     prose_contract (proposition_records R) (semantic_audits R) (rendered_sentences R)
       (rendered_sentence_audits R)"

lemmas collectors_clean =
  collect_identity_contract_clean collect_theme_hierarchy_clean collect_cross_repository_references_clean
  collect_retrieval_bundle_clean collect_evidence_bundle_clean collect_claim_evidence_bundle_clean
  collect_claim_bundle_clean collect_packet_evidence_closure_clean collect_proposition_bundle_clean
  collect_rendered_prose_bundle_clean

lemma validate_repository_iff: "(\<exists>r. validate_repository R = Inr r) \<longleftrightarrow> repository_contract R"
  unfolding validate_repository_def finish_ok_iff collect_repository_def clean_append collectors_clean
    repository_contract_def ..

lemma validate_repository_InrD: "validate_repository R = Inr r \<Longrightarrow> repository_contract R"
  using validate_repository_iff by blast

subsection \<open>Provenance from a rendered sentence to the retrieved text\<close>

text \<open>
  A citation is supported when the claim's packet licenses it and the evidence it stands for was
  assessed on spans of the cited paper, retrieved by queries bound to the text of the claim.
\<close>

definition evidence_supported :: "RepositorySnapshot \<Rightarrow> CitationBinding \<Rightarrow> string \<Rightarrow> bool" where
  "evidence_supported R b eid \<longleftrightarrow>
     (\<exists>e \<in> set (evidence_records R). \<exists>span \<in> set (retrieved_spans R). \<exists>query \<in> set (retrieval_queries R).
        \<exists>claim \<in> set (candidate_claims R).
        evidence_id e = eid \<and> EvidenceRecord.paper_id e = CitationBinding.paper_id b \<and>
        RetrievedSpan.span_id span = retrieved_span_id e \<and>
        RetrievedSpan.paper_id span = CitationBinding.paper_id b \<and>
        assessed (retrieval_dispositions R) (RetrievedSpan.span_id span) \<and>
        RetrievalQuery.query_id query = RetrievalMetadata.query_id (retrieval span) \<and>
        RetrievalQuery.claim_id query = CitationBinding.claim_id b \<and>
        CandidateClaim.claim_id claim = CitationBinding.claim_id b \<and>
        RetrievalQuery.candidate_claim_hash query =
          VR_Ids.candidate_claim_hash (CandidateClaim.candidate_claim claim))"

definition citation_supported :: "RepositorySnapshot \<Rightarrow> CitationBinding \<Rightarrow> bool" where
  "citation_supported R b \<longleftrightarrow>
     CitationBinding.paper_id b \<in> Paper.paper_id ` set (papers R) \<and>
     (\<exists>packet \<in> set (claim_packets R). \<exists>final \<in> set (final_claim_validations R).
        \<exists>cpe \<in> set (claim_paper_evidence R).
        ClaimPacket.claim_id packet = CitationBinding.claim_id b \<and>
        CitationBinding.claim_paper_evidence_id b \<in> set (claim_paper_evidence_ids packet) \<and>
        FinalClaimValidation.claim_id final = CitationBinding.claim_id b \<and>
        FinalClaimValidation.status final = FinalClaimStatus.VALID \<and>
        FinalClaimValidation.final_claim final = ClaimPacket.final_claim packet \<and>
        ClaimPaperEvidence.claim_paper_evidence_id cpe = CitationBinding.claim_paper_evidence_id b \<and>
        evidence_ids cpe \<noteq> [] \<and>
        (\<forall>eid \<in> set (evidence_ids cpe). evidence_supported R b eid))"

lemma cpe_bound_member:
  assumes "cpe_bound claims ps evidence cpe" "eid \<in> set (evidence_ids cpe)"
  shows "\<exists>relation. cpe_member evidence cpe relation eid"
proof -
  from assms have "eid \<in> set (grouped_ids (component_relations cpe))"
      and mem: "\<And>relation eids eid. (relation, eids) \<in> set (grouped (component_relations cpe)) \<Longrightarrow> eid \<in> set eids \<Longrightarrow>
          cpe_member evidence cpe relation eid"
    unfolding cpe_bound_def by blast+
  then obtain relation eids where "(relation, eids) \<in> set (grouped (component_relations cpe))" "eid \<in> set eids"
    by (auto simp: grouped_ids_def)
  from mem [OF this] show ?thesis ..
qed

lemma cpe_evidence_supported:
  assumes c: "repository_contract R"
    and cpe: "cpe \<in> set (claim_paper_evidence R)" "eid \<in> set (evidence_ids cpe)"
    and b: "ClaimPaperEvidence.claim_id cpe = CitationBinding.claim_id b"
      "ClaimPaperEvidence.paper_id cpe = CitationBinding.paper_id b"
  shows "evidence_supported R b eid"
proof -
  have "cpe_bound (candidate_claims R) (papers R) (evidence_records R) cpe"
    using c cpe(1) by (simp add: repository_contract_def claim_evidence_contract_def)
  then obtain relation where "cpe_member (evidence_records R) cpe relation eid"
    using cpe_bound_member cpe(2) by blast
  then obtain e where e: "e \<in> set (evidence_records R)" "evidence_id e = eid"
      "EvidenceRecord.claim_id e = CitationBinding.claim_id b" "EvidenceRecord.paper_id e = CitationBinding.paper_id b"
    unfolding cpe_member_def b by blast
  have "evidence_bound (candidate_claims R) (retrieval_queries R) (retrieved_spans R) (retrieval_dispositions R) e"
    using c e(1) by (simp add: repository_contract_def evidence_contract_def)
  then obtain span query where s: "span \<in> set (retrieved_spans R)" "RetrievedSpan.span_id span = retrieved_span_id e"
      "RetrievedSpan.paper_id span = CitationBinding.paper_id b"
      "assessed (retrieval_dispositions R) (RetrievedSpan.span_id span)"
    and q: "query \<in> set (retrieval_queries R)"
      "RetrievalQuery.query_id query = RetrievalMetadata.query_id (retrieval span)"
      "RetrievalQuery.claim_id query = CitationBinding.claim_id b"
    unfolding evidence_bound_def using e(3,4) by metis
  have "query_bound (candidate_claims R) query"
    using c q(1) by (simp add: repository_contract_def retrieval_contract_def)
  then obtain claim where "claim \<in> set (candidate_claims R)"
      "CandidateClaim.claim_id claim = CitationBinding.claim_id b"
      "RetrievalQuery.candidate_claim_hash query = VR_Ids.candidate_claim_hash (CandidateClaim.candidate_claim claim)"
    unfolding query_bound_def using q(3) by metis
  with e s q show ?thesis unfolding evidence_supported_def by blast
qed

lemma binding_citation_supported:
  assumes c: "repository_contract R" and v: "valid_snapshot R"
    and b: "binding_bound (claim_packets R) (claim_paper_evidence R) b"
    and k: "CitationBinding.claim_id b \<in> ClaimPacket.claim_id ` set (claim_packets R)"
  shows "citation_supported R b"
proof -
  from b obtain cpe where cpe: "cpe \<in> set (claim_paper_evidence R)"
      "ClaimPaperEvidence.claim_paper_evidence_id cpe = CitationBinding.claim_paper_evidence_id b"
      "ClaimPaperEvidence.claim_id cpe = CitationBinding.claim_id b"
      "ClaimPaperEvidence.paper_id cpe = CitationBinding.paper_id b"
    unfolding binding_bound_def by blast
  from k obtain packet where packet: "packet \<in> set (claim_packets R)"
      "ClaimPacket.claim_id packet = CitationBinding.claim_id b" by auto
  then have lic: "CitationBinding.claim_paper_evidence_id b \<in> set (claim_paper_evidence_ids packet)"
    using b unfolding binding_bound_def by blast
  have "packet_bound (candidate_claims R) (claim_paper_evidence R) (claim_assessments R) (final_claim_validations R) packet"
    using c packet(1) by (simp add: repository_contract_def claim_contract_def)
  then obtain final where final: "final \<in> set (final_claim_validations R)"
      "FinalClaimValidation.claim_id final = CitationBinding.claim_id b"
      "FinalClaimValidation.status final = FinalClaimStatus.VALID"
      "FinalClaimValidation.final_claim final = ClaimPacket.final_claim packet"
    unfolding packet_bound_def packet(2) by blast
  have "cpe_bound (candidate_claims R) (papers R) (evidence_records R) cpe"
    using c cpe(1) by (simp add: repository_contract_def claim_evidence_contract_def)
  then have paper: "CitationBinding.paper_id b \<in> Paper.paper_id ` set (papers R)"
    unfolding cpe_bound_def cpe(4) by blast
  have "valid_ClaimPaperEvidence cpe" using v cpe(1) by (simp add: valid_snapshot_def list_all_iff)
  then have "evidence_ids cpe \<noteq> []" by (simp add: valid_ClaimPaperEvidence_def)
  with paper packet lic final cpe cpe_evidence_supported [OF c cpe(1) _ cpe(3,4)]
  show ?thesis unfolding citation_supported_def by blast
qed

text \<open>
  C2: End-to-end provenance. In a snapshot of well-formed records that validates, every proposition
  a rendered sentence is made from exists and was released by its single audit, and if it is a
  scientific claim, each claim it declares is cited and every citation is licensed by the claim's
  packet, names a registered paper, rests on a VALID final wording and on at least one evidence
  record, each of them assessed on a span of that very paper that was retrieved by a query bound
  by hash to the text of that very claim.
\<close>

theorem rendered_sentence_provenance:
  assumes "valid_snapshot R" and "validate_repository R = Inr r"
    and "s \<in> set (rendered_sentences R)" and "pid \<in> set (source_proposition_ids s)"
  shows "\<exists>p \<in> set (proposition_records R). proposition_id p = pid \<and> released (semantic_audits R) pid \<and>
    (content_class p = PropositionContentClass.SCIENTIFIC_CLAIM \<longrightarrow>
       claim_ids p \<noteq> [] \<and> CitationBinding.claim_id ` set (citation_bindings p) = set (claim_ids p) \<and>
       (\<forall>b \<in> set (citation_bindings p). citation_supported R b))"
proof -
  note c = validate_repository_InrD [OF assms(2)]
  then have rel: "released (semantic_audits R) pid" and "pid \<in> proposition_id ` set (proposition_records R)"
    using assms(3,4) unfolding repository_contract_def prose_contract_def by blast+
  then obtain p where p: "p \<in> set (proposition_records R)" "proposition_id p = pid" by auto
  have pb: "proposition_bound (claim_packets R) (claim_paper_evidence R) (corpus_facts R) (process_facts R) p"
    using c p(1) by (simp add: repository_contract_def proposition_contract_def)
  have "claim_ids p \<noteq> []" if "content_class p = PropositionContentClass.SCIENTIFIC_CLAIM"
  proof -
    have "PropositionRecord_validator p = None"
      using assms(1) p(1) by (auto simp: valid_snapshot_def list_all_iff valid_PropositionRecord_def)
    then show ?thesis using that by (simp add: PropositionRecord_validator_def)
  qed
  moreover have "citation_supported R b"
    if "b \<in> set (citation_bindings p)" "CitationBinding.claim_id ` set (citation_bindings p) = set (claim_ids p)" for b
  proof (rule binding_citation_supported [OF c assms(1)])
    show "binding_bound (claim_packets R) (claim_paper_evidence R) b" using pb that(1) by (simp add: proposition_bound_def)
    show "CitationBinding.claim_id b \<in> ClaimPacket.claim_id ` set (claim_packets R)"
      using pb that unfolding proposition_bound_def by blast
  qed
  ultimately show ?thesis using p rel pb unfolding proposition_bound_def by blast
qed

text \<open>
  C3: A claim packet drops no assessed evidence. In a snapshot that validates, when a packet exists
  for a claim, every assessed span that was retrieved for this claim has its evidence record inside
  one of the CPEs the packet lists, so neither contradicting nor qualifying evidence can be left out.
\<close>

theorem packet_covers_assessed_spans:
  assumes "validate_repository R = Inr r" and "packet \<in> set (claim_packets R)"
    and "span \<in> set (retrieved_spans R)" and "query \<in> set (retrieval_queries R)"
    and "RetrievalQuery.query_id query = RetrievalMetadata.query_id (retrieval span)"
    and "RetrievalQuery.claim_id query = ClaimPacket.claim_id packet"
    and "assessed (retrieval_dispositions R) (RetrievedSpan.span_id span)"
  shows "\<exists>e \<in> set (evidence_records R). \<exists>cpe \<in> set (claim_paper_evidence R).
    retrieved_span_id e = RetrievedSpan.span_id span \<and> evidence_id e \<in> set (evidence_ids cpe) \<and>
    ClaimPaperEvidence.claim_paper_evidence_id cpe \<in> set (claim_paper_evidence_ids packet)"
proof -
  note c = validate_repository_InrD [OF assms(1)]
  have ev: "evidence_contract (candidate_claims R) (retrieval_queries R) (retrieved_spans R)
       (retrieval_dispositions R) (evidence_records R)" using c by (simp add: repository_contract_def)
  then have "exactly_one (\<lambda>e. retrieved_span_id e = RetrievedSpan.span_id span) (evidence_records R)"
    using assms(3,7) by (simp add: evidence_contract_def)
  then obtain e where e: "e \<in> set (evidence_records R)" "retrieved_span_id e = RetrievedSpan.span_id span"
    by (rule exactly_oneE)
  have "evidence_bound (candidate_claims R) (retrieval_queries R) (retrieved_spans R) (retrieval_dispositions R) e"
    using ev e(1) by (simp add: evidence_contract_def)
  then obtain t q where t: "t \<in> set (retrieved_spans R)" "RetrievedSpan.span_id t = RetrievedSpan.span_id span"
    and q: "q \<in> set (retrieval_queries R)" "RetrievalQuery.query_id q = RetrievalMetadata.query_id (retrieval t)"
      "RetrievalQuery.claim_id q = EvidenceRecord.claim_id e"
    unfolding evidence_bound_def e(2) by metis
  have du: "distinct (map RetrievalQuery.query_id (retrieval_queries R))"
      "distinct (map RetrievedSpan.span_id (retrieved_spans R))" "distinct (map evidence_id (evidence_records R))"
    using ev unfolding evidence_contract_def by blast+
  have "t = span" by (rule distinct_map_eqD [OF du(2) t(1) assms(3) t(2)])
  with q(2) assms(5) have "RetrievalQuery.query_id q = RetrievalQuery.query_id query" by simp
  then have "q = query" by (rule distinct_map_eqD [OF du(1) q(1) assms(4)])
  with q(3) assms(6) have ce: "EvidenceRecord.claim_id e = ClaimPacket.claim_id packet" by simp
  then obtain cpe where cpe: "cpe \<in> set (claim_paper_evidence R)" "evidence_id e \<in> set (evidence_ids cpe)"
    using c e(1) assms(2) unfolding repository_contract_def evidence_closed_def by blast
  have "cpe_bound (candidate_claims R) (papers R) (evidence_records R) cpe"
    using c cpe(1) by (simp add: repository_contract_def claim_evidence_contract_def)
  then obtain relation where "cpe_member (evidence_records R) cpe relation (evidence_id e)"
    using cpe_bound_member cpe(2) by blast
  then obtain e' where "e' \<in> set (evidence_records R)" "evidence_id e' = evidence_id e"
      "EvidenceRecord.claim_id e' = ClaimPaperEvidence.claim_id cpe"
    unfolding cpe_member_def by blast
  moreover from this have "e' = e" using distinct_map_eqD [OF du(3) _ e(1)] by blast
  ultimately have "ClaimPaperEvidence.claim_id cpe = ClaimPacket.claim_id packet" using ce by simp
  then have "ClaimPaperEvidence.claim_paper_evidence_id cpe \<in> claim_cpes (claim_paper_evidence R) (ClaimPacket.claim_id packet)"
    using cpe(1) unfolding claim_cpes_def by blast
  moreover have "packet_bound (candidate_claims R) (claim_paper_evidence R) (claim_assessments R) (final_claim_validations R) packet"
    using c assms(2) by (simp add: repository_contract_def claim_contract_def)
  ultimately have "ClaimPaperEvidence.claim_paper_evidence_id cpe \<in> set (claim_paper_evidence_ids packet)"
    by (simp add: packet_bound_def)
  with e cpe show ?thesis by blast
qed

subsection \<open>Identifiers and the object index\<close>

text \<open>\<open>all_identifiers\<close>: the IDs the registry allocates, collection by collection.\<close>

definition all_identifiers :: "RepositorySnapshot \<Rightarrow> string list" where
  "all_identifiers R =
     map ThemeRecord.theme_id (themes R) @ map Paper.paper_id (papers R) @
     map CandidateClaim.claim_id (candidate_claims R) @ map RetrievalQuery.query_id (retrieval_queries R) @
     map RetrievedSpan.span_id (retrieved_spans R) @ map evidence_id (evidence_records R) @
     map ClaimPaperEvidence.claim_paper_evidence_id (claim_paper_evidence R) @
     map corpus_fact_id (corpus_facts R) @ map process_fact_id (process_facts R) @
     map proposition_id (proposition_records R) @ map SemanticAuditResult.audit_id (semantic_audits R) @
     map RenderedSentence.sentence_id (rendered_sentences R) @
     map RenderedSentenceAudit.audit_id (rendered_sentence_audits R)"

datatype CanonicalObject =
    ThemeObject ThemeRecord | PaperObject Paper | ClaimObject CandidateClaim
  | QueryObject RetrievalQuery | SpanObject RetrievedSpan | DispositionObject RetrievalDisposition
  | EvidenceObject EvidenceRecord | CpeObject ClaimPaperEvidence | AssessmentObject ClaimAssessment
  | FinalObject FinalClaimValidation | PacketObject ClaimPacket | CorpusFactObject CorpusFact
  | ProcessFactObject ReviewProcessFact | PropositionObject PropositionRecord
  | SemanticAuditObject SemanticAuditResult | SentenceObject RenderedSentence
  | SentenceAuditObject RenderedSentenceAudit

text \<open>\<open>type(value).__name__\<close> and the ID field of the collection.\<close>

fun type_name :: "CanonicalObject \<Rightarrow> string" where
  "type_name (ThemeObject _) = ''ThemeRecord''"
| "type_name (PaperObject _) = ''Paper''"
| "type_name (ClaimObject _) = ''CandidateClaim''"
| "type_name (QueryObject _) = ''RetrievalQuery''"
| "type_name (SpanObject _) = ''RetrievedSpan''"
| "type_name (DispositionObject _) = ''RetrievalDisposition''"
| "type_name (EvidenceObject _) = ''EvidenceRecord''"
| "type_name (CpeObject _) = ''ClaimPaperEvidence''"
| "type_name (AssessmentObject _) = ''ClaimAssessment''"
| "type_name (FinalObject _) = ''FinalClaimValidation''"
| "type_name (PacketObject _) = ''ClaimPacket''"
| "type_name (CorpusFactObject _) = ''CorpusFact''"
| "type_name (ProcessFactObject _) = ''ReviewProcessFact''"
| "type_name (PropositionObject _) = ''PropositionRecord''"
| "type_name (SemanticAuditObject _) = ''SemanticAuditResult''"
| "type_name (SentenceObject _) = ''RenderedSentence''"
| "type_name (SentenceAuditObject _) = ''RenderedSentenceAudit''"

fun object_id :: "CanonicalObject \<Rightarrow> string" where
  "object_id (ThemeObject x) = ThemeRecord.theme_id x"
| "object_id (PaperObject x) = Paper.paper_id x"
| "object_id (ClaimObject x) = CandidateClaim.claim_id x"
| "object_id (QueryObject x) = RetrievalQuery.query_id x"
| "object_id (SpanObject x) = RetrievedSpan.span_id x"
| "object_id (DispositionObject x) = RetrievalDisposition.span_id x"
| "object_id (EvidenceObject x) = evidence_id x"
| "object_id (CpeObject x) = ClaimPaperEvidence.claim_paper_evidence_id x"
| "object_id (AssessmentObject x) = ClaimAssessment.claim_id x"
| "object_id (FinalObject x) = FinalClaimValidation.claim_id x"
| "object_id (PacketObject x) = ClaimPacket.claim_id x"
| "object_id (CorpusFactObject x) = corpus_fact_id x"
| "object_id (ProcessFactObject x) = process_fact_id x"
| "object_id (PropositionObject x) = proposition_id x"
| "object_id (SemanticAuditObject x) = SemanticAuditResult.audit_id x"
| "object_id (SentenceObject x) = RenderedSentence.sentence_id x"
| "object_id (SentenceAuditObject x) = RenderedSentenceAudit.audit_id x"

definition canonical_objects :: "RepositorySnapshot \<Rightarrow> CanonicalObject list" where
  "canonical_objects R =
     map ThemeObject (themes R) @ map PaperObject (papers R) @ map ClaimObject (candidate_claims R) @
     map QueryObject (retrieval_queries R) @ map SpanObject (retrieved_spans R) @
     map DispositionObject (retrieval_dispositions R) @ map EvidenceObject (evidence_records R) @
     map CpeObject (claim_paper_evidence R) @ map AssessmentObject (claim_assessments R) @
     map FinalObject (final_claim_validations R) @ map PacketObject (claim_packets R) @
     map CorpusFactObject (corpus_facts R) @ map ProcessFactObject (process_facts R) @
     map PropositionObject (proposition_records R) @ map SemanticAuditObject (semantic_audits R) @
     map SentenceObject (rendered_sentences R) @ map SentenceAuditObject (rendered_sentence_audits R)"

definition typed_key :: "CanonicalObject \<Rightarrow> string" where
  "typed_key v = type_name v @ '':'' @ object_id v"

fun index_objects :: "CanonicalObject list \<Rightarrow> CanonicalObject strdict \<Rightarrow> CanonicalObject strdict" where
  "index_objects [] d = d"
| "index_objects (v # vs) d =
     index_objects vs (AList.update (typed_key v) v (snd (setdefault d (object_id v) v)))"

definition object_index :: "RepositorySnapshot \<Rightarrow> CanonicalObject strdict" where
  "object_index R = index_objects (canonical_objects R) []"

lemma index_objects_plain:
  "(\<And>v. v \<in> set vs \<Longrightarrow> typed_key v \<noteq> k) \<Longrightarrow>
     map_of (index_objects vs d) k = (case map_of d k of Some v \<Rightarrow> Some v | None \<Rightarrow> first_by object_id vs k)"
proof (induction vs d rule: index_objects.induct)
  case (2 v vs d)
  let ?s = "setdefault d (object_id v) v"
  have "map_of (AList.update (typed_key v) v (snd ?s)) k = ((map_of d)(object_id v \<mapsto> fst ?s)) k"
    using 2(2) [of v] by (simp add: update_conv setdefault_map_of)
  then show ?case using 2 by (auto simp: setdefault_fst split: option.splits)
qed (simp split: option.splits)

lemma by_last_Cons:
  "by_last f (x # xs) k = (case by_last f xs k of Some y \<Rightarrow> Some y | None \<Rightarrow> if f x = k then Some x else None)"
proof -
  have fa: "find P (ys @ zs) = (case find P ys of Some y \<Rightarrow> Some y | None \<Rightarrow> find P zs)" for P and ys zs :: "'a list"
    by (induction ys) auto
  show ?thesis by (simp add: by_last_def fa split: option.split)
qed

lemma index_objects_typed:
  "(\<And>v. v \<in> set vs \<Longrightarrow> object_id v \<noteq> k) \<Longrightarrow>
     map_of (index_objects vs d) k = (case by_last typed_key vs k of Some v \<Rightarrow> Some v | None \<Rightarrow> map_of d k)"
proof (induction vs d rule: index_objects.induct)
  case (2 v vs d)
  let ?s = "setdefault d (object_id v) v"
  have "map_of (AList.update (typed_key v) v (snd ?s)) k = (if typed_key v = k then Some v else map_of d k)"
    using 2(2) [of v] by (simp add: update_conv setdefault_map_of)
  moreover have "map_of (index_objects vs (AList.update (typed_key v) v (snd ?s))) k =
      (case by_last typed_key vs k of Some v \<Rightarrow> Some v | None \<Rightarrow> map_of (AList.update (typed_key v) v (snd ?s)) k)"
    by (rule 2(1)) (simp add: 2(2))
  ultimately have "map_of (index_objects (v # vs) d) k =
      (case by_last typed_key vs k of Some v \<Rightarrow> Some v | None \<Rightarrow> if typed_key v = k then Some v else map_of d k)"
    by (simp only: index_objects.simps)
  then show ?case by (simp add: by_last_Cons del: index_objects.simps split: option.split)
qed (simp add: by_last_def)

text \<open>Every collection contributes its own constructor.\<close>

lemma canonical_objects_iff [simp]:
  "ThemeObject x1 \<in> set (canonical_objects R) \<longleftrightarrow> x1 \<in> set (themes R)"
  "PaperObject x2 \<in> set (canonical_objects R) \<longleftrightarrow> x2 \<in> set (papers R)"
  "ClaimObject x3 \<in> set (canonical_objects R) \<longleftrightarrow> x3 \<in> set (candidate_claims R)"
  "QueryObject x4 \<in> set (canonical_objects R) \<longleftrightarrow> x4 \<in> set (retrieval_queries R)"
  "SpanObject x5 \<in> set (canonical_objects R) \<longleftrightarrow> x5 \<in> set (retrieved_spans R)"
  "DispositionObject x6 \<in> set (canonical_objects R) \<longleftrightarrow> x6 \<in> set (retrieval_dispositions R)"
  "EvidenceObject x7 \<in> set (canonical_objects R) \<longleftrightarrow> x7 \<in> set (evidence_records R)"
  "CpeObject x8 \<in> set (canonical_objects R) \<longleftrightarrow> x8 \<in> set (claim_paper_evidence R)"
  "AssessmentObject x9 \<in> set (canonical_objects R) \<longleftrightarrow> x9 \<in> set (claim_assessments R)"
  "FinalObject x10 \<in> set (canonical_objects R) \<longleftrightarrow> x10 \<in> set (final_claim_validations R)"
  "PacketObject x11 \<in> set (canonical_objects R) \<longleftrightarrow> x11 \<in> set (claim_packets R)"
  "CorpusFactObject x12 \<in> set (canonical_objects R) \<longleftrightarrow> x12 \<in> set (corpus_facts R)"
  "ProcessFactObject x13 \<in> set (canonical_objects R) \<longleftrightarrow> x13 \<in> set (process_facts R)"
  "PropositionObject x14 \<in> set (canonical_objects R) \<longleftrightarrow> x14 \<in> set (proposition_records R)"
  "SemanticAuditObject x15 \<in> set (canonical_objects R) \<longleftrightarrow> x15 \<in> set (semantic_audits R)"
  "SentenceObject x16 \<in> set (canonical_objects R) \<longleftrightarrow> x16 \<in> set (rendered_sentences R)"
  "SentenceAuditObject x17 \<in> set (canonical_objects R) \<longleftrightarrow> x17 \<in> set (rendered_sentence_audits R)"
  by (auto simp: canonical_objects_def)

lemma contract_distinct:
  assumes "repository_contract R"
  shows "distinct (map ThemeRecord.theme_id (themes R))" "distinct (map Paper.paper_id (papers R))"
    "distinct (map CandidateClaim.claim_id (candidate_claims R))"
    "distinct (map RetrievalQuery.query_id (retrieval_queries R))"
    "distinct (map RetrievedSpan.span_id (retrieved_spans R))"
    "distinct (map evidence_id (evidence_records R))"
    "distinct (map ClaimPaperEvidence.claim_paper_evidence_id (claim_paper_evidence R))"
    "distinct (map ClaimAssessment.claim_id (claim_assessments R))"
    "distinct (map FinalClaimValidation.claim_id (final_claim_validations R))"
    "distinct (map ClaimPacket.claim_id (claim_packets R))"
    "distinct (map corpus_fact_id (corpus_facts R))" "distinct (map process_fact_id (process_facts R))"
    "distinct (map proposition_id (proposition_records R))"
    "distinct (map SemanticAuditResult.audit_id (semantic_audits R))"
    "distinct (map RenderedSentence.sentence_id (rendered_sentences R))"
    "distinct (map RenderedSentenceAudit.audit_id (rendered_sentence_audits R))"
  using assms
  unfolding repository_contract_def identity_contract_def theme_contract_def retrieval_contract_def
    evidence_contract_def claim_evidence_contract_def claim_contract_def proposition_contract_def prose_contract_def
  by blast+

lemma contract_disposition_unique:
  assumes "repository_contract R" "d \<in> set (retrieval_dispositions R)" "d' \<in> set (retrieval_dispositions R)"
    "RetrievalDisposition.span_id d = RetrievalDisposition.span_id d'"
  shows "d = d'"
  using disposition_unique [OF _ _ assms(2-4), of "retrieved_spans R"] assms(1)
  unfolding repository_contract_def retrieval_contract_def by blast

lemma canonical_unique:
  assumes c: "repository_contract R" and "v \<in> set (canonical_objects R)" "w \<in> set (canonical_objects R)"
    and "type_name v = type_name w" "object_id v = object_id w"
  shows "v = w"
  by (cases v; cases w; use assms(2-5) in simp)
     (blast intro: contract_distinct [OF c, THEN distinct_map_eqD] contract_disposition_unique [OF c])+

lemma type_name_no_colon: "CHR '':'' \<notin> set (type_name v)"
  by (cases v) simp_all

lemma typed_key_eqD:
  assumes "typed_key v = typed_key w" shows "type_name v = type_name w \<and> object_id v = object_id w"
proof -
  have "takeWhile (\<lambda>c. c \<noteq> CHR '':'') (typed_key u) = type_name u" for u
  proof -
    have "\<forall>c \<in> set (type_name u). c \<noteq> CHR '':''" using type_name_no_colon by metis
    then show ?thesis by (simp add: typed_key_def takeWhile_append2)
  qed
  then have "type_name v = type_name w" using assms by metis
  with assms show ?thesis by (simp add: typed_key_def)
qed

subsection \<open>Identifiers contain no colon\<close>

lemma is_digit_not_colon: "is_digit c \<Longrightarrow> c \<noteq> CHR '':''"
  by (auto simp: is_digit_def)

lemma tagged_no_colon:
  assumes "tagged p ok s" "\<And>t. ok t \<Longrightarrow> list_all is_digit t" "CHR '':'' \<notin> set p"
  shows "CHR '':'' \<notin> set s"
proof -
  from assms(1) obtain t where "s = p @ t" "ok t" by (auto simp: tagged_def starts_with_iff)
  with assms(2,3) show ?thesis by (auto simp: list_all_iff dest: is_digit_not_colon)
qed

lemma tagged_id_no_colon:
  "is_ThemeId s \<Longrightarrow> CHR '':'' \<notin> set s" "is_PaperId s \<Longrightarrow> CHR '':'' \<notin> set s" "is_ClaimId s \<Longrightarrow> CHR '':'' \<notin> set s"
  "is_SpanId s \<Longrightarrow> CHR '':'' \<notin> set s" "is_EvidenceId s \<Longrightarrow> CHR '':'' \<notin> set s" "is_CorpusFactId s \<Longrightarrow> CHR '':'' \<notin> set s"
  "is_ProcessFactId s \<Longrightarrow> CHR '':'' \<notin> set s" "is_PropositionId s \<Longrightarrow> CHR '':'' \<notin> set s"
  "is_SemanticAuditId s \<Longrightarrow> CHR '':'' \<notin> set s" "is_SentenceId s \<Longrightarrow> CHR '':'' \<notin> set s"
  "is_SentenceAuditId s \<Longrightarrow> CHR '':'' \<notin> set s"
  unfolding is_ThemeId_def is_PaperId_def is_ClaimId_def is_SpanId_def is_EvidenceId_def is_CorpusFactId_def
    is_ProcessFactId_def is_PropositionId_def is_SemanticAuditId_def is_SentenceId_def is_SentenceAuditId_def
  by (erule tagged_no_colon; simp add: digits_exactly_def digits_at_least_def)+

lemma is_QueryId_no_colon: "is_QueryId s \<Longrightarrow> CHR '':'' \<notin> set s"
proof -
  assume "is_QueryId s"
  then obtain code ordinal where "query_match s = Some (code, ordinal)" by (auto simp: is_QueryId_def)
  from query_match_inverse [OF this] obtain claim where q: "is_ClaimId claim" "s = query_id_text claim code ordinal"
      "list_all is_digit ordinal" "code \<in> fst ` set QUERY_INTENT_CODES" by blast
  moreover have "CHR '':'' \<notin> set code" using q(4) by (auto simp: QUERY_INTENT_CODES_def)
  ultimately show ?thesis
    using tagged_id_no_colon(3) [OF q(1)] by (auto simp: query_id_text_def list_all_iff dest: is_digit_not_colon)
qed

lemma is_ClaimPaperEvidenceId_no_colon: "is_ClaimPaperEvidenceId s \<Longrightarrow> CHR '':'' \<notin> set s"
proof -
  assume i: "is_ClaimPaperEvidenceId s"
  then have l: "length s = 15" and t: "take 4 s = ''CPE-''" and c: "is_ClaimId (take 5 (drop 4 s))"
    and n: "s ! 9 = CHR ''-''" and p: "is_PaperId (drop 10 s)" by (simp_all add: is_ClaimPaperEvidenceId_def)
  have "s = take 4 s @ take 5 (drop 4 s) @ [s ! 9] @ drop 10 s"
    using l by (simp add: numeral_eq_Suc length_Suc_conv) (elim exE conjE, simp)
  then have "set s = set (take 4 s) \<union> set (take 5 (drop 4 s)) \<union> {s ! 9} \<union> set (drop 10 s)"
    by (metis set_append list.set(1,2) sup_assoc insert_is_Un)
  then show ?thesis using tagged_id_no_colon(2) [OF p] tagged_id_no_colon(3) [OF c] by (simp add: t n)
qed

lemma valid_Paper_id: "valid_Paper p \<Longrightarrow> is_PaperId (Paper.paper_id p)"
  by (auto simp: valid_Paper_def Paper_normalize_def Paper_fields_def Let_def split: sum.splits if_splits)

lemma canonical_id_no_colon:
  assumes "valid_snapshot R" "v \<in> set (canonical_objects R)"
  shows "CHR '':'' \<notin> set (object_id v)"
  by (cases v; use assms in \<open>auto simp: valid_snapshot_def list_all_iff valid_ThemeRecord_def valid_CandidateClaim_def valid_RetrievalQuery_def
          valid_RetrievedSpan_def valid_RetrievalDisposition_def valid_EvidenceRecord_def valid_ClaimPaperEvidence_def
          valid_ClaimAssessment_def valid_FinalClaimValidation_def valid_ClaimPacket_def valid_CorpusFact_def
          valid_ReviewProcessFact_def valid_PropositionRecord_def valid_SemanticAuditResult_def
          valid_RenderedSentence_def valid_RenderedSentenceAudit_def
        dest: tagged_id_no_colon is_QueryId_no_colon is_ClaimPaperEvidenceId_no_colon valid_Paper_id\<close>)


lemma first_app: "k \<notin> f ` set xs \<Longrightarrow> first_by f (xs @ ys) k = first_by f ys k"
  by (induction xs) auto

lemma first_here:
  "x \<in> set xs \<Longrightarrow> distinct (map (\<lambda>x. f (F x)) xs) \<Longrightarrow> first_by f (map F xs @ ys) (f (F x)) = Some (F x)"
  by (induction xs) (auto simp: image_iff)

text \<open>
  In a snapshot of well-formed records that validates, the object index is exact: under
  \<open>Type:id\<close> it holds that very object, for every object of every collection, and under a bare ID
  the first object carrying it, so that a claim ID denotes the candidate claim and never the
  assessment, validation or packet with the same ID, and a span ID the span and not its disposition.
\<close>

theorem object_index_exact:
  assumes "valid_snapshot R" and "validate_repository R = Inr r"
  shows "(\<forall>v \<in> set (canonical_objects R). map_of (object_index R) (typed_key v) = Some v) \<and>
    (\<forall>c \<in> set (candidate_claims R). map_of (object_index R) (CandidateClaim.claim_id c) = Some (ClaimObject c)) \<and>
    (\<forall>s \<in> set (retrieved_spans R). map_of (object_index R) (RetrievedSpan.span_id s) = Some (SpanObject s))"
proof (intro conjI ballI)
  note c = validate_repository_InrD [OF assms(2)]
  have nc: "CHR '':'' \<notin> set (object_id v)" if "v \<in> set (canonical_objects R)" for v
    using canonical_id_no_colon [OF assms(1) that] .
  have tk: "typed_key w \<noteq> object_id v" if "v \<in> set (canonical_objects R)" for v w
  proof
    assume "typed_key w = object_id v"
    then have "CHR '':'' \<in> set (object_id v)" by (simp add: typed_key_def flip: \<open>typed_key w = object_id v\<close>)
    with nc [OF that] show False by contradiction
  qed
  have plain: "map_of (object_index R) (object_id v) = first_by object_id (canonical_objects R) (object_id v)"
    if "v \<in> set (canonical_objects R)" for v
    using index_objects_plain [of "canonical_objects R" "object_id v" "[]"] tk [OF that] by (simp add: object_index_def)
  show "map_of (object_index R) (typed_key v) = Some v" if v: "v \<in> set (canonical_objects R)" for v
  proof -
    have "map_of (object_index R) (typed_key v) = by_last typed_key (canonical_objects R) (typed_key v)"
    proof -
      have "map_of (object_index R) (typed_key v) =
          (case by_last typed_key (canonical_objects R) (typed_key v) of Some v \<Rightarrow> Some v | None \<Rightarrow> map_of [] (typed_key v))"
        unfolding object_index_def by (rule index_objects_typed) (use tk in metis)
      then show ?thesis by (simp split: option.splits)
    qed
    moreover obtain w where w: "by_last typed_key (canonical_objects R) (typed_key v) = Some w"
      using by_last_None_iff [of typed_key "canonical_objects R" "typed_key v"] v by fastforce
    moreover have "w = v"
      using by_last_SomeD [OF w] typed_key_eqD [of w v] canonical_unique [OF c _ v] by blast
    ultimately show ?thesis by simp
  qed
  have theme: "hd (ThemeRecord.theme_id t) = CHR ''T''" if "t \<in> set (themes R)" for t
    using assms(1) that
    by (auto simp: valid_snapshot_def list_all_iff valid_ThemeRecord_def is_ThemeId_def tagged_def starts_with_iff)
  have paper: "hd (Paper.paper_id t) = CHR ''P''" if "t \<in> set (papers R)" for t
  proof -
    have "valid_Paper t" using assms(1) that by (simp add: valid_snapshot_def list_all_iff)
    then show ?thesis using valid_Paper_id [of t] by (auto simp: is_PaperId_iff)
  qed
  have claim: "hd (CandidateClaim.claim_id t) = CHR ''C''" if "t \<in> set (candidate_claims R)" for t
    using assms(1) that
    by (auto simp: valid_snapshot_def list_all_iff valid_CandidateClaim_def is_ClaimId_def tagged_def starts_with_iff)
  have query: "hd (RetrievalQuery.query_id t) = CHR ''Q''" if "t \<in> set (retrieval_queries R)" for t
  proof -
    from assms(1) that have "is_QueryId (RetrievalQuery.query_id t)"
      by (auto simp: valid_snapshot_def list_all_iff valid_RetrievalQuery_def)
    then obtain code ordinal where "query_match (RetrievalQuery.query_id t) = Some (code, ordinal)"
      by (auto simp: is_QueryId_def)
    from query_match_inverse [OF this] show ?thesis by (auto simp: query_id_text_def)
  qed
  have span: "hd (RetrievedSpan.span_id t) = CHR ''R''" if "t \<in> set (retrieved_spans R)" for t
    using assms(1) that
    by (auto simp: valid_snapshot_def list_all_iff valid_RetrievedSpan_def is_SpanId_def tagged_def starts_with_iff)
  show "map_of (object_index R) (CandidateClaim.claim_id x) = Some (ClaimObject x)" if x: "x \<in> set (candidate_claims R)" for x
  proof -
    have "CandidateClaim.claim_id x \<notin> object_id ` set (map ThemeObject (themes R) @ map PaperObject (papers R))"
      using claim [OF x] theme paper by (force simp: image_iff)
    then have "first_by object_id (canonical_objects R) (object_id (ClaimObject x)) = Some (ClaimObject x)"
      unfolding canonical_objects_def append_assoc [symmetric, of "map ThemeObject (themes R)"]
      using first_here [of x "candidate_claims R" object_id ClaimObject] x contract_distinct(3) [OF c] by (subst first_app) simp_all
    then show ?thesis using plain [of "ClaimObject x"] x by simp
  qed
  show "map_of (object_index R) (RetrievedSpan.span_id x) = Some (SpanObject x)" if x: "x \<in> set (retrieved_spans R)" for x
  proof -
    let ?pre = "map ThemeObject (themes R) @ map PaperObject (papers R) @ map ClaimObject (candidate_claims R) @
      map QueryObject (retrieval_queries R)"
    have split: "\<exists>rest. canonical_objects R = ?pre @ map SpanObject (retrieved_spans R) @ rest"
      unfolding canonical_objects_def append_assoc by blast
    have "RetrievedSpan.span_id x \<notin> object_id ` set ?pre"
      using span [OF x] theme paper claim query by (force simp: image_iff)
    with split have "first_by object_id (canonical_objects R) (object_id (SpanObject x)) = Some (SpanObject x)"
      using first_here [of x "retrieved_spans R" object_id SpanObject] x contract_distinct(5) [OF c]
      by (elim exE) (simp add: first_app del: append_assoc)
    then show ?thesis using plain [of "SpanObject x"] x by simp
  qed
qed

end
