(* ===== verification/VR_Samples.thy ===== *)
theory VR_Samples
  imports VR_Repository
begin

section \<open>A small complete repository, and the theorems on it\<close>

text \<open>
  One claim followed from its query to a rendered sentence: two retrieved spans of one paper, the
  second a duplicate of the first, one evidence record, its CPE, assessment, final validation and
  packet, one scientific proposition with its audit and one sentence. The witnesses apply the
  theorems on validated repositories to it.
\<close>

definition s_theme :: ThemeRecord where
  "s_theme = \<lparr>ThemeRecord.theme_id = ''T0001'', ThemeRecord.title = ''t'', description = ''d'',
     ThemeRecord.origin = Origin.HUMAN, parent_theme_id = None\<rparr>"

definition s_paper :: Paper where
  "s_paper = \<lparr>Paper.paper_id = ''P0001'', Paper.title = None, authors = None, year = Some 2020,
     doi = Some ''doi:10.1000/abc'', journal = None, identity_keys = [''doi:10.1000/abc''],
     study_group_id = None, related_publications = [], independence_status = IndependenceStatus.UNKNOWN,
     Paper.raw_md_path = ''a.md'', source_hash = VR_Ids.candidate_claim_hash ''s'',
     raw_md_hash = VR_Ids.candidate_claim_hash ''r''\<rparr>"

definition s_claim :: CandidateClaim where
  "s_claim = \<lparr>CandidateClaim.claim_id = ''C0001'', CandidateClaim.theme_id = ''T0001'',
     CandidateClaim.candidate_claim = ''claim'', CandidateClaim.origin = Origin.HUMAN, origin_refs = []\<rparr>"

definition s_query :: RetrievalQuery where
  "s_query = \<lparr>RetrievalQuery.query_id = ''Q-C0001-SUP-01'', RetrievalQuery.claim_id = ''C0001'',
     RetrievalQuery.candidate_claim_hash = VR_Ids.candidate_claim_hash ''claim'',
     RetrievalQuery.intent = RetrievalIntent.SUPPORT, query_text = ''q''\<rparr>"

definition s_span :: "string \<Rightarrow> RetrievedSpan" where
  "s_span sid = \<lparr>RetrievedSpan.span_id = sid, RetrievedSpan.paper_id = ''P0001'',
     locator = \<lparr>SpanLocator.raw_md_path = ''a.md'', page = None, section = None, start_offset = 0,
       end_offset = 5, source_span_hash = VR_Ids.candidate_claim_hash ''x''\<rparr>,
     source_text = ''text'',
     retrieval = \<lparr>RetrievalMetadata.query_id = ''Q-C0001-SUP-01'',
       RetrievalMetadata.intent = RetrievalIntent.SUPPORT, retrieval_score = (1, 0)\<rparr>\<rparr>"

definition s_assessed :: RetrievalDisposition where
  "s_assessed = \<lparr>RetrievalDisposition.span_id = ''R0001'',
     RetrievalDisposition.status = RetrievalDispositionStatus.ASSESSED, RetrievalDisposition.reason = None,
     canonical_span_id = None\<rparr>"

definition s_duplicate :: RetrievalDisposition where
  "s_duplicate = \<lparr>RetrievalDisposition.span_id = ''R0002'',
     RetrievalDisposition.status = RetrievalDispositionStatus.DUPLICATE, RetrievalDisposition.reason = None,
     canonical_span_id = Some ''R0001''\<rparr>"

definition s_evidence :: EvidenceRecord where
  "s_evidence = \<lparr>evidence_id = ''E0001'', EvidenceRecord.claim_id = ''C0001'', retrieved_span_id = ''R0001'',
     EvidenceRecord.paper_id = ''P0001'', EvidenceRecord.relation_to_candidate = EvidenceRelation.SUPPORTS,
     evidence_summary = ''e'',
     quality = \<lparr>directness = EvidenceDirectness.DIRECT, methodological_relevance = MethodologicalRelevance.HIGH,
       EvidenceQuality.strength = EvidenceStrength.HIGH, assessability = Assessability.FULL, limitations = []\<rparr>,
     EvidenceRecord.assessment_note = ''n''\<rparr>"

definition s_cpe :: ClaimPaperEvidence where
  "s_cpe = \<lparr>ClaimPaperEvidence.claim_paper_evidence_id = ''CPE-C0001-P0001'',
     ClaimPaperEvidence.claim_id = ''C0001'', ClaimPaperEvidence.paper_id = ''P0001'',
     evidence_ids = [''E0001''], ClaimPaperEvidence.relation_to_candidate = AggregateRelation.SUPPORTS,
     component_relations = \<lparr>supports = [''E0001''], contradicts = [], qualifies = [], contextual = [], unclear = []\<rparr>,
     ClaimPaperEvidence.strength = EvidenceStrength.HIGH,
     within_paper_consistency = WithinPaperConsistency.CONSISTENT, ClaimPaperEvidence.assessment_note = ''n''\<rparr>"

definition s_assessment :: ClaimAssessment where
  "s_assessment = \<lparr>ClaimAssessment.claim_id = ''C0001'',
     ClaimAssessment.aggregate_strength = AggregateStrength.HIGH,
     evidence_sufficiency = EvidenceSufficiency.SUFFICIENT, decision = ClaimDecision.RETAIN,
     rejection_basis = None, support_summary = ''s'', contradiction_summary = ''c'',
     qualification_summary = ''q'', ClaimAssessment.reason = ''r''\<rparr>"

definition s_final :: FinalClaimValidation where
  "s_final = \<lparr>FinalClaimValidation.claim_id = ''C0001'', FinalClaimValidation.final_claim = ''final'',
     FinalClaimValidation.status = FinalClaimStatus.VALID,
     paper_relations = [\<lparr>FinalPaperRelation.claim_paper_evidence_id = ''CPE-C0001-P0001'',
       FinalPaperRelation.paper_id = ''P0001'', relation_to_final_claim = AggregateRelation.SUPPORTS\<rparr>],
     scope_check = ValidationCheckResult.PASS, certainty_check = ValidationCheckResult.PASS,
     causal_language_check = ValidationCheckResult.PASS,
     numerical_claim_check = ValidationCheckResult.NOT_APPLICABLE, notes = ''n''\<rparr>"

definition s_packet :: ClaimPacket where
  "s_packet = \<lparr>ClaimPacket.claim_id = ''C0001'', ClaimPacket.theme_id = ''T0001'',
     ClaimPacket.candidate_claim = ''claim'', ClaimPacket.final_claim = ''final'',
     ClaimPacket.aggregate_strength = AggregateStrength.HIGH,
     claim_paper_evidence_ids = [''CPE-C0001-P0001'']\<rparr>"

definition s_proposition :: PropositionRecord where
  "s_proposition = \<lparr>proposition_id = ''PR0001'', PropositionRecord.text = ''p'',
     content_class = PropositionContentClass.SCIENTIFIC_CLAIM, claim_ids = [''C0001''],
     citation_bindings = [\<lparr>CitationBinding.paper_id = ''P0001'', CitationBinding.claim_id = ''C0001'',
       CitationBinding.claim_paper_evidence_id = ''CPE-C0001-P0001''\<rparr>],
     corpus_fact_ids = [], process_fact_ids = []\<rparr>"

definition s_audit :: SemanticAuditResult where
  "s_audit = \<lparr>SemanticAuditResult.audit_id = ''SA0001'', target_id = ''PR0001'',
     class_verdict = AuditClassVerdict.CORRECT, provenance_verdict = AuditProvenanceVerdict.ENTAILED,
     SemanticAuditResult.reason = ''r'', referenced_claim_ids = [''C0001''],
     referenced_corpus_fact_ids = [], referenced_process_fact_ids = []\<rparr>"

definition s_sentence :: RenderedSentence where
  "s_sentence = \<lparr>RenderedSentence.sentence_id = ''RS0001'', RenderedSentence.text = ''s'',
     source_proposition_ids = [''PR0001'']\<rparr>"

definition s_sentence_audit :: RenderedSentenceAudit where
  "s_sentence_audit = \<lparr>RenderedSentenceAudit.audit_id = ''RSA0001'',
     RenderedSentenceAudit.sentence_id = ''RS0001'', verdict = AuditProvenanceVerdict.ENTAILED,
     RenderedSentenceAudit.reason = ''r''\<rparr>"

definition sample :: RepositorySnapshot where
  "sample = \<lparr>themes = [s_theme], papers = [s_paper], candidate_claims = [s_claim],
     retrieval_queries = [s_query], retrieved_spans = [s_span ''R0001'', s_span ''R0002''],
     retrieval_dispositions = [s_assessed, s_duplicate], evidence_records = [s_evidence],
     claim_paper_evidence = [s_cpe], claim_assessments = [s_assessment],
     final_claim_validations = [s_final], claim_packets = [s_packet], corpus_facts = [],
     process_facts = [], proposition_records = [s_proposition], semantic_audits = [s_audit],
     rendered_sentences = [s_sentence], rendered_sentence_audits = [s_sentence_audit]\<rparr>"

lemmas sample_records =
  s_theme_def s_paper_def s_claim_def s_query_def s_span_def s_assessed_def s_duplicate_def s_evidence_def
  s_cpe_def s_assessment_def s_final_def s_packet_def s_proposition_def s_audit_def s_sentence_def
  s_sentence_audit_def

lemma sample_parse: "parse_query_id ''Q-C0001-SUP-01'' = Inr (''C0001'', ''support'', 1)"
  by code_simp

lemma sample_ids:
  "is_ThemeId ''T0001''" "is_PaperId ''P0001''" "is_ClaimId ''C0001''" "is_QueryId ''Q-C0001-SUP-01''"
  "is_SpanId ''R0001''" "is_SpanId ''R0002''" "is_EvidenceId ''E0001''"
  "is_ClaimPaperEvidenceId ''CPE-C0001-P0001''" "is_PropositionId ''PR0001''" "is_SemanticAuditId ''SA0001''"
  "is_SentenceId ''RS0001''" "is_SentenceAuditId ''RSA0001''"
  by code_simp+

lemma sample_valid_paper: "valid_Paper s_paper"
proof -
  have "normalize_doi_field (Some ''doi:10.1000/abc'') = Inr (Some ''doi:10.1000/abc'')"
    and "normalize_identity_keys [''doi:10.1000/abc''] = Inr [''doi:10.1000/abc'']" by code_simp+
  then show ?thesis
    by (simp add: valid_Paper_def Paper_normalize_def Paper_fields_def s_paper_def sample_ids candidate_claim_hash_is_Sha256)
qed

lemma sample_valid: "valid_snapshot sample"
  by (simp add: valid_snapshot_def sample_def sample_valid_paper)
     (simp add: sample_records sample_ids sample_parse candidate_claim_hash_is_Sha256
        valid_ThemeRecord_def valid_CandidateClaim_def valid_RetrievalQuery_def RetrievalQuery_validator_def
        valid_RetrievedSpan_def valid_SpanLocator_def SpanLocator_validator_def valid_RetrievalMetadata_def
        valid_RetrievalDisposition_def RetrievalDisposition_validator_def valid_EvidenceRecord_def
        EvidenceQuality_validator_def valid_ClaimPaperEvidence_def valid_ComponentRelations_def
        ClaimPaperEvidence_validator_def aggregate_check_def substantive_groups_def populated_substantive_def
        grouped_ids_def grouped_def valid_ClaimAssessment_def ClaimAssessment_validator_def
        valid_FinalClaimValidation_def valid_FinalPaperRelation_def FinalClaimValidation_validator_def
        final_checks_def valid_ClaimPacket_def valid_PropositionRecord_def valid_CitationBinding_def
        PropositionRecord_validator_def valid_SemanticAuditResult_def valid_RenderedSentence_def
        valid_RenderedSentenceAudit_def)

lemma sample_contract_base:
  "identity_contract (papers sample)" "theme_contract (themes sample)"
  "cross_contract (themes sample) (papers sample) (candidate_claims sample) (corpus_facts sample)"
  by (simp_all add: sample_def identity_contract_def theme_contract_def cross_contract_def parent_rel_def
      sample_records acyclic_def)

lemma sample_canonical_rel: "canonical_rel (retrieval_dispositions sample) = {(''R0002'', ''R0001'')}"
  by (auto simp: canonical_rel_def sample_def s_assessed_def s_duplicate_def;
      rule exI [of _ s_duplicate]; simp add: s_duplicate_def)

lemma sample_contract_retrieval:
  "retrieval_contract (candidate_claims sample) (retrieval_queries sample) (retrieved_spans sample)
       (retrieval_dispositions sample) (papers sample)"
proof -
  have "acyclic {}" by (simp add: acyclic_def)
  then have "acyclic {(''R0002'', ''R0001'')}" by (simp add: acyclic_insert)
  then show ?thesis
    unfolding retrieval_contract_def sample_canonical_rel
    by (simp add: sample_def sample_records query_bound_def span_bound_def disposition_bound_def
        exactly_one_def sample_parse)
qed

lemma sample_contract_evidence:
  "evidence_contract (candidate_claims sample) (retrieval_queries sample) (retrieved_spans sample)
       (retrieval_dispositions sample) (evidence_records sample)"
  by (simp add: evidence_contract_def sample_def sample_records evidence_bound_def assessed_def grouped_by_def
      exactly_one_def)

lemma sample_contract_claims:
  "claim_evidence_contract (candidate_claims sample) (papers sample) (evidence_records sample) (claim_paper_evidence sample)"
  "claim_contract (candidate_claims sample) (claim_paper_evidence sample) (claim_assessments sample)
       (final_claim_validations sample) (claim_packets sample)"
  "evidence_closed (evidence_records sample) (claim_paper_evidence sample) (claim_packets sample)"
proof -
  have "claim_cpes [s_cpe] ''C0001'' = {''CPE-C0001-P0001''}"
  proof -
    have "{cpe \<in> set [s_cpe]. ClaimPaperEvidence.claim_id cpe = ''C0001''} = {s_cpe}"
      by (auto simp: s_cpe_def)
    then show ?thesis by (simp add: claim_cpes_def) (simp add: s_cpe_def)
  qed
  then show "claim_contract (candidate_claims sample) (claim_paper_evidence sample) (claim_assessments sample)
       (final_claim_validations sample) (claim_packets sample)"
    by (simp add: claim_contract_def sample_def packet_bound_def final_bound_def s_packet_def s_claim_def
        s_assessment_def s_final_def) (simp add: s_cpe_def)
qed (simp_all add: claim_evidence_contract_def evidence_closed_def sample_def sample_records
      cpe_bound_def cpe_member_def grouped_ids_def grouped_def)

lemma sample_contract_prose:
  "proposition_contract (claim_packets sample) (claim_paper_evidence sample) (corpus_facts sample) (process_facts sample)
       (proposition_records sample) (semantic_audits sample)"
  "prose_contract (proposition_records sample) (semantic_audits sample) (rendered_sentences sample)
       (rendered_sentence_audits sample)"
  by (simp_all add: proposition_contract_def prose_contract_def sample_def sample_records proposition_bound_def
      binding_bound_def audit_bound_def exactly_one_def released_def grouped_by_def
      derive_semantic_audit_disposition_def)

lemma sample_validates: "\<exists>r. validate_repository sample = Inr r"
  unfolding validate_repository_iff repository_contract_def
  using sample_contract_base sample_contract_retrieval sample_contract_evidence sample_contract_claims
    sample_contract_prose by blast

lemma sample_retrieval_validates:
  "\<exists>r. validate_retrieval_bundle (candidate_claims sample) (retrieval_queries sample) (retrieved_spans sample)
     (retrieval_dispositions sample) (papers sample) = Inr r"
  using sample_contract_retrieval
  by (simp add: validate_retrieval_bundle_def finish_ok_iff collect_retrieval_bundle_clean)

theorem canonical_span_resolves_witness:
  "\<exists>t \<in> set (retrieved_spans sample).
     (''R0002'', RetrievedSpan.span_id t) \<in> (canonical_rel (retrieval_dispositions sample))\<^sup>* \<and>
     RetrievedSpan.span_id t \<notin> Domain (canonical_rel (retrieval_dispositions sample))"
proof -
  obtain r where r: "validate_retrieval_bundle (candidate_claims sample) (retrieval_queries sample)
      (retrieved_spans sample) (retrieval_dispositions sample) (papers sample) = Inr r"
    using sample_retrieval_validates ..
  have "s_span ''R0002'' \<in> set (retrieved_spans sample)" by (simp add: sample_def)
  from canonical_span_resolves [OF r this] show ?thesis by (auto simp: s_span_def)
qed

theorem rendered_sentence_provenance_witness:
  "\<exists>p \<in> set (proposition_records sample). proposition_id p = ''PR0001'' \<and>
     citation_supported sample (hd (citation_bindings p))"
proof -
  obtain r where r: "validate_repository sample = Inr r" using sample_validates ..
  have "s_sentence \<in> set (rendered_sentences sample)" "''PR0001'' \<in> set (source_proposition_ids s_sentence)"
    by (simp_all add: sample_def s_sentence_def)
  from rendered_sentence_provenance [OF sample_valid r this] show ?thesis
    by (auto simp: sample_def s_proposition_def)
qed

theorem packet_covers_assessed_spans_witness:
  "\<exists>e \<in> set (evidence_records sample). \<exists>cpe \<in> set (claim_paper_evidence sample).
    retrieved_span_id e = ''R0001'' \<and> evidence_id e \<in> set (evidence_ids cpe) \<and>
    ClaimPaperEvidence.claim_paper_evidence_id cpe \<in> set (claim_paper_evidence_ids s_packet)"
proof -
  obtain r where r: "validate_repository sample = Inr r" using sample_validates ..
  have "s_packet \<in> set (claim_packets sample)" "s_span ''R0001'' \<in> set (retrieved_spans sample)"
    "s_query \<in> set (retrieval_queries sample)"
    "RetrievalQuery.query_id s_query = RetrievalMetadata.query_id (retrieval (s_span ''R0001''))"
    "RetrievalQuery.claim_id s_query = ClaimPacket.claim_id s_packet"
    "assessed (retrieval_dispositions sample) (RetrievedSpan.span_id (s_span ''R0001''))"
    by (simp_all add: sample_def s_query_def s_span_def s_packet_def assessed_def grouped_by_def s_assessed_def
        s_duplicate_def)
  from packet_covers_assessed_spans [OF r this] show ?thesis by (simp add: s_span_def)
qed

theorem object_index_exact_witness:
  "map_of (object_index sample) ''C0001'' = Some (ClaimObject s_claim) \<and>
   map_of (object_index sample) ''ClaimPacket:C0001'' = Some (PacketObject s_packet)"
proof -
  obtain r where r: "validate_repository sample = Inr r" using sample_validates ..
  have m: "PacketObject s_packet \<in> set (canonical_objects sample)" "s_claim \<in> set (candidate_claims sample)"
    by (simp_all add: sample_def)
  have "typed_key (PacketObject s_packet) = ''ClaimPacket:C0001''" "CandidateClaim.claim_id s_claim = ''C0001''"
    by (simp_all add: typed_key_def s_packet_def s_claim_def)
  with object_index_exact [OF sample_valid r] m show ?thesis by metis
qed

end
