(* ===== verification/VR_Registry.thy ===== *)
theory VR_Registry
  imports VR_Samples
begin

section \<open>Allocation of canonical identifiers (\<open>runtime/registry.py\<close>)\<close>

text \<open>
  The registry keeps, per kind of object, the highest number handed out and, per claim and
  retrieval intent, the highest query ordinal. The locale \<open>allocator\<close> states what a client of
  any allocator relies on (new identifiers are fresh and stay known); it is interpreted on the
  two operations of the registry, and the theorems on whole runs of allocations follow from it.
\<close>

datatype IdKind =
    THEME | PAPER | CLAIM | SPAN | EVIDENCE | CORPUS_FACT | PROCESS_FACT | PROPOSITION
  | SEMANTIC_AUDIT | RENDERED_SENTENCE | RENDERED_SENTENCE_AUDIT

fun IdKind_value :: "IdKind \<Rightarrow> string" where
  "IdKind_value IdKind.THEME = ''theme''"
| "IdKind_value IdKind.PAPER = ''paper''"
| "IdKind_value IdKind.CLAIM = ''claim''"
| "IdKind_value IdKind.SPAN = ''span''"
| "IdKind_value IdKind.EVIDENCE = ''evidence''"
| "IdKind_value IdKind.CORPUS_FACT = ''corpus_fact''"
| "IdKind_value IdKind.PROCESS_FACT = ''process_fact''"
| "IdKind_value IdKind.PROPOSITION = ''proposition''"
| "IdKind_value IdKind.SEMANTIC_AUDIT = ''semantic_audit''"
| "IdKind_value IdKind.RENDERED_SENTENCE = ''rendered_sentence''"
| "IdKind_value IdKind.RENDERED_SENTENCE_AUDIT = ''rendered_sentence_audit''"

fun PREFIXES :: "IdKind \<Rightarrow> string" where
  "PREFIXES IdKind.THEME = ''T''"
| "PREFIXES IdKind.PAPER = ''P''"
| "PREFIXES IdKind.CLAIM = ''C''"
| "PREFIXES IdKind.SPAN = ''R''"
| "PREFIXES IdKind.EVIDENCE = ''E''"
| "PREFIXES IdKind.CORPUS_FACT = ''CF''"
| "PREFIXES IdKind.PROCESS_FACT = ''PF''"
| "PREFIXES IdKind.PROPOSITION = ''PR''"
| "PREFIXES IdKind.SEMANTIC_AUDIT = ''SA''"
| "PREFIXES IdKind.RENDERED_SENTENCE = ''RS''"
| "PREFIXES IdKind.RENDERED_SENTENCE_AUDIT = ''RSA''"

text \<open>The keys of \<open>_PREFIXES\<close> in the order of the dict.\<close>

definition all_kinds :: "IdKind list" where
  "all_kinds = [IdKind.THEME, IdKind.PAPER, IdKind.CLAIM, IdKind.SPAN, IdKind.EVIDENCE, IdKind.CORPUS_FACT,
     IdKind.PROCESS_FACT, IdKind.PROPOSITION, IdKind.SEMANTIC_AUDIT, IdKind.RENDERED_SENTENCE,
     IdKind.RENDERED_SENTENCE_AUDIT]"

definition FIXED_FOUR_DIGIT :: "IdKind set" where
  "FIXED_FOUR_DIGIT = {IdKind.THEME, IdKind.PAPER, IdKind.CLAIM}"

datatype RegistryError = ValueError string | OverflowError string

record CanonicalIdRegistry =
  counters :: "(IdKind \<times> int) list"
  query_ordinals :: "int strdict"

subsection \<open>Construction\<close>

text \<open>\<open>C[0-9]{4}:(?:SUP|CON|BND|ALT|MTH|NUL)\<close>.\<close>

definition is_ordinal_key :: "string \<Rightarrow> bool" where
  "is_ordinal_key key \<longleftrightarrow>
     is_ClaimId (take 5 key) \<and> take 1 (drop 5 key) = '':'' \<and> drop 6 key \<in> set (map fst QUERY_INTENT_CODES)"

fun first_error :: "('a \<Rightarrow> 'e option) \<Rightarrow> 'a list \<Rightarrow> 'e option" where
  "first_error check [] = None"
| "first_error check (x # xs) = (case check x of Some e \<Rightarrow> Some e | None \<Rightarrow> first_error check xs)"

lemma first_error_None [simp]: "first_error check xs = None \<longleftrightarrow> (\<forall>x \<in> set xs. check x = None)"
  by (induction xs) (auto split: option.splits)

definition CanonicalIdRegistry_validator :: "CanonicalIdRegistry \<Rightarrow> string option" where
  "CanonicalIdRegistry_validator r =
     raise_if (list_ex (\<lambda>(_, value). value < 0) (counters r)) ''canonical ID counters must be nonnegative''
    (raise_if (list_ex (\<lambda>(kind, value). kind \<in> FIXED_FOUR_DIGIT \<and> 9999 < value) (counters r))
       ''fixed-width canonical ID counter exceeds its namespace''
    (first_error (\<lambda>(key, value).
       raise_if (\<not> is_ordinal_key key) ''query ordinal registry key is malformed''
      (raise_if (\<not> (0 \<le> value \<and> value \<le> 99)) ''query ordinal registry value is outside 00..99'' None))
       (query_ordinals r)))"

definition valid_registry :: "CanonicalIdRegistry \<Rightarrow> bool" where
  "valid_registry r \<longleftrightarrow> distinct (map fst (counters r)) \<and> distinct (map fst (query_ordinals r)) \<and>
     CanonicalIdRegistry_validator r = None"

subsection \<open>Operations\<close>

definition allocate :: "IdKind \<Rightarrow> int \<Rightarrow> CanonicalIdRegistry \<Rightarrow> RegistryError + string list \<times> CanonicalIdRegistry" where
  "allocate kind count self =
     (if count < 1 then Inl (ValueError ''allocation count must be positive'')
      else
        (let current = dict_get (counters self) kind 0; end = current + count in
         if kind \<in> FIXED_FOUR_DIGIT \<and> 9999 < end
         then Inl (OverflowError (IdKind_value kind @ '' ID space is exhausted''))
         else
           Inr (map (\<lambda>number. PREFIXES kind @ pad_str 4 (nat number)) [current + 1..end],
                self\<lparr>counters := AList.update kind end (counters self)\<rparr>)))"

fun intent_code :: "RetrievalIntent \<Rightarrow> string" where
  "intent_code RetrievalIntent.SUPPORT = ''SUP''"
| "intent_code RetrievalIntent.CONTRADICTION = ''CON''"
| "intent_code RetrievalIntent.BOUNDARY = ''BND''"
| "intent_code RetrievalIntent.ALTERNATIVE = ''ALT''"
| "intent_code RetrievalIntent.METHOD_CHALLENGE = ''MTH''"
| "intent_code RetrievalIntent.NULL_RESULT = ''NUL''"

definition allocate_query ::
  "string \<Rightarrow> RetrievalIntent \<Rightarrow> CanonicalIdRegistry \<Rightarrow> RegistryError + string \<times> CanonicalIdRegistry" where
  "allocate_query cid intention self =
     (let key = cid @ '':'' @ intent_code intention;
          ordinal = dict_get (query_ordinals self) key 0 + 1 in
      if 99 < ordinal then Inl (OverflowError (''query ordinal space is exhausted for '' @ key))
      else Inr (''Q-'' @ cid @ ''-'' @ intent_code intention @ ''-'' @ pad_str 2 (nat ordinal),
                self\<lparr>query_ordinals := AList.update key ordinal (query_ordinals self)\<rparr>))"

text \<open>\<open>claim_paper_evidence_id\<close> and the CPE ID it writes.\<close>

definition allocate_cpe_id :: "string \<Rightarrow> string \<Rightarrow> RegistryError + string" where
  "allocate_cpe_id cid pid =
     (if \<not> is_ClaimId cid then Inl (ValueError ''invalid claim ID for CPE allocation'')
      else if \<not> is_PaperId pid then Inl (ValueError ''invalid paper ID for CPE allocation'')
      else Inr (''CPE-'' @ cid @ ''-'' @ pid))"

subsection \<open>Reading identifiers back\<close>

definition digits1 :: "string \<Rightarrow> bool" where
  "digits1 s \<longleftrightarrow> s \<noteq> [] \<and> list_all is_digit s"

text \<open>\<open>Q-(C[0-9]{4})-(SUP|CON|BND|ALT|MTH|NUL)-([0-9]{2})\<close>: the key and the ordinal.\<close>

definition query_groups :: "string \<Rightarrow> (string \<times> nat) option" where
  "query_groups s =
     (let claim = take 5 (drop 2 s); code = take 3 (drop 8 s); ordinal = drop 12 s in
      if length s = 14 \<and> take 2 s = ''Q-'' \<and> is_ClaimId claim \<and> s ! 7 = CHR ''-''
         \<and> code \<in> set (map fst QUERY_INTENT_CODES) \<and> s ! 11 = CHR ''-'' \<and> list_all is_digit ordinal
      then Some (claim @ '':'' @ code, str_nat ordinal) else None)"

definition ordered_kinds :: "IdKind list" where
  "ordered_kinds = sort_key (\<lambda>kind. - int (length (PREFIXES kind))) all_kinds"

definition matches_kind :: "string \<Rightarrow> IdKind \<Rightarrow> bool" where
  "matches_kind identifier kind \<longleftrightarrow> tagged (PREFIXES kind) digits1 identifier"

definition register_identifier :: "string \<Rightarrow> (IdKind \<times> int) list \<times> int strdict \<Rightarrow> (IdKind \<times> int) list \<times> int strdict" where
  "register_identifier identifier st =
     (case query_groups identifier of
        Some (key, ordinal) \<Rightarrow>
          (fst st, AList.update key (max (dict_get (snd st) key 0) (int ordinal)) (snd st))
      | None \<Rightarrow>
          (case find (matches_kind identifier) ordered_kinds of
             None \<Rightarrow> st
           | Some kind \<Rightarrow>
               (AList.update kind
                  (max (dict_get (fst st) kind 0) (int (str_nat (drop (length (PREFIXES kind)) identifier)))) (fst st),
                snd st)))"

definition from_identifiers :: "string list \<Rightarrow> RegistryError + CanonicalIdRegistry" where
  "from_identifiers identifiers =
     (let (cs, qs) = fold register_identifier identifiers ([], []);
          r = \<lparr>counters = cs, query_ordinals = qs\<rparr> in
      case CanonicalIdRegistry_validator r of Some e \<Rightarrow> Inl (ValueError e) | None \<Rightarrow> Inr r)"

definition validate_covers_identifiers :: "CanonicalIdRegistry \<Rightarrow> string list \<Rightarrow> RegistryError option" where
  "validate_covers_identifiers self identifiers =
     (case from_identifiers identifiers of
        Inl e \<Rightarrow> Some e
      | Inr required \<Rightarrow>
          (case find (\<lambda>(kind, minimum). dict_get (counters self) kind 0 < minimum) (counters required) of
             Some (kind, _) \<Rightarrow>
               Some (ValueError (''canonical ID registry does not cover '' @ IdKind_value kind @ '' identifier history''))
           | None \<Rightarrow>
               if list_ex (\<lambda>(key, minimum). dict_get (query_ordinals self) key 0 < minimum) (query_ordinals required)
               then Some (ValueError ''canonical ID registry does not cover retrieval-query ordinal history'')
               else None))"

subsection \<open>What an identifier says about the counters\<close>

datatype registered = Query string nat | Counter IdKind nat | Unregistered

definition classify :: "string \<Rightarrow> registered" where
  "classify identifier =
     (case query_groups identifier of
        Some (key, ordinal) \<Rightarrow> Query key ordinal
      | None \<Rightarrow>
          (case find (matches_kind identifier) ordered_kinds of
             None \<Rightarrow> Unregistered
           | Some kind \<Rightarrow> Counter kind (str_nat (drop (length (PREFIXES kind)) identifier))))"

definition covers :: "CanonicalIdRegistry \<Rightarrow> string \<Rightarrow> bool" where
  "covers r identifier =
     (case classify identifier of
        Query key ordinal \<Rightarrow> int ordinal \<le> dict_get (query_ordinals r) key 0
      | Counter kind n \<Rightarrow> int n \<le> dict_get (counters r) kind 0
      | Unregistered \<Rightarrow> True)"

lemma register_identifier_classify:
  "register_identifier identifier st =
     (case classify identifier of
        Query key n \<Rightarrow> (fst st, AList.update key (max (dict_get (snd st) key 0) (int n)) (snd st))
      | Counter kind n \<Rightarrow> (AList.update kind (max (dict_get (fst st) kind 0) (int n)) (fst st), snd st)
      | Unregistered \<Rightarrow> st)"
  by (auto simp: register_identifier_def classify_def split: option.splits prod.splits)

text \<open>A dictionary of minima is met by a dictionary of values; raising one minimum by \<open>max\<close>.\<close>

definition within :: "('k \<times> int) list \<Rightarrow> ('k \<times> int) list \<Rightarrow> bool" where
  "within minima d \<longleftrightarrow> (\<forall>k v. map_of minima k = Some v \<longrightarrow> v \<le> dict_get d k 0)"

definition nonneg :: "('k \<times> int) list \<Rightarrow> bool" where
  "nonneg d \<longleftrightarrow> (\<forall>k. 0 \<le> dict_get d k 0)"

lemma within_Nil [simp]: "within [] d"
  by (simp add: within_def)

lemma within_update_max:
  assumes "nonneg d"
  shows "within (AList.update k (max (dict_get minima k 0) n) minima) d \<longleftrightarrow> within minima d \<and> n \<le> dict_get d k 0"
proof -
  have "dict_get minima k 0 \<le> dict_get d k 0 \<longleftrightarrow> (\<forall>v. map_of minima k = Some v \<longrightarrow> v \<le> dict_get d k 0)"
    using assms by (auto simp: nonneg_def dict_get_def [of minima] split: option.splits)
  then show ?thesis
    unfolding within_def update_conv by (auto simp: fun_upd_apply split: if_splits)
qed

lemma within_refl [simp]: "within d d"
  by (simp add: within_def dict_get_def)

lemma within_get: "within m d \<Longrightarrow> nonneg d \<Longrightarrow> dict_get m k 0 \<le> dict_get d k 0"
  by (auto simp: within_def nonneg_def dict_get_def [of m] split: option.splits)

lemma within_list:
  "distinct (map fst minima) \<Longrightarrow> within minima d \<longleftrightarrow> (\<forall>(k, v) \<in> set minima. v \<le> dict_get d k 0)"
  unfolding within_def by (auto simp: map_of_eq_Some_iff)

lemma fold_register_within:
  assumes "nonneg (counters r)" "nonneg (query_ordinals r)"
  shows "within (fst (fold register_identifier ids st)) (counters r) \<and>
         within (snd (fold register_identifier ids st)) (query_ordinals r) \<longleftrightarrow>
       within (fst st) (counters r) \<and> within (snd st) (query_ordinals r) \<and> (\<forall>i \<in> set ids. covers r i)"
proof (induction ids arbitrary: st)
  case (Cons i ids)
  have "within (fst (register_identifier i st)) (counters r) \<and> within (snd (register_identifier i st)) (query_ordinals r) \<longleftrightarrow>
      within (fst st) (counters r) \<and> within (snd st) (query_ordinals r) \<and> covers r i"
    using within_update_max [OF assms(1)] within_update_max [OF assms(2)]
    by (auto simp: register_identifier_classify covers_def split: registered.splits)
  then show ?case using Cons.IH [of "register_identifier i st"] by auto
qed simp

lemma fold_register_distinct:
  "distinct (map fst (fst st)) \<Longrightarrow> distinct (map fst (snd st)) \<Longrightarrow>
     distinct (map fst (fst (fold register_identifier ids st))) \<and> distinct (map fst (snd (fold register_identifier ids st)))"
proof (induction ids arbitrary: st)
  case (Cons i ids)
  show ?case unfolding fold_Cons comp_apply
    by (rule Cons.IH)
       (use Cons.prems in \<open>auto simp: register_identifier_classify distinct_update split: registered.splits\<close>)
qed simp

lemma valid_registry_nonneg:
  assumes "valid_registry r" shows "nonneg (counters r)" "nonneg (query_ordinals r)"
  using assms
  by (fastforce simp: valid_registry_def CanonicalIdRegistry_validator_def nonneg_def dict_get_def list_ex_iff
      split: option.splits dest!: map_of_SomeD)+

lemma valid_registry_fixed:
  "valid_registry r \<Longrightarrow> kind \<in> FIXED_FOUR_DIGIT \<Longrightarrow> dict_get (counters r) kind 0 \<le> 9999"
  by (fastforce simp: valid_registry_def CanonicalIdRegistry_validator_def dict_get_def list_ex_iff
      split: option.splits dest!: map_of_SomeD)

lemma valid_registry_ordinal:
  "valid_registry r \<Longrightarrow> dict_get (query_ordinals r) key 0 \<le> 99"
  by (fastforce simp: valid_registry_def CanonicalIdRegistry_validator_def dict_get_def list_ex_iff
      split: option.splits dest!: map_of_SomeD)

text \<open>What reading identifiers back can put into the dictionaries.\<close>

definition plausible :: "(IdKind \<times> int) list \<times> int strdict \<Rightarrow> bool" where
  "plausible st \<longleftrightarrow>
     distinct (map fst (fst st)) \<and> distinct (map fst (snd st)) \<and>
     (\<forall>k v. map_of (fst st) k = Some v \<longrightarrow> 0 \<le> v) \<and>
     (\<forall>k v. map_of (snd st) k = Some v \<longrightarrow> is_ordinal_key k \<and> 0 \<le> v \<and> v \<le> 99)"

lemma str_nat_two_digits: "length s = 2 \<Longrightarrow> list_all is_digit s \<Longrightarrow> str_nat s \<le> 99"
proof -
  assume "length s = 2" "list_all is_digit s"
  then obtain a b where "s = [a, b]" "is_digit a" "is_digit b"
    by (auto simp: numeral_eq_Suc length_Suc_conv)
  then show ?thesis using is_digit_val [of a] is_digit_val [of b] by (simp add: str_nat_def)
qed

lemma query_groups_key:
  assumes "query_groups s = Some (key, ordinal)" shows "is_ordinal_key key \<and> ordinal \<le> 99"
proof -
  from assms have l: "length s = 14" and c: "is_ClaimId (take 5 (drop 2 s))"
    and k: "key = take 5 (drop 2 s) @ '':'' @ take 3 (drop 8 s)"
    and i: "take 3 (drop 8 s) \<in> set (map fst QUERY_INTENT_CODES)"
    and o: "ordinal = str_nat (drop 12 s)" "list_all is_digit (drop 12 s)"
    by (auto simp: query_groups_def Let_def split: if_splits)
  have "take 5 key = take 5 (drop 2 s)" "take 1 (drop 5 key) = '':''" "drop 6 key = take 3 (drop 8 s)"
    using l by (simp_all add: k)
  then show ?thesis using c i o str_nat_two_digits [of "drop 12 s"] l by (simp add: is_ordinal_key_def)
qed

lemma classify_Query: "classify i = Query key n \<Longrightarrow> is_ordinal_key key \<and> n \<le> 99"
  using query_groups_key by (auto simp: classify_def split: option.splits)

lemma dict_get_bounds: "(\<And>v. map_of d k = Some v \<Longrightarrow> v \<le> b) \<Longrightarrow> 0 \<le> (b :: int) \<Longrightarrow> dict_get d k 0 \<le> b"
  by (auto simp: dict_get_def split: option.splits)

lemma register_plausible: "plausible st \<Longrightarrow> plausible (register_identifier i st)"
proof -
  assume p: "plausible st"
  show ?thesis
  proof (cases "classify i")
    case (Query key n)
    have "dict_get (snd st) key 0 \<le> 99" using p by (intro dict_get_bounds) (auto simp: plausible_def)
    then show ?thesis using p classify_Query [OF Query]
      by (auto simp: register_identifier_classify Query plausible_def update_conv distinct_update split: if_splits)
  qed (use p in \<open>auto simp: register_identifier_classify plausible_def update_conv distinct_update split: if_splits\<close>)
qed

lemma fold_register_plausible: "plausible st \<Longrightarrow> plausible (fold register_identifier ids st)"
proof (induction ids arbitrary: st)
  case (Cons i ids)
  show ?case using Cons.IH [OF register_plausible [OF Cons.prems]] by simp
qed simp

lemma plausible_validator:
  assumes "plausible (cs, qs)"
  shows "CanonicalIdRegistry_validator \<lparr>counters = cs, query_ordinals = qs\<rparr> = None \<longleftrightarrow>
    (\<forall>(kind, v) \<in> set cs. kind \<in> FIXED_FOUR_DIGIT \<longrightarrow> v \<le> 9999)"
  using assms by (fastforce simp: CanonicalIdRegistry_validator_def plausible_def list_ex_iff)

lemma covers_identifiers_iff:
  assumes "valid_registry r"
  shows "validate_covers_identifiers r ids = None \<longleftrightarrow> (\<forall>i \<in> set ids. covers r i)"
proof -
  obtain cs qs where f: "fold register_identifier ids ([], []) = (cs, qs)"
    by (cases "fold register_identifier ids ([], [])")
  have p: "plausible (cs, qs)"
    using fold_register_plausible [of "([], [])" ids] by (simp add: f plausible_def)
  then have d: "distinct (map fst cs)" "distinct (map fst qs)" by (simp_all add: plausible_def)
  have w: "within cs (counters r) \<and> within qs (query_ordinals r) \<longleftrightarrow> (\<forall>i \<in> set ids. covers r i)"
    using fold_register_within [OF valid_registry_nonneg [OF assms], of ids "([], [])"] by (simp add: f)
  have fixed: "kind \<in> FIXED_FOUR_DIGIT \<longrightarrow> v \<le> 9999" if "within cs (counters r)" "(kind, v) \<in> set cs" for kind v
    using that valid_registry_fixed [OF assms, of kind] by (fastforce simp: within_list [OF d(1)])
  show ?thesis
  proof (cases "CanonicalIdRegistry_validator \<lparr>counters = cs, query_ordinals = qs\<rparr>")
    case (Some e)
    then have "\<not> within cs (counters r)" using fixed plausible_validator [OF p] by force
    then show ?thesis using Some w by (auto simp: validate_covers_identifiers_def from_identifiers_def f Let_def)
  next
    case None
    have "validate_covers_identifiers r ids = None \<longleftrightarrow>
        find (\<lambda>(kind, minimum). dict_get (counters r) kind 0 < minimum) cs = None \<and>
        \<not> list_ex (\<lambda>(key, minimum). dict_get (query_ordinals r) key 0 < minimum) qs"
      by (simp add: validate_covers_identifiers_def from_identifiers_def f Let_def None split: option.split)
    also have "\<dots> \<longleftrightarrow> (\<forall>(k, v) \<in> set cs. v \<le> dict_get (counters r) k 0) \<and>
        (\<forall>(k, v) \<in> set qs. v \<le> dict_get (query_ordinals r) k 0)"
      unfolding find_None_iff list_ex_iff by fastforce
    finally show ?thesis using w by (simp add: within_list [OF d(1)] within_list [OF d(2)])
  qed
qed

text \<open>
  The coverage check is exact: for a registry in its invariant it accepts a list of identifiers
  exactly when every identifier of a numbered kind is at most its kind's counter and every query
  ID at most the ordinal of its claim and intent. It also never fails for another reason: when all
  are covered, reading them back does not raise.
\<close>

theorem validate_covers_identifiers_exact:
  assumes "valid_registry r"
  shows "validate_covers_identifiers r ids = None \<longleftrightarrow> (\<forall>i \<in> set ids. covers r i)"
  by (rule covers_identifiers_iff [OF assms])

subsection \<open>The identifiers that are handed out\<close>

lemma PREFIXES_letters: "\<forall>c \<in> set (PREFIXES kind). \<not> is_digit c"
  by (cases kind) (simp_all add: is_digit_def)

lemma PREFIXES_inj: "PREFIXES kind = PREFIXES kind' \<longleftrightarrow> kind = kind'"
  by (cases kind; cases kind'; simp)

lemma all_kinds_UNIV: "kind \<in> set ordered_kinds"
  by (cases kind) (simp_all add: ordered_kinds_def all_kinds_def)

lemma tagged_iff: "tagged p ok s \<longleftrightarrow> (\<exists>t. s = p @ t \<and> ok t)"
  by (auto simp: tagged_def starts_with_iff)

lemma matches_kind_unique:
  assumes "d \<noteq> []" "list_all is_digit d"
  shows "matches_kind (PREFIXES kind @ d) kind' \<longleftrightarrow> kind' = kind"
proof
  have tw: "takeWhile (\<lambda>c. \<not> is_digit c) (PREFIXES k @ t) = PREFIXES k" if "t \<noteq> []" "list_all is_digit t" for k t
    using PREFIXES_letters [of k] that by (cases t) (simp_all add: takeWhile_append2)
  assume "matches_kind (PREFIXES kind @ d) kind'"
  then obtain t where t: "PREFIXES kind @ d = PREFIXES kind' @ t" "t \<noteq> []" "list_all is_digit t"
    unfolding matches_kind_def tagged_iff digits1_def by blast
  then have "PREFIXES kind = PREFIXES kind'" using tw assms by metis
  then show "kind' = kind" by (simp add: PREFIXES_inj)
next
  assume "kind' = kind"
  then show "matches_kind (PREFIXES kind @ d) kind'" using assms by (simp add: matches_kind_def tagged_def digits1_def)
qed

lemma PREFIXES_not_query: "take 2 (PREFIXES kind @ d) \<noteq> ''Q-''"
  by (cases kind) simp_all

lemma find_unique: "x \<in> set xs \<Longrightarrow> (\<And>y. P y \<longleftrightarrow> y = x) \<Longrightarrow> find P xs = Some x"
  by (induction xs) auto

lemma classify_counter: "classify (PREFIXES kind @ pad_str 4 n) = Counter kind n"
proof -
  have d: "pad_str 4 n \<noteq> []" "list_all is_digit (pad_str 4 n)" by (simp_all add: pad_str_digits) (simp add: pad_str_def)
  have "query_groups (PREFIXES kind @ pad_str 4 n) = None"
    using PREFIXES_not_query [of kind "pad_str 4 n"] by (simp add: query_groups_def Let_def)
  moreover have "find (matches_kind (PREFIXES kind @ pad_str 4 n)) ordered_kinds = Some kind"
    by (rule find_unique [OF all_kinds_UNIV matches_kind_unique [OF d]])
  ultimately show ?thesis by (simp add: classify_def str_nat_pad_str)
qed

lemma query_text: "''Q-'' @ cid @ ''-'' @ c @ ''-'' @ ordinal = query_id_text cid c ordinal"
  by (simp add: query_id_text_def)

lemma intent_code_map: "map_of QUERY_INTENT_CODES (intent_code i) = Some (RetrievalIntent_value i)"
  by (cases i) (simp_all add: QUERY_INTENT_CODES_def)

lemma intent_code_mem: "intent_code i \<in> set (map fst QUERY_INTENT_CODES)"
  by (cases i) (simp_all add: QUERY_INTENT_CODES_def)

lemma pad_str_2: "n \<le> 99 \<Longrightarrow> length (pad_str 2 n) = 2"
  using length_pad_str [of n 1] by (simp add: numeral_2_eq_2)

lemma classify_query:
  assumes "is_ClaimId cid" "n \<le> 99"
  shows "classify (''Q-'' @ cid @ ''-'' @ intent_code i @ ''-'' @ pad_str 2 n) = Query (cid @ '':'' @ intent_code i) n"
proof -
  from assms(1) obtain d where c: "cid = CHR ''C'' # d" "length d = 4" unfolding is_ClaimId_iff by blast
  then obtain d1 d2 d3 d4 where d: "d = [d1, d2, d3, d4]" by (auto simp: numeral_eq_Suc length_Suc_conv)
  obtain c1 c2 c3 where i: "intent_code i = [c1, c2, c3]" by (cases i) auto
  obtain o1 o2 where o: "pad_str 2 n = [o1, o2]"
    using pad_str_2 [OF assms(2)] by (auto simp: numeral_eq_Suc length_Suc_conv)
  have "query_groups (''Q-'' @ cid @ ''-'' @ intent_code i @ ''-'' @ pad_str 2 n) =
      Some (cid @ '':'' @ intent_code i, str_nat (pad_str 2 n))"
    using assms(1) intent_code_mem [of i] pad_str_digits [of 2 n]
    by (simp add: query_groups_def c d i o)
  then show ?thesis by (simp add: classify_def str_nat_pad_str)
qed

text \<open>The pattern of the records that carry an identifier of the kind.\<close>

fun kind_pattern :: "IdKind \<Rightarrow> string \<Rightarrow> bool" where
  "kind_pattern IdKind.THEME = is_ThemeId"
| "kind_pattern IdKind.PAPER = is_PaperId"
| "kind_pattern IdKind.CLAIM = is_ClaimId"
| "kind_pattern IdKind.SPAN = is_SpanId"
| "kind_pattern IdKind.EVIDENCE = is_EvidenceId"
| "kind_pattern IdKind.CORPUS_FACT = is_CorpusFactId"
| "kind_pattern IdKind.PROCESS_FACT = is_ProcessFactId"
| "kind_pattern IdKind.PROPOSITION = is_PropositionId"
| "kind_pattern IdKind.SEMANTIC_AUDIT = is_SemanticAuditId"
| "kind_pattern IdKind.RENDERED_SENTENCE = is_SentenceId"
| "kind_pattern IdKind.RENDERED_SENTENCE_AUDIT = is_SentenceAuditId"

lemma kind_pattern_tagged:
  "kind_pattern kind = tagged (PREFIXES kind) (if kind \<in> FIXED_FOUR_DIGIT then digits_exactly 4 else digits_at_least 4)"
  by (cases kind)
     (simp_all add: FIXED_FOUR_DIGIT_def is_ThemeId_def is_PaperId_def is_ClaimId_def is_SpanId_def is_EvidenceId_def
       is_CorpusFactId_def is_ProcessFactId_def is_PropositionId_def is_SemanticAuditId_def is_SentenceId_def
       is_SentenceAuditId_def)

lemma kind_pattern_pad:
  assumes "kind \<in> FIXED_FOUR_DIGIT \<longrightarrow> n \<le> 9999"
  shows "kind_pattern kind (PREFIXES kind @ pad_str 4 n)"
proof -
  have "length (pad_str 4 n) = 4" if "n \<le> 9999" using length_pad_str [of n 3] that by simp
  then have "(if kind \<in> FIXED_FOUR_DIGIT then digits_exactly 4 else digits_at_least 4) (pad_str 4 n)"
    using assms pad_str_digits [of 4 n] length_pad_str_ge [of 4 n]
    by (simp add: digits_exactly_def digits_at_least_def)
  then show ?thesis unfolding kind_pattern_tagged tagged_iff by blast
qed

lemma allocate_InrD:
  assumes v: "valid_registry r" and a: "allocate kind count r = Inr (ids, r')"
  defines "current \<equiv> dict_get (counters r) kind 0"
  shows "0 \<le> current" "1 \<le> count" "kind \<in> FIXED_FOUR_DIGIT \<longrightarrow> current + count \<le> 9999"
    "ids = map (\<lambda>n. PREFIXES kind @ pad_str 4 (nat n)) [current + 1..current + count]"
    "r' = r\<lparr>counters := AList.update kind (current + count) (counters r)\<rparr>"
proof -
  show "0 \<le> current" using valid_registry_nonneg(1) [OF v] by (simp add: current_def nonneg_def)
  show "1 \<le> count" "kind \<in> FIXED_FOUR_DIGIT \<longrightarrow> current + count \<le> 9999"
    "ids = map (\<lambda>n. PREFIXES kind @ pad_str 4 (nat n)) [current + 1..current + count]"
    "r' = r\<lparr>counters := AList.update kind (current + count) (counters r)\<rparr>"
    using a by (auto simp: allocate_def Let_def current_def split: if_splits)
qed

text \<open>An update of a dictionary keeps what all its items satisfy.\<close>

lemma update_items: "(k, v) \<in> set (AList.update a b d) \<Longrightarrow> (k, v) = (a, b) \<or> (k, v) \<in> set d"
  by (induction d) (auto split: if_splits)

lemma valid_registry_counter:
  assumes "valid_registry r" "0 \<le> n" "kind \<in> FIXED_FOUR_DIGIT \<longrightarrow> n \<le> 9999"
  shows "valid_registry (r\<lparr>counters := AList.update kind n (counters r)\<rparr>)"
  using assms
  by (auto simp: valid_registry_def CanonicalIdRegistry_validator_def list_ex_iff distinct_update
      dest!: update_items)

lemma valid_registry_query:
  assumes "valid_registry r" "0 \<le> n" "n \<le> 99" "is_ordinal_key key"
  shows "valid_registry (r\<lparr>query_ordinals := AList.update key n (query_ordinals r)\<rparr>)"
  using assms
  by (auto simp: valid_registry_def CanonicalIdRegistry_validator_def list_ex_iff distinct_update
      dest!: update_items)

lemma allocate_ids:
  assumes v: "valid_registry r" and a: "allocate kind count r = Inr (ids, r')"
  shows "length ids = nat count \<and> distinct ids \<and> (\<forall>i \<in> set ids. kind_pattern kind i \<and> \<not> covers r i \<and> covers r' i) \<and>
    valid_registry r' \<and> query_ordinals r' = query_ordinals r \<and>
    (\<forall>k. dict_get (counters r') k 0 = dict_get (counters r) k 0 + (if k = kind then count else 0))"
proof -
  let ?c = "dict_get (counters r) kind 0"
  note d = allocate_InrD [OF v a]
  have mem: "\<exists>n. i = PREFIXES kind @ pad_str 4 (nat n) \<and> ?c < n \<and> n \<le> ?c + count" if "i \<in> set ids" for i
    using that unfolding d(4) by auto
  have "inj_on (\<lambda>n. PREFIXES kind @ pad_str 4 (nat n)) {?c + 1..?c + count}"
    by (rule inj_onI) (use d(1) in \<open>auto dest!: pad_str_inj\<close>)
  then have "distinct ids" unfolding d(4) by (simp add: distinct_map)
  moreover have "kind_pattern kind i \<and> \<not> covers r i \<and> covers r' i" if i: "i \<in> set ids" for i
  proof -
    from mem [OF i] obtain n where n: "i = PREFIXES kind @ pad_str 4 (nat n)" "?c < n" "n \<le> ?c + count" by blast
    then have "kind \<in> FIXED_FOUR_DIGIT \<longrightarrow> nat n \<le> 9999" using d(3) by auto
    then have "kind_pattern kind i" unfolding n(1) by (rule kind_pattern_pad)
    moreover have "classify i = Counter kind (nat n)" unfolding n(1) by (rule classify_counter)
    ultimately show ?thesis using n d(1) by (simp add: covers_def d(5) dict_get_update)
  qed
  moreover have "valid_registry r'"
    unfolding d(5) by (rule valid_registry_counter [OF v]) (use d(1-3) in auto)
  moreover have "length ids = nat count" unfolding d(4) by simp
  ultimately show ?thesis by (simp add: d(5) dict_get_update)
qed

text \<open>
  An allocation hands out exactly \<open>count\<close> different identifiers, all of the pattern of their
  kind, none of them covered by the registry before and all of them afterwards, keeps the
  registry in its invariant, and advances no counter but the one of the kind; it fails only for a
  count below one or when a fixed-width kind would run past 9999.
\<close>

theorem allocate_fresh:
  assumes v: "valid_registry r" and a: "allocate kind count r = Inr (ids, r')"
  shows "length ids = nat count \<and> distinct ids \<and> (\<forall>i \<in> set ids. kind_pattern kind i \<and> \<not> covers r i \<and> covers r' i) \<and>
    valid_registry r' \<and> query_ordinals r' = query_ordinals r \<and>
    (\<forall>k. dict_get (counters r') k 0 = dict_get (counters r) k 0 + (if k = kind then count else 0))"
  by (rule allocate_ids [OF v a])

lemma allocate_query_parse:
  assumes v: "valid_registry r" and c: "is_ClaimId cid" and a: "allocate_query cid intention r = Inr (i, r')"
  shows "\<exists>n. parse_query_id i = Inr (cid, RetrievalIntent_value intention, n) \<and> 1 \<le> n \<and> n \<le> 99 \<and> is_QueryId i \<and>
    int n = dict_get (query_ordinals r) (cid @ '':'' @ intent_code intention) 0 + 1 \<and>
    dict_get (query_ordinals r') (cid @ '':'' @ intent_code intention) 0 = int n"
proof -
  let ?key = "cid @ '':'' @ intent_code intention"
  let ?n = "dict_get (query_ordinals r) ?key 0 + 1"
  have n: "1 \<le> ?n" using valid_registry_nonneg(2) [OF v] by (simp add: nonneg_def)
  from a have le: "?n \<le> 99" and i: "i = query_id_text cid (intent_code intention) (pad_str 2 (nat ?n))"
    and r': "r' = r\<lparr>query_ordinals := AList.update ?key ?n (query_ordinals r)\<rparr>"
    by (auto simp: allocate_query_def Let_def query_id_text_def split: if_splits)
  have nz: "pad_str 2 (nat ?n) \<noteq> ''00''"
  proof
    assume "pad_str 2 (nat ?n) = ''00''"
    then have "str_nat (pad_str 2 (nat ?n)) = str_nat ''00''" by simp
    then show False using n by (simp add: str_nat_pad_str) (simp add: str_nat_def digit_val_def)
  qed
  have l: "length (pad_str 2 (nat ?n)) = 2" using pad_str_2 [of "nat ?n"] le by simp
  have p: "parse_query_id i = Inr (cid, RetrievalIntent_value intention, nat ?n)"
    using parse_query_id_text [OF c intent_code_map l pad_str_digits nz] by (simp add: i str_nat_pad_str)
  then have "is_QueryId i" by (auto simp: parse_query_id_def is_QueryId_def split: option.splits)
  moreover have "1 \<le> nat ?n" "nat ?n \<le> 99" "int (nat ?n) = ?n" using n le by linarith+
  ultimately show ?thesis using p by (intro exI [of _ "nat ?n"]) (simp add: r' dict_get_update)
qed

text \<open>
  A query allocation writes an ID whose fields are recovered by parsing it: the claim, the
  intent and the ordinal, which is the next one of this claim and intent and lies in 1..99.
\<close>

theorem allocate_query_roundtrip:
  assumes v: "valid_registry r" and c: "is_ClaimId cid" and a: "allocate_query cid intention r = Inr (i, r')"
  shows "\<exists>n. parse_query_id i = Inr (cid, RetrievalIntent_value intention, n) \<and> 1 \<le> n \<and> n \<le> 99 \<and> is_QueryId i \<and>
    int n = dict_get (query_ordinals r) (cid @ '':'' @ intent_code intention) 0 + 1 \<and>
    dict_get (query_ordinals r') (cid @ '':'' @ intent_code intention) 0 = int n"
  by (rule allocate_query_parse [OF v c a])

subsection \<open>Runs of allocations\<close>

text \<open>
  What a client of an allocator relies on: an allocation in a good state yields different, fresh
  identifiers, forgets none it knew, and leaves a good state.
\<close>

fun run_allocations :: "('op \<Rightarrow> 'reg \<Rightarrow> 'err + 'i list \<times> 'reg) \<Rightarrow> 'op list \<Rightarrow> 'reg \<Rightarrow> 'err + 'i list \<times> 'reg" where
  "run_allocations alloc [] r = Inr ([], r)"
| "run_allocations alloc (op # ops) r =
     (case alloc op r of
        Inl e \<Rightarrow> Inl e
      | Inr (ids, r1) \<Rightarrow>
          (case run_allocations alloc ops r1 of Inl e \<Rightarrow> Inl e | Inr (rest, r2) \<Rightarrow> Inr (ids @ rest, r2)))"

locale allocator =
  fixes alloc :: "'op \<Rightarrow> 'reg \<Rightarrow> 'err + 'i list \<times> 'reg"
    and known :: "'reg \<Rightarrow> 'i \<Rightarrow> bool"
    and good :: "'reg \<Rightarrow> bool"
    and legal :: "'op \<Rightarrow> bool"
  assumes alloc_good: "good r \<Longrightarrow> legal op \<Longrightarrow> alloc op r = Inr (ids, r') \<Longrightarrow> good r'"
    and alloc_distinct: "good r \<Longrightarrow> legal op \<Longrightarrow> alloc op r = Inr (ids, r') \<Longrightarrow> distinct ids"
    and alloc_fresh: "good r \<Longrightarrow> legal op \<Longrightarrow> alloc op r = Inr (ids, r') \<Longrightarrow> i \<in> set ids \<Longrightarrow> \<not> known r i \<and> known r' i"
    and alloc_keeps: "good r \<Longrightarrow> legal op \<Longrightarrow> alloc op r = Inr (ids, r') \<Longrightarrow> known r i \<Longrightarrow> known r' i"
begin

lemma run_fresh:
  assumes "good r" "\<forall>op \<in> set ops. legal op" "run_allocations alloc ops r = Inr (ids, r')"
  shows "good r' \<and> distinct ids \<and> (\<forall>i. known r i \<longrightarrow> known r' i) \<and> (\<forall>i \<in> set ids. \<not> known r i \<and> known r' i)"
  using assms
proof (induction ops arbitrary: r ids)
  case (Cons op ops)
  from Cons.prems(3) obtain xs r1 ys where
    a: "alloc op r = Inr (xs, r1)" and b: "run_allocations alloc ops r1 = Inr (ys, r')" and ids: "ids = xs @ ys"
    by (auto split: sum.splits)
  have l: "legal op" and g: "good r1" using Cons.prems alloc_good a by auto
  have IH: "good r'" "distinct ys" "\<And>i. known r1 i \<Longrightarrow> known r' i" "\<And>i. i \<in> set ys \<Longrightarrow> \<not> known r1 i \<and> known r' i"
    using Cons.IH [OF g _ b] Cons.prems(2) by auto
  have "set xs \<inter> set ys = {}"
    using alloc_fresh [OF Cons.prems(1) l a] IH(4) by blast
  moreover have "distinct xs" by (rule alloc_distinct [OF Cons.prems(1) l a])
  moreover have "\<not> known r i \<and> known r' i" if "i \<in> set ids" for i
    using that alloc_fresh [OF Cons.prems(1) l a, of i] alloc_keeps [OF Cons.prems(1) l a, of i] IH(3,4)
    by (auto simp: ids)
  ultimately show ?case
    using IH alloc_keeps [OF Cons.prems(1) l a] by (auto simp: ids)
qed simp

end

datatype Allocation = AllocateIds IdKind int | AllocateQuery string RetrievalIntent

fun allocation :: "Allocation \<Rightarrow> CanonicalIdRegistry \<Rightarrow> RegistryError + string list \<times> CanonicalIdRegistry" where
  "allocation (AllocateIds kind count) r = allocate kind count r"
| "allocation (AllocateQuery cid intention) r =
     (case allocate_query cid intention r of Inl e \<Rightarrow> Inl e | Inr (i, r') \<Rightarrow> Inr ([i], r'))"

fun legal_allocation :: "Allocation \<Rightarrow> bool" where
  "legal_allocation (AllocateIds kind count) \<longleftrightarrow> True"
| "legal_allocation (AllocateQuery cid intention) \<longleftrightarrow> is_ClaimId cid"

lemma covers_mono:
  assumes "\<And>k. dict_get (counters r) k 0 \<le> dict_get (counters r') k 0"
    and "\<And>k. dict_get (query_ordinals r) k 0 \<le> dict_get (query_ordinals r') k 0"
  shows "covers r i \<Longrightarrow> covers r' i"
  using assms by (fastforce simp: covers_def split: registered.splits intro: order_trans)

lemma is_ordinal_key_text: "is_ClaimId cid \<Longrightarrow> is_ordinal_key (cid @ '':'' @ intent_code i)"
proof -
  assume c: "is_ClaimId cid"
  then have "length cid = 5" by (auto simp: is_ClaimId_iff)
  then have "take 5 (cid @ '':'' @ intent_code i) = cid" "take 1 (drop 5 (cid @ '':'' @ intent_code i)) = '':''"
    "drop 6 (cid @ '':'' @ intent_code i) = intent_code i" by simp_all
  then show ?thesis using c intent_code_mem [of i] unfolding is_ordinal_key_def by simp
qed

lemma allocate_query_fresh:
  assumes v: "valid_registry r" and c: "is_ClaimId cid" and a: "allocate_query cid intention r = Inr (i, r')"
  shows "valid_registry r' \<and> \<not> covers r i \<and> covers r' i \<and> (\<forall>j. covers r j \<longrightarrow> covers r' j)"
proof -
  let ?key = "cid @ '':'' @ intent_code intention"
  let ?n = "dict_get (query_ordinals r) ?key 0 + 1"
  have n: "1 \<le> ?n" using valid_registry_nonneg(2) [OF v] by (simp add: nonneg_def)
  from a have le: "?n \<le> 99" and i: "i = ''Q-'' @ cid @ ''-'' @ intent_code intention @ ''-'' @ pad_str 2 (nat ?n)"
    and r': "r' = r\<lparr>query_ordinals := AList.update ?key ?n (query_ordinals r)\<rparr>"
    by (auto simp: allocate_query_def Let_def split: if_splits)
  have cl: "classify i = Query ?key (nat ?n)" unfolding i by (rule classify_query [OF c]) (use le in simp)
  have "valid_registry r'" unfolding r' by (rule valid_registry_query [OF v _ le is_ordinal_key_text [OF c]]) (use n in simp)
  moreover have "covers r j \<Longrightarrow> covers r' j" for j
    by (rule covers_mono [of r]) (simp_all add: r' dict_get_update)
  ultimately show ?thesis using cl n by (simp add: covers_def r' dict_get_update)
qed

lemma allocation_step:
  assumes v: "valid_registry r" and l: "legal_allocation op" and a: "allocation op r = Inr (ids, r')"
  shows "valid_registry r' \<and> distinct ids \<and> (\<forall>i \<in> set ids. \<not> covers r i \<and> covers r' i) \<and>
    (\<forall>j. covers r j \<longrightarrow> covers r' j)"
proof (cases op)
  case (AllocateIds kind count)
  with a have al: "allocate kind count r = Inr (ids, r')" by simp
  note f = allocate_ids [OF v al] and d = allocate_InrD [OF v al]
  have "covers r' j" if "covers r j" for j
  proof (rule covers_mono [OF _ _ that])
    show "dict_get (counters r) k 0 \<le> dict_get (counters r') k 0" for k using f d(2) by simp
    show "dict_get (query_ordinals r) k 0 \<le> dict_get (query_ordinals r') k 0" for k using f by simp
  qed
  with f show ?thesis by blast
next
  case (AllocateQuery cid intention)
  with a obtain i where "allocate_query cid intention r = Inr (i, r')" "ids = [i]" by (auto split: sum.splits)
  then show ?thesis using allocate_query_fresh [OF v] l AllocateQuery by simp
qed

interpretation reg: allocator allocation covers valid_registry legal_allocation
  by unfold_locales (use allocation_step in blast)+

text \<open>
  C24: Identifiers are never reused. Whatever sequence of allocations a transaction makes on a
  registry that passed the coverage check for the identifiers of the repository, all identifiers
  it receives are different from one another and from every numbered or query identifier already
  in the repository, and the resulting registry, still in its invariant, covers the old and the
  new ones.
\<close>

theorem allocation_run_fresh:
  assumes "valid_registry r" and "validate_covers_identifiers r (all_identifiers R) = None"
    and "\<forall>op \<in> set ops. legal_allocation op" and "run_allocations allocation ops r = Inr (ids, r')"
  shows "distinct ids \<and> set ids \<inter> set (all_identifiers R) = {} \<and> valid_registry r' \<and>
    validate_covers_identifiers r' (all_identifiers R @ ids) = None"
proof -
  have old: "\<forall>i \<in> set (all_identifiers R). covers r i"
    using assms(2) covers_identifiers_iff [OF assms(1)] by blast
  note run = reg.run_fresh [OF assms(1,3,4)]
  then have "\<forall>i \<in> set (all_identifiers R @ ids). covers r' i" using old by auto
  then have "validate_covers_identifiers r' (all_identifiers R @ ids) = None"
    using covers_identifiers_iff run by blast
  with run old show ?thesis by blast
qed

lemma registry_from_identifiers:
  assumes "from_identifiers ids = Inr r"
  shows "valid_registry r \<and> (\<forall>i \<in> set ids. covers r i) \<and>
    (\<forall>r'. valid_registry r' \<and> (\<forall>i \<in> set ids. covers r' i) \<longrightarrow>
       (\<forall>kind. dict_get (counters r) kind 0 \<le> dict_get (counters r') kind 0) \<and>
       (\<forall>key. dict_get (query_ordinals r) key 0 \<le> dict_get (query_ordinals r') key 0))"
proof -
  obtain cs qs where f: "fold register_identifier ids ([], []) = (cs, qs)"
    by (cases "fold register_identifier ids ([], [])")
  have p: "plausible (cs, qs)"
    using fold_register_plausible [of "([], [])" ids] by (simp add: f plausible_def)
  have r: "r = \<lparr>counters = cs, query_ordinals = qs\<rparr>" and n: "CanonicalIdRegistry_validator r = None"
    using assms by (auto simp: from_identifiers_def f Let_def split: option.splits)
  then have v: "valid_registry r" using p by (simp add: valid_registry_def plausible_def)
  have iff: "within cs (counters r') \<and> within qs (query_ordinals r') \<longleftrightarrow> (\<forall>i \<in> set ids. covers r' i)"
    if "valid_registry r'" for r'
    using fold_register_within [OF valid_registry_nonneg [OF that], of ids "([], [])"] by (simp add: f)
  have "\<forall>i \<in> set ids. covers r i" using iff [OF v] by (simp add: r)
  moreover have "dict_get (counters r) kind 0 \<le> dict_get (counters r') kind 0 \<and>
      dict_get (query_ordinals r) key 0 \<le> dict_get (query_ordinals r') key 0"
    if "valid_registry r'" "\<forall>i \<in> set ids. covers r' i" for r' kind key
    using iff [OF that(1)] that(2) valid_registry_nonneg [OF that(1)] by (simp add: r within_get)
  ultimately show ?thesis using v by blast
qed

text \<open>
  Rebuilding a registry from identifiers gives the least registry that covers them: it is in
  its invariant, covers every one of them, and no covering registry has a smaller counter or
  ordinal.
\<close>

theorem from_identifiers_least:
  assumes "from_identifiers ids = Inr r"
  shows "valid_registry r \<and> (\<forall>i \<in> set ids. covers r i) \<and>
    (\<forall>r'. valid_registry r' \<and> (\<forall>i \<in> set ids. covers r' i) \<longrightarrow>
       (\<forall>kind. dict_get (counters r) kind 0 \<le> dict_get (counters r') kind 0) \<and>
       (\<forall>key. dict_get (query_ordinals r) key 0 \<le> dict_get (query_ordinals r') key 0))"
  by (rule registry_from_identifiers [OF assms])

text \<open>
  The ID of a claim-paper evidence object determines its claim and paper: for well-formed
  arguments the function returns an ID of the CPE pattern, and equal IDs come from equal pairs.
\<close>

theorem cpe_id_injective:
  assumes "allocate_cpe_id c p = Inr i" and "allocate_cpe_id c' p' = Inr i'"
  shows "is_ClaimPaperEvidenceId i \<and> (i = i' \<longleftrightarrow> c = c' \<and> p = p')"
proof -
  from assms have w: "is_ClaimId c" "is_PaperId p" "is_ClaimId c'" "is_PaperId p'"
    and i: "i = ''CPE-'' @ c @ ''-'' @ p" "i' = ''CPE-'' @ c' @ ''-'' @ p'"
    by (auto simp: allocate_cpe_id_def split: if_splits)
  then have l: "length c = 5" "length p = 5" "length c' = 5" "length p' = 5"
    by (auto simp: is_ClaimId_iff is_PaperId_iff)
  have "i ! 9 = CHR ''-''" using l by (simp add: i nth_append nth_Cons')
  then have "is_ClaimPaperEvidenceId i" using w l by (simp add: is_ClaimPaperEvidenceId_def i)
  moreover have "i = i' \<longleftrightarrow> c = c' \<and> p = p'" using l by (auto simp: i)
  ultimately show ?thesis ..
qed

subsection \<open>Witnesses\<close>

definition sample_registry :: CanonicalIdRegistry where
  "sample_registry = \<lparr>counters = [(IdKind.THEME, 1), (IdKind.PAPER, 1), (IdKind.CLAIM, 1), (IdKind.SPAN, 2),
       (IdKind.EVIDENCE, 1), (IdKind.PROPOSITION, 1), (IdKind.SEMANTIC_AUDIT, 1), (IdKind.RENDERED_SENTENCE, 1),
       (IdKind.RENDERED_SENTENCE_AUDIT, 1)],
     query_ordinals = [(''C0001:SUP'', 1)]\<rparr>"

lemma sample_registry_valid: "valid_registry sample_registry"
  unfolding valid_registry_def by code_simp

lemma sample_identifiers:
  "all_identifiers sample = [''T0001'', ''P0001'', ''C0001'', ''Q-C0001-SUP-01'', ''R0001'', ''R0002'', ''E0001'',
     ''CPE-C0001-P0001'', ''PR0001'', ''SA0001'', ''RS0001'', ''RSA0001'']"
  by (simp add: all_identifiers_def sample_def sample_records)

lemma sample_covered: "validate_covers_identifiers sample_registry (all_identifiers sample) = None"
  unfolding sample_identifiers by code_simp

theorem validate_covers_identifiers_exact_witness:
  "covers sample_registry ''C0001'' \<and> covers sample_registry ''Q-C0001-SUP-01'' \<and> covers sample_registry ''R0002''"
  using validate_covers_identifiers_exact [OF sample_registry_valid, of "all_identifiers sample"] sample_covered
  by (simp add: sample_identifiers)

lemma sample_allocate:
  "allocate IdKind.CLAIM 2 sample_registry =
     Inr ([''C0002'', ''C0003''], sample_registry\<lparr>counters := AList.update IdKind.CLAIM 3 (counters sample_registry)\<rparr>)"
  by code_simp

theorem allocate_fresh_witness:
  "distinct [''C0002'', ''C0003''] \<and> \<not> covers sample_registry ''C0002''"
  using allocate_fresh [OF sample_registry_valid sample_allocate] by simp

lemma sample_allocate_query:
  "allocate_query ''C0001'' RetrievalIntent.SUPPORT sample_registry =
     Inr (''Q-C0001-SUP-02'', sample_registry\<lparr>query_ordinals := [(''C0001:SUP'', 2)]\<rparr>)"
  by code_simp

theorem allocate_query_roundtrip_witness:
  "\<exists>n. parse_query_id ''Q-C0001-SUP-02'' = Inr (''C0001'', ''support'', n) \<and> n \<le> 99"
  using allocate_query_roundtrip [OF sample_registry_valid sample_ids(3) sample_allocate_query] by auto

theorem allocation_run_fresh_witness:
  "set [''C0002'', ''Q-C0001-SUP-02''] \<inter> set (all_identifiers sample) = {}"
proof -
  have r: "run_allocations allocation [AllocateIds IdKind.CLAIM 1, AllocateQuery ''C0001'' RetrievalIntent.SUPPORT]
      sample_registry = Inr ([''C0002'', ''Q-C0001-SUP-02''],
        sample_registry\<lparr>counters := AList.update IdKind.CLAIM 2 (counters sample_registry),
          query_ordinals := [(''C0001:SUP'', 2)]\<rparr>)" by code_simp
  have l: "\<forall>op \<in> set [AllocateIds IdKind.CLAIM 1, AllocateQuery ''C0001'' RetrievalIntent.SUPPORT]. legal_allocation op"
    by (simp add: sample_ids)
  from allocation_run_fresh [OF sample_registry_valid sample_covered l r] show ?thesis by blast
qed

theorem from_identifiers_least_witness:
  "\<exists>r. from_identifiers [''T0003'', ''Q-C0001-SUP-07'', ''RSA0002''] = Inr r \<and> covers r ''T0003''"
proof -
  have "from_identifiers [''T0003'', ''Q-C0001-SUP-07'', ''RSA0002''] =
      Inr \<lparr>counters = [(IdKind.THEME, 3), (IdKind.RENDERED_SENTENCE_AUDIT, 2)], query_ordinals = [(''C0001:SUP'', 7)]\<rparr>"
    by code_simp
  from from_identifiers_least [OF this] this show ?thesis by auto
qed

theorem cpe_id_injective_witness:
  "is_ClaimPaperEvidenceId ''CPE-C0001-P0001'' \<and> ''CPE-C0001-P0001'' \<noteq> ''CPE-C0001-P0002''"
proof -
  have "allocate_cpe_id ''C0001'' ''P0001'' = Inr ''CPE-C0001-P0001''" "allocate_cpe_id ''C0001'' ''P0002'' = Inr ''CPE-C0001-P0002''"
    by code_simp+
  from cpe_id_injective [OF this] show ?thesis by simp
qed

end
