(* ===== verification/VR_Records.thy ===== *)
theory VR_Records
  imports VR_Registry
begin

section \<open>Runtime records, outcomes and resources (\<open>runtime/records.py\<close>)\<close>

text \<open>
  The enumerations of the runtime, the records that the other runtime modules pass around, and
  the functions on resources: numbering, validation, and the place a snapshotted resource gets
  inside a task bundle. A \<open>Path\<close> is a POSIX path as \<open>pathlib\<close> keeps it: whether it is anchored
  at the root, and its components, none of them empty, \<open>.\<close> or containing a slash.
\<close>

subsection \<open>Paths\<close>

record PyPath =
  anchored :: bool
  segments :: "string list"

definition is_segment :: "string \<Rightarrow> bool" where
  "is_segment s \<longleftrightarrow> s \<noteq> '''' \<and> s \<noteq> ''.'' \<and> CHR ''/'' \<notin> set s"

definition wf_path :: "PyPath \<Rightarrow> bool" where
  "wf_path p \<longleftrightarrow> list_all is_segment (segments p)"

text \<open>\<open>p.name\<close>, \<open>".." in p.parts\<close>, \<open>p / q\<close> for a relative \<open>q\<close>.\<close>

definition path_name :: "PyPath \<Rightarrow> string" where
  "path_name p = (if segments p = [] then '''' else last (segments p))"

definition has_dotdot :: "PyPath \<Rightarrow> bool" where
  "has_dotdot p \<longleftrightarrow> ''..'' \<in> set (segments p)"

definition relative_path :: "string list \<Rightarrow> PyPath" where
  "relative_path parts = \<lparr>anchored = False, segments = parts\<rparr>"

definition path_join :: "PyPath \<Rightarrow> PyPath \<Rightarrow> PyPath" where
  "path_join p q = (if anchored q then q else p\<lparr>segments := segments p @ segments q\<rparr>)"

subsection \<open>Enumerations\<close>

datatype TaskType =
    PARSE_DEEP_RESEARCH | CORPUS_CHALLENGER | GENERATE_CANDIDATE_CLAIMS | GENERATE_RETRIEVAL_QUERIES
  | ASSESS_EVIDENCE | AGGREGATE_PAPER_EVIDENCE | ASSESS_CLAIM | REVISE_CLAIM | VALIDATE_FINAL_CLAIM
  | GENERATE_PROPOSITIONS | AUDIT_PROPOSITION | RENDER_PROSE | AUDIT_RENDERED_SENTENCE

fun TaskType_value :: "TaskType \<Rightarrow> string" where
  "TaskType_value PARSE_DEEP_RESEARCH = ''parse_deep_research''"
| "TaskType_value CORPUS_CHALLENGER = ''corpus_challenger''"
| "TaskType_value GENERATE_CANDIDATE_CLAIMS = ''generate_candidate_claims''"
| "TaskType_value GENERATE_RETRIEVAL_QUERIES = ''generate_retrieval_queries''"
| "TaskType_value ASSESS_EVIDENCE = ''assess_evidence''"
| "TaskType_value AGGREGATE_PAPER_EVIDENCE = ''aggregate_paper_evidence''"
| "TaskType_value ASSESS_CLAIM = ''assess_claim''"
| "TaskType_value REVISE_CLAIM = ''revise_claim''"
| "TaskType_value VALIDATE_FINAL_CLAIM = ''validate_final_claim''"
| "TaskType_value GENERATE_PROPOSITIONS = ''generate_propositions''"
| "TaskType_value AUDIT_PROPOSITION = ''audit_proposition''"
| "TaskType_value RENDER_PROSE = ''render_prose''"
| "TaskType_value AUDIT_RENDERED_SENTENCE = ''audit_rendered_sentence''"

datatype AttemptOutcome =
    ENGINE_EXECUTION_FAILURE | ENGINE_FORMAT_FAILURE | ENGINE_SCHEMA_FAILURE
  | ENGINE_PROPOSAL_VALIDATION_FAILURE | ENGINE_WORKSPACE_INTEGRITY_FAILURE
  | ENGINE_OUTPUT_POLICY_FAILURE | ENGINE_RESOURCE_LIMIT_FAILURE | VALID_SCIENTIFIC_RESULT
  | STALE_SNAPSHOT | TASK_TYPE_NOT_IMPLEMENTED | INTERNAL_RUNTIME_FAILURE | TRANSACTION_FAILURE
  | CONTRACT_IMPLEMENTATION_FAILURE

fun AttemptOutcome_value :: "AttemptOutcome \<Rightarrow> string" where
  "AttemptOutcome_value ENGINE_EXECUTION_FAILURE = ''engine_execution_failure''"
| "AttemptOutcome_value ENGINE_FORMAT_FAILURE = ''engine_format_failure''"
| "AttemptOutcome_value ENGINE_SCHEMA_FAILURE = ''engine_schema_failure''"
| "AttemptOutcome_value ENGINE_PROPOSAL_VALIDATION_FAILURE = ''engine_proposal_validation_failure''"
| "AttemptOutcome_value ENGINE_WORKSPACE_INTEGRITY_FAILURE = ''engine_workspace_integrity_failure''"
| "AttemptOutcome_value ENGINE_OUTPUT_POLICY_FAILURE = ''engine_output_policy_failure''"
| "AttemptOutcome_value ENGINE_RESOURCE_LIMIT_FAILURE = ''engine_resource_limit_failure''"
| "AttemptOutcome_value VALID_SCIENTIFIC_RESULT = ''valid_scientific_result''"
| "AttemptOutcome_value STALE_SNAPSHOT = ''stale_snapshot''"
| "AttemptOutcome_value TASK_TYPE_NOT_IMPLEMENTED = ''task_type_not_implemented''"
| "AttemptOutcome_value INTERNAL_RUNTIME_FAILURE = ''internal_runtime_failure''"
| "AttemptOutcome_value TRANSACTION_FAILURE = ''transaction_failure''"
| "AttemptOutcome_value CONTRACT_IMPLEMENTATION_FAILURE = ''contract_implementation_failure''"

definition FALLBACK_OUTCOMES :: "AttemptOutcome list" where
  "FALLBACK_OUTCOMES =
     [ENGINE_EXECUTION_FAILURE, ENGINE_FORMAT_FAILURE, ENGINE_SCHEMA_FAILURE,
      ENGINE_PROPOSAL_VALIDATION_FAILURE, ENGINE_WORKSPACE_INTEGRITY_FAILURE,
      ENGINE_OUTPUT_POLICY_FAILURE, ENGINE_RESOURCE_LIMIT_FAILURE]"

definition fallback_allowed :: "AttemptOutcome \<Rightarrow> bool" where
  "fallback_allowed outcome \<longleftrightarrow> outcome \<in> set FALLBACK_OUTCOMES"

datatype AttemptFailureStage =
    PROCESS | WORKSPACE | OUTPUT_TREE | PROPOSAL_FILE | FORMAT | SCHEMA | PROPOSAL_VALIDATION | RESOURCE_LIMIT

datatype ResourceLimitCode =
    MAX_WRITABLE_TREE_BYTES | MAX_WRITABLE_FILE_COUNT | MAX_WRITABLE_ENTRY_COUNT
  | MAX_WRITABLE_SINGLE_FILE_BYTES | MAX_WRITABLE_DIRECTORY_DEPTH | MAX_PROCESS_COUNT
  | MAX_OPEN_FILES | MAX_CPU_TIME | MAX_ADDRESS_SPACE

fun ResourceLimitCode_value :: "ResourceLimitCode \<Rightarrow> string" where
  "ResourceLimitCode_value MAX_WRITABLE_TREE_BYTES = ''max_writable_tree_bytes''"
| "ResourceLimitCode_value MAX_WRITABLE_FILE_COUNT = ''max_writable_file_count''"
| "ResourceLimitCode_value MAX_WRITABLE_ENTRY_COUNT = ''max_writable_entry_count''"
| "ResourceLimitCode_value MAX_WRITABLE_SINGLE_FILE_BYTES = ''max_writable_single_file_bytes''"
| "ResourceLimitCode_value MAX_WRITABLE_DIRECTORY_DEPTH = ''max_writable_directory_depth''"
| "ResourceLimitCode_value MAX_PROCESS_COUNT = ''max_process_count''"
| "ResourceLimitCode_value MAX_OPEN_FILES = ''max_open_files''"
| "ResourceLimitCode_value MAX_CPU_TIME = ''max_cpu_time''"
| "ResourceLimitCode_value MAX_ADDRESS_SPACE = ''max_address_space''"

subsection \<open>Records\<close>

record AttemptFailure =
  code :: string
  stage :: AttemptFailureStage
  message :: string
  failure_path :: "PyPath option"

text \<open>The timeout of the writer lock is a parameter of the lock only and is left out.\<close>

record RuntimeConfig =
  max_stale_rebuilds :: nat
  technical_attempts_per_engine :: nat
  max_fallback_engines :: nat
  enable_receipts :: bool

definition valid_RuntimeConfig :: "RuntimeConfig \<Rightarrow> bool" where
  "valid_RuntimeConfig c \<longleftrightarrow> 1 \<le> technical_attempts_per_engine c"

definition default_RuntimeConfig :: RuntimeConfig where
  "default_RuntimeConfig =
     \<lparr>max_stale_rebuilds = 3, technical_attempts_per_engine = 1, max_fallback_engines = 2, enable_receipts = True\<rparr>"

record TransitionDecision =
  scientific_disposition :: string
  canonicalized :: bool
  downstream_eligible :: bool
  human_review_required :: bool

record TaskAttemptRecord =
  task_id :: string
  attempt_id :: string
  engine :: string
  engine_version :: "string option"
  outcome :: AttemptOutcome
  detected_failures :: "AttemptFailure list"
  format_valid :: bool
  schema_valid :: bool
  proposal_validation_valid :: "bool option"
  accepted_attempt :: bool
  validation_errors :: "string list"

record RuntimeResult =
  outcome :: AttemptOutcome
  task_id :: string
  generation :: "nat option"
  engine :: "string option"
  transition :: "TransitionDecision option"
  stale_rebuilds :: nat
  attempt_records :: "TaskAttemptRecord list"
  allocated_ids :: "string strdict"
  cache_reused :: bool
  commit_performed :: bool
  reused_generation :: "int option"
  receipt_reused :: bool
  receipt_rejection_reason :: "string option"

record CanonicalObjectReceipt =
  qualified_id :: string
  object_hash :: string

subsection \<open>Resources\<close>

definition is_ResourceId :: "string \<Rightarrow> bool" where
  "is_ResourceId = tagged ''RES'' (digits_at_least 4)"

definition is_TaskId :: "string \<Rightarrow> bool" where
  "is_TaskId = tagged ''TASK'' (digits_at_least 4)"

definition MEDIA_EXTENSIONS :: "string strdict" where
  "MEDIA_EXTENSIONS =
     [(''text/markdown'', ''.md''), (''text/plain'', ''.txt''), (''application/json'', ''.json'')]"

text \<open>The \<open>ResourceValidationError\<close>s, with the values their messages print.\<close>

datatype ResourceValidationError =
    OrdinalTooSmall
  | DuplicateResource string
  | UnsupportedMedia string
  | UnsupportedMediaOf string string
  | PathLikeName string string
  | InvalidResource string

record TaskResourceRequest =
  resource_id :: string
  logical_name :: string
  source_path :: PyPath
  media_type :: string

record SnapshottedResource =
  resource_id :: string
  logical_name :: string
  snapshot_relative_path :: PyPath
  media_type :: string
  size_bytes :: int
  content_hash :: string

definition SnapshottedResource_validator :: "SnapshottedResource \<Rightarrow> string option" where
  "SnapshottedResource_validator r =
     raise_if (anchored (snapshot_relative_path r)) ''snapshot_relative_path must be relative''
    (raise_if (has_dotdot (snapshot_relative_path r)) ''snapshot_relative_path must not contain '..' parts'' None)"

definition valid_SnapshottedResource :: "SnapshottedResource \<Rightarrow> bool" where
  "valid_SnapshottedResource r \<longleftrightarrow>
     is_ResourceId (SnapshottedResource.resource_id r) \<and> 0 \<le> size_bytes r \<and> is_Sha256 (content_hash r) \<and>
     SnapshottedResource_validator r = None"

definition allocate_resource_id :: "int \<Rightarrow> ResourceValidationError + string" where
  "allocate_resource_id ordinal =
     (if ordinal < 1 then Inl OrdinalTooSmall else Inr (''RES'' @ pad_str 4 (nat ordinal)))"

definition path_like :: "string \<Rightarrow> bool" where
  "path_like name \<longleftrightarrow>
     name = '''' \<or> name = ''.'' \<or> name = ''..'' \<or> CHR ''/'' \<in> set name \<or> char_of (92 :: nat) \<in> set name"

fun validate_requests_loop :: "string set \<Rightarrow> TaskResourceRequest list \<Rightarrow> ResourceValidationError option" where
  "validate_requests_loop seen [] = None"
| "validate_requests_loop seen (request # requests) =
     (let rid = TaskResourceRequest.resource_id request;
          media = TaskResourceRequest.media_type request;
          name = TaskResourceRequest.logical_name request in
      if rid \<in> seen then Some (DuplicateResource rid)
      else if media \<notin> fst ` set MEDIA_EXTENSIONS then Some (UnsupportedMediaOf media rid)
      else if path_like name then Some (PathLikeName name rid)
      else validate_requests_loop (insert rid seen) requests)"

definition validate_resource_requests :: "TaskResourceRequest list \<Rightarrow> ResourceValidationError option" where
  "validate_resource_requests requests = validate_requests_loop {} requests"

fun build_requests_loop :: "string \<Rightarrow> int \<Rightarrow> PyPath list \<Rightarrow> ResourceValidationError + TaskResourceRequest list" where
  "build_requests_loop media ordinal [] = Inr []"
| "build_requests_loop media ordinal (src # srcs) =
     (case allocate_resource_id ordinal of
        Inl e \<Rightarrow> Inl e
      | Inr rid \<Rightarrow>
          (case build_requests_loop media (ordinal + 1) srcs of
             Inl e \<Rightarrow> Inl e
           | Inr requests \<Rightarrow>
               Inr (\<lparr>TaskResourceRequest.resource_id = rid, logical_name = path_name src, source_path = src,
                     media_type = media\<rparr> # requests)))"

definition build_resource_requests :: "PyPath list \<Rightarrow> string \<Rightarrow> ResourceValidationError + TaskResourceRequest list" where
  "build_resource_requests source_paths media =
     (case build_requests_loop media 1 source_paths of
        Inl e \<Rightarrow> Inl e
      | Inr requests \<Rightarrow>
          (case validate_resource_requests requests of Some e \<Rightarrow> Inl e | None \<Rightarrow> Inr requests))"

definition resource_destination :: "string \<Rightarrow> string \<Rightarrow> ResourceValidationError + PyPath" where
  "resource_destination rid media =
     (if \<not> is_ResourceId rid then Inl (InvalidResource rid)
      else
        (case map_of MEDIA_EXTENSIONS media of
           None \<Rightarrow> Inl (UnsupportedMedia media)
         | Some extension \<Rightarrow>
             Inr (path_join (path_join (path_join (relative_path [''input'']) (relative_path [''resources'']))
                    (relative_path [rid])) (relative_path [''content'' @ extension]))))"

subsection \<open>Where resources end up\<close>

lemma validate_requests_loop_None:
  "validate_requests_loop seen requests = None \<longleftrightarrow>
     distinct (map TaskResourceRequest.resource_id requests) \<and>
     (\<forall>r \<in> set requests. TaskResourceRequest.resource_id r \<notin> seen \<and>
        TaskResourceRequest.media_type r \<in> fst ` set MEDIA_EXTENSIONS \<and>
        \<not> path_like (TaskResourceRequest.logical_name r))"
proof (induction requests arbitrary: seen)
  case (Cons request requests)
  let ?id = TaskResourceRequest.resource_id
  have "validate_requests_loop seen (request # requests) = None \<longleftrightarrow>
      ?id request \<notin> seen \<and> TaskResourceRequest.media_type request \<in> fst ` set MEDIA_EXTENSIONS \<and>
      \<not> path_like (TaskResourceRequest.logical_name request) \<and>
      validate_requests_loop (insert (?id request) seen) requests = None"
    by (simp add: Let_def)
  also have "\<dots> \<longleftrightarrow> distinct (map ?id (request # requests)) \<and>
     (\<forall>r \<in> set (request # requests). ?id r \<notin> seen \<and>
        TaskResourceRequest.media_type r \<in> fst ` set MEDIA_EXTENSIONS \<and>
        \<not> path_like (TaskResourceRequest.logical_name r))"
    unfolding Cons.IH by (auto simp: image_iff)
  finally show ?case .
qed simp

definition request_of :: "string \<Rightarrow> nat \<Rightarrow> PyPath \<Rightarrow> TaskResourceRequest" where
  "request_of media n src =
     \<lparr>TaskResourceRequest.resource_id = ''RES'' @ pad_str 4 n, logical_name = path_name src, source_path = src,
      media_type = media\<rparr>"

definition requests_of :: "string \<Rightarrow> nat \<Rightarrow> PyPath list \<Rightarrow> TaskResourceRequest list" where
  "requests_of media n srcs = map (\<lambda>(i, src). request_of media i src) (enumerate n srcs)"

lemma requests_of_simps [simp]:
  "requests_of media n [] = []"
  "requests_of media n (src # srcs) = request_of media n src # requests_of media (Suc n) srcs"
  "length (requests_of media n srcs) = length srcs"
  by (simp_all add: requests_of_def)

lemma nth_requests_of: "i < length srcs \<Longrightarrow> requests_of media n srcs ! i = request_of media (n + i) (srcs ! i)"
  by (simp add: requests_of_def nth_enumerate_eq)

lemma build_requests_loop_eq:
  "1 \<le> n \<Longrightarrow> build_requests_loop media (int n) srcs = Inr (requests_of media n srcs)"
proof (induction srcs arbitrary: n)
  case (Cons src srcs)
  have "build_requests_loop media (int n + 1) srcs = Inr (requests_of media (Suc n) srcs)"
    using Cons.IH [of "Suc n"] by (simp add: add.commute)
  with Cons.prems show ?case by (simp add: allocate_resource_id_def request_of_def)
qed simp

lemma request_ids_distinct: "distinct (map TaskResourceRequest.resource_id (requests_of media n srcs))"
  unfolding distinct_conv_nth by (auto simp: nth_requests_of request_of_def dest: pad_str_inj)

lemma resource_id_shape: "is_ResourceId (''RES'' @ pad_str 4 n)"
  unfolding is_ResourceId_def tagged_iff digits_at_least_def
  by (intro exI [of _ "pad_str 4 n"]) (simp add: length_pad_str_ge pad_str_digits)

lemma ball_requests: "(\<forall>r \<in> set (requests_of media n srcs). P r) \<longleftrightarrow>
    (\<forall>i < length srcs. P (request_of media (n + i) (srcs ! i)))"
  by (auto simp: all_set_conv_all_nth nth_requests_of)

lemma build_resource_requests_iff:
  "build_resource_requests srcs media = Inr requests \<longleftrightarrow>
     requests = requests_of media 1 srcs \<and>
     (srcs \<noteq> [] \<longrightarrow> media \<in> fst ` set MEDIA_EXTENSIONS) \<and> (\<forall>src \<in> set srcs. \<not> path_like (path_name src))"
proof -
  let ?rs = "requests_of media 1 srcs"
  have "validate_resource_requests ?rs = None \<longleftrightarrow>
      (\<forall>r \<in> set ?rs. TaskResourceRequest.media_type r \<in> fst ` set MEDIA_EXTENSIONS \<and>
         \<not> path_like (TaskResourceRequest.logical_name r))"
    unfolding validate_resource_requests_def validate_requests_loop_None by (simp add: request_ids_distinct)
  also have "\<dots> \<longleftrightarrow> (srcs \<noteq> [] \<longrightarrow> media \<in> fst ` set MEDIA_EXTENSIONS) \<and> (\<forall>src \<in> set srcs. \<not> path_like (path_name src))"
    unfolding ball_requests all_set_conv_all_nth [of srcs] by (auto simp: request_of_def simp del: set_map)
  finally show ?thesis
    using build_requests_loop_eq [of 1 media srcs]
    by (auto simp: build_resource_requests_def split: option.splits)
qed

lemma resource_destination_Inr:
  "resource_destination rid media = Inr d \<longleftrightarrow>
     is_ResourceId rid \<and> (\<exists>ext. map_of MEDIA_EXTENSIONS media = Some ext \<and>
       d = relative_path [''input'', ''resources'', rid, ''content'' @ ext])"
  by (auto simp: resource_destination_def path_join_def relative_path_def split: option.splits)

lemma is_ResourceId_segment: "is_ResourceId rid \<Longrightarrow> is_segment rid \<and> rid \<noteq> ''..''"
  by (fastforce simp: is_ResourceId_def tagged_iff digits_at_least_def is_segment_def list_all_iff is_digit_def)

lemma MEDIA_EXTENSIONS_segment:
  "map_of MEDIA_EXTENSIONS media = Some ext \<Longrightarrow> is_segment (''content'' @ ext) \<and> ''content'' @ ext \<noteq> ''..''"
  by (auto simp: MEDIA_EXTENSIONS_def is_segment_def split: if_splits)

text \<open>
  Resource paths are controlled by the runtime alone. When requests are built for a list of
  source files, each file gets one request, and the destination of each inside the bundle exists,
  is a well-formed relative path below \<open>input/resources\<close> without a \<open>..\<close> component, depends
  on the file's position and media type only, and differs from the destination of every other
  request: no name of a source file can steer a snapshot elsewhere or onto another resource.
\<close>

theorem resource_destinations_safe:
  assumes "build_resource_requests srcs media = Inr requests"
  shows "map source_path requests = srcs \<and>
    (\<forall>i < length requests. \<exists>d. resource_destination (TaskResourceRequest.resource_id (requests ! i))
        (TaskResourceRequest.media_type (requests ! i)) = Inr d \<and>
      wf_path d \<and> \<not> anchored d \<and> \<not> has_dotdot d \<and> take 2 (segments d) = [''input'', ''resources''] \<and>
      resource_destination (''RES'' @ pad_str 4 (i + 1)) media = Inr d) \<and>
    distinct (map (\<lambda>r. resource_destination (TaskResourceRequest.resource_id r) (TaskResourceRequest.media_type r)) requests)"
proof (intro conjI allI impI)
  from assms have rs: "requests = requests_of media 1 srcs"
    and media: "srcs \<noteq> [] \<Longrightarrow> media \<in> fst ` set MEDIA_EXTENSIONS"
    by (simp_all add: build_resource_requests_iff)
  then have len: "length requests = length srcs" by simp
  show "map source_path requests = srcs" unfolding rs
    by (rule nth_equalityI) (simp_all add: nth_requests_of request_of_def)
  have nth: "requests ! i = request_of media (i + 1) (srcs ! i)" if "i < length srcs" for i
    using that by (simp add: rs nth_requests_of)
  have dest: "\<exists>ext. map_of MEDIA_EXTENSIONS media = Some ext \<and>
      resource_destination (TaskResourceRequest.resource_id (requests ! i)) (TaskResourceRequest.media_type (requests ! i)) =
        Inr (relative_path [''input'', ''resources'', ''RES'' @ pad_str 4 (i + 1), ''content'' @ ext])"
    if "i < length srcs" for i
  proof -
    have "srcs \<noteq> []" using that by auto
    then obtain ext where "map_of MEDIA_EXTENSIONS media = Some ext"
      using media weak_map_of_SomeI by fastforce
    then show ?thesis using resource_id_shape [of "i + 1"] by (auto simp: nth [OF that] request_of_def resource_destination_Inr)
  qed
  fix i assume i: "i < length requests"
  from dest [of i] i len obtain ext where ext: "map_of MEDIA_EXTENSIONS media = Some ext"
    and d: "resource_destination (TaskResourceRequest.resource_id (requests ! i)) (TaskResourceRequest.media_type (requests ! i)) =
        Inr (relative_path [''input'', ''resources'', ''RES'' @ pad_str 4 (i + 1), ''content'' @ ext])" (is "_ = Inr ?d")
    by auto
  have "resource_destination (''RES'' @ pad_str 4 (i + 1)) media = Inr ?d"
    using ext resource_id_shape [of "i + 1"] by (auto simp: resource_destination_Inr)
  moreover have "wf_path ?d \<and> \<not> has_dotdot ?d"
    using is_ResourceId_segment [OF resource_id_shape [of "i + 1"]] MEDIA_EXTENSIONS_segment [OF ext]
    by (simp add: wf_path_def has_dotdot_def relative_path_def) (simp add: is_segment_def)
  ultimately show "\<exists>d. resource_destination (TaskResourceRequest.resource_id (requests ! i))
        (TaskResourceRequest.media_type (requests ! i)) = Inr d \<and>
      wf_path d \<and> \<not> anchored d \<and> \<not> has_dotdot d \<and> take 2 (segments d) = [''input'', ''resources''] \<and>
      resource_destination (''RES'' @ pad_str 4 (i + 1)) media = Inr d"
    using d by (intro exI [of _ ?d]) (simp add: relative_path_def)
next
  from assms have rs: "requests = requests_of media 1 srcs"
    and media: "srcs \<noteq> [] \<Longrightarrow> media \<in> fst ` set MEDIA_EXTENSIONS"
    by (simp_all add: build_resource_requests_iff)
  have d: "resource_destination (''RES'' @ pad_str 4 n) media \<noteq> resource_destination (''RES'' @ pad_str 4 m) media"
    if "srcs \<noteq> []" "n \<noteq> m" for n m
  proof -
    from media [OF that(1)] obtain ext where "map_of MEDIA_EXTENSIONS media = Some ext"
      using weak_map_of_SomeI by fastforce
    then show ?thesis using that(2) resource_id_shape pad_str_inj
      by (auto simp: resource_destination_def path_join_def relative_path_def)
  qed
  show "distinct (map (\<lambda>r. resource_destination (TaskResourceRequest.resource_id r) (TaskResourceRequest.media_type r)) requests)"
    unfolding distinct_conv_nth length_map
  proof (intro allI impI)
    fix i j assume "i < length requests" "j < length requests" "i \<noteq> j"
    moreover from this have "srcs \<noteq> []" by (auto simp: rs)
    ultimately show "map (\<lambda>r. resource_destination (TaskResourceRequest.resource_id r) (TaskResourceRequest.media_type r)) requests ! i \<noteq>
        map (\<lambda>r. resource_destination (TaskResourceRequest.resource_id r) (TaskResourceRequest.media_type r)) requests ! j"
      using d [of "Suc i" "Suc j"] by (simp add: rs nth_requests_of request_of_def)
  qed
qed

theorem resource_destinations_safe_witness:
  "distinct (map (\<lambda>r. resource_destination (TaskResourceRequest.resource_id r) (TaskResourceRequest.media_type r))
     [request_of ''text/markdown'' 1 (relative_path [''a'', ''x.md'']), request_of ''text/markdown'' (Suc 1) (relative_path [''b'', ''x.md''])])"
proof -
  have "build_resource_requests [relative_path [''a'', ''x.md''], relative_path [''b'', ''x.md'']] ''text/markdown'' =
      Inr [request_of ''text/markdown'' 1 (relative_path [''a'', ''x.md'']), request_of ''text/markdown'' (Suc 1) (relative_path [''b'', ''x.md''])]"
    by (simp add: build_resource_requests_iff MEDIA_EXTENSIONS_def path_like_def path_name_def relative_path_def char_of_def)
  from resource_destinations_safe [OF this] show ?thesis by blast
qed

end
