(* ===== verification/VR_Proposals.thy ===== *)
theory VR_Proposals
  imports VR_Records
begin

section \<open>Task invocations, engine inputs and proposals (\<open>runtime/dto.py\<close>)\<close>

text \<open>
  Every DTO class is a record with the class's fields; \<open>X_validator\<close> is the body of its model
  validator (the message it raises with, if any) and \<open>valid_X\<close> that the constructor accepts the
  record: field constraints first, then the validator. A \<open>Literal\<close> of strings is a datatype.
  Text budgets count code points (\<open>max_length\<close>) or UTF-8 bytes (\<open>len(text.encode())\<close>). The
  serialised size of a bundle is what pydantic's \<open>model_dump_json\<close> prints, which is not code of
  this repository: it is the parameter \<open>dump\<close> of the three bundle validators.
\<close>

subsection \<open>Limits, annotated strings, shared checks\<close>

definition MAX_RETRIEVAL_QUERY_CHARS :: nat where "MAX_RETRIEVAL_QUERY_CHARS = 4096"
definition MAX_RETRIEVAL_QUERY_UTF8_BYTES :: nat where "MAX_RETRIEVAL_QUERY_UTF8_BYTES = 16384"
definition MAX_RETRIEVAL_QUERY_SCOPE_CLAIMS :: nat where "MAX_RETRIEVAL_QUERY_SCOPE_CLAIMS = 50"
definition MAX_RETRIEVAL_QUERY_PROPOSALS :: nat where "MAX_RETRIEVAL_QUERY_PROPOSALS = 600"
definition MAX_ASSESS_EVIDENCE_CANDIDATES :: nat where "MAX_ASSESS_EVIDENCE_CANDIDATES = 100"
definition MAX_EVIDENCE_PROPOSAL_TEXT_CHARS :: nat where "MAX_EVIDENCE_PROPOSAL_TEXT_CHARS = 16384"
definition MAX_EVIDENCE_PROPOSAL_LIMITATIONS :: nat where "MAX_EVIDENCE_PROPOSAL_LIMITATIONS = 100"
definition MAX_EVIDENCE_PROPOSAL_LIMITATION_CHARS :: nat where "MAX_EVIDENCE_PROPOSAL_LIMITATION_CHARS = 4096"
definition MAX_CLAIM_TASK_ITEMS :: nat where "MAX_CLAIM_TASK_ITEMS = 500"
definition MAX_CLAIM_TASK_TEXT_CHARS :: nat where "MAX_CLAIM_TASK_TEXT_CHARS = 16384"
definition MAX_DRAFT_TASK_ITEMS :: nat where "MAX_DRAFT_TASK_ITEMS = 100"
definition MAX_DRAFT_REFS_PER_ITEM :: nat where "MAX_DRAFT_REFS_PER_ITEM = 100"
definition MAX_DRAFT_TEXT_CHARS :: nat where "MAX_DRAFT_TEXT_CHARS = 4096"
definition MAX_DRAFT_TEXT_UTF8_BYTES :: nat where "MAX_DRAFT_TEXT_UTF8_BYTES = 16384"
definition MAX_DRAFT_PROPOSAL_UTF8_BYTES :: nat where "MAX_DRAFT_PROPOSAL_UTF8_BYTES = 4 * 1024 * 1024"
definition MAX_DISCOVERY_RESOURCES :: nat where "MAX_DISCOVERY_RESOURCES = 16"
definition MAX_DISCOVERY_ITEMS :: nat where "MAX_DISCOVERY_ITEMS = 100"
definition MAX_DISCOVERY_LOCATORS_PER_ITEM :: nat where "MAX_DISCOVERY_LOCATORS_PER_ITEM = 16"
definition MAX_DISCOVERY_TEXT_CHARS :: nat where "MAX_DISCOVERY_TEXT_CHARS = 4096"
definition MAX_CONCEPT_SKETCH_TERMS :: nat where "MAX_CONCEPT_SKETCH_TERMS = 100"
definition MAX_DISCOVERY_PROPOSAL_UTF8_BYTES :: nat where "MAX_DISCOVERY_PROPOSAL_UTF8_BYTES = 4 * 1024 * 1024"

lemmas dto_limits =
  MAX_RETRIEVAL_QUERY_CHARS_def MAX_RETRIEVAL_QUERY_UTF8_BYTES_def MAX_RETRIEVAL_QUERY_SCOPE_CLAIMS_def
  MAX_RETRIEVAL_QUERY_PROPOSALS_def MAX_ASSESS_EVIDENCE_CANDIDATES_def MAX_EVIDENCE_PROPOSAL_TEXT_CHARS_def
  MAX_EVIDENCE_PROPOSAL_LIMITATIONS_def MAX_EVIDENCE_PROPOSAL_LIMITATION_CHARS_def MAX_CLAIM_TASK_ITEMS_def
  MAX_CLAIM_TASK_TEXT_CHARS_def MAX_DRAFT_TASK_ITEMS_def MAX_DRAFT_REFS_PER_ITEM_def MAX_DRAFT_TEXT_CHARS_def
  MAX_DRAFT_TEXT_UTF8_BYTES_def MAX_DRAFT_PROPOSAL_UTF8_BYTES_def MAX_DISCOVERY_RESOURCES_def
  MAX_DISCOVERY_ITEMS_def MAX_DISCOVERY_LOCATORS_PER_ITEM_def MAX_DISCOVERY_TEXT_CHARS_def
  MAX_CONCEPT_SKETCH_TERMS_def MAX_DISCOVERY_PROPOSAL_UTF8_BYTES_def

definition text_within :: "nat \<Rightarrow> nat \<Rightarrow> string \<Rightarrow> bool" where
  "text_within lo hi s \<longleftrightarrow> lo \<le> utf8_length s \<and> utf8_length s \<le> hi"

definition list_within :: "nat \<Rightarrow> nat \<Rightarrow> ('a \<Rightarrow> bool) \<Rightarrow> 'a list \<Rightarrow> bool" where
  "list_within lo hi ok xs \<longleftrightarrow> lo \<le> length xs \<and> length xs \<le> hi \<and> list_all ok xs"

definition is_alpha :: "char \<Rightarrow> bool" where
  "is_alpha c \<longleftrightarrow> (65 \<le> (of_char c :: nat) \<and> (of_char c :: nat) \<le> 90) \<or> (97 \<le> (of_char c :: nat) \<and> (of_char c :: nat) \<le> 122)"

text \<open>\<open>LocalRef\<close> and \<open>DraftLocalRef\<close>: \<open>^[A-Za-z][A-Za-z0-9_-]*$\<close>, 1 to 128 characters.\<close>

definition is_LocalRef :: "string \<Rightarrow> bool" where
  "is_LocalRef s \<longleftrightarrow> text_within 1 128 s \<and>
     (case s of [] \<Rightarrow> False
      | c # cs \<Rightarrow> is_alpha c \<and> list_all (\<lambda>d. is_alpha d \<or> is_digit d \<or> d = CHR ''_'' \<or> d = CHR ''-'') cs)"

definition is_DraftTaskId :: "string \<Rightarrow> bool" where
  "is_DraftTaskId s \<longleftrightarrow> text_within 8 64 s \<and> is_TaskId s"

definition is_ObjectRef :: "string \<Rightarrow> bool" where
  "is_ObjectRef = text_within 1 128"

definition is_ClaimTaskText :: "string \<Rightarrow> bool" where
  "is_ClaimTaskText = text_within 0 MAX_CLAIM_TASK_TEXT_CHARS"

definition is_NonEmptyClaimTaskText :: "string \<Rightarrow> bool" where
  "is_NonEmptyClaimTaskText = text_within 1 MAX_CLAIM_TASK_TEXT_CHARS"

definition is_DiscoveryText :: "string \<Rightarrow> bool" where
  "is_DiscoveryText = text_within 1 MAX_DISCOVERY_TEXT_CHARS"

definition has_canonical_numeric_id :: "string \<Rightarrow> string \<Rightarrow> bool" where
  "has_canonical_numeric_id v prefix \<longleftrightarrow>
     (let suffix = removeprefix prefix v in
      starts_with prefix v \<and> 4 \<le> length suffix \<and> list_all is_digit suffix)"

definition validate_draft_text :: "string \<Rightarrow> string \<Rightarrow> string option" where
  "validate_draft_text v label =
     raise_if (MAX_DRAFT_TEXT_UTF8_BYTES < length v) (label @ '' exceeds its UTF-8 byte budget'') None"

definition validate_unique :: "'a list \<Rightarrow> string \<Rightarrow> string option" where
  "validate_unique vs label = raise_if (\<not> distinct vs) (label @ '' must be unique'') None"

text \<open>One check after the other: the first message.\<close>

definition and_then :: "'e option \<Rightarrow> 'e option \<Rightarrow> 'e option" where
  "and_then first rest = (case first of Some e \<Rightarrow> Some e | None \<Rightarrow> rest)"

lemma and_then_None [simp]: "and_then a b = None \<longleftrightarrow> a = None \<and> b = None"
  by (simp add: and_then_def split: option.split)

lemma validate_unique_None [simp]: "validate_unique vs label = None \<longleftrightarrow> distinct vs"
  by (simp add: validate_unique_def)

lemma validate_draft_text_None [simp]: "validate_draft_text v label = None \<longleftrightarrow> length v \<le> MAX_DRAFT_TEXT_UTF8_BYTES"
  by (simp add: validate_draft_text_def not_less)

definition consecutive_generations :: "int \<Rightarrow> int \<Rightarrow> string \<Rightarrow> string option" where
  "consecutive_generations owner source msg = raise_if (owner \<noteq> source + 1) msg None"

definition private_path_check :: "string \<Rightarrow> PyPath \<Rightarrow> string option" where
  "private_path_check label p =
     raise_if (\<not> anchored p) (label @ '' must be absolute'')
    (raise_if (has_dotdot p) (label @ '' must not contain '..' parts'') None)"

subsection \<open>Discovery invocations and inputs\<close>

record ParseDeepResearchInvocation =
  topic :: string
  document_paths :: "PyPath list"

definition valid_ParseDeepResearchInvocation :: "ParseDeepResearchInvocation \<Rightarrow> bool" where
  "valid_ParseDeepResearchInvocation i \<longleftrightarrow>
     is_DiscoveryText (topic i) \<and> list_within 0 MAX_DISCOVERY_RESOURCES (\<lambda>_. True) (document_paths i)"

record ParseDeepResearchInput =
  topic :: string
  document_resource_ids :: "string list"

definition valid_ParseDeepResearchInput :: "ParseDeepResearchInput \<Rightarrow> bool" where
  "valid_ParseDeepResearchInput i \<longleftrightarrow>
     is_DiscoveryText (ParseDeepResearchInput.topic i) \<and>
     list_within 0 MAX_DISCOVERY_RESOURCES is_ResourceId (document_resource_ids i)"

datatype ArtifactKind = PARSE | CHALLENGE

record AcceptedDiscoveryArtifactInvocation =
  artifact_kind :: ArtifactKind
  owner_generation :: int
  source_generation :: int
  task_id :: string
  semantic_task_key :: string
  artifact_hash :: string
  artifact_path :: PyPath

definition AcceptedDiscoveryArtifactInvocation_validator :: "AcceptedDiscoveryArtifactInvocation \<Rightarrow> string option" where
  "AcceptedDiscoveryArtifactInvocation_validator a =
     and_then (consecutive_generations (owner_generation a) (source_generation a)
                 ''discovery artifact generation lineage is not consecutive'')
       (private_path_check ''discovery artifact path'' (artifact_path a))"

definition valid_AcceptedDiscoveryArtifactInvocation :: "AcceptedDiscoveryArtifactInvocation \<Rightarrow> bool" where
  "valid_AcceptedDiscoveryArtifactInvocation a \<longleftrightarrow>
     1 \<le> owner_generation a \<and> 0 \<le> source_generation a \<and>
     is_DraftTaskId (AcceptedDiscoveryArtifactInvocation.task_id a) \<and>
     is_Sha256 (semantic_task_key a) \<and> is_Sha256 (artifact_hash a) \<and>
     AcceptedDiscoveryArtifactInvocation_validator a = None"

record AcceptedDiscoveryArtifactInput =
  artifact_kind :: ArtifactKind
  owner_generation :: int
  source_generation :: int
  task_id :: string
  semantic_task_key :: string
  artifact_hash :: string
  resource_id :: string

definition AcceptedDiscoveryArtifactInput_validator :: "AcceptedDiscoveryArtifactInput \<Rightarrow> string option" where
  "AcceptedDiscoveryArtifactInput_validator a =
     consecutive_generations (AcceptedDiscoveryArtifactInput.owner_generation a)
       (AcceptedDiscoveryArtifactInput.source_generation a)
       ''discovery artifact generation lineage is not consecutive''"

definition valid_AcceptedDiscoveryArtifactInput :: "AcceptedDiscoveryArtifactInput \<Rightarrow> bool" where
  "valid_AcceptedDiscoveryArtifactInput a \<longleftrightarrow>
     1 \<le> AcceptedDiscoveryArtifactInput.owner_generation a \<and>
     0 \<le> AcceptedDiscoveryArtifactInput.source_generation a \<and>
     is_DraftTaskId (AcceptedDiscoveryArtifactInput.task_id a) \<and>
     is_Sha256 (AcceptedDiscoveryArtifactInput.semantic_task_key a) \<and>
     is_Sha256 (AcceptedDiscoveryArtifactInput.artifact_hash a) \<and>
     is_ResourceId (AcceptedDiscoveryArtifactInput.resource_id a) \<and>
     AcceptedDiscoveryArtifactInput_validator a = None"

record CorpusChallengerInvocation =
  topic :: string
  paper_ids :: "string list"
  discovery_artifact :: "AcceptedDiscoveryArtifactInvocation option"
  paper_resource_paths :: "PyPath list"
  paper_source_hashes :: "string list"

definition CorpusChallengerInvocation_validator :: "CorpusChallengerInvocation \<Rightarrow> string option" where
  "CorpusChallengerInvocation_validator i =
     (let n = length (paper_ids i); strict = (length (paper_resource_paths i), length (paper_source_hashes i)) in
      and_then (validate_unique (paper_ids i) ''paper_ids'')
     (raise_if (\<not> opt_all (\<lambda>a. AcceptedDiscoveryArtifactInvocation.artifact_kind a = PARSE) (discovery_artifact i))
        ''corpus challenger requires a parse discovery artifact''
     (raise_if (strict \<noteq> (0, 0) \<and> strict \<noteq> (n, n))
        ''paper resource paths and source hashes must exactly align with paper_ids'' None)))"

definition valid_CorpusChallengerInvocation :: "CorpusChallengerInvocation \<Rightarrow> bool" where
  "valid_CorpusChallengerInvocation i \<longleftrightarrow>
     is_DiscoveryText (CorpusChallengerInvocation.topic i) \<and> list_within 0 MAX_DISCOVERY_ITEMS is_PaperId (paper_ids i) \<and>
     opt_all valid_AcceptedDiscoveryArtifactInvocation (discovery_artifact i) \<and>
     list_within 0 MAX_DISCOVERY_ITEMS (\<lambda>_. True) (paper_resource_paths i) \<and>
     list_within 0 MAX_DISCOVERY_ITEMS is_Sha256 (paper_source_hashes i) \<and>
     CorpusChallengerInvocation_validator i = None"

record CorpusChallengerInput =
  topic :: string
  paper_ids :: "string list"
  discovery_artifact :: "AcceptedDiscoveryArtifactInput option"
  paper_resource_ids :: "string list"
  paper_source_hashes :: "string list"

definition valid_CorpusChallengerInput :: "CorpusChallengerInput \<Rightarrow> bool" where
  "valid_CorpusChallengerInput i \<longleftrightarrow>
     is_DiscoveryText (CorpusChallengerInput.topic i) \<and>
     list_within 0 MAX_DISCOVERY_ITEMS is_PaperId (CorpusChallengerInput.paper_ids i) \<and>
     opt_all valid_AcceptedDiscoveryArtifactInput (CorpusChallengerInput.discovery_artifact i) \<and>
     list_within 0 MAX_DISCOVERY_ITEMS is_ResourceId (paper_resource_ids i) \<and>
     list_within 0 MAX_DISCOVERY_ITEMS is_Sha256 (CorpusChallengerInput.paper_source_hashes i)"

record GenerateCandidateClaimsInvocation =
  topic :: string
  existing_theme_ids :: "string list"
  discovery_artifact :: "AcceptedDiscoveryArtifactInvocation option"
  challenge_artifact :: "AcceptedDiscoveryArtifactInvocation option"

definition GenerateCandidateClaimsInvocation_validator :: "GenerateCandidateClaimsInvocation \<Rightarrow> string option" where
  "GenerateCandidateClaimsInvocation_validator i =
     (let discovery = GenerateCandidateClaimsInvocation.discovery_artifact i; challenge = challenge_artifact i in
      and_then (validate_unique (existing_theme_ids i) ''existing_theme_ids'')
     (raise_if ((discovery = None) \<noteq> (challenge = None))
        ''candidate generation requires both discovery artifacts or neither''
     (raise_if (\<not> opt_all (\<lambda>a. AcceptedDiscoveryArtifactInvocation.artifact_kind a = PARSE) discovery)
        ''candidate generation discovery artifact must be parse''
     (raise_if (\<not> opt_all (\<lambda>a. AcceptedDiscoveryArtifactInvocation.artifact_kind a = CHALLENGE) challenge)
        ''candidate generation challenge artifact must be challenge'' None))))"

definition valid_GenerateCandidateClaimsInvocation :: "GenerateCandidateClaimsInvocation \<Rightarrow> bool" where
  "valid_GenerateCandidateClaimsInvocation i \<longleftrightarrow>
     is_DiscoveryText (GenerateCandidateClaimsInvocation.topic i) \<and>
     list_within 0 MAX_DISCOVERY_ITEMS is_ThemeId (existing_theme_ids i) \<and>
     opt_all valid_AcceptedDiscoveryArtifactInvocation (GenerateCandidateClaimsInvocation.discovery_artifact i) \<and>
     opt_all valid_AcceptedDiscoveryArtifactInvocation (challenge_artifact i) \<and>
     GenerateCandidateClaimsInvocation_validator i = None"

record GenerateCandidateClaimsInput =
  topic :: string
  existing_theme_ids :: "string list"
  discovery_artifact :: "AcceptedDiscoveryArtifactInput option"
  challenge_artifact :: "AcceptedDiscoveryArtifactInput option"

definition valid_GenerateCandidateClaimsInput :: "GenerateCandidateClaimsInput \<Rightarrow> bool" where
  "valid_GenerateCandidateClaimsInput i \<longleftrightarrow>
     is_DiscoveryText (GenerateCandidateClaimsInput.topic i) \<and>
     list_within 0 MAX_DISCOVERY_ITEMS is_ThemeId (GenerateCandidateClaimsInput.existing_theme_ids i) \<and>
     opt_all valid_AcceptedDiscoveryArtifactInput (GenerateCandidateClaimsInput.discovery_artifact i) \<and>
     opt_all valid_AcceptedDiscoveryArtifactInput (GenerateCandidateClaimsInput.challenge_artifact i)"

subsection \<open>Retrieval, evidence and claim invocations\<close>

record GenerateRetrievalQueriesInvocation =
  claim_ids :: "string list"

definition GenerateRetrievalQueriesInvocation_validator :: "GenerateRetrievalQueriesInvocation \<Rightarrow> string option" where
  "GenerateRetrievalQueriesInvocation_validator i =
     raise_if (\<not> distinct (GenerateRetrievalQueriesInvocation.claim_ids i)) ''claim_ids must be unique'' None"

definition valid_GenerateRetrievalQueriesInvocation :: "GenerateRetrievalQueriesInvocation \<Rightarrow> bool" where
  "valid_GenerateRetrievalQueriesInvocation i \<longleftrightarrow>
     list_within 1 MAX_RETRIEVAL_QUERY_SCOPE_CLAIMS is_ClaimId (GenerateRetrievalQueriesInvocation.claim_ids i) \<and>
     GenerateRetrievalQueriesInvocation_validator i = None"

record GenerateRetrievalQueriesInput =
  claim_ids :: "string list"

definition valid_GenerateRetrievalQueriesInput :: "GenerateRetrievalQueriesInput \<Rightarrow> bool" where
  "valid_GenerateRetrievalQueriesInput i \<longleftrightarrow>
     list_within 1 MAX_RETRIEVAL_QUERY_SCOPE_CLAIMS is_ClaimId (GenerateRetrievalQueriesInput.claim_ids i)"

record AssessEvidenceIdentity =
  source_generation :: int
  claim_id :: string
  query_id :: string
  candidate_refs :: "string list"
  canonical_span_refs :: "string list"

definition AssessEvidenceIdentity_validator :: "'a AssessEvidenceIdentity_scheme \<Rightarrow> string option" where
  "AssessEvidenceIdentity_validator i =
     (case parse_query_id (AssessEvidenceIdentity.query_id i) of
        Inl e \<Rightarrow> Some e
      | Inr (encoded_claim, _, _) \<Rightarrow>
          raise_if (encoded_claim \<noteq> AssessEvidenceIdentity.claim_id i) ''query_id must encode claim_id''
         (raise_if (\<not> distinct (candidate_refs i)) ''candidate_refs must be unique''
         (raise_if (\<not> distinct (canonical_span_refs i)) ''canonical_span_refs must be unique'' None)))"

definition valid_AssessEvidenceIdentity :: "'a AssessEvidenceIdentity_scheme \<Rightarrow> bool" where
  "valid_AssessEvidenceIdentity i \<longleftrightarrow>
     0 \<le> AssessEvidenceIdentity.source_generation i \<and> is_ClaimId (AssessEvidenceIdentity.claim_id i) \<and>
     is_QueryId (AssessEvidenceIdentity.query_id i) \<and>
     list_within 1 MAX_ASSESS_EVIDENCE_CANDIDATES is_Sha256 (candidate_refs i) \<and>
     list_within 0 MAX_ASSESS_EVIDENCE_CANDIDATES is_SpanId (canonical_span_refs i) \<and>
     AssessEvidenceIdentity_validator i = None"

record AssessEvidenceInvocation = AssessEvidenceIdentity +
  retrieval_ledger_path :: PyPath

record AssessEvidenceInput = AssessEvidenceIdentity +
  retrieval_ledger_resource_id :: string

definition valid_AssessEvidenceInput :: "AssessEvidenceInput \<Rightarrow> bool" where
  "valid_AssessEvidenceInput i \<longleftrightarrow>
     valid_AssessEvidenceIdentity i \<and> is_ResourceId (retrieval_ledger_resource_id i)"

text \<open>The invocation and the input of the next four tasks have the same fields.\<close>

record AggregatePaperEvidenceInput =
  claim_id :: string
  paper_id :: string
  evidence_ids :: "string list"

definition valid_AggregatePaperEvidenceInput :: "AggregatePaperEvidenceInput \<Rightarrow> bool" where
  "valid_AggregatePaperEvidenceInput i \<longleftrightarrow>
     is_ClaimId (AggregatePaperEvidenceInput.claim_id i) \<and> is_PaperId (AggregatePaperEvidenceInput.paper_id i) \<and>
     list_within 0 MAX_CLAIM_TASK_ITEMS is_EvidenceId (AggregatePaperEvidenceInput.evidence_ids i)"

record AssessClaimInput =
  claim_id :: string
  claim_paper_evidence_ids :: "string list"

definition valid_AssessClaimInput :: "AssessClaimInput \<Rightarrow> bool" where
  "valid_AssessClaimInput i \<longleftrightarrow>
     is_ClaimId (AssessClaimInput.claim_id i) \<and>
     list_within 0 MAX_CLAIM_TASK_ITEMS is_ClaimPaperEvidenceId (AssessClaimInput.claim_paper_evidence_ids i)"

record ReviseClaimInput =
  claim_id :: string
  current_candidate_claim :: string

definition valid_ReviseClaimInput :: "ReviseClaimInput \<Rightarrow> bool" where
  "valid_ReviseClaimInput i \<longleftrightarrow>
     is_ClaimId (ReviseClaimInput.claim_id i) \<and> is_NonEmptyClaimTaskText (current_candidate_claim i)"

record ValidateFinalClaimInvocation =
  claim_id :: string
  proposed_final_claim :: string

definition valid_ValidateFinalClaimInvocation :: "ValidateFinalClaimInvocation \<Rightarrow> bool" where
  "valid_ValidateFinalClaimInvocation i \<longleftrightarrow>
     is_ClaimId (ValidateFinalClaimInvocation.claim_id i) \<and> is_NonEmptyClaimTaskText (proposed_final_claim i)"

subsection \<open>Draft invocations and inputs\<close>

record PropositionSourceSelection =
  claim_packet_ids :: "string list"
  corpus_fact_ids :: "string list"
  process_fact_ids :: "string list"

definition PropositionSourceSelection_validator :: "'a PropositionSourceSelection_scheme \<Rightarrow> string option" where
  "PropositionSourceSelection_validator i =
     and_then (validate_unique (claim_packet_ids i) ''claim_packet_ids'')
    (and_then (validate_unique (PropositionSourceSelection.corpus_fact_ids i) ''corpus_fact_ids'')
    (and_then (validate_unique (PropositionSourceSelection.process_fact_ids i) ''process_fact_ids'')
    (raise_if (claim_packet_ids i = [] \<and> PropositionSourceSelection.corpus_fact_ids i = [] \<and>
               PropositionSourceSelection.process_fact_ids i = [])
       ''proposition source selection requires at least one claim, corpus, or process fact'' None)))"

definition valid_PropositionSourceSelection :: "'a PropositionSourceSelection_scheme \<Rightarrow> bool" where
  "valid_PropositionSourceSelection i \<longleftrightarrow>
     list_within 0 MAX_DRAFT_TASK_ITEMS is_ClaimId (claim_packet_ids i) \<and>
     list_within 0 MAX_DRAFT_TASK_ITEMS is_CorpusFactId (PropositionSourceSelection.corpus_fact_ids i) \<and>
     list_within 0 MAX_DRAFT_TASK_ITEMS is_ProcessFactId (PropositionSourceSelection.process_fact_ids i) \<and>
     PropositionSourceSelection_validator i = None"

record AcceptedPropositionDraftIdentity = PropositionSourceSelection +
  draft_owner_generation :: int
  draft_source_generation :: int
  draft_task_id :: string
  draft_artifact_hash :: string
  draft_local_ref :: string

definition AcceptedPropositionDraftIdentity_validator :: "'a AcceptedPropositionDraftIdentity_scheme \<Rightarrow> string option" where
  "AcceptedPropositionDraftIdentity_validator i =
     and_then (consecutive_generations (draft_owner_generation i) (draft_source_generation i)
                 ''draft_owner_generation must immediately follow draft_source_generation'')
       (raise_if (has_canonical_numeric_id (draft_local_ref i) ''PR'')
          ''draft_local_ref must not be a canonical proposition ID'' None)"

definition valid_AcceptedPropositionDraftIdentity :: "'a AcceptedPropositionDraftIdentity_scheme \<Rightarrow> bool" where
  "valid_AcceptedPropositionDraftIdentity i \<longleftrightarrow>
     valid_PropositionSourceSelection i \<and> 1 \<le> draft_owner_generation i \<and> 0 \<le> draft_source_generation i \<and>
     is_DraftTaskId (draft_task_id i) \<and> is_Sha256 (draft_artifact_hash i) \<and> is_LocalRef (draft_local_ref i) \<and>
     AcceptedPropositionDraftIdentity_validator i = None"

record AuditPropositionInvocation = AcceptedPropositionDraftIdentity +
  draft_artifact_path :: PyPath

definition AuditPropositionInvocation_validator :: "AuditPropositionInvocation \<Rightarrow> string option" where
  "AuditPropositionInvocation_validator i = private_path_check ''draft_artifact_path'' (draft_artifact_path i)"

definition valid_AuditPropositionInvocation :: "AuditPropositionInvocation \<Rightarrow> bool" where
  "valid_AuditPropositionInvocation i \<longleftrightarrow>
     valid_AcceptedPropositionDraftIdentity i \<and> AuditPropositionInvocation_validator i = None"

record AuditPropositionInput = AcceptedPropositionDraftIdentity +
  draft_resource_id :: string

definition valid_AuditPropositionInput :: "AuditPropositionInput \<Rightarrow> bool" where
  "valid_AuditPropositionInput i \<longleftrightarrow>
     valid_AcceptedPropositionDraftIdentity i \<and> is_ResourceId (draft_resource_id i)"

record RenderProseInput =
  proposition_ids :: "string list"

definition RenderProseInput_validator :: "RenderProseInput \<Rightarrow> string option" where
  "RenderProseInput_validator i = validate_unique (proposition_ids i) ''proposition_ids''"

definition valid_RenderProseInput :: "RenderProseInput \<Rightarrow> bool" where
  "valid_RenderProseInput i \<longleftrightarrow>
     list_within 1 MAX_DRAFT_TASK_ITEMS is_PropositionId (proposition_ids i) \<and> RenderProseInput_validator i = None"

record AcceptedRenderedSentenceDraftIdentity =
  sentence_owner_generation :: int
  sentence_source_generation :: int
  sentence_task_id :: string
  sentence_artifact_hash :: string
  sentence_local_ref :: string
  source_proposition_ids :: "string list"

definition AcceptedRenderedSentenceDraftIdentity_validator ::
  "'a AcceptedRenderedSentenceDraftIdentity_scheme \<Rightarrow> string option" where
  "AcceptedRenderedSentenceDraftIdentity_validator i =
     and_then (consecutive_generations (sentence_owner_generation i) (sentence_source_generation i)
                 ''draft_owner_generation must immediately follow draft_source_generation'')
       (raise_if (has_canonical_numeric_id (sentence_local_ref i) ''RS'')
          ''draft_local_ref must not be a canonical sentence ID''
       (validate_unique (AcceptedRenderedSentenceDraftIdentity.source_proposition_ids i) ''source_proposition_ids''))"

definition valid_AcceptedRenderedSentenceDraftIdentity :: "'a AcceptedRenderedSentenceDraftIdentity_scheme \<Rightarrow> bool" where
  "valid_AcceptedRenderedSentenceDraftIdentity i \<longleftrightarrow>
     1 \<le> sentence_owner_generation i \<and> 0 \<le> sentence_source_generation i \<and> is_DraftTaskId (sentence_task_id i) \<and>
     is_Sha256 (sentence_artifact_hash i) \<and> is_LocalRef (sentence_local_ref i) \<and>
     list_within 1 MAX_DRAFT_TASK_ITEMS is_PropositionId (AcceptedRenderedSentenceDraftIdentity.source_proposition_ids i) \<and>
     AcceptedRenderedSentenceDraftIdentity_validator i = None"

record AuditRenderedSentenceInvocation = AcceptedRenderedSentenceDraftIdentity +
  sentence_artifact_path :: PyPath

definition valid_AuditRenderedSentenceInvocation :: "AuditRenderedSentenceInvocation \<Rightarrow> bool" where
  "valid_AuditRenderedSentenceInvocation i \<longleftrightarrow>
     valid_AcceptedRenderedSentenceDraftIdentity i \<and>
     private_path_check ''draft_artifact_path'' (sentence_artifact_path i) = None"

record AuditRenderedSentenceInput = AcceptedRenderedSentenceDraftIdentity +
  sentence_resource_id :: string

definition valid_AuditRenderedSentenceInput :: "AuditRenderedSentenceInput \<Rightarrow> bool" where
  "valid_AuditRenderedSentenceInput i \<longleftrightarrow>
     valid_AcceptedRenderedSentenceDraftIdentity i \<and> is_ResourceId (sentence_resource_id i)"

end
