(* ===== verification/VR_Bundles.thy ===== *)
theory VR_Bundles
  imports VR_Proposals
begin

section \<open>Proposals of the engines (\<open>runtime/dto.py\<close>, second half)\<close>

text \<open>
  What an engine may propose: the records, the validators and the acceptance predicates of the
  proposal classes, in the order of the source. The theorem says that the contract of a proposal
  is the contract of the canonical record it becomes, so acceptance of a proposal cannot be
  followed by a rejection when the canonical record is constructed.
\<close>

subsection \<open>Discovery\<close>

record ResourceTextLocator =
  resource_id :: string
  resource_hash :: string
  start_offset :: int
  end_offset :: int
  source_span_hash :: string

definition ResourceTextLocator_validator :: "ResourceTextLocator \<Rightarrow> string option" where
  "ResourceTextLocator_validator l =
     raise_if (ResourceTextLocator.end_offset l \<le> ResourceTextLocator.start_offset l)
       ''resource locator end_offset must exceed start_offset'' None"

definition valid_ResourceTextLocator :: "ResourceTextLocator \<Rightarrow> bool" where
  "valid_ResourceTextLocator l \<longleftrightarrow>
     is_ResourceId (ResourceTextLocator.resource_id l) \<and> is_Sha256 (resource_hash l) \<and>
     0 \<le> ResourceTextLocator.start_offset l \<and> 0 < ResourceTextLocator.end_offset l \<and>
     is_Sha256 (ResourceTextLocator.source_span_hash l) \<and> ResourceTextLocator_validator l = None"

definition valid_locators :: "nat \<Rightarrow> ResourceTextLocator list \<Rightarrow> bool" where
  "valid_locators lo = list_within lo MAX_DISCOVERY_LOCATORS_PER_ITEM valid_ResourceTextLocator"

record ThemeProposal =
  local_ref :: string
  title :: string
  description :: string
  origin :: Origin
  parent_ref :: "string option"

definition valid_ThemeProposal :: "ThemeProposal \<Rightarrow> bool" where
  "valid_ThemeProposal t \<longleftrightarrow>
     is_LocalRef (ThemeProposal.local_ref t) \<and> is_DiscoveryText (ThemeProposal.title t) \<and>
     is_DiscoveryText (ThemeProposal.description t) \<and> opt_all is_ObjectRef (parent_ref t)"

record CandidateClaimProposal =
  local_ref :: string
  theme_ref :: string
  candidate_claim :: string
  origin :: Origin
  origin_refs :: "string list"

definition CandidateClaimProposal_validator :: "CandidateClaimProposal \<Rightarrow> string option" where
  "CandidateClaimProposal_validator c = validate_unique (CandidateClaimProposal.origin_refs c) ''origin_refs''"

definition valid_CandidateClaimProposal :: "CandidateClaimProposal \<Rightarrow> bool" where
  "valid_CandidateClaimProposal c \<longleftrightarrow>
     is_LocalRef (CandidateClaimProposal.local_ref c) \<and> is_ObjectRef (theme_ref c) \<and>
     is_DiscoveryText (CandidateClaimProposal.candidate_claim c) \<and>
     list_within 0 MAX_DISCOVERY_LOCATORS_PER_ITEM is_ObjectRef (CandidateClaimProposal.origin_refs c) \<and>
     CandidateClaimProposal_validator c = None"

record DiscoverySourceBinding =
  target_ref :: string
  locators :: "ResourceTextLocator list"

definition valid_DiscoverySourceBinding :: "DiscoverySourceBinding \<Rightarrow> bool" where
  "valid_DiscoverySourceBinding b \<longleftrightarrow> is_LocalRef (target_ref b) \<and> valid_locators 1 (locators b)"

record DiscoveryTerminologyProposal =
  local_ref :: string
  "term" :: string
  meaning :: string
  locators :: "ResourceTextLocator list"

definition valid_DiscoveryTerminologyProposal :: "DiscoveryTerminologyProposal \<Rightarrow> bool" where
  "valid_DiscoveryTerminologyProposal t \<longleftrightarrow>
     is_LocalRef (DiscoveryTerminologyProposal.local_ref t) \<and>
     is_DiscoveryText (DiscoveryTerminologyProposal.term t) \<and> is_DiscoveryText (meaning t) \<and>
     valid_locators 1 (DiscoveryTerminologyProposal.locators t)"

record DiscoveryPaperCandidateProposal =
  local_ref :: string
  citation :: string
  relevance :: string
  locators :: "ResourceTextLocator list"

definition valid_DiscoveryPaperCandidateProposal :: "DiscoveryPaperCandidateProposal \<Rightarrow> bool" where
  "valid_DiscoveryPaperCandidateProposal p \<longleftrightarrow>
     is_LocalRef (DiscoveryPaperCandidateProposal.local_ref p) \<and> is_DiscoveryText (citation p) \<and>
     is_DiscoveryText (relevance p) \<and> valid_locators 1 (DiscoveryPaperCandidateProposal.locators p)"

record DiscoveryFindingProposal =
  local_ref :: string
  summary :: string
  locators :: "ResourceTextLocator list"

definition valid_DiscoveryFindingProposal :: "DiscoveryFindingProposal \<Rightarrow> bool" where
  "valid_DiscoveryFindingProposal f \<longleftrightarrow>
     is_LocalRef (DiscoveryFindingProposal.local_ref f) \<and> is_DiscoveryText (summary f) \<and>
     valid_locators 1 (DiscoveryFindingProposal.locators f)"

definition is_DiscoveryTextList :: "nat \<Rightarrow> string list \<Rightarrow> bool" where
  "is_DiscoveryTextList lo = list_within lo MAX_CONCEPT_SKETCH_TERMS is_DiscoveryText"

record PaperConceptSketchProposal =
  local_ref :: string
  paper_ref :: string
  summary :: string
  concepts :: "string list"
  populations :: "string list"
  methods :: "string list"
  boundary_conditions :: "string list"
  contradictions :: "string list"
  locators :: "ResourceTextLocator list"

definition valid_PaperConceptSketchProposal :: "PaperConceptSketchProposal \<Rightarrow> bool" where
  "valid_PaperConceptSketchProposal s \<longleftrightarrow>
     is_LocalRef (PaperConceptSketchProposal.local_ref s) \<and> is_PaperId (paper_ref s) \<and>
     is_DiscoveryText (PaperConceptSketchProposal.summary s) \<and> is_DiscoveryTextList 1 (concepts s) \<and>
     is_DiscoveryTextList 0 (populations s) \<and> is_DiscoveryTextList 0 (methods s) \<and>
     is_DiscoveryTextList 0 (boundary_conditions s) \<and> is_DiscoveryTextList 0 (contradictions s) \<and>
     valid_locators 1 (PaperConceptSketchProposal.locators s)"

datatype DiscoveryCoverageStatus = COVERED | PARTIAL | MISSING | CONTRADICTED
datatype DiscoveryMissingDimension =
  THEME_DIM | CLAIM_DIM | CONTRADICTION_DIM | POPULATION_DIM | METHOD_DIM | BOUNDARY_CONDITION_DIM

record DiscoveryCoverageFindingProposal =
  local_ref :: string
  discovery_ref :: string
  status :: DiscoveryCoverageStatus
  paper_refs :: "string list"
  missing_dimensions :: "DiscoveryMissingDimension list"
  rationale :: string
  locators :: "ResourceTextLocator list"

definition DiscoveryCoverageFindingProposal_validator :: "DiscoveryCoverageFindingProposal \<Rightarrow> string option" where
  "DiscoveryCoverageFindingProposal_validator f =
     (let st = DiscoveryCoverageFindingProposal.status f in
      and_then (validate_unique (paper_refs f) ''coverage paper_refs'')
     (and_then (validate_unique (missing_dimensions f) ''coverage missing_dimensions'')
     (raise_if (st = COVERED \<and> missing_dimensions f \<noteq> []) ''covered discovery concepts cannot name missing dimensions''
     (raise_if (st \<noteq> COVERED \<and> missing_dimensions f = [])
        ''non-covered discovery concepts require explicit missing dimensions''
     (raise_if (st \<in> {COVERED, PARTIAL, CONTRADICTED} \<and> DiscoveryCoverageFindingProposal.locators f = [])
        ''observed discovery coverage requires an exact paper locator'' None)))))"

definition valid_DiscoveryCoverageFindingProposal :: "DiscoveryCoverageFindingProposal \<Rightarrow> bool" where
  "valid_DiscoveryCoverageFindingProposal f \<longleftrightarrow>
     is_LocalRef (DiscoveryCoverageFindingProposal.local_ref f) \<and> is_LocalRef (discovery_ref f) \<and>
     list_within 0 5 is_PaperId (paper_refs f) \<and> list_within 0 6 (\<lambda>_. True) (missing_dimensions f) \<and>
     is_DiscoveryText (rationale f) \<and> valid_locators 0 (DiscoveryCoverageFindingProposal.locators f) \<and>
     DiscoveryCoverageFindingProposal_validator f = None"

datatype InputDisposition = INCLUDED | EXCLUDED

record DiscoveryInputDispositionProposal =
  source_kind :: ArtifactKind
  source_ref :: string
  disposition :: InputDisposition
  candidate_claim_refs :: "string list"
  reason :: string

definition DiscoveryInputDispositionProposal_validator :: "DiscoveryInputDispositionProposal \<Rightarrow> string option" where
  "DiscoveryInputDispositionProposal_validator d =
     and_then (validate_unique (candidate_claim_refs d) ''disposition candidate_claim_refs'')
    (raise_if (disposition d = INCLUDED \<and> candidate_claim_refs d = [])
       ''included discovery inputs require at least one candidate claim''
    (raise_if (disposition d = EXCLUDED \<and> candidate_claim_refs d \<noteq> [])
       ''excluded discovery inputs cannot name candidate claims'' None))"

definition valid_DiscoveryInputDispositionProposal :: "DiscoveryInputDispositionProposal \<Rightarrow> bool" where
  "valid_DiscoveryInputDispositionProposal d \<longleftrightarrow>
     is_LocalRef (source_ref d) \<and> list_within 0 MAX_DISCOVERY_ITEMS is_LocalRef (candidate_claim_refs d) \<and>
     is_DiscoveryText (DiscoveryInputDispositionProposal.reason d) \<and>
     DiscoveryInputDispositionProposal_validator d = None"

record DiscoveryProposalBundle =
  themes :: "ThemeProposal list"
  claims :: "CandidateClaimProposal list"
  source_bindings :: "DiscoverySourceBinding list"
  terminology :: "DiscoveryTerminologyProposal list"
  paper_candidates :: "DiscoveryPaperCandidateProposal list"
  controversies :: "DiscoveryFindingProposal list"
  gaps :: "DiscoveryFindingProposal list"
  paper_concept_sketches :: "PaperConceptSketchProposal list"
  coverage_findings :: "DiscoveryCoverageFindingProposal list"
  input_dispositions :: "DiscoveryInputDispositionProposal list"

definition DiscoveryProposalBundle_validator ::
  "(DiscoveryProposalBundle \<Rightarrow> string) \<Rightarrow> DiscoveryProposalBundle \<Rightarrow> string option" where
  "DiscoveryProposalBundle_validator dump b =
     raise_if (MAX_DISCOVERY_PROPOSAL_UTF8_BYTES < length (dump b))
       ''discovery proposal bundle exceeds its UTF-8 byte budget'' None"

definition valid_DiscoveryProposalBundle :: "(DiscoveryProposalBundle \<Rightarrow> string) \<Rightarrow> DiscoveryProposalBundle \<Rightarrow> bool" where
  "valid_DiscoveryProposalBundle dump b \<longleftrightarrow>
     list_within 0 MAX_DISCOVERY_ITEMS valid_ThemeProposal (DiscoveryProposalBundle.themes b) \<and>
     list_within 0 MAX_DISCOVERY_ITEMS valid_CandidateClaimProposal (claims b) \<and>
     list_within 0 (2 * MAX_DISCOVERY_ITEMS) valid_DiscoverySourceBinding (source_bindings b) \<and>
     list_within 0 MAX_DISCOVERY_ITEMS valid_DiscoveryTerminologyProposal (terminology b) \<and>
     list_within 0 MAX_DISCOVERY_ITEMS valid_DiscoveryPaperCandidateProposal (paper_candidates b) \<and>
     list_within 0 MAX_DISCOVERY_ITEMS valid_DiscoveryFindingProposal (controversies b) \<and>
     list_within 0 MAX_DISCOVERY_ITEMS valid_DiscoveryFindingProposal (gaps b) \<and>
     list_within 0 5 valid_PaperConceptSketchProposal (paper_concept_sketches b) \<and>
     list_within 0 MAX_DISCOVERY_ITEMS valid_DiscoveryCoverageFindingProposal (coverage_findings b) \<and>
     list_within 0 (2 * MAX_DISCOVERY_ITEMS) valid_DiscoveryInputDispositionProposal (input_dispositions b) \<and>
     DiscoveryProposalBundle_validator dump b = None"

subsection \<open>Retrieval queries and evidence\<close>

record RetrievalQueryProposal =
  local_ref :: string
  claim_ref :: string
  intent :: RetrievalIntent
  query_text :: string

definition RetrievalQueryProposal_validator :: "RetrievalQueryProposal \<Rightarrow> string option" where
  "RetrievalQueryProposal_validator q =
     raise_if (MAX_RETRIEVAL_QUERY_UTF8_BYTES < length (RetrievalQueryProposal.query_text q))
       ''retrieval query exceeds its deterministic UTF-8 byte budget'' None"

definition valid_RetrievalQueryProposal :: "RetrievalQueryProposal \<Rightarrow> bool" where
  "valid_RetrievalQueryProposal q \<longleftrightarrow>
     is_LocalRef (RetrievalQueryProposal.local_ref q) \<and> is_ObjectRef (RetrievalQueryProposal.claim_ref q) \<and>
     text_within 1 MAX_RETRIEVAL_QUERY_CHARS (RetrievalQueryProposal.query_text q) \<and>
     RetrievalQueryProposal_validator q = None"

record RetrievalQueryProposalBundle =
  queries :: "RetrievalQueryProposal list"

definition valid_RetrievalQueryProposalBundle :: "RetrievalQueryProposalBundle \<Rightarrow> bool" where
  "valid_RetrievalQueryProposalBundle b \<longleftrightarrow>
     list_within 0 MAX_RETRIEVAL_QUERY_PROPOSALS valid_RetrievalQueryProposal (queries b)"

record EvidenceRecordProposal =
  local_ref :: string
  claim_ref :: string
  retrieved_span_ref :: string
  paper_ref :: string
  relation_to_candidate :: EvidenceRelation
  evidence_summary :: string
  quality :: EvidenceQuality
  assessment_note :: string

definition valid_EvidenceRecordProposal :: "EvidenceRecordProposal \<Rightarrow> bool" where
  "valid_EvidenceRecordProposal e \<longleftrightarrow>
     is_LocalRef (EvidenceRecordProposal.local_ref e) \<and> is_ObjectRef (EvidenceRecordProposal.claim_ref e) \<and>
     is_ObjectRef (retrieved_span_ref e) \<and> is_ObjectRef (EvidenceRecordProposal.paper_ref e) \<and>
     EvidenceQuality_validator (EvidenceRecordProposal.quality e) = None"

record EvidenceAssessmentProposal =
  relation_to_candidate :: EvidenceRelation
  evidence_summary :: string
  quality :: EvidenceQuality
  assessment_note :: string

definition EvidenceAssessmentProposal_validator :: "EvidenceAssessmentProposal \<Rightarrow> string option" where
  "EvidenceAssessmentProposal_validator e =
     (let items = limitations (EvidenceAssessmentProposal.quality e) in
      raise_if (MAX_EVIDENCE_PROPOSAL_LIMITATIONS < length items) ''evidence proposal has too many limitations''
     (raise_if (list_ex (\<lambda>item. MAX_EVIDENCE_PROPOSAL_LIMITATION_CHARS < utf8_length item) items)
        ''evidence proposal limitation exceeds its text budget'' None))"

definition valid_EvidenceAssessmentProposal :: "EvidenceAssessmentProposal \<Rightarrow> bool" where
  "valid_EvidenceAssessmentProposal e \<longleftrightarrow>
     text_within 0 MAX_EVIDENCE_PROPOSAL_TEXT_CHARS (EvidenceAssessmentProposal.evidence_summary e) \<and>
     EvidenceQuality_validator (EvidenceAssessmentProposal.quality e) = None \<and>
     text_within 0 MAX_EVIDENCE_PROPOSAL_TEXT_CHARS (EvidenceAssessmentProposal.assessment_note e) \<and>
     EvidenceAssessmentProposal_validator e = None"

record EvidenceCandidateDecisionProposal =
  candidate_ref :: string
  status :: RetrievalDispositionStatus
  reason :: "string option"
  canonical_span_ref :: "string option"
  evidence :: "EvidenceAssessmentProposal option"

definition AssessEvidenceDisposition :: "RetrievalDispositionStatus list" where
  "AssessEvidenceDisposition =
     [RetrievalDispositionStatus.ASSESSED, RetrievalDispositionStatus.DUPLICATE, RetrievalDispositionStatus.REDUNDANT]"

definition EvidenceCandidateDecisionProposal_validator :: "EvidenceCandidateDecisionProposal \<Rightarrow> string option" where
  "EvidenceCandidateDecisionProposal_validator d =
     (let st = EvidenceCandidateDecisionProposal.status d in
      if st = RetrievalDispositionStatus.ASSESSED then
        raise_if (canonical_span_ref d \<noteq> None) ''assessed candidate cannot name a canonical span''
       (raise_if (evidence d = None) ''assessed candidate requires exactly one evidence proposal'' None)
      else if st = RetrievalDispositionStatus.DUPLICATE then
        raise_if (canonical_span_ref d = None) ''duplicate candidate requires a canonical span''
       (raise_if (evidence d \<noteq> None) ''duplicate candidate cannot carry evidence'' None)
      else
        raise_if (canonical_span_ref d = None \<and> absent (EvidenceCandidateDecisionProposal.reason d))
          ''redundant candidate requires a canonical span or reason''
       (raise_if (evidence d \<noteq> None) ''redundant candidate cannot carry evidence'' None))"

definition valid_EvidenceCandidateDecisionProposal :: "EvidenceCandidateDecisionProposal \<Rightarrow> bool" where
  "valid_EvidenceCandidateDecisionProposal d \<longleftrightarrow>
     is_Sha256 (candidate_ref d) \<and> EvidenceCandidateDecisionProposal.status d \<in> set AssessEvidenceDisposition \<and>
     opt_all (text_within 0 MAX_EVIDENCE_PROPOSAL_TEXT_CHARS) (EvidenceCandidateDecisionProposal.reason d) \<and>
     opt_all is_SpanId (canonical_span_ref d) \<and> opt_all valid_EvidenceAssessmentProposal (evidence d) \<and>
     EvidenceCandidateDecisionProposal_validator d = None"

record AssessEvidenceProposalBundle =
  decisions :: "EvidenceCandidateDecisionProposal list"

definition AssessEvidenceProposalBundle_validator :: "AssessEvidenceProposalBundle \<Rightarrow> string option" where
  "AssessEvidenceProposalBundle_validator b =
     raise_if (\<not> distinct (map candidate_ref (decisions b))) ''evidence decision candidate_refs must be unique'' None"

definition valid_AssessEvidenceProposalBundle :: "AssessEvidenceProposalBundle \<Rightarrow> bool" where
  "valid_AssessEvidenceProposalBundle b \<longleftrightarrow>
     list_within 1 MAX_ASSESS_EVIDENCE_CANDIDATES valid_EvidenceCandidateDecisionProposal (decisions b) \<and>
     AssessEvidenceProposalBundle_validator b = None"

subsection \<open>Claims\<close>

record ClaimPaperEvidenceProposal =
  claim_ref :: string
  paper_ref :: string
  evidence_refs :: "string list"
  relation_to_candidate :: AggregateRelation
  component_relations :: ComponentRelations
  strength :: EvidenceStrength
  within_paper_consistency :: WithinPaperConsistency
  assessment_note :: string

definition valid_ClaimPaperEvidenceProposal :: "ClaimPaperEvidenceProposal \<Rightarrow> bool" where
  "valid_ClaimPaperEvidenceProposal p \<longleftrightarrow>
     is_ObjectRef (ClaimPaperEvidenceProposal.claim_ref p) \<and> is_ObjectRef (ClaimPaperEvidenceProposal.paper_ref p) \<and>
     list_within 1 MAX_CLAIM_TASK_ITEMS is_ObjectRef (evidence_refs p) \<and>
     valid_ComponentRelations (ClaimPaperEvidenceProposal.component_relations p) \<and>
     is_ClaimTaskText (ClaimPaperEvidenceProposal.assessment_note p)"

record ClaimAssessmentProposal =
  claim_ref :: string
  aggregate_strength :: AggregateStrength
  evidence_sufficiency :: EvidenceSufficiency
  decision :: ClaimDecision
  rejection_basis :: "RejectionBasis option"
  support_summary :: string
  contradiction_summary :: string
  qualification_summary :: string
  reason :: string

definition ClaimAssessmentProposal_validator :: "ClaimAssessmentProposal \<Rightarrow> string option" where
  "ClaimAssessmentProposal_validator a =
     (let d = ClaimAssessmentProposal.decision a; basis = ClaimAssessmentProposal.rejection_basis a in
      raise_if (d = ClaimDecision.REJECT \<and> basis = None) ''REJECT requires rejection_basis''
     (raise_if (d \<noteq> ClaimDecision.REJECT \<and> basis \<noteq> None) ''non-REJECT cannot have rejection_basis'' None))"

definition valid_ClaimAssessmentProposal :: "ClaimAssessmentProposal \<Rightarrow> bool" where
  "valid_ClaimAssessmentProposal a \<longleftrightarrow>
     is_ObjectRef (ClaimAssessmentProposal.claim_ref a) \<and>
     is_ClaimTaskText (ClaimAssessmentProposal.support_summary a) \<and>
     is_ClaimTaskText (ClaimAssessmentProposal.contradiction_summary a) \<and>
     is_ClaimTaskText (ClaimAssessmentProposal.qualification_summary a) \<and>
     is_ClaimTaskText (ClaimAssessmentProposal.reason a) \<and> ClaimAssessmentProposal_validator a = None"

record RevisedClaimProposal =
  claim_ref :: string
  final_claim :: string

definition valid_RevisedClaimProposal :: "RevisedClaimProposal \<Rightarrow> bool" where
  "valid_RevisedClaimProposal p \<longleftrightarrow>
     is_ObjectRef (RevisedClaimProposal.claim_ref p) \<and> is_NonEmptyClaimTaskText (RevisedClaimProposal.final_claim p)"

record FinalPaperRelationProposal =
  claim_paper_evidence_ref :: string
  paper_ref :: string
  relation_to_final_claim :: AggregateRelation

definition valid_FinalPaperRelationProposal :: "FinalPaperRelationProposal \<Rightarrow> bool" where
  "valid_FinalPaperRelationProposal r \<longleftrightarrow>
     is_ObjectRef (claim_paper_evidence_ref r) \<and> is_ObjectRef (FinalPaperRelationProposal.paper_ref r)"

record FinalClaimValidationProposal =
  claim_ref :: string
  final_claim :: string
  status :: FinalClaimStatus
  paper_relations :: "FinalPaperRelationProposal list"
  scope_check :: ValidationCheckResult
  certainty_check :: ValidationCheckResult
  causal_language_check :: ValidationCheckResult
  numerical_claim_check :: ValidationCheckResult
  "notes" :: string

definition FinalClaimValidationProposal_validator :: "FinalClaimValidationProposal \<Rightarrow> string option" where
  "FinalClaimValidationProposal_validator f =
     (if FinalClaimValidationProposal.status f \<noteq> FinalClaimStatus.VALID then None
      else
        raise_if (FinalClaimValidationProposal.paper_relations f = []) ''VALID final claim requires at least one paper relation''
       (raise_if (FinalClaimValidationProposal.scope_check f \<noteq> ValidationCheckResult.PASS)
          ''VALID final claim requires scope_check=pass''
       (raise_if (FinalClaimValidationProposal.certainty_check f \<noteq> ValidationCheckResult.PASS)
          ''VALID final claim requires certainty_check=pass''
       (raise_if (FinalClaimValidationProposal.causal_language_check f \<notin> {ValidationCheckResult.PASS, ValidationCheckResult.NOT_APPLICABLE})
          ''VALID final claim requires causal_language_check=pass or not_applicable''
       (raise_if (FinalClaimValidationProposal.numerical_claim_check f \<notin> {ValidationCheckResult.PASS, ValidationCheckResult.NOT_APPLICABLE})
          ''VALID final claim requires numerical_claim_check=pass or not_applicable'' None)))))"

definition valid_FinalClaimValidationProposal :: "FinalClaimValidationProposal \<Rightarrow> bool" where
  "valid_FinalClaimValidationProposal f \<longleftrightarrow>
     is_ObjectRef (FinalClaimValidationProposal.claim_ref f) \<and>
     is_NonEmptyClaimTaskText (FinalClaimValidationProposal.final_claim f) \<and>
     list_within 0 MAX_CLAIM_TASK_ITEMS valid_FinalPaperRelationProposal (FinalClaimValidationProposal.paper_relations f) \<and>
     is_ClaimTaskText (FinalClaimValidationProposal.notes f) \<and> FinalClaimValidationProposal_validator f = None"

subsection \<open>Propositions, audits, sentences\<close>

record CitationBindingProposal =
  paper_ref :: string
  claim_ref :: string
  claim_paper_evidence_ref :: string

definition valid_CitationBindingProposal :: "CitationBindingProposal \<Rightarrow> bool" where
  "valid_CitationBindingProposal b \<longleftrightarrow>
     is_ObjectRef (CitationBindingProposal.paper_ref b) \<and> is_ObjectRef (CitationBindingProposal.claim_ref b) \<and>
     is_ObjectRef (CitationBindingProposal.claim_paper_evidence_ref b)"

record PropositionProposal =
  local_ref :: string
  "text" :: string
  content_class :: PropositionContentClass
  claim_refs :: "string list"
  citation_bindings :: "CitationBindingProposal list"
  corpus_fact_refs :: "string list"
  process_fact_refs :: "string list"

definition proposal_provenance_check :: "PropositionProposal \<Rightarrow> string option" where
  "proposal_provenance_check p =
     (let cs = claim_refs p; bs = PropositionProposal.citation_bindings p;
          fs = corpus_fact_refs p; rs = process_fact_refs p in
      case PropositionProposal.content_class p of
        PropositionContentClass.SCIENTIFIC_CLAIM \<Rightarrow>
          raise_if (cs = [] \<or> bs = []) ''ScientificClaim requires claims and citations''
         (raise_if (fs \<noteq> [] \<or> rs \<noteq> []) ''ScientificClaim cannot mix provenance classes''
         (raise_if (CitationBindingProposal.claim_ref ` set bs \<noteq> set cs) ''ScientificClaim citations must cover all claims'' None))
      | PropositionContentClass.CORPUS_FACT \<Rightarrow>
          raise_if (cs \<noteq> [] \<or> bs \<noteq> [] \<or> fs = [] \<or> rs \<noteq> []) ''CorpusFact must contain only corpus-fact provenance'' None
      | PropositionContentClass.REVIEW_PROCESS_STATEMENT \<Rightarrow>
          raise_if (cs \<noteq> [] \<or> bs \<noteq> [] \<or> fs \<noteq> [] \<or> rs = []) ''ReviewProcessStatement must contain only process provenance'' None
      | PropositionContentClass.RHETORICAL \<Rightarrow>
          raise_if (cs \<noteq> [] \<or> bs \<noteq> [] \<or> fs \<noteq> [] \<or> rs \<noteq> []) ''Rhetorical proposal cannot contain provenance'' None)"

definition PropositionProposal_validator :: "PropositionProposal \<Rightarrow> string option" where
  "PropositionProposal_validator p =
     raise_if (has_canonical_numeric_id (PropositionProposal.local_ref p) ''PR'')
       ''proposition local_ref must not be a canonical PR ID''
    (and_then (validate_draft_text (PropositionProposal.text p) ''proposition text'')
    (and_then (validate_unique (claim_refs p) ''claim_refs'')
    (and_then (validate_unique (corpus_fact_refs p) ''corpus_fact_refs'')
    (and_then (validate_unique (process_fact_refs p) ''process_fact_refs'')
    (and_then (validate_unique
                 (map (\<lambda>b. (CitationBindingProposal.paper_ref b, CitationBindingProposal.claim_ref b,
                              CitationBindingProposal.claim_paper_evidence_ref b)) (PropositionProposal.citation_bindings p))
                 ''citation_bindings'')
       (proposal_provenance_check p))))))"

definition valid_PropositionProposal :: "PropositionProposal \<Rightarrow> bool" where
  "valid_PropositionProposal p \<longleftrightarrow>
     is_LocalRef (PropositionProposal.local_ref p) \<and> text_within 1 MAX_DRAFT_TEXT_CHARS (PropositionProposal.text p) \<and>
     list_within 0 MAX_DRAFT_REFS_PER_ITEM is_ObjectRef (claim_refs p) \<and>
     list_within 0 MAX_DRAFT_REFS_PER_ITEM valid_CitationBindingProposal (PropositionProposal.citation_bindings p) \<and>
     list_within 0 MAX_DRAFT_REFS_PER_ITEM is_ObjectRef (corpus_fact_refs p) \<and>
     list_within 0 MAX_DRAFT_REFS_PER_ITEM is_ObjectRef (process_fact_refs p) \<and>
     PropositionProposal_validator p = None"

record PropositionProposalBundle =
  propositions :: "PropositionProposal list"

definition PropositionProposalBundle_validator ::
  "(PropositionProposalBundle \<Rightarrow> string) \<Rightarrow> PropositionProposalBundle \<Rightarrow> string option" where
  "PropositionProposalBundle_validator dump b =
     and_then (validate_unique (map PropositionProposal.local_ref (propositions b)) ''proposition local_refs'')
       (raise_if (MAX_DRAFT_PROPOSAL_UTF8_BYTES < length (dump b))
          ''proposition proposal bundle exceeds its UTF-8 byte budget'' None)"

definition valid_PropositionProposalBundle :: "(PropositionProposalBundle \<Rightarrow> string) \<Rightarrow> PropositionProposalBundle \<Rightarrow> bool" where
  "valid_PropositionProposalBundle dump b \<longleftrightarrow>
     list_within 1 MAX_DRAFT_TASK_ITEMS valid_PropositionProposal (propositions b) \<and>
     PropositionProposalBundle_validator dump b = None"

record SemanticAuditProposal =
  target_ref :: string
  class_verdict :: AuditClassVerdict
  provenance_verdict :: AuditProvenanceVerdict
  reason :: string
  referenced_claim_refs :: "string list"
  referenced_corpus_fact_refs :: "string list"
  referenced_process_fact_refs :: "string list"

definition SemanticAuditProposal_validator :: "SemanticAuditProposal \<Rightarrow> string option" where
  "SemanticAuditProposal_validator a =
     raise_if (has_canonical_numeric_id (SemanticAuditProposal.target_ref a) ''PR'')
       ''semantic audit target must be a proposition draft local ref''
    (and_then (validate_draft_text (SemanticAuditProposal.reason a) ''semantic audit reason'')
    (and_then (validate_unique (referenced_claim_refs a) ''referenced_claim_refs'')
    (and_then (validate_unique (referenced_corpus_fact_refs a) ''referenced_corpus_fact_refs'')
       (validate_unique (referenced_process_fact_refs a) ''referenced_process_fact_refs''))))"

definition valid_SemanticAuditProposal :: "SemanticAuditProposal \<Rightarrow> bool" where
  "valid_SemanticAuditProposal a \<longleftrightarrow>
     is_LocalRef (SemanticAuditProposal.target_ref a) \<and>
     text_within 0 MAX_DRAFT_TEXT_CHARS (SemanticAuditProposal.reason a) \<and>
     list_within 0 MAX_DRAFT_REFS_PER_ITEM is_ObjectRef (referenced_claim_refs a) \<and>
     list_within 0 MAX_DRAFT_REFS_PER_ITEM is_ObjectRef (referenced_corpus_fact_refs a) \<and>
     list_within 0 MAX_DRAFT_REFS_PER_ITEM is_ObjectRef (referenced_process_fact_refs a) \<and>
     SemanticAuditProposal_validator a = None"

record RenderedSentenceProposal =
  local_ref :: string
  "text" :: string
  source_proposition_refs :: "string list"

definition RenderedSentenceProposal_validator :: "RenderedSentenceProposal \<Rightarrow> string option" where
  "RenderedSentenceProposal_validator s =
     raise_if (has_canonical_numeric_id (RenderedSentenceProposal.local_ref s) ''RS'')
       ''sentence local_ref must not be a canonical RS ID''
    (and_then (validate_draft_text (RenderedSentenceProposal.text s) ''rendered sentence text'')
    (raise_if (list_ex (\<lambda>marker. char_of marker \<in> set (RenderedSentenceProposal.text s)) [13 :: nat, 10, 0])
       ''rendered sentence text contains a forbidden line marker''
    (validate_unique (source_proposition_refs s) ''source_proposition_refs'')))"

definition valid_RenderedSentenceProposal :: "RenderedSentenceProposal \<Rightarrow> bool" where
  "valid_RenderedSentenceProposal s \<longleftrightarrow>
     is_LocalRef (RenderedSentenceProposal.local_ref s) \<and>
     text_within 1 MAX_DRAFT_TEXT_CHARS (RenderedSentenceProposal.text s) \<and>
     list_within 1 MAX_DRAFT_REFS_PER_ITEM is_ObjectRef (source_proposition_refs s) \<and>
     RenderedSentenceProposal_validator s = None"

record RenderedSentenceProposalBundle =
  sentences :: "RenderedSentenceProposal list"

definition RenderedSentenceProposalBundle_validator ::
  "(RenderedSentenceProposalBundle \<Rightarrow> string) \<Rightarrow> RenderedSentenceProposalBundle \<Rightarrow> string option" where
  "RenderedSentenceProposalBundle_validator dump b =
     and_then (validate_unique (map RenderedSentenceProposal.local_ref (sentences b)) ''sentence local_refs'')
       (raise_if (MAX_DRAFT_PROPOSAL_UTF8_BYTES < length (dump b))
          ''rendered sentence proposal bundle exceeds its UTF-8 byte budget'' None)"

definition valid_RenderedSentenceProposalBundle ::
  "(RenderedSentenceProposalBundle \<Rightarrow> string) \<Rightarrow> RenderedSentenceProposalBundle \<Rightarrow> bool" where
  "valid_RenderedSentenceProposalBundle dump b \<longleftrightarrow>
     list_within 1 MAX_DRAFT_TASK_ITEMS valid_RenderedSentenceProposal (sentences b) \<and>
     RenderedSentenceProposalBundle_validator dump b = None"

record RenderedSentenceAuditProposal =
  sentence_ref :: string
  verdict :: AuditProvenanceVerdict
  reason :: string

definition RenderedSentenceAuditProposal_validator :: "RenderedSentenceAuditProposal \<Rightarrow> string option" where
  "RenderedSentenceAuditProposal_validator a =
     raise_if (has_canonical_numeric_id (sentence_ref a) ''RS'') ''sentence audit target must be a sentence draft local ref''
       (validate_draft_text (RenderedSentenceAuditProposal.reason a) ''rendered sentence audit reason'')"

definition valid_RenderedSentenceAuditProposal :: "RenderedSentenceAuditProposal \<Rightarrow> bool" where
  "valid_RenderedSentenceAuditProposal a \<longleftrightarrow>
     is_LocalRef (sentence_ref a) \<and> text_within 0 MAX_DRAFT_TEXT_CHARS (RenderedSentenceAuditProposal.reason a) \<and>
     RenderedSentenceAuditProposal_validator a = None"

subsection \<open>A proposal and the canonical record with the same references\<close>

definition proposition_of :: "string \<Rightarrow> PropositionProposal \<Rightarrow> PropositionRecord" where
  "proposition_of identifier p =
     \<lparr>proposition_id = identifier, PropositionRecord.text = PropositionProposal.text p,
      content_class = PropositionProposal.content_class p, PropositionRecord.claim_ids = claim_refs p,
      citation_bindings =
        map (\<lambda>b. \<lparr>CitationBinding.paper_id = CitationBindingProposal.paper_ref b,
                   CitationBinding.claim_id = CitationBindingProposal.claim_ref b,
                   CitationBinding.claim_paper_evidence_id = CitationBindingProposal.claim_paper_evidence_ref b\<rparr>)
          (PropositionProposal.citation_bindings p),
      PropositionRecord.corpus_fact_ids = corpus_fact_refs p, PropositionRecord.process_fact_ids = process_fact_refs p\<rparr>"

definition disposition_of :: "string \<Rightarrow> EvidenceCandidateDecisionProposal \<Rightarrow> RetrievalDisposition" where
  "disposition_of identifier d =
     \<lparr>RetrievalDisposition.span_id = identifier, RetrievalDisposition.status = EvidenceCandidateDecisionProposal.status d,
      RetrievalDisposition.reason = EvidenceCandidateDecisionProposal.reason d,
      canonical_span_id = canonical_span_ref d\<rparr>"

lemma raise_if_cong_None: "(a \<longleftrightarrow> b) \<Longrightarrow> (r = None \<longleftrightarrow> s = None) \<Longrightarrow> raise_if a m r = None \<longleftrightarrow> raise_if b n s = None"
  by simp

lemma proposal_provenance_agrees:
  "proposal_provenance_check p = None \<longleftrightarrow> PropositionRecord_validator (proposition_of identifier p) = None"
  by (cases "PropositionProposal.content_class p")
     (simp_all add: proposal_provenance_check_def PropositionRecord_validator_def proposition_of_def Let_def image_image)

lemma evidence_decision_agrees:
  assumes "EvidenceCandidateDecisionProposal.status d \<in> set AssessEvidenceDisposition"
  shows "EvidenceCandidateDecisionProposal_validator d = None \<longleftrightarrow>
    RetrievalDisposition_validator (disposition_of identifier d) = None \<and>
    (evidence d \<noteq> None \<longleftrightarrow> EvidenceCandidateDecisionProposal.status d = RetrievalDispositionStatus.ASSESSED)"
  using assms
  by (cases "EvidenceCandidateDecisionProposal.status d")
     (auto simp: EvidenceCandidateDecisionProposal_validator_def RetrievalDisposition_validator_def disposition_of_def
        AssessEvidenceDisposition_def Let_def)

text \<open>
  What an engine may propose is what the canonical records accept. A proposition draft passes its
  validator exactly when its reference is not a canonical ID, its text fits the byte budget, its
  references and citations are free of duplicates, and the canonical record with these references
  passes the canonical validator; and a decision on a retrieval candidate passes exactly when the
  canonical disposition it becomes does and it carries evidence exactly for an assessed candidate.
\<close>

theorem proposal_contracts_agree:
  assumes "EvidenceCandidateDecisionProposal.status d \<in> set AssessEvidenceDisposition"
  shows "(PropositionProposal_validator p = None \<longleftrightarrow>
       \<not> has_canonical_numeric_id (PropositionProposal.local_ref p) ''PR'' \<and>
       length (PropositionProposal.text p) \<le> MAX_DRAFT_TEXT_UTF8_BYTES \<and>
       distinct (claim_refs p) \<and> distinct (corpus_fact_refs p) \<and> distinct (process_fact_refs p) \<and>
       distinct (PropositionProposal.citation_bindings p) \<and>
       PropositionRecord_validator (proposition_of identifier p) = None) \<and>
    (EvidenceCandidateDecisionProposal_validator d = None \<longleftrightarrow>
       RetrievalDisposition_validator (disposition_of identifier d) = None \<and>
       (evidence d \<noteq> None \<longleftrightarrow> EvidenceCandidateDecisionProposal.status d = RetrievalDispositionStatus.ASSESSED))"
proof (rule conjI)
  let ?key = "\<lambda>b :: CitationBindingProposal. (CitationBindingProposal.paper_ref b, CitationBindingProposal.claim_ref b,
    CitationBindingProposal.claim_paper_evidence_ref b)"
  have "inj ?key"
  proof (rule injI)
    fix b b' :: CitationBindingProposal assume "?key b = ?key b'"
    then show "b = b'" by (cases b; cases b') simp
  qed
  then have d: "distinct (map ?key bs) \<longleftrightarrow> distinct bs" for bs
    by (auto simp: distinct_map intro: inj_on_subset)
  show "PropositionProposal_validator p = None \<longleftrightarrow>
       \<not> has_canonical_numeric_id (PropositionProposal.local_ref p) ''PR'' \<and>
       length (PropositionProposal.text p) \<le> MAX_DRAFT_TEXT_UTF8_BYTES \<and>
       distinct (claim_refs p) \<and> distinct (corpus_fact_refs p) \<and> distinct (process_fact_refs p) \<and>
       distinct (PropositionProposal.citation_bindings p) \<and>
       PropositionRecord_validator (proposition_of identifier p) = None"
    unfolding PropositionProposal_validator_def
    by (simp only: raise_if_None and_then_None validate_unique_None validate_draft_text_None d
        proposal_provenance_agrees [of p "identifier"])
qed (rule evidence_decision_agrees [OF assms])

definition sample_decision :: EvidenceCandidateDecisionProposal where
  "sample_decision = \<lparr>candidate_ref = ''sha256:'', status = RetrievalDispositionStatus.REDUNDANT,
     reason = Some ''same cohort'', canonical_span_ref = None, evidence = None\<rparr>"

definition sample_draft :: PropositionProposal where
  "sample_draft = \<lparr>PropositionProposal.local_ref = ''p1'', PropositionProposal.text = ''Forty papers were screened.'',
     PropositionProposal.content_class = PropositionContentClass.CORPUS_FACT, claim_refs = [],
     PropositionProposal.citation_bindings = [], corpus_fact_refs = [''CF0001''], process_fact_refs = []\<rparr>"

theorem proposal_contracts_agree_witness:
  "PropositionProposal_validator sample_draft = None \<and>
   PropositionRecord_validator (proposition_of ''PR0001'' sample_draft) = None \<and>
   RetrievalDisposition_validator (disposition_of ''R0001'' sample_decision) = None"
proof -
  have s: "EvidenceCandidateDecisionProposal.status sample_decision \<in> set AssessEvidenceDisposition"
    by (simp add: sample_decision_def AssessEvidenceDisposition_def)
  have "PropositionProposal_validator sample_draft = None"
    by (simp add: PropositionProposal_validator_def sample_draft_def has_canonical_numeric_id_def starts_with_def
        proposal_provenance_check_def dto_limits Let_def)
  moreover have "EvidenceCandidateDecisionProposal_validator sample_decision = None"
    by (simp add: sample_decision_def EvidenceCandidateDecisionProposal_validator_def absent_def)
  ultimately show ?thesis
    using proposal_contracts_agree [OF s, of sample_draft "''PR0001''"] proposal_contracts_agree [OF s, of sample_draft "''R0001''"]
    by simp
qed

end
