(* ===== verification/VR_Promotion.thy ===== *)
theory VR_Promotion
  imports VR_Bundles
begin

section \<open>Validation of proposals against the repository (\<open>runtime/promotion.py\<close>)\<close>

text \<open>
  The checks that run before a proposal may be promoted. A function that raises is modelled by the
  exception it raises, if any: a \<open>ProposalValidationError\<close> with its message (which makes the runtime
  try the next engine), an \<open>AssertionError\<close>, or another exception. The text that pydantic wraps
  around a failed construction is not modelled, only the message of the model validator.

  The tokenisation of retrieval queries uses two tables of the Unicode standard, the characters
  of the class \<open>[^\W_]\<close> and the case folding: these are the parameters \<open>word\<close> and \<open>casefold\<close>, and
  everything proved holds for any tables.
\<close>

datatype ProposalFailure =
    ProposalValidationError string
  | AssertionError
  | Raised string

definition reject_if :: "bool \<Rightarrow> string \<Rightarrow> ProposalFailure option \<Rightarrow> ProposalFailure option" where
  "reject_if b msg rest = (if b then Some (ProposalValidationError msg) else rest)"

lemma reject_if_None [simp]: "reject_if b msg rest = None \<longleftrightarrow> \<not> b \<and> rest = None"
  by (simp add: reject_if_def)

datatype Invocation =
    QueriesInvocation GenerateRetrievalQueriesInvocation
  | FinalClaimInvocation ValidateFinalClaimInvocation
  | OtherInvocation

subsection \<open>Retrieval terms\<close>

text \<open>The code points of a UTF-8 byte string.\<close>

function utf8_decode :: "nat list \<Rightarrow> nat list" where
  "utf8_decode [] = []"
| "utf8_decode (b # bs) =
     (let n = (if b < 192 then 0 else if b < 224 then 1 else if b < 240 then 2 else 3);
          lead = (if b < 192 then b else if b < 224 then b - 192 else if b < 240 then b - 224 else b - 240) in
      foldl (\<lambda>cp c. cp * 64 + (c - 128)) lead (take n bs) # utf8_decode (drop n bs))"
  by pat_completeness auto
termination by (relation "measure length") auto

text \<open>\<open>re.findall(r"[^\W_]+", text)\<close>: the maximal runs of word characters.\<close>

function word_runs :: "(nat \<Rightarrow> bool) \<Rightarrow> nat list \<Rightarrow> nat list list" where
  "word_runs word [] = []"
| "word_runs word (c # cs) =
     (if word c then (c # takeWhile word cs) # word_runs word (dropWhile word cs) else word_runs word cs)"
  by pat_completeness auto
termination by (relation "measure (\<lambda>(_, cs). length cs)") (auto simp: le_imp_less_Suc length_dropWhile_le)

definition MAX_DETERMINISTIC_RETRIEVAL_TERMS :: nat where "MAX_DETERMINISTIC_RETRIEVAL_TERMS = 64"

definition deterministic_retrieval_terms ::
  "(nat \<Rightarrow> bool) \<Rightarrow> (nat list \<Rightarrow> nat list) \<Rightarrow> string \<Rightarrow> nat list list" where
  "deterministic_retrieval_terms word casefold query =
     (let terms = map casefold (word_runs word (utf8_decode (map of_char query))) in
      take MAX_DETERMINISTIC_RETRIEVAL_TERMS (fromkeys (filter (\<lambda>t. 2 < length t) terms)))"

subsection \<open>Discovery bundles\<close>

definition bundle_refs :: "DiscoveryProposalBundle \<Rightarrow> string list" where
  "bundle_refs b =
     map ThemeProposal.local_ref (DiscoveryProposalBundle.themes b) @ map CandidateClaimProposal.local_ref (claims b)"

definition unique_local_refs :: "DiscoveryProposalBundle \<Rightarrow> ProposalFailure option" where
  "unique_local_refs b =
     reject_if (\<not> distinct (bundle_refs b)) ''local_ref must be unique within proposal bundle'' None"

definition allowed_themes :: "DiscoveryProposalBundle \<Rightarrow> RepositorySnapshot \<Rightarrow> string set" where
  "allowed_themes b R =
     ThemeProposal.local_ref ` set (DiscoveryProposalBundle.themes b) \<union>
     ThemeRecord.theme_id ` set (RepositorySnapshot.themes R)"

definition parent_by_ref :: "DiscoveryProposalBundle \<Rightarrow> (string \<times> string) list" where
  "parent_by_ref b =
     concat (map (\<lambda>t. case parent_ref t of
         None \<Rightarrow> []
       | Some p \<Rightarrow> if p \<in> set (bundle_refs b) then [(ThemeProposal.local_ref t, p)] else [])
       (DiscoveryProposalBundle.themes b))"

definition validate_discovery :: "DiscoveryProposalBundle \<Rightarrow> RepositorySnapshot \<Rightarrow> ProposalFailure option" where
  "validate_discovery b R =
     (let allowed = allowed_themes b R; edges = parent_by_ref b in
      and_then (unique_local_refs b)
     (and_then (first_error (\<lambda>t. case parent_ref t of
           None \<Rightarrow> None
         | Some p \<Rightarrow> reject_if (p \<notin> allowed) (''unknown local or canonical parent_ref '' @ p) None)
         (DiscoveryProposalBundle.themes b))
     (and_then (first_error (\<lambda>c. reject_if (theme_ref c \<notin> allowed)
           (''unknown local or canonical theme_ref '' @ theme_ref c) None) (claims b))
       (first_error (\<lambda>start. reject_if (chase edges {} start) ''proposal-local theme hierarchy is cyclic'' None)
          (map fst edges)))))"

subsection \<open>Retrieval queries\<close>

definition REQUIRED_RETRIEVAL_INTENTS :: "RetrievalIntent list" where
  "REQUIRED_RETRIEVAL_INTENTS =
     [RetrievalIntent.SUPPORT, RetrievalIntent.CONTRADICTION, RetrievalIntent.BOUNDARY, RetrievalIntent.ALTERNATIVE]"

definition all_intents :: "RetrievalIntent list" where
  "all_intents =
     [RetrievalIntent.SUPPORT, RetrievalIntent.CONTRADICTION, RetrievalIntent.BOUNDARY, RetrievalIntent.ALTERNATIVE,
      RetrievalIntent.METHOD_CHALLENGE, RetrievalIntent.NULL_RESULT]"

definition scoped_claims :: "string list option \<Rightarrow> string list option" where
  "scoped_claims dependency_keys =
     map_option (\<lambda>keys. fromkeys (map (removeprefix ''CandidateClaim:'') (filter (starts_with ''CandidateClaim:'') keys)))
       dependency_keys"

text \<open>The loop over the proposed queries.\<close>

definition query_text_issue ::
  "(nat \<Rightarrow> bool) \<Rightarrow> (nat list \<Rightarrow> nat list) \<Rightarrow> RepositorySnapshot \<Rightarrow> string list option
    \<Rightarrow> RetrievalQueryProposal \<Rightarrow> ProposalFailure option" where
  "query_text_issue word casefold R scope q =
     (let txt = RetrievalQueryProposal.query_text q; cref = RetrievalQueryProposal.claim_ref q in
      reject_if (MAX_RETRIEVAL_QUERY_CHARS < utf8_length txt \<or> MAX_RETRIEVAL_QUERY_UTF8_BYTES < length txt)
        ''retrieval query exceeds its deterministic text budget''
     (reject_if (deterministic_retrieval_terms word casefold txt = [])
        ''retrieval query has no usable deterministic retrieval terms''
     (reject_if (cref \<notin> CandidateClaim.claim_id ` set (candidate_claims R)) (''unknown claim_ref '' @ cref)
     (reject_if (\<not> opt_all (\<lambda>cs. cref \<in> set cs) scope)
        (''claim_ref '' @ cref @ '' is outside the task dependency scope'') None))))"

definition accepted_issue :: "RepositorySnapshot \<Rightarrow> string strdict \<Rightarrow> RetrievalQueryProposal \<Rightarrow> ProposalFailure option" where
  "accepted_issue R accepted q =
     (case map_of accepted (RetrievalQueryProposal.local_ref q) of
        None \<Rightarrow> None
      | Some accepted_id \<Rightarrow>
          (let msg = ''accepted allocation for '' @ RetrievalQueryProposal.local_ref q @
                     '' does not match its canonical RetrievalQuery'' in
           case by_last RetrievalQuery.query_id (retrieval_queries R) accepted_id of
             None \<Rightarrow> Some (ProposalValidationError msg)
           | Some canonical \<Rightarrow>
               reject_if (RetrievalQuery.claim_id canonical \<noteq> RetrievalQueryProposal.claim_ref q \<or>
                   RetrievalQuery.intent canonical \<noteq> RetrievalQueryProposal.intent q \<or>
                   RetrievalQuery.query_text canonical \<noteq> RetrievalQueryProposal.query_text q) msg None))"

definition pending_queries :: "string strdict \<Rightarrow> RetrievalQueryProposal list \<Rightarrow> RetrievalQueryProposal list" where
  "pending_queries accepted qs = filter (\<lambda>q. map_of accepted (RetrievalQueryProposal.local_ref q) = None) qs"

text \<open>The highest ordinals, from the canonical queries and from the registry.\<close>

type_synonym ordinals = "((string \<times> string) \<times> int) list"

definition raise_ordinal :: "string \<times> string \<Rightarrow> int \<Rightarrow> ordinals \<Rightarrow> ordinals" where
  "raise_ordinal key ordinal d = AList.update key (max (dict_get d key 0) ordinal) d"

fun scan_queries :: "RetrievalQuery list \<Rightarrow> ordinals \<Rightarrow> ProposalFailure + ordinals" where
  "scan_queries [] d = Inr d"
| "scan_queries (existing # qs) d =
     (case parse_query_id (RetrievalQuery.query_id existing) of
        Inl e \<Rightarrow> Inl (Raised e)
      | Inr (cid, intention, ordinal) \<Rightarrow> scan_queries qs (raise_ordinal (cid, intention) (int ordinal) d))"

text \<open>\<open>registry_key.split(":", 1)\<close>.\<close>

definition split_colon :: "string \<Rightarrow> (string \<times> string) option" where
  "split_colon key =
     (let rest = dropWhile (\<lambda>c. c \<noteq> CHR '':'') key in
      if rest = [] then None else Some (takeWhile (\<lambda>c. c \<noteq> CHR '':'') key, tl rest))"

fun scan_registry :: "(string \<times> int) list \<Rightarrow> ordinals \<Rightarrow> ProposalFailure + ordinals" where
  "scan_registry [] d = Inr d"
| "scan_registry ((key, ordinal) # items) d =
     (case split_colon key of
        None \<Rightarrow> Inl (Raised ''not enough values to unpack'')
      | Some (cid, tag) \<Rightarrow>
          (case map_of QUERY_INTENT_CODES tag of
             None \<Rightarrow> Inl (Raised tag)
           | Some intention \<Rightarrow> scan_registry items (raise_ordinal (cid, intention) ordinal d)))"

definition current_ordinals :: "RepositorySnapshot \<Rightarrow> CanonicalIdRegistry option \<Rightarrow> ProposalFailure + ordinals" where
  "current_ordinals R registry =
     (case scan_queries (retrieval_queries R) [] of
        Inl e \<Rightarrow> Inl e
      | Inr d \<Rightarrow> (case registry of None \<Rightarrow> Inr d | Some r \<Rightarrow> scan_registry (query_ordinals r) d))"

definition query_key :: "RetrievalQueryProposal \<Rightarrow> string \<times> string" where
  "query_key q = (RetrievalQueryProposal.claim_ref q, RetrievalIntent_value (RetrievalQueryProposal.intent q))"

definition capacity_issue :: "ordinals \<Rightarrow> string list \<Rightarrow> RetrievalQueryProposal list \<Rightarrow> ProposalFailure option" where
  "capacity_issue d capacity_claims pending =
     (let total = sum_list (map (\<lambda>cid. sum_list (map (\<lambda>i. 99 - dict_get d (cid, RetrievalIntent_value i) 0) all_intents))
                    capacity_claims) in
      reject_if (total < int (length pending))
        ''retrieval-query proposal exceeds the total remaining canonical ordinal capacity for its dependency scope''
        (first_error (\<lambda>(cid, intention).
           reject_if (99 - dict_get d (cid, intention) 0 < int (length (filter (\<lambda>q. query_key q = (cid, intention)) pending)))
             (''retrieval-query proposal exceeds remaining canonical ordinal capacity for '' @ cid @ ''/'' @ intention) None)
           (fromkeys (map query_key pending))))"

definition missing_intents :: "RetrievalQueryProposal list \<Rightarrow> string \<Rightarrow> RetrievalIntent list" where
  "missing_intents qs cid =
     filter (\<lambda>i. \<not> list_ex (\<lambda>q. RetrievalQueryProposal.claim_ref q = cid \<and> RetrievalQueryProposal.intent q = i) qs)
       REQUIRED_RETRIEVAL_INTENTS"

definition invocation_issue :: "RetrievalQueryProposal list \<Rightarrow> Invocation option \<Rightarrow> ProposalFailure option" where
  "invocation_issue qs invocation =
     (case invocation of
        None \<Rightarrow> None
      | Some (QueriesInvocation i) \<Rightarrow>
          (let missing = filter (\<lambda>cid. missing_intents qs cid \<noteq> []) (sort (fromkeys (GenerateRetrievalQueriesInvocation.claim_ids i)));
               detail = join_with ''; '' (map (\<lambda>cid. cid @ '': '' @
                 join_with '','' (sort (map RetrievalIntent_value (missing_intents qs cid)))) missing) in
           reject_if (missing \<noteq> [])
             (''retrieval-query proposal is missing required intents for invoked claims ('' @ detail @ '')'') None)
      | Some _ \<Rightarrow> Some (ProposalValidationError ''retrieval-query validation received the wrong invocation context''))"

definition validate_retrieval_queries ::
  "(nat \<Rightarrow> bool) \<Rightarrow> (nat list \<Rightarrow> nat list) \<Rightarrow> RetrievalQueryProposalBundle \<Rightarrow> RepositorySnapshot \<Rightarrow> string list option
    \<Rightarrow> CanonicalIdRegistry option \<Rightarrow> string strdict option \<Rightarrow> Invocation option \<Rightarrow> ProposalFailure option" where
  "validate_retrieval_queries word casefold b R dependency_keys registry accepted_allocations invocation =
     (let qs = queries b; scope = scoped_claims dependency_keys;
          accepted = (case accepted_allocations of None \<Rightarrow> [] | Some d \<Rightarrow> d) in
      and_then (reject_if (\<not> distinct (map RetrievalQueryProposal.local_ref qs))
                  ''local_ref must be unique within retrieval-query proposal bundle'' None)
     (and_then (first_error (query_text_issue word casefold R scope) qs)
     (and_then (first_error (accepted_issue R accepted) qs)
       (case current_ordinals R registry of
          Inl e \<Rightarrow> Some e
        | Inr d \<Rightarrow>
            and_then (capacity_issue d
                (case scope of Some cs \<Rightarrow> cs | None \<Rightarrow> fromkeys (map CandidateClaim.claim_id (candidate_claims R)))
                (pending_queries accepted qs))
              (invocation_issue qs invocation)))))"

subsection \<open>Canonical records from proposals\<close>

definition require_dependency_scope :: "string list option \<Rightarrow> string \<Rightarrow> string \<Rightarrow> ProposalFailure option" where
  "require_dependency_scope dependency_keys dependency what =
     reject_if (\<not> opt_all (\<lambda>keys. dependency \<in> set keys) dependency_keys)
       (what @ '' is outside the task dependency scope'') None"

text \<open>Constructing a record: the field constraints, then the validator.\<close>

definition construct :: "string \<Rightarrow> ('a \<Rightarrow> bool) \<Rightarrow> ('a \<Rightarrow> string option) \<Rightarrow> 'a \<Rightarrow> string + 'a" where
  "construct name valid validator x =
     (if valid x then Inr x
      else Inl (case validator x of Some e \<Rightarrow> e | None \<Rightarrow> name @ '' field constraint''))"

lemma construct_Inr [simp]: "construct name valid validator x = Inr y \<longleftrightarrow> valid x \<and> y = x"
  by (auto simp: construct_def)

definition claim_paper_evidence_from_proposal :: "ClaimPaperEvidenceProposal \<Rightarrow> string + ClaimPaperEvidence" where
  "claim_paper_evidence_from_proposal p =
     (case allocate_cpe_id (ClaimPaperEvidenceProposal.claim_ref p) (ClaimPaperEvidenceProposal.paper_ref p) of
        Inl (ValueError e) \<Rightarrow> Inl e
      | Inl (OverflowError e) \<Rightarrow> Inl e
      | Inr cpe_id \<Rightarrow>
          construct ''ClaimPaperEvidence'' valid_ClaimPaperEvidence ClaimPaperEvidence_validator
            \<lparr>ClaimPaperEvidence.claim_paper_evidence_id = cpe_id,
             ClaimPaperEvidence.claim_id = ClaimPaperEvidenceProposal.claim_ref p,
             ClaimPaperEvidence.paper_id = ClaimPaperEvidenceProposal.paper_ref p,
             ClaimPaperEvidence.evidence_ids = evidence_refs p,
             ClaimPaperEvidence.relation_to_candidate = ClaimPaperEvidenceProposal.relation_to_candidate p,
             ClaimPaperEvidence.component_relations = ClaimPaperEvidenceProposal.component_relations p,
             ClaimPaperEvidence.strength = ClaimPaperEvidenceProposal.strength p,
             ClaimPaperEvidence.within_paper_consistency = ClaimPaperEvidenceProposal.within_paper_consistency p,
             ClaimPaperEvidence.assessment_note = ClaimPaperEvidenceProposal.assessment_note p\<rparr>)"

definition claim_assessment_from_proposal :: "ClaimAssessmentProposal \<Rightarrow> string + ClaimAssessment" where
  "claim_assessment_from_proposal p =
     construct ''ClaimAssessment'' valid_ClaimAssessment ClaimAssessment_validator
       \<lparr>ClaimAssessment.claim_id = ClaimAssessmentProposal.claim_ref p,
        ClaimAssessment.aggregate_strength = ClaimAssessmentProposal.aggregate_strength p,
        ClaimAssessment.evidence_sufficiency = ClaimAssessmentProposal.evidence_sufficiency p,
        ClaimAssessment.decision = ClaimAssessmentProposal.decision p,
        ClaimAssessment.rejection_basis = ClaimAssessmentProposal.rejection_basis p,
        ClaimAssessment.support_summary = ClaimAssessmentProposal.support_summary p,
        ClaimAssessment.contradiction_summary = ClaimAssessmentProposal.contradiction_summary p,
        ClaimAssessment.qualification_summary = ClaimAssessmentProposal.qualification_summary p,
        ClaimAssessment.reason = ClaimAssessmentProposal.reason p\<rparr>"

fun upsert_by :: "('a \<Rightarrow> 'k) \<Rightarrow> 'a list \<Rightarrow> 'a \<Rightarrow> 'a list" where
  "upsert_by key [] replacement = [replacement]"
| "upsert_by key (existing # rest) replacement =
     (if key existing \<noteq> key replacement then existing # upsert_by key rest replacement
      else if existing = replacement then existing # rest
      else replacement # rest)"

definition final_relation_of :: "FinalPaperRelationProposal \<Rightarrow> FinalPaperRelation" where
  "final_relation_of r =
     \<lparr>FinalPaperRelation.claim_paper_evidence_id = FinalPaperRelationProposal.claim_paper_evidence_ref r,
      FinalPaperRelation.paper_id = FinalPaperRelationProposal.paper_ref r,
      FinalPaperRelation.relation_to_final_claim = FinalPaperRelationProposal.relation_to_final_claim r\<rparr>"

definition final_validation_from_proposal :: "FinalClaimValidationProposal \<Rightarrow> string + FinalClaimValidation" where
  "final_validation_from_proposal p =
     construct ''FinalClaimValidation'' valid_FinalClaimValidation FinalClaimValidation_validator
       \<lparr>FinalClaimValidation.claim_id = FinalClaimValidationProposal.claim_ref p,
        FinalClaimValidation.final_claim = FinalClaimValidationProposal.final_claim p,
        FinalClaimValidation.status = FinalClaimValidationProposal.status p,
        FinalClaimValidation.paper_relations = map final_relation_of (FinalClaimValidationProposal.paper_relations p),
        FinalClaimValidation.scope_check = FinalClaimValidationProposal.scope_check p,
        FinalClaimValidation.certainty_check = FinalClaimValidationProposal.certainty_check p,
        FinalClaimValidation.causal_language_check = FinalClaimValidationProposal.causal_language_check p,
        FinalClaimValidation.numerical_claim_check = FinalClaimValidationProposal.numerical_claim_check p,
        FinalClaimValidation.notes = FinalClaimValidationProposal.notes p\<rparr>"

text \<open>\<open>next(...)\<close> without a default raises \<open>StopIteration\<close> when nothing is found.\<close>

datatype PacketFailure = StopIteration | PacketValueError string

definition claim_packet_for_validation ::
  "RepositorySnapshot \<Rightarrow> FinalClaimValidation \<Rightarrow> PacketFailure + ClaimPacket option" where
  "claim_packet_for_validation R validation =
     (if FinalClaimValidation.status validation \<noteq> FinalClaimStatus.VALID then Inr None
      else
        (let cid = FinalClaimValidation.claim_id validation in
         case (first_by CandidateClaim.claim_id (candidate_claims R) cid,
               first_by ClaimAssessment.claim_id (claim_assessments R) cid) of
           (Some claim, Some assessment) \<Rightarrow>
             (let cpe_ids = sort (map ClaimPaperEvidence.claim_paper_evidence_id
                    (filter (\<lambda>cpe. ClaimPaperEvidence.claim_id cpe = cid) (claim_paper_evidence R))) in
              case construct ''ClaimPacket'' valid_ClaimPacket (\<lambda>_. None)
                \<lparr>ClaimPacket.claim_id = CandidateClaim.claim_id claim,
                 ClaimPacket.theme_id = CandidateClaim.theme_id claim,
                 ClaimPacket.candidate_claim = CandidateClaim.candidate_claim claim,
                 ClaimPacket.final_claim = FinalClaimValidation.final_claim validation,
                 ClaimPacket.aggregate_strength = ClaimAssessment.aggregate_strength assessment,
                 ClaimPacket.claim_paper_evidence_ids = cpe_ids\<rparr> of
                Inl e \<Rightarrow> Inl (PacketValueError e)
              | Inr packet \<Rightarrow> Inr (Some packet))
         | _ \<Rightarrow> Inl StopIteration))"

end
