(* ===== verification/VR_Promote.thy ===== *)
theory VR_Promote
  imports VR_Promotion
begin

section \<open>Validation of claim proposals, promotion and disposition (\<open>runtime/promotion.py\<close>)\<close>

text \<open>
  The second half of the module: the validators of claim-paper evidence and of final claims,
  the dispatch \<open>validate_proposal\<close>, the promotion handlers, which turn an accepted proposal into
  canonical records of a new snapshot, and the interpretation of a proposal as a transition.
\<close>

subsection \<open>Claim-paper evidence\<close>

definition evidence_ref_issue :: "RepositorySnapshot \<Rightarrow> string list option \<Rightarrow> string \<Rightarrow> ProposalFailure option" where
  "evidence_ref_issue R dependency_keys eref =
     reject_if (by_last evidence_id (evidence_records R) eref = None) (''unknown evidence_ref '' @ eref)
       (require_dependency_scope dependency_keys (''EvidenceRecord:'' @ eref) (''evidence_ref '' @ eref))"

definition component_issue :: "RepositorySnapshot \<Rightarrow> EvidenceRelation \<times> string list \<Rightarrow> ProposalFailure option" where
  "component_issue R entry =
     (let (relation, refs) = entry in
      first_error (\<lambda>eref. case by_last evidence_id (evidence_records R) eref of
          None \<Rightarrow> Some (Raised eref)
        | Some e \<Rightarrow>
            reject_if (EvidenceRecord.relation_to_candidate e \<noteq> relation)
              (''component relation for '' @ eref @ '' is '' @ EvidenceRelation_value relation @
               '', but the EvidenceRecord relation is '' @ EvidenceRelation_value (EvidenceRecord.relation_to_candidate e)) None)
        refs)"

definition complete_evidence_refs :: "RepositorySnapshot \<Rightarrow> string \<Rightarrow> string \<Rightarrow> string set" where
  "complete_evidence_refs R cid pid =
     evidence_id ` {e \<in> set (evidence_records R). EvidenceRecord.claim_id e = cid \<and> EvidenceRecord.paper_id e = pid}"

definition evidence_change_issue :: "RepositorySnapshot \<Rightarrow> ClaimPaperEvidence \<Rightarrow> ProposalFailure option" where
  "evidence_change_issue R aggregate =
     reject_if
       (ClaimPaperEvidence.claim_id aggregate \<in> ClaimAssessment.claim_id ` set (claim_assessments R) \<and>
        first_by ClaimPaperEvidence.claim_paper_evidence_id (claim_paper_evidence R)
          (ClaimPaperEvidence.claim_paper_evidence_id aggregate) \<noteq> Some aggregate)
       ''cannot add or change claim-paper evidence after ClaimAssessment exists for the claim'' None"

definition validate_claim_paper_evidence ::
  "ClaimPaperEvidenceProposal \<Rightarrow> RepositorySnapshot \<Rightarrow> string list option \<Rightarrow> ProposalFailure option" where
  "validate_claim_paper_evidence p R dependency_keys =
     (let cref = ClaimPaperEvidenceProposal.claim_ref p; pref = ClaimPaperEvidenceProposal.paper_ref p;
          refs = evidence_refs p; groups = grouped (ClaimPaperEvidenceProposal.component_relations p);
          grouped_refs = concat (map snd groups) in
      reject_if (cref \<notin> CandidateClaim.claim_id ` set (candidate_claims R)) (''unknown claim_ref '' @ cref)
     (reject_if (pref \<notin> Paper.paper_id ` set (papers R)) (''unknown paper_ref '' @ pref)
     (and_then (require_dependency_scope dependency_keys (''CandidateClaim:'' @ cref) (''claim_ref '' @ cref))
     (and_then (require_dependency_scope dependency_keys (''Paper:'' @ pref) (''paper_ref '' @ pref))
     (reject_if (\<not> distinct refs) ''evidence_refs must not contain duplicates''
     (and_then (first_error (evidence_ref_issue R dependency_keys) refs)
     (reject_if (set refs \<noteq> complete_evidence_refs R cref pref)
        ''evidence_refs must exactly equal all current EvidenceRecord IDs for the proposal claim and paper''
     (reject_if (\<not> distinct grouped_refs) ''each evidence_ref must occur in exactly one component relation''
     (reject_if (set grouped_refs \<noteq> set refs) ''component relation union must exactly equal evidence_refs''
     (and_then (first_error (component_issue R) groups)
       (case claim_paper_evidence_from_proposal p of
          Inl e \<Rightarrow> Some (ProposalValidationError e)
        | Inr aggregate \<Rightarrow> evidence_change_issue R aggregate)))))))))))"

subsection \<open>Final claims\<close>

definition final_invocation_issue :: "FinalClaimValidationProposal \<Rightarrow> Invocation option \<Rightarrow> ProposalFailure option" where
  "final_invocation_issue p invocation =
     (case invocation of
        None \<Rightarrow> None
      | Some (FinalClaimInvocation i) \<Rightarrow>
          reject_if (FinalClaimValidationProposal.claim_ref p \<noteq> ValidateFinalClaimInvocation.claim_id i)
            (''claim_ref '' @ FinalClaimValidationProposal.claim_ref p @ '' does not match invocation claim_id '' @
             ValidateFinalClaimInvocation.claim_id i)
         (reject_if (FinalClaimValidationProposal.final_claim p \<noteq> proposed_final_claim i)
            ''final_claim must exactly equal the invocation proposed_final_claim'' None)
      | Some _ \<Rightarrow> Some (ProposalValidationError ''final-claim validation received the wrong invocation context''))"

definition final_relation_issue ::
  "RepositorySnapshot \<Rightarrow> string list option \<Rightarrow> string \<Rightarrow> FinalPaperRelationProposal \<Rightarrow> ProposalFailure option" where
  "final_relation_issue R dependency_keys cref relation =
     (let kref = FinalPaperRelationProposal.claim_paper_evidence_ref relation; pref = FinalPaperRelationProposal.paper_ref relation in
      case by_last ClaimPaperEvidence.claim_paper_evidence_id (claim_paper_evidence R) kref of
        None \<Rightarrow> Some (ProposalValidationError (''unknown claim_paper_evidence_ref '' @ kref))
      | Some cpe \<Rightarrow>
          and_then (require_dependency_scope dependency_keys (''ClaimPaperEvidence:'' @ kref)
                      (''claim_paper_evidence_ref '' @ kref))
         (reject_if (ClaimPaperEvidence.claim_id cpe \<noteq> cref)
            (''CPE '' @ ClaimPaperEvidence.claim_paper_evidence_id cpe @ '' belongs to '' @
             ClaimPaperEvidence.claim_id cpe @ '', not '' @ cref)
         (reject_if (ClaimPaperEvidence.paper_id cpe \<noteq> pref)
            (''paper_ref '' @ pref @ '' does not match CPE '' @ ClaimPaperEvidence.claim_paper_evidence_id cpe @
             '' paper '' @ ClaimPaperEvidence.paper_id cpe) None)))"

definition cited_in_propositions :: "RepositorySnapshot \<Rightarrow> string \<Rightarrow> bool" where
  "cited_in_propositions R cref =
     list_ex (\<lambda>proposition. cref \<in> set (PropositionRecord.claim_ids proposition) \<or>
        list_ex (\<lambda>b. CitationBinding.claim_id b = cref) (PropositionRecord.citation_bindings proposition)) (proposition_records R)"

definition final_change_issue ::
  "RepositorySnapshot \<Rightarrow> string \<Rightarrow> FinalClaimValidation \<Rightarrow> ClaimPacket option \<Rightarrow> ProposalFailure option" where
  "final_change_issue R cref validation packet =
     reject_if
       (cited_in_propositions R cref \<and>
        (first_by FinalClaimValidation.claim_id (final_claim_validations R) cref \<noteq> Some validation \<or>
         first_by ClaimPacket.claim_id (claim_packets R) cref \<noteq> packet))
       ''cannot change final claim validation while canonical proposition descendants exist'' None"

definition validate_final_claim ::
  "FinalClaimValidationProposal \<Rightarrow> RepositorySnapshot \<Rightarrow> string list option \<Rightarrow> Invocation option
    \<Rightarrow> ProposalFailure option" where
  "validate_final_claim p R dependency_keys invocation =
     (let cref = FinalClaimValidationProposal.claim_ref p;
          relations = FinalClaimValidationProposal.paper_relations p;
          refs = map FinalPaperRelationProposal.claim_paper_evidence_ref relations in
      and_then (final_invocation_issue p invocation)
     (reject_if (cref \<notin> CandidateClaim.claim_id ` set (candidate_claims R)) (''unknown claim_ref '' @ cref)
       (case first_by ClaimAssessment.claim_id (claim_assessments R) cref of
          None \<Rightarrow> Some (ProposalValidationError (''ClaimAssessment for '' @ cref @ '' does not exist''))
        | Some assessment \<Rightarrow>
            and_then (require_dependency_scope dependency_keys (''CandidateClaim:'' @ cref) (''claim_ref '' @ cref))
           (and_then (require_dependency_scope dependency_keys (''ClaimAssessment:'' @ cref) (''ClaimAssessment for '' @ cref))
           (reject_if (\<not> distinct refs) ''each CPE may occur only once in final paper relations''
           (and_then (first_error (final_relation_issue R dependency_keys cref) relations)
           (reject_if (set refs \<noteq> claim_cpes (claim_paper_evidence R) cref)
              ''paper_relations must exactly cover every current CPE for the claim''
           (reject_if (FinalClaimValidationProposal.status p = FinalClaimStatus.VALID \<and>
                       ClaimAssessment.decision assessment = ClaimDecision.REJECT)
              ''a rejected ClaimAssessment cannot yield a VALID final claim''
             (case final_validation_from_proposal p of
                Inl e \<Rightarrow> Some (ProposalValidationError e)
              | Inr validation \<Rightarrow>
                  (case claim_packet_for_validation R validation of
                     Inl (PacketValueError e) \<Rightarrow> Some (ProposalValidationError e)
                   | Inl StopIteration \<Rightarrow> Some (Raised ''StopIteration'')
                   | Inr packet \<Rightarrow> final_change_issue R cref validation packet))))))))))"

subsection \<open>Claim assessments and semantic audits, dispatch\<close>

definition has_claim_descendants :: "RepositorySnapshot \<Rightarrow> string \<Rightarrow> bool" where
  "has_claim_descendants R cref \<longleftrightarrow>
     cref \<in> FinalClaimValidation.claim_id ` set (final_claim_validations R) \<or>
     cref \<in> ClaimPacket.claim_id ` set (claim_packets R) \<or> cited_in_propositions R cref"

definition validate_claim_assessment ::
  "ClaimAssessmentProposal \<Rightarrow> RepositorySnapshot \<Rightarrow> string list option \<Rightarrow> ProposalFailure option" where
  "validate_claim_assessment p R dependency_keys =
     (let cref = ClaimAssessmentProposal.claim_ref p in
      reject_if (cref \<notin> CandidateClaim.claim_id ` set (candidate_claims R)) (''unknown claim_ref '' @ cref)
     (and_then (require_dependency_scope dependency_keys (''CandidateClaim:'' @ cref) (''claim_ref '' @ cref))
       (case claim_assessment_from_proposal p of
          Inl e \<Rightarrow> Some (Raised e)
        | Inr proposed \<Rightarrow>
            reject_if (has_claim_descendants R cref \<and>
                first_by ClaimAssessment.claim_id (claim_assessments R) cref \<noteq> Some proposed)
              ''cannot change ClaimAssessment while canonical claim descendants exist'' None)))"

definition validate_semantic_audit ::
  "SemanticAuditProposal \<Rightarrow> RepositorySnapshot \<Rightarrow> string list option \<Rightarrow> ProposalFailure option" where
  "validate_semantic_audit p R dependency_keys =
     (case first_by proposition_id (proposition_records R) (SemanticAuditProposal.target_ref p) of
        None \<Rightarrow> Some (ProposalValidationError (''unknown proposition target '' @ SemanticAuditProposal.target_ref p))
      | Some target \<Rightarrow>
          reject_if (set (referenced_claim_refs p) \<noteq> set (PropositionRecord.claim_ids target) \<or>
              set (referenced_corpus_fact_refs p) \<noteq> set (PropositionRecord.corpus_fact_ids target) \<or>
              set (referenced_process_fact_refs p) \<noteq> set (PropositionRecord.process_fact_ids target))
            ''semantic audit proposal does not cover complete target provenance''
           (require_dependency_scope dependency_keys (''PropositionRecord:'' @ SemanticAuditProposal.target_ref p)
              (''proposition target '' @ SemanticAuditProposal.target_ref p)))"

datatype Proposal =
    DiscoveryBundle DiscoveryProposalBundle
  | QueryBundle RetrievalQueryProposalBundle
  | CpeProposal ClaimPaperEvidenceProposal
  | AssessmentProposal ClaimAssessmentProposal
  | FinalProposal FinalClaimValidationProposal
  | AuditProposal SemanticAuditProposal
  | SentenceAuditProposal RenderedSentenceAuditProposal
  | RevisedProposal RevisedClaimProposal
  | EvidenceBundle AssessEvidenceProposalBundle
  | PropositionBundle PropositionProposalBundle
  | SentenceBundle RenderedSentenceProposalBundle

text \<open>\<open>spec.promotion_handler\<close> selects the check; a proposal of another class fails the \<open>assert\<close>.\<close>

definition validate_proposal ::
  "(nat \<Rightarrow> bool) \<Rightarrow> (nat list \<Rightarrow> nat list) \<Rightarrow> string \<Rightarrow> Proposal \<Rightarrow> RepositorySnapshot \<Rightarrow> string list option
    \<Rightarrow> Invocation option \<Rightarrow> CanonicalIdRegistry option \<Rightarrow> string strdict option \<Rightarrow> ProposalFailure option" where
  "validate_proposal word casefold handler proposal R dependency_keys invocation registry accepted_allocations =
     (if handler = ''promote_discovery'' then
        (case proposal of DiscoveryBundle b \<Rightarrow> validate_discovery b R | _ \<Rightarrow> Some (Raised ''AttributeError''))
      else if handler = ''promote_claim_assessment'' then
        (case proposal of AssessmentProposal p \<Rightarrow> validate_claim_assessment p R dependency_keys
         | _ \<Rightarrow> Some AssertionError)
      else if handler = ''promote_semantic_audit'' then
        (case proposal of AuditProposal p \<Rightarrow> validate_semantic_audit p R dependency_keys
         | _ \<Rightarrow> Some AssertionError)
      else if handler = ''promote_retrieval_queries'' then
        (case proposal of QueryBundle b \<Rightarrow>
            validate_retrieval_queries word casefold b R dependency_keys registry accepted_allocations invocation
         | _ \<Rightarrow> Some AssertionError)
      else if handler = ''promote_claim_paper_evidence'' then
        (case proposal of CpeProposal p \<Rightarrow> validate_claim_paper_evidence p R dependency_keys
         | _ \<Rightarrow> Some AssertionError)
      else if handler = ''promote_final_claim_validation'' then
        (case proposal of FinalProposal p \<Rightarrow> validate_final_claim p R dependency_keys invocation
         | _ \<Rightarrow> Some AssertionError)
      else None)"

subsection \<open>Promotion\<close>

datatype PromotionFailure =
    AllocationFailed RegistryError
  | RecordRejected string
  | MissingKey string
  | NoNext

record PromotionPayload =
  snapshot :: RepositorySnapshot
  registry :: CanonicalIdRegistry
  payload_ids :: "string strdict"

text \<open>\<open>local_map.get(ref, ref)\<close>.\<close>

definition resolve_ref :: "string strdict \<Rightarrow> string \<Rightarrow> string" where
  "resolve_ref local_map ref = dict_get local_map ref ref"

definition theme_from_proposal :: "string strdict \<Rightarrow> ThemeProposal \<times> string \<Rightarrow> string + ThemeRecord" where
  "theme_from_proposal local_map pair =
     (let (item, new_id) = pair in
      construct ''ThemeRecord'' valid_ThemeRecord (\<lambda>_. None)
        \<lparr>ThemeRecord.theme_id = new_id, ThemeRecord.title = ThemeProposal.title item,
         ThemeRecord.description = ThemeProposal.description item, ThemeRecord.origin = ThemeProposal.origin item,
         parent_theme_id = map_option (resolve_ref local_map) (parent_ref item)\<rparr>)"

definition claim_from_proposal :: "string strdict \<Rightarrow> CandidateClaimProposal \<times> string \<Rightarrow> string + CandidateClaim" where
  "claim_from_proposal local_map pair =
     (let (item, new_id) = pair in
      construct ''CandidateClaim'' valid_CandidateClaim (\<lambda>_. None)
        \<lparr>CandidateClaim.claim_id = new_id, CandidateClaim.theme_id = resolve_ref local_map (theme_ref item),
         CandidateClaim.candidate_claim = CandidateClaimProposal.candidate_claim item,
         CandidateClaim.origin = CandidateClaimProposal.origin item,
         CandidateClaim.origin_refs = CandidateClaimProposal.origin_refs item\<rparr>)"

definition allocate_for :: "IdKind \<Rightarrow> 'a list \<Rightarrow> CanonicalIdRegistry \<Rightarrow> RegistryError + string list \<times> CanonicalIdRegistry" where
  "allocate_for kind items r = (if items = [] then Inr ([], r) else allocate kind (int (length items)) r)"

definition discovery_local_map :: "DiscoveryProposalBundle \<Rightarrow> string list \<Rightarrow> string list \<Rightarrow> string strdict" where
  "discovery_local_map b tids cids =
     AList.updates (map CandidateClaimProposal.local_ref (claims b)) cids
       (AList.updates (map ThemeProposal.local_ref (DiscoveryProposalBundle.themes b)) tids [])"

definition promote_discovery ::
  "RepositorySnapshot \<Rightarrow> CanonicalIdRegistry \<Rightarrow> DiscoveryProposalBundle \<Rightarrow> PromotionFailure + PromotionPayload" where
  "promote_discovery R r b =
     (case allocate_for IdKind.THEME (DiscoveryProposalBundle.themes b) r of
        Inl e \<Rightarrow> Inl (AllocationFailed e)
      | Inr (tids, r1) \<Rightarrow>
          (case allocate_for IdKind.CLAIM (claims b) r1 of
             Inl e \<Rightarrow> Inl (AllocationFailed e)
           | Inr (cids, r2) \<Rightarrow>
               (let local_map = discovery_local_map b tids cids in
                case traverse_result (theme_from_proposal local_map) (zip (DiscoveryProposalBundle.themes b) tids) of
                  Inl e \<Rightarrow> Inl (RecordRejected e)
                | Inr new_themes \<Rightarrow>
                    (case traverse_result (claim_from_proposal local_map) (zip (claims b) cids) of
                       Inl e \<Rightarrow> Inl (RecordRejected e)
                     | Inr new_claims \<Rightarrow>
                         Inr \<lparr>snapshot = R\<lparr>RepositorySnapshot.themes := RepositorySnapshot.themes R @ new_themes,
                                           candidate_claims := candidate_claims R @ new_claims\<rparr>,
                              registry = r2, payload_ids = local_map\<rparr>))))"

fun promote_queries_loop ::
  "RepositorySnapshot \<Rightarrow> CanonicalIdRegistry \<Rightarrow> string strdict \<Rightarrow> RetrievalQueryProposal list
    \<Rightarrow> PromotionFailure + RetrievalQuery list \<times> CanonicalIdRegistry \<times> string strdict" where
  "promote_queries_loop R r local_map [] = Inr ([], r, local_map)"
| "promote_queries_loop R r local_map (item # items) =
     (case allocate_query (RetrievalQueryProposal.claim_ref item) (RetrievalQueryProposal.intent item) r of
        Inl e \<Rightarrow> Inl (AllocationFailed e)
      | Inr (qid, r1) \<Rightarrow>
          (case by_last CandidateClaim.claim_id (candidate_claims R) (RetrievalQueryProposal.claim_ref item) of
             None \<Rightarrow> Inl (MissingKey (RetrievalQueryProposal.claim_ref item))
           | Some candidate \<Rightarrow>
               (case construct ''RetrievalQuery'' valid_RetrievalQuery RetrievalQuery_validator
                   \<lparr>RetrievalQuery.query_id = qid, RetrievalQuery.claim_id = RetrievalQueryProposal.claim_ref item,
                    RetrievalQuery.candidate_claim_hash =
                      VR_Ids.candidate_claim_hash (CandidateClaim.candidate_claim candidate),
                    RetrievalQuery.intent = RetrievalQueryProposal.intent item,
                    RetrievalQuery.query_text = RetrievalQueryProposal.query_text item\<rparr> of
                  Inl e \<Rightarrow> Inl (RecordRejected e)
                | Inr query \<Rightarrow>
                    (case promote_queries_loop R r1 (AList.update (RetrievalQueryProposal.local_ref item) qid local_map) items of
                       Inl e \<Rightarrow> Inl e
                     | Inr (rest, r2, final_map) \<Rightarrow> Inr (query # rest, r2, final_map)))))"

definition promote_retrieval_queries ::
  "RepositorySnapshot \<Rightarrow> CanonicalIdRegistry \<Rightarrow> RetrievalQueryProposalBundle \<Rightarrow> PromotionFailure + PromotionPayload" where
  "promote_retrieval_queries R r b =
     (case promote_queries_loop R r [] (queries b) of
        Inl e \<Rightarrow> Inl e
      | Inr (new_queries, r1, local_map) \<Rightarrow>
          Inr \<lparr>snapshot = R\<lparr>retrieval_queries := retrieval_queries R @ new_queries\<rparr>, registry = r1, payload_ids = local_map\<rparr>)"

definition promote_claim_assessment ::
  "RepositorySnapshot \<Rightarrow> CanonicalIdRegistry \<Rightarrow> ClaimAssessmentProposal \<Rightarrow> PromotionFailure + PromotionPayload" where
  "promote_claim_assessment R r p =
     (case claim_assessment_from_proposal p of
        Inl e \<Rightarrow> Inl (RecordRejected e)
      | Inr assessment \<Rightarrow>
          Inr \<lparr>snapshot = R\<lparr>claim_assessments := upsert_by ClaimAssessment.claim_id (claim_assessments R) assessment\<rparr>,
               registry = r, payload_ids = []\<rparr>)"

definition promote_claim_paper_evidence ::
  "RepositorySnapshot \<Rightarrow> CanonicalIdRegistry \<Rightarrow> ClaimPaperEvidenceProposal \<Rightarrow> PromotionFailure + PromotionPayload" where
  "promote_claim_paper_evidence R r p =
     (case claim_paper_evidence_from_proposal p of
        Inl e \<Rightarrow> Inl (RecordRejected e)
      | Inr aggregate \<Rightarrow>
          Inr \<lparr>snapshot = R\<lparr>claim_paper_evidence :=
                 upsert_by ClaimPaperEvidence.claim_paper_evidence_id (claim_paper_evidence R) aggregate\<rparr>,
               registry = r,
               payload_ids = [(''claim_paper_evidence'', ClaimPaperEvidence.claim_paper_evidence_id aggregate)]\<rparr>)"

definition promote_final_claim_validation ::
  "RepositorySnapshot \<Rightarrow> CanonicalIdRegistry \<Rightarrow> FinalClaimValidationProposal \<Rightarrow> PromotionFailure + PromotionPayload" where
  "promote_final_claim_validation R r p =
     (case final_validation_from_proposal p of
        Inl e \<Rightarrow> Inl (RecordRejected e)
      | Inr validation \<Rightarrow>
          (case claim_packet_for_validation R validation of
             Inl StopIteration \<Rightarrow> Inl NoNext
           | Inl (PacketValueError e) \<Rightarrow> Inl (RecordRejected e)
           | Inr packet \<Rightarrow>
               Inr \<lparr>snapshot = R\<lparr>
                   final_claim_validations :=
                     upsert_by FinalClaimValidation.claim_id (final_claim_validations R) validation,
                   claim_packets :=
                     (case packet of
                        None \<Rightarrow> filter (\<lambda>item. ClaimPacket.claim_id item \<noteq> FinalClaimValidation.claim_id validation) (claim_packets R)
                      | Some pk \<Rightarrow> upsert_by ClaimPacket.claim_id (claim_packets R) pk)\<rparr>,
                 registry = r, payload_ids = []\<rparr>))"

definition promote_semantic_audit ::
  "RepositorySnapshot \<Rightarrow> CanonicalIdRegistry \<Rightarrow> SemanticAuditProposal \<Rightarrow> PromotionFailure + PromotionPayload" where
  "promote_semantic_audit R r p =
     (case allocate IdKind.SEMANTIC_AUDIT 1 r of
        Inl e \<Rightarrow> Inl (AllocationFailed e)
      | Inr (ids, r1) \<Rightarrow>
          (case construct ''SemanticAuditResult'' valid_SemanticAuditResult (\<lambda>_. None)
              \<lparr>SemanticAuditResult.audit_id = hd ids, target_id = SemanticAuditProposal.target_ref p,
               SemanticAuditResult.class_verdict = SemanticAuditProposal.class_verdict p,
               SemanticAuditResult.provenance_verdict = SemanticAuditProposal.provenance_verdict p,
               SemanticAuditResult.reason = SemanticAuditProposal.reason p,
               referenced_claim_ids = referenced_claim_refs p,
               referenced_corpus_fact_ids = referenced_corpus_fact_refs p,
               referenced_process_fact_ids = referenced_process_fact_refs p\<rparr> of
             Inl e \<Rightarrow> Inl (RecordRejected e)
           | Inr audit \<Rightarrow>
               Inr \<lparr>snapshot = R\<lparr>semantic_audits :=
                      filter (\<lambda>item. target_id item \<noteq> target_id audit) (semantic_audits R) @ [audit]\<rparr>,
                    registry = r1, payload_ids = [(''audit'', SemanticAuditResult.audit_id audit)]\<rparr>))"

text \<open>\<open>PROMOTION_HANDLERS\<close> and \<open>prepare_promotion\<close>; a handler that is missing from the table is a
  \<open>ContractImplementationError\<close>.\<close>

datatype PreparedPromotion =
    ContractImplementationError string
  | Promotion "RepositorySnapshot \<Rightarrow> CanonicalIdRegistry \<Rightarrow> PromotionFailure + PromotionPayload"

definition prepare_promotion :: "string \<Rightarrow> Proposal \<Rightarrow> PreparedPromotion" where
  "prepare_promotion handler proposal =
     (let wrong = Promotion (\<lambda>R r. Inl (RecordRejected ''AttributeError'')) in
      if handler = ''promote_discovery'' then
        (case proposal of DiscoveryBundle b \<Rightarrow> Promotion (\<lambda>R r. promote_discovery R r b) | _ \<Rightarrow> wrong)
      else if handler = ''promote_retrieval_queries'' then
        (case proposal of QueryBundle b \<Rightarrow> Promotion (\<lambda>R r. promote_retrieval_queries R r b) | _ \<Rightarrow> wrong)
      else if handler = ''promote_claim_paper_evidence'' then
        (case proposal of CpeProposal p \<Rightarrow> Promotion (\<lambda>R r. promote_claim_paper_evidence R r p) | _ \<Rightarrow> wrong)
      else if handler = ''promote_claim_assessment'' then
        (case proposal of AssessmentProposal p \<Rightarrow> Promotion (\<lambda>R r. promote_claim_assessment R r p) | _ \<Rightarrow> wrong)
      else if handler = ''promote_final_claim_validation'' then
        (case proposal of FinalProposal p \<Rightarrow> Promotion (\<lambda>R r. promote_final_claim_validation R r p) | _ \<Rightarrow> wrong)
      else if handler = ''promote_semantic_audit'' then
        (case proposal of AuditProposal p \<Rightarrow> Promotion (\<lambda>R r. promote_semantic_audit R r p) | _ \<Rightarrow> wrong)
      else ContractImplementationError
        (''promotion handler '' @ handler @ '' is not implemented in this milestone''))"

subsection \<open>Transitions\<close>

definition interpret_positive :: TransitionDecision where
  "interpret_positive =
     \<lparr>scientific_disposition = ''VALID'', canonicalized = False, downstream_eligible = True, human_review_required = False\<rparr>"

definition interpret_claim_assessment :: "ClaimAssessmentProposal \<Rightarrow> TransitionDecision" where
  "interpret_claim_assessment p =
     \<lparr>scientific_disposition = ClaimDecision_value (ClaimAssessmentProposal.decision p), canonicalized = False,
      downstream_eligible = ClaimAssessmentProposal.decision p \<noteq> ClaimDecision.REJECT, human_review_required = False\<rparr>"

definition interpret_final_claim_validation :: "FinalClaimValidationProposal \<Rightarrow> TransitionDecision" where
  "interpret_final_claim_validation p =
     \<lparr>scientific_disposition = FinalClaimStatus_value (FinalClaimValidationProposal.status p), canonicalized = False,
      downstream_eligible = FinalClaimValidationProposal.status p = FinalClaimStatus.VALID,
      human_review_required = FinalClaimValidationProposal.status p = FinalClaimStatus.UNCLEAR\<rparr>"

definition interpret_semantic_audit :: "SemanticAuditProposal \<Rightarrow> TransitionDecision" where
  "interpret_semantic_audit p =
     (let cv = SemanticAuditProposal.class_verdict p; pv = SemanticAuditProposal.provenance_verdict p in
      \<lparr>scientific_disposition =
         (if cv \<noteq> AuditClassVerdict.CORRECT then AuditClassVerdict_value cv else AuditProvenanceVerdict_value pv),
       canonicalized = False,
       downstream_eligible = (cv = AuditClassVerdict.CORRECT \<and> pv = AuditProvenanceVerdict.ENTAILED),
       human_review_required = (cv = AuditClassVerdict.UNCLEAR \<or> pv = AuditProvenanceVerdict.UNCLEAR)\<rparr>)"

definition interpret_rendered_sentence_audit :: "RenderedSentenceAuditProposal \<Rightarrow> TransitionDecision" where
  "interpret_rendered_sentence_audit p =
     \<lparr>scientific_disposition = AuditProvenanceVerdict_value (RenderedSentenceAuditProposal.verdict p),
      canonicalized = False,
      downstream_eligible = (RenderedSentenceAuditProposal.verdict p = AuditProvenanceVerdict.ENTAILED),
      human_review_required = (RenderedSentenceAuditProposal.verdict p = AuditProvenanceVerdict.UNCLEAR)\<rparr>"

definition interpret_disposition :: "string \<Rightarrow> Proposal \<Rightarrow> string + TransitionDecision" where
  "interpret_disposition handler proposal =
     (if handler = ''interpret_positive'' then Inr interpret_positive
      else if handler = ''interpret_claim_assessment'' then
        (case proposal of AssessmentProposal p \<Rightarrow> Inr (interpret_claim_assessment p) | _ \<Rightarrow> Inl ''AttributeError'')
      else if handler = ''interpret_final_claim_validation'' then
        (case proposal of FinalProposal p \<Rightarrow> Inr (interpret_final_claim_validation p) | _ \<Rightarrow> Inl ''AttributeError'')
      else if handler = ''interpret_semantic_audit'' then
        (case proposal of AuditProposal p \<Rightarrow> Inr (interpret_semantic_audit p) | _ \<Rightarrow> Inl ''AttributeError'')
      else if handler = ''interpret_rendered_sentence_audit'' then
        (case proposal of SentenceAuditProposal p \<Rightarrow> Inr (interpret_rendered_sentence_audit p) | _ \<Rightarrow> Inl ''AttributeError'')
      else Inl (''disposition handler '' @ handler @ '' is not implemented in this milestone''))"

end
