(* ===== verification/VR_Upsert.thy ===== *)
theory VR_Upsert
  imports VR_Promote
begin

section \<open>Replacing records by identifier\<close>

text \<open>
  \<open>_upsert_by_attribute\<close> replaces the record with the same identifier or appends the new one. The
  locale \<open>keyed_store\<close> is what its callers rely on: a lookup after an upsert, the identifiers that
  are then present, and that writing what is there changes nothing. The laws of a sequence of
  upserts are proved once inside it, and \<open>upsert_by\<close> is its interpretation for every key.
\<close>

locale keyed_store =
  fixes key :: "'a \<Rightarrow> 'k"
    and upsert :: "'a list \<Rightarrow> 'a \<Rightarrow> 'a list"
  assumes lookup_upsert: "first_by key (upsert xs r) k = (if k = key r then Some r else first_by key xs k)"
    and keys_upsert: "map key (upsert xs r) = (if key r \<in> key ` set xs then map key xs else map key xs @ [key r])"
    and upsert_stored: "first_by key xs (key r) = Some r \<Longrightarrow> upsert xs r = xs"
begin

lemma distinct_upsert: "distinct (map key xs) \<Longrightarrow> distinct (map key (upsert xs r))"
  by (auto simp: keys_upsert)

lemma key_set_upsert: "key ` set (upsert xs r) = insert (key r) (key ` set xs)"
proof -
  have "key ` set (upsert xs r) = set (map key (upsert xs r))" by simp
  also have "\<dots> = insert (key r) (key ` set xs)" unfolding keys_upsert by auto
  finally show ?thesis .
qed

lemma mem_upsert:
  assumes "distinct (map key xs)"
  shows "x \<in> set (upsert xs r) \<longleftrightarrow> x = r \<or> (x \<in> set xs \<and> key x \<noteq> key r)"
proof -
  have "x \<in> set (upsert xs r) \<longleftrightarrow> first_by key (upsert xs r) (key x) = Some x"
    by (simp add: first_by_Some_iff [OF distinct_upsert [OF assms]])
  also have "\<dots> \<longleftrightarrow> x = r \<or> (x \<in> set xs \<and> key x \<noteq> key r)"
    unfolding lookup_upsert by (auto simp: first_by_Some_iff [OF assms])
  finally show ?thesis .
qed

lemma upsert_idem: "upsert (upsert xs r) r = upsert xs r"
  by (rule upsert_stored) (simp add: lookup_upsert)

text \<open>Writing a list of records: the last record of a key is the one that is found.\<close>

lemma lookup_fold: "first_by key (foldl upsert xs rs) k = (case by_last key rs k of Some r \<Rightarrow> Some r | None \<Rightarrow> first_by key xs k)"
proof (induction rs rule: rev_induct)
  case (snoc r rs)
  then show ?case by (simp add: lookup_upsert by_last_def)
qed (simp add: by_last_def)

end

lemma upsert_by_lookup: "first_by key (upsert_by key xs r) k = (if k = key r then Some r else first_by key xs k)"
  by (induction key xs r rule: upsert_by.induct) auto

lemma upsert_by_keys:
  "map key (upsert_by key xs r) = (if key r \<in> key ` set xs then map key xs else map key xs @ [key r])"
  by (induction key xs r rule: upsert_by.induct) auto

lemma upsert_by_stored: "first_by key xs (key r) = Some r \<Longrightarrow> upsert_by key xs r = xs"
  by (induction key xs r rule: upsert_by.induct) (auto split: if_splits)

interpretation store: keyed_store key "upsert_by key" for key :: "'a \<Rightarrow> 'k"
  by unfold_locales (rule upsert_by_lookup upsert_by_keys upsert_by_stored, assumption?)+

text \<open>Records of every other identifier, and their order, are kept.\<close>

lemma upsert_by_others: "filter (\<lambda>x. key x \<noteq> key r) (upsert_by key xs r) = filter (\<lambda>x. key x \<noteq> key r) xs"
  by (induction key xs r rule: upsert_by.induct) auto

subsection \<open>First failure of a chain of checks\<close>

lemma first_by_in: "k \<in> f ` set xs \<Longrightarrow> \<exists>x. first_by f xs k = Some x \<and> x \<in> set xs \<and> f x = k"
  using first_by_None_iff [of f xs k] by (auto dest: first_by_SomeD)

lemma require_dependency_scope_None [simp]:
  "require_dependency_scope keys dependency what = None \<longleftrightarrow> opt_all (\<lambda>ks. dependency \<in> set ks) keys"
  by (simp add: require_dependency_scope_def)

subsection \<open>Contracts that only grow with the claims and themes\<close>

lemma query_bound_mono: "query_bound cs q \<Longrightarrow> set cs \<subseteq> set cs' \<Longrightarrow> query_bound cs' q"
  unfolding query_bound_def by blast

lemma span_bound_mono: "span_bound qs ps s \<Longrightarrow> set qs \<subseteq> set qs' \<Longrightarrow> span_bound qs' ps s"
  unfolding span_bound_def by blast

lemma evidence_bound_mono:
  "evidence_bound cs qs ss ds e \<Longrightarrow> set cs \<subseteq> set cs' \<Longrightarrow> set qs \<subseteq> set qs' \<Longrightarrow> evidence_bound cs' qs' ss ds e"
  unfolding evidence_bound_def by blast

lemma cpe_bound_mono: "cpe_bound cs ps es c \<Longrightarrow> set cs \<subseteq> set cs' \<Longrightarrow> cpe_bound cs' ps es c"
  unfolding cpe_bound_def by blast

lemma packet_bound_mono: "packet_bound cs ks as fs p \<Longrightarrow> set cs \<subseteq> set cs' \<Longrightarrow> packet_bound cs' ks as fs p"
  unfolding packet_bound_def by blast

lemma packet_bound_cpes:
  "claim_cpes ks (ClaimPacket.claim_id p) = claim_cpes ks' (ClaimPacket.claim_id p) \<Longrightarrow>
     packet_bound cs ks as fs p = packet_bound cs ks' as fs p"
  by (simp only: packet_bound_def)

lemma retrieval_contract_more_queries:
  assumes "retrieval_contract cs qs ss ds ps" "set cs \<subseteq> set cs'" "distinct (map CandidateClaim.claim_id cs')"
    and "distinct (map RetrievalQuery.query_id (qs @ new))" "\<forall>q \<in> set new. query_bound cs' q"
  shows "retrieval_contract cs' (qs @ new) ss ds ps"
  using assms query_bound_mono [of cs _ cs'] span_bound_mono [of qs ps _ "qs @ new"]
  unfolding retrieval_contract_def by auto

lemma evidence_contract_more:
  assumes "evidence_contract cs qs ss ds es" "set cs \<subseteq> set cs'" "distinct (map CandidateClaim.claim_id cs')"
    and "distinct (map RetrievalQuery.query_id (qs @ new))"
  shows "evidence_contract cs' (qs @ new) ss ds es"
  using assms evidence_bound_mono [of cs qs ss ds _ cs' "qs @ new"] unfolding evidence_contract_def by auto

lemma claim_evidence_contract_more:
  assumes "claim_evidence_contract cs ps es ks" "set cs \<subseteq> set cs'" "distinct (map CandidateClaim.claim_id cs')"
  shows "claim_evidence_contract cs' ps es ks"
  using assms cpe_bound_mono [of cs ps es _ cs'] unfolding claim_evidence_contract_def by auto

lemma claim_contract_more:
  assumes "claim_contract cs ks as fs ps" "set cs \<subseteq> set cs'" "distinct (map CandidateClaim.claim_id cs')"
  shows "claim_contract cs' ks as fs ps"
  using assms packet_bound_mono [of cs ks as fs _ cs'] unfolding claim_contract_def by blast

end
