(* ===== verification/VR_Promote_Claims.thy ===== *)
theory VR_Promote_Claims
  imports VR_Upsert
begin

section \<open>Accepted claim proposals keep the repository valid\<close>

text \<open>
  For each promotion of claim-level records: when the proposal was accepted against a repository
  that validates, promoting it succeeds and the new snapshot validates again, so the staged
  validation of the commit cannot fail. For final claims the one condition that acceptance does not
  ensure is named.
\<close>

lemma repository_contractI: "validate_repository R = Inr r \<Longrightarrow> repository_contract R"
  using validate_repository_iff by blast

lemma repository_contract_validates: "repository_contract R \<Longrightarrow> \<exists>r. validate_repository R = Inr r"
  using validate_repository_iff by blast

subsection \<open>Assessments\<close>

lemma claim_contract_assessment:
  assumes c: "claim_contract cs ks as fs ps"
    and cid: "ClaimAssessment.claim_id a \<in> CandidateClaim.claim_id ` set cs"
    and none: "ClaimAssessment.claim_id a \<notin> ClaimPacket.claim_id ` set ps"
  shows "claim_contract cs ks (upsert_by ClaimAssessment.claim_id as a) fs ps"
proof -
  let ?as = "upsert_by ClaimAssessment.claim_id as a"
  have d: "distinct (map ClaimAssessment.claim_id as)" using c by (simp add: claim_contract_def)
  have "packet_bound cs ks ?as fs p" if "p \<in> set ps" for p
  proof -
    have b: "packet_bound cs ks as fs p" using c that by (simp add: claim_contract_def)
    have ne: "ClaimPacket.claim_id p \<noteq> ClaimAssessment.claim_id a" using none that by (metis image_eqI)
    from b ne show ?thesis unfolding packet_bound_def store.mem_upsert [OF d] Bex_def by metis
  qed
  then show ?thesis
    using c cid store.distinct_upsert [OF d] store.key_set_upsert [of ClaimAssessment.claim_id as a]
    unfolding claim_contract_def by auto
qed

lemma assessment_promotes:
  assumes v: "valid_snapshot R" and ok: "validate_repository R = Inr rep"
    and acc: "validate_claim_assessment p R deps = None"
  shows "\<exists>payload a. promote_claim_assessment R r p = Inr payload \<and> claim_assessment_from_proposal p = Inr a \<and>
    valid_snapshot (snapshot payload) \<and> (\<exists>rep'. validate_repository (snapshot payload) = Inr rep') \<and>
    registry payload = r \<and>
    (\<forall>k. first_by ClaimAssessment.claim_id (claim_assessments (snapshot payload)) k =
       (if k = ClaimAssessmentProposal.claim_ref p then Some a
        else first_by ClaimAssessment.claim_id (claim_assessments R) k)) \<and>
    (has_claim_descendants R (ClaimAssessmentProposal.claim_ref p) \<longrightarrow> snapshot payload = R)"
proof -
  note c = repository_contractI [OF ok]
  from acc obtain a where a: "claim_assessment_from_proposal p = Inr a"
    and known: "ClaimAssessmentProposal.claim_ref p \<in> CandidateClaim.claim_id ` set (candidate_claims R)"
    and guard: "has_claim_descendants R (ClaimAssessmentProposal.claim_ref p) \<Longrightarrow>
      first_by ClaimAssessment.claim_id (claim_assessments R) (ClaimAssessmentProposal.claim_ref p) = Some a"
    by (auto simp: validate_claim_assessment_def Let_def split: sum.splits)
  from a have id: "ClaimAssessment.claim_id a = ClaimAssessmentProposal.claim_ref p" and va: "valid_ClaimAssessment a"
    by (auto simp: claim_assessment_from_proposal_def)
  let ?as = "upsert_by ClaimAssessment.claim_id (claim_assessments R) a"
  let ?R = "R\<lparr>claim_assessments := ?as\<rparr>"
  have same: "?R = R" if "has_claim_descendants R (ClaimAssessmentProposal.claim_ref p)"
    using store.upsert_stored [of ClaimAssessment.claim_id "claim_assessments R" a] guard [OF that] id by simp
  have d: "distinct (map ClaimAssessment.claim_id (claim_assessments R))"
    using c by (simp add: repository_contract_def claim_contract_def)
  have "repository_contract ?R"
  proof (cases "has_claim_descendants R (ClaimAssessmentProposal.claim_ref p)")
    case True
    then show ?thesis using c same by simp
  next
    case False
    then have "ClaimAssessment.claim_id a \<notin> ClaimPacket.claim_id ` set (claim_packets R)"
      by (simp add: id has_claim_descendants_def)
    then show ?thesis
      using c claim_contract_assessment [of _ _ _ _ _ a] known id unfolding repository_contract_def by simp
  qed
  moreover have "valid_snapshot ?R"
    using v va store.mem_upsert [OF d, of _ a] by (auto simp: valid_snapshot_def list_all_iff)
  ultimately show ?thesis
    using a same repository_contract_validates [of ?R]
    by (simp add: promote_claim_assessment_def store.lookup_upsert id)
qed

text \<open>
  An accepted claim assessment always promotes. When the assessment proposal was accepted against
  a repository of well-formed records that validates, promotion succeeds, the new snapshot is
  well-formed and validates again, it holds the proposed assessment for the claim and every other
  claim's assessment as before, and no identifier is consumed; in particular an assessment that
  packets, final validations or propositions rest on is never changed.
\<close>

theorem accepted_assessment_promotes:
  assumes v: "valid_snapshot R" and ok: "validate_repository R = Inr rep"
    and acc: "validate_claim_assessment p R deps = None"
  shows "\<exists>payload a. promote_claim_assessment R r p = Inr payload \<and> claim_assessment_from_proposal p = Inr a \<and>
    valid_snapshot (snapshot payload) \<and> (\<exists>rep'. validate_repository (snapshot payload) = Inr rep') \<and>
    registry payload = r \<and>
    (\<forall>k. first_by ClaimAssessment.claim_id (claim_assessments (snapshot payload)) k =
       (if k = ClaimAssessmentProposal.claim_ref p then Some a
        else first_by ClaimAssessment.claim_id (claim_assessments R) k)) \<and>
    (has_claim_descendants R (ClaimAssessmentProposal.claim_ref p) \<longrightarrow> snapshot payload = R)"
  by (rule assessment_promotes [OF assms])

subsection \<open>Claim-paper evidence\<close>

text \<open>The runtime writes the ID of a CPE from its claim and paper.\<close>

definition canonical_cpes :: "RepositorySnapshot \<Rightarrow> bool" where
  "canonical_cpes R \<longleftrightarrow> (\<forall>c \<in> set (claim_paper_evidence R).
     ClaimPaperEvidence.claim_paper_evidence_id c = ''CPE-'' @ ClaimPaperEvidence.claim_id c @ ''-'' @ ClaimPaperEvidence.paper_id c)"

lemma cpe_from_proposalD:
  assumes "claim_paper_evidence_from_proposal p = Inr a"
  shows "ClaimPaperEvidence.claim_id a = ClaimPaperEvidenceProposal.claim_ref p"
    "ClaimPaperEvidence.paper_id a = ClaimPaperEvidenceProposal.paper_ref p"
    "ClaimPaperEvidence.claim_paper_evidence_id a =
       ''CPE-'' @ ClaimPaperEvidence.claim_id a @ ''-'' @ ClaimPaperEvidence.paper_id a"
    "ClaimPaperEvidence.evidence_ids a = evidence_refs p"
    "ClaimPaperEvidence.component_relations a = ClaimPaperEvidenceProposal.component_relations p"
    "ClaimPaperEvidence.relation_to_candidate a = ClaimPaperEvidenceProposal.relation_to_candidate p"
    "valid_ClaimPaperEvidence a"
    "is_ClaimId (ClaimPaperEvidence.claim_id a)" "is_PaperId (ClaimPaperEvidence.paper_id a)"
  using assms
  by (auto simp: claim_paper_evidence_from_proposal_def allocate_cpe_id_def split: sum.splits RegistryError.splits if_splits)

lemma cpe_id_determines:
  assumes "''CPE-'' @ c @ ''-'' @ q = ''CPE-'' @ c' @ ''-'' @ q'" "is_ClaimId c" "is_ClaimId c'"
  shows "c = c' \<and> q = q'"
proof -
  have "length c = 5" "length c' = 5" using assms(2,3) by (auto simp: is_ClaimId_iff)
  then show ?thesis using assms(1) by simp
qed

lemma accepted_cpe_bound:
  assumes d: "distinct (map evidence_id (evidence_records R))"
    and acc: "validate_claim_paper_evidence p R deps = None" and a: "claim_paper_evidence_from_proposal p = Inr a"
  shows "cpe_bound (candidate_claims R) (papers R) (evidence_records R) a"
proof -
  let ?c = "ClaimPaperEvidenceProposal.claim_ref p" and ?q = "ClaimPaperEvidenceProposal.paper_ref p"
  let ?gs = "grouped (ClaimPaperEvidenceProposal.component_relations p)"
  from acc have k: "?c \<in> CandidateClaim.claim_id ` set (candidate_claims R)" "?q \<in> Paper.paper_id ` set (papers R)"
    "distinct (evidence_refs p)" "set (evidence_refs p) = complete_evidence_refs R ?c ?q"
    "distinct (concat (map snd ?gs))" "set (concat (map snd ?gs)) = set (evidence_refs p)"
    "\<forall>g \<in> set ?gs. component_issue R g = None"
    by (simp_all add: validate_claim_paper_evidence_def Let_def del: set_concat)
  note f = cpe_from_proposalD [OF a]
  have "cpe_member (evidence_records R) a relation eid" if g: "(relation, eids) \<in> set ?gs" and e: "eid \<in> set eids" for relation eids eid
  proof -
    have "eid \<in> set (concat (map snd ?gs))" using g e by force
    then have "eid \<in> complete_evidence_refs R ?c ?q" unfolding k(6) k(4) .
    then obtain x where x: "x \<in> set (evidence_records R)" "evidence_id x = eid" "EvidenceRecord.claim_id x = ?c"
      "EvidenceRecord.paper_id x = ?q" by (auto simp: complete_evidence_refs_def)
    then have "by_last evidence_id (evidence_records R) eid = Some x"
      by (simp add: by_last_first_by [OF d] first_by_Some_iff [OF d])
    moreover have "component_issue R (relation, eids) = None" using k(7) g by blast
    ultimately have "EvidenceRecord.relation_to_candidate x = relation"
      using e by (force simp: component_issue_def)
    then show ?thesis using x f(1,2) by (auto simp: cpe_member_def)
  qed
  moreover have "ClaimPaperEvidence.relation_to_candidate a = AggregateRelation.MIXED \<longrightarrow>
      2 \<le> count_nonempty [supports (ClaimPaperEvidence.component_relations a), contradicts (ClaimPaperEvidence.component_relations a),
       qualifies (ClaimPaperEvidence.component_relations a)]"
    using f(7) by (auto simp: valid_ClaimPaperEvidence_def ClaimPaperEvidence_validator_def aggregate_check_def Let_def)
  ultimately show ?thesis
    using k(1-3,5,6) unfolding cpe_bound_def f(1,2,4,5,6) grouped_ids_def
    by (auto simp: f(5))
qed

lemma canonical_cpe_claim:
  assumes "canonical_cpes R" "valid_snapshot R" "old \<in> set (claim_paper_evidence R)"
    and a: "claim_paper_evidence_from_proposal p = Inr a"
    and "ClaimPaperEvidence.claim_paper_evidence_id old = ClaimPaperEvidence.claim_paper_evidence_id a"
  shows "ClaimPaperEvidence.claim_id old = ClaimPaperEvidence.claim_id a \<and>
    ClaimPaperEvidence.paper_id old = ClaimPaperEvidence.paper_id a"
proof -
  have "is_ClaimId (ClaimPaperEvidence.claim_id old)"
    using assms(2,3) by (auto simp: valid_snapshot_def list_all_iff valid_ClaimPaperEvidence_def)
  moreover have "''CPE-'' @ ClaimPaperEvidence.claim_id old @ ''-'' @ ClaimPaperEvidence.paper_id old =
      ''CPE-'' @ ClaimPaperEvidence.claim_id a @ ''-'' @ ClaimPaperEvidence.paper_id a"
    using assms(1,3,5) cpe_from_proposalD(3) [OF a] unfolding canonical_cpes_def by metis
  ultimately show ?thesis using cpe_id_determines cpe_from_proposalD(8) [OF a] by blast
qed

text \<open>The contracts after a CPE of an unassessed claim was written.\<close>

lemma contract_cpe_upsert:
  assumes c: "repository_contract R" and v: "valid_snapshot R" and can: "canonical_cpes R"
    and a: "claim_paper_evidence_from_proposal p = Inr a"
    and bound: "cpe_bound (candidate_claims R) (papers R) (evidence_records R) a"
    and unassessed: "ClaimPaperEvidence.claim_id a \<notin> ClaimAssessment.claim_id ` set (claim_assessments R)"
  defines "ks \<equiv> upsert_by ClaimPaperEvidence.claim_paper_evidence_id (claim_paper_evidence R) a"
  shows "repository_contract (R\<lparr>claim_paper_evidence := ks\<rparr>)"
proof -
  let ?key = ClaimPaperEvidence.claim_paper_evidence_id
  let ?old = "claim_paper_evidence R"
  have d: "distinct (map ?key ?old)"
    using c by (simp add: repository_contract_def claim_evidence_contract_def)
  have mem: "x \<in> set ks \<longleftrightarrow> x = a \<or> (x \<in> set ?old \<and> ?key x \<noteq> ?key a)" for x
    unfolding ks_def by (rule store.mem_upsert [OF d])
  have dks: "distinct (map ?key ks)" unfolding ks_def by (rule store.distinct_upsert [OF d])
  have keep: "\<exists>x \<in> set ks. ?key x = ?key y \<and> ClaimPaperEvidence.claim_id x = ClaimPaperEvidence.claim_id y \<and>
      ClaimPaperEvidence.paper_id x = ClaimPaperEvidence.paper_id y" if "y \<in> set ?old" for y
  proof (cases "?key y = ?key a")
    case True
    then show ?thesis using canonical_cpe_claim [OF can v that a] mem by metis
  qed (use that mem in blast)
  have nopacket: "ClaimPacket.claim_id pk \<noteq> ClaimPaperEvidence.claim_id a" if "pk \<in> set (claim_packets R)" for pk
  proof -
    have "packet_bound (candidate_claims R) ?old (claim_assessments R) (final_claim_validations R) pk"
      using c that by (simp add: repository_contract_def claim_contract_def)
    then show ?thesis using unassessed unfolding packet_bound_def by force
  qed
  have "claim_evidence_contract (candidate_claims R) (papers R) (evidence_records R) ?old"
    using c by (simp add: repository_contract_def)
  then have "claim_evidence_contract (candidate_claims R) (papers R) (evidence_records R) ks"
    using bound dks unfolding claim_evidence_contract_def by (auto simp: mem)
  moreover have "claim_contract (candidate_claims R) ks (claim_assessments R) (final_claim_validations R) (claim_packets R)"
  proof -
    have cc: "claim_contract (candidate_claims R) ?old (claim_assessments R) (final_claim_validations R) (claim_packets R)"
      using c by (simp add: repository_contract_def)
    have "final_bound ks f" if "f \<in> set (final_claim_validations R)" for f
    proof -
      have "final_bound ?old f" using cc that by (simp add: claim_contract_def)
      then show ?thesis unfolding final_bound_def using keep by metis
    qed
    moreover have "packet_bound (candidate_claims R) ks (claim_assessments R) (final_claim_validations R) pk"
      if "pk \<in> set (claim_packets R)" for pk
    proof -
      have "x \<in> set ks \<longleftrightarrow> x \<in> set ?old" if "ClaimPaperEvidence.claim_id x = ClaimPacket.claim_id pk" for x
        using that nopacket [OF \<open>pk \<in> set (claim_packets R)\<close>] mem canonical_cpe_claim [OF can v _ a] by metis
      then have "claim_cpes ks (ClaimPacket.claim_id pk) = claim_cpes ?old (ClaimPacket.claim_id pk)"
        unfolding claim_cpes_def by blast
      moreover have "packet_bound (candidate_claims R) ?old (claim_assessments R) (final_claim_validations R) pk"
        using cc that by (simp add: claim_contract_def)
      ultimately show ?thesis using packet_bound_cpes by blast
    qed
    ultimately show ?thesis using cc dks unfolding claim_contract_def by blast
  qed
  moreover have "evidence_closed (evidence_records R) ks (claim_packets R)"
    unfolding evidence_closed_def
  proof (intro ballI impI)
    fix e pk assume e: "e \<in> set (evidence_records R)" and pk: "pk \<in> set (claim_packets R)"
      and eq: "EvidenceRecord.claim_id e = ClaimPacket.claim_id pk"
    then obtain y where y: "y \<in> set ?old" "evidence_id e \<in> set (ClaimPaperEvidence.evidence_ids y)"
      using c unfolding repository_contract_def evidence_closed_def by blast
    have "cpe_bound (candidate_claims R) (papers R) (evidence_records R) y"
      using c y(1) by (simp add: repository_contract_def claim_evidence_contract_def)
    from cpe_bound_member [OF this y(2)] obtain e' where
      "e' \<in> set (evidence_records R)" "evidence_id e' = evidence_id e"
      "EvidenceRecord.claim_id e' = ClaimPaperEvidence.claim_id y" unfolding cpe_member_def by blast
    moreover have "distinct (map evidence_id (evidence_records R))"
      using c by (simp add: repository_contract_def claim_evidence_contract_def)
    ultimately have "ClaimPaperEvidence.claim_id y = EvidenceRecord.claim_id e"
      using distinct_map_eqD [of evidence_id "evidence_records R" e' e] e by metis
    then have "?key y \<noteq> ?key a"
      using nopacket [OF pk] eq canonical_cpe_claim [OF can v y(1) a] by metis
    then show "\<exists>x \<in> set ks. evidence_id e \<in> set (ClaimPaperEvidence.evidence_ids x)" using y mem by blast
  qed
  moreover have "proposition_contract (claim_packets R) ks (corpus_facts R) (process_facts R) (proposition_records R) (semantic_audits R)"
  proof -
    have pc: "proposition_contract (claim_packets R) ?old (corpus_facts R) (process_facts R) (proposition_records R) (semantic_audits R)"
      using c by (simp add: repository_contract_def)
    have "binding_bound (claim_packets R) ks b" if "binding_bound (claim_packets R) ?old b" for b
      using that keep unfolding binding_bound_def by metis
    then show ?thesis using pc dks unfolding proposition_contract_def proposition_bound_def by blast
  qed
  ultimately show ?thesis using c unfolding repository_contract_def by simp
qed

text \<open>
  C21: Accepted claim-paper evidence always promotes. When the proposal was accepted against a
  repository of well-formed records that validates, and the CPE IDs in it were written by the
  runtime, promotion succeeds, the new snapshot is well-formed, validates again and keeps its CPE
  IDs canonical, the CPE of the claim and paper is the proposed one and every other one is as before;
  for a claim that is already assessed nothing changes.
\<close>

theorem accepted_evidence_promotes:
  assumes v: "valid_snapshot R" and ok: "validate_repository R = Inr rep" and can: "canonical_cpes R"
    and acc: "validate_claim_paper_evidence p R deps = None"
  shows "\<exists>payload a. promote_claim_paper_evidence R r p = Inr payload \<and> claim_paper_evidence_from_proposal p = Inr a \<and>
    valid_snapshot (snapshot payload) \<and> (\<exists>rep'. validate_repository (snapshot payload) = Inr rep') \<and>
    canonical_cpes (snapshot payload) \<and> registry payload = r \<and>
    (\<forall>k. first_by ClaimPaperEvidence.claim_paper_evidence_id (claim_paper_evidence (snapshot payload)) k =
       (if k = ClaimPaperEvidence.claim_paper_evidence_id a then Some a
        else first_by ClaimPaperEvidence.claim_paper_evidence_id (claim_paper_evidence R) k)) \<and>
    (ClaimPaperEvidenceProposal.claim_ref p \<in> ClaimAssessment.claim_id ` set (claim_assessments R) \<longrightarrow> snapshot payload = R)"
proof -
  note c = repository_contractI [OF ok]
  from acc obtain a where a: "claim_paper_evidence_from_proposal p = Inr a" and ch: "evidence_change_issue R a = None"
    by (auto simp: validate_claim_paper_evidence_def Let_def split: sum.splits)
  let ?key = ClaimPaperEvidence.claim_paper_evidence_id
  let ?ks = "upsert_by ?key (claim_paper_evidence R) a"
  let ?R = "R\<lparr>claim_paper_evidence := ?ks\<rparr>"
  note f = cpe_from_proposalD [OF a]
  have d: "distinct (map ?key (claim_paper_evidence R))" "distinct (map evidence_id (evidence_records R))"
    using c by (simp_all add: repository_contract_def claim_evidence_contract_def)
  have same: "?R = R" if "ClaimPaperEvidence.claim_id a \<in> ClaimAssessment.claim_id ` set (claim_assessments R)"
    using ch that store.upsert_stored [of ?key "claim_paper_evidence R" a] by (simp add: evidence_change_issue_def)
  have "repository_contract ?R"
  proof (cases "ClaimPaperEvidence.claim_id a \<in> ClaimAssessment.claim_id ` set (claim_assessments R)")
    case True
    then show ?thesis using c same by simp
  next
    case False
    show ?thesis by (rule contract_cpe_upsert [OF c v can a accepted_cpe_bound [OF d(2) acc a] False])
  qed
  moreover have "valid_snapshot ?R" "canonical_cpes ?R"
    using v can f(3,7) store.mem_upsert [OF d(1), of _ a]
    by (auto simp: valid_snapshot_def list_all_iff canonical_cpes_def)
  ultimately show ?thesis
    using a same repository_contract_validates [of ?R]
    by (simp add: promote_claim_paper_evidence_def store.lookup_upsert f(1))
qed

end
