(* ===== verification/VR_Promote_Final.thy ===== *)
theory VR_Promote_Final
  imports VR_Promote_Claims
begin

section \<open>Accepted final claims\<close>

text \<open>
  A final-claim validation writes the validation of a claim and, when it is VALID, the claim's
  packet, or removes the packet. The theorem says that everything the repository demands holds
  again afterwards, except one thing that the acceptance checks do not look at: a packet may not
  leave out evidence of the claim that no CPE aggregates yet.
\<close>

definition packets_after ::
  "ClaimPacket list \<Rightarrow> string \<Rightarrow> ClaimPacket option \<Rightarrow> ClaimPacket list" where
  "packets_after ps cid packet =
     (case packet of
        None \<Rightarrow> filter (\<lambda>item. ClaimPacket.claim_id item \<noteq> cid) ps
      | Some pk \<Rightarrow> upsert_by ClaimPacket.claim_id ps pk)"

lemma mem_packets_after:
  assumes "distinct (map ClaimPacket.claim_id ps)" "opt_all (\<lambda>pk. ClaimPacket.claim_id pk = cid) packet"
  shows "x \<in> set (packets_after ps cid packet) \<longleftrightarrow> packet = Some x \<or> (x \<in> set ps \<and> ClaimPacket.claim_id x \<noteq> cid)"
  using assms store.mem_upsert [OF assms(1)]
  by (cases packet) (auto simp: packets_after_def)

lemma distinct_packets_after:
  "distinct (map ClaimPacket.claim_id ps) \<Longrightarrow> distinct (map ClaimPacket.claim_id (packets_after ps cid packet))"
  by (cases packet) (auto simp: packets_after_def distinct_map_filter store.distinct_upsert)

lemma packet_for_validationD:
  assumes "claim_packet_for_validation R f = Inr packet"
  shows "packet = None \<longleftrightarrow> FinalClaimValidation.status f \<noteq> FinalClaimStatus.VALID"
    and "packet = Some pk \<Longrightarrow> \<exists>claim assessment.
      first_by CandidateClaim.claim_id (candidate_claims R) (FinalClaimValidation.claim_id f) = Some claim \<and>
      first_by ClaimAssessment.claim_id (claim_assessments R) (FinalClaimValidation.claim_id f) = Some assessment \<and>
      valid_ClaimPacket pk \<and> ClaimPacket.claim_id pk = FinalClaimValidation.claim_id f \<and>
      ClaimPacket.theme_id pk = CandidateClaim.theme_id claim \<and>
      ClaimPacket.candidate_claim pk = CandidateClaim.candidate_claim claim \<and>
      ClaimPacket.final_claim pk = FinalClaimValidation.final_claim f \<and>
      ClaimPacket.aggregate_strength pk = ClaimAssessment.aggregate_strength assessment \<and>
      ClaimPacket.claim_paper_evidence_ids pk = sort (map ClaimPaperEvidence.claim_paper_evidence_id
        (filter (\<lambda>cpe. ClaimPaperEvidence.claim_id cpe = FinalClaimValidation.claim_id f) (claim_paper_evidence R)))"
  using assms
  by (auto simp: claim_packet_for_validation_def Let_def split: if_splits option.splits sum.splits dest!: first_by_SomeD)

lemma claim_contract_final:
  assumes c: "claim_contract cs ks as fs ps"
    and known: "FinalClaimValidation.claim_id f \<in> CandidateClaim.claim_id ` set cs" and fb: "final_bound ks f"
    and pk: "opt_all (\<lambda>pk. ClaimPacket.claim_id pk = FinalClaimValidation.claim_id f \<and>
      packet_bound cs ks as (upsert_by FinalClaimValidation.claim_id fs f) pk) packet"
  shows "claim_contract cs ks as (upsert_by FinalClaimValidation.claim_id fs f)
    (packets_after ps (FinalClaimValidation.claim_id f) packet)"
proof -
  let ?fs = "upsert_by FinalClaimValidation.claim_id fs f"
  let ?ps = "packets_after ps (FinalClaimValidation.claim_id f) packet"
  have d: "distinct (map FinalClaimValidation.claim_id fs)" "distinct (map ClaimPacket.claim_id ps)"
    using c by (simp_all add: claim_contract_def)
  have o: "opt_all (\<lambda>pk. ClaimPacket.claim_id pk = FinalClaimValidation.claim_id f) packet"
    using pk by (cases packet) simp_all
  have "packet_bound cs ks as ?fs p" if "p \<in> set ?ps" for p
  proof (cases "packet = Some p")
    case True
    then show ?thesis using pk by simp
  next
    case False
    then have p: "p \<in> set ps" "ClaimPacket.claim_id p \<noteq> FinalClaimValidation.claim_id f"
      using that mem_packets_after [OF d(2) o] by auto
    have "packet_bound cs ks as fs p" using c p(1) by (simp add: claim_contract_def)
    with p(2) show ?thesis unfolding packet_bound_def Bex_def store.mem_upsert [OF d(1)] by metis
  qed
  then show ?thesis
    using c known fb distinct_packets_after [OF d(2)] store.distinct_upsert [OF d(1)]
      store.key_set_upsert [of FinalClaimValidation.claim_id fs f]
    unfolding claim_contract_def by (auto simp: store.mem_upsert [OF d(1)])
qed

lemma proposition_contract_packets:
  assumes c: "proposition_contract ps ks corpus process props audits"
    and free: "\<And>p. p \<in> set props \<Longrightarrow> cid \<notin> set (PropositionRecord.claim_ids p) \<and>
      (\<forall>b \<in> set (PropositionRecord.citation_bindings p). CitationBinding.claim_id b \<noteq> cid)"
    and o: "opt_all (\<lambda>pk. ClaimPacket.claim_id pk = cid) packet"
  shows "proposition_contract (packets_after ps cid packet) ks corpus process props audits"
proof -
  let ?ps = "packets_after ps cid packet"
  have d: "distinct (map ClaimPacket.claim_id ps)" using c by (simp add: proposition_contract_def)
  note mem = mem_packets_after [OF d o]
  have ids: "k \<in> ClaimPacket.claim_id ` set ?ps" if "k \<in> ClaimPacket.claim_id ` set ps" "k \<noteq> cid" for k
    using that by (auto simp: image_iff Bex_def mem)
  have bind: "binding_bound ?ps ks b" if "binding_bound ps ks b" "CitationBinding.claim_id b \<noteq> cid" for b
    using that o unfolding binding_bound_def Ball_def mem by (cases packet) auto
  have "proposition_bound ?ps ks corpus process p" if p: "p \<in> set props" for p
  proof -
    have "proposition_bound ps ks corpus process p" using c p by (simp add: proposition_contract_def)
    then show ?thesis using free [OF p] ids bind unfolding proposition_bound_def by blast
  qed
  then show ?thesis using c distinct_packets_after [OF d] unfolding proposition_contract_def by blast
qed

text \<open>Every evidence record of the claim is in some CPE.\<close>

definition aggregated :: "EvidenceRecord list \<Rightarrow> ClaimPaperEvidence list \<Rightarrow> string \<Rightarrow> bool" where
  "aggregated es ks cid \<longleftrightarrow> (\<forall>e \<in> set es. EvidenceRecord.claim_id e = cid \<longrightarrow>
     (\<exists>cpe \<in> set ks. evidence_id e \<in> set (ClaimPaperEvidence.evidence_ids cpe)))"

lemma evidence_closed_aggregated: "evidence_closed es ks ps \<longleftrightarrow> (\<forall>pk \<in> set ps. aggregated es ks (ClaimPacket.claim_id pk))"
  unfolding evidence_closed_def aggregated_def by blast

lemma evidence_closed_packets:
  assumes "evidence_closed es ks ps" "distinct (map ClaimPacket.claim_id ps)"
    and o: "opt_all (\<lambda>pk. ClaimPacket.claim_id pk = cid) packet"
  shows "evidence_closed es ks (packets_after ps cid packet) \<longleftrightarrow>
    (packet \<noteq> None \<longrightarrow> aggregated es ks cid)"
  using assms(1) o unfolding evidence_closed_aggregated Ball_def mem_packets_after [OF assms(2) o]
  by (cases packet) auto

lemma accepted_final_claimD:
  assumes "validate_final_claim p R deps invocation = None"
  defines "cref \<equiv> FinalClaimValidationProposal.claim_ref p"
  obtains assessment f packet where
    "cref \<in> CandidateClaim.claim_id ` set (candidate_claims R)"
    "first_by ClaimAssessment.claim_id (claim_assessments R) cref = Some assessment"
    "\<forall>relation \<in> set (FinalClaimValidationProposal.paper_relations p). final_relation_issue R deps cref relation = None"
    "distinct (map FinalPaperRelationProposal.claim_paper_evidence_ref (FinalClaimValidationProposal.paper_relations p))"
    "FinalPaperRelationProposal.claim_paper_evidence_ref ` set (FinalClaimValidationProposal.paper_relations p) =
       claim_cpes (claim_paper_evidence R) cref"
    "FinalClaimValidationProposal.status p = FinalClaimStatus.VALID \<Longrightarrow> ClaimAssessment.decision assessment \<noteq> ClaimDecision.REJECT"
    "final_validation_from_proposal p = Inr f" "claim_packet_for_validation R f = Inr packet"
    "final_change_issue R cref f packet = None"
  using assms(1) that unfolding validate_final_claim_def Let_def cref_def
  by (auto split: option.splits sum.splits PacketFailure.splits)

lemma final_from_proposalD:
  assumes "final_validation_from_proposal p = Inr f"
  shows "FinalClaimValidation.claim_id f = FinalClaimValidationProposal.claim_ref p"
    "FinalClaimValidation.status f = FinalClaimValidationProposal.status p"
    "FinalClaimValidation.final_claim f = FinalClaimValidationProposal.final_claim p"
    "FinalClaimValidation.paper_relations f = map final_relation_of (FinalClaimValidationProposal.paper_relations p)"
    "valid_FinalClaimValidation f"
  using assms by (auto simp: final_validation_from_proposal_def)

lemma accepted_final_bound:
  assumes d: "distinct (map ClaimPaperEvidence.claim_paper_evidence_id (claim_paper_evidence R))"
    and f: "final_validation_from_proposal p = Inr f"
    and rels: "\<forall>relation \<in> set (FinalClaimValidationProposal.paper_relations p).
      final_relation_issue R deps (FinalClaimValidationProposal.claim_ref p) relation = None"
  shows "final_bound (claim_paper_evidence R) f"
  unfolding final_bound_def final_from_proposalD [OF f] set_map ball_simps
proof
  fix relation assume "relation \<in> set (FinalClaimValidationProposal.paper_relations p)"
  then obtain cpe where "by_last ClaimPaperEvidence.claim_paper_evidence_id (claim_paper_evidence R)
        (FinalPaperRelationProposal.claim_paper_evidence_ref relation) = Some cpe"
      "ClaimPaperEvidence.claim_id cpe = FinalClaimValidationProposal.claim_ref p"
      "ClaimPaperEvidence.paper_id cpe = FinalPaperRelationProposal.paper_ref relation"
    using rels by (fastforce simp: final_relation_issue_def Let_def split: option.splits)
  then show "\<exists>cpe \<in> set (claim_paper_evidence R).
      ClaimPaperEvidence.claim_paper_evidence_id cpe = FinalPaperRelation.claim_paper_evidence_id (final_relation_of relation) \<and>
      ClaimPaperEvidence.claim_id cpe = FinalClaimValidationProposal.claim_ref p \<and>
      ClaimPaperEvidence.paper_id cpe = FinalPaperRelation.paper_id (final_relation_of relation)"
    by (auto simp: final_relation_of_def dest: by_last_SomeD)
qed

lemma accepted_packet_bound:
  assumes c: "claim_contract (candidate_claims R) (claim_paper_evidence R) (claim_assessments R) fs ps"
    and f: "final_validation_from_proposal p = Inr f" and pk: "claim_packet_for_validation R f = Inr (Some pk)"
    and a: "first_by ClaimAssessment.claim_id (claim_assessments R) (FinalClaimValidationProposal.claim_ref p) = Some assessment"
    and dec: "FinalClaimValidationProposal.status p = FinalClaimStatus.VALID \<Longrightarrow>
      ClaimAssessment.decision assessment \<noteq> ClaimDecision.REJECT"
    and dist: "distinct (map FinalPaperRelationProposal.claim_paper_evidence_ref (FinalClaimValidationProposal.paper_relations p))"
    and refs: "FinalPaperRelationProposal.claim_paper_evidence_ref ` set (FinalClaimValidationProposal.paper_relations p) =
       claim_cpes (claim_paper_evidence R) (FinalClaimValidationProposal.claim_ref p)"
  shows "packet_bound (candidate_claims R) (claim_paper_evidence R) (claim_assessments R)
    (upsert_by FinalClaimValidation.claim_id fs f) pk"
proof -
  note fd = final_from_proposalD [OF f]
  have st: "FinalClaimValidation.status f = FinalClaimStatus.VALID" using packet_for_validationD(1) [OF pk] by simp
  from packet_for_validationD(2) [OF pk refl] a fd(1) obtain claim where
    cl: "first_by CandidateClaim.claim_id (candidate_claims R) (FinalClaimValidation.claim_id f) = Some claim"
    and eq: "ClaimPacket.claim_id pk = FinalClaimValidation.claim_id f"
      "ClaimPacket.theme_id pk = CandidateClaim.theme_id claim"
      "ClaimPacket.candidate_claim pk = CandidateClaim.candidate_claim claim"
      "ClaimPacket.final_claim pk = FinalClaimValidation.final_claim f"
      "ClaimPacket.aggregate_strength pk = ClaimAssessment.aggregate_strength assessment"
      "ClaimPacket.claim_paper_evidence_ids pk = sort (map ClaimPaperEvidence.claim_paper_evidence_id
        (filter (\<lambda>cpe. ClaimPaperEvidence.claim_id cpe = FinalClaimValidation.claim_id f) (claim_paper_evidence R)))"
    by auto
  have d: "distinct (map ClaimPaperEvidence.claim_paper_evidence_id (claim_paper_evidence R))"
      "distinct (map FinalClaimValidation.claim_id fs)"
    using c by (simp_all add: claim_contract_def)
  have ids: "set (ClaimPacket.claim_paper_evidence_ids pk) = claim_cpes (claim_paper_evidence R) (ClaimPacket.claim_id pk)"
    by (simp add: eq(1,6) claim_cpes_def)
  have rel: "map FinalPaperRelation.claim_paper_evidence_id (FinalClaimValidation.paper_relations f) =
      map FinalPaperRelationProposal.claim_paper_evidence_ref (FinalClaimValidationProposal.paper_relations p)"
    by (simp add: fd(4) final_relation_of_def)
  then have "FinalPaperRelation.claim_paper_evidence_id ` set (FinalClaimValidation.paper_relations f) =
      claim_cpes (claim_paper_evidence R) (FinalClaimValidationProposal.claim_ref p)"
    using refs by (metis list.set_map)
  moreover have "distinct (ClaimPacket.claim_paper_evidence_ids pk)"
    using d(1) by (simp add: eq(6) distinct_map_filter)
  moreover have "f \<in> set (upsert_by FinalClaimValidation.claim_id fs f)" using store.mem_upsert [OF d(2)] by blast
  moreover have "claim \<in> set (candidate_claims R) \<and> CandidateClaim.claim_id claim = ClaimPacket.claim_id pk"
    using first_by_SomeD [OF cl] eq(1) by simp
  moreover have "assessment \<in> set (claim_assessments R) \<and> ClaimAssessment.claim_id assessment = ClaimPacket.claim_id pk"
    using first_by_SomeD [OF a] eq(1) fd(1) by simp
  ultimately show ?thesis
    unfolding packet_bound_def ids
    using eq fd(1,2) st dec rel dist by (intro conjI bexI [of _ claim] bexI [of _ assessment] bexI [of _ f]) simp_all
qed

lemma final_claim_promotes:
  assumes v: "valid_snapshot R" and ok: "validate_repository R = Inr rep"
    and acc: "validate_final_claim p R deps invocation = None"
  defines "cref \<equiv> FinalClaimValidationProposal.claim_ref p"
  shows "\<exists>payload f. promote_final_claim_validation R r p = Inr payload \<and> final_validation_from_proposal p = Inr f \<and>
    valid_snapshot (snapshot payload) \<and> registry payload = r \<and>
    first_by FinalClaimValidation.claim_id (final_claim_validations (snapshot payload)) cref = Some f \<and>
    (cref \<in> ClaimPacket.claim_id ` set (claim_packets (snapshot payload)) \<longleftrightarrow>
       FinalClaimValidationProposal.status p = FinalClaimStatus.VALID) \<and>
    ((\<exists>rep'. validate_repository (snapshot payload) = Inr rep') \<longleftrightarrow>
       (FinalClaimValidationProposal.status p = FinalClaimStatus.VALID \<longrightarrow>
         aggregated (evidence_records R) (claim_paper_evidence R) cref))"
proof -
  note c = repository_contractI [OF ok]
  from accepted_final_claimD [OF acc] obtain assessment f packet where k:
    "cref \<in> CandidateClaim.claim_id ` set (candidate_claims R)"
    "first_by ClaimAssessment.claim_id (claim_assessments R) cref = Some assessment"
    "\<forall>relation \<in> set (FinalClaimValidationProposal.paper_relations p). final_relation_issue R deps cref relation = None"
    "distinct (map FinalPaperRelationProposal.claim_paper_evidence_ref (FinalClaimValidationProposal.paper_relations p))"
    "FinalPaperRelationProposal.claim_paper_evidence_ref ` set (FinalClaimValidationProposal.paper_relations p) =
       claim_cpes (claim_paper_evidence R) cref"
    "FinalClaimValidationProposal.status p = FinalClaimStatus.VALID \<Longrightarrow> ClaimAssessment.decision assessment \<noteq> ClaimDecision.REJECT"
    and f: "final_validation_from_proposal p = Inr f" and pk: "claim_packet_for_validation R f = Inr packet"
    and ch: "final_change_issue R cref f packet = None"
    unfolding cref_def by blast
  note fd = final_from_proposalD [OF f] and none = packet_for_validationD(1) [OF pk]
  let ?fs = "upsert_by FinalClaimValidation.claim_id (final_claim_validations R) f"
  let ?ps = "packets_after (claim_packets R) cref packet"
  let ?R = "R\<lparr>final_claim_validations := ?fs, claim_packets := ?ps\<rparr>"
  have id: "FinalClaimValidation.claim_id f = cref" by (simp add: fd(1) cref_def)
  have o: "opt_all (\<lambda>pk. ClaimPacket.claim_id pk = cref) packet"
    using packet_for_validationD(2) [OF pk] id by (cases packet) auto
  have cc: "claim_contract (candidate_claims R) (claim_paper_evidence R) (claim_assessments R)
      (final_claim_validations R) (claim_packets R)" using c by (simp add: repository_contract_def)
  have d: "distinct (map ClaimPacket.claim_id (claim_packets R))"
      "distinct (map FinalClaimValidation.claim_id (final_claim_validations R))"
      "distinct (map ClaimPaperEvidence.claim_paper_evidence_id (claim_paper_evidence R))"
    using cc by (simp_all add: claim_contract_def)
  have "opt_all (\<lambda>x. ClaimPacket.claim_id x = FinalClaimValidation.claim_id f \<and>
      packet_bound (candidate_claims R) (claim_paper_evidence R) (claim_assessments R) ?fs x) packet"
  proof (cases packet)
    case (Some x)
    show ?thesis
      using accepted_packet_bound [OF cc f pk [unfolded Some]] k(2,4-6) o unfolding cref_def id by (simp add: Some cref_def)
  qed simp
  from claim_contract_final [OF cc _ accepted_final_bound [OF d(3) f] this]
  have cc': "claim_contract (candidate_claims R) (claim_paper_evidence R) (claim_assessments R) ?fs ?ps"
    using k(1,3) unfolding id unfolding cref_def by blast
  have pc: "proposition_contract ?ps (claim_paper_evidence R) (corpus_facts R) (process_facts R) (proposition_records R) (semantic_audits R)"
  proof (cases "cited_in_propositions R cref")
    case True
    then have "first_by ClaimPacket.claim_id (claim_packets R) cref = packet" using ch by (simp add: final_change_issue_def)
    then have "?ps = claim_packets R"
      using o store.upsert_stored [of ClaimPacket.claim_id "claim_packets R"]
      by (cases packet) (auto simp: packets_after_def first_by_None_iff filter_id_conv)
    then show ?thesis using c by (simp add: repository_contract_def)
  next
    case False
    show ?thesis
      by (rule proposition_contract_packets [OF _ _ o])
         (use c False in \<open>auto simp: repository_contract_def cited_in_propositions_def list_ex_iff\<close>)
  qed
  have "repository_contract ?R \<longleftrightarrow> evidence_closed (evidence_records R) (claim_paper_evidence R) ?ps"
    using c cc' pc unfolding repository_contract_def by simp
  also have "\<dots> \<longleftrightarrow> (packet \<noteq> None \<longrightarrow> aggregated (evidence_records R) (claim_paper_evidence R) cref)"
    by (rule evidence_closed_packets [OF _ d(1) o]) (use c in \<open>simp add: repository_contract_def\<close>)
  finally have iff: "(\<exists>rep'. validate_repository ?R = Inr rep') \<longleftrightarrow> (packet \<noteq> None \<longrightarrow>
      aggregated (evidence_records R) (claim_paper_evidence R) cref)"
    by (simp only: validate_repository_iff)
  have mem: "x \<in> set ?ps \<longleftrightarrow> packet = Some x \<or> (x \<in> set (claim_packets R) \<and> ClaimPacket.claim_id x \<noteq> cref)" for x
    by (rule mem_packets_after [OF d(1) o])
  have "valid_ClaimPacket x" if "packet = Some x" for x using packet_for_validationD(2) [OF pk that] by blast
  then have vs: "valid_snapshot ?R"
    using v fd(5) by (auto simp: valid_snapshot_def list_all_iff mem store.mem_upsert [OF d(2)])
  have has: "cref \<in> ClaimPacket.claim_id ` set ?ps \<longleftrightarrow> packet \<noteq> None"
    unfolding image_iff Bex_def mem using o by (cases packet) auto
  have pr: "promote_final_claim_validation R r p = Inr \<lparr>snapshot = ?R, registry = r, payload_ids = []\<rparr>"
    by (cases packet) (simp_all add: promote_final_claim_validation_def f pk packets_after_def id)
  show ?thesis
    unfolding pr using f vs iff has none fd(2) id
    by (intro exI [of _ "\<lparr>snapshot = ?R, registry = r, payload_ids = []\<rparr>"] exI [of _ f])
       (simp add: store.lookup_upsert)
qed

text \<open>
  C20: What acceptance of a final claim ensures. When the validation proposal of a final claim was
  accepted against a repository of well-formed records that validates, promotion succeeds and the
  new snapshot is well-formed and holds the proposed validation; it has a packet for the claim
  exactly when the proposal says VALID; and it validates again exactly when, in that case, every
  evidence record of the claim is aggregated by some CPE. That condition is not among the acceptance
  checks: without it the staged validation of the commit is what stops the packet.
\<close>

theorem accepted_final_claim_promotes:
  assumes v: "valid_snapshot R" and ok: "validate_repository R = Inr rep"
    and acc: "validate_final_claim p R deps invocation = None"
  defines "cref \<equiv> FinalClaimValidationProposal.claim_ref p"
  shows "\<exists>payload f. promote_final_claim_validation R r p = Inr payload \<and> final_validation_from_proposal p = Inr f \<and>
    valid_snapshot (snapshot payload) \<and> registry payload = r \<and>
    first_by FinalClaimValidation.claim_id (final_claim_validations (snapshot payload)) cref = Some f \<and>
    (cref \<in> ClaimPacket.claim_id ` set (claim_packets (snapshot payload)) \<longleftrightarrow>
       FinalClaimValidationProposal.status p = FinalClaimStatus.VALID) \<and>
    ((\<exists>rep'. validate_repository (snapshot payload) = Inr rep') \<longleftrightarrow>
       (FinalClaimValidationProposal.status p = FinalClaimStatus.VALID \<longrightarrow>
         aggregated (evidence_records R) (claim_paper_evidence R) cref))"
  unfolding cref_def by (rule final_claim_promotes [OF assms(1-3)])

end
