(* ===== verification/VR_Promote_Queries.thy ===== *)
theory VR_Promote_Queries
  imports VR_Promote_Claims
begin

section \<open>Accepted retrieval queries\<close>

text \<open>
  Acceptance counts how many queries of each claim and intent are proposed against the ordinals
  that are left, in the canonical queries and in the registry. The theorem says that this count is
  enough: the allocations of the promotion cannot run out.
\<close>

subsection \<open>What the capacity check counts\<close>

definition ordinal_key :: "string \<Rightarrow> RetrievalIntent \<Rightarrow> string" where
  "ordinal_key cid i = cid @ '':'' @ intent_code i"

lemma ordinal_key_eq:
  assumes "is_ClaimId cid" "is_ClaimId cid'"
  shows "ordinal_key cid i = ordinal_key cid' i' \<longleftrightarrow> cid = cid' \<and> i = i'"
proof -
  have "length cid = length cid'" using assms by (auto simp: is_ClaimId_iff)
  then show ?thesis by (cases i; cases i') (simp_all add: ordinal_key_def)
qed

lemma RetrievalIntent_value_eq [simp]: "RetrievalIntent_value i = RetrievalIntent_value i' \<longleftrightarrow> i = i'"
  by (cases i; cases i'; simp)

lemma split_colon_key: "is_ClaimId cid \<Longrightarrow> split_colon (cid @ '':'' @ rest) = Some (cid, rest)"
proof -
  assume "is_ClaimId cid"
  then have "\<forall>c \<in> set cid. c \<noteq> CHR '':''" by (fastforce simp: is_ClaimId_iff list_all_iff is_digit_def)
  then have "takeWhile (\<lambda>c. c \<noteq> CHR '':'') (cid @ CHR '':'' # rest) = cid"
    "dropWhile (\<lambda>c. c \<noteq> CHR '':'') (cid @ CHR '':'' # rest) = CHR '':'' # rest"
    by (simp_all add: takeWhile_append2 [of cid] dropWhile_append2 [of cid])
  then show ?thesis by (simp add: split_colon_def)
qed

lemma raise_ordinal_ge: "dict_get d k 0 \<le> dict_get (raise_ordinal key n d) k 0"
  by (simp add: raise_ordinal_def dict_get_update)

lemma scan_queries_mono: "scan_queries qs d = Inr d' \<Longrightarrow> dict_get d k 0 \<le> dict_get d' k 0"
proof (induction qs arbitrary: d)
  case (Cons q qs)
  from Cons.prems obtain key n where "scan_queries qs (raise_ordinal key n d) = Inr d'" by (auto split: sum.splits)
  from Cons.IH [OF this] raise_ordinal_ge [of d k key n] show ?case by linarith
qed simp

lemma scan_registry_mono: "scan_registry items d = Inr d' \<Longrightarrow> dict_get d k 0 \<le> dict_get d' k 0"
proof (induction items arbitrary: d)
  case (Cons item items)
  from Cons.prems obtain key n where "scan_registry items (raise_ordinal key n d) = Inr d'"
    by (cases item) (auto split: option.splits)
  from Cons.IH [OF this] raise_ordinal_ge [of d k key n] show ?case by linarith
qed simp

lemma scan_registry_ge:
  assumes "scan_registry items d = Inr d'" "(ordinal_key cid i, v) \<in> set items" "is_ClaimId cid"
  shows "v \<le> dict_get d' (cid, RetrievalIntent_value i) 0"
  using assms(1,2)
proof (induction items arbitrary: d)
  case (Cons item items)
  obtain key ordinal where item: "item = (key, ordinal)" by (cases item)
  from Cons.prems(1) item obtain c tag intention where s: "split_colon key = Some (c, tag)" "map_of QUERY_INTENT_CODES tag = Some intention"
    and r: "scan_registry items (raise_ordinal (c, intention) ordinal d) = Inr d'"
    by (auto split: option.splits)
  show ?case
  proof (cases "item = (ordinal_key cid i, v)")
    case True
    then have "c = cid" "intention = RetrievalIntent_value i" "ordinal = v"
      using s split_colon_key [OF assms(3)] intent_code_map [of i] item by (auto simp: ordinal_key_def)
    then have "v \<le> dict_get (raise_ordinal (c, intention) ordinal d) (cid, RetrievalIntent_value i) 0"
      by (simp add: raise_ordinal_def dict_get_update)
    also have "\<dots> \<le> dict_get d' (cid, RetrievalIntent_value i) 0" by (rule scan_registry_mono [OF r])
    finally show ?thesis .
  next
    case False
    then show ?thesis using Cons.IH [OF r] Cons.prems(2) by simp
  qed
qed simp

lemma current_ordinals_ge:
  assumes v: "valid_registry r" and o: "current_ordinals R (Some r) = Inr d" and c: "is_ClaimId cid"
    and nn: "0 \<le> dict_get d (cid, RetrievalIntent_value i) 0"
  shows "dict_get (query_ordinals r) (ordinal_key cid i) 0 \<le> dict_get d (cid, RetrievalIntent_value i) 0"
proof (cases "map_of (query_ordinals r) (ordinal_key cid i)")
  case None
  then show ?thesis using nn by (simp add: dict_get_def)
next
  case (Some n)
  from o obtain d0 where "scan_registry (query_ordinals r) d0 = Inr d" by (auto simp: current_ordinals_def split: sum.splits)
  from scan_registry_ge [OF this map_of_SomeD [OF Some] c] Some show ?thesis by (simp add: dict_get_def)
qed

lemma scan_queries_nonneg: "scan_queries qs d = Inr d' \<Longrightarrow> nonneg d \<Longrightarrow> nonneg d'"
  using scan_queries_mono unfolding nonneg_def by (meson order_trans)

lemma current_ordinals_nonneg: "current_ordinals R reg = Inr d \<Longrightarrow> nonneg d"
proof -
  assume "current_ordinals R reg = Inr d"
  then have "\<exists>d0. scan_queries (retrieval_queries R) [] = Inr d0 \<and> (d = d0 \<or> (\<exists>items. scan_registry items d0 = Inr d))"
    by (cases "scan_queries (retrieval_queries R) []"; cases reg) (auto simp: current_ordinals_def)
  then obtain d0 where d0: "scan_queries (retrieval_queries R) [] = Inr d0"
    and "d = d0 \<or> (\<exists>items. scan_registry items d0 = Inr d)" by blast
  moreover have "nonneg d0" by (rule scan_queries_nonneg [OF d0]) (simp add: nonneg_def dict_get_def)
  ultimately show ?thesis using scan_registry_mono unfolding nonneg_def by (meson order_trans)
qed

definition proposed_count :: "RetrievalQueryProposal list \<Rightarrow> string \<Rightarrow> RetrievalIntent \<Rightarrow> int" where
  "proposed_count qs cid i =
     int (length (filter (\<lambda>q. RetrievalQueryProposal.claim_ref q = cid \<and> RetrievalQueryProposal.intent q = i) qs))"

lemma proposed_count_simps:
  "proposed_count [] cid i = 0"
  "proposed_count (q # qs) cid i =
     (if RetrievalQueryProposal.claim_ref q = cid \<and> RetrievalQueryProposal.intent q = i then 1 else 0) + proposed_count qs cid i"
  "0 \<le> proposed_count qs cid i"
  by (simp_all add: proposed_count_def)

lemma capacity_issue_count:
  assumes "capacity_issue d scope qs = None" "q \<in> set qs"
  shows "proposed_count qs (RetrievalQueryProposal.claim_ref q) (RetrievalQueryProposal.intent q) \<le> 99 - dict_get d (query_key q) 0"
proof -
  have "query_key q \<in> set (fromkeys (map query_key qs))" using assms(2) by simp
  then have "\<not> 99 - dict_get d (query_key q) 0 < int (length (filter (\<lambda>p. query_key p = query_key q) qs))"
    using assms(1) by (fastforce simp: capacity_issue_def Let_def query_key_def)
  moreover have "filter (\<lambda>p. query_key p = query_key q) qs =
      filter (\<lambda>p. RetrievalQueryProposal.claim_ref p = RetrievalQueryProposal.claim_ref q \<and>
        RetrievalQueryProposal.intent p = RetrievalQueryProposal.intent q) qs"
    by (simp add: query_key_def)
  ultimately show ?thesis by (simp add: proposed_count_def)
qed

subsection \<open>The promotion loop\<close>

definition promotable :: "RepositorySnapshot \<Rightarrow> CanonicalIdRegistry \<Rightarrow> RetrievalQueryProposal list \<Rightarrow> bool" where
  "promotable R r qs \<longleftrightarrow> valid_registry r \<and>
     (\<forall>q \<in> set qs. RetrievalQueryProposal.claim_ref q \<in> CandidateClaim.claim_id ` set (candidate_claims R) \<and>
        is_ClaimId (RetrievalQueryProposal.claim_ref q) \<and> RetrievalQueryProposal.query_text q \<noteq> '''' \<and>
        dict_get (query_ordinals r) (ordinal_key (RetrievalQueryProposal.claim_ref q) (RetrievalQueryProposal.intent q)) 0 +
          proposed_count qs (RetrievalQueryProposal.claim_ref q) (RetrievalQueryProposal.intent q) \<le> 99)"

text \<open>What the queries of a finished loop are.\<close>

definition promoted_queries ::
  "RepositorySnapshot \<Rightarrow> CanonicalIdRegistry \<Rightarrow> RetrievalQueryProposal list \<Rightarrow> RetrievalQuery list \<Rightarrow> CanonicalIdRegistry \<Rightarrow> bool" where
  "promoted_queries R r qs new r' \<longleftrightarrow>
     map (\<lambda>q. (RetrievalQueryProposal.claim_ref q, RetrievalQueryProposal.intent q, RetrievalQueryProposal.query_text q)) qs =
       map (\<lambda>q. (RetrievalQuery.claim_id q, RetrievalQuery.intent q, RetrievalQuery.query_text q)) new \<and>
     (\<forall>q \<in> set new. valid_RetrievalQuery q \<and> query_bound (candidate_claims R) q \<and>
        \<not> covers r (RetrievalQuery.query_id q) \<and> covers r' (RetrievalQuery.query_id q)) \<and>
     distinct (map RetrievalQuery.query_id new) \<and> valid_registry r' \<and> (\<forall>j. covers r j \<longrightarrow> covers r' j)"

lemma promote_one_query:
  assumes v: "valid_registry r" and c: "is_ClaimId (RetrievalQueryProposal.claim_ref item)"
    and a: "allocate_query (RetrievalQueryProposal.claim_ref item) (RetrievalQueryProposal.intent item) r = Inr (qid, r1)"
    and l: "by_last CandidateClaim.claim_id (candidate_claims R) (RetrievalQueryProposal.claim_ref item) = Some candidate"
    and t: "RetrievalQueryProposal.query_text item \<noteq> ''''"
  defines "q \<equiv> \<lparr>RetrievalQuery.query_id = qid, RetrievalQuery.claim_id = RetrievalQueryProposal.claim_ref item,
                    RetrievalQuery.candidate_claim_hash =
                      VR_Ids.candidate_claim_hash (CandidateClaim.candidate_claim candidate),
                    RetrievalQuery.intent = RetrievalQueryProposal.intent item,
                    RetrievalQuery.query_text = RetrievalQueryProposal.query_text item\<rparr>"
  shows "valid_RetrievalQuery q \<and> query_bound (candidate_claims R) q"
proof -
  from allocate_query_parse [OF v c a] obtain n where n:
    "parse_query_id qid = Inr (RetrievalQueryProposal.claim_ref item, RetrievalIntent_value (RetrievalQueryProposal.intent item), n)"
    "1 \<le> n" "n \<le> 99" "is_QueryId qid" by blast
  have "valid_RetrievalQuery q"
    using n c t candidate_claim_hash_is_Sha256 by (simp add: q_def valid_RetrievalQuery_def RetrievalQuery_validator_def)
  moreover have "query_bound (candidate_claims R) q"
    using n by_last_SomeD [OF l] by (auto simp: q_def query_bound_def)
  ultimately show ?thesis ..
qed

lemma promotable_step:
  assumes p: "promotable R r (item # items)"
  shows "\<exists>qid r1. allocate_query (RetrievalQueryProposal.claim_ref item) (RetrievalQueryProposal.intent item) r = Inr (qid, r1) \<and>
    promotable R r1 items"
proof -
  let ?c = "RetrievalQueryProposal.claim_ref item" and ?i = "RetrievalQueryProposal.intent item"
  let ?n = "dict_get (query_ordinals r) (ordinal_key ?c ?i) 0 + 1"
  from p have v: "valid_registry r" and c: "is_ClaimId ?c" by (simp_all add: promotable_def)
  have "?n - 1 + proposed_count (item # items) ?c ?i \<le> 99" using p by (simp add: promotable_def)
  then have le: "?n \<le> 99" using proposed_count_simps(3) [of items ?c ?i] by (simp add: proposed_count_simps(2))
  let ?r1 = "r\<lparr>query_ordinals := AList.update (ordinal_key ?c ?i) ?n (query_ordinals r)\<rparr>"
  obtain qid where a: "allocate_query ?c ?i r = Inr (qid, ?r1)"
    using le by (simp add: allocate_query_def Let_def ordinal_key_def)
  have "valid_registry ?r1" using allocate_query_fresh [OF v c a] by simp
  moreover have "dict_get (query_ordinals ?r1) (ordinal_key (RetrievalQueryProposal.claim_ref q) (RetrievalQueryProposal.intent q)) 0 +
      proposed_count items (RetrievalQueryProposal.claim_ref q) (RetrievalQueryProposal.intent q) \<le> 99" if "q \<in> set items" for q
  proof -
    have cq: "is_ClaimId (RetrievalQueryProposal.claim_ref q)" using p that by (simp add: promotable_def)
    have "dict_get (query_ordinals r) (ordinal_key (RetrievalQueryProposal.claim_ref q) (RetrievalQueryProposal.intent q)) 0 +
        proposed_count (item # items) (RetrievalQueryProposal.claim_ref q) (RetrievalQueryProposal.intent q) \<le> 99"
      using p that by (simp add: promotable_def)
    then show ?thesis
      using ordinal_key_eq [OF cq c] by (auto simp: proposed_count_simps(2) dict_get_update split: if_splits)
  qed
  ultimately have "promotable R ?r1 items" using p by (simp add: promotable_def)
  with a show ?thesis by blast
qed

lemma promote_queries_loop_ok:
  "promotable R r qs \<Longrightarrow> \<exists>new r' m. promote_queries_loop R r local_map qs = Inr (new, r', m) \<and> promoted_queries R r qs new r'"
proof (induction qs arbitrary: r local_map)
  case Nil
  then show ?case by (simp add: promoted_queries_def promotable_def)
next
  case (Cons item items)
  from promotable_step [OF Cons.prems] obtain qid r1 where
    a: "allocate_query (RetrievalQueryProposal.claim_ref item) (RetrievalQueryProposal.intent item) r = Inr (qid, r1)"
    and p1: "promotable R r1 items" by blast
  have v: "valid_registry r" and c: "is_ClaimId (RetrievalQueryProposal.claim_ref item)"
    and t: "RetrievalQueryProposal.query_text item \<noteq> ''''"
    and k: "RetrievalQueryProposal.claim_ref item \<in> CandidateClaim.claim_id ` set (candidate_claims R)"
    using Cons.prems by (simp_all add: promotable_def)
  from k obtain candidate where l: "by_last CandidateClaim.claim_id (candidate_claims R) (RetrievalQueryProposal.claim_ref item) = Some candidate"
    using by_last_None_iff by (metis not_None_eq)
  note one = promote_one_query [OF v c a l t] and fresh = allocate_query_fresh [OF v c a]
  from Cons.IH [OF p1] obtain new r' m where
    IH: "promote_queries_loop R r1 (AList.update (RetrievalQueryProposal.local_ref item) qid local_map) items = Inr (new, r', m)"
      "promoted_queries R r1 items new r'" by blast
  let ?q = "\<lparr>RetrievalQuery.query_id = qid, RetrievalQuery.claim_id = RetrievalQueryProposal.claim_ref item,
                    RetrievalQuery.candidate_claim_hash =
                      VR_Ids.candidate_claim_hash (CandidateClaim.candidate_claim candidate),
                    RetrievalQuery.intent = RetrievalQueryProposal.intent item,
                    RetrievalQuery.query_text = RetrievalQueryProposal.query_text item\<rparr>"
  have "construct ''RetrievalQuery'' valid_RetrievalQuery RetrievalQuery_validator ?q = Inr ?q"
    unfolding construct_Inr using one by blast
  then have "promote_queries_loop R r local_map (item # items) = Inr (?q # new, r', m)"
    by (simp only: promote_queries_loop.simps a l IH(1) sum.case option.case prod.case)
  moreover have "promoted_queries R r (item # items) (?q # new) r'"
    using IH(2) one fresh unfolding promoted_queries_def by auto
  ultimately show ?case by blast
qed

lemma accepted_promotable:
  assumes v: "valid_snapshot R" and r: "valid_registry r"
    and acc: "validate_retrieval_queries word casefold b R deps (Some r) None invocation = None"
  shows "promotable R r (queries b)"
proof -
  from acc obtain d where o: "current_ordinals R (Some r) = Inr d"
    and t: "\<forall>q \<in> set (queries b). query_text_issue word casefold R (scoped_claims deps) q = None"
    and "\<exists>scope. capacity_issue d scope (pending_queries [] (queries b)) = None"
    by (auto simp: validate_retrieval_queries_def Let_def split: sum.splits)
  then obtain scope where cap: "capacity_issue d scope (queries b) = None" by (auto simp: pending_queries_def)
  have "RetrievalQueryProposal.claim_ref q \<in> CandidateClaim.claim_id ` set (candidate_claims R) \<and>
      is_ClaimId (RetrievalQueryProposal.claim_ref q) \<and> RetrievalQueryProposal.query_text q \<noteq> '''' \<and>
      dict_get (query_ordinals r) (ordinal_key (RetrievalQueryProposal.claim_ref q) (RetrievalQueryProposal.intent q)) 0 +
        proposed_count (queries b) (RetrievalQueryProposal.claim_ref q) (RetrievalQueryProposal.intent q) \<le> 99"
    if q: "q \<in> set (queries b)" for q
  proof -
    have known: "RetrievalQueryProposal.claim_ref q \<in> CandidateClaim.claim_id ` set (candidate_claims R)"
      and terms: "deterministic_retrieval_terms word casefold (RetrievalQueryProposal.query_text q) \<noteq> []"
      using t q by (auto simp: query_text_issue_def Let_def)
    then have c: "is_ClaimId (RetrievalQueryProposal.claim_ref q)"
      using v by (auto simp: valid_snapshot_def list_all_iff valid_CandidateClaim_def)
    have "RetrievalQueryProposal.query_text q \<noteq> ''''"
      using terms by (auto simp: deterministic_retrieval_terms_def)
    moreover have "dict_get (query_ordinals r) (ordinal_key (RetrievalQueryProposal.claim_ref q) (RetrievalQueryProposal.intent q)) 0
        \<le> dict_get d (query_key q) 0"
      unfolding query_key_def
      by (rule current_ordinals_ge [OF r o c]) (use current_ordinals_nonneg [OF o] in \<open>simp add: nonneg_def\<close>)
    ultimately show ?thesis using known c capacity_issue_count [OF cap q] by simp
  qed
  then show ?thesis using r by (simp add: promotable_def)
qed

lemma queries_promote:
  assumes v: "valid_snapshot R" and ok: "validate_repository R = Inr rep"
    and r: "valid_registry r" and cov: "validate_covers_identifiers r (all_identifiers R) = None"
    and acc: "validate_retrieval_queries word casefold b R deps (Some r) None invocation = None"
  shows "\<exists>payload new. promote_retrieval_queries R r b = Inr payload \<and>
    retrieval_queries (snapshot payload) = retrieval_queries R @ new \<and>
    map (\<lambda>q. (RetrievalQueryProposal.claim_ref q, RetrievalQueryProposal.intent q, RetrievalQueryProposal.query_text q)) (queries b) =
      map (\<lambda>q. (RetrievalQuery.claim_id q, RetrievalQuery.intent q, RetrievalQuery.query_text q)) new \<and>
    (\<forall>q \<in> set new. query_bound (candidate_claims R) q) \<and>
    valid_snapshot (snapshot payload) \<and> (\<exists>rep'. validate_repository (snapshot payload) = Inr rep') \<and>
    valid_registry (registry payload) \<and>
    validate_covers_identifiers (registry payload) (all_identifiers (snapshot payload)) = None"
proof -
  note c = repository_contractI [OF ok]
  from promote_queries_loop_ok [OF accepted_promotable [OF v r acc]] obtain new r' m where
    loop: "promote_queries_loop R r [] (queries b) = Inr (new, r', m)" and n: "promoted_queries R r (queries b) new r'" by blast
  let ?R = "R\<lparr>retrieval_queries := retrieval_queries R @ new\<rparr>"
  have r': "valid_registry r'" and mono: "covers r j \<Longrightarrow> covers r' j" for j using n by (auto simp: promoted_queries_def)
  have old: "\<forall>i \<in> set (all_identifiers R). covers r i" using cov covers_identifiers_iff [OF r] by blast
  then have "covers r (RetrievalQuery.query_id q)" if "q \<in> set (retrieval_queries R)" for q
    using that by (simp add: all_identifiers_def)
  moreover have "\<not> covers r (RetrievalQuery.query_id q)" if "q \<in> set new" for q using n that by (simp add: promoted_queries_def)
  ultimately have "RetrievalQuery.query_id ` set (retrieval_queries R) \<inter> RetrievalQuery.query_id ` set new = {}" by fastforce
  then have d: "distinct (map RetrievalQuery.query_id (retrieval_queries R @ new))"
    using n c by (auto simp: promoted_queries_def repository_contract_def retrieval_contract_def)
  have qb: "\<forall>q \<in> set new. query_bound (candidate_claims R) q" using n by (simp add: promoted_queries_def)
  have dc: "distinct (map CandidateClaim.claim_id (candidate_claims R))"
    using c by (simp add: repository_contract_def claim_contract_def)
  have "retrieval_contract (candidate_claims R) (retrieval_queries R @ new) (retrieved_spans R) (retrieval_dispositions R) (papers R)"
    by (rule retrieval_contract_more_queries [OF _ subset_refl dc d qb]) (use c in \<open>simp add: repository_contract_def\<close>)
  moreover have "evidence_contract (candidate_claims R) (retrieval_queries R @ new) (retrieved_spans R) (retrieval_dispositions R) (evidence_records R)"
    by (rule evidence_contract_more [OF _ subset_refl dc d]) (use c in \<open>simp add: repository_contract_def\<close>)
  ultimately have "repository_contract ?R"
    using c unfolding repository_contract_def by simp
  moreover have "valid_snapshot ?R" using v n by (auto simp: valid_snapshot_def list_all_iff promoted_queries_def)
  moreover have "validate_covers_identifiers r' (all_identifiers ?R) = None"
  proof -
    have "set (all_identifiers ?R) = set (all_identifiers R) \<union> RetrievalQuery.query_id ` set new"
      unfolding all_identifiers_def by (simp del: Un_iff) (simp only: Un_ac)
    moreover have "\<forall>i \<in> RetrievalQuery.query_id ` set new. covers r' i" using n by (auto simp: promoted_queries_def)
    ultimately show ?thesis unfolding covers_identifiers_iff [OF r'] using old mono by blast
  qed
  ultimately show ?thesis
    using repository_contract_validates [of ?R] r' qb n loop
    by (simp add: promote_retrieval_queries_def promoted_queries_def)
qed

text \<open>
  C16: Accepted retrieval queries always promote. When a bundle was accepted for allocation against a
  repository of well-formed records that validates, and a registry in its invariant that covers the
  repository's identifiers, no allocation runs out of ordinals: promotion succeeds with one query per
  proposal, of the proposed claim, intent and text and bound by hash to the claim's current text; the
  new snapshot is well-formed, validates again and is covered by the new registry.
\<close>

theorem accepted_queries_promote:
  assumes v: "valid_snapshot R" and ok: "validate_repository R = Inr rep"
    and r: "valid_registry r" and cov: "validate_covers_identifiers r (all_identifiers R) = None"
    and acc: "validate_retrieval_queries word casefold b R deps (Some r) None invocation = None"
  shows "\<exists>payload new. promote_retrieval_queries R r b = Inr payload \<and>
    retrieval_queries (snapshot payload) = retrieval_queries R @ new \<and>
    map (\<lambda>q. (RetrievalQueryProposal.claim_ref q, RetrievalQueryProposal.intent q, RetrievalQueryProposal.query_text q)) (queries b) =
      map (\<lambda>q. (RetrievalQuery.claim_id q, RetrievalQuery.intent q, RetrievalQuery.query_text q)) new \<and>
    (\<forall>q \<in> set new. query_bound (candidate_claims R) q) \<and>
    valid_snapshot (snapshot payload) \<and> (\<exists>rep'. validate_repository (snapshot payload) = Inr rep') \<and>
    valid_registry (registry payload) \<and>
    validate_covers_identifiers (registry payload) (all_identifiers (snapshot payload)) = None"
  by (rule queries_promote [OF assms])

end
