(* ===== verification/VR_Promote_Discovery.thy ===== *)
theory VR_Promote_Discovery
  imports VR_Promote_Claims
begin

section \<open>Accepted discovery bundles\<close>

text \<open>
  A discovery bundle names its themes and claims by local references, which promotion replaces by
  the identifiers it allocates. The first theorem says that this keeps the theme hierarchy and all
  references intact as long as no local reference is spelled like a canonical theme ID; the second
  one what happens when a claim's is: acceptance lets it pass and promotion cannot succeed.
\<close>

subsection \<open>Identifiers for the items of a bundle\<close>

lemma allocate_for_ids:
  assumes v: "valid_registry r" and a: "allocate_for kind items r = Inr (ids, r')"
  shows "length ids = length items \<and> distinct ids \<and> (\<forall>i \<in> set ids. kind_pattern kind i \<and> \<not> covers r i \<and> covers r' i) \<and>
    valid_registry r' \<and> (\<forall>j. covers r j \<longrightarrow> covers r' j)"
proof (cases "items = []")
  case True
  then show ?thesis using assms by (simp add: allocate_for_def)
next
  case False
  then have al: "allocate kind (int (length items)) r = Inr (ids, r')" using a by (simp add: allocate_for_def)
  then have "allocation (AllocateIds kind (int (length items))) r = Inr (ids, r')" by simp
  from allocation_step [OF v _ this] allocate_ids [OF v al] show ?thesis by simp
qed

lemma upds_nth:
  "distinct ks \<Longrightarrow> length ks = length vs \<Longrightarrow> i < length ks \<Longrightarrow> (m(ks [\<mapsto>] vs)) (ks ! i) = Some (vs ! i)"
proof (induction ks arbitrary: m vs i)
  case (Cons k ks)
  then obtain v vs' where vs: "vs = v # vs'" by (cases vs) auto
  show ?case
  proof (cases i)
    case 0
    then show ?thesis using Cons.prems by (simp add: vs map_upds_apply_nontin)
  next
    case (Suc j)
    then have "ks ! j \<in> set ks" using Cons.prems by simp
    then have "ks ! j \<noteq> k" using Cons.prems by auto
    then show ?thesis using Suc Cons.IH [of vs' j] Cons.prems by (simp add: vs)
  qed
qed simp

text \<open>The references of the themes of a bundle and what they are replaced by.\<close>

abbreviation theme_refs :: "DiscoveryProposalBundle \<Rightarrow> string list" where
  "theme_refs b \<equiv> map ThemeProposal.local_ref (DiscoveryProposalBundle.themes b)"

lemma local_map_lookup:
  "map_of (discovery_local_map b tids cids) =
     Map.empty(theme_refs b [\<mapsto>] tids, map CandidateClaimProposal.local_ref (claims b) [\<mapsto>] cids)"
  by (simp add: discovery_local_map_def updates_conv')

lemma resolve_theme:
  assumes "distinct (bundle_refs b)" "length tids = length (DiscoveryProposalBundle.themes b)"
    and "i < length (DiscoveryProposalBundle.themes b)"
  shows "resolve_ref (discovery_local_map b tids cids) (theme_refs b ! i) = tids ! i"
proof -
  have "theme_refs b ! i \<in> set (theme_refs b)" using assms(3) by (metis length_map nth_mem)
  then have "theme_refs b ! i \<notin> set (map CandidateClaimProposal.local_ref (claims b))"
    using assms(1) unfolding bundle_refs_def distinct_append by blast
  moreover have "distinct (theme_refs b)" using assms(1) by (simp add: bundle_refs_def)
  ultimately have "map_of (discovery_local_map b tids cids) (theme_refs b ! i) = Some (tids ! i)"
    using upds_nth [of "theme_refs b" tids i Map.empty] assms(2,3)
    by (simp add: local_map_lookup map_upds_apply_nontin del: nth_map set_map)
  then show ?thesis by (simp add: resolve_ref_def dict_get_def)
qed

lemma resolve_other:
  assumes "ref \<notin> set (bundle_refs b)"
  shows "resolve_ref (discovery_local_map b tids cids) ref = ref"
  using assms
  by (simp add: resolve_ref_def dict_get_def local_map_lookup bundle_refs_def map_upds_apply_nontin)

lemma traverse_result_ok:
  "(\<And>x. x \<in> set xs \<Longrightarrow> \<exists>y. f x = Inr y) \<Longrightarrow> \<exists>ys. traverse_result f xs = Inr ys"
proof (induction xs)
  case (Cons x xs)
  then obtain y ys where "f x = Inr y" "traverse_result f xs = Inr ys" by (meson list.set_intros)
  then show ?case by simp
qed simp

subsection \<open>The parent edges\<close>

lemma parent_by_ref_keys: "set (map fst (parent_by_ref b)) \<subseteq> set (theme_refs b)"
  by (auto simp: parent_by_ref_def split: option.splits if_splits)

lemma distinct_option_keys:
  "distinct (map k xs) \<Longrightarrow> distinct (map fst (concat (map (\<lambda>t. case h t of None \<Rightarrow> [] | Some p \<Rightarrow> if ok p then [(k t, p)] else []) xs)))"
proof (induction xs)
  case (Cons x xs)
  let ?f = "\<lambda>t. case h t of None \<Rightarrow> [] | Some p \<Rightarrow> if ok p then [(k t, p)] else []"
  have "k x \<notin> set (map fst (concat (map ?f xs)))" using Cons.prems by (auto split: option.splits if_splits)
  then show ?case using Cons by (cases "h x") (auto simp del: set_concat set_map)
qed simp

lemma parent_edge:
  assumes "distinct (theme_refs b)" "t \<in> set (DiscoveryProposalBundle.themes b)" "parent_ref t = Some p" "p \<in> set (bundle_refs b)"
  shows "(ThemeProposal.local_ref t, p) \<in> edges.step (parent_by_ref b)"
proof -
  have "distinct (map fst (parent_by_ref b))"
    unfolding parent_by_ref_def by (rule distinct_option_keys) (rule assms(1))
  moreover have "(ThemeProposal.local_ref t, p) \<in> set (parent_by_ref b)"
    using assms(2-4) by (force simp: parent_by_ref_def)
  ultimately show ?thesis by (simp add: edges.step_def)
qed

lemma accepted_edges_wf:
  assumes "validate_discovery b R = None"
  shows "wf (edges.step (parent_by_ref b))"
proof (rule finite_acyclic_wf)
  show "acyclic (edges.step (parent_by_ref b))"
    using assms unfolding chase_none_iff_acyclic [symmetric] by (auto simp: validate_discovery_def Let_def)
  have "edges.step (parent_by_ref b) \<subseteq> set (parent_by_ref b)" by (auto simp: edges.step_def dest: map_of_SomeD)
  then show "finite (edges.step (parent_by_ref b))" by (rule finite_subset) simp
qed

lemma bipartite_wf:
  assumes "E \<subseteq> B \<times> A" "A \<inter> B = {}"
  shows "wf E"
  by (rule wf_subset [OF wf_measure [of "\<lambda>x. if x \<in> A then 1 else 0"]]) (use assms in \<open>auto dest!: subsetD\<close>)

lemma disjoint_mono: "A \<subseteq> W \<Longrightarrow> B \<subseteq> V \<Longrightarrow> V \<inter> W = {} \<Longrightarrow> A \<inter> B = {}"
  by blast

text \<open>Extending a hierarchy by new themes whose parents are old themes or come before them in a
  well-founded relation on what the new identifiers stand for.\<close>

lemma extended_hierarchy:
  assumes old: "theme_contract ts" and d: "distinct (map ThemeRecord.theme_id (ts @ new))"
    and w: "wf E" and step: "\<And>t p. t \<in> set new \<Longrightarrow> parent_theme_id t = Some p \<Longrightarrow>
      p \<in> ThemeRecord.theme_id ` set ts \<or>
      (p \<in> ThemeRecord.theme_id ` set new \<and> (g (ThemeRecord.theme_id t), g p) \<in> E)"
  shows "theme_contract (ts @ new)"
proof -
  let ?O = "ThemeRecord.theme_id ` set ts" and ?W = "ThemeRecord.theme_id ` set new"
  have disj: "?O \<inter> ?W = {}" using d by auto
  let ?N1 = "parent_rel new \<inter> inv_image E g" and ?N2 = "parent_rel new \<inter> (?W \<times> ?O)"
  have split: "parent_rel (ts @ new) = ?N1 \<union> (?N2 \<union> parent_rel ts)"
    using step by (fastforce simp: parent_rel_def)
  have dom: "Domain ?N1 \<subseteq> ?W" "Domain ?N2 \<subseteq> ?W" "Range ?N2 \<subseteq> ?O" by (auto simp: parent_rel_def)
  have ran: "Range (parent_rel ts) \<subseteq> ?O"
    using old by (auto simp: theme_contract_def parent_rel_def)
  have "finite (parent_rel ts)"
  proof -
    have "parent_rel ts \<subseteq> (\<lambda>t. (ThemeRecord.theme_id t, the (parent_theme_id t))) ` set ts" by (force simp: parent_rel_def)
    then show ?thesis by (rule finite_subset) simp
  qed
  then have wo: "wf (parent_rel ts)" using old by (simp add: theme_contract_def finite_acyclic_wf)
  have w1: "wf ?N1" by (rule wf_subset [OF wf_inv_image [OF w, of g]]) blast
  have w2: "wf ?N2" by (rule bipartite_wf [OF _ disj]) blast
  have "wf (?N2 \<union> parent_rel ts)" by (rule wf_Un [OF w2 wo disjoint_mono [OF dom(2) ran disj]])
  moreover have "Domain ?N1 \<inter> Range (?N2 \<union> parent_rel ts) = {}"
    by (rule disjoint_mono [OF dom(1) _ disj]) (use dom(3) ran in \<open>simp add: Range_Un_eq\<close>)
  ultimately have "wf (parent_rel (ts @ new))" unfolding split by (rule wf_Un [OF w1])
  then have "acyclic (parent_rel (ts @ new))" by (rule wf_acyclic)
  moreover have "p \<in> ThemeRecord.theme_id ` set (ts @ new)"
    if "t \<in> set (ts @ new)" "parent_theme_id t = Some p" for t p
    using that old step [of t p] unfolding theme_contract_def set_append image_Un by blast
  ultimately show ?thesis using d unfolding theme_contract_def by blast
qed

subsection \<open>Promotion\<close>

lemma theme_from_proposal_Inr:
  "theme_from_proposal m (item, tid) = Inr t \<longleftrightarrow>
     valid_ThemeRecord t \<and> ThemeRecord.theme_id t = tid \<and> ThemeRecord.title t = ThemeProposal.title item \<and>
     ThemeRecord.description t = ThemeProposal.description item \<and> ThemeRecord.origin t = ThemeProposal.origin item \<and>
     parent_theme_id t = map_option (resolve_ref m) (parent_ref item)"
  unfolding theme_from_proposal_def Let_def prod.case construct_Inr by (cases t) auto

lemma claim_from_proposal_Inr:
  "claim_from_proposal m (item, cid) = Inr c \<longleftrightarrow>
     valid_CandidateClaim c \<and> CandidateClaim.claim_id c = cid \<and> CandidateClaim.theme_id c = resolve_ref m (theme_ref item) \<and>
     CandidateClaim.candidate_claim c = CandidateClaimProposal.candidate_claim item \<and>
     CandidateClaim.origin c = CandidateClaimProposal.origin item \<and>
     CandidateClaim.origin_refs c = CandidateClaimProposal.origin_refs item"
  unfolding claim_from_proposal_def Let_def prod.case construct_Inr by (cases c) auto

text \<open>Where a theme reference of an accepted bundle leads.\<close>

definition refs_free :: "DiscoveryProposalBundle \<Rightarrow> RepositorySnapshot \<Rightarrow> bool" where
  "refs_free b R \<longleftrightarrow> set (bundle_refs b) \<inter> ThemeRecord.theme_id ` set (RepositorySnapshot.themes R) = {}"

lemma resolve_allowed:
  assumes d: "distinct (bundle_refs b)" and l: "length tids = length (DiscoveryProposalBundle.themes b)"
    and free: "refs_free b R" and ok: "ref \<in> allowed_themes b R"
  shows "(\<exists>i < length tids. ref = theme_refs b ! i \<and> resolve_ref (discovery_local_map b tids cids) ref = tids ! i) \<or>
    (ref \<in> ThemeRecord.theme_id ` set (RepositorySnapshot.themes R) \<and>
     resolve_ref (discovery_local_map b tids cids) ref = ref)"
proof (cases "ref \<in> set (theme_refs b)")
  case True
  then obtain i where "i < length (theme_refs b)" "ref = theme_refs b ! i" by (metis in_set_conv_nth)
  then show ?thesis using resolve_theme [OF d l, of i cids] l by auto
next
  case False
  then have r: "ref \<in> ThemeRecord.theme_id ` set (RepositorySnapshot.themes R)"
    using ok unfolding allowed_themes_def by auto
  then have "ref \<notin> set (bundle_refs b)" using free unfolding refs_free_def by blast
  from resolve_other [OF this] r show ?thesis by blast
qed

definition allocated_themes :: "DiscoveryProposalBundle \<Rightarrow> string list \<Rightarrow> string list \<Rightarrow> ThemeRecord list \<Rightarrow> bool" where
  "allocated_themes b tids cids new \<longleftrightarrow>
     traverse_result (theme_from_proposal (discovery_local_map b tids cids)) (zip (DiscoveryProposalBundle.themes b) tids) = Inr new"

lemma allocated_themesD:
  assumes n: "allocated_themes b tids cids new" and l: "length tids = length (DiscoveryProposalBundle.themes b)"
  shows "map ThemeRecord.theme_id new = tids"
    and "i < length tids \<Longrightarrow> theme_from_proposal (discovery_local_map b tids cids) (DiscoveryProposalBundle.themes b ! i, tids ! i) = Inr (new ! i)"
proof -
  have a: "list_all2 (\<lambda>x y. theme_from_proposal (discovery_local_map b tids cids) x = Inr y)
      (zip (DiscoveryProposalBundle.themes b) tids) new"
    using n by (simp add: allocated_themes_def traverse_result_Inr_iff)
  then have len: "length new = length tids" using l by (auto dest: list_all2_lengthD)
  have nth: "theme_from_proposal (discovery_local_map b tids cids) (DiscoveryProposalBundle.themes b ! i, tids ! i) = Inr (new ! i)"
    if "i < length tids" for i
    using list_all2_nthD [OF a, of i] that l by simp
  then show "i < length tids \<Longrightarrow> theme_from_proposal (discovery_local_map b tids cids) (DiscoveryProposalBundle.themes b ! i, tids ! i) = Inr (new ! i)" .
  show "map ThemeRecord.theme_id new = tids"
    by (rule nth_equalityI) (use nth len theme_from_proposal_Inr in auto)
qed

lemma promoted_themes_contract:
  assumes acc: "validate_discovery b R = None" and free: "refs_free b R"
    and old: "theme_contract (RepositorySnapshot.themes R)" and n: "allocated_themes b tids cids new"
    and l: "length tids = length (DiscoveryProposalBundle.themes b)" and dt: "distinct tids"
    and fresh: "set tids \<inter> ThemeRecord.theme_id ` set (RepositorySnapshot.themes R) = {}"
  shows "theme_contract (RepositorySnapshot.themes R @ new)"
proof -
  have d: "distinct (bundle_refs b)" and par: "\<And>t p. t \<in> set (DiscoveryProposalBundle.themes b) \<Longrightarrow> parent_ref t = Some p \<Longrightarrow> p \<in> allowed_themes b R"
    using acc by (auto simp: validate_discovery_def unique_local_refs_def Let_def split: option.splits)
  have dr: "distinct (theme_refs b)" using d by (simp add: bundle_refs_def)
  note ids = allocated_themesD [OF n l]
  define g where "g = the \<circ> map_of (zip tids (theme_refs b))"
  have g: "g (tids ! i) = theme_refs b ! i" if "i < length tids" for i
    using that dt l by (simp add: g_def map_of_zip_nth)
  show ?thesis
  proof (rule extended_hierarchy [OF old _ accepted_edges_wf [OF acc], where g = g])
    show "distinct (map ThemeRecord.theme_id (RepositorySnapshot.themes R @ new))"
      using old fresh dt ids(1) unfolding theme_contract_def map_append distinct_append by auto
    fix t p assume t: "t \<in> set new" and p: "parent_theme_id t = Some p"
    from t obtain i where i: "i < length new" "t = new ! i" by (metis in_set_conv_nth)
    then have it: "i < length tids" using ids(1) by (metis length_map)
    let ?item = "DiscoveryProposalBundle.themes b ! i"
    from ids(2) [OF it] i(2) have tp: "ThemeRecord.theme_id t = tids ! i"
      "parent_theme_id t = map_option (resolve_ref (discovery_local_map b tids cids)) (parent_ref ?item)"
      by (simp_all add: theme_from_proposal_Inr)
    then obtain q where q: "parent_ref ?item = Some q" "p = resolve_ref (discovery_local_map b tids cids) q"
      using p tp(2) by (cases "parent_ref ?item") simp_all
    have item: "?item \<in> set (DiscoveryProposalBundle.themes b)" using it l by simp
    from resolve_allowed [OF d l free par [OF item q(1)], of cids]
    show "p \<in> ThemeRecord.theme_id ` set (RepositorySnapshot.themes R) \<or>
        (p \<in> ThemeRecord.theme_id ` set new \<and> (g (ThemeRecord.theme_id t), g p) \<in> edges.step (parent_by_ref b))"
    proof
      assume "\<exists>j < length tids. q = theme_refs b ! j \<and> resolve_ref (discovery_local_map b tids cids) q = tids ! j"
      then obtain j where j: "j < length tids" "q = theme_refs b ! j" "p = tids ! j" using q(2) by auto
      have qr: "q \<in> set (bundle_refs b)" using j l by (simp add: bundle_refs_def)
      have "(ThemeProposal.local_ref ?item, q) \<in> edges.step (parent_by_ref b)" by (rule parent_edge [OF dr item q(1) qr])
      then have "(g (ThemeRecord.theme_id t), g p) \<in> edges.step (parent_by_ref b)"
        using g [OF it] g [OF j(1)] tp(1) j it l by simp
      moreover have "p \<in> set (map ThemeRecord.theme_id new)" unfolding ids(1) using j(1,3) by simp
      ultimately show ?thesis by simp
    qed (use q(2) in auto)
  qed
qed

lemma accepted_discoveryD:
  assumes "validate_discovery b R = None"
  shows "distinct (bundle_refs b)"
    "t \<in> set (DiscoveryProposalBundle.themes b) \<Longrightarrow> parent_ref t = Some p \<Longrightarrow> p \<in> allowed_themes b R"
    "c \<in> set (claims b) \<Longrightarrow> theme_ref c \<in> allowed_themes b R"
  using assms by (auto simp: validate_discovery_def unique_local_refs_def Let_def split: option.splits)

lemma promoted_themes_valid:
  assumes acc: "validate_discovery b R = None" and free: "refs_free b R" and v: "valid_snapshot R"
    and l: "length tids = length (DiscoveryProposalBundle.themes b)" and pat: "\<forall>i \<in> set tids. is_ThemeId i"
  shows "\<exists>new. allocated_themes b tids cids new"
    and "c \<in> set (claims b) \<Longrightarrow> is_ThemeId (resolve_ref (discovery_local_map b tids cids) (theme_ref c))"
proof -
  have res: "is_ThemeId (resolve_ref (discovery_local_map b tids cids) ref)" if "ref \<in> allowed_themes b R" for ref
    using resolve_allowed [OF accepted_discoveryD(1) [OF acc] l free that, of cids] pat v
    by (auto simp: valid_snapshot_def list_all_iff valid_ThemeRecord_def)
  then show "c \<in> set (claims b) \<Longrightarrow> is_ThemeId (resolve_ref (discovery_local_map b tids cids) (theme_ref c))"
    using accepted_discoveryD(3) [OF acc] by blast
  show "\<exists>new. allocated_themes b tids cids new"
    unfolding allocated_themes_def
  proof (rule traverse_result_ok)
    fix x assume "x \<in> set (zip (DiscoveryProposalBundle.themes b) tids)"
    then obtain item tid where x: "x = (item, tid)" "item \<in> set (DiscoveryProposalBundle.themes b)" "tid \<in> set tids"
      by (metis prod.exhaust set_zip_leftD set_zip_rightD)
    then have "opt_all is_ThemeId (map_option (resolve_ref (discovery_local_map b tids cids)) (parent_ref item))"
      using res accepted_discoveryD(2) [OF acc] by (cases "parent_ref item") auto
    then show "\<exists>y. theme_from_proposal (discovery_local_map b tids cids) x = Inr y"
      using pat x(3) by (simp add: x(1) theme_from_proposal_def construct_def valid_ThemeRecord_def)
  qed
qed

lemma promoted_claims_ok:
  assumes acc: "validate_discovery b R = None" and free: "refs_free b R" and v: "valid_snapshot R"
    and l: "length tids = length (DiscoveryProposalBundle.themes b)" "length cids = length (claims b)"
    and pat: "\<forall>i \<in> set tids. is_ThemeId i" "\<forall>i \<in> set cids. is_ClaimId i"
    and tx: "\<forall>c \<in> set (claims b). CandidateClaimProposal.candidate_claim c \<noteq> ''''"
  shows "\<exists>new. traverse_result (claim_from_proposal (discovery_local_map b tids cids)) (zip (claims b) cids) = Inr new \<and>
    map CandidateClaim.claim_id new = cids \<and> (\<forall>c \<in> set new. valid_CandidateClaim c) \<and>
    CandidateClaim.theme_id ` set new \<subseteq> ThemeRecord.theme_id ` set (RepositorySnapshot.themes R) \<union> set tids"
proof -
  let ?f = "claim_from_proposal (discovery_local_map b tids cids)"
  have "\<exists>y. ?f x = Inr y" if "x \<in> set (zip (claims b) cids)" for x
  proof -
    from that obtain item cid where x: "x = (item, cid)" "item \<in> set (claims b)" "cid \<in> set cids"
      by (metis prod.exhaust set_zip_leftD set_zip_rightD)
    then show ?thesis
      using promoted_themes_valid(2) [OF acc free v l(1) pat(1)] pat(2) tx
      by (simp add: claim_from_proposal_def construct_def valid_CandidateClaim_def)
  qed
  then obtain new where new: "traverse_result ?f (zip (claims b) cids) = Inr new" using traverse_result_ok by metis
  then have a: "list_all2 (\<lambda>x y. ?f x = Inr y) (zip (claims b) cids) new" by (simp add: traverse_result_Inr_iff)
  then have len: "length new = length cids" using l(2) by (auto dest: list_all2_lengthD)
  have nth: "?f (claims b ! i, cids ! i) = Inr (new ! i)" if "i < length cids" for i
    using list_all2_nthD [OF a, of i] that l(2) by simp
  have "map CandidateClaim.claim_id new = cids"
    by (rule nth_equalityI) (use nth len claim_from_proposal_Inr in auto)
  moreover have "valid_CandidateClaim c \<and> CandidateClaim.theme_id c \<in> ThemeRecord.theme_id ` set (RepositorySnapshot.themes R) \<union> set tids"
    if "c \<in> set new" for c
  proof -
    from that obtain i where i: "i < length cids" "c = new ! i" using len by (metis in_set_conv_nth)
    then have "claims b ! i \<in> set (claims b)" using l(2) by simp
    from resolve_allowed [OF accepted_discoveryD(1) [OF acc] l(1) free accepted_discoveryD(3) [OF acc this], of cids]
    show ?thesis using nth [OF i(1)] i(2) by (auto simp: claim_from_proposal_Inr)
  qed
  ultimately show ?thesis using new by blast
qed

text \<open>
  C17: Accepted discovery bundles whose local references are not spelled like themes promote. For a
  well-formed bundle that was accepted against a repository of well-formed records that validates, with
  a covering registry in its invariant, and none of whose local references is spelled like an existing
  theme's identifier (C37 shows what happens when one is), promotion can fail only because
  an identifier space is exhausted; otherwise it adds one theme and one claim per proposal, every
  parent and theme reference leads to a registered theme, the hierarchy stays free of cycles, and
  the new snapshot is well-formed, validates again and is covered by the new registry.
\<close>

theorem accepted_discovery_promotes:
  assumes v: "valid_snapshot R" and ok: "validate_repository R = Inr rep"
    and r: "valid_registry r" and cov: "validate_covers_identifiers r (all_identifiers R) = None"
    and vb: "valid_DiscoveryProposalBundle dump b" and acc: "validate_discovery b R = None" and free: "refs_free b R"
  shows "case promote_discovery R r b of
      Inl e \<Rightarrow> \<exists>x. e = AllocationFailed x
    | Inr payload \<Rightarrow>
        length (RepositorySnapshot.themes (snapshot payload)) = length (RepositorySnapshot.themes R) + length (DiscoveryProposalBundle.themes b) \<and>
        length (candidate_claims (snapshot payload)) = length (candidate_claims R) + length (claims b) \<and>
        valid_snapshot (snapshot payload) \<and> (\<exists>rep'. validate_repository (snapshot payload) = Inr rep') \<and>
        valid_registry (registry payload) \<and>
        validate_covers_identifiers (registry payload) (all_identifiers (snapshot payload)) = None"
proof (cases "promote_discovery R r b")
  case (Inl e)
  have "(\<exists>x. e = AllocationFailed x) \<or> (\<exists>tids r1 cids r2. allocate_for IdKind.THEME (DiscoveryProposalBundle.themes b) r = Inr (tids, r1) \<and>
      allocate_for IdKind.CLAIM (claims b) r1 = Inr (cids, r2))"
    using Inl by (auto simp: promote_discovery_def split: sum.splits)
  moreover have False if a: "allocate_for IdKind.THEME (DiscoveryProposalBundle.themes b) r = Inr (tids, r1)"
      "allocate_for IdKind.CLAIM (claims b) r1 = Inr (cids, r2)" for tids r1 cids r2
  proof -
    note t = allocate_for_ids [OF r a(1)]
    then have "valid_registry r1" by blast
    note cl = allocate_for_ids [OF this a(2)]
    have pat: "\<forall>i \<in> set tids. is_ThemeId i" "\<forall>i \<in> set cids. is_ClaimId i" using t cl by simp_all
    have tx: "\<forall>c \<in> set (claims b). CandidateClaimProposal.candidate_claim c \<noteq> ''''"
      using vb by (auto simp: valid_DiscoveryProposalBundle_def list_within_def list_all_iff valid_CandidateClaimProposal_def
          is_DiscoveryText_def text_within_def utf8_length_def)
    obtain new where "allocated_themes b tids cids new" using promoted_themes_valid(1) [OF acc free v _ pat(1), of cids] t by blast
    moreover obtain newc where "traverse_result (claim_from_proposal (discovery_local_map b tids cids)) (zip (claims b) cids) = Inr newc"
      using promoted_claims_ok [OF acc free v _ _ pat tx] t cl by auto
    ultimately show False using Inl a by (simp add: promote_discovery_def allocated_themes_def Let_def)
  qed
  ultimately have "\<exists>x. e = AllocationFailed x" by blast
  then show ?thesis using Inl by simp
next
  case (Inr payload)
  then obtain tids r1 cids r2 new newc where a: "allocate_for IdKind.THEME (DiscoveryProposalBundle.themes b) r = Inr (tids, r1)"
      "allocate_for IdKind.CLAIM (claims b) r1 = Inr (cids, r2)" and new: "allocated_themes b tids cids new"
      and newc: "traverse_result (claim_from_proposal (discovery_local_map b tids cids)) (zip (claims b) cids) = Inr newc"
      and payload: "payload = \<lparr>snapshot = R\<lparr>RepositorySnapshot.themes := RepositorySnapshot.themes R @ new,
          candidate_claims := candidate_claims R @ newc\<rparr>, registry = r2, payload_ids = discovery_local_map b tids cids\<rparr>"
    by (auto simp: promote_discovery_def allocated_themes_def Let_def split: sum.splits)
  note c = repository_contractI [OF ok]
  note t = allocate_for_ids [OF r a(1)]
  then have r1: "valid_registry r1" by blast
  note cl = allocate_for_ids [OF r1 a(2)]
  then have r2: "valid_registry r2" by blast
  have pat: "\<forall>i \<in> set tids. is_ThemeId i" "\<forall>i \<in> set cids. is_ClaimId i" using t cl by simp_all
  have tx: "\<forall>c \<in> set (claims b). CandidateClaimProposal.candidate_claim c \<noteq> ''''"
    using vb by (auto simp: valid_DiscoveryProposalBundle_def list_within_def list_all_iff valid_CandidateClaimProposal_def
          is_DiscoveryText_def text_within_def utf8_length_def)
  have len: "length tids = length (DiscoveryProposalBundle.themes b)" "length cids = length (claims b)" using t cl by simp_all
  note td = allocated_themesD [OF new len(1)]
  have cd: "map CandidateClaim.claim_id newc = cids" "\<forall>c \<in> set newc. valid_CandidateClaim c"
    "CandidateClaim.theme_id ` set newc \<subseteq> ThemeRecord.theme_id ` set (RepositorySnapshot.themes R) \<union> set tids"
    using promoted_claims_ok [OF acc free v len pat tx] newc by auto
  have old: "\<forall>i \<in> set (all_identifiers R). covers r i" using cov covers_identifiers_iff [OF r] by blast
  then have ot: "covers r i" if "i \<in> ThemeRecord.theme_id ` set (RepositorySnapshot.themes R) \<union> CandidateClaim.claim_id ` set (candidate_claims R)" for i
    using that by (auto simp: all_identifiers_def)
  have ft: "set tids \<inter> ThemeRecord.theme_id ` set (RepositorySnapshot.themes R) = {}" using t ot by blast
  have fc: "set cids \<inter> CandidateClaim.claim_id ` set (candidate_claims R) = {}" using t cl ot by blast
  let ?R = "R\<lparr>RepositorySnapshot.themes := RepositorySnapshot.themes R @ new, candidate_claims := candidate_claims R @ newc\<rparr>"
  have tc: "theme_contract (RepositorySnapshot.themes R @ new)"
    by (rule promoted_themes_contract [OF acc free _ new len(1) _ ft]) (use c t in \<open>auto simp: repository_contract_def\<close>)
  have dc: "distinct (map CandidateClaim.claim_id (candidate_claims R @ newc))"
    using c cl fc cd(1) unfolding map_append distinct_append by (auto simp: repository_contract_def claim_contract_def)
  have sub: "set (candidate_claims R) \<subseteq> set (candidate_claims R @ newc)" by simp
  have ids: "ThemeRecord.theme_id ` set new = set tids" "CandidateClaim.claim_id ` set newc = set cids"
    unfolding td(1) [symmetric] cd(1) [symmetric] by simp_all
  have dq: "distinct (map RetrievalQuery.query_id (retrieval_queries R @ []))"
    using c by (simp add: repository_contract_def retrieval_contract_def)
  have ct: "CandidateClaim.theme_id ` set newc \<subseteq> ThemeRecord.theme_id ` set (RepositorySnapshot.themes R @ new)"
    using cd(3) unfolding set_append image_Un ids(1) .
  have "repository_contract ?R"
    using c tc ct retrieval_contract_more_queries [OF _ sub dc dq] evidence_contract_more [OF _ sub dc dq]
      claim_evidence_contract_more [OF _ sub dc] claim_contract_more [OF _ sub dc]
    unfolding repository_contract_def cross_contract_def by auto
  moreover have "valid_snapshot ?R"
  proof -
    have "valid_ThemeRecord x" if "x \<in> set new" for x
      using that td(2) td(1) by (metis in_set_conv_nth length_map theme_from_proposal_Inr)
    then show ?thesis using v cd(2) by (auto simp: valid_snapshot_def list_all_iff)
  qed
  moreover have "validate_covers_identifiers r2 (all_identifiers ?R) = None"
  proof -
    have "set (all_identifiers ?R) = set (all_identifiers R) \<union> (set tids \<union> set cids)"
      unfolding all_identifiers_def by (simp add: ids del: Un_iff) (simp only: Un_ac)
    then show ?thesis unfolding covers_identifiers_iff [OF r2] using old t cl by blast
  qed
  moreover have "length new = length tids" "length newc = length cids" using td(1) cd(1) by auto
  ultimately show ?thesis
    using Inr r2 len repository_contract_validates [of ?R] by (simp add: payload)
qed

end
