(* ===== verification/VR_Promote_Samples.thy ===== *)
theory VR_Promote_Samples
  imports VR_Promote_Final VR_Promote_Queries VR_Promote_Discovery
begin

section \<open>The promotion theorems on the sample repository\<close>

text \<open>
  Earlier stages of the sample repository: its retrieval and evidence, with the claim-level records
  given, and no packet, proposition or sentence. The proposals are the ones that lead to the next
  stage, so the theorems on accepted proposals apply to each of them.
\<close>

definition staged :: "ClaimPaperEvidence list \<Rightarrow> ClaimAssessment list \<Rightarrow> RepositorySnapshot" where
  "staged cpes assessments = sample\<lparr>claim_paper_evidence := cpes, claim_assessments := assessments,
     final_claim_validations := [], claim_packets := [], proposition_records := [], semantic_audits := [],
     rendered_sentences := [], rendered_sentence_audits := []\<rparr>"

lemma staged_valid: "set cpes \<subseteq> {s_cpe} \<Longrightarrow> set as \<subseteq> {s_assessment} \<Longrightarrow> valid_snapshot (staged cpes as)"
  using sample_valid by (auto simp: valid_snapshot_def staged_def sample_def list_all_iff)

lemma staged_validates:
  assumes "set cpes \<subseteq> {s_cpe}" "distinct cpes" "set as \<subseteq> {s_assessment}" "distinct as"
  shows "\<exists>r. validate_repository (staged cpes as) = Inr r"
proof -
  have cpes: "cpes = [] \<or> cpes = [s_cpe]" "as = [] \<or> as = [s_assessment]"
    using assms by (cases cpes; cases "tl cpes"; auto) (use assms in \<open>cases as; cases "tl as"; auto\<close>)
  have e: "claim_evidence_contract (candidate_claims sample) (papers sample) (evidence_records sample) cpes"
    using cpes(1) sample_contract_claims(1) by (auto simp: claim_evidence_contract_def sample_def)
  have c: "claim_contract (candidate_claims sample) cpes as [] []"
    using cpes by (auto simp: claim_contract_def sample_def s_assessment_def s_claim_def s_cpe_def)
  have p: "distinct (map ClaimPaperEvidence.claim_paper_evidence_id cpes)" using cpes(1) by auto
  have f: "corpus_facts sample = []" "process_facts sample = []" by (simp_all add: sample_def)
  show ?thesis
    unfolding validate_repository_iff repository_contract_def
    using sample_contract_base sample_contract_retrieval sample_contract_evidence e c p f
    by (simp add: staged_def evidence_closed_def proposition_contract_def prose_contract_def grouped_by_def)
qed

lemma staged_fields [simp]:
  "candidate_claims (staged cpes as) = [s_claim]" "papers (staged cpes as) = [s_paper]"
  "evidence_records (staged cpes as) = [s_evidence]" "claim_paper_evidence (staged cpes as) = cpes"
  "claim_assessments (staged cpes as) = as" "final_claim_validations (staged cpes as) = []"
  "claim_packets (staged cpes as) = []" "proposition_records (staged cpes as) = []"
  by (simp_all add: staged_def sample_def)

lemma sample_keys [simp]:
  "CandidateClaim.claim_id s_claim = ''C0001''" "Paper.paper_id s_paper = ''P0001''" "evidence_id s_evidence = ''E0001''"
  "EvidenceRecord.claim_id s_evidence = ''C0001''" "EvidenceRecord.paper_id s_evidence = ''P0001''"
  "EvidenceRecord.relation_to_candidate s_evidence = EvidenceRelation.SUPPORTS"
  "ClaimPaperEvidence.claim_paper_evidence_id s_cpe = ''CPE-C0001-P0001''" "ClaimPaperEvidence.claim_id s_cpe = ''C0001''"
  "ClaimPaperEvidence.paper_id s_cpe = ''P0001''" "ClaimAssessment.claim_id s_assessment = ''C0001''"
  "ClaimAssessment.decision s_assessment = ClaimDecision.RETAIN" "FinalClaimValidation.claim_id s_final = ''C0001''"
  by (simp_all add: sample_records)

subsection \<open>Claim-paper evidence, assessment and final validation\<close>

definition p_cpe :: ClaimPaperEvidenceProposal where
  "p_cpe = \<lparr>ClaimPaperEvidenceProposal.claim_ref = ''C0001'', ClaimPaperEvidenceProposal.paper_ref = ''P0001'',
     evidence_refs = [''E0001''], ClaimPaperEvidenceProposal.relation_to_candidate = AggregateRelation.SUPPORTS,
     ClaimPaperEvidenceProposal.component_relations =
       \<lparr>supports = [''E0001''], contradicts = [], qualifies = [], contextual = [], unclear = []\<rparr>,
     ClaimPaperEvidenceProposal.strength = EvidenceStrength.HIGH,
     ClaimPaperEvidenceProposal.within_paper_consistency = WithinPaperConsistency.CONSISTENT,
     ClaimPaperEvidenceProposal.assessment_note = ''n''\<rparr>"

definition p_assessment :: ClaimAssessmentProposal where
  "p_assessment = \<lparr>ClaimAssessmentProposal.claim_ref = ''C0001'',
     ClaimAssessmentProposal.aggregate_strength = AggregateStrength.HIGH,
     ClaimAssessmentProposal.evidence_sufficiency = EvidenceSufficiency.SUFFICIENT,
     ClaimAssessmentProposal.decision = ClaimDecision.RETAIN, ClaimAssessmentProposal.rejection_basis = None,
     ClaimAssessmentProposal.support_summary = ''s'', ClaimAssessmentProposal.contradiction_summary = ''c'',
     ClaimAssessmentProposal.qualification_summary = ''q'', ClaimAssessmentProposal.reason = ''r''\<rparr>"

definition p_final :: FinalClaimValidationProposal where
  "p_final = \<lparr>FinalClaimValidationProposal.claim_ref = ''C0001'', FinalClaimValidationProposal.final_claim = ''final'',
     FinalClaimValidationProposal.status = FinalClaimStatus.VALID,
     FinalClaimValidationProposal.paper_relations = [\<lparr>FinalPaperRelationProposal.claim_paper_evidence_ref = ''CPE-C0001-P0001'',
       FinalPaperRelationProposal.paper_ref = ''P0001'',
       FinalPaperRelationProposal.relation_to_final_claim = AggregateRelation.SUPPORTS\<rparr>],
     FinalClaimValidationProposal.scope_check = ValidationCheckResult.PASS,
     FinalClaimValidationProposal.certainty_check = ValidationCheckResult.PASS,
     FinalClaimValidationProposal.causal_language_check = ValidationCheckResult.PASS,
     FinalClaimValidationProposal.numerical_claim_check = ValidationCheckResult.NOT_APPLICABLE,
     FinalClaimValidationProposal.notes = ''n''\<rparr>"

lemma p_cpe_record: "claim_paper_evidence_from_proposal p_cpe = Inr s_cpe"
proof -
  have "allocate_cpe_id ''C0001'' ''P0001'' = Inr ''CPE-C0001-P0001''" by code_simp
  moreover have "valid_ClaimPaperEvidence s_cpe" using sample_valid by (simp add: valid_snapshot_def sample_def)
  ultimately show ?thesis by (simp add: claim_paper_evidence_from_proposal_def p_cpe_def s_cpe_def)
qed

lemma p_assessment_record: "claim_assessment_from_proposal p_assessment = Inr s_assessment"
  using sample_valid by (simp add: claim_assessment_from_proposal_def p_assessment_def valid_snapshot_def sample_def s_assessment_def)

lemma p_final_record: "final_validation_from_proposal p_final = Inr s_final"
  using sample_valid
  by (simp add: final_validation_from_proposal_def p_final_def valid_snapshot_def sample_def s_final_def final_relation_of_def)

theorem accepted_evidence_promotes_witness:
  "\<exists>payload. promote_claim_paper_evidence (staged [] []) sample_registry p_cpe = Inr payload \<and>
     valid_snapshot (snapshot payload) \<and> (\<exists>r. validate_repository (snapshot payload) = Inr r)"
proof -
  have "complete_evidence_refs (staged [] []) ''C0001'' ''P0001'' = {''E0001''}" by (auto simp: complete_evidence_refs_def)
  then have "validate_claim_paper_evidence p_cpe (staged [] []) None = None"
    using p_cpe_record
    by (simp add: validate_claim_paper_evidence_def Let_def)
       (simp add: p_cpe_def require_dependency_scope_def evidence_ref_issue_def by_last_def
        grouped_def component_issue_def reject_if_def and_then_def evidence_change_issue_def)
  moreover obtain r where "validate_repository (staged [] []) = Inr r" using staged_validates [of "[]" "[]"] by auto
  moreover have "canonical_cpes (staged [] [])" by (simp add: canonical_cpes_def staged_def)
  ultimately show ?thesis using accepted_evidence_promotes [OF staged_valid [of "[]" "[]"]] by (metis empty_set empty_subsetI)
qed

theorem accepted_assessment_promotes_witness:
  "\<exists>payload. promote_claim_assessment (staged [s_cpe] []) sample_registry p_assessment = Inr payload \<and>
     first_by ClaimAssessment.claim_id (claim_assessments (snapshot payload)) ''C0001'' = Some s_assessment \<and>
     (\<exists>r. validate_repository (snapshot payload) = Inr r)"
proof -
  have "validate_claim_assessment p_assessment (staged [s_cpe] []) None = None"
    using p_assessment_record
    by (simp add: validate_claim_assessment_def Let_def p_assessment_def
        require_dependency_scope_def has_claim_descendants_def cited_in_propositions_def)
  moreover obtain r where "validate_repository (staged [s_cpe] []) = Inr r" using staged_validates [of "[s_cpe]" "[]"] by auto
  moreover have "valid_snapshot (staged [s_cpe] [])" by (rule staged_valid) simp_all
  moreover have "ClaimAssessmentProposal.claim_ref p_assessment = ''C0001''" by (simp add: p_assessment_def)
  ultimately show ?thesis using accepted_assessment_promotes p_assessment_record by (metis sum.inject(2))
qed

theorem accepted_final_claim_promotes_witness:
  "\<exists>payload. promote_final_claim_validation (staged [s_cpe] [s_assessment]) sample_registry p_final = Inr payload \<and>
     ''C0001'' \<in> ClaimPacket.claim_id ` set (claim_packets (snapshot payload)) \<and>
     (\<exists>r. validate_repository (snapshot payload) = Inr r)"
proof -
  let ?R = "staged [s_cpe] [s_assessment]"
  have "valid_ClaimPacket s_packet" using sample_valid by (simp add: valid_snapshot_def sample_def)
  then have pk: "claim_packet_for_validation ?R s_final = Inr (Some s_packet)"
    by (simp add: claim_packet_for_validation_def s_final_def s_packet_def staged_def sample_def s_claim_def s_assessment_def
        s_cpe_def first_by_def construct_def)
  have "claim_cpes (claim_paper_evidence ?R) ''C0001'' = {''CPE-C0001-P0001''}"
    by (auto simp: claim_cpes_def)
  then have "validate_final_claim p_final ?R None None = None"
    using p_final_record pk
    by (simp add: validate_final_claim_def Let_def p_final_def
        final_invocation_issue_def require_dependency_scope_def final_relation_issue_def by_last_def first_by_def
        final_change_issue_def cited_in_propositions_def reject_if_def and_then_def)
  moreover obtain r where "validate_repository ?R = Inr r" using staged_validates [of "[s_cpe]" "[s_assessment]"] by auto
  moreover have "valid_snapshot ?R" by (rule staged_valid) simp_all
  moreover have "FinalClaimValidationProposal.claim_ref p_final = ''C0001''"
      "FinalClaimValidationProposal.status p_final = FinalClaimStatus.VALID" by (simp_all add: p_final_def)
  moreover have "aggregated (evidence_records ?R) (claim_paper_evidence ?R) ''C0001''"
    by (simp add: aggregated_def staged_def sample_def s_evidence_def s_cpe_def)
  ultimately show ?thesis using accepted_final_claim_promotes [of ?R r p_final None None sample_registry] by auto
qed

subsection \<open>Retrieval queries\<close>

definition ascii_word :: "nat \<Rightarrow> bool" where
  "ascii_word c \<longleftrightarrow> 48 \<le> c \<and> c \<le> 57 \<or> 65 \<le> c \<and> c \<le> 90 \<or> 97 \<le> c \<and> c \<le> 122"

definition p_queries :: RetrievalQueryProposalBundle where
  "p_queries = \<lparr>queries = [
     \<lparr>RetrievalQueryProposal.local_ref = ''q1'', RetrievalQueryProposal.claim_ref = ''C0001'',
      RetrievalQueryProposal.intent = RetrievalIntent.SUPPORT, RetrievalQueryProposal.query_text = ''soil carbon''\<rparr>,
     \<lparr>RetrievalQueryProposal.local_ref = ''q2'', RetrievalQueryProposal.claim_ref = ''C0001'',
      RetrievalQueryProposal.intent = RetrievalIntent.BOUNDARY, RetrievalQueryProposal.query_text = ''dry land''\<rparr>]\<rparr>"

lemma p_queries_accepted:
  "validate_retrieval_queries ascii_word (\<lambda>t. t) p_queries sample None (Some sample_registry) None None = None"
proof -
  have "deterministic_retrieval_terms ascii_word (\<lambda>t. t) ''soil carbon'' \<noteq> []"
    "deterministic_retrieval_terms ascii_word (\<lambda>t. t) ''dry land'' \<noteq> []" by code_simp+
  moreover have "utf8_length ''soil carbon'' = 11" "utf8_length ''dry land'' = 8" by code_simp+
  moreover have "current_ordinals sample (Some sample_registry) = Inr [((''C0001'', ''support''), 1)]"
  proof -
    have "split_colon ''C0001:SUP'' = Some (''C0001'', ''SUP'')" "map_of QUERY_INTENT_CODES ''SUP'' = Some ''support''" by code_simp+
    then show ?thesis
      by (simp add: current_ordinals_def sample_def s_query_def sample_parse raise_ordinal_def dict_get_def sample_registry_def)
  qed
  moreover have "capacity_issue [((''C0001'', ''support''), 1)] [''C0001''] (queries p_queries) = None" by code_simp
  ultimately show ?thesis
    by (simp add: validate_retrieval_queries_def scoped_claims_def p_queries_def query_text_issue_def
        MAX_RETRIEVAL_QUERY_CHARS_def MAX_RETRIEVAL_QUERY_UTF8_BYTES_def accepted_issue_def sample_def s_claim_def
        pending_queries_def invocation_issue_def reject_if_def and_then_def)
qed

theorem accepted_queries_promote_witness:
  "\<exists>payload new. promote_retrieval_queries sample sample_registry p_queries = Inr payload \<and>
     retrieval_queries (snapshot payload) = s_query # new \<and>
     map RetrievalQuery.intent new = [RetrievalIntent.SUPPORT, RetrievalIntent.BOUNDARY] \<and>
     (\<exists>r. validate_repository (snapshot payload) = Inr r)"
proof -
  obtain r where r: "validate_repository sample = Inr r" using sample_validates ..
  from accepted_queries_promote [OF sample_valid r sample_registry_valid sample_covered p_queries_accepted]
  obtain payload new where p: "promote_retrieval_queries sample sample_registry p_queries = Inr payload"
    "retrieval_queries (snapshot payload) = retrieval_queries sample @ new" "\<exists>r. validate_repository (snapshot payload) = Inr r"
    "map (\<lambda>q. (RetrievalQueryProposal.claim_ref q, RetrievalQueryProposal.intent q, RetrievalQueryProposal.query_text q)) (queries p_queries) =
      map (\<lambda>q. (RetrievalQuery.claim_id q, RetrievalQuery.intent q, RetrievalQuery.query_text q)) new" by blast
  have "map RetrievalQuery.intent new = [RetrievalIntent.SUPPORT, RetrievalIntent.BOUNDARY]"
    using arg_cong [OF p(4), of "map (fst \<circ> snd)"] by (simp add: p_queries_def comp_def)
  moreover have "retrieval_queries sample = [s_query]" by (simp add: sample_def)
  ultimately show ?thesis using p(1-3) by auto
qed

subsection \<open>Discovery\<close>

definition p_discovery :: DiscoveryProposalBundle where
  "p_discovery = \<lparr>DiscoveryProposalBundle.themes = [
      \<lparr>ThemeProposal.local_ref = ''child'', ThemeProposal.title = ''c'', ThemeProposal.description = ''d'',
       ThemeProposal.origin = Origin.HUMAN, parent_ref = Some ''root''\<rparr>,
      \<lparr>ThemeProposal.local_ref = ''root'', ThemeProposal.title = ''r'', ThemeProposal.description = ''d'',
       ThemeProposal.origin = Origin.HUMAN, parent_ref = Some ''T0001''\<rparr>],
    claims = [\<lparr>CandidateClaimProposal.local_ref = ''claim1'', theme_ref = ''child'',
       CandidateClaimProposal.candidate_claim = ''new claim'', CandidateClaimProposal.origin = Origin.HUMAN,
       CandidateClaimProposal.origin_refs = []\<rparr>],
    source_bindings = [], terminology = [], paper_candidates = [], controversies = [], gaps = [],
    paper_concept_sketches = [], coverage_findings = [], input_dispositions = []\<rparr>"

lemma p_discovery_valid: "valid_DiscoveryProposalBundle (\<lambda>_. []) p_discovery"
proof -
  have "is_LocalRef ''child''" "is_LocalRef ''root''" "is_LocalRef ''claim1''" "is_ObjectRef ''root''"
    "is_ObjectRef ''child''" "is_ObjectRef ''T0001''" by code_simp+
  moreover have "utf8_length ''c'' = 1" "utf8_length ''d'' = 1" "utf8_length ''r'' = 1" "utf8_length ''new claim'' = 9" by code_simp+
  ultimately show ?thesis
    by (simp add: valid_DiscoveryProposalBundle_def p_discovery_def list_within_def MAX_DISCOVERY_ITEMS_def
        valid_ThemeProposal_def valid_CandidateClaimProposal_def is_DiscoveryText_def text_within_def
        MAX_DISCOVERY_TEXT_CHARS_def MAX_DISCOVERY_LOCATORS_PER_ITEM_def CandidateClaimProposal_validator_def
        validate_unique_def DiscoveryProposalBundle_validator_def MAX_DISCOVERY_PROPOSAL_UTF8_BYTES_def)
qed

lemma p_discovery_accepted: "validate_discovery p_discovery sample = None"
  by (simp add: validate_discovery_def unique_local_refs_def bundle_refs_def allowed_themes_def parent_by_ref_def
      p_discovery_def sample_def s_theme_def chase.simps reject_if_def and_then_def)

theorem accepted_discovery_promotes_witness:
  "\<exists>payload. promote_discovery sample sample_registry p_discovery = Inr payload \<and>
     length (RepositorySnapshot.themes (snapshot payload)) = 3 \<and> valid_snapshot (snapshot payload) \<and>
     (\<exists>r. validate_repository (snapshot payload) = Inr r)"
proof -
  obtain r where r: "validate_repository sample = Inr r" using sample_validates ..
  have free: "refs_free p_discovery sample"
    by (simp add: refs_free_def bundle_refs_def p_discovery_def sample_def s_theme_def)
  have "allocate_for IdKind.THEME (DiscoveryProposalBundle.themes p_discovery) sample_registry =
      Inr ([''T0002'', ''T0003''], sample_registry\<lparr>counters := AList.update IdKind.THEME 3 (counters sample_registry)\<rparr>)"
    by code_simp
  moreover have "allocate_for IdKind.CLAIM (claims p_discovery)
        (sample_registry\<lparr>counters := AList.update IdKind.THEME 3 (counters sample_registry)\<rparr>) =
      Inr ([''C0002''], sample_registry\<lparr>counters := AList.update IdKind.CLAIM 2 (AList.update IdKind.THEME 3 (counters sample_registry))\<rparr>)"
    by code_simp
  ultimately have "promote_discovery sample sample_registry p_discovery \<noteq> Inl (AllocationFailed x)" for x
    by (simp add: promote_discovery_def Let_def split: sum.splits)
  then obtain payload where p: "promote_discovery sample sample_registry p_discovery = Inr payload"
    using accepted_discovery_promotes [OF sample_valid r sample_registry_valid sample_covered p_discovery_valid
        p_discovery_accepted free] by (cases "promote_discovery sample sample_registry p_discovery") auto
  have "length (RepositorySnapshot.themes sample) = 1" "length (DiscoveryProposalBundle.themes p_discovery) = 2"
    by (simp_all add: sample_def p_discovery_def)
  then show ?thesis
    using accepted_discovery_promotes [OF sample_valid r sample_registry_valid sample_covered p_discovery_valid
        p_discovery_accepted free] p by simp
qed

end
