(* ===== verification/VR_Promote_Gaps.thy ===== *)
theory VR_Promote_Gaps
  imports VR_Promote_Samples
begin

section \<open>Where acceptance and promotion part ways\<close>

text \<open>
  Three statements about the seam between the acceptance checks, the promotion handlers and the
  interpretation of a proposal: a discovery bundle that is accepted and can never be promoted, a
  promotion path that no well-formed proposal reaches, and the agreement of the two release
  decisions for semantic audits.
\<close>

subsection \<open>A claim reference that shadows a theme\<close>

lemma resolve_claim_ref:
  assumes "distinct (bundle_refs b)" "length cids = length (claims b)"
    and "ref \<in> set (map CandidateClaimProposal.local_ref (claims b))"
  shows "resolve_ref (discovery_local_map b tids cids) ref \<in> set cids"
proof -
  let ?crefs = "map CandidateClaimProposal.local_ref (claims b)"
  obtain i where i: "i < length ?crefs" "ref = ?crefs ! i" using assms(3) by (metis in_set_conv_nth)
  have "distinct ?crefs" using assms(1) by (simp add: bundle_refs_def)
  then have "map_of (discovery_local_map b tids cids) ref = Some (cids ! i)"
    unfolding local_map_lookup i(2) by (intro upds_nth) (use i assms(2) in simp_all)
  then show ?thesis using i(1) assms(2) by (simp add: resolve_ref_def dict_get_def)
qed

lemma claim_id_no_theme_id: "is_ClaimId s \<Longrightarrow> \<not> is_ThemeId s"
  by (auto simp: is_ClaimId_def is_ThemeId_def tagged_def starts_with_def split: option.splits)

text \<open>
  C37: A discovery bundle cannot be promoted when a claim's theme reference is spelled like the
  local reference of a proposed claim: the reference resolves to a claim ID, which is no theme ID,
  and the record is refused. Acceptance lets such a bundle pass when the reference is also a
  canonical theme ID.
\<close>

theorem shadowed_theme_ref_never_promotes:
  assumes r: "valid_registry r" and d: "unique_local_refs b = None"
    and c: "c \<in> set (claims b)" and sh: "theme_ref c \<in> set (map CandidateClaimProposal.local_ref (claims b))"
  shows "\<exists>e. promote_discovery R r b = Inl e"
proof (rule ccontr)
  assume "\<nexists>e. promote_discovery R r b = Inl e"
  then obtain payload where "promote_discovery R r b = Inr payload" by (cases "promote_discovery R r b") auto
  then obtain tids r1 cids r2 newc where a: "allocate_for IdKind.THEME (DiscoveryProposalBundle.themes b) r = Inr (tids, r1)"
      "allocate_for IdKind.CLAIM (claims b) r1 = Inr (cids, r2)"
    and newc: "traverse_result (claim_from_proposal (discovery_local_map b tids cids)) (zip (claims b) cids) = Inr newc"
    by (auto simp: promote_discovery_def Let_def split: sum.splits)
  have "valid_registry r1" using allocate_for_ids [OF r a(1)] by blast
  note cl = allocate_for_ids [OF this a(2)]
  then have len: "length cids = length (claims b)" and pat: "\<forall>i \<in> set cids. is_ClaimId i" by simp_all
  have "distinct (bundle_refs b)" using d by (simp add: unique_local_refs_def)
  then have "is_ClaimId (resolve_ref (discovery_local_map b tids cids) (theme_ref c))"
    using resolve_claim_ref [OF _ len sh] pat by blast
  then have no: "\<not> is_ThemeId (resolve_ref (discovery_local_map b tids cids) (theme_ref c))" by (rule claim_id_no_theme_id)
  obtain i where i: "i < length (claims b)" "c = claims b ! i" using c by (metis in_set_conv_nth)
  have "list_all2 (\<lambda>x y. claim_from_proposal (discovery_local_map b tids cids) x = Inr y) (zip (claims b) cids) newc"
    using newc by (simp add: traverse_result_Inr_iff)
  from list_all2_nthD [OF this, of i] show False
    using i len no by (auto simp: claim_from_proposal_Inr valid_CandidateClaim_def)
qed

definition p_shadow :: DiscoveryProposalBundle where
  "p_shadow = p_discovery\<lparr>DiscoveryProposalBundle.themes := [],
     claims := [\<lparr>CandidateClaimProposal.local_ref = ''T0001'', theme_ref = ''T0001'',
       CandidateClaimProposal.candidate_claim = ''new claim'', CandidateClaimProposal.origin = Origin.HUMAN,
       CandidateClaimProposal.origin_refs = []\<rparr>]\<rparr>"

lemma p_shadow_valid: "valid_DiscoveryProposalBundle (\<lambda>_. []) p_shadow"
proof -
  have "is_LocalRef ''T0001''" "is_ObjectRef ''T0001''" "is_DiscoveryText ''new claim''"
    by (simp_all add: is_LocalRef_def is_ObjectRef_def is_DiscoveryText_def text_within_def utf8_length_def is_alpha_def
        is_digit_def MAX_DISCOVERY_TEXT_CHARS_def)
  then show ?thesis
    by (simp add: valid_DiscoveryProposalBundle_def p_shadow_def p_discovery_def list_within_def MAX_DISCOVERY_ITEMS_def
        valid_CandidateClaimProposal_def MAX_DISCOVERY_LOCATORS_PER_ITEM_def CandidateClaimProposal_validator_def
        validate_unique_def DiscoveryProposalBundle_validator_def MAX_DISCOVERY_PROPOSAL_UTF8_BYTES_def)
qed

theorem shadowed_theme_ref_never_promotes_witness:
  "valid_DiscoveryProposalBundle (\<lambda>_. []) p_shadow \<and> validate_discovery p_shadow sample = None \<and>
   (\<exists>e. promote_discovery sample sample_registry p_shadow = Inl e)"
proof -
  have acc: "validate_discovery p_shadow sample = None"
    by (simp add: validate_discovery_def unique_local_refs_def bundle_refs_def allowed_themes_def parent_by_ref_def
        p_shadow_def p_discovery_def sample_def s_theme_def reject_if_def and_then_def)
  have "unique_local_refs p_shadow = None"
    by (simp add: unique_local_refs_def bundle_refs_def p_shadow_def p_discovery_def)
  then have "\<exists>e. promote_discovery sample sample_registry p_shadow = Inl e"
    by (rule shadowed_theme_ref_never_promotes [OF sample_registry_valid, where c = "hd (claims p_shadow)"])
       (simp_all add: p_shadow_def)
  then show ?thesis using acc p_shadow_valid by blast
qed

subsection \<open>Semantic audits\<close>

lemma proposition_id_canonical: "is_PropositionId s \<Longrightarrow> has_canonical_numeric_id s ''PR''"
  by (auto simp: is_PropositionId_def tagged_def has_canonical_numeric_id_def digits_at_least_def removeprefix_def Let_def)

text \<open>
  No well-formed semantic audit proposal passes the acceptance check of
  \<open>promote_semantic_audit\<close>: a proposal may not name a canonical proposition, and the propositions of
  a repository of well-formed records have no other names.
\<close>

theorem semantic_audit_promotion_unreachable:
  assumes p: "valid_SemanticAuditProposal p" and v: "valid_snapshot R"
  shows "validate_semantic_audit p R deps =
    Some (ProposalValidationError (''unknown proposition target '' @ SemanticAuditProposal.target_ref p))"
proof -
  have "\<not> has_canonical_numeric_id (SemanticAuditProposal.target_ref p) ''PR''"
    using p by (simp add: valid_SemanticAuditProposal_def SemanticAuditProposal_validator_def)
  moreover have "has_canonical_numeric_id (proposition_id x) ''PR''" if "x \<in> set (proposition_records R)" for x
    using that v by (auto simp: valid_snapshot_def list_all_iff valid_PropositionRecord_def intro: proposition_id_canonical)
  ultimately have "first_by proposition_id (proposition_records R) (SemanticAuditProposal.target_ref p) = None"
    by (auto simp: first_by_None_iff)
  then show ?thesis by (simp add: validate_semantic_audit_def)
qed

definition p_audit :: SemanticAuditProposal where
  "p_audit = \<lparr>SemanticAuditProposal.target_ref = ''draft1'', SemanticAuditProposal.class_verdict = AuditClassVerdict.CORRECT,
     SemanticAuditProposal.provenance_verdict = AuditProvenanceVerdict.ENTAILED, SemanticAuditProposal.reason = ''r'',
     referenced_claim_refs = [''C0001''], referenced_corpus_fact_refs = [], referenced_process_fact_refs = []\<rparr>"

lemma p_audit_valid: "valid_SemanticAuditProposal p_audit"
  by (simp add: valid_SemanticAuditProposal_def p_audit_def is_LocalRef_def is_ObjectRef_def text_within_def list_within_def
      utf8_length_def is_alpha_def is_digit_def MAX_DRAFT_TEXT_CHARS_def MAX_DRAFT_REFS_PER_ITEM_def
      SemanticAuditProposal_validator_def has_canonical_numeric_id_def validate_draft_text_def validate_unique_def
      MAX_DRAFT_TEXT_UTF8_BYTES_def starts_with_def removeprefix_def)

theorem semantic_audit_promotion_unreachable_witness:
  "validate_semantic_audit p_audit sample None = Some (ProposalValidationError ''unknown proposition target draft1'')"
  using semantic_audit_promotion_unreachable [OF p_audit_valid sample_valid, of None] by (simp add: p_audit_def)

text \<open>
  The transition drawn from a semantic audit proposal agrees with the release decision on the
  record it describes: it lets the proposition pass downstream exactly when the decision is to
  pass, and it asks for a human exactly when the decision does.
\<close>

theorem audit_transition_agrees:
  fixes p :: SemanticAuditProposal and audit :: SemanticAuditResult
  defines "a \<equiv> audit\<lparr>SemanticAuditResult.class_verdict := SemanticAuditProposal.class_verdict p,
       SemanticAuditResult.provenance_verdict := SemanticAuditProposal.provenance_verdict p\<rparr>"
  shows "(downstream_eligible (interpret_semantic_audit p) \<longleftrightarrow> derive_semantic_audit_disposition a = AuditDisposition.PASS) \<and>
    (human_review_required (interpret_semantic_audit p) \<longleftrightarrow> derive_semantic_audit_disposition a = AuditDisposition.HUMAN_REVIEW)"
  unfolding a_def
  by (cases "SemanticAuditProposal.class_verdict p"; cases "SemanticAuditProposal.provenance_verdict p")
     (simp_all add: interpret_semantic_audit_def derive_semantic_audit_disposition_def Let_def)

end
