(* ===== verification/VR_Json.thy ===== *)
theory VR_Json
  imports VR_Hashing
begin

section \<open>Canonical JSON and its hashes (\<open>runtime/hashing.py\<close>)\<close>

text \<open>
  JSON values as the runtime hashes them, \<open>json.dumps\<close> with \<open>ensure_ascii=False\<close>,
  \<open>sort_keys=True\<close> and the compact separators, and the hashes built on it. Strings are UTF-8
  byte strings, so the text of \<open>json.dumps\<close> is already its encoding; sorting by bytes is sorting
  by code points. A float is carried by its \<open>repr\<close>. The lemmas show that the text determines
  the value: whatever two dictionaries are hashed, equal texts mean equal dictionaries.
\<close>

datatype Json =
    JNull
  | JBool bool
  | JInt int
  | JFloat string
  | JString string
  | JArray "Json list"
  | JObject "(string \<times> Json) list"

definition json_escape :: "char \<Rightarrow> string" where
  "json_escape c =
     (if c = CHR 0x22 then [CHR 0x5C, CHR 0x22]
      else if c = CHR 0x5C then [CHR 0x5C, CHR 0x5C]
      else if c = CHR 0x0A then [CHR 0x5C, CHR ''n'']
      else if c = CHR 0x0D then [CHR 0x5C, CHR ''r'']
      else if c = CHR 0x09 then [CHR 0x5C, CHR ''t'']
      else if c = CHR 0x0C then [CHR 0x5C, CHR ''f'']
      else if c = CHR 0x08 then [CHR 0x5C, CHR ''b'']
      else if (of_char c :: nat) < 32 then
        CHR 0x5C # ''u00'' @ [hex_char (of_char c div 16), hex_char (of_char c mod 16)]
      else [c])"

definition json_string :: "string \<Rightarrow> string" where
  "json_string s = CHR 0x22 # concat (map json_escape s) @ [CHR 0x22]"

definition int_str :: "int \<Rightarrow> string" where
  "int_str i = (if i < 0 then CHR ''-'' # nat_str (nat (- i)) else nat_str (nat i))"

fun dumps :: "Json \<Rightarrow> string" where
  "dumps JNull = ''null''"
| "dumps (JBool b) = (if b then ''true'' else ''false'')"
| "dumps (JInt i) = int_str i"
| "dumps (JFloat r) = r"
| "dumps (JString s) = json_string s"
| "dumps (JArray vs) = CHR ''['' # join_with '','' (map dumps vs) @ '']''"
| "dumps (JObject kvs) =
     CHR ''{'' # join_with '','' (map (\<lambda>(k, d). json_string k @ CHR '':'' # d)
       (sort_key fst (map (\<lambda>(k, v). (k, dumps v)) kvs))) @ ''}''"

definition canonical_json_bytes :: "Json \<Rightarrow> string" where
  "canonical_json_bytes v = dumps v"

definition hash_json :: "Json \<Rightarrow> string" where
  "hash_json v = hash_bytes (canonical_json_bytes v)"

text \<open>\<open>hash_file\<close> feeds the content in chunks of a MiB, which is the hash of the content.\<close>

definition hash_file :: "string \<Rightarrow> string" where
  "hash_file content = hash_bytes content"

text \<open>\<open>hash_tree\<close>: the entries of \<open>root.rglob("*")\<close>, by relative path.\<close>

datatype TreeEntry = SymlinkEntry string | FileEntry string | DirectoryEntry | OtherEntry

definition tree_entry :: "string \<times> TreeEntry \<Rightarrow> Json option" where
  "tree_entry pe =
     (let (relative, entry) = pe in
      case entry of
        SymlinkEntry target \<Rightarrow>
          Some (JObject [(''path'', JString relative), (''type'', JString ''symlink''), (''target'', JString target)])
      | FileEntry content \<Rightarrow>
          Some (JObject [(''path'', JString relative), (''type'', JString ''file''), (''hash'', JString (hash_file content))])
      | DirectoryEntry \<Rightarrow> Some (JObject [(''path'', JString relative), (''type'', JString ''directory'')])
      | OtherEntry \<Rightarrow> None)"

definition hash_tree :: "(string \<times> TreeEntry) list \<Rightarrow> string" where
  "hash_tree sorted_entries = hash_json (JArray (List.map_filter tree_entry sorted_entries))"

definition code_fingerprint :: "(string \<times> string) list \<Rightarrow> string \<Rightarrow> string" where
  "code_fingerprint files contract_version =
     hash_json (JObject [(''contract_version'', JString contract_version),
       (''files'', JArray (map (\<lambda>(name, content).
          JObject [(''path'', JString name), (''hash'', JString (hash_file content))]) files))])"

subsection \<open>The text determines the value\<close>

text \<open>Canonical values: keys in order, floats of their own syntax.\<close>

definition number_char :: "char \<Rightarrow> bool" where
  "number_char c \<longleftrightarrow> is_digit c \<or> c \<in> {CHR ''-'', CHR ''+'', CHR ''.'', CHR ''e''}"

fun canonical :: "Json \<Rightarrow> bool" where
  "canonical (JFloat r) = (list_all number_char r \<and> (CHR ''.'' \<in> set r \<or> CHR ''e'' \<in> set r))"
| "canonical (JArray vs) = list_all canonical vs"
| "canonical (JObject kvs) = (sorted_wrt (<) (map fst kvs) \<and> list_all (\<lambda>(k, v). canonical v) kvs)"
| "canonical _ = True"

text \<open>The decoder of an escaped character.\<close>

definition hex_val :: "char \<Rightarrow> nat" where
  "hex_val c = (if is_digit c then of_char c - 48 else of_char c - 87)"

lemma hex_val_hex_char: "n < 16 \<Longrightarrow> hex_val (hex_char n) = n"
  by (simp add: hex_val_def hex_char_def is_digit_def)

definition json_unescape :: "string \<Rightarrow> char \<times> string" where
  "json_unescape s =
     (if hd s \<noteq> CHR 0x5C then (hd s, tl s)
      else let d = s ! 1; rest = drop 2 s in
        if d = CHR ''u'' then (char_of (16 * hex_val (s ! 4) + hex_val (s ! 5)), drop 6 s)
        else if d = CHR ''n'' then (CHR 0x0A, rest) else if d = CHR ''r'' then (CHR 0x0D, rest)
        else if d = CHR ''t'' then (CHR 0x09, rest) else if d = CHR ''f'' then (CHR 0x0C, rest)
        else if d = CHR ''b'' then (CHR 0x08, rest) else (d, rest))"

lemma json_unescape_escape: "json_unescape (json_escape c @ s) = (c, s)"
proof (cases "json_escape c = [c]")
  case True
  then show ?thesis
    by (cases "c = CHR 0x5C") (simp_all add: json_unescape_def, simp add: json_escape_def)
next
  case False
  show ?thesis
  proof (cases "c \<in> {CHR 0x22, CHR 0x5C, CHR 0x0A, CHR 0x0D, CHR 0x09, CHR 0x0C, CHR 0x08}")
    case True
    then show ?thesis by (elim insertE emptyE) (simp_all add: json_escape_def json_unescape_def)
  next
    case False
    with \<open>json_escape c \<noteq> [c]\<close> have c: "(of_char c :: nat) < 32"
      "json_escape c = CHR 0x5C # ''u00'' @ [hex_char (of_char c div 16), hex_char (of_char c mod 16)]"
      by (simp_all add: json_escape_def split: if_splits)
    from c(1) have "(of_char c :: nat) div 16 < 16" by (simp add: less_mult_imp_div_less)
    then have "hex_val (hex_char (of_char c div 16)) = of_char c div 16"
      "hex_val (hex_char (of_char c mod 16)) = of_char c mod 16" by (simp_all add: hex_val_hex_char)
    then show ?thesis by (simp add: c(2) json_unescape_def)
  qed
qed

lemma json_escape_inj: "json_escape c @ s = json_escape d @ t \<Longrightarrow> c = d \<and> s = t"
  by (metis json_unescape_escape prod.inject)

lemma json_escape_quote: "json_escape c @ s \<noteq> CHR 0x22 # t"
  by (simp add: json_escape_def)

lemma json_chars_inj:
  "concat (map json_escape s) @ CHR 0x22 # x = concat (map json_escape t) @ CHR 0x22 # y \<Longrightarrow> s = t \<and> x = y"
proof (induction s arbitrary: t)
  case Nil
  then show ?case by (cases t) (use json_escape_quote in \<open>auto dest: sym\<close>)
next
  case (Cons a s)
  show ?case
  proof (cases t)
    case Nil
    then show ?thesis using Cons.prems json_escape_quote [of a] by auto
  next
    case (Cons c cs)
    then have "json_escape a @ (concat (map json_escape s) @ CHR 0x22 # x) =
        json_escape c @ (concat (map json_escape cs) @ CHR 0x22 # y)" using Cons.prems by simp
    from json_escape_inj [OF this] show ?thesis using Cons.IH [of cs] Cons by simp
  qed
qed

lemma json_string_inj: "json_string s @ x = json_string t @ y \<Longrightarrow> s = t \<and> x = y"
  by (rule json_chars_inj) (simp add: json_string_def)

text \<open>A value ends where a separator or the text ends.\<close>

definition ends :: "string \<Rightarrow> bool" where
  "ends s \<longleftrightarrow> (case s of [] \<Rightarrow> True | c # _ \<Rightarrow> c \<in> {CHR '','', CHR '']'', CHR ''}''})"

lemma takeWhile_number:
  "list_all number_char r \<Longrightarrow> ends s \<Longrightarrow> takeWhile number_char (r @ s) = r"
  by (cases s) (auto simp: takeWhile_append list_all_iff ends_def number_char_def is_digit_def)

lemma number_inj:
  assumes "list_all number_char r" "list_all number_char q" "ends s" "ends t" "r @ s = q @ t"
  shows "r = q \<and> s = t"
  using takeWhile_number [OF assms(1,3)] takeWhile_number [OF assms(2,4)] assms(5) by auto

lemma int_str_number: "list_all number_char (int_str i)" "CHR ''.'' \<notin> set (int_str i)" "CHR ''e'' \<notin> set (int_str i)" "int_str i \<noteq> []"
  using nat_str_digits [of "nat i"] nat_str_digits [of "nat (- i)"]
  by (auto simp: int_str_def list_all_iff number_char_def is_digit_def)

lemma int_str_inj: "int_str i = int_str j \<Longrightarrow> i = j"
proof -
  have "hd (nat_str n) \<noteq> CHR ''-''" for n
    using nat_str_digits [of n] nat_str_nonempty [of n] by (cases "nat_str n") (auto simp: is_digit_def)
  then have "(if hd (int_str i) = CHR ''-'' then - int (str_nat (tl (int_str i))) else int (str_nat (int_str i))) = i" for i
    by (simp add: int_str_def str_nat_nat_str)
  then show "int_str i = int_str j \<Longrightarrow> i = j" by metis
qed

text \<open>Sequences: the texts of the elements, each followed by a separator or the end.\<close>

definition prefix_free :: "('a \<Rightarrow> string) \<Rightarrow> 'a \<Rightarrow> 'a \<Rightarrow> bool" where
  "prefix_free d v w \<longleftrightarrow> (\<forall>s t. ends s \<longrightarrow> ends t \<longrightarrow> d v @ s = d w @ t \<longrightarrow> v = w \<and> s = t)"

lemma sequence_inj:
  assumes pf: "\<forall>v \<in> set vs. \<forall>w \<in> set ws. prefix_free d v w"
    and ne: "\<forall>v \<in> set vs \<union> set ws. \<exists>c r. d v = c # r \<and> c \<noteq> close"
    and cl: "close \<in> {CHR '']'', CHR ''}''}"
    and eq: "join_with '','' (map d vs) @ close # s = join_with '','' (map d ws) @ close # t"
  shows "vs = ws \<and> s = t"
  using pf ne eq
proof (induction vs arbitrary: ws)
  case Nil
  then show ?case
  proof (cases ws)
    case (Cons w ws')
    then have "\<exists>c r. d w = c # r \<and> c \<noteq> close" using Nil.prems(2) by simp
    then show ?thesis using Nil.prems(3) Cons by (cases ws') auto
  qed simp
next
  case (Cons v vs)
  from Cons.prems(2) obtain c r where v: "d v = c # r" "c \<noteq> close" by auto
  show ?case
  proof (cases ws)
    case Nil
    then show ?thesis using Cons.prems(3) v by (cases vs) auto
  next
    case (Cons w ws')
    let ?rest = "\<lambda>us. if us = [] then close # s else CHR '','' # join_with '','' (map d us) @ close # s"
    let ?rest' = "\<lambda>us. if us = [] then close # t else CHR '','' # join_with '','' (map d us) @ close # t"
    have j: "join_with '','' (map d (u # us)) @ close # x =
        d u @ (if us = [] then close # x else CHR '','' # join_with '','' (map d us) @ close # x)" for u us x
      by (cases us) simp_all
    have "d v @ ?rest vs = d w @ ?rest' ws'" using Cons.prems(3) unfolding \<open>ws = w # ws'\<close> j .
    moreover have "ends (?rest vs)" "ends (?rest' ws')" using cl by (auto simp: ends_def)
    moreover have "prefix_free d v w" using Cons.prems(1) \<open>ws = w # ws'\<close> by simp
    ultimately have "v = w" and r: "?rest vs = ?rest' ws'" unfolding prefix_free_def by blast+
    have "close \<noteq> CHR '',''" using cl by auto
    then have "join_with '','' (map d vs) @ close # s = join_with '','' (map d ws') @ close # t"
      using r by (cases "vs = []"; cases "ws' = []") auto
    moreover have "\<forall>v \<in> set vs. \<forall>w \<in> set ws'. prefix_free d v w" "\<forall>v \<in> set vs \<union> set ws'. \<exists>c r. d v = c # r \<and> c \<noteq> close"
      using Cons.prems(1,2) \<open>ws = w # ws'\<close> by auto
    ultimately have "vs = ws' \<and> s = t" by (intro Cons.IH)
    then show ?thesis using \<open>v = w\<close> \<open>ws = w # ws'\<close> by simp
  qed
qed

definition member_text :: "string \<times> Json \<Rightarrow> string" where
  "member_text kv = json_string (fst kv) @ CHR '':'' # dumps (snd kv)"

lemma dumps_object:
  assumes "canonical (JObject kvs)"
  shows "dumps (JObject kvs) = CHR ''{'' # join_with '','' (map member_text kvs) @ ''}''"
proof -
  have "sorted (map fst kvs)" using assms by (simp add: strict_sorted_imp_sorted)
  then have "sort_key fst (map (\<lambda>(k, v). (k, dumps v)) kvs) = map (\<lambda>(k, v). (k, dumps v)) kvs"
    by (intro sort_key_id_if_sorted) (simp add: comp_def case_prod_beta)
  then show ?thesis by (simp add: member_text_def [abs_def] comp_def case_prod_beta)
qed

text \<open>The first byte tells the kind of a value.\<close>

fun json_kind :: "Json \<Rightarrow> nat" where
  "json_kind JNull = 0"
| "json_kind (JBool b) = (if b then 1 else 2)"
| "json_kind (JInt i) = 3"
| "json_kind (JFloat r) = 3"
| "json_kind (JString s) = 4"
| "json_kind (JArray vs) = 5"
| "json_kind (JObject kvs) = 6"

definition char_kind :: "char \<Rightarrow> nat" where
  "char_kind c =
     (if c = CHR ''n'' then 0 else if c = CHR ''t'' then 1 else if c = CHR ''f'' then 2 else if number_char c then 3
      else if c = CHR 0x22 then 4 else if c = CHR ''['' then 5 else if c = CHR ''{'' then 6 else 7)"

lemma number_kind: "number_char c \<Longrightarrow> char_kind c = 3"
  by (auto simp: char_kind_def number_char_def is_digit_def)

lemma dumps_start: "canonical v \<Longrightarrow> \<exists>c r. dumps v = c # r \<and> char_kind c = json_kind v"
proof (cases v)
  case (JInt i)
  then show ?thesis using int_str_number(1,4) [of i] by (cases "int_str i") (auto simp: number_kind)
next
  case (JFloat r)
  then show "canonical v \<Longrightarrow> ?thesis" by (cases r) (auto simp: number_kind)
qed (auto simp: json_string_def char_kind_def number_char_def is_digit_def)

lemma dumps_nonempty: "canonical v \<Longrightarrow> \<exists>c r. dumps v = c # r \<and> c \<noteq> CHR '']''"
proof -
  have "json_kind v < 7" by (cases v) simp_all
  moreover have "char_kind (CHR '']'') = 7" by (simp add: char_kind_def number_char_def is_digit_def)
  ultimately show "canonical v \<Longrightarrow> ?thesis" using dumps_start [of v] by (metis less_irrefl)
qed

lemma prefix_free_kind:
  assumes "canonical v" "canonical w"
    and "\<And>s t. json_kind v = json_kind w \<Longrightarrow> ends s \<Longrightarrow> ends t \<Longrightarrow> dumps v @ s = dumps w @ t \<Longrightarrow> v = w \<and> s = t"
  shows "prefix_free dumps v w"
proof -
  have "json_kind v = json_kind w" if "dumps v @ s = dumps w @ t" for s t
    using that dumps_start [OF assms(1)] dumps_start [OF assms(2)] by auto
  then show ?thesis using assms(3) unfolding prefix_free_def by blast
qed

lemma number_prefix_free:
  assumes "canonical v" "canonical w" "json_kind v = 3" "json_kind w = 3" "ends s" "ends t" "dumps v @ s = dumps w @ t"
  shows "v = w \<and> s = t"
proof -
  have n: "list_all number_char (dumps x)" if "canonical x" "json_kind x = 3" for x
    using that int_str_number(1) by (cases x) (auto split: if_splits)
  have "dumps v = dumps w \<and> s = t" by (rule number_inj [OF n n]) (use assms in auto)
  moreover have "x = y" if "dumps x = dumps y" "canonical x" "canonical y" "json_kind x = 3" "json_kind y = 3" for x y
    using that int_str_number(2,3) int_str_inj by (cases x; cases y) (auto split: if_splits)
  ultimately show ?thesis using assms(1-4) by blast
qed

lemma member_prefix_free:
  "prefix_free dumps (snd x) (snd y) \<Longrightarrow> prefix_free member_text x y"
  unfolding prefix_free_def member_text_def
  by (auto simp: prod_eq_iff dest!: json_string_inj)

lemma canonical_prefix_free: "canonical v \<Longrightarrow> canonical w \<Longrightarrow> prefix_free dumps v w"
proof (induction v arbitrary: w)
  case (JString s)
  then show ?case by (intro prefix_free_kind) (cases w; auto split: if_splits dest!: json_string_inj)+
next
  case (JArray vs)
  show ?case
  proof (rule prefix_free_kind [OF JArray.prems])
    fix s t assume k: "json_kind (JArray vs) = json_kind w" and eq: "dumps (JArray vs) @ s = dumps w @ t"
    then obtain ws where w: "w = JArray ws" by (cases w) (auto split: if_splits)
    have "vs = ws \<and> s = t"
    proof (rule sequence_inj [where d = dumps and close = "CHR '']''"])
      show "\<forall>v \<in> set vs. \<forall>w \<in> set ws. prefix_free dumps v w"
        using JArray.IH JArray.prems by (simp add: w list_all_iff)
      show "\<forall>v \<in> set vs \<union> set ws. \<exists>c r. dumps v = c # r \<and> c \<noteq> CHR '']''"
        using JArray.prems dumps_nonempty by (auto simp: w list_all_iff)
    qed (use eq in \<open>simp_all add: w\<close>)
    then show "JArray vs = w \<and> s = t" by (simp add: w)
  qed
next
  case (JObject kvs)
  show ?case
  proof (rule prefix_free_kind [OF JObject.prems])
    fix s t assume k: "json_kind (JObject kvs) = json_kind w" and eq: "dumps (JObject kvs) @ s = dumps w @ t"
    then obtain ws where w: "w = JObject ws" by (cases w) (auto split: if_splits)
    have "kvs = ws \<and> s = t"
    proof (rule sequence_inj [where d = member_text and close = "CHR ''}''"])
      show "\<forall>v \<in> set kvs. \<forall>u \<in> set ws. prefix_free member_text v u"
        using JObject.IH JObject.prems by (fastforce simp: w list_all_iff intro: member_prefix_free)
      show "join_with '','' (map member_text kvs) @ CHR ''}'' # s = join_with '','' (map member_text ws) @ CHR ''}'' # t"
        using eq JObject.prems unfolding w by (simp only: dumps_object) simp
    qed (auto simp: member_text_def json_string_def)
    then show "JObject kvs = w \<and> s = t" by (simp add: w)
  qed
next
  case (JInt i)
  show ?case by (rule prefix_free_kind [OF JInt.prems], rule number_prefix_free [OF JInt.prems]) simp_all
next
  case (JFloat r)
  show ?case by (rule prefix_free_kind [OF JFloat.prems], rule number_prefix_free [OF JFloat.prems]) simp_all
qed (auto intro!: prefix_free_kind; case_tac w; simp split: if_splits)+

text \<open>
  Canonical JSON is unambiguous: two values with sorted object keys have the same canonical
  bytes only if they are equal, whatever quotes, separators or control characters their strings
  hold. A hash key built from a dictionary therefore commits to every entry of it.
\<close>

theorem canonical_json_injective:
  assumes "canonical v" and "canonical w"
  shows "canonical_json_bytes v = canonical_json_bytes w \<longleftrightarrow> v = w"
  using canonical_prefix_free [OF assms] unfolding canonical_json_bytes_def prefix_free_def
  by (metis append_Nil2 ends_def list.case(1))

lemma canonical_json_eq: "canonical v \<Longrightarrow> canonical w \<Longrightarrow> canonical_json_bytes v = canonical_json_bytes w \<Longrightarrow> v = w"
  using canonical_prefix_free [of v w] unfolding canonical_json_bytes_def prefix_free_def
  by (metis append_Nil2 ends_def list.case(1))

text \<open>Dictionaries in any order of insertion.\<close>

lemma sort_key_map_values:
  assumes "distinct (map fst kvs)"
  shows "map (\<lambda>(k, v). (k, f v)) (sort_key fst kvs) = sort_key fst (map (\<lambda>(k, v). (k, f v)) (kvs :: (string \<times> 'a) list))"
proof (rule map_sorted_distinct_set_unique [where f = fst])
  have f: "map fst (map (\<lambda>(k, v). (k, f v)) xs) = map fst xs" for xs :: "(string \<times> 'a) list" by (induction xs) auto
  have d: "distinct (map fst (sort_key fst xs))" if "distinct (map fst xs)" for xs :: "(string \<times> 'b) list" 
    using that by (simp add: distinct_map)
  have "distinct (map fst (sort_key fst kvs))" using assms by (simp add: distinct_map)
  then show "sorted (map fst (map (\<lambda>(k, v). (k, f v)) (sort_key fst kvs)))"
    "distinct (map fst (map (\<lambda>(k, v). (k, f v)) (sort_key fst kvs)))" unfolding f by simp_all
  show "distinct (map fst (sort_key fst (map (\<lambda>(k, v). (k, f v)) kvs)))" by (rule d) (unfold f, rule assms)
  show "inj_on fst (set (map (\<lambda>(k, v). (k, f v)) (sort_key fst kvs)) \<union> set (sort_key fst (map (\<lambda>(k, v). (k, f v)) kvs)))"
    by (auto simp: inj_on_def dest: eq_key_imp_eq_value [OF assms])
qed auto

lemma dumps_any_order:
  assumes "distinct (map fst kvs)"
  shows "dumps (JObject (sort_key fst kvs)) = dumps (JObject kvs)"
  using sort_key_map_values [OF assms, of dumps] by (simp add: sort_key_id_if_sorted)

lemma canonical_sorted:
  assumes "distinct (map fst kvs)" "\<forall>(k, v) \<in> set kvs. canonical v"
  shows "canonical (JObject (sort_key fst kvs))"
proof -
  have "distinct (map fst (sort_key fst kvs))" using assms(1) by (simp add: distinct_map)
  then show ?thesis using assms(2) by (auto simp: strict_sorted_iff list_all_iff)
qed

lemma json_object_map_eq:
  assumes "distinct (map fst kvs)" "\<forall>(k, v) \<in> set kvs. canonical v" "distinct (map fst kws)" "\<forall>(k, v) \<in> set kws. canonical v"
    and "canonical_json_bytes (JObject kvs) = canonical_json_bytes (JObject kws)"
  shows "map_of kvs = map_of kws"
proof -
  have "sort_key fst kvs = sort_key fst kws"
    using canonical_json_eq [OF canonical_sorted [OF assms(1,2)] canonical_sorted [OF assms(3,4)]] assms(5)
      dumps_any_order [OF assms(1)] dumps_any_order [OF assms(3)] by (simp add: canonical_json_bytes_def)
  then have "set kvs = set kws" by (metis set_sort)
  then show ?thesis using assms(1,3) by (metis map_of_eqI map_of_inject_set)
qed

theorem canonical_json_injective_witness:
  "canonical_json_bytes (JObject [(''a'', JString [CHR 0x22, CHR '','']), (''b'', JInt (-3))]) \<noteq>
   canonical_json_bytes (JObject [(''a'', JString []), (''b'', JInt (-3))])"
  by (subst canonical_json_injective) simp_all

end
