(* ===== verification/VR_Receipts.thy ===== *)
theory VR_Receipts
  imports VR_Promote VR_Json
begin

section \<open>Receipts of accepted tasks (\<open>runtime/receipts.py\<close>, receipt records of \<open>runtime/records.py\<close>)\<close>

text \<open>
  A receipt records an accepted task: the keys under which it is found again, the proposal, and the
  canonical objects the promotion added or changed with their hashes. The hash of a canonical
  object is that of the JSON pydantic dumps for it: the dump is a parameter, given as a record of
  functions, and nothing is assumed of it.
\<close>

subsection \<open>Fingerprints and keys\<close>

text \<open>What \<open>inspect\<close> and the code object of a handler show: its source when there is one, and the
  bytecode with the \<open>repr\<close> of the constants, or the text of an object that is not a function.\<close>

record HandlerCode =
  source_of :: "string option"
  code_of :: "(string \<times> string) option"
  text_of :: string

definition compute_handler_fingerprint :: "HandlerCode option \<Rightarrow> string \<Rightarrow> string" where
  "compute_handler_fingerprint handler handler_name =
     (case handler of
        None \<Rightarrow> hash_text (''missing:'' @ handler_name)
      | Some h \<Rightarrow> hash_bytes (handler_name @ (case source_of h of None \<Rightarrow> [] | Some s \<Rightarrow> s) @
          (case code_of h of Some (co_code, co_consts) \<Rightarrow> co_code @ co_consts | None \<Rightarrow> text_of h)))"

record TaskSemanticFingerprint =
  validator_fingerprint :: string
  promotion_handler_fingerprint :: string
  disposition_handler_fingerprint :: string
  scientific_contract_version :: string
  runtime_contract_version :: string
  combined_fingerprint :: string

text \<open>The arguments \<open>promotion_handler\<close> and \<open>disposition_handler\<close> are never given by the runtime; an
  empty \<open>promotion_handler_fingerprint\<close> counts as absent.\<close>

definition compute_semantic_fingerprint ::
  "HandlerCode strdict \<Rightarrow> HandlerCode strdict \<Rightarrow> string \<Rightarrow> string \<Rightarrow> string \<Rightarrow> string \<Rightarrow> string \<Rightarrow> string option
    \<Rightarrow> TaskSemanticFingerprint" where
  "compute_semantic_fingerprint PROMOTION_HANDLERS DISPOSITION_HANDLERS validator promotion_name disposition_name
      contract_version runtime_version promotion_fingerprint =
     (let promo_fp = (case promotion_fingerprint of
              Some (c # cs) \<Rightarrow> c # cs
            | _ \<Rightarrow> compute_handler_fingerprint (map_of PROMOTION_HANDLERS promotion_name) promotion_name);
          disp_fp = compute_handler_fingerprint (map_of DISPOSITION_HANDLERS disposition_name) disposition_name;
          combined = hash_json (JObject [
            (''validator_fingerprint'', JString validator),
            (''promotion_handler_fingerprint'', JString promo_fp),
            (''disposition_handler_fingerprint'', JString disp_fp),
            (''scientific_contract_version'', JString contract_version),
            (''runtime_contract_version'', JString runtime_version)]) in
      \<lparr>validator_fingerprint = validator, promotion_handler_fingerprint = promo_fp,
       disposition_handler_fingerprint = disp_fp, scientific_contract_version = contract_version,
       runtime_contract_version = runtime_version, combined_fingerprint = combined\<rparr>)"

record InputIdentity =
  task_type :: TaskType
  task_spec_version :: string
  prompt_hash :: string
  input_schema_hash :: string
  proposal_schema_hash :: string
  dependency_hashes :: "string strdict"
  resource_hashes :: "string strdict"
  engine_input_hash :: string
  engine_id :: string
  engine_version :: "string option"
  safe_engine_configuration_hash :: string
  contract_version :: string

definition json_dict :: "string strdict \<Rightarrow> Json" where
  "json_dict d = JObject (sort_key fst (map (\<lambda>(k, v). (k, JString v)) d))"

definition json_optional :: "string option \<Rightarrow> Json" where
  "json_optional x = (case x of None \<Rightarrow> JNull | Some s \<Rightarrow> JString s)"

definition input_identity_dict :: "InputIdentity \<Rightarrow> (string \<times> Json) list" where
  "input_identity_dict i =
     [(''task_type'', JString (TaskType_value (task_type i))),
      (''task_spec_version'', JString (task_spec_version i)),
      (''prompt_hash'', JString (prompt_hash i)),
      (''input_schema_hash'', JString (input_schema_hash i)),
      (''proposal_schema_hash'', JString (proposal_schema_hash i)),
      (''dependency_hashes'', json_dict (dependency_hashes i)),
      (''resource_hashes'', json_dict (resource_hashes i)),
      (''engine_input_hash'', JString (engine_input_hash i)),
      (''engine'', JString (engine_id i)),
      (''engine_version'', json_optional (engine_version i)),
      (''safe_engine_configuration_hash'', JString (safe_engine_configuration_hash i)),
      (''scientific_contract_version'', JString (contract_version i))]"

definition compute_input_identity_key :: "InputIdentity \<Rightarrow> string" where
  "compute_input_identity_key i = hash_json (JObject (input_identity_dict i))"

definition semantic_key_dict :: "string \<Rightarrow> TaskSemanticFingerprint \<Rightarrow> (string \<times> Json) list" where
  "semantic_key_dict input_identity_key f =
     [(''input_identity_key'', JString input_identity_key),
      (''validator_fingerprint'', JString (validator_fingerprint f)),
      (''promotion_handler_fingerprint'', JString (promotion_handler_fingerprint f)),
      (''disposition_handler_fingerprint'', JString (disposition_handler_fingerprint f)),
      (''runtime_contract_version'', JString (runtime_contract_version f))]"

definition compute_semantic_task_key :: "string \<Rightarrow> TaskSemanticFingerprint \<Rightarrow> string" where
  "compute_semantic_task_key input_identity_key f = hash_json (JObject (semantic_key_dict input_identity_key f))"

subsection \<open>The receipt\<close>

record AppliedTaskReceipt =
  input_identity_key :: string
  semantic_task_key :: string
  task_type :: TaskType
  task_spec_version :: string
  proposal_hash :: string
  proposal_payload :: Json
  semantic_fingerprint :: TaskSemanticFingerprint
  source_generation :: int
  committed_generation :: int
  canonical_objects :: "CanonicalObjectReceipt list"
  local_ref_map :: "string strdict"
  recorded_transition :: TransitionDecision
  engine :: string
  engine_version :: "string option"
  accepted_attempt_id :: string

text \<open>What pydantic and \<open>json.dumps\<close> make of the models: the JSON values that are hashed, and the bytes of the
  files \<open>repository.json\<close>, \<open>registry.json\<close> and \<open>applied_tasks.json\<close>, of which only the number is used.\<close>

record Dumps =
  dump_snapshot :: "RepositorySnapshot \<Rightarrow> Json"
  dump_registry :: "CanonicalIdRegistry \<Rightarrow> Json"
  dump_object :: "CanonicalObject \<Rightarrow> Json"
  repository_bytes :: "RepositorySnapshot \<Rightarrow> string"
  registry_bytes :: "CanonicalIdRegistry \<Rightarrow> string"
  receipts_bytes :: "AppliedTaskReceipt list \<Rightarrow> string"

definition canonical_hash :: "Dumps \<Rightarrow> RepositorySnapshot \<Rightarrow> string" where
  "canonical_hash D R = hash_json (dump_snapshot D R)"

definition dependency_hash :: "Dumps \<Rightarrow> RepositorySnapshot \<Rightarrow> string \<Rightarrow> string option" where
  "dependency_hash D R key = map_option (\<lambda>v. hash_json (dump_object D v)) (map_of (object_index R) key)"

definition has_colon :: "string \<Rightarrow> bool" where
  "has_colon key \<longleftrightarrow> CHR '':'' \<in> set key"

definition ends_with :: "string \<Rightarrow> string \<Rightarrow> bool" where
  "ends_with suffix s \<longleftrightarrow> starts_with (rev suffix) (rev s)"

text \<open>Whether an object counts as added or modified, and the two loops that collect the receipts.\<close>

definition changed_object :: "CanonicalObject strdict \<Rightarrow> string \<times> CanonicalObject \<Rightarrow> bool" where
  "changed_object before item = (has_colon (fst item) \<and> map_of before (fst item) \<noteq> Some (snd item))"

definition allocated_object :: "string list \<Rightarrow> string \<times> CanonicalObject \<Rightarrow> bool" where
  "allocated_object raw_ids item =
     (has_colon (fst item) \<and> list_ex (\<lambda>raw_id. ends_with (CHR '':'' # raw_id) (fst item)) raw_ids)"

fun collect_receipts ::
  "Dumps \<Rightarrow> (string \<times> CanonicalObject \<Rightarrow> bool) \<Rightarrow> CanonicalObject strdict
    \<Rightarrow> CanonicalObjectReceipt list \<Rightarrow> CanonicalObjectReceipt list" where
  "collect_receipts D wanted [] receipts = receipts"
| "collect_receipts D wanted (item # items) receipts =
     collect_receipts D wanted items
       (if wanted item \<and> fst item \<notin> qualified_id ` set receipts
        then receipts @ [\<lparr>qualified_id = fst item, object_hash = hash_json (dump_object D (snd item))\<rparr>]
        else receipts)"

definition extract_canonical_object_receipts ::
  "Dumps \<Rightarrow> RepositorySnapshot \<Rightarrow> RepositorySnapshot \<Rightarrow> string strdict \<Rightarrow> CanonicalObjectReceipt list" where
  "extract_canonical_object_receipts D before after allocated =
     (let before_index = object_index before; after_index = object_index after in
      sort_key qualified_id
        (fold (\<lambda>raw_id. collect_receipts D (allocated_object [raw_id]) after_index) (map snd allocated)
          (collect_receipts D (changed_object before_index) after_index [])))"

fun verify_objects :: "Dumps \<Rightarrow> CanonicalObject strdict \<Rightarrow> CanonicalObjectReceipt list \<Rightarrow> string option" where
  "verify_objects D idx [] = None"
| "verify_objects D idx (r # rs) =
     (case map_of idx (qualified_id r) of
        None \<Rightarrow> Some (''RECEIPT_CANONICAL_OBJECT_MISSING:'' @ qualified_id r)
      | Some obj \<Rightarrow>
          if hash_json (dump_object D obj) \<noteq> object_hash r
          then Some (''RECEIPT_CANONICAL_OBJECT_HASH_MISMATCH:'' @ qualified_id r)
          else verify_objects D idx rs)"

text \<open>The pair \<open>(True, None)\<close> is \<open>None\<close>, the pair \<open>(False, reason)\<close> is the reason.\<close>

definition verify_receipt_canonical_objects :: "Dumps \<Rightarrow> AppliedTaskReceipt \<Rightarrow> RepositorySnapshot \<Rightarrow> string option" where
  "verify_receipt_canonical_objects D receipt R =
     verify_objects D (object_index R) (AppliedTaskReceipt.canonical_objects receipt)"

subsection \<open>What a receipt records\<close>

definition receipt_of :: "Dumps \<Rightarrow> string \<times> CanonicalObject \<Rightarrow> CanonicalObjectReceipt" where
  "receipt_of D item = \<lparr>qualified_id = fst item, object_hash = hash_json (dump_object D (snd item))\<rparr>"

lemma qualified_id_receipt_of [simp]: "qualified_id (receipt_of D item) = fst item"
  by (simp add: receipt_of_def)

lemma collect_receipts_set:
  assumes "distinct (map fst items)" and "set receipts \<subseteq> receipt_of D ` I"
    and "\<forall>x \<in> I. \<forall>y \<in> set items. fst x = fst y \<longrightarrow> x = y"
  shows "set (collect_receipts D wanted items receipts) = set receipts \<union> receipt_of D ` {x \<in> set items. wanted x}"
  using assms
proof (induction items arbitrary: receipts I)
  case (Cons item items)
  let ?take = "wanted item \<and> fst item \<notin> qualified_id ` set receipts"
  let ?r = "if ?take then receipts @ [receipt_of D item] else receipts"
  have old: "receipt_of D item \<in> set receipts" if "fst item \<in> qualified_id ` set receipts"
  proof -
    from that obtain x where "x \<in> I" "receipt_of D x \<in> set receipts" "fst x = fst item" using Cons.prems(2) by auto
    then show ?thesis using Cons.prems(3) by auto
  qed
  have "set (collect_receipts D wanted items ?r) = set ?r \<union> receipt_of D ` {x \<in> set items. wanted x}"
  proof (rule Cons.IH)
    show "distinct (map fst items)" using Cons.prems(1) by simp
    show "set ?r \<subseteq> receipt_of D ` insert item I" using Cons.prems(2) by auto
    show "\<forall>x \<in> insert item I. \<forall>y \<in> set items. fst x = fst y \<longrightarrow> x = y"
      using Cons.prems(1,3) by (auto simp: rev_image_eqI)
  qed
  moreover have "set ?r \<union> receipt_of D ` {x \<in> set items. wanted x} =
      set receipts \<union> receipt_of D ` {x \<in> set (item # items). wanted x}"
    using old by auto
  moreover have "collect_receipts D wanted (item # items) receipts = collect_receipts D wanted items ?r"
    by (simp add: receipt_of_def)
  ultimately show ?case by metis
qed simp

lemma collect_allocated_set:
  assumes "distinct (map fst items)" and "set receipts \<subseteq> receipt_of D ` set items"
  shows "set (fold (\<lambda>raw_id. collect_receipts D (allocated_object [raw_id]) items) raw_ids receipts) =
    set receipts \<union> receipt_of D ` {x \<in> set items. allocated_object raw_ids x}"
  using assms(2)
proof (induction raw_ids arbitrary: receipts)
  case Nil
  then show ?case by (simp add: allocated_object_def)
next
  case (Cons raw_id raw_ids)
  have one: "set (collect_receipts D (allocated_object [raw_id]) items receipts) =
      set receipts \<union> receipt_of D ` {x \<in> set items. allocated_object [raw_id] x}"
    by (rule collect_receipts_set [OF assms(1) Cons.prems]) (use assms(1) in \<open>auto simp: eq_key_imp_eq_value prod_eq_iff\<close>)
  then have "set (collect_receipts D (allocated_object [raw_id]) items receipts) \<subseteq> receipt_of D ` set items"
    using Cons.prems by auto
  from Cons.IH [OF this] have "set (fold (\<lambda>raw_id. collect_receipts D (allocated_object [raw_id]) items) (raw_id # raw_ids) receipts) =
      set receipts \<union> receipt_of D ` ({x \<in> set items. allocated_object [raw_id] x} \<union> {x \<in> set items. allocated_object raw_ids x})"
    unfolding fold_Cons comp_apply one by blast
  moreover have "{x \<in> set items. allocated_object [raw_id] x} \<union> {x \<in> set items. allocated_object raw_ids x} =
      {x \<in> set items. allocated_object (raw_id # raw_ids) x}" by (auto simp: allocated_object_def)
  ultimately show ?case by (simp only:)
qed

lemma distinct_object_index: "distinct (map fst (object_index R))"
proof -
  have s: "distinct (map fst d) \<Longrightarrow> distinct (map fst (snd (setdefault d k v)))" for d k and v :: CanonicalObject
    by (auto simp: setdefault_def map_of_eq_None_iff split: option.splits)
  have "distinct (map fst d) \<Longrightarrow> distinct (map fst (index_objects vs d))" for vs d
    by (induction vs d rule: index_objects.induct) (simp_all add: s distinct_update)
  then show ?thesis by (simp add: object_index_def)
qed

lemma extracted_receipts:
  "set (extract_canonical_object_receipts D R R' allocated) =
    receipt_of D ` {x \<in> set (object_index R'). changed_object (object_index R) x \<or> allocated_object (map snd allocated) x}"
proof -
  have "set (collect_receipts D (changed_object (object_index R)) (object_index R') []) =
      receipt_of D ` {x \<in> set (object_index R'). changed_object (object_index R) x}"
    using collect_receipts_set [OF distinct_object_index, of "[]" D "{}"] by simp
  moreover from this have "set (collect_receipts D (changed_object (object_index R)) (object_index R') []) \<subseteq>
      receipt_of D ` set (object_index R')" by auto
  ultimately show ?thesis
    unfolding extract_canonical_object_receipts_def Let_def set_sort
    by (subst collect_allocated_set [OF distinct_object_index]) auto
qed

lemma verify_objects_None:
  "verify_objects D idx rs = None \<longleftrightarrow>
     (\<forall>r \<in> set rs. \<exists>obj. map_of idx (qualified_id r) = Some obj \<and> hash_json (dump_object D obj) = object_hash r)"
  by (induction rs) (auto split: option.splits)

text \<open>
  C34: A receipt verifies against the repository it was written for, and it is complete: it holds
  the hash of every object of the new snapshot, under its typed key, that the old snapshot lacks
  or holds with another value, and of every object under an allocated identifier.
\<close>

theorem receipt_verifies:
  "verify_receipt_canonical_objects D
     (receipt\<lparr>AppliedTaskReceipt.canonical_objects := extract_canonical_object_receipts D R R' allocated\<rparr>) R' = None \<and>
   qualified_id ` set (extract_canonical_object_receipts D R R' allocated) =
     {key. has_colon key \<and> (\<exists>v. map_of (object_index R') key = Some v \<and> map_of (object_index R) key \<noteq> Some v)} \<union>
     {key \<in> fst ` set (object_index R'). has_colon key \<and> list_ex (\<lambda>raw_id. ends_with (CHR '':'' # raw_id) key) (map snd allocated)}"
proof
  note d = distinct_object_index [of R']
  show "verify_receipt_canonical_objects D
     (receipt\<lparr>AppliedTaskReceipt.canonical_objects := extract_canonical_object_receipts D R R' allocated\<rparr>) R' = None"
    using d by (auto simp: verify_receipt_canonical_objects_def verify_objects_None extracted_receipts receipt_of_def)
  have "v = v'" if "(k, v) \<in> set (object_index R')" "(k, v') \<in> set (object_index R')" for k v v'
    using d that by (metis eq_key_imp_eq_value)
  then show "qualified_id ` set (extract_canonical_object_receipts D R R' allocated) =
     {key. has_colon key \<and> (\<exists>v. map_of (object_index R') key = Some v \<and> map_of (object_index R) key \<noteq> Some v)} \<union>
     {key \<in> fst ` set (object_index R'). has_colon key \<and> list_ex (\<lambda>raw_id. ends_with (CHR '':'' # raw_id) key) (map snd allocated)}"
    unfolding extracted_receipts image_image qualified_id_receipt_of changed_object_def allocated_object_def
    using d by (force simp: image_iff)
qed

lemma TaskType_value_inj: "TaskType_value a = TaskType_value b \<longleftrightarrow> a = b"
  by (cases a; cases b; simp)

lemma json_dict_canonical: "distinct (map fst d) \<Longrightarrow> canonical (json_dict d)"
  unfolding json_dict_def by (rule canonical_sorted) (auto simp: comp_def case_prod_beta)

lemma json_dict_inj: "json_dict d = json_dict e \<Longrightarrow> distinct (map fst d) \<Longrightarrow> distinct (map fst e) \<Longrightarrow> map_of d = map_of e"
proof -
  assume eq: "json_dict d = json_dict e" and dist: "distinct (map fst d)" "distinct (map fst e)"
  have "sort_key fst (map (\<lambda>(k, v). (k, JString v)) d) = sort_key fst (map (\<lambda>(k, v). (k, JString v)) e)"
    using eq unfolding json_dict_def Json.inject .
  from arg_cong [OF this, of set] have "(\<lambda>(k, v). (k, JString v)) ` set d = (\<lambda>(k, v). (k, JString v)) ` set e"
    by (simp only: set_sort set_map)
  moreover have "inj (\<lambda>(k :: string, v). (k, JString v))" by (auto simp: inj_on_def)
  ultimately have "set d = set e" by (simp add: inj_image_eq_iff)
  then show ?thesis using dist by (metis map_of_inject_set)
qed

text \<open>
  The input identity key commits to every part of the identity: two identities whose keys are
  hashed from the same bytes agree in the task type, the versions, the schemas, the engine plan and,
  entry by entry and in whatever order they were inserted, the dependency and resource hashes.
\<close>

theorem input_identity_unambiguous:
  assumes "distinct (map fst (dependency_hashes i))" "distinct (map fst (resource_hashes i))"
    and "distinct (map fst (dependency_hashes j))" "distinct (map fst (resource_hashes j))"
    and eq: "canonical_json_bytes (JObject (input_identity_dict i)) = canonical_json_bytes (JObject (input_identity_dict j))"
  shows "i\<lparr>dependency_hashes := [], resource_hashes := []\<rparr> = j\<lparr>dependency_hashes := [], resource_hashes := []\<rparr> \<and>
    map_of (dependency_hashes i) = map_of (dependency_hashes j) \<and> map_of (resource_hashes i) = map_of (resource_hashes j)"
proof -
  have dict: "distinct (map fst (input_identity_dict x)) \<and> (\<forall>(k, v) \<in> set (input_identity_dict x). canonical v)"
    if "distinct (map fst (dependency_hashes x))" "distinct (map fst (resource_hashes x))" for x
    using that by (simp add: input_identity_dict_def json_dict_canonical json_optional_def split: option.splits)
  have "map_of (input_identity_dict i) = map_of (input_identity_dict j)"
    using json_object_map_eq [OF _ _ _ _ eq] dict [OF assms(1,2)] dict [OF assms(3,4)] by blast
  then have k: "map_of (input_identity_dict i) k = map_of (input_identity_dict j) k" for k by simp
  have "json_dict (dependency_hashes i) = json_dict (dependency_hashes j)"
    using k [of "''dependency_hashes''"] by (simp add: input_identity_dict_def)
  moreover have "json_dict (resource_hashes i) = json_dict (resource_hashes j)"
    using k [of "''resource_hashes''"] by (simp add: input_identity_dict_def)
  moreover have "json_optional (InputIdentity.engine_version i) = json_optional (InputIdentity.engine_version j)"
    using k [of "''engine_version''"] by (simp add: input_identity_dict_def)
  then have "InputIdentity.engine_version i = InputIdentity.engine_version j"
    by (simp add: json_optional_def split: option.splits)
  moreover have "InputIdentity.task_type i = InputIdentity.task_type j"
    using k [of "''task_type''"] by (simp add: input_identity_dict_def TaskType_value_inj)
  moreover have "InputIdentity.task_spec_version i = InputIdentity.task_spec_version j"
    using k [of "''task_spec_version''"] by (simp add: input_identity_dict_def)
  moreover have "prompt_hash i = prompt_hash j" using k [of "''prompt_hash''"] by (simp add: input_identity_dict_def)
  moreover have "input_schema_hash i = input_schema_hash j" using k [of "''input_schema_hash''"] by (simp add: input_identity_dict_def)
  moreover have "proposal_schema_hash i = proposal_schema_hash j" using k [of "''proposal_schema_hash''"] by (simp add: input_identity_dict_def)
  moreover have "engine_input_hash i = engine_input_hash j" using k [of "''engine_input_hash''"] by (simp add: input_identity_dict_def)
  moreover have "engine_id i = engine_id j" using k [of "''engine''"] by (simp add: input_identity_dict_def)
  moreover have "safe_engine_configuration_hash i = safe_engine_configuration_hash j"
    using k [of "''safe_engine_configuration_hash''"] by (simp add: input_identity_dict_def)
  moreover have "contract_version i = contract_version j"
    using k [of "''scientific_contract_version''"] by (simp add: input_identity_dict_def)
  ultimately show ?thesis
    using json_dict_inj [of "dependency_hashes i" "dependency_hashes j"] json_dict_inj [of "resource_hashes i" "resource_hashes j"]
      assms(1-4) by (intro conjI InputIdentity.equality) simp_all
qed

definition s_identity :: "string strdict \<Rightarrow> InputIdentity" where
  "s_identity deps = \<lparr>InputIdentity.task_type = ASSESS_CLAIM, InputIdentity.task_spec_version = ''1'', prompt_hash = ''p'',
     input_schema_hash = ''i'', proposal_schema_hash = ''s'', dependency_hashes = deps, resource_hashes = [],
     engine_input_hash = ''e'', engine_id = ''ordered-engine-plan'', InputIdentity.engine_version = None,
     safe_engine_configuration_hash = ''c'', contract_version = ''V1.5.1b''\<rparr>"

theorem input_identity_unambiguous_witness:
  "map_of (dependency_hashes (s_identity [(''C0001'', ''x''), (''P0001'', ''y'')])) =
   map_of (dependency_hashes (s_identity [(''P0001'', ''y''), (''C0001'', ''x'')]))"
proof -
  have "json_dict [(''C0001'', ''x''), (''P0001'', ''y'')] = json_dict [(''P0001'', ''y''), (''C0001'', ''x'')]"
    by (simp add: json_dict_def)
  then have "input_identity_dict (s_identity [(''C0001'', ''x''), (''P0001'', ''y'')]) =
      input_identity_dict (s_identity [(''P0001'', ''y''), (''C0001'', ''x'')])"
    by (simp add: input_identity_dict_def s_identity_def)
  from input_identity_unambiguous [OF _ _ _ _ arg_cong [OF this, of "\<lambda>d. canonical_json_bytes (JObject d)"]]
  show ?thesis by (simp add: s_identity_def)
qed

end
