(* ===== verification/VR_Store.thy ===== *)
theory VR_Store
  imports VR_Receipts
begin

section \<open>The generation store (\<open>runtime/repository.py\<close>)\<close>

text \<open>
  The directory \<open>state/\<close> as the store keeps it: the control file \<open>CURRENT\<close> and the entries of
  \<open>state/generations/\<close>, in the order in which the file system lists them. A generation directory is
  the record of its control files; a file that holds JSON is the value it holds, pydantic's parsing
  being the validity of the record, with its size among the \<open>file_sizes\<close>, and \<open>CURRENT\<close> and the
  completion marker are texts. Every read has the limit of the code: 64 MiB for a control file, 32
  bytes for the marker, 64 for \<open>CURRENT\<close>. The manifest that the store writes has six short fields and
  is given no size.

  The writer lock makes the operations exclude each other, so each is a function of the state; a
  crash in the middle is a prefix of the list of states that \<open>recover_trace\<close> or \<open>commit_trace\<close> passes
  through. Recovery deletes a directory path by path: the order is the one in which the file system
  lists it, a parameter of each run. \<open>recover\<close> is the recovery that nothing interrupts.

  The dumps of pydantic are a parameter, as are the time stamp and the random part of the name of the
  staging directory. Not modelled are the defences against a process that changes the directory behind
  the lock (descriptor checks, link counts, short reads) and the permission bits of a sealed generation.
\<close>

subsection \<open>State\<close>

record AuxTree =
  aux_files :: "string strdict"
  aux_dirs :: "string list"

record GenerationManifest =
  generation :: nat
  previous_generation :: "nat option"
  created_at :: string
  repository_hash :: string
  registry_hash :: string
  auxiliary_hash :: "string option"

record GenerationDir =
  repository_file :: "RepositorySnapshot option"
  registry_file :: "CanonicalIdRegistry option"
  manifest_file :: "GenerationManifest option"
  applied_tasks_file :: "AppliedTaskReceipt list option"
  completion_marker :: "string option"
  auxiliary :: "AuxTree option"
  other_files :: "string list"
  file_sizes :: "nat strdict"

definition empty_dir :: GenerationDir where
  "empty_dir = \<lparr>repository_file = None, registry_file = None, manifest_file = None, applied_tasks_file = None,
     completion_marker = None, auxiliary = None, other_files = [], file_sizes = []\<rparr>"

datatype DirEntry = GenDir GenerationDir | SpecialEntry

record StoreState =
  current_pointer :: "string option"
  entries :: "DirEntry strdict"

datatype CrashPoint =
    BEFORE_STAGED_VALIDATION | DURING_GENERATION_MATERIALIZATION | BEFORE_COMPLETION_MARKER
  | AFTER_COMPLETION_MARKER_BEFORE_CURRENT | AFTER_CURRENT | BEFORE_RECEIPT_CONSTRUCTION
  | AFTER_SCIENTIFIC_STAGING_BEFORE_RECEIPT_STAGING

text \<open>The exceptions of the store. \<open>StoreException\<close> is any other exception of a callback, with its text.\<close>

datatype StoreError =
    StaleSnapshotError string
  | StagedRepositoryValidationError string
  | ContractError string
  | InjectedCrash CrashPoint
  | StoreOSError string
  | StoreValueError string
  | UnsafeRepositoryEntryError string
  | StoreException string

record CommitResult =
  committed :: nat
  commit_ids :: "string strdict"
  commit_receipt :: "AppliedTaskReceipt option"

definition COMPLETE :: string where "COMPLETE = ''complete'' @ [CHR 0x0A]"

definition generation_name :: "nat \<Rightarrow> string" where
  "generation_name g = pad_str 6 g"

definition numbered_name :: "string \<Rightarrow> bool" where
  "numbered_name n \<longleftrightarrow> length n = 6 \<and> list_all is_digit n"

text \<open>\<open>glob(".*.staging-*")\<close>.\<close>

fun occurs_in :: "string \<Rightarrow> string \<Rightarrow> bool" where
  "occurs_in sub [] = (sub = [])"
| "occurs_in sub (c # s) = (starts_with sub (c # s) \<or> occurs_in sub s)"

definition staging_name :: "string \<Rightarrow> bool" where
  "staging_name n \<longleftrightarrow> starts_with ''.'' n \<and> occurs_in ''.staging-'' (drop 1 n)"

definition lookup_entry :: "StoreState \<Rightarrow> string \<Rightarrow> DirEntry option" where
  "lookup_entry s n = map_of (entries s) n"

definition put_dir :: "string \<Rightarrow> GenerationDir \<Rightarrow> StoreState \<Rightarrow> StoreState" where
  "put_dir n d s = s\<lparr>entries := AList.update n (GenDir d) (entries s)\<rparr>"

definition remove_entry :: "string \<Rightarrow> StoreState \<Rightarrow> StoreState" where
  "remove_entry n s = s\<lparr>entries := filter (\<lambda>e. fst e \<noteq> n) (entries s)\<rparr>"

subsection \<open>Control files\<close>

definition MAX_GENERATION_CONTROL_BYTES :: nat where "MAX_GENERATION_CONTROL_BYTES = 64 * 1024 * 1024"
definition REPOSITORY_FILE :: string where "REPOSITORY_FILE = ''repository.json''"
definition REGISTRY_FILE :: string where "REGISTRY_FILE = ''registry.json''"
definition GENERATION_MANIFEST_FILE :: string where "GENERATION_MANIFEST_FILE = ''generation_manifest.json''"
definition APPLIED_TASKS_FILE :: string where "APPLIED_TASKS_FILE = ''applied_tasks.json''"
definition COMPLETION_MARKER :: string where "COMPLETION_MARKER = ''COMPLETE''"

definition file_size :: "GenerationDir \<Rightarrow> string \<Rightarrow> nat" where
  "file_size d f = (case map_of (file_sizes d) f of None \<Rightarrow> 0 | Some n \<Rightarrow> n)"

definition oversized :: "GenerationDir \<Rightarrow> string \<Rightarrow> bool" where
  "oversized d f \<longleftrightarrow> MAX_GENERATION_CONTROL_BYTES < file_size d f"

text \<open>The files as \<open>_write_generation_files\<close> and \<open>commit\<close> write them; each ends with a newline.\<close>

definition write_repository :: "Dumps \<Rightarrow> RepositorySnapshot \<Rightarrow> GenerationDir \<Rightarrow> GenerationDir" where
  "write_repository D R d = d\<lparr>repository_file := Some R,
     file_sizes := AList.update REPOSITORY_FILE (length (repository_bytes D R) + 1) (file_sizes d)\<rparr>"

definition write_registry :: "Dumps \<Rightarrow> CanonicalIdRegistry \<Rightarrow> GenerationDir \<Rightarrow> GenerationDir" where
  "write_registry D r d = d\<lparr>registry_file := Some r,
     file_sizes := AList.update REGISTRY_FILE (length (registry_bytes D r) + 1) (file_sizes d)\<rparr>"

definition write_receipts :: "Dumps \<Rightarrow> AppliedTaskReceipt list \<Rightarrow> GenerationDir \<Rightarrow> GenerationDir" where
  "write_receipts D rs d = d\<lparr>applied_tasks_file := Some rs,
     file_sizes := AList.update APPLIED_TASKS_FILE (length (receipts_bytes D rs) + 1) (file_sizes d)\<rparr>"

definition byte_limit_error :: StoreError where
  "byte_limit_error = UnsafeRepositoryEntryError ''repository control file exceeds its byte limit''"

definition marker_issue :: "nat \<Rightarrow> string \<Rightarrow> StoreError option" where
  "marker_issue g marker =
     (if 32 < length marker then Some byte_limit_error
      else if marker \<noteq> COMPLETE
        then Some (StoreValueError (''generation '' @ nat_str g @ '' has an invalid completion marker''))
      else None)"

text \<open>One round of the loop over the control files: the file has to exist and to be within the limit.\<close>

definition control_file_issue :: "nat \<Rightarrow> GenerationDir \<Rightarrow> bool \<Rightarrow> string \<Rightarrow> StoreError option" where
  "control_file_issue g d present f =
     (if \<not> present then Some (StoreValueError (''generation '' @ nat_str g @ '' lacks '' @ f))
      else if oversized d f then Some byte_limit_error
      else None)"

fun first_issue :: "StoreError option list \<Rightarrow> StoreError option" where
  "first_issue [] = None"
| "first_issue (None # es) = first_issue es"
| "first_issue (Some e # es) = Some e"

subsection \<open>Auxiliary files\<close>

definition MAX_AUXILIARY_FILE_BYTES :: nat where "MAX_AUXILIARY_FILE_BYTES = 256 * 1024 * 1024"
definition MAX_AUXILIARY_TOTAL_BYTES :: nat where "MAX_AUXILIARY_TOTAL_BYTES = 2 * 1024 * 1024 * 1024"
definition MAX_AUXILIARY_ENTRIES :: nat where "MAX_AUXILIARY_ENTRIES = 10000"

function split_on :: "char \<Rightarrow> string \<Rightarrow> string list" where
  "split_on c s =
     (let rest = dropWhile (\<lambda>x. x \<noteq> c) s in
      takeWhile (\<lambda>x. x \<noteq> c) s # (if rest = [] then [] else split_on c (tl rest)))"
  by pat_completeness auto
termination
proof (relation "measure (length \<circ> snd)", simp, goal_cases)
  case (1 c s x)
  then have "length (dropWhile (\<lambda>x. x \<noteq> c) s) \<le> length s" "dropWhile (\<lambda>x. x \<noteq> c) s \<noteq> []"
    by (simp_all add: length_dropWhile_le)
  then show ?case using 1 by (cases "dropWhile (\<lambda>x. x \<noteq> c) s") auto
qed

declare split_on.simps [simp del]

text \<open>The paths that equal their own normal form, are relative and have no part \<open>..\<close>; the path \<open>.\<close>
  has no parts at all and passes.\<close>

definition canonical_relative :: "string \<Rightarrow> bool" where
  "canonical_relative p \<longleftrightarrow>
     p = ''.'' \<or> list_all (\<lambda>part. part \<notin> {[], ''.'', ''..''}) (split_on (CHR ''/'') p)"

definition path_parts :: "string \<Rightarrow> string list" where
  "path_parts p = (if p = ''.'' then [] else split_on (CHR ''/'') p)"

definition parent_dirs :: "string \<Rightarrow> string list" where
  "parent_dirs p = map (\<lambda>n. join_with ''/'' (take n (path_parts p))) [1..<length (path_parts p)]"

definition write_bytes :: "AuxTree \<Rightarrow> string \<Rightarrow> string \<Rightarrow> StoreError + AuxTree" where
  "write_bytes w p content =
     (let directories = parent_dirs p in
      if \<not> canonical_relative p then Inl (StoreValueError ''auxiliary paths must be canonical POSIX relative paths'')
      else if MAX_AUXILIARY_FILE_BYTES < length content
        then Inl (StoreValueError ''auxiliary file exceeds its materialization byte limit'')
      else if MAX_AUXILIARY_TOTAL_BYTES < sum_list (map (length \<circ> snd) (aux_files w)) + length content
        then Inl (StoreValueError ''auxiliary tree exceeds its materialization byte limit'')
      else if MAX_AUXILIARY_ENTRIES < length (aux_files w) + 1 + card (set (aux_dirs w @ directories))
        then Inl (StoreValueError ''auxiliary tree exceeds its materialization entry limit'')
      else if path_parts p = [] \<or> p \<in> fst ` set (aux_files w) \<or> p \<in> set (aux_dirs w) \<or>
          list_ex (\<lambda>d. d \<in> fst ` set (aux_files w)) directories
        then Inl (StoreOSError p)
      else Inr \<lparr>aux_files = aux_files w @ [(p, content)], aux_dirs = fromkeys (aux_dirs w @ directories)\<rparr>)"

fun write_all :: "AuxTree \<Rightarrow> (string \<times> string) list \<Rightarrow> StoreError + AuxTree" where
  "write_all w [] = Inr w"
| "write_all w ((p, content) # ws) = (case write_bytes w p content of Inl e \<Rightarrow> Inl e | Inr w' \<Rightarrow> write_all w' ws)"

text \<open>\<open>_validated_auxiliary_hash\<close> on a tree of regular files and directories.\<close>

definition aux_entries :: "AuxTree \<Rightarrow> (string \<times> Json) list" where
  "aux_entries t = sort_key fst
     (map (\<lambda>d. (d, JObject [(''path'', JString d), (''type'', JString ''directory'')])) (aux_dirs t) @
      map (\<lambda>(p, content). (p, JObject [(''path'', JString p), (''type'', JString ''file''),
        (''hash'', JString (hash_bytes content))])) (aux_files t))"

definition validated_auxiliary_hash :: "AuxTree \<Rightarrow> StoreError + string" where
  "validated_auxiliary_hash t =
     (if MAX_AUXILIARY_ENTRIES < length (aux_dirs t) + length (aux_files t)
        then Inl (StoreValueError ''generation auxiliary tree exceeds its entry limit'')
      else if MAX_AUXILIARY_TOTAL_BYTES < sum_list (map (length \<circ> snd) (aux_files t))
        then Inl (StoreValueError ''generation auxiliary tree exceeds its total byte limit'')
      else if list_ex (\<lambda>f. MAX_AUXILIARY_FILE_BYTES < length (snd f)) (aux_files t)
        then Inl (UnsafeRepositoryEntryError ''repository control file exceeds its byte limit'')
      else Inr (hash_json (JArray (map snd (aux_entries t)))))"

subsection \<open>Loading\<close>

definition registry_hash_of :: "Dumps \<Rightarrow> CanonicalIdRegistry \<Rightarrow> string" where
  "registry_hash_of D r = hash_json (dump_registry D r)"

definition expected_previous :: "nat \<Rightarrow> nat option" where
  "expected_previous g = (if 0 < g then Some (g - 1) else None)"

definition require_complete_generation :: "StoreState \<Rightarrow> nat \<Rightarrow> StoreError + GenerationDir" where
  "require_complete_generation s g =
     (let gen = ''generation '' @ nat_str g in
      case lookup_entry s (generation_name g) of
        Some (GenDir d) \<Rightarrow>
          (case completion_marker d of
             None \<Rightarrow> Inl (StoreValueError (gen @ '' is not complete''))
           | Some marker \<Rightarrow>
               (case first_issue
                   [marker_issue g marker,
                    control_file_issue g d (repository_file d \<noteq> None) REPOSITORY_FILE,
                    control_file_issue g d (registry_file d \<noteq> None) REGISTRY_FILE,
                    control_file_issue g d (manifest_file d \<noteq> None) GENERATION_MANIFEST_FILE,
                    control_file_issue g d (applied_tasks_file d \<noteq> None) APPLIED_TASKS_FILE] of
                  Some e \<Rightarrow> Inl e
                | None \<Rightarrow>
                    (case manifest_file d of
                       Some m \<Rightarrow>
                         if GenerationManifest.generation m \<noteq> g \<or> previous_generation m \<noteq> expected_previous g
                         then Inl (StoreValueError (gen @ '' manifest owner or lineage mismatch''))
                         else Inr d
                     | None \<Rightarrow> Inl (StoreValueError (gen @ '' manifest is invalid'')))))
      | _ \<Rightarrow> Inl (StoreValueError (gen @ '' is not complete'')))"

definition load_generation ::
  "Dumps \<Rightarrow> StoreState \<Rightarrow> nat \<Rightarrow> StoreError + RepositorySnapshot \<times> CanonicalIdRegistry" where
  "load_generation D s g =
     (let gen = ''generation '' @ nat_str g in
      case require_complete_generation s g of
        Inl e \<Rightarrow> Inl e
      | Inr d \<Rightarrow>
          (case (repository_file d, registry_file d, manifest_file d) of
             (Some R, Some r, Some m) \<Rightarrow>
               if \<not> valid_snapshot R then Inl (StoreValueError ''RepositorySnapshot'')
               else if \<not> valid_registry r then Inl (StoreValueError ''CanonicalIdRegistry'')
               else if repository_hash m \<noteq> canonical_hash D R then Inl (StoreValueError (gen @ '' repository hash mismatch''))
               else if registry_hash m \<noteq> registry_hash_of D r then Inl (StoreValueError (gen @ '' registry hash mismatch''))
               else (case validate_covers_identifiers r (all_identifiers R) of
                   Some (RegistryError.ValueError e) \<Rightarrow> Inl (StoreValueError e)
                 | Some (OverflowError e) \<Rightarrow> Inl (StoreException e)
                 | None \<Rightarrow>
                     (case auxiliary_hash m of
                        None \<Rightarrow>
                          if auxiliary d \<noteq> None then Inl (StoreValueError (gen @ '' has unanchored auxiliary data''))
                          else Inr (R, r)
                      | Some h \<Rightarrow>
                          (case auxiliary d of
                             None \<Rightarrow> Inl (UnsafeRepositoryEntryError ''repository directory is absent'')
                           | Some t \<Rightarrow>
                               (case validated_auxiliary_hash t of
                                  Inl e \<Rightarrow> Inl e
                                | Inr h' \<Rightarrow>
                                    if h' \<noteq> h then Inl (StoreValueError (gen @ '' auxiliary hash mismatch''))
                                    else Inr (R, r)))))
           | _ \<Rightarrow> Inl (StoreValueError gen)))"

definition current_generation :: "StoreState \<Rightarrow> StoreError + nat" where
  "current_generation s =
     (case current_pointer s of
        None \<Rightarrow> Inl (StoreOSError ''repository CURRENT pointer does not exist'')
      | Some raw \<Rightarrow>
          (let value = py_strip raw in
           if 64 < length raw then Inl byte_limit_error
           else if \<not> numbered_name value then Inl (StoreValueError (''invalid CURRENT pointer '' @ value))
           else (case require_complete_generation s (str_nat value) of
               Inl e \<Rightarrow> Inl e
             | Inr _ \<Rightarrow> Inr (str_nat value))))"

text \<open>Once the generation is complete, its \<open>applied_tasks.json\<close> is within the limit, so reading it again succeeds.\<close>

definition load_receipts :: "StoreState \<Rightarrow> nat \<Rightarrow> StoreError + AppliedTaskReceipt list" where
  "load_receipts s g =
     (case require_complete_generation s g of
        Inl e \<Rightarrow> Inl e
      | Inr d \<Rightarrow> (case applied_tasks_file d of None \<Rightarrow> Inl (StoreValueError []) | Some rs \<Rightarrow> Inr rs))"

definition load_current ::
  "Dumps \<Rightarrow> StoreState \<Rightarrow> StoreError + nat \<times> RepositorySnapshot \<times> CanonicalIdRegistry" where
  "load_current D s =
     (case current_generation s of
        Inl e \<Rightarrow> Inl e
      | Inr g \<Rightarrow> (case load_generation D s g of Inl e \<Rightarrow> Inl e | Inr (R, r) \<Rightarrow> Inr (g, R, r)))"

subsection \<open>Recovery\<close>

text \<open>\<open>int(text.strip())\<close> on a control file: a sign, and digits that underscores may group.\<close>

fun digit_groups :: "string \<Rightarrow> bool" where
  "digit_groups [] = False"
| "digit_groups [c] = is_digit c"
| "digit_groups (c # d # s) = (is_digit c \<and> (if d = CHR ''_'' then digit_groups s else digit_groups (d # s)))"

definition py_int :: "string \<Rightarrow> int option" where
  "py_int raw =
     (let s = py_strip raw;
          negative = (s \<noteq> [] \<and> hd s = CHR ''-'');
          digits = (if s \<noteq> [] \<and> (hd s = CHR ''-'' \<or> hd s = CHR ''+'') then tl s else s) in
      if digit_groups digits
      then Some ((if negative then -1 else 1) * int (str_nat (filter (\<lambda>c. c \<noteq> CHR ''_'') digits)))
      else None)"

text \<open>The loop over the entries: complete generations are collected, incomplete ones removed, and an
  unreadable one stops the recovery.\<close>

definition scan_verdict :: "StoreState \<Rightarrow> nat \<Rightarrow> string \<Rightarrow> StoreError option" where
  "scan_verdict s g marker =
     (case marker_issue g marker of
        Some e \<Rightarrow> Some e
      | None \<Rightarrow> (case require_complete_generation s g of Inl e \<Rightarrow> Some e | Inr _ \<Rightarrow> None))"

fun scan_generations :: "(string \<times> DirEntry) list \<Rightarrow> StoreState \<Rightarrow> StoreState \<times> (StoreError + nat list)" where
  "scan_generations [] s = (s, Inr [])"
| "scan_generations ((n, e) # rest) s =
     (if \<not> numbered_name n then scan_generations rest s
      else case e of
        SpecialEntry \<Rightarrow> (s, Inl (UnsafeRepositoryEntryError ''generation path is a symlink or special file''))
      | GenDir d \<Rightarrow>
          (case completion_marker d of
             None \<Rightarrow> scan_generations rest (remove_entry n s)
           | Some marker \<Rightarrow>
               (case scan_verdict s (str_nat n) marker of
                  Some err \<Rightarrow> (s, Inl err)
                | None \<Rightarrow>
                    (case scan_generations rest s of
                       (s', Inl err) \<Rightarrow> (s', Inl err)
                     | (s', Inr complete) \<Rightarrow> (s', Inr (str_nat n # complete))))))"

text \<open>A pointer that cannot be used counts as absent, but one that cannot be read safely stops the recovery.\<close>

definition recovered_pointer :: "StoreState \<Rightarrow> StoreError + nat option" where
  "recovered_pointer s =
     (case current_pointer s of
        None \<Rightarrow> Inr None
      | Some raw \<Rightarrow>
          if 64 < length raw then Inl byte_limit_error
          else (case py_int raw of
             None \<Rightarrow> Inr None
           | Some i \<Rightarrow>
               if i < 0 then Inr None
               else (case require_complete_generation s (nat i) of
                   Inl (UnsafeRepositoryEntryError e) \<Rightarrow> Inl (UnsafeRepositoryEntryError e)
                 | Inl _ \<Rightarrow> Inr None
                 | Inr _ \<Rightarrow> Inr (Some (nat i)))))"

definition pointer_text :: "nat \<Rightarrow> string" where
  "pointer_text g = generation_name g @ [CHR 0x0A]"

definition set_pointer :: "nat \<Rightarrow> StoreState \<Rightarrow> StoreState" where
  "set_pointer g s = s\<lparr>current_pointer := Some (pointer_text g)\<rparr>"

definition recover :: "StoreState \<Rightarrow> StoreState \<times> (StoreError + nat option)" where
  "recover s0 =
     (let s1 = s0\<lparr>entries := filter (\<lambda>e. \<not> staging_name (fst e)) (entries s0)\<rparr> in
      case scan_generations (entries s1) s1 of
        (s2, Inl e) \<Rightarrow> (s2, Inl e)
      | (s2, Inr complete) \<Rightarrow>
          (case recovered_pointer s2 of
             Inl e \<Rightarrow> (s2, Inl e)
           | Inr None \<Rightarrow>
               if complete = [] then (s2, Inr None)
               else (set_pointer (Max (set complete)) s2, Inr (Some (Max (set complete))))
           | Inr (Some current) \<Rightarrow>
               (fold (\<lambda>g. remove_entry (generation_name g)) (filter (\<lambda>g. current < g) complete) s2, Inr (Some current))))"

subsection \<open>Recovery, deletion by deletion\<close>

text \<open>
  \<open>shutil.rmtree\<close> deletes a file or an empty directory at a time. \<open>remove_path\<close> is one such deletion; on
  a directory that is not empty it does nothing. \<open>deletions\<close> is an order in which the paths of a
  generation may go: the given paths first, whatever they are, then all that the directory holds,
  each directory after its contents.
\<close>

definition drop_auxiliary :: "string \<Rightarrow> AuxTree \<Rightarrow> AuxTree" where
  "drop_auxiliary p t =
     (if p \<in> fst ` set (aux_files t) then t\<lparr>aux_files := filter (\<lambda>f. fst f \<noteq> p) (aux_files t)\<rparr>
      else if list_ex (starts_with (p @ ''/'')) (aux_dirs t @ map fst (aux_files t)) then t
      else t\<lparr>aux_dirs := filter (\<lambda>x. x \<noteq> p) (aux_dirs t)\<rparr>)"

definition remove_path :: "string \<Rightarrow> GenerationDir \<Rightarrow> GenerationDir" where
  "remove_path p d =
     (if p = REPOSITORY_FILE then d\<lparr>repository_file := None\<rparr>
      else if p = REGISTRY_FILE then d\<lparr>registry_file := None\<rparr>
      else if p = GENERATION_MANIFEST_FILE then d\<lparr>manifest_file := None\<rparr>
      else if p = APPLIED_TASKS_FILE then d\<lparr>applied_tasks_file := None\<rparr>
      else if p = COMPLETION_MARKER then d\<lparr>completion_marker := None\<rparr>
      else if p = ''auxiliary''
        then (if auxiliary d = Some \<lparr>aux_files = [], aux_dirs = []\<rparr> then d\<lparr>auxiliary := None\<rparr> else d)
      else if starts_with ''auxiliary/'' p then d\<lparr>auxiliary := map_option (drop_auxiliary (drop 10 p)) (auxiliary d)\<rparr>
      else d\<lparr>other_files := filter (\<lambda>x. x \<noteq> p) (other_files d)\<rparr>)"

definition deletions :: "string list \<Rightarrow> GenerationDir \<Rightarrow> string list" where
  "deletions order d =
     order @
     (case auxiliary d of
        None \<Rightarrow> []
      | Some t \<Rightarrow> map (\<lambda>p. ''auxiliary/'' @ p) (map fst (aux_files t) @ rev (aux_dirs t)) @ [''auxiliary'']) @
     other_files d @
     [REPOSITORY_FILE, REGISTRY_FILE, GENERATION_MANIFEST_FILE, APPLIED_TASKS_FILE, COMPLETION_MARKER]"

text \<open>The states in which the deletion of an entry leaves the store, one after the other.\<close>

fun delete_paths :: "string \<Rightarrow> string list \<Rightarrow> GenerationDir \<Rightarrow> StoreState \<Rightarrow> StoreState list" where
  "delete_paths n [] d s = []"
| "delete_paths n (p # ps) d s = put_dir n (remove_path p d) s # delete_paths n ps (remove_path p d) s"

definition delete_entry :: "(string \<Rightarrow> string list) \<Rightarrow> string \<times> DirEntry \<Rightarrow> StoreState \<Rightarrow> StoreState list" where
  "delete_entry order e s =
     (case e of
        (n, GenDir d) \<Rightarrow> delete_paths n (deletions (order n) d) d s @ [remove_entry n s]
      | (n, SpecialEntry) \<Rightarrow> [remove_entry n s])"

fun delete_staging :: "(string \<Rightarrow> string list) \<Rightarrow> (string \<times> DirEntry) list \<Rightarrow> StoreState \<Rightarrow> StoreState list" where
  "delete_staging order [] s = []"
| "delete_staging order (e # es) s =
     (if staging_name (fst e) then delete_entry order e s @ delete_staging order es (remove_entry (fst e) s)
      else delete_staging order es s)"

fun delete_unfinished :: "(string \<Rightarrow> string list) \<Rightarrow> (string \<times> DirEntry) list \<Rightarrow> StoreState \<Rightarrow> StoreState list" where
  "delete_unfinished order [] s = []"
| "delete_unfinished order ((n, e) # rest) s =
     (if \<not> numbered_name n then delete_unfinished order rest s
      else case e of
        SpecialEntry \<Rightarrow> []
      | GenDir d \<Rightarrow>
          (case completion_marker d of
             None \<Rightarrow> delete_entry order (n, e) s @ delete_unfinished order rest (remove_entry n s)
           | Some marker \<Rightarrow>
               if scan_verdict s (str_nat n) marker = None then delete_unfinished order rest s else []))"

fun delete_newer :: "(string \<Rightarrow> string list) \<Rightarrow> nat list \<Rightarrow> StoreState \<Rightarrow> StoreState list" where
  "delete_newer order [] s = []"
| "delete_newer order (g # gs) s =
     (case lookup_entry s (generation_name g) of
        None \<Rightarrow> delete_newer order gs s
      | Some e \<Rightarrow> delete_entry order (generation_name g, e) s @ delete_newer order gs (remove_entry (generation_name g) s))"

text \<open>The states recovery passes through, the latest first, the state it started in last.\<close>

definition recover_trace :: "(string \<Rightarrow> string list) \<Rightarrow> StoreState \<Rightarrow> StoreState list \<times> (StoreError + nat option)" where
  "recover_trace order s0 =
     (let cleaned = delete_staging order (entries s0) s0;
          s1 = last (s0 # cleaned);
          removed = delete_unfinished order (entries s1) s1;
          trace = rev (s0 # cleaned @ removed) in
      case scan_generations (entries s1) s1 of
        (s2, Inl e) \<Rightarrow> (trace, Inl e)
      | (s2, Inr complete) \<Rightarrow>
          (case recovered_pointer s2 of
             Inl e \<Rightarrow> (trace, Inl e)
           | Inr None \<Rightarrow>
               if complete = [] then (trace, Inr None)
               else (set_pointer (Max (set complete)) s2 # trace, Inr (Some (Max (set complete))))
           | Inr (Some current) \<Rightarrow>
               (rev (delete_newer order (filter (\<lambda>g. current < g) complete) s2) @ trace, Inr (Some current))))"

subsection \<open>Initialisation\<close>

definition generation_dir ::
  "Dumps \<Rightarrow> string \<Rightarrow> nat \<Rightarrow> RepositorySnapshot \<Rightarrow> CanonicalIdRegistry \<Rightarrow> AppliedTaskReceipt list \<Rightarrow> GenerationDir" where
  "generation_dir D now g R r receipts =
     write_receipts D receipts
       ((write_registry D r (write_repository D R empty_dir))\<lparr>
          manifest_file := Some \<lparr>GenerationManifest.generation = g, previous_generation = expected_previous g,
            created_at = now, repository_hash = canonical_hash D R, registry_hash = registry_hash_of D r,
            auxiliary_hash = None\<rparr>\<rparr>)"

definition initialize :: "Dumps \<Rightarrow> string \<Rightarrow> RepositorySnapshot \<Rightarrow> StoreState \<Rightarrow> StoreState \<times> (StoreError + nat)" where
  "initialize D now initial s0 =
     (case recover s0 of
        (s1, Inl e) \<Rightarrow> (s1, Inl e)
      | (s1, Inr _) \<Rightarrow>
          if current_pointer s1 \<noteq> None then (s1, current_generation s1)
          else if \<not> valid_snapshot initial then (s1, Inl (StoreValueError ''RepositorySnapshot''))
          else (case validate_repository initial of
              Inl report \<Rightarrow> (s1, Inl (StoreException ''ValidationReport''))
            | Inr _ \<Rightarrow>
                (case from_identifiers (all_identifiers initial) of
                   Inl (RegistryError.ValueError e) \<Rightarrow> (s1, Inl (StoreValueError e))
                 | Inl (OverflowError e) \<Rightarrow> (s1, Inl (StoreException e))
                 | Inr new_registry \<Rightarrow>
                     (set_pointer 0 (put_dir (generation_name 0)
                        ((generation_dir D now 0 initial new_registry [])\<lparr>completion_marker := Some COMPLETE\<rparr>)
                        (remove_entry (generation_name 0) s1)), Inr 0))))"

subsection \<open>Commit\<close>

type_synonym StorePromotion = "RepositorySnapshot \<Rightarrow> CanonicalIdRegistry \<Rightarrow> StoreError + PromotionPayload"
type_synonym ReceiptFactory = "nat \<Rightarrow> RepositorySnapshot \<Rightarrow> PromotionPayload \<Rightarrow> StoreError + AppliedTaskReceipt"
type_synonym Materializer = "nat \<Rightarrow> PromotionPayload \<Rightarrow> StoreError + (string \<times> string) list"

record CommitRequest =
  base_generation :: nat
  dependencies :: "string strdict"
  promotion :: StorePromotion
  receipt_factory :: "ReceiptFactory option"
  staging_materializer :: "Materializer option"
  crash_at :: "CrashPoint option"
  staging_suffix :: string
  commit_time :: string
  removal_order :: "string \<Rightarrow> string list"

definition staging_dir_name :: "nat \<Rightarrow> string \<Rightarrow> string" where
  "staging_dir_name g suffix = ''.'' @ generation_name g @ ''.staging-'' @ suffix"

text \<open>The freshness checks, the promotion with the copy of its payload, and the checks on the payload.\<close>

fun stale_dependency :: "Dumps \<Rightarrow> RepositorySnapshot \<Rightarrow> string strdict \<Rightarrow> StoreError option" where
  "stale_dependency D R [] = None"
| "stale_dependency D R ((key, expected) # deps) =
     (case dependency_hash D R key of
        None \<Rightarrow> Some (StaleSnapshotError (''canonical dependency '' @ key @ '' does not exist''))
      | Some actual \<Rightarrow>
          if actual \<noteq> expected then Some (StaleSnapshotError (''dependency '' @ key @ '' changed since task creation''))
          else stale_dependency D R deps)"

definition copy_payload :: "PromotionPayload \<Rightarrow> StoreError + PromotionPayload" where
  "copy_payload p =
     (if \<not> valid_snapshot (snapshot p) then Inl (StoreValueError ''RepositorySnapshot'')
      else if \<not> valid_registry (registry p) then Inl (StoreValueError ''CanonicalIdRegistry'')
      else Inr p)"

definition staged_issue :: "RepositorySnapshot \<Rightarrow> CanonicalIdRegistry \<Rightarrow> StoreError option" where
  "staged_issue R r =
     (case validate_repository R of
        Inl _ \<Rightarrow> Some (StagedRepositoryValidationError ''ValidationReport'')
      | Inr _ \<Rightarrow>
          (case validate_covers_identifiers r (all_identifiers R) of
             None \<Rightarrow> None
           | Some (RegistryError.ValueError e) \<Rightarrow> Some (StagedRepositoryValidationError e)
           | Some (OverflowError e) \<Rightarrow> Some (StagedRepositoryValidationError e)))"

definition checked_payload ::
  "Dumps \<Rightarrow> CommitRequest \<Rightarrow> StoreState \<Rightarrow> StoreError + RepositorySnapshot \<times> PromotionPayload" where
  "checked_payload D q s =
     (case current_generation s of
        Inl e \<Rightarrow> Inl e
      | Inr current \<Rightarrow>
          if current \<noteq> base_generation q
          then Inl (StaleSnapshotError (''task generation '' @ nat_str (base_generation q) @ '' is stale; current is '' @ nat_str current))
          else (case load_generation D s current of
              Inl e \<Rightarrow> Inl e
            | Inr (R, r) \<Rightarrow>
                (case stale_dependency D R (dependencies q) of
                   Some e \<Rightarrow> Inl e
                 | None \<Rightarrow>
                     (case CommitRequest.promotion q R r of
                        Inl e \<Rightarrow> Inl e
                      | Inr proposed \<Rightarrow>
                          (case copy_payload proposed of
                             Inl e \<Rightarrow> Inl e
                           | Inr payload \<Rightarrow>
                               (case staged_issue (snapshot payload) (registry payload) of
                                  Some e \<Rightarrow> Inl e
                                | None \<Rightarrow> Inr (R, payload)))))))"

definition build_receipt ::
  "CommitRequest \<Rightarrow> nat \<Rightarrow> RepositorySnapshot \<Rightarrow> PromotionPayload \<Rightarrow> StoreError + AppliedTaskReceipt option" where
  "build_receipt q g R payload =
     (if crash_at q = Some BEFORE_RECEIPT_CONSTRUCTION then Inl (InjectedCrash BEFORE_RECEIPT_CONSTRUCTION)
      else case receipt_factory q of
        None \<Rightarrow> Inr None
      | Some factory \<Rightarrow> (case factory g R payload of Inl e \<Rightarrow> Inl e | Inr receipt \<Rightarrow> Inr (Some receipt)))"

definition materialize_auxiliary ::
  "CommitRequest \<Rightarrow> nat \<Rightarrow> PromotionPayload \<Rightarrow> StoreError + (AuxTree \<times> string) option" where
  "materialize_auxiliary q g payload =
     (case staging_materializer q of
        None \<Rightarrow> Inr None
      | Some materializer \<Rightarrow>
          (case materializer g payload of
             Inl e \<Rightarrow> Inl e
           | Inr writes \<Rightarrow>
               (case write_all \<lparr>aux_files = [], aux_dirs = []\<rparr> writes of
                  Inl e \<Rightarrow> Inl e
                | Inr t \<Rightarrow> (case validated_auxiliary_hash t of Inl e \<Rightarrow> Inl e | Inr h \<Rightarrow> Inr (Some (t, h))))))"

text \<open>
  \<open>commit\<close> as the list of the states it passes through, the latest first, with its result. A step
  that only reads adds no state. The materialization of the auxiliary tree is one step: until the
  rename nothing in the staging directory is looked at.
\<close>

definition crash_here :: "CommitRequest \<Rightarrow> CrashPoint \<Rightarrow> bool" where
  "crash_here q p \<longleftrightarrow> crash_at q = Some p"

definition publish ::
  "CommitRequest \<Rightarrow> nat \<Rightarrow> PromotionPayload \<Rightarrow> AppliedTaskReceipt option \<Rightarrow> GenerationDir \<Rightarrow> StoreState list
    \<Rightarrow> StoreState list \<times> (StoreError + CommitResult)" where
  "publish q g payload receipt d trace =
     (let stage = staging_dir_name g (staging_suffix q);
          sealed = d\<lparr>completion_marker := Some COMPLETE\<rparr>;
          s1 = put_dir stage sealed (hd trace);
          s2 = put_dir (generation_name g) sealed (remove_entry stage s1);
          s3 = set_pointer g s2 in
      if crash_here q BEFORE_COMPLETION_MARKER then (trace, Inl (InjectedCrash BEFORE_COMPLETION_MARKER))
      else if crash_here q AFTER_COMPLETION_MARKER_BEFORE_CURRENT
        then (s2 # s1 # trace, Inl (InjectedCrash AFTER_COMPLETION_MARKER_BEFORE_CURRENT))
      else if crash_here q AFTER_CURRENT then (s3 # s2 # s1 # trace, Inl (InjectedCrash AFTER_CURRENT))
      else (s3 # s2 # s1 # trace,
            Inr \<lparr>committed = g, commit_ids = payload_ids payload, commit_receipt = receipt\<rparr>))"

definition core_oversized :: "GenerationDir \<Rightarrow> bool" where
  "core_oversized d \<longleftrightarrow> list_ex (oversized d) [REPOSITORY_FILE, REGISTRY_FILE, APPLIED_TASKS_FILE]"

text \<open>
  The three core files are read back before and after a materializer runs, if there is one, and the
  staged validation reads the repository and the registry back; \<open>applied_tasks.json\<close> is not read
  before it is published unless there is a materializer.
\<close>

definition stage_generation ::
  "Dumps \<Rightarrow> CommitRequest \<Rightarrow> nat \<Rightarrow> PromotionPayload \<Rightarrow> AppliedTaskReceipt option \<Rightarrow> StoreState
    \<Rightarrow> StoreState list \<times> (StoreError + CommitResult)" where
  "stage_generation D q g payload receipt s =
     (let stage = staging_dir_name g (staging_suffix q);
          d0 = empty_dir; d1 = write_repository D (snapshot payload) d0;
          d2 = write_registry D (registry payload) d1;
          s0 = put_dir stage d0 s; s1 = put_dir stage d1 s0; s2 = put_dir stage d2 s1 in
      if crash_here q DURING_GENERATION_MATERIALIZATION
        then ([put_dir stage (d0\<lparr>other_files := [''.partial'']\<rparr>) s0, s0, s], Inl (InjectedCrash DURING_GENERATION_MATERIALIZATION))
      else if crash_here q AFTER_SCIENTIFIC_STAGING_BEFORE_RECEIPT_STAGING
        then ([s2, s1, s0, s], Inl (InjectedCrash AFTER_SCIENTIFIC_STAGING_BEFORE_RECEIPT_STAGING))
      else
       (case load_receipts s2 (g - 1) of
          Inl e \<Rightarrow> ([s2, s1, s0, s], Inl e)
        | Inr inherited \<Rightarrow>
            (let d3 = write_receipts D (inherited @ (case receipt of None \<Rightarrow> [] | Some r \<Rightarrow> [r])) d2;
                 s3 = put_dir stage d3 s2 in
             if staging_materializer q \<noteq> None \<and> core_oversized d3 then ([s3, s2, s1, s0, s], Inl byte_limit_error)
             else
             (case materialize_auxiliary q g payload of
               Inl e \<Rightarrow> ([put_dir stage (d3\<lparr>auxiliary := Some \<lparr>aux_files = [], aux_dirs = []\<rparr>\<rparr>) s3, s3, s2, s1, s0, s], Inl e)
             | Inr aux \<Rightarrow>
                 (let d4 = d3\<lparr>auxiliary := map_option fst aux\<rparr>; s4 = put_dir stage d4 s3 in
                  if crash_here q BEFORE_STAGED_VALIDATION
                    then ([s4, s3, s2, s1, s0, s], Inl (InjectedCrash BEFORE_STAGED_VALIDATION))
                  else if oversized d4 REPOSITORY_FILE \<or> oversized d4 REGISTRY_FILE
                    then ([s4, s3, s2, s1, s0, s],
                          Inl (StagedRepositoryValidationError ''repository control file exceeds its byte limit''))
                  else
                   (case staged_issue (snapshot payload) (registry payload) of
                      Some e \<Rightarrow> ([s4, s3, s2, s1, s0, s], Inl e)
                    | None \<Rightarrow>
                        (let d5 = d4\<lparr>manifest_file := Some \<lparr>GenerationManifest.generation = g,
                               previous_generation = Some (g - 1), created_at = commit_time q,
                               repository_hash = canonical_hash D (snapshot payload),
                               registry_hash = registry_hash_of D (registry payload),
                               auxiliary_hash = map_option snd aux\<rparr>\<rparr> in
                         publish q g payload receipt d5 (put_dir stage d5 s4 # [s4, s3, s2, s1, s0, s]))))))))"

text \<open>What follows the recovery.\<close>

definition commit_recovered :: "Dumps \<Rightarrow> CommitRequest \<Rightarrow> StoreState \<Rightarrow> StoreState list \<times> (StoreError + CommitResult)" where
  "commit_recovered D q s =
     (case checked_payload D q s of
        Inl e \<Rightarrow> ([s], Inl e)
      | Inr (R, payload) \<Rightarrow>
          (let g = base_generation q + 1 in
           if lookup_entry s (generation_name g) \<noteq> None
           then ([s], Inl (StoreOSError (''generation '' @ nat_str g @ '' already exists'')))
           else (case build_receipt q g R payload of
               Inl e \<Rightarrow> ([s], Inl e)
             | Inr receipt \<Rightarrow> stage_generation D q g payload receipt s)))"

text \<open>The latest state of the recovery is the first of what follows.\<close>

definition commit_trace :: "Dumps \<Rightarrow> CommitRequest \<Rightarrow> StoreState \<Rightarrow> StoreState list \<times> (StoreError + CommitResult)" where
  "commit_trace D q before =
     (case recover_trace (removal_order q) before of
        (trace, Inl e) \<Rightarrow> (trace, Inl e)
      | (trace, Inr _) \<Rightarrow> (case commit_recovered D q (hd trace) of (later, result) \<Rightarrow> (later @ tl trace, result)))"

definition commit :: "Dumps \<Rightarrow> CommitRequest \<Rightarrow> StoreState \<Rightarrow> StoreState \<times> (StoreError + CommitResult)" where
  "commit D q s = (let (trace, result) = commit_trace D q s in (hd trace, result))"

end
