(* ===== verification/VR_Store_Correct.thy ===== *)
theory VR_Store_Correct
  imports VR_Store
begin

section \<open>The store refines an append-only history\<close>

text \<open>
  What the store promises is a list of versions: \<open>represents D s vs\<close> says that the state \<open>s\<close> of the
  directory stands for the history \<open>vs\<close>, whatever staging directories, incomplete generations or
  unpublished complete generations a crash left behind. It is \<open>orderly\<close> when every numbered entry is
  unfinished or complete and within the read limits. Recovery of an orderly state keeps the history
  and clears the debris; recovery of any other state fails. Every state a recovery or a commit passes
  through represents the old history or the old one with one more version.
\<close>

type_synonym Version = "RepositorySnapshot \<times> CanonicalIdRegistry \<times> AppliedTaskReceipt list"

definition aux_anchored :: "GenerationManifest \<Rightarrow> GenerationDir \<Rightarrow> bool" where
  "aux_anchored m d \<longleftrightarrow>
     (case auxiliary_hash m of
        None \<Rightarrow> auxiliary d = None
      | Some h \<Rightarrow> (case auxiliary d of None \<Rightarrow> False | Some t \<Rightarrow> validated_auxiliary_hash t = Inr h))"

definition good_dir :: "Dumps \<Rightarrow> nat \<Rightarrow> Version \<Rightarrow> GenerationDir \<Rightarrow> bool" where
  "good_dir D g v d \<longleftrightarrow>
     (case v of (R, r, rs) \<Rightarrow>
       completion_marker d = Some COMPLETE \<and> repository_file d = Some R \<and> registry_file d = Some r \<and>
       applied_tasks_file d = Some rs \<and> valid_snapshot R \<and> valid_registry r \<and>
       validate_covers_identifiers r (all_identifiers R) = None \<and> (\<exists>rep. validate_repository R = Inr rep) \<and>
       (\<exists>m. manifest_file d = Some m \<and> GenerationManifest.generation m = g \<and> previous_generation m = expected_previous g \<and>
          repository_hash m = canonical_hash D R \<and> registry_hash m = registry_hash_of D r \<and> aux_anchored m d))"

definition readable :: "GenerationDir \<Rightarrow> bool" where
  "readable d \<longleftrightarrow> \<not> oversized d REPOSITORY_FILE \<and> \<not> oversized d REGISTRY_FILE \<and>
     \<not> oversized d GENERATION_MANIFEST_FILE \<and> \<not> oversized d APPLIED_TASKS_FILE"

definition complete_dir :: "nat \<Rightarrow> GenerationDir \<Rightarrow> bool" where
  "complete_dir g d \<longleftrightarrow>
     completion_marker d = Some COMPLETE \<and> repository_file d \<noteq> None \<and> registry_file d \<noteq> None \<and>
     applied_tasks_file d \<noteq> None \<and> readable d \<and>
     (\<exists>m. manifest_file d = Some m \<and> GenerationManifest.generation m = g \<and> previous_generation m = expected_previous g)"

definition benign :: "string \<times> DirEntry \<Rightarrow> bool" where
  "benign e \<longleftrightarrow> (numbered_name (fst e) \<longrightarrow>
     (\<exists>d. snd e = GenDir d \<and> (completion_marker d = None \<or> complete_dir (str_nat (fst e)) d)))"

definition orderly :: "StoreState \<Rightarrow> bool" where
  "orderly s \<longleftrightarrow> (\<forall>e \<in> set (entries s). benign e)"

definition represents :: "Dumps \<Rightarrow> StoreState \<Rightarrow> Version list \<Rightarrow> bool" where
  "represents D s vs \<longleftrightarrow>
     vs \<noteq> [] \<and> length vs \<le> 10 ^ 6 \<and> current_pointer s = Some (pointer_text (length vs - 1)) \<and>
     distinct (map fst (entries s)) \<and>
     (\<forall>g < length vs. \<exists>d. lookup_entry s (generation_name g) = Some (GenDir d) \<and> good_dir D g (vs ! g) d)"

definition tidy :: "StoreState \<Rightarrow> nat \<Rightarrow> bool" where
  "tidy s n \<longleftrightarrow> (\<forall>e \<in> set (entries s). \<not> staging_name (fst e) \<and>
     (numbered_name (fst e) \<longrightarrow> str_nat (fst e) < n))"

subsection \<open>Names\<close>

lemma length_generation_name: "g < 10 ^ 6 \<Longrightarrow> length (generation_name g) = 6"
  using length_pad_str [of g 5] by (simp add: generation_name_def)

lemma numbered_generation_name: "g < 10 ^ 6 \<Longrightarrow> numbered_name (generation_name g)"
  using length_generation_name [of g] pad_str_digits [of 6 g] by (simp add: numbered_name_def generation_name_def)

lemma str_nat_generation_name [simp]: "str_nat (generation_name g) = g"
  by (simp add: generation_name_def vr_text)

lemma generation_name_digits: "list_all is_digit (generation_name g)" "generation_name g \<noteq> []"
  using length_pad_str_ge [of 6 g] by (auto simp: generation_name_def vr_text)

lemma generation_name_inj: "generation_name g = generation_name h \<longleftrightarrow> g = h"
  by (metis str_nat_generation_name)

lemma digit_val_inj: "is_digit c \<Longrightarrow> is_digit d \<Longrightarrow> digit_val c = digit_val d \<Longrightarrow> c = d"
proof -
  assume "is_digit c" "is_digit d" "digit_val c = digit_val d"
  then have "(of_char c :: nat) = of_char d" using is_digit_val by presburger
  then show ?thesis by simp
qed

lemma str_nat_bound: "list_all is_digit s \<Longrightarrow> str_nat s < 10 ^ length s"
proof (induction s rule: rev_induct)
  case (snoc c s)
  then have "str_nat s < 10 ^ length s" "digit_val c \<le> 9" using is_digit_val [of c] by auto
  then show ?case by (simp add: str_nat_snoc)
qed (simp add: str_nat_def)

lemma str_nat_inj:
  "length s = length t \<Longrightarrow> list_all is_digit s \<Longrightarrow> list_all is_digit t \<Longrightarrow> str_nat s = str_nat t \<Longrightarrow> s = t"
proof (induction s arbitrary: t rule: rev_induct)
  case (snoc c s)
  then obtain d u where t: "t = u @ [d]" by (cases t rule: rev_cases) auto
  then have v: "10 * str_nat s + digit_val c = 10 * str_nat u + digit_val d" "digit_val c \<le> 9" "digit_val d \<le> 9"
    using snoc.prems is_digit_val [of c] is_digit_val [of d] by (simp_all add: str_nat_snoc)
  then have "str_nat s = str_nat u" "digit_val c = digit_val d" by presburger+
  then show ?case using snoc.IH [of u] snoc.prems t digit_val_inj by simp
qed simp

lemma str_nat_less: "numbered_name n \<Longrightarrow> str_nat n < 10 ^ 6"
  using str_nat_bound [of n] by (simp add: numbered_name_def)

lemma numbered_name_generation: "numbered_name n \<Longrightarrow> generation_name (str_nat n) = n"
proof -
  assume n: "numbered_name n"
  then have "numbered_name (generation_name (str_nat n))" by (intro numbered_generation_name str_nat_less)
  then show ?thesis using n str_nat_inj [of "generation_name (str_nat n)" n] by (simp add: numbered_name_def)
qed

lemma staging_not_numbered: "staging_name n \<Longrightarrow> \<not> numbered_name n"
  by (cases n) (auto simp: staging_name_def numbered_name_def starts_with_def is_digit_def)

lemma occurs_in_append: "occurs_in sub (s @ sub @ t)"
  by (induction s) (cases sub; cases t; simp add: starts_with_def)+

lemma staging_dir_name_staging: "staging_name (staging_dir_name g suffix)"
  using occurs_in_append [of "''.staging-''" "generation_name g" suffix]
  by (simp add: staging_name_def staging_dir_name_def starts_with_def)

lemma digit_no_space: "is_digit c \<Longrightarrow> \<not> is_space c"
  by (auto simp: is_digit_def is_space_def)

lemma py_strip_digits: "list_all is_digit w \<Longrightarrow> w \<noteq> [] \<Longrightarrow> py_strip (w @ [CHR 0x0A]) = w"
proof -
  assume w: "list_all is_digit w" "w \<noteq> []"
  then have "dropWhile is_space (w @ [CHR 0x0A]) = w @ [CHR 0x0A]" by (cases w) (auto dest: digit_no_space)
  moreover have "dropWhile is_space (rev w) = rev w"
    using w by (cases w rule: rev_cases) (auto dest: digit_no_space)
  ultimately show ?thesis by (simp add: py_strip_def is_space_def)
qed

lemma py_strip_pointer: "py_strip (pointer_text g) = generation_name g"
  unfolding pointer_text_def by (rule py_strip_digits [OF generation_name_digits])

lemma digit_groups_digits: "list_all is_digit s \<Longrightarrow> s \<noteq> [] \<Longrightarrow> digit_groups s"
  by (induction s rule: digit_groups.induct) (auto simp: is_digit_def)

lemma py_int_pointer: "py_int (pointer_text g) = Some (int g)"
proof -
  let ?n = "generation_name g"
  note d = generation_name_digits [of g]
  then have "hd ?n \<noteq> CHR ''-''" "hd ?n \<noteq> CHR ''+''" by (cases ?n; auto simp: is_digit_def)+
  moreover have "filter (\<lambda>c. c \<noteq> CHR ''_'') ?n = ?n" using d by (auto simp: filter_id_conv list_all_iff is_digit_def)
  ultimately show ?thesis using digit_groups_digits [OF d] by (simp add: py_int_def py_strip_pointer Let_def)
qed

lemma length_pointer_text: "g < 10 ^ 6 \<Longrightarrow> length (pointer_text g) \<le> 64"
  by (simp add: pointer_text_def length_generation_name)

subsection \<open>Loading a represented history\<close>

lemma good_complete: "good_dir D g v d \<Longrightarrow> readable d \<Longrightarrow> complete_dir g d"
  by (auto simp: good_dir_def complete_dir_def split: prod.splits)

lemma good_marker: "good_dir D g v d \<Longrightarrow> completion_marker d = Some COMPLETE"
  by (auto simp: good_dir_def split: prod.splits)

lemma first_issue_None: "first_issue es = None \<longleftrightarrow> (\<forall>e \<in> set es. e = None)"
  by (induction es rule: first_issue.induct) auto

lemma marker_issue_None: "marker_issue g m = None \<longleftrightarrow> m = COMPLETE"
  by (auto simp: marker_issue_def COMPLETE_def)

lemma marker_issue_COMPLETE [simp]: "marker_issue g COMPLETE = None"
  by (simp add: marker_issue_None)

lemma control_file_issue_None: "control_file_issue g d p f = None \<longleftrightarrow> p \<and> \<not> oversized d f"
  by (simp add: control_file_issue_def)

lemma require_complete_iff:
  "require_complete_generation s g = Inr d \<longleftrightarrow> lookup_entry s (generation_name g) = Some (GenDir d) \<and> complete_dir g d"
proof (cases "lookup_entry s (generation_name g)")
  case (Some e)
  show ?thesis
  proof (cases e)
    case (GenDir x)
    show ?thesis
    proof (cases "completion_marker x")
      case m: (Some m)
      define issue where "issue = first_issue
          [marker_issue g m, control_file_issue g x (repository_file x \<noteq> None) REPOSITORY_FILE,
           control_file_issue g x (registry_file x \<noteq> None) REGISTRY_FILE,
           control_file_issue g x (manifest_file x \<noteq> None) GENERATION_MANIFEST_FILE,
           control_file_issue g x (applied_tasks_file x \<noteq> None) APPLIED_TASKS_FILE]"
      have i: "issue = None \<longleftrightarrow> m = COMPLETE \<and> repository_file x \<noteq> None \<and> registry_file x \<noteq> None \<and>
          manifest_file x \<noteq> None \<and> applied_tasks_file x \<noteq> None \<and> readable x"
        by (simp add: issue_def first_issue_None marker_issue_None control_file_issue_None readable_def) blast
      have r: "require_complete_generation s g = (case issue of Some e \<Rightarrow> Inl e | None \<Rightarrow>
          (case manifest_file x of
             Some m \<Rightarrow> if GenerationManifest.generation m \<noteq> g \<or> previous_generation m \<noteq> expected_previous g
               then Inl (StoreValueError (''generation '' @ nat_str g @ '' manifest owner or lineage mismatch'')) else Inr x
           | None \<Rightarrow> Inl (StoreValueError (''generation '' @ nat_str g @ '' manifest is invalid''))))"
        by (simp only: require_complete_generation_def Some GenDir m issue_def Let_def option.case DirEntry.case append_assoc)
      show ?thesis
      proof (cases "issue = None")
        case True
        then show ?thesis using i Some GenDir m by (auto simp: r complete_dir_def split: option.splits)
      next
        case False
        then show ?thesis using i Some GenDir m by (auto simp: r complete_dir_def)
      qed
    qed (use Some GenDir in \<open>auto simp: require_complete_generation_def complete_dir_def Let_def\<close>)
  qed (simp add: require_complete_generation_def Some Let_def)
qed (simp add: require_complete_generation_def Let_def)

lemma lookup_iff:
  "distinct (map fst (entries s)) \<Longrightarrow> lookup_entry s n = Some e \<longleftrightarrow> (n, e) \<in> set (entries s)"
  by (simp add: lookup_entry_def)

lemma good_loads:
  assumes "lookup_entry s (generation_name g) = Some (GenDir d)" and "good_dir D g (R, r, rs) d" and "readable d"
  shows "load_generation D s g = Inr (R, r)" "load_receipts s g = Inr rs" "require_complete_generation s g = Inr d"
proof -
  show c: "require_complete_generation s g = Inr d" using assms good_complete by (simp add: require_complete_iff)
  then show "load_receipts s g = Inr rs" using assms(2) by (simp add: load_receipts_def good_dir_def)
  show "load_generation D s g = Inr (R, r)"
    using assms(2) c by (auto simp: load_generation_def good_dir_def aux_anchored_def split: option.splits)
qed

text \<open>In an orderly state the directories of the history are readable.\<close>

lemma orderly_readable:
  assumes o: "orderly s" and l: "lookup_entry s (generation_name g) = Some (GenDir d)" and g: "g < 10 ^ 6"
    and m: "completion_marker d \<noteq> None"
  shows "complete_dir g d"
proof -
  have "(generation_name g, GenDir d) \<in> set (entries s)" using l by (simp add: lookup_entry_def map_of_SomeD)
  then have "benign (generation_name g, GenDir d)" using o by (simp add: orderly_def)
  then show ?thesis using m numbered_generation_name [OF g] by (simp add: benign_def)
qed

lemma represented_dir:
  assumes r: "represents D s vs" and o: "orderly s" and g: "g < length vs"
  obtains d where "lookup_entry s (generation_name g) = Some (GenDir d)" "good_dir D g (vs ! g) d" "complete_dir g d" "readable d"
proof -
  from r g obtain d where d: "lookup_entry s (generation_name g) = Some (GenDir d)" "good_dir D g (vs ! g) d"
    unfolding represents_def by blast
  have "g < 10 ^ 6" using r g by (simp add: represents_def)
  then have c: "complete_dir g d" using orderly_readable [OF o d(1)] good_marker [OF d(2)] by simp
  then have "readable d" by (simp add: complete_dir_def)
  then show ?thesis using that d c by blast
qed

lemma represents_current:
  assumes r: "represents D s vs" and o: "orderly s"
  shows "current_generation s = Inr (length vs - 1)"
proof -
  have g: "length vs - 1 < length vs" "length vs - 1 < 10 ^ 6" and p: "current_pointer s = Some (pointer_text (length vs - 1))"
    using r by (auto simp: represents_def neq_Nil_conv)
  from represented_dir [OF r o g(1)] obtain d where
    "lookup_entry s (generation_name (length vs - 1)) = Some (GenDir d)" "complete_dir (length vs - 1) d" by blast
  then have "require_complete_generation s (length vs - 1) = Inr d" by (simp add: require_complete_iff)
  then show ?thesis
    using p numbered_generation_name [OF g(2)] length_pointer_text [OF g(2)]
    by (simp add: current_generation_def py_strip_pointer Let_def)
qed

lemma represents_version:
  assumes r: "represents D s vs" and o: "orderly s" and g: "g < length vs"
  shows "load_generation D s g = Inr (fst (vs ! g), fst (snd (vs ! g)))" "load_receipts s g = Inr (snd (snd (vs ! g)))"
proof -
  obtain R reg rs where v: "vs ! g = (R, reg, rs)" by (cases "vs ! g")
  from represented_dir [OF r o g] v obtain d where
    "lookup_entry s (generation_name g) = Some (GenDir d)" "good_dir D g (R, reg, rs) d" "readable d" by metis
  from good_loads [OF this] show "load_generation D s g = Inr (fst (vs ! g), fst (snd (vs ! g)))"
    "load_receipts s g = Inr (snd (snd (vs ! g)))" by (simp_all add: v)
qed

lemma represents_load:
  assumes r: "represents D s vs" and o: "orderly s" and last: "last vs = (R, r, rs)"
  shows "load_current D s = Inr (length vs - 1, R, r)" "load_generation D s (length vs - 1) = Inr (R, r)"
    "load_receipts s (length vs - 1) = Inr rs"
proof -
  have "length vs - 1 < length vs" "vs ! (length vs - 1) = (R, r, rs)"
    using assms by (auto simp: represents_def last_conv_nth)
  from represents_version [OF assms(1) o this(1)] this(2)
  show "load_generation D s (length vs - 1) = Inr (R, r)" "load_receipts s (length vs - 1) = Inr rs" by simp_all
  then show "load_current D s = Inr (length vs - 1, R, r)"
    using represents_current [OF assms(1) o] by (simp add: load_current_def)
qed

subsection \<open>Recovery\<close>

text \<open>The names the scan removes and the generations it finds complete.\<close>

definition unfinished :: "string \<times> DirEntry \<Rightarrow> bool" where
  "unfinished e \<longleftrightarrow> numbered_name (fst e) \<and> (\<exists>d. snd e = GenDir d \<and> completion_marker d = None)"

definition finished :: "(string \<times> DirEntry) list \<Rightarrow> nat list" where
  "finished es = map (\<lambda>e. str_nat (fst e)) (filter (\<lambda>e. numbered_name (fst e) \<and> \<not> unfinished e) es)"

lemma map_of_filter_key: "map_of (filter (\<lambda>e. P (fst e)) xs) k = (if P k then map_of xs k else None)"
  by (induction xs) auto

lemma scan_benign:
  assumes "\<forall>e \<in> set es. benign e" and "\<forall>e \<in> set es. lookup_entry s (fst e) = Some (snd e)" and "distinct (map fst es)"
  shows "scan_generations es s =
    (s\<lparr>entries := filter (\<lambda>e. fst e \<notin> fst ` {x \<in> set es. unfinished x}) (entries s)\<rparr>, Inr (finished es))"
  using assms
proof (induction es arbitrary: s)
  case Nil
  then show ?case by (simp add: finished_def)
next
  case (Cons e es)
  obtain n x where e: "e = (n, x)" by (cases e)
  have others: "\<forall>y \<in> set es. fst y \<noteq> n" using Cons.prems(3) e by auto
  show ?case
  proof (cases "numbered_name n")
    case False
    then have u: "\<not> unfinished e" by (simp add: unfinished_def e)
    then have "{x \<in> set (e # es). unfinished x} = {x \<in> set es. unfinished x}" by auto
    moreover have "finished (e # es) = finished es" using False by (simp add: finished_def e)
    moreover have "scan_generations (e # es) s = scan_generations es s" using False by (simp add: e)
    ultimately show ?thesis using Cons.IH [of s] Cons.prems by simp
  next
    case True
    then obtain d where d: "x = GenDir d" "completion_marker d = None \<or> complete_dir (str_nat n) d"
      using Cons.prems(1) by (auto simp: e benign_def)
    show ?thesis
    proof (cases "completion_marker d = None")
      case None: True
      let ?s = "remove_entry n s"
      have "\<forall>y \<in> set es. lookup_entry ?s (fst y) = Some (snd y)"
        using Cons.prems(2) others by (auto simp: lookup_entry_def remove_entry_def map_of_filter_key [of "\<lambda>k. k \<noteq> n"])
      then have "scan_generations es ?s =
          (?s\<lparr>entries := filter (\<lambda>e. fst e \<notin> fst ` {x \<in> set es. unfinished x}) (entries ?s)\<rparr>, Inr (finished es))"
        using Cons.IH [of ?s] Cons.prems by simp
      moreover have "unfinished e" using True d None by (simp add: unfinished_def e)
      moreover from this have "{x \<in> set (e # es). unfinished x} = insert e {x \<in> set es. unfinished x}" by auto
      then have "fst ` {x \<in> set (e # es). unfinished x} = insert n (fst ` {x \<in> set es. unfinished x})"
        by (simp only: image_insert) (simp add: e)
      moreover have "finished (e # es) = finished es" using \<open>unfinished e\<close> by (simp add: finished_def e)
      moreover have "scan_generations (e # es) s = scan_generations es ?s" using True d None by (simp add: e)
      ultimately show ?thesis by (simp add: remove_entry_def insert_iff)
    next
      case False
      then have c: "complete_dir (str_nat n) d" using d by (elim conjE disjE) (simp_all)
      then have "require_complete_generation s (str_nat n) = Inr d"
        using Cons.prems(2) numbered_name_generation [OF True] d by (simp add: require_complete_iff e)
      moreover have "\<not> unfinished e" using False d by (simp add: unfinished_def e)
      moreover have "completion_marker d = Some COMPLETE" using c by (simp add: complete_dir_def)
      moreover from calculation have "scan_verdict s (str_nat n) COMPLETE = None" by (simp add: scan_verdict_def)
      moreover from \<open>\<not> unfinished e\<close> have "{x \<in> set (e # es). unfinished x} = {x \<in> set es. unfinished x}" by auto
      moreover have "finished (e # es) = str_nat n # finished es" using \<open>\<not> unfinished e\<close> True by (simp add: finished_def e)
      ultimately show ?thesis
        using Cons.IH [of s] Cons.prems True d(1) by (simp add: e)
    qed
  qed
qed

lemma fold_remove:
  "fold (\<lambda>g. remove_entry (generation_name g)) gs s =
    s\<lparr>entries := filter (\<lambda>e. fst e \<notin> generation_name ` set gs) (entries s)\<rparr>"
  by (induction gs arbitrary: s) (auto simp: remove_entry_def intro!: filter_cong)

text \<open>What recovery leaves of the entries of a represented state.\<close>

definition kept :: "nat \<Rightarrow> string \<times> DirEntry \<Rightarrow> bool" where
  "kept current e \<longleftrightarrow> \<not> staging_name (fst e) \<and>
     (numbered_name (fst e) \<longrightarrow> \<not> unfinished e \<and> str_nat (fst e) \<le> current)"

lemma kept_numbered:
  assumes d: "distinct (map fst (entries s))" and e: "(n, x) \<in> set (entries s)" "numbered_name n" "\<not> unfinished (n, x)"
    and le: "str_nat n \<le> current"
  shows "lookup_entry (s\<lparr>entries := filter (kept current) (entries s)\<rparr>) n = Some x"
proof -
  have "\<not> staging_name n" using e(2) staging_not_numbered by blast
  then have "kept current (n, x)" using e le by (simp add: kept_def)
  moreover have "distinct (map fst (filter (kept current) (entries s)))" using d by (rule distinct_map_filter)
  ultimately show ?thesis using e(1) by (simp add: lookup_entry_def)
qed

lemma represented_entry:
  assumes "represents D s vs" "g < length vs"
  obtains d where "(generation_name g, GenDir d) \<in> set (entries s)" "good_dir D g (vs ! g) d"
    "numbered_name (generation_name g)" "\<not> unfinished (generation_name g, GenDir d)"
proof -
  from assms obtain d where d: "lookup_entry s (generation_name g) = Some (GenDir d)" "good_dir D g (vs ! g) d"
    unfolding represents_def by blast
  have "distinct (map fst (entries s))" "g < 10 ^ 6" using assms by (auto simp: represents_def)
  then show ?thesis
    using that [of d] d numbered_generation_name good_marker [OF d(2)]
    by (auto simp: lookup_iff unfinished_def)
qed

lemma recovered_represents:
  assumes r: "represents D s vs"
  shows "represents D (s\<lparr>entries := filter (kept (length vs - 1)) (entries s)\<rparr>) vs"
    "orderly s \<Longrightarrow> orderly (s\<lparr>entries := filter (kept (length vs - 1)) (entries s)\<rparr>)"
    "tidy (s\<lparr>entries := filter (kept (length vs - 1)) (entries s)\<rparr>) (length vs)"
proof -
  let ?s = "s\<lparr>entries := filter (kept (length vs - 1)) (entries s)\<rparr>"
  have d: "distinct (map fst (entries s))" and ne: "vs \<noteq> []" using r by (auto simp: represents_def)
  have "\<exists>d. lookup_entry ?s (generation_name g) = Some (GenDir d) \<and> good_dir D g (vs ! g) d" if "g < length vs" for g
  proof -
    from represented_entry [OF r that] obtain x where x: "(generation_name g, GenDir x) \<in> set (entries s)" "good_dir D g (vs ! g) x"
      "numbered_name (generation_name g)" "\<not> unfinished (generation_name g, GenDir x)" .
    from kept_numbered [OF d x(1,3,4), of "length vs - 1"] x(2) that show ?thesis by auto
  qed
  then show "represents D ?s vs" using r by (auto simp: represents_def intro: distinct_map_filter)
  show "orderly s \<Longrightarrow> orderly ?s" by (simp add: orderly_def)
  show "tidy ?s (length vs)" using ne by (cases vs) (auto simp: tidy_def kept_def)
qed

lemma recover_represented:
  assumes r: "represents D s vs" and o: "orderly s"
  shows "recover s = (s\<lparr>entries := filter (kept (length vs - 1)) (entries s)\<rparr>, Inr (Some (length vs - 1)))"
proof -
  define current where "current = length vs - 1"
  have d: "distinct (map fst (entries s))" and cur: "current < length vs" and b: "\<forall>e \<in> set (entries s). benign e"
    and p: "current_pointer s = Some (pointer_text current)"
    using r o by (auto simp: represents_def orderly_def current_def neq_Nil_conv)
  let ?e1 = "filter (\<lambda>e. \<not> staging_name (fst e)) (entries s)"
  let ?s1 = "s\<lparr>entries := ?e1\<rparr>"
  let ?e2 = "filter (\<lambda>e. fst e \<notin> fst ` {x \<in> set ?e1. unfinished x}) ?e1"
  have d1: "distinct (map fst ?e1)" using d by (rule distinct_map_filter)
  have scan: "scan_generations (entries ?s1) ?s1 = (?s1\<lparr>entries := ?e2\<rparr>, Inr (finished ?e1))"
    using scan_benign [of ?e1 ?s1] b d1 by (simp add: lookup_entry_def)
  have unf: "fst e \<in> fst ` {x \<in> set ?e1. unfinished x} \<longleftrightarrow> unfinished e" if "e \<in> set ?e1" for e
  proof -
    have "inj_on fst (set ?e1)" using d1 by (simp add: distinct_map)
    then have "fst e \<in> fst ` {x \<in> set ?e1. unfinished x} \<longleftrightarrow> e \<in> {x \<in> set ?e1. unfinished x}"
      by (rule inj_on_image_mem_iff) (use that in auto)
    then show ?thesis using that by blast
  qed
  have e2: "?e2 = filter (\<lambda>e. \<not> staging_name (fst e) \<and> \<not> unfinished e) (entries s)"
    using unf by (auto simp: conj_commute intro!: filter_cong)
  from represented_entry [OF r cur] obtain x where x: "(generation_name current, GenDir x) \<in> set (entries s)"
    "good_dir D current (vs ! current) x" "numbered_name (generation_name current)" "\<not> unfinished (generation_name current, GenDir x)" .
  have small: "current < 10 ^ 6" using r cur by (simp add: represents_def)
  have "lookup_entry s (generation_name current) = Some (GenDir x)" using d x(1) by (simp add: lookup_iff)
  then have complete: "complete_dir current x" using orderly_readable [OF o _ small] good_marker [OF x(2)] by simp
  have "(generation_name current, GenDir x) \<in> set ?e2" unfolding e2 using x staging_not_numbered by auto
  moreover have "distinct (map fst ?e2)" using d1 by (rule distinct_map_filter)
  ultimately have "require_complete_generation (?s1\<lparr>entries := ?e2\<rparr>) current = Inr x"
    using complete by (simp add: require_complete_iff lookup_entry_def)
  then have rp: "recovered_pointer (?s1\<lparr>entries := ?e2\<rparr>) = Inr (Some current)"
    using p length_pointer_text [OF small] by (simp add: recovered_pointer_def py_int_pointer)
  have "filter (\<lambda>e. fst e \<notin> generation_name ` set (filter (\<lambda>g. current < g) (finished ?e1))) ?e2 = filter (kept current) (entries s)"
  proof -
    have "fst e \<in> generation_name ` set (filter (\<lambda>g. current < g) (finished ?e1)) \<longleftrightarrow> numbered_name (fst e) \<and> current < str_nat (fst e)"
      if "e \<in> set ?e2" for e
    proof
      assume "fst e \<in> generation_name ` set (filter (\<lambda>g. current < g) (finished ?e1))"
      then obtain x where "numbered_name (fst x)" "current < str_nat (fst x)" "fst e = generation_name (str_nat (fst x))"
        by (auto simp: finished_def)
      then show "numbered_name (fst e) \<and> current < str_nat (fst e)" using numbered_name_generation by simp
    next
      assume n: "numbered_name (fst e) \<and> current < str_nat (fst e)"
      then have "str_nat (fst e) \<in> set (filter (\<lambda>g. current < g) (finished ?e1))"
        using that unfolding e2 by (auto simp: finished_def)
      then show "fst e \<in> generation_name ` set (filter (\<lambda>g. current < g) (finished ?e1))"
        using numbered_name_generation n by (metis imageI)
    qed
    then have "filter (\<lambda>e. fst e \<notin> generation_name ` set (filter (\<lambda>g. current < g) (finished ?e1))) ?e2 =
        filter (\<lambda>e. \<not> (numbered_name (fst e) \<and> current < str_nat (fst e))) ?e2" by (intro filter_cong) auto
    also have "\<dots> = filter (kept current) (entries s)"
      unfolding e2 unfolding filter_filter by (rule filter_cong) (auto simp: kept_def unfinished_def)
    finally show ?thesis .
  qed
  then show ?thesis
    unfolding recover_def Let_def scan prod.case sum.case rp option.case fold_remove current_def [symmetric] by simp
qed

end
