(* ===== verification/VR_Store_Recovery.thy ===== *)
theory VR_Store_Recovery
  imports VR_Store_Correct
begin

section \<open>Recovery, deletion by deletion\<close>

text \<open>
  A recovery that is cut off anywhere has not touched the history: what it deletes are staging
  directories, numbered directories without a marker and complete generations beyond the current
  one, never a directory of the history. Run to its end it is \<open>recover\<close>, in whatever order the file
  system lists the files. It fails exactly on states that are not orderly.
\<close>

subsection \<open>Steps that keep a history\<close>

lemma representsI:
  assumes "vs \<noteq> []" "length vs \<le> 10 ^ 6" "current_pointer s = Some (pointer_text (length vs - 1))"
    and "distinct (map fst (entries s))"
    and "\<And>g. g < length vs \<Longrightarrow> \<exists>d. lookup_entry s (generation_name g) = Some (GenDir d) \<and> good_dir D g (vs ! g) d"
  shows "represents D s vs"
  unfolding represents_def using assms by blast

lemma representsD:
  assumes "represents D s vs"
  shows "vs \<noteq> []" "length vs \<le> 10 ^ 6" "current_pointer s = Some (pointer_text (length vs - 1))"
    and "distinct (map fst (entries s))"
    and "g < length vs \<Longrightarrow> \<exists>d. lookup_entry s (generation_name g) = Some (GenDir d) \<and> good_dir D g (vs ! g) d"
  using assms unfolding represents_def by blast+

lemma lookup_put: "lookup_entry (put_dir n d s) k = (if k = n then Some (GenDir d) else lookup_entry s k)"
  by (simp add: lookup_entry_def put_dir_def update_conv')

lemma lookup_remove: "lookup_entry (remove_entry n s) k = (if k = n then None else lookup_entry s k)"
  by (simp add: lookup_entry_def remove_entry_def map_of_filter_key [of "\<lambda>x. x \<noteq> n"])

lemma current_put [simp]: "current_pointer (put_dir n d s) = current_pointer s"
  "current_pointer (remove_entry n s) = current_pointer s"
  by (simp_all add: put_dir_def remove_entry_def)

lemma update_members: "x \<in> set (AList.update k v xs) \<Longrightarrow> x = (k, v) \<or> x \<in> set xs"
  by (induction xs) (auto split: if_splits)

text \<open>A state of a transaction: the history stands, and none of its directories has been touched.\<close>

definition untouched :: "nat \<Rightarrow> StoreState \<Rightarrow> StoreState \<Rightarrow> bool" where
  "untouched n s t \<longleftrightarrow> (\<forall>g < n. lookup_entry t (generation_name g) = lookup_entry s (generation_name g))"

definition stands :: "Dumps \<Rightarrow> StoreState \<Rightarrow> Version list \<Rightarrow> StoreState \<Rightarrow> bool" where
  "stands D s vs t \<longleftrightarrow> represents D t vs \<and> untouched (length vs) s t"

lemma stands_refl: "represents D s vs \<Longrightarrow> stands D s vs s"
  by (simp add: stands_def untouched_def)

lemma stands_represents: "stands D s vs t \<Longrightarrow> represents D t vs"
  by (simp add: stands_def)

lemma stands_trans: "stands D s vs t \<Longrightarrow> stands D t vs u \<Longrightarrow> stands D s vs u"
  by (simp add: stands_def untouched_def)

lemma stands_put:
  assumes r: "stands D s vs t" and n: "\<forall>g < length vs. n \<noteq> generation_name g"
  shows "stands D s vs (put_dir n d t)"
proof -
  have "distinct (map fst (entries (put_dir n d t)))"
    using r by (simp add: stands_def represents_def put_dir_def distinct_update)
  then show ?thesis using r n by (auto simp: stands_def untouched_def represents_def lookup_put)
qed

lemma stands_remove:
  assumes r: "stands D s vs t" and n: "\<forall>g < length vs. n \<noteq> generation_name g"
  shows "stands D s vs (remove_entry n t)"
proof -
  have "distinct (map fst (entries (remove_entry n t)))"
    using r by (simp add: stands_def represents_def remove_entry_def distinct_map_filter)
  then show ?thesis using r n by (auto simp: stands_def untouched_def represents_def lookup_remove)
qed

lemma orderly_put: "orderly s \<Longrightarrow> benign (n, GenDir d) \<Longrightarrow> orderly (put_dir n d s)"
  by (auto simp: orderly_def put_dir_def dest!: update_members)

lemma orderly_remove: "orderly s \<Longrightarrow> orderly (remove_entry n s)"
  by (auto simp: orderly_def remove_entry_def)

lemma orderly_pointer [simp]: "orderly (set_pointer g s) = orderly s"
  by (simp add: orderly_def set_pointer_def)

lemma staging_not_generation:
  assumes "represents D s vs" "staging_name n" shows "\<forall>g < length vs. n \<noteq> generation_name g"
proof (intro allI impI notI)
  fix g assume "g < length vs" "n = generation_name g"
  then have "numbered_name n" using representsD(2) [OF assms(1)] numbered_generation_name [of g] by simp
  then show False using staging_not_numbered [OF assms(2)] by blast
qed

lemma staging_benign: "staging_name n \<Longrightarrow> benign (n, e)"
  using staging_not_numbered by (auto simp: benign_def)

lemma stands_put_staging: "stands D s vs t \<Longrightarrow> staging_name n \<Longrightarrow> stands D s vs (put_dir n d t)"
  by (rule stands_put) (auto dest: staging_not_generation stands_represents)

lemma unfinished_not_generation:
  assumes r: "represents D s vs" and e: "e \<in> set (entries s)" "unfinished e"
  shows "\<forall>g < length vs. fst e \<noteq> generation_name g"
proof (intro allI impI notI)
  fix g assume g: "g < length vs" "fst e = generation_name g"
  obtain d where "(generation_name g, GenDir d) \<in> set (entries s)" "\<not> unfinished (generation_name g, GenDir d)"
    using represented_entry [OF r g(1)] by blast
  moreover have "(generation_name g, snd e) \<in> set (entries s)" using e(1) g(2) by (metis prod.collapse)
  ultimately have "e = (generation_name g, GenDir d)"
    using g(2) representsD(4) [OF r] by (metis eq_key_imp_eq_value prod.collapse)
  then show False using e(2) \<open>\<not> unfinished _\<close> by simp
qed

lemma untouched_loads:
  assumes r: "represents D s vs" and o: "orderly s" and u: "untouched (length vs) s t" and g: "g < length vs"
  shows "load_generation D t g = Inr (fst (vs ! g), fst (snd (vs ! g)))" "load_receipts t g = Inr (snd (snd (vs ! g)))"
proof -
  obtain R reg rs where v: "vs ! g = (R, reg, rs)" by (cases "vs ! g")
  from represented_dir [OF r o g] u g v obtain d where
    "lookup_entry t (generation_name g) = Some (GenDir d)" "good_dir D g (R, reg, rs) d" "readable d"
    unfolding untouched_def by metis
  from good_loads [OF this] show "load_generation D t g = Inr (fst (vs ! g), fst (snd (vs ! g)))"
    "load_receipts t g = Inr (snd (snd (vs ! g)))" by (simp_all add: v)
qed

subsection \<open>Deletions\<close>

lemma last_append_step: "xs \<noteq> [] \<Longrightarrow> last (s # xs @ ys) = last (last xs # ys)"
  by (cases ys) simp_all

lemma delete_entry_last [simp]: "last (delete_entry order e s) = remove_entry (fst e) s" "delete_entry order e s \<noteq> []"
  by (cases e; cases "snd e"; simp add: delete_entry_def)+

lemma delete_paths_stands:
  assumes "stands D s vs t" "\<forall>g < length vs. n \<noteq> generation_name g" "u \<in> set (delete_paths n ps d t)"
  shows "stands D s vs u"
  using assms(3) stands_put [OF assms(1,2)] by (induction ps arbitrary: d) auto

lemma delete_entry_stands:
  assumes "stands D s vs t" "\<forall>g < length vs. fst e \<noteq> generation_name g" "u \<in> set (delete_entry order e t)"
  shows "stands D s vs u"
proof (cases "snd e")
  case (GenDir d)
  then show ?thesis
    using assms(3) delete_paths_stands [OF assms(1,2)] stands_remove [OF assms(1,2)] by (cases e) (auto simp: delete_entry_def)
qed (use assms(3) stands_remove [OF assms(1,2)] in \<open>cases e; simp add: delete_entry_def\<close>)

lemma remove_path_marker: "completion_marker d = None \<Longrightarrow> completion_marker (remove_path p d) = None"
  by (simp add: remove_path_def)

lemma delete_paths_orderly:
  assumes "orderly s" "staging_name n \<or> completion_marker d = None" "u \<in> set (delete_paths n ps d s)"
  shows "orderly u"
  using assms(2,3)
proof (induction ps arbitrary: d)
  case (Cons p ps)
  then have m: "staging_name n \<or> completion_marker (remove_path p d) = None" by (cases "staging_name n") (simp_all add: remove_path_marker)
  then have "benign (n, GenDir (remove_path p d))" by (cases "staging_name n") (simp_all add: staging_benign, simp add: benign_def)
  then show ?case using Cons.IH [OF m] Cons.prems(2) orderly_put [OF assms(1)] by auto
qed simp

lemma delete_entry_orderly:
  assumes "orderly s" "staging_name (fst e) \<or> unfinished e" "u \<in> set (delete_entry order e s)"
  shows "orderly u"
proof (cases "snd e")
  case (GenDir d)
  then have "staging_name (fst e) \<or> completion_marker d = None" using assms(2) by (auto simp: unfinished_def)
  from delete_paths_orderly [OF assms(1) this] show ?thesis
    using assms(3) GenDir orderly_remove [OF assms(1)] by (cases e) (auto simp: delete_entry_def)
qed (use assms(3) orderly_remove [OF assms(1)] in \<open>cases e; simp add: delete_entry_def\<close>)

subsection \<open>The three phases\<close>

lemma delete_staging_last:
  "last (s # delete_staging order es s) =
    s\<lparr>entries := filter (\<lambda>e. \<not> (staging_name (fst e) \<and> fst e \<in> fst ` set es)) (entries s)\<rparr>"
proof (induction es arbitrary: s)
  case (Cons e es)
  show ?case
  proof (cases "staging_name (fst e)")
    case True
    then have "last (s # delete_staging order (e # es) s) = last (remove_entry (fst e) s # delete_staging order es (remove_entry (fst e) s))"
      by (simp only: delete_staging.simps if_True last_append_step delete_entry_last not_False_eq_True)
    also have "\<dots> = s\<lparr>entries := filter (\<lambda>x. \<not> (staging_name (fst x) \<and> fst x \<in> fst ` set (e # es))) (entries s)\<rparr>"
    proof -
      have "filter (\<lambda>x. \<not> (staging_name (fst x) \<and> fst x \<in> fst ` set es)) (filter (\<lambda>x. fst x \<noteq> fst e) (entries s)) =
          filter (\<lambda>x. \<not> (staging_name (fst x) \<and> fst x \<in> fst ` set (e # es))) (entries s)"
        unfolding filter_filter by (rule filter_cong) (use True in auto)
      then show ?thesis unfolding Cons.IH by (simp add: remove_entry_def)
    qed
    finally show ?thesis .
  next
    case False
    have "filter (\<lambda>x. \<not> (staging_name (fst x) \<and> fst x \<in> fst ` set es)) (entries s) =
        filter (\<lambda>x. \<not> (staging_name (fst x) \<and> fst x \<in> fst ` set (e # es))) (entries s)"
      by (rule filter_cong) (use False in auto)
    moreover have "last (s # delete_staging order (e # es) s) = last (s # delete_staging order es s)" using False by simp
    ultimately show ?thesis unfolding Cons.IH by metis
  qed
qed simp

lemma delete_staging_done:
  "last (s # delete_staging order (entries s) s) = s\<lparr>entries := filter (\<lambda>e. \<not> staging_name (fst e)) (entries s)\<rparr>"
proof -
  have "filter (\<lambda>e. \<not> (staging_name (fst e) \<and> fst e \<in> fst ` set (entries s))) (entries s) =
      filter (\<lambda>e. \<not> staging_name (fst e)) (entries s)" by (rule filter_cong) auto
  then show ?thesis unfolding delete_staging_last by simp
qed

lemma delete_unfinished_last: "last (s # delete_unfinished order es s) = fst (scan_generations es s)"
proof (induction es arbitrary: s)
  case (Cons e es)
  obtain n x where e: "e = (n, x)" by (cases e)
  show ?case
  proof (cases "numbered_name n")
    case True
    show ?thesis
    proof (cases x)
      case (GenDir d)
      show ?thesis
      proof (cases "completion_marker d")
        case None
        have "last (s # delete_unfinished order (e # es) s) = last (remove_entry n s # delete_unfinished order es (remove_entry n s))"
          using True GenDir None by (simp add: e last_append)
        also have "\<dots> = fst (scan_generations (e # es) s)" unfolding Cons.IH using True GenDir None by (simp add: e)
        finally show ?thesis .
      next
        case (Some m)
        then show ?thesis
          using True GenDir Cons.IH [of s] by (auto simp: e split: option.splits prod.splits sum.splits)
      qed
    qed (use True in \<open>simp add: e\<close>)
  qed (use Cons.IH [of s] in \<open>simp add: e\<close>)
qed simp

lemma remove_absent: "lookup_entry s n = None \<Longrightarrow> remove_entry n s = s"
  by (cases s) (auto simp: lookup_entry_def remove_entry_def map_of_eq_None_iff filter_id_conv)

lemma delete_newer_last:
  "last (s # delete_newer order gs s) = fold (\<lambda>g. remove_entry (generation_name g)) gs s"
proof (induction gs arbitrary: s)
  case (Cons g gs)
  show ?case
  proof (cases "lookup_entry s (generation_name g)")
    case None
    then show ?thesis using Cons.IH [of s] remove_absent by simp
  next
    case (Some e)
    then have "last (s # delete_newer order (g # gs) s) =
        last (remove_entry (generation_name g) s # delete_newer order gs (remove_entry (generation_name g) s))"
      by (simp add: last_append)
    then show ?thesis unfolding Cons.IH by simp
  qed
qed simp

lemma delete_staging_stands:
  "stands D s vs t \<Longrightarrow> u \<in> set (delete_staging order es t) \<Longrightarrow> stands D s vs u"
proof (induction es arbitrary: t)
  case (Cons e es)
  show ?case
  proof (cases "staging_name (fst e)")
    case True
    then have n: "\<forall>g < length vs. fst e \<noteq> generation_name g" using Cons.prems(1) staging_not_generation stands_represents by blast
    show ?thesis
      using Cons.prems(2) True Cons.IH [OF stands_remove [OF Cons.prems(1) n]] delete_entry_stands [OF Cons.prems(1) n] by auto
  qed (use Cons in simp)
qed simp

lemma delete_unfinished_stands:
  assumes "stands D s vs t" "\<forall>e \<in> set es. unfinished e \<longrightarrow> (\<forall>g < length vs. fst e \<noteq> generation_name g)"
    and "u \<in> set (delete_unfinished order es t)"
  shows "stands D s vs u"
  using assms
proof (induction es arbitrary: t)
  case (Cons e es)
  obtain n x where e: "e = (n, x)" by (cases e)
  have rest: "u \<in> set (delete_unfinished order es t') \<Longrightarrow> stands D s vs t' \<Longrightarrow> stands D s vs u" for t'
    using Cons.IH [of t'] Cons.prems(2) by simp
  show ?case
  proof (cases "unfinished e")
    case True
    then obtain d where d: "x = GenDir d" "completion_marker d = None" "numbered_name n" by (auto simp: unfinished_def e)
    have n: "\<forall>g < length vs. fst (n, x) \<noteq> generation_name g" using Cons.prems(2) True by (simp add: e)
    show ?thesis
      using Cons.prems(3) d delete_entry_stands [OF Cons.prems(1) n] rest [of "remove_entry n t"] stands_remove [OF Cons.prems(1)] n
      by (auto simp: e)
  next
    case False
    then show ?thesis
      using Cons.prems(1,3) rest [of t] by (auto simp: e unfinished_def split: if_splits DirEntry.splits option.splits)
  qed
qed simp

lemma delete_newer_stands:
  assumes "stands D s vs t" "\<forall>g \<in> set gs. length vs \<le> g" "u \<in> set (delete_newer order gs t)"
  shows "stands D s vs u"
  using assms
proof (induction gs arbitrary: t)
  case (Cons g gs)
  then have n: "\<forall>h < length vs. generation_name g \<noteq> generation_name h" by (auto simp: generation_name_inj)
  show ?case
    using Cons.prems Cons.IH [of t] Cons.IH [OF stands_remove [OF Cons.prems(1) n]] delete_entry_stands [OF Cons.prems(1), of "(generation_name g, _)"] n
    by (auto split: option.splits)
qed simp

subsection \<open>The whole recovery\<close>

lemma rev_last: "rev (s # xs) \<noteq> []" "hd (rev (s # xs)) = last (s # xs)"
  by (simp_all add: hd_rev)

text \<open>Run to its end, the deletions lead to the state and the result of \<open>recover\<close>, whatever their order.\<close>

lemma recover_trace_ends:
  "fst (recover_trace order s) \<noteq> []" "hd (fst (recover_trace order s)) = fst (recover s)"
  "snd (recover_trace order s) = snd (recover s)"
proof -
  define cleaned where "cleaned = delete_staging order (entries s) s"
  define s1 where "s1 = s\<lparr>entries := filter (\<lambda>e. \<not> staging_name (fst e)) (entries s)\<rparr>"
  define removed where "removed = delete_unfinished order (entries s1) s1"
  define trace where "trace = rev (s # cleaned @ removed)"
  obtain s2 res where scan: "scan_generations (entries s1) s1 = (s2, res)" by fastforce
  have c: "last (s # cleaned) = s1" unfolding cleaned_def s1_def by (rule delete_staging_done)
  have "hd trace = last (s1 # removed)"
  proof (cases "cleaned = []")
    case True
    then show ?thesis using c by (simp add: trace_def hd_append last_append hd_rev)
  next
    case False
    then show ?thesis using c by (simp add: trace_def hd_append last_append hd_rev)
  qed
  also have "\<dots> = s2" unfolding removed_def delete_unfinished_last by (simp add: scan)
  finally have t: "hd trace = s2" .
  have newer: "hd (rev (delete_newer order gs s2) @ trace) = fold (\<lambda>g. remove_entry (generation_name g)) gs s2" for gs
    using delete_newer_last [of s2 order gs] t by (simp add: hd_append hd_rev split: if_splits)
  have eq: "recover_trace order s =
      (case (s2, res) of
        (s2, Inl e) \<Rightarrow> (trace, Inl e)
      | (s2, Inr complete) \<Rightarrow>
          (case recovered_pointer s2 of
             Inl e \<Rightarrow> (trace, Inl e)
           | Inr None \<Rightarrow>
               if complete = [] then (trace, Inr None)
               else (set_pointer (Max (set complete)) s2 # trace, Inr (Some (Max (set complete))))
           | Inr (Some current) \<Rightarrow>
               (rev (delete_newer order (filter (\<lambda>g. current < g) complete) s2) @ trace, Inr (Some current))))"
    unfolding recover_trace_def Let_def cleaned_def [symmetric] c removed_def [symmetric] trace_def [symmetric] scan ..
  have r: "recover s = (case (s2, res) of (s2, Inl e) \<Rightarrow> (s2, Inl e)
      | (s2, Inr complete) \<Rightarrow>
          (case recovered_pointer s2 of
             Inl e \<Rightarrow> (s2, Inl e)
           | Inr None \<Rightarrow>
               if complete = [] then (s2, Inr None)
               else (set_pointer (Max (set complete)) s2, Inr (Some (Max (set complete))))
           | Inr (Some current) \<Rightarrow>
               (fold (\<lambda>g. remove_entry (generation_name g)) (filter (\<lambda>g. current < g) complete) s2, Inr (Some current))))"
    unfolding recover_def Let_def s1_def [symmetric] scan ..
  have "trace \<noteq> []" by (simp add: trace_def)
  then show "fst (recover_trace order s) \<noteq> []" "hd (fst (recover_trace order s)) = fst (recover s)"
    "snd (recover_trace order s) = snd (recover s)"
    using t newer unfolding eq r by (cases res; simp split: sum.split option.split)+
qed

lemma recover_trace_cases:
  assumes "t \<in> set (fst (recover_trace order s))"
  defines "s1 \<equiv> s\<lparr>entries := filter (\<lambda>e. \<not> staging_name (fst e)) (entries s)\<rparr>"
  obtains (start) "t = s" | (staging) "t \<in> set (delete_staging order (entries s) s)"
    | (unfinished) "t \<in> set (delete_unfinished order (entries s1) s1)"
    | (pointer) s2 complete where "scan_generations (entries s1) s1 = (s2, Inr complete)" "recovered_pointer s2 = Inr None"
    | (newer) s2 complete current where "scan_generations (entries s1) s1 = (s2, Inr complete)"
        "recovered_pointer s2 = Inr (Some current)" "t \<in> set (delete_newer order (filter (\<lambda>g. current < g) complete) s2)"
proof -
  obtain s2 res where scan: "scan_generations (entries s1) s1 = (s2, res)" by fastforce
  have c: "last (s # delete_staging order (entries s) s) = s1" unfolding s1_def by (rule delete_staging_done)
  have "t = s \<or> t \<in> set (delete_staging order (entries s) s) \<or> t \<in> set (delete_unfinished order (entries s1) s1) \<or>
      (\<exists>complete. res = Inr complete \<and> recovered_pointer s2 = Inr None) \<or>
      (\<exists>complete current. res = Inr complete \<and> recovered_pointer s2 = Inr (Some current) \<and>
         t \<in> set (delete_newer order (filter (\<lambda>g. current < g) complete) s2))"
    using assms(1) unfolding recover_trace_def Let_def c scan
    by (auto split: sum.splits option.splits if_splits)
  then show ?thesis using that scan by blast
qed

lemma pointer_found: "represents D s vs \<Longrightarrow> orderly s \<Longrightarrow> recovered_pointer s = Inr (Some (length vs - 1))"
proof -
  assume r: "represents D s vs" and o: "orderly s"
  then have g: "length vs - 1 < length vs" "length vs - 1 < 10 ^ 6" by (auto simp: represents_def neq_Nil_conv)
  from represented_dir [OF r o g(1)] obtain d where
    "lookup_entry s (generation_name (length vs - 1)) = Some (GenDir d)" "complete_dir (length vs - 1) d" by blast
  then have "require_complete_generation s (length vs - 1) = Inr d" by (simp add: require_complete_iff)
  then show ?thesis
    using length_pointer_text [OF g(2)] by (simp add: recovered_pointer_def representsD(3) [OF r] py_int_pointer)
qed

lemma scan_blocked:
  assumes "distinct (map fst es)" "(n, x) \<in> set es" "\<not> benign (n, x)" "\<forall>e. lookup_entry s n = Some e \<longrightarrow> e = x"
  shows "\<exists>s' e. scan_generations es s = (s', Inl e)"
  using assms
proof (induction es arbitrary: s)
  case (Cons y es)
  obtain m z where y: "y = (m, z)" by (cases y)
  show ?case
  proof (cases "m = n")
    case True
    then have z: "z = x" using Cons.prems(1,2) y by (auto simp: rev_image_eqI)
    have num: "numbered_name n" using Cons.prems(3) by (auto simp: benign_def)
    show ?thesis
    proof (cases x)
      case (GenDir d)
      then obtain marker where m: "completion_marker d = Some marker" "\<not> complete_dir (str_nat n) d"
        using Cons.prems(3) by (auto simp: benign_def)
      have "scan_verdict s (str_nat n) marker \<noteq> None"
      proof (cases "require_complete_generation s (str_nat n)")
        case (Inr d')
        then show ?thesis
          using Cons.prems(4) m GenDir num by (auto simp: require_complete_iff numbered_name_generation)
      qed (auto simp: scan_verdict_def split: option.split)
      then show ?thesis using True y z GenDir m num by auto
    qed (use True y z num in simp)
  next
    case False
    then have rest: "distinct (map fst es)" "(n, x) \<in> set es" using Cons.prems(1,2) y by auto
    have a: "\<exists>s' e. scan_generations es s = (s', Inl e)" by (rule Cons.IH [OF rest Cons.prems(3,4)])
    have b: "\<exists>s' e. scan_generations es (remove_entry m s) = (s', Inl e)"
      by (rule Cons.IH [OF rest Cons.prems(3)]) (use Cons.prems(4) False in \<open>simp add: lookup_remove\<close>)
    show ?thesis using a b y by (cases z) (auto split: option.splits)
  qed
qed simp

lemma scan_disorderly:
  assumes d: "distinct (map fst (entries s))" and o: "\<not> orderly s"
  defines "s1 \<equiv> s\<lparr>entries := filter (\<lambda>e. \<not> staging_name (fst e)) (entries s)\<rparr>"
  shows "\<exists>s' e. scan_generations (entries s1) s1 = (s', Inl e)"
proof -
  from o obtain n x where x: "(n, x) \<in> set (entries s)" "\<not> benign (n, x)" by (auto simp: orderly_def)
  then have e: "(n, x) \<in> set (entries s1)" using staging_benign by (auto simp: s1_def)
  have d1: "distinct (map fst (entries s1))" using d by (simp add: s1_def distinct_map_filter)
  have "\<forall>e. lookup_entry s1 n = Some e \<longrightarrow> e = x" using lookup_iff [OF d1] e by (metis option.inject)
  from scan_blocked [OF d1 e x(2) this] show ?thesis .
qed

text \<open>Recovery fails on every state that is not orderly.\<close>

lemma recover_disorderly:
  assumes "distinct (map fst (entries s))" and "\<not> orderly s"
  shows "\<exists>e. snd (recover s) = Inl e"
  using scan_disorderly [OF assms] by (auto simp: recover_def Let_def)

lemma scan_orderly:
  assumes r: "represents D s vs" and o: "orderly s"
  defines "s1 \<equiv> s\<lparr>entries := filter (\<lambda>e. \<not> staging_name (fst e)) (entries s)\<rparr>"
  obtains s2 where "scan_generations (entries s1) s1 = (s2, Inr (finished (entries s1)))" "stands D s vs s2" "orderly s2"
    "recovered_pointer s2 = Inr (Some (length vs - 1))"
proof -
  have s1: "stands D s vs s1"
    using delete_staging_stands [OF stands_refl [OF r], of s1 undefined] last_in_set [of "s # delete_staging undefined (entries s) s"]
      delete_staging_done [of s undefined] stands_refl [OF r] unfolding s1_def by (metis set_ConsD list.distinct(1))
  have d1: "distinct (map fst (entries s1))" using representsD(4) [OF r] by (simp add: s1_def distinct_map_filter)
  have b: "\<forall>e \<in> set (entries s1). benign e" using o by (simp add: s1_def orderly_def)
  have l: "\<forall>e \<in> set (entries s1). lookup_entry s1 (fst e) = Some (snd e)" using d1 by (simp add: lookup_iff)
  define s2 where "s2 = s1\<lparr>entries := filter (\<lambda>e. fst e \<notin> fst ` {x \<in> set (entries s1). unfinished x}) (entries s1)\<rparr>"
  have scan: "scan_generations (entries s1) s1 = (s2, Inr (finished (entries s1)))"
    using scan_benign [OF b l d1] by (simp add: s2_def)
  have u: "\<forall>e \<in> set (entries s1). unfinished e \<longrightarrow> (\<forall>g < length vs. fst e \<noteq> generation_name g)"
    using unfinished_not_generation [OF stands_represents [OF s1]] by blast
  have "s2 = last (s1 # delete_unfinished undefined (entries s1) s1)" by (simp only: delete_unfinished_last scan fst_conv)
  then have "s2 \<in> set (s1 # delete_unfinished undefined (entries s1) s1)" by (metis last_in_set list.distinct(1))
  then have st: "stands D s vs s2" using s1 delete_unfinished_stands [OF s1 u] by auto
  have o2: "orderly s2" using b by (simp add: s2_def orderly_def)
  show ?thesis by (rule that [OF scan st o2 pointer_found [OF stands_represents [OF st] o2]])
qed

text \<open>No state on the way has lost anything of the history.\<close>

lemma recover_trace_stands:
  assumes r: "represents D s vs" and t: "t \<in> set (fst (recover_trace order s))"
  shows "stands D s vs t"
proof -
  define s1 where "s1 = s\<lparr>entries := filter (\<lambda>e. \<not> staging_name (fst e)) (entries s)\<rparr>"
  note refl = stands_refl [OF r]
  have "s1 \<in> set (s # delete_staging order (entries s) s)"
    using delete_staging_done [of s order] unfolding s1_def by (metis last_in_set list.distinct(1))
  then have s1: "stands D s vs s1" using refl delete_staging_stands [OF refl] by auto
  have dis: "\<not> orderly s \<Longrightarrow> \<exists>s' e. scan_generations (entries s1) s1 = (s', Inl e)"
    unfolding s1_def by (rule scan_disorderly [OF representsD(4) [OF r]])
  have ord: "\<exists>s2. scan_generations (entries s1) s1 = (s2, Inr (finished (entries s1))) \<and> stands D s vs s2 \<and>
      recovered_pointer s2 = Inr (Some (length vs - 1))" if "orderly s"
    unfolding s1_def by (rule scan_orderly [OF r that]) blast
  from t show ?thesis
  proof (cases rule: recover_trace_cases)
    case unfinished
    have "\<forall>e \<in> set (entries s1). unfinished e \<longrightarrow> (\<forall>g < length vs. fst e \<noteq> generation_name g)"
      using unfinished_not_generation [OF stands_represents [OF s1]] by blast
    then show ?thesis by (rule delete_unfinished_stands [OF s1]) (use unfinished in \<open>simp add: s1_def\<close>)
  next
    case (pointer s2 complete)
    then show ?thesis using dis ord by (cases "orderly s") (auto simp: s1_def)
  next
    case (newer s2 complete current)
    then have "current = length vs - 1" "stands D s vs s2" using dis ord by (cases "orderly s"; auto simp: s1_def)+
    then show ?thesis using newer(3) by (auto intro!: delete_newer_stands [of D s vs s2])
  qed (use refl delete_staging_stands [OF refl] in auto)
qed

text \<open>
  A complete generation beyond the history is abandoned: recovery deletes it too. When there is none,
  every state of the recovery is orderly.
\<close>

definition abandoned :: "nat \<Rightarrow> StoreState \<Rightarrow> bool" where
  "abandoned n s \<longleftrightarrow> (\<exists>e \<in> set (entries s). numbered_name (fst e) \<and> n \<le> str_nat (fst e) \<and> \<not> unfinished e)"

lemma delete_staging_orderly: "orderly s \<Longrightarrow> t \<in> set (delete_staging order es s) \<Longrightarrow> orderly t"
proof (induction es arbitrary: s)
  case (Cons e es)
  then show ?case
    using delete_entry_orderly [OF Cons.prems(1), of e t order] Cons.IH [OF orderly_remove [OF Cons.prems(1)]]
    by (auto split: if_splits)
qed simp

lemma delete_unfinished_orderly: "orderly s \<Longrightarrow> t \<in> set (delete_unfinished order es s) \<Longrightarrow> orderly t"
proof (induction es arbitrary: s)
  case (Cons e es)
  obtain n x where e: "e = (n, x)" by (cases e)
  show ?case
  proof (cases "unfinished e")
    case True
    then show ?thesis
      using Cons.prems(2) delete_entry_orderly [OF Cons.prems(1), of e t order] Cons.IH [OF orderly_remove [OF Cons.prems(1)], of n]
      by (auto simp: e unfinished_def)
  next
    case False
    then show ?thesis
      using Cons.prems(2) Cons.IH [OF Cons.prems(1)] by (auto simp: e unfinished_def split: if_splits DirEntry.splits option.splits)
  qed
qed simp

lemma recover_trace_orderly:
  assumes r: "represents D s vs" and o: "orderly s" and none: "\<not> abandoned (length vs) s"
    and t: "t \<in> set (fst (recover_trace order s))"
  shows "orderly t"
proof -
  define s1 where "s1 = s\<lparr>entries := filter (\<lambda>e. \<not> staging_name (fst e)) (entries s)\<rparr>"
  have s1: "orderly s1" using o by (simp add: s1_def orderly_def)
  obtain s2 where scan: "scan_generations (entries s1) s1 = (s2, Inr (finished (entries s1)))"
    "recovered_pointer s2 = Inr (Some (length vs - 1))" using scan_orderly [OF r o] unfolding s1_def by blast
  have "\<not> length vs - 1 < g" if "g \<in> set (finished (entries s1))" for g
  proof -
    have "g < length vs" using that none by (auto simp: finished_def s1_def abandoned_def not_le [symmetric])
    then show ?thesis by linarith
  qed
  then have f: "filter (\<lambda>g. length vs - 1 < g) (finished (entries s1)) = []" by (auto simp: filter_empty_conv)
  from t show ?thesis
  proof (cases rule: recover_trace_cases)
    case staging
    then show ?thesis by (rule delete_staging_orderly [OF o])
  next
    case unfinished
    then show ?thesis using delete_unfinished_orderly [OF s1] by (simp add: s1_def)
  next
    case (pointer s2' complete)
    then show ?thesis using scan by (simp add: s1_def)
  next
    case (newer s2' complete current)
    then show ?thesis using scan f by (auto simp: s1_def)
  qed (use o in simp)
qed

text \<open>Recovery as a whole: it succeeds on an orderly state and fails on any other, with the history kept.\<close>

lemma recover_stands:
  assumes "represents D s vs" shows "stands D s vs (fst (recover s))"
proof -
  have "fst (recover s) \<in> set (fst (recover_trace undefined s))"
    using recover_trace_ends [of undefined s] by (metis list.set_sel(1))
  then show ?thesis by (rule recover_trace_stands [OF assms])
qed

lemma recover_succeeds_iff:
  assumes r: "represents D s vs"
  shows "(\<exists>x. snd (recover s) = Inr x) \<longleftrightarrow> orderly s"
proof (cases "orderly s")
  case False
  from recover_disorderly [OF representsD(4) [OF r] this] show ?thesis using False by auto
qed (simp add: recover_represented [OF r])

subsection \<open>Errors\<close>

lemma first_issue_member: "first_issue es = Some e \<Longrightarrow> Some e \<in> set es"
  by (induction es rule: first_issue.induct) auto

lemma marker_issue_error: "marker_issue g m = Some e \<Longrightarrow> e \<noteq> InjectedCrash p"
  by (auto simp: marker_issue_def byte_limit_error_def split: if_splits)

lemma control_file_issue_error: "control_file_issue g d b f = Some e \<Longrightarrow> e \<noteq> InjectedCrash p"
  by (auto simp: control_file_issue_def byte_limit_error_def split: if_splits)

lemma require_complete_error: "require_complete_generation s g = Inl e \<Longrightarrow> e \<noteq> InjectedCrash p"
proof -
  have first: "first_issue [marker_issue g m, control_file_issue g d b1 f1, control_file_issue g d b2 f2,
      control_file_issue g d b3 f3, control_file_issue g d b4 f4] \<noteq> Some (InjectedCrash p)" for m d b1 f1 b2 f2 b3 f3 b4 f4
    by (rule notI, drule first_issue_member) (auto dest: marker_issue_error [OF sym] control_file_issue_error [OF sym])
  assume "require_complete_generation s g = Inl e"
  then show ?thesis
    unfolding require_complete_generation_def Let_def
    by (auto simp: first split: option.split_asm DirEntry.split_asm if_split_asm)
qed

lemma scan_error: "scan_generations es s = (s', Inl e) \<Longrightarrow> e \<noteq> InjectedCrash p"
proof (induction es arbitrary: s s')
  case (Cons y es)
  have v: "scan_verdict s g m = Some e \<Longrightarrow> e \<noteq> InjectedCrash p" for s g m
    by (auto simp: scan_verdict_def dest: marker_issue_error require_complete_error split: option.splits sum.splits)
  show ?case
    using Cons.prems Cons.IH v
    by (cases y) (auto split: if_splits DirEntry.splits option.splits prod.splits sum.splits)
qed simp

lemma recover_error: "snd (recover s) = Inl e \<Longrightarrow> e \<noteq> InjectedCrash p"
proof -
  have "recovered_pointer s' = Inl e \<Longrightarrow> e \<noteq> InjectedCrash p" for s'
    by (auto simp: recovered_pointer_def byte_limit_error_def split: option.splits if_splits sum.splits StoreError.splits)
  then show "snd (recover s) = Inl e \<Longrightarrow> e \<noteq> InjectedCrash p"
    by (auto simp: recover_def Let_def dest: scan_error split: prod.splits sum.splits option.splits if_splits)
qed

end
