(* ===== verification/VR_Store_Commit.thy ===== *)
theory VR_Store_Commit
  imports VR_Store_Recovery
begin

section \<open>Commits, crashes and recovery\<close>

text \<open>
  Every state of a commit represents the history before it or the history with the one version that
  the commit adds, so a crash at any point, followed by recovery, loses nothing that was published
  and publishes nothing half-way.
\<close>

subsection \<open>Commit\<close>

definition next_version :: "PromotionPayload \<Rightarrow> AppliedTaskReceipt list \<Rightarrow> AppliedTaskReceipt option \<Rightarrow> Version" where
  "next_version payload inherited receipt =
     (snapshot payload, registry payload, inherited @ (case receipt of None \<Rightarrow> [] | Some r \<Rightarrow> [r]))"

definition old_or_new :: "Dumps \<Rightarrow> Version list \<Rightarrow> Version \<Rightarrow> StoreState \<Rightarrow> bool" where
  "old_or_new D vs v t \<longleftrightarrow> represents D t vs \<or> represents D t (vs @ [v])"

text \<open>Whether the receipts of a version are within the limit for reading them back, and a state that
  holds a generation whose receipts are not.\<close>

definition receipts_fit :: "Dumps \<Rightarrow> Version \<Rightarrow> bool" where
  "receipts_fit D v \<longleftrightarrow> length (receipts_bytes D (snd (snd v))) < MAX_GENERATION_CONTROL_BYTES"

definition overfull :: "nat \<Rightarrow> StoreState \<Rightarrow> bool" where
  "overfull n t \<longleftrightarrow> (\<exists>d. lookup_entry t (generation_name n) = Some (GenDir d) \<and> oversized d APPLIED_TASKS_FILE)"

text \<open>
  What a commit does to a state that represents \<open>vs\<close>, where \<open>v\<close> is the version it has to add: every state
  represents the old or the new history and leaves its directories untouched; what the result says about
  the last state; and when the states on the way are orderly.
\<close>

definition commit_meets ::
  "Dumps \<Rightarrow> StoreState \<Rightarrow> Version list \<Rightarrow> Version \<Rightarrow> StoreState list \<times> (StoreError + CommitResult) \<Rightarrow> bool" where
  "commit_meets D s vs v run \<longleftrightarrow>
     (case run of (trace, result) \<Rightarrow>
       trace \<noteq> [] \<and> (\<forall>t \<in> set trace. old_or_new D vs v t \<and> untouched (length vs) s t) \<and>
       (orderly s \<and> \<not> abandoned (length vs) s \<longrightarrow> (\<forall>t \<in> set trace. orderly t \<or> overfull (length vs) t)) \<and>
       (case result of
          Inr c \<Rightarrow> committed c = length vs \<and> represents D (hd trace) (vs @ [v]) \<and> (receipts_fit D v \<longrightarrow> orderly (hd trace))
        | Inl e \<Rightarrow>
            if e = InjectedCrash AFTER_CURRENT then represents D (hd trace) (vs @ [v])
            else represents D (hd trace) vs \<and>
              (orderly s \<and> e \<noteq> InjectedCrash AFTER_COMPLETION_MARKER_BEFORE_CURRENT \<longrightarrow> orderly (hd trace))))"

lemma represents_publish:
  assumes r: "represents D s vs" and l: "length vs < 10 ^ 6"
    and d: "lookup_entry s (generation_name (length vs)) = Some (GenDir d)" "good_dir D (length vs) v d"
  shows "represents D (set_pointer (length vs) s) (vs @ [v])"
  using assms by (auto simp: represents_def set_pointer_def lookup_entry_def nth_append less_Suc_eq)

lemma lookup_pointer [simp]: "lookup_entry (set_pointer g s) n = lookup_entry s n"
  by (simp add: lookup_entry_def set_pointer_def)

lemma publish_meets:
  assumes r: "\<forall>t \<in> set trace. stands D s vs t \<and> orderly t" and ne: "trace \<noteq> []" and l: "length vs < 10 ^ 6"
    and d: "good_dir D (length vs) v (d\<lparr>completion_marker := Some COMPLETE\<rparr>)"
    and size: "\<not> oversized d REPOSITORY_FILE" "\<not> oversized d REGISTRY_FILE" "\<not> oversized d GENERATION_MANIFEST_FILE"
      "oversized d APPLIED_TASKS_FILE \<longleftrightarrow> \<not> receipts_fit D v"
  shows "commit_meets D s vs v (publish q (length vs) payload receipt d trace)"
proof -
  let ?g = "length vs" and ?sealed = "d\<lparr>completion_marker := Some COMPLETE\<rparr>"
  let ?stage = "staging_dir_name ?g (staging_suffix q)"
  let ?s1 = "put_dir ?stage ?sealed (hd trace)"
  let ?s2 = "put_dir (generation_name ?g) ?sealed (remove_entry ?stage ?s1)"
  have big: "oversized ?sealed f = oversized d f" for f by (simp add: oversized_def file_size_def)
  have h: "stands D s vs (hd trace)" "orderly (hd trace)" using r ne by simp_all
  have s1: "stands D s vs ?s1" by (rule stands_put_staging [OF h(1) staging_dir_name_staging])
  have o1: "orderly ?s1" by (rule orderly_put [OF h(2) staging_benign [OF staging_dir_name_staging]])
  have "stands D s vs (remove_entry ?stage ?s1)"
    by (rule stands_remove [OF s1 staging_not_generation [OF stands_represents [OF s1] staging_dir_name_staging]])
  then have s2: "stands D s vs ?s2" by (rule stands_put) (simp add: generation_name_inj)
  have fit: "orderly ?s2" if "receipts_fit D v"
  proof (rule orderly_put [OF orderly_remove [OF o1]])
    have "readable ?sealed" using size that by (simp add: readable_def big)
    then show "benign (generation_name ?g, GenDir ?sealed)" using good_complete [OF d] by (simp add: benign_def)
  qed
  have full: "overfull ?g ?s2" if "\<not> receipts_fit D v" using size(4) that by (simp add: overfull_def lookup_put big)
  have s3: "represents D (set_pointer ?g ?s2) (vs @ [v])"
    by (rule represents_publish [OF stands_represents [OF s2] l _ d]) (simp add: lookup_put)
  have u3: "untouched ?g s (set_pointer ?g ?s2)" using s2 by (simp add: stands_def untouched_def)
  have f3: "overfull ?g (set_pointer ?g ?s2)" if "\<not> receipts_fit D v" using full [OF that] by (simp add: overfull_def)
  have old: "\<forall>t \<in> set trace. (represents D t vs \<and> untouched ?g s t) \<and> orderly t" using r by (simp add: stands_def)
  have a2: "orderly ?s2 \<or> overfull ?g ?s2" using fit full by blast
  have a3: "orderly (set_pointer ?g ?s2) \<or> overfull ?g (set_pointer ?g ?s2)" using fit f3 by (cases "receipts_fit D v") simp_all
  show ?thesis
    using old ne h s1 s2 s3 o1 u3 a2 a3 fit
    unfolding publish_def Let_def commit_meets_def old_or_new_def stands_def by (simp del: orderly_pointer) (simp)
qed

lemma commit_meets_same:
  "trace \<noteq> [] \<Longrightarrow> \<forall>t \<in> set trace. stands D s vs t \<and> orderly t \<Longrightarrow> e \<noteq> InjectedCrash AFTER_CURRENT \<Longrightarrow>
    commit_meets D s vs v (trace, Inl e)"
  by (simp add: commit_meets_def old_or_new_def stands_def)

lemma staged_issue_None:
  "staged_issue R r = None \<longleftrightarrow> (\<exists>rep. validate_repository R = Inr rep) \<and> validate_covers_identifiers r (all_identifiers R) = None"
  by (auto simp: staged_issue_def split: sum.splits option.splits RegistryError.splits)

lemma staged_issue_error: "staged_issue R r = Some e \<Longrightarrow> e \<noteq> InjectedCrash p"
  by (auto simp: staged_issue_def split: sum.splits option.splits RegistryError.splits)

lemma write_all_error: "write_all w ws = Inl e \<Longrightarrow> e \<noteq> InjectedCrash p"
proof (induction ws arbitrary: w)
  case (Cons pc ws)
  then show ?case by (cases pc) (auto simp: write_bytes_def Let_def split: sum.splits if_splits)
qed simp

definition honest :: "CommitRequest \<Rightarrow> bool" where
  "honest q \<longleftrightarrow>
     (\<forall>R r p. CommitRequest.promotion q R r \<noteq> Inl (InjectedCrash p)) \<and>
     (\<forall>f g R x p. receipt_factory q = Some f \<longrightarrow> f g R x \<noteq> Inl (InjectedCrash p)) \<and>
     (\<forall>f g x p. staging_materializer q = Some f \<longrightarrow> f g x \<noteq> Inl (InjectedCrash p))"

lemma materialize_error:
  "honest q \<Longrightarrow> materialize_auxiliary q g payload = Inl e \<Longrightarrow> e \<noteq> InjectedCrash p"
  by (auto simp: materialize_auxiliary_def honest_def validated_auxiliary_hash_def dest: write_all_error split: option.splits sum.splits if_splits)

lemma materialize_anchored:
  "materialize_auxiliary q g payload = Inr aux \<Longrightarrow>
     (case aux of None \<Rightarrow> True | Some (t, h) \<Rightarrow> validated_auxiliary_hash t = Inr h)"
  by (auto simp: materialize_auxiliary_def split: option.splits sum.splits)

lemma file_sizes_written [simp]:
  "file_size (write_repository D R d) f = (if f = REPOSITORY_FILE then length (repository_bytes D R) + 1 else file_size d f)"
  "file_size (write_registry D r d) f = (if f = REGISTRY_FILE then length (registry_bytes D r) + 1 else file_size d f)"
  "file_size (write_receipts D rs d) f = (if f = APPLIED_TASKS_FILE then length (receipts_bytes D rs) + 1 else file_size d f)"
  "file_size (d\<lparr>manifest_file := m\<rparr>) f = file_size d f" "file_size (d\<lparr>auxiliary := x\<rparr>) f = file_size d f"
  "file_size (d\<lparr>completion_marker := c\<rparr>) f = file_size d f" "file_size empty_dir f = 0"
  by (simp_all add: file_size_def write_repository_def write_registry_def write_receipts_def update_conv' empty_dir_def)

lemma file_names [simp]:
  "REPOSITORY_FILE \<noteq> REGISTRY_FILE" "REPOSITORY_FILE \<noteq> APPLIED_TASKS_FILE" "REGISTRY_FILE \<noteq> APPLIED_TASKS_FILE"
  "REGISTRY_FILE \<noteq> REPOSITORY_FILE" "APPLIED_TASKS_FILE \<noteq> REPOSITORY_FILE" "APPLIED_TASKS_FILE \<noteq> REGISTRY_FILE"
  "GENERATION_MANIFEST_FILE \<noteq> REPOSITORY_FILE" "GENERATION_MANIFEST_FILE \<noteq> REGISTRY_FILE"
  "GENERATION_MANIFEST_FILE \<noteq> APPLIED_TASKS_FILE"
  by (simp_all add: REPOSITORY_FILE_def REGISTRY_FILE_def APPLIED_TASKS_FILE_def GENERATION_MANIFEST_FILE_def)

lemma stage_meets:
  assumes r: "represents D s vs" "orderly s" and l: "length vs < 10 ^ 6" and last: "last vs = (R, reg, rs)"
    and hon: "\<And>e. materialize_auxiliary q (length vs) payload = Inl e \<Longrightarrow> e \<noteq> InjectedCrash AFTER_CURRENT"
    and v: "valid_snapshot (snapshot payload)" "valid_registry (registry payload)"
  shows "commit_meets D s vs (next_version payload rs receipt) (stage_generation D q (length vs) payload receipt s)"
proof -
  let ?stage = "staging_dir_name (length vs) (staging_suffix q)"
  define ok where "ok t \<longleftrightarrow> stands D s vs t \<and> orderly t" for t
  have p: "ok t \<Longrightarrow> ok (put_dir ?stage d t)" for d t
    unfolding ok_def using stands_put_staging staging_dir_name_staging orderly_put staging_benign by blast
  have rep: "ok t \<Longrightarrow> represents D t vs" "ok t \<Longrightarrow> orderly t" for t by (simp_all add: ok_def stands_def)
  have same: "commit_meets D s vs x (trace, Inl e)" if "trace \<noteq> []" "\<forall>t \<in> set trace. ok t" "e \<noteq> InjectedCrash AFTER_CURRENT" for x trace e
    using that commit_meets_same unfolding ok_def by blast
  define d2 where "d2 = write_registry D (registry payload) (write_repository D (snapshot payload) empty_dir)"
  let ?s0 = "put_dir ?stage empty_dir s"
  let ?s1 = "put_dir ?stage (write_repository D (snapshot payload) empty_dir) ?s0"
  let ?s2 = "put_dir ?stage d2 ?s1"
  have s: "ok s" "ok ?s0" "ok ?s1" "ok ?s2" using stands_refl [OF r(1)] r(2) p by (simp_all add: ok_def)
  have ne: "length vs > 0" using representsD(1) [OF r(1)] by simp
  have receipts: "load_receipts ?s2 (length vs - 1) = Inr rs" by (rule represents_load(3) [OF rep [OF s(4)] last])
  define d3 where "d3 = write_receipts D (rs @ (case receipt of None \<Rightarrow> [] | Some r \<Rightarrow> [r])) d2"
  let ?s3 = "put_dir ?stage d3 ?s2"
  have s3: "ok ?s3" using s(4) by (rule p)
  have partial: "ok (put_dir ?stage (empty_dir\<lparr>other_files := [''.partial'']\<rparr>) ?s0)" using s(2) by (rule p)
  note stage = stage_generation_def [of D q "length vs" payload receipt s, unfolded Let_def, folded d2_def, unfolded receipts sum.case, folded d3_def]
  show ?thesis
  proof (cases "materialize_auxiliary q (length vs) payload")
    case (Inl e)
    have "ok (put_dir ?stage (d3\<lparr>auxiliary := Some \<lparr>aux_files = [], aux_dirs = []\<rparr>\<rparr>) ?s3)" using s3 by (rule p)
    then show ?thesis
      using s s3 partial hon [OF Inl] unfolding stage crash_here_def byte_limit_error_def
      by (auto simp: Inl intro!: same)
  next
    case (Inr aux)
    let ?d4 = "d3\<lparr>auxiliary := map_option fst aux\<rparr>"
    let ?s4 = "put_dir ?stage ?d4 ?s3"
    let ?m = "\<lparr>GenerationManifest.generation = length vs, previous_generation = Some (length vs - 1), created_at = commit_time q,
        repository_hash = canonical_hash D (snapshot payload), registry_hash = registry_hash_of D (registry payload),
        auxiliary_hash = map_option snd aux\<rparr>"
    let ?d5 = "?d4\<lparr>manifest_file := Some ?m\<rparr>"
    have s4: "ok ?s4" using s3 by (rule p)
    have s5: "ok (put_dir ?stage ?d5 ?s4)" using s4 by (rule p)
    have trace: "\<forall>t \<in> set (put_dir ?stage ?d5 ?s4 # [?s4, ?s3, ?s2, ?s1, ?s0, s]). stands D s vs t \<and> orderly t"
      using s s3 s4 s5 by (simp add: ok_def)
    have pub: "commit_meets D s vs (next_version payload rs receipt)
        (publish q (length vs) payload receipt ?d5 (put_dir ?stage ?d5 ?s4 # [?s4, ?s3, ?s2, ?s1, ?s0, s]))"
      if "staged_issue (snapshot payload) (registry payload) = None" "\<not> oversized ?d4 REPOSITORY_FILE" "\<not> oversized ?d4 REGISTRY_FILE"
    proof (rule publish_meets [OF trace _ l])
      show "good_dir D (length vs) (next_version payload rs receipt) (?d5\<lparr>completion_marker := Some COMPLETE\<rparr>)"
        using that v ne materialize_anchored [OF Inr]
        by (auto simp: good_dir_def next_version_def staged_issue_None expected_previous_def aux_anchored_def d3_def d2_def
            write_repository_def write_registry_def write_receipts_def split: option.splits)
      show "\<not> oversized ?d5 REPOSITORY_FILE" "\<not> oversized ?d5 REGISTRY_FILE" using that(2,3) by (simp_all add: oversized_def)
      show "\<not> oversized ?d5 GENERATION_MANIFEST_FILE" by (simp add: oversized_def d3_def d2_def)
      show "oversized ?d5 APPLIED_TASKS_FILE \<longleftrightarrow> \<not> receipts_fit D (next_version payload rs receipt)"
        by (auto simp: oversized_def d3_def receipts_fit_def next_version_def)
    qed simp
    show ?thesis
      using s s3 s4 partial pub staged_issue_error unfolding stage crash_here_def byte_limit_error_def
      by (auto simp: Inr intro!: same split: option.split)
  qed
qed

lemma checked_payload_error:
  assumes "represents D s vs" "orderly s" "honest q" "checked_payload D q s = Inl e"
  shows "e \<noteq> InjectedCrash p"
proof -
  obtain R r rs where last: "last vs = (R, r, rs)" by (cases "last vs")
  have stale: "stale_dependency D R deps = Some e \<Longrightarrow> e \<noteq> InjectedCrash p" for deps
    by (induction deps) (auto split: option.splits if_splits)
  show ?thesis
    using assms(3,4) represents_current [OF assms(1,2)] represents_load(2) [OF assms(1,2) last] stale staged_issue_error
    by (auto simp: checked_payload_def honest_def copy_payload_def split: sum.splits option.splits if_splits)
qed

text \<open>What a successful commit was given and checked.\<close>

definition accepted_commit :: "Dumps \<Rightarrow> CommitRequest \<Rightarrow> Version list \<Rightarrow> PromotionPayload \<Rightarrow> bool" where
  "accepted_commit D q vs payload \<longleftrightarrow>
     (case last vs of (R, r, rs) \<Rightarrow>
       base_generation q = length vs - 1 \<and> stale_dependency D R (dependencies q) = None \<and>
       CommitRequest.promotion q R r = Inr payload)"

lemma checked_payload_ok:
  assumes r: "represents D s vs" "orderly s" and ok: "checked_payload D q s = Inr (R', payload)"
  shows "accepted_commit D q vs payload" "R' = fst (last vs)" "valid_snapshot (snapshot payload)" "valid_registry (registry payload)"
    "staged_issue (snapshot payload) (registry payload) = None"
proof -
  obtain R reg rs where last: "last vs = (R, reg, rs)" by (cases "last vs")
  show "accepted_commit D q vs payload" "R' = fst (last vs)" "valid_snapshot (snapshot payload)" "valid_registry (registry payload)"
    "staged_issue (snapshot payload) (registry payload) = None"
    using ok represents_current [OF r] represents_load(2) [OF r last] last
    by (auto simp: checked_payload_def accepted_commit_def copy_payload_def split: sum.splits option.splits if_splits)
qed

lemma stage_success:
  "snd (stage_generation D q g payload receipt s) = Inr c \<Longrightarrow>
    \<exists>d trace. stage_generation D q g payload receipt s = publish q g payload receipt d trace"
  unfolding stage_generation_def Let_def by (auto split: if_splits sum.splits option.splits)

text \<open>The recovery that a commit starts with, when it succeeds, has left a tidy state.\<close>

lemma commit_trace_fails:
  "snd (recover s) = Inl e \<Longrightarrow> commit_trace D q s = (fst (recover_trace (removal_order q) s), Inl e)"
  using recover_trace_ends [of "removal_order q" s] by (auto simp: commit_trace_def split: prod.splits)

lemma commit_trace_goes_on:
  "snd (recover s) = Inr x \<Longrightarrow> commit_trace D q s =
     (fst (commit_recovered D q (fst (recover s))) @ tl (fst (recover_trace (removal_order q) s)),
      snd (commit_recovered D q (fst (recover s))))"
  using recover_trace_ends [of "removal_order q" s] by (auto simp: commit_trace_def split: prod.splits)

lemma commit_recovered_nonempty: "fst (commit_recovered D q s) \<noteq> []"
  by (auto simp: commit_recovered_def stage_generation_def publish_def Let_def split: prod.splits sum.splits option.splits)

lemma commit_recovered_meets:
  assumes r: "represents D s vs" "orderly s" and l: "length vs < 10 ^ 6" and hon: "honest q"
  shows "\<exists>payload receipt. commit_meets D s vs (next_version payload (snd (snd (last vs))) receipt) (commit_recovered D q s) \<and>
    (\<forall>c. snd (commit_recovered D q s) = Inr c \<longrightarrow> accepted_commit D q vs payload \<and>
       commit_ids c = payload_ids payload \<and> commit_receipt c = receipt)"
proof -
  obtain R reg rs where last: "last vs = (R, reg, rs)" by (cases "last vs")
  have same: ?thesis if "commit_recovered D q s = ([s], Inl e)" "e \<noteq> InjectedCrash AFTER_CURRENT" for e
    using that r stands_refl [OF r(1)] commit_meets_same [of "[s]" D s vs e] by auto
  show ?thesis
  proof (cases "checked_payload D q s")
    case (Inl e)
    then show ?thesis using same [of e] checked_payload_error [OF r hon Inl] by (simp add: commit_recovered_def)
  next
    case (Inr x)
    then obtain R' payload where x: "checked_payload D q s = Inr (R', payload)" by (cases x) auto
    note ok = checked_payload_ok [OF r x]
    have g: "base_generation q + 1 = length vs"
      using ok(1) representsD(1) [OF r(1)] by (cases vs) (auto simp: accepted_commit_def split: prod.splits)
    show ?thesis
    proof (cases "lookup_entry s (generation_name (base_generation q + 1)) \<noteq> None")
      case True
      then show ?thesis using same x by (simp add: commit_recovered_def Let_def)
    next
      case free: False
      show ?thesis
      proof (cases "build_receipt q (base_generation q + 1) R' payload")
        case (Inl e)
        then have "e \<noteq> InjectedCrash AFTER_CURRENT" using hon by (auto simp: build_receipt_def honest_def split: if_splits option.splits sum.splits)
        then show ?thesis using same [of e] x free Inl by (simp add: commit_recovered_def Let_def)
      next
        case (Inr receipt)
        have eq: "commit_recovered D q s = stage_generation D q (length vs) payload receipt s"
          using x free Inr g by (simp add: commit_recovered_def Let_def)
        have "commit_meets D s vs (next_version payload rs receipt) (stage_generation D q (length vs) payload receipt s)"
          by (rule stage_meets [OF r l last materialize_error [OF hon] ok(3,4)])
        moreover have "commit_ids c = payload_ids payload \<and> commit_receipt c = receipt"
          if "snd (stage_generation D q (length vs) payload receipt s) = Inr c" for c
          using that by (auto simp: stage_generation_def publish_def Let_def split: if_splits sum.splits option.splits)
        ultimately show ?thesis using ok(1) last unfolding eq by (intro exI [of _ payload] exI [of _ receipt]) simp
      qed
    qed
  qed
qed

lemma tidy_not_abandoned: "tidy s n \<Longrightarrow> \<not> abandoned n s"
  by (auto simp: tidy_def abandoned_def)

text \<open>The recovery and what follows it, put together.\<close>

lemma commit_meets_prefix:
  assumes m: "commit_meets D t vs v (trace, result)" and st: "stands D s vs t" and t: "orderly t" "\<not> abandoned (length vs) t"
    and pre: "\<forall>u \<in> set before. stands D s vs u" and o: "orderly s \<and> \<not> abandoned (length vs) s \<longrightarrow> (\<forall>u \<in> set before. orderly u)"
  shows "commit_meets D s vs v (trace @ before, result)"
proof -
  have u: "untouched (length vs) t x \<Longrightarrow> untouched (length vs) s x" for x using st by (simp add: stands_def untouched_def)
  have b: "\<forall>x \<in> set before. old_or_new D vs v x \<and> untouched (length vs) s x" using pre by (simp add: stands_def old_or_new_def)
  show ?thesis
    using m u b o t unfolding commit_meets_def by (simp add: ball_Un split: sum.splits if_splits)
qed

lemma commit_trace_meets:
  assumes r: "represents D s vs" and l: "length vs < 10 ^ 6" and hon: "honest q"
  shows "\<exists>payload receipt. commit_meets D s vs (next_version payload (snd (snd (last vs))) receipt) (commit_trace D q s) \<and>
    (\<forall>c. snd (commit_trace D q s) = Inr c \<longrightarrow> accepted_commit D q vs payload \<and>
       commit_ids c = payload_ids payload \<and> commit_receipt c = receipt)"
proof -
  let ?before = "fst (recover_trace (removal_order q) s)"
  have pre: "\<forall>u \<in> set ?before. stands D s vs u" using recover_trace_stands [OF r] by blast
  show ?thesis
  proof (cases "orderly s")
    case False
    then obtain e where e: "snd (recover s) = Inl e" using recover_disorderly [OF representsD(4) [OF r]] by blast
    have "e \<noteq> InjectedCrash AFTER_CURRENT" using e recover_error by blast
    then have "commit_meets D s vs v (?before, Inl e)" for v
      using pre False recover_trace_ends(1) [of "removal_order q" s] by (simp add: commit_meets_def stands_def old_or_new_def)
    then show ?thesis using commit_trace_fails [OF e, of D q] by auto
  next
    case o: True
    let ?t = "fst (recover s)"
    have t: "stands D s vs ?t" "orderly ?t" "\<not> abandoned (length vs) ?t"
      using recover_stands [OF r] recovered_represents(2,3) [OF r] tidy_not_abandoned o by (simp_all add: recover_represented [OF r o])
    obtain x where x: "snd (recover s) = Inr x" using recover_represented [OF r o] by simp
    note eq = commit_trace_goes_on [OF x, of D q]
    obtain trace result where run: "commit_recovered D q ?t = (trace, result)" by fastforce
    obtain payload receipt where m: "commit_meets D ?t vs (next_version payload (snd (snd (last vs))) receipt) (trace, result)"
      and ok: "\<forall>c. result = Inr c \<longrightarrow> accepted_commit D q vs payload \<and> commit_ids c = payload_ids payload \<and> commit_receipt c = receipt"
      using commit_recovered_meets [OF stands_represents [OF t(1)] t(2) l hon] run by auto
    have tl: "set (tl ?before) \<subseteq> set ?before" by (cases ?before) auto
    have "commit_meets D s vs (next_version payload (snd (snd (last vs))) receipt) (trace @ tl ?before, result)"
    proof (rule commit_meets_prefix [OF m t])
      show "\<forall>u \<in> set (tl ?before). stands D s vs u" using pre tl by blast
      show "orderly s \<and> \<not> abandoned (length vs) s \<longrightarrow> (\<forall>u \<in> set (tl ?before). orderly u)"
        using recover_trace_orderly [OF r] tl by blast
    qed
    then show ?thesis using ok eq run by auto
  qed
qed

end
