(* ===== verification/VR_Store_Spec.thy ===== *)
theory VR_Store_Spec
  imports VR_Store_Commit VR_Registry
begin

section \<open>The store as an append-only history\<close>

text \<open>
  The interface the rest of the runtime relies on: whatever sequence of commits, crashes and
  recoveries the store goes through, its history only grows, one admitted version at a time. The
  locale proves what follows for any store that keeps the contract of a single step; the
  interpretation is the store of the code. Then the consequences: crash atomicity, what a commit
  demands, and two limits of the format.
\<close>

subsection \<open>The interface\<close>

locale versioned_store =
  fixes rep :: "'s \<Rightarrow> 'v list \<Rightarrow> bool" and step :: "'s \<Rightarrow> 's \<Rightarrow> bool" and admits :: "'v list \<Rightarrow> 'v \<Rightarrow> bool"
  assumes step_extends: "rep s vs \<Longrightarrow> step s t \<Longrightarrow> rep t vs \<or> (\<exists>v. admits vs v \<and> rep t (vs @ [v]))"
    and rep_unique: "rep s vs \<Longrightarrow> rep s ws \<Longrightarrow> vs = ws"
begin

definition grows :: "'v list \<Rightarrow> 'v list \<Rightarrow> bool" where
  "grows vs ws \<longleftrightarrow> (\<forall>i < length ws. admits (vs @ take i ws) (ws ! i))"

lemma grows_Nil: "grows vs []"
  by (simp add: grows_def)

lemma grows_snoc: "grows vs ws \<Longrightarrow> admits (vs @ ws) v \<Longrightarrow> grows vs (ws @ [v])"
  by (auto simp: grows_def nth_append less_Suc_eq)

lemma run_extends:
  assumes "step\<^sup>*\<^sup>* s t" and "rep s vs"
  shows "\<exists>ws. rep t (vs @ ws) \<and> grows vs ws"
  using assms
proof (induction rule: rtranclp_induct)
  case base
  then show ?case using grows_Nil by (metis append_Nil2)
next
  case (step t u)
  then obtain ws where ws: "rep t (vs @ ws)" "grows vs ws" by blast
  from step_extends [OF ws(1) step.hyps(2)] show ?case
    using ws grows_snoc by (metis append.assoc)
qed

lemma run_keeps_versions:
  assumes "step\<^sup>*\<^sup>* s t" and "rep s vs" and "rep t us"
  shows "length vs \<le> length us \<and> take (length vs) us = vs"
proof -
  from run_extends [OF assms(1,2)] obtain ws where "rep t (vs @ ws)" by blast
  then have "us = vs @ ws" using assms(3) rep_unique by blast
  then show ?thesis by simp
qed

end

subsection \<open>The store of the code\<close>

definition extends_history :: "Version list \<Rightarrow> Version \<Rightarrow> bool" where
  "extends_history vs v \<longleftrightarrow>
     (case v of (R, r, rs) \<Rightarrow>
       valid_snapshot R \<and> (\<exists>rep. validate_repository R = Inr rep) \<and> valid_registry r \<and>
       validate_covers_identifiers r (all_identifiers R) = None \<and>
       (\<exists>new. rs = snd (snd (last vs)) @ new \<and> length new \<le> 1))"

text \<open>One step: a commit or a recovery, each run to its end or cut off at any point, between two deletions of
  files too.\<close>

inductive store_step :: "Dumps \<Rightarrow> StoreState \<Rightarrow> StoreState \<Rightarrow> bool" for D where
  commit_step: "honest q \<Longrightarrow> base_generation q < 999999 \<Longrightarrow> t \<in> set (fst (commit_trace D q s)) \<Longrightarrow> store_step D s t"
| recover_step: "t \<in> set (fst (recover_trace order s)) \<Longrightarrow> store_step D s t"

inductive_simps store_step_iff: "store_step D s t"

lemma represents_unique:
  assumes "represents D s vs" "represents D s ws"
  shows "vs = ws"
proof -
  have "generation_name (length vs - 1) = generation_name (length ws - 1)"
    using representsD(3) [OF assms(1)] representsD(3) [OF assms(2)] by (simp add: pointer_text_def)
  then have "length vs - 1 = length ws - 1" by (simp add: generation_name_inj)
  moreover have "length vs > 0" "length ws > 0" using representsD(1) [OF assms(1)] representsD(1) [OF assms(2)] by simp_all
  ultimately have l: "length vs = length ws" by linarith
  show ?thesis
  proof (rule nth_equalityI [OF l])
    fix g assume "g < length vs"
    with l representsD(5) [OF assms(1)] representsD(5) [OF assms(2)]
    obtain d where "good_dir D g (vs ! g) d" "good_dir D g (ws ! g) d" by (metis DirEntry.inject option.inject)
    then show "vs ! g = ws ! g" by (auto simp: good_dir_def split: prod.splits)
  qed
qed

lemma good_dir_extends:
  "good_dir D g (next_version payload (snd (snd (last vs))) receipt) d \<Longrightarrow>
     extends_history vs (next_version payload (snd (snd (last vs))) receipt)"
  by (auto simp: good_dir_def extends_history_def next_version_def split: option.splits)

lemma represents_extends:
  assumes "represents D t (vs @ [next_version payload (snd (snd (last vs))) receipt])"
  shows "extends_history vs (next_version payload (snd (snd (last vs))) receipt)"
proof -
  obtain d where "good_dir D (length vs) ((vs @ [next_version payload (snd (snd (last vs))) receipt]) ! length vs) d"
    using representsD(5) [OF assms, of "length vs"] by auto
  then show ?thesis using good_dir_extends by (simp add: nth_append)
qed

lemma commit_meets_old: "commit_meets D s vs v run \<Longrightarrow> t \<in> set (fst run) \<Longrightarrow> old_or_new D vs v t"
  by (cases run) (simp add: commit_meets_def)

lemma stale_commit:
  assumes r: "represents D s vs" and b: "base_generation q \<noteq> length vs - 1"
  shows "set (fst (commit_trace D q s)) \<subseteq> set (fst (recover_trace (removal_order q) s))"
proof (cases "orderly s")
  case False
  then obtain e where "snd (recover s) = Inl e" using recover_disorderly [OF representsD(4) [OF r]] by blast
  from commit_trace_fails [OF this, of D q] show ?thesis by simp
next
  case True
  let ?t = "fst (recover s)" and ?trace = "fst (recover_trace (removal_order q) s)"
  have t: "represents D ?t vs" "orderly ?t"
    using recovered_represents(1,2) [OF r] True by (simp_all add: recover_represented [OF r True])
  obtain e where "commit_recovered D q ?t = ([?t], Inl e)"
    using b represents_current [OF t] by (simp add: commit_recovered_def checked_payload_def)
  moreover obtain x where "snd (recover s) = Inr x" using recover_represented [OF r True] by simp
  ultimately have "fst (commit_trace D q s) = ?t # tl ?trace" using commit_trace_goes_on by simp
  moreover have "?t # tl ?trace = ?trace"
    using recover_trace_ends(1,2) [of "removal_order q" s] by (metis list.collapse)
  ultimately show ?thesis by simp
qed

lemma store_step_extends:
  assumes r: "represents D s vs" and st: "store_step D s t"
  shows "represents D t vs \<or> (\<exists>v. extends_history vs v \<and> represents D t (vs @ [v]))"
proof -
  consider (cut) q where "honest q" "base_generation q < 999999" "t \<in> set (fst (commit_trace D q s))"
    | (recovery) order where "t \<in> set (fst (recover_trace order s))"
    using st unfolding store_step_iff by blast
  then show ?thesis
  proof cases
    case (cut q)
    show ?thesis
    proof (cases "base_generation q = length vs - 1")
      case True
      then have "length vs < 10 ^ 6" using cut(2) by simp
      from commit_trace_meets [OF r this cut(1)] obtain payload receipt where
        "commit_meets D s vs (next_version payload (snd (snd (last vs))) receipt) (commit_trace D q s)" by blast
      then have "old_or_new D vs (next_version payload (snd (snd (last vs))) receipt) t"
        by (rule commit_meets_old) (rule cut(3))
      then show ?thesis using represents_extends unfolding old_or_new_def by blast
    next
      case False
      then show ?thesis using cut(3) stale_commit [OF r] recover_trace_stands [OF r] stands_represents by blast
    qed
  next
    case recovery
    then show ?thesis using recover_trace_stands [OF r] stands_represents by blast
  qed
qed

interpretation gens: versioned_store "represents D" "store_step D" extends_history for D
  by unfold_locales (fact store_step_extends, fact represents_unique)

text \<open>
  C13: The history of the store only grows. From a state that represents a history, after any number
  of commits and recoveries, each run to its end or cut off at any point - between the deletions of
  two files of an abandoned generation too - the store represents that history with further versions
  appended; each of them is a well-formed repository that validates, with a registry that covers it,
  and keeps all receipts of the version before it, with at most one more.
\<close>

theorem history_append_only:
  assumes "represents D s vs" and "(store_step D)\<^sup>*\<^sup>* s t"
  shows "\<exists>ws. represents D t (vs @ ws) \<and> (\<forall>i < length ws. extends_history (vs @ take i ws) (ws ! i))"
  using gens.run_extends [OF assms(2,1)] unfolding gens.grows_def .

text \<open>
  C4: A commit is atomic. Against a store that represents a history with room for another version,
  there is one version such that each state the commit passes through, from the first deletion of
  its recovery on, represents the history or the history with that version, and the directories of
  the history are as they were. If the commit succeeds, it was based on the current generation, the
  dependencies were unchanged, the version holds what the promotion made of the current repository,
  its receipts are the old ones with the new one, and unless they exceed the limit for reading them
  back the store is orderly; if it fails, the history is as before, unless the failure is the crash
  after the pointer was set.
\<close>

theorem commit_atomic:
  assumes r: "represents D s vs" and l: "length vs < 10 ^ 6" and hon: "honest q"
  shows "\<exists>v. (\<forall>t \<in> set (fst (commit_trace D q s)). (represents D t vs \<or> represents D t (vs @ [v])) \<and>
      (\<forall>g < length vs. lookup_entry t (generation_name g) = lookup_entry s (generation_name g))) \<and>
    (case commit D q s of
       (t, Inr c) \<Rightarrow> committed c = length vs \<and> represents D t (vs @ [v]) \<and> (receipts_fit D v \<longrightarrow> orderly t) \<and>
         (\<exists>payload. accepted_commit D q vs payload \<and> commit_ids c = payload_ids payload \<and>
           v = next_version payload (snd (snd (last vs))) (commit_receipt c))
     | (t, Inl e) \<Rightarrow> represents D t (if e = InjectedCrash AFTER_CURRENT then vs @ [v] else vs))"
proof -
  from commit_trace_meets [OF r l hon] obtain payload receipt where
    m: "commit_meets D s vs (next_version payload (snd (snd (last vs))) receipt) (commit_trace D q s)"
    and ok: "\<forall>c. snd (commit_trace D q s) = Inr c \<longrightarrow> accepted_commit D q vs payload \<and>
       commit_ids c = payload_ids payload \<and> commit_receipt c = receipt" by blast
  obtain trace res where t: "commit_trace D q s = (trace, res)" by (cases "commit_trace D q s")
  show ?thesis
  proof (intro exI conjI)
    show "\<forall>t \<in> set (fst (commit_trace D q s)). (represents D t vs \<or>
        represents D t (vs @ [next_version payload (snd (snd (last vs))) receipt])) \<and>
        (\<forall>g < length vs. lookup_entry t (generation_name g) = lookup_entry s (generation_name g))"
      using m by (simp add: t commit_meets_def old_or_new_def untouched_def)
    show "case commit D q s of
       (t, Inr c) \<Rightarrow> committed c = length vs \<and> represents D t (vs @ [next_version payload (snd (snd (last vs))) receipt]) \<and>
         (receipts_fit D (next_version payload (snd (snd (last vs))) receipt) \<longrightarrow> orderly t) \<and>
         (\<exists>p. accepted_commit D q vs p \<and> commit_ids c = payload_ids p \<and>
           next_version payload (snd (snd (last vs))) receipt = next_version p (snd (snd (last vs))) (commit_receipt c))
     | (t, Inl e) \<Rightarrow> represents D t (if e = InjectedCrash AFTER_CURRENT
          then vs @ [next_version payload (snd (snd (last vs))) receipt] else vs)"
      using m ok by (cases res) (auto simp: t commit_def commit_meets_def split: if_splits)
  qed
qed


end
