(* ===== verification/VR_Store_Limits.thy ===== *)
theory VR_Store_Limits
  imports VR_Store_Spec VR_Samples
begin

section \<open>Initialisation, the limits of the store, and the theorems on a sample store\<close>

text \<open>
  How a history starts, when a commit goes through, three ways in which the store can lock itself out -
  the millionth commit, receipts too large to be read back, and an interrupted clean-up - and the
  witnesses: the store initialised with the sample repository, and commits on it.
\<close>

definition blank :: StoreState where
  "blank = \<lparr>current_pointer = None, entries = []\<rparr>"

lemma recover_blank: "recover blank = (blank, Inr None)"
  by (simp add: recover_def blank_def recovered_pointer_def)

text \<open>The files of a version are within the limit for reading them back.\<close>

definition files_fit :: "Dumps \<Rightarrow> Version \<Rightarrow> bool" where
  "files_fit D v \<longleftrightarrow>
     length (repository_bytes D (fst v)) < MAX_GENERATION_CONTROL_BYTES \<and>
     length (registry_bytes D (fst (snd v))) < MAX_GENERATION_CONTROL_BYTES \<and> receipts_fit D v"

lemma generation_dir_good:
  assumes "valid_snapshot R" "validate_repository R = Inr rep" "valid_registry r"
    "validate_covers_identifiers r (all_identifiers R) = None"
  shows "good_dir D g (R, r, rs) ((generation_dir D now g R r rs)\<lparr>completion_marker := Some COMPLETE\<rparr>)"
  using assms
  by (simp add: good_dir_def generation_dir_def empty_dir_def aux_anchored_def write_repository_def write_registry_def write_receipts_def)

lemma generation_dir_readable:
  "files_fit D (R, r, rs) \<Longrightarrow> readable ((generation_dir D now g R r rs)\<lparr>completion_marker := Some COMPLETE\<rparr>)"
  by (simp add: readable_def oversized_def generation_dir_def files_fit_def receipts_fit_def)

lemma single_generation:
  fixes D now
  assumes "valid_snapshot R" "validate_repository R = Inr rep" "valid_registry r"
    "validate_covers_identifiers r (all_identifiers R) = None"
  defines "s \<equiv> \<lparr>current_pointer = Some (pointer_text 0),
    entries = [(generation_name 0, GenDir ((generation_dir D now 0 R r [])\<lparr>completion_marker := Some COMPLETE\<rparr>))]\<rparr>"
  shows "represents D s [(R, r, [])]" "files_fit D (R, r, []) \<Longrightarrow> orderly s"
proof -
  let ?d = "(generation_dir D now 0 R r [])\<lparr>completion_marker := Some COMPLETE\<rparr>"
  have good: "good_dir D 0 (R, r, []) ?d" by (rule generation_dir_good [OF assms(1-4)])
  show "represents D s [(R, r, [])]"
    by (rule representsI) (use good in \<open>auto simp: s_def lookup_entry_def\<close>)
  show "orderly s" if "files_fit D (R, r, [])"
    using good_complete [OF good generation_dir_readable [OF that]] by (simp add: s_def orderly_def benign_def)
qed

text \<open>
  Initialisation starts a history: in an empty directory, a well-formed repository that validates
  becomes generation 0, with the registry rebuilt from its identifiers and no receipts, and unless its
  files exceed the limit for reading them back the store is orderly; and once an orderly store has a
  current generation, initialising again with any repository changes nothing but the debris and
  returns the current generation.
\<close>

theorem initialize_starts_history:
  assumes v: "valid_snapshot R" and ok: "validate_repository R = Inr rep"
    and reg: "from_identifiers (all_identifiers R) = Inr r"
  shows "\<exists>s. initialize D now R blank = (s, Inr 0) \<and> represents D s [(R, r, [])] \<and> (files_fit D (R, r, []) \<longrightarrow> orderly s) \<and>
    (\<forall>vs s' now' R'. represents D s' vs \<and> orderly s' \<longrightarrow> initialize D now' R' s' = (fst (recover s'), Inr (length vs - 1)))"
proof -
  note r = registry_from_identifiers [OF reg]
  then have vr: "valid_registry r" by blast
  then have cov: "validate_covers_identifiers r (all_identifiers R) = None" using r covers_identifiers_iff [OF vr] by blast
  let ?d = "(generation_dir D now 0 R r [])\<lparr>completion_marker := Some COMPLETE\<rparr>"
  let ?s = "\<lparr>current_pointer = Some (pointer_text 0), entries = [(generation_name 0, GenDir ?d)]\<rparr>"
  have i: "initialize D now R blank = (?s, Inr 0)"
    using v ok reg recover_blank by (simp add: initialize_def blank_def set_pointer_def put_dir_def remove_entry_def)
  have "initialize D now' R' s' = (fst (recover s'), Inr (length vs - 1))" if "represents D s' vs \<and> orderly s'" for vs s' now' R'
  proof -
    have r': "represents D s' vs" "orderly s'" using that by simp_all
    have "current_generation (fst (recover s')) = Inr (length vs - 1)"
      using represents_current [OF recovered_represents(1) [OF r'(1)] recovered_represents(2) [OF r']]
      by (simp add: recover_represented [OF r'])
    then show ?thesis using recover_represented [OF r'] representsD(3) [OF r'(1)] by (simp add: initialize_def)
  qed
  then show ?thesis using i single_generation [OF v ok vr cov] by blast
qed

lemma commit_eq: "commit D q s = (hd (fst (commit_trace D q s)), snd (commit_trace D q s))"
  by (simp add: commit_def case_prod_beta Let_def)

lemma recovered_room:
  assumes "represents D s vs" "orderly s" "length vs < 10 ^ 6"
  shows "lookup_entry (fst (recover s)) (generation_name (length vs)) = None"
proof -
  have t: "tidy (fst (recover s)) (length vs)" using recovered_represents(3) [OF assms(1)] recover_represented [OF assms(1,2)] by simp
  show ?thesis
  proof (cases "lookup_entry (fst (recover s)) (generation_name (length vs))")
    case (Some e)
    then have "(generation_name (length vs), e) \<in> set (entries (fst (recover s)))" by (simp add: lookup_entry_def map_of_SomeD)
    then show ?thesis using t numbered_generation_name [OF assms(3)] by (auto simp: tidy_def)
  qed simp
qed

text \<open>The receipts that a successful staging writes are those it inherits with the new one.\<close>

lemma stage_applied_size:
  assumes "snd (stage_generation D q g payload receipt s) = Inr c"
    and "\<And>x y z. load_receipts (put_dir (staging_dir_name g (staging_suffix q)) x (put_dir (staging_dir_name g (staging_suffix q)) y
        (put_dir (staging_dir_name g (staging_suffix q)) z s))) (g - 1) = Inr rs"
  shows "\<exists>d. lookup_entry (hd (fst (stage_generation D q g payload receipt s))) (generation_name g) = Some (GenDir d) \<and>
    file_size d APPLIED_TASKS_FILE = length (receipts_bytes D (snd (snd (next_version payload rs receipt)))) + 1"
  using assms(1)
  by (auto simp: stage_generation_def publish_def Let_def assms(2) lookup_put next_version_def simp del: One_nat_def
      split: if_splits sum.splits option.splits)

lemma commit_succeeds:
  assumes r: "represents D s vs" "orderly s" and l: "length vs < 10 ^ 6" and last: "last vs = (R, reg, rs)"
    and base: "base_generation q = length vs - 1" and fresh: "stale_dependency D R (dependencies q) = None"
    and p: "CommitRequest.promotion q R reg = Inr payload" and v: "valid_snapshot (snapshot payload)" "valid_registry (registry payload)"
    and ok: "staged_issue (snapshot payload) (registry payload) = None" and c: "crash_at q = None"
    and rec: "build_receipt q (length vs) R payload = Inr receipt" and aux: "materialize_auxiliary q (length vs) payload = Inr a"
    and size: "length (repository_bytes D (snapshot payload)) < MAX_GENERATION_CONTROL_BYTES"
      "length (registry_bytes D (registry payload)) < MAX_GENERATION_CONTROL_BYTES"
    and receipts: "staging_materializer q = None \<or> receipts_fit D (next_version payload rs receipt)"
  shows "\<exists>t. commit D q s = (t, Inr \<lparr>committed = length vs, commit_ids = payload_ids payload, commit_receipt = receipt\<rparr>) \<and>
    represents D t (vs @ [next_version payload rs receipt]) \<and>
    (\<exists>d. lookup_entry t (generation_name (length vs)) = Some (GenDir d) \<and>
       file_size d APPLIED_TASKS_FILE = length (receipts_bytes D (snd (snd (next_version payload rs receipt)))) + 1)"
proof -
  obtain s1 where rs: "represents D s1 vs" "orderly s1" "recover s = (s1, Inr (Some (length vs - 1)))"
    using recovered_represents(1,2) [OF r(1)] r(2) recover_represented [OF r] by blast
  have g: "base_generation q + 1 = length vs" using representsD(1) [OF r(1)] base by (cases vs) simp_all
  have x: "checked_payload D q s1 = Inr (R, payload)"
    using represents_current [OF rs(1,2)] represents_load(2) [OF rs(1,2) last] base fresh p v ok
    by (simp add: checked_payload_def copy_payload_def)
  have eq: "commit_recovered D q s1 = stage_generation D q (length vs) payload receipt s1"
    using x rs(3) recovered_room [OF r l] rec g by (simp add: commit_recovered_def Let_def)
  let ?stage = "staging_dir_name (length vs) (staging_suffix q)"
  have "stands D s1 vs (put_dir ?stage x (put_dir ?stage y (put_dir ?stage z s1)))" for x y z
    using stands_refl [OF rs(1)] by (simp add: stands_put_staging staging_dir_name_staging)
  moreover have "orderly (put_dir ?stage x (put_dir ?stage y (put_dir ?stage z s1)))" for x y z
    using rs(2) by (simp add: orderly_put staging_benign staging_dir_name_staging)
  ultimately have loaded: "load_receipts (put_dir ?stage x (put_dir ?stage y (put_dir ?stage z s1))) (length vs - 1) = Inr rs" for x y z
    using represents_load(3) [OF stands_represents _ last] by blast
  have res: "snd (stage_generation D q (length vs) payload receipt s1) =
      Inr \<lparr>committed = length vs, commit_ids = payload_ids payload, commit_receipt = receipt\<rparr>"
    using c aux ok size receipts
    by (auto simp: stage_generation_def publish_def crash_here_def Let_def loaded core_oversized_def oversized_def receipts_fit_def
        next_version_def simp del: One_nat_def)
  let ?t = "hd (fst (commit_recovered D q s1))"
  have "fst (recover s) = s1" "snd (recover s) = Inr (Some (length vs - 1))" using rs(3) by simp_all
  from commit_trace_goes_on [OF this(2), of D q, unfolded this(1)]
  have trace: "commit D q s = (?t, Inr \<lparr>committed = length vs, commit_ids = payload_ids payload, commit_receipt = receipt\<rparr>)"
    using res commit_recovered_nonempty [of D q s1] by (simp add: commit_eq eq hd_append)
  have "commit_meets D s1 vs (next_version payload rs receipt) (stage_generation D q (length vs) payload receipt s1)"
    by (rule stage_meets [OF rs(1,2) l last _ v]) (simp add: aux)
  then have "represents D ?t (vs @ [next_version payload rs receipt])"
    using res by (cases "stage_generation D q (length vs) payload receipt s1") (simp add: eq commit_meets_def)
  then show ?thesis using trace stage_applied_size [OF res loaded] by (auto simp: eq)
qed

text \<open>
  C36: A commit goes through when nothing stands against it: on the current generation of an orderly
  store, with unchanged dependencies, a promotion whose payload is well-formed, validates and is covered, a
  receipt that can be built, auxiliary files within the limits, and control files that can be read
  back - of the receipts only a commit with a materializer demands it - it returns the next
  generation, and that is the version it was given.
\<close>

theorem commit_completes:
  assumes r: "represents D s vs" "orderly s" and l: "length vs < 10 ^ 6" and last: "last vs = (R, reg, rs)"
    and base: "base_generation q = length vs - 1" and fresh: "stale_dependency D R (dependencies q) = None"
    and p: "CommitRequest.promotion q R reg = Inr payload" and v: "valid_snapshot (snapshot payload)" "valid_registry (registry payload)"
    and ok: "staged_issue (snapshot payload) (registry payload) = None" and c: "crash_at q = None"
    and rec: "build_receipt q (length vs) R payload = Inr receipt" and aux: "materialize_auxiliary q (length vs) payload = Inr a"
    and size: "length (repository_bytes D (snapshot payload)) < MAX_GENERATION_CONTROL_BYTES"
      "length (registry_bytes D (registry payload)) < MAX_GENERATION_CONTROL_BYTES"
    and receipts: "staging_materializer q = None \<or> receipts_fit D (next_version payload rs receipt)"
  shows "\<exists>t. commit D q s = (t, Inr \<lparr>committed = length vs, commit_ids = payload_ids payload, commit_receipt = receipt\<rparr>) \<and>
    represents D t (vs @ [next_version payload rs receipt])"
  using commit_succeeds [OF assms] by blast

subsection \<open>Three limits\<close>

text \<open>
  Nothing checks the size of the receipts before they are published when a commit has no materializer.
  A commit that carries them over the limit for reading succeeds, and from then on the current
  generation cannot be read, and every recovery, commit and initialisation fails.
\<close>

theorem oversized_receipts_lock:
  assumes r: "represents D s vs" "orderly s" and l: "length vs < 10 ^ 6" and last: "last vs = (R, reg, rs)"
    and base: "base_generation q = length vs - 1" and fresh: "stale_dependency D R (dependencies q) = None"
    and p: "CommitRequest.promotion q R reg = Inr payload" and v: "valid_snapshot (snapshot payload)" "valid_registry (registry payload)"
    and ok: "staged_issue (snapshot payload) (registry payload) = None" and c: "crash_at q = None"
    and rec: "build_receipt q (length vs) R payload = Inr receipt" and aux: "materialize_auxiliary q (length vs) payload = Inr a"
    and size: "length (repository_bytes D (snapshot payload)) < MAX_GENERATION_CONTROL_BYTES"
      "length (registry_bytes D (registry payload)) < MAX_GENERATION_CONTROL_BYTES"
    and receipts: "staging_materializer q = None" "\<not> receipts_fit D (next_version payload rs receipt)"
  shows "\<exists>t. commit D q s = (t, Inr \<lparr>committed = length vs, commit_ids = payload_ids payload, commit_receipt = receipt\<rparr>) \<and>
    (\<exists>e. current_generation t = Inl e) \<and> (\<exists>e. snd (recover t) = Inl e) \<and>
    (\<forall>q'. \<exists>e. snd (commit D q' t) = Inl e) \<and> (\<forall>now R'. \<exists>e. snd (initialize D now R' t) = Inl e)"
proof -
  let ?v = "next_version payload rs receipt"
  obtain t d where t: "commit D q s = (t, Inr \<lparr>committed = length vs, commit_ids = payload_ids payload, commit_receipt = receipt\<rparr>)"
      "represents D t (vs @ [?v])" "lookup_entry t (generation_name (length vs)) = Some (GenDir d)"
      "file_size d APPLIED_TASKS_FILE = length (receipts_bytes D (snd (snd ?v))) + 1"
    using commit_succeeds [OF r l last base fresh p v ok c rec aux size] receipts(1) by blast
  have big: "\<not> complete_dir (length vs) d"
    using t(4) receipts(2) by (simp add: complete_dir_def readable_def oversized_def receipts_fit_def)
  have cur: "\<exists>e. current_generation t = Inl e"
  proof (cases "current_generation t")
    case (Inr g)
    have "py_strip (pointer_text (length vs)) = generation_name (length vs)" by (rule py_strip_pointer)
    then have "require_complete_generation t (length vs) = Inr d"
      using Inr representsD(3) [OF t(2)] t(3) by (auto simp: current_generation_def Let_def require_complete_iff split: if_splits sum.splits)
    then show ?thesis using big by (simp add: require_complete_iff)
  qed simp
  have o: "\<not> orderly t"
  proof
    assume "orderly t"
    from represented_dir [OF t(2) this, of "length vs"] t(3) big show False by auto
  qed
  obtain e where e: "snd (recover t) = Inl e" using recover_disorderly [OF representsD(4) [OF t(2)] o] by blast
  have "\<exists>e. snd (commit D q' t) = Inl e" for q' using commit_trace_fails [OF e, of D q'] by (simp add: commit_eq)
  moreover have "\<exists>e. snd (initialize D now R' t) = Inl e" for now R' using e by (cases "recover t") (simp add: initialize_def)
  ultimately show ?thesis using t(1) cur e by blast
qed

lemma recovered_success_pointer:
  "snd (commit_recovered D q s) = Inr c \<Longrightarrow>
    current_pointer (hd (fst (commit_recovered D q s))) = Some (pointer_text (base_generation q + 1))"
proof -
  assume c: "snd (commit_recovered D q s) = Inr c"
  then obtain payload receipt where eq: "commit_recovered D q s = stage_generation D q (base_generation q + 1) payload receipt s"
    by (auto simp: commit_recovered_def Let_def split: prod.splits sum.splits if_splits)
  obtain d trace where p: "stage_generation D q (base_generation q + 1) payload receipt s = publish q (base_generation q + 1) payload receipt d trace"
    using stage_success c eq by metis
  show ?thesis
    using c unfolding eq p by (auto simp: publish_def Let_def set_pointer_def split: if_splits)
qed

lemma commit_success_pointer: "commit D q s = (t, Inr c) \<Longrightarrow> current_pointer t = Some (pointer_text (base_generation q + 1))"
proof -
  assume c: "commit D q s = (t, Inr c)"
  then obtain x where x: "snd (recover s) = Inr x" using commit_trace_fails [of s _ D q] by (cases "snd (recover s)") (auto simp: commit_eq)
  from c commit_trace_goes_on [OF x, of D q] show ?thesis
    using recovered_success_pointer [of D q "fst (recover s)" c] commit_recovered_nonempty by (auto simp: commit_eq hd_append)
qed

lemma length_nat_str_ge: "10 ^ k \<le> n \<Longrightarrow> k < length (nat_str n)"
proof (induction k arbitrary: n)
  case (Suc k)
  then have "10 ^ k \<le> n div 10" by (simp add: less_eq_div_iff_mult_less_eq mult.commute)
  then have "k < length (nat_str (n div 10))" by (rule Suc.IH)
  moreover have "\<not> n < 10" using Suc.prems by (metis le_less_trans not_less one_le_power power_Suc mult_le_mono2 nat_mult_1_right one_le_numeral order_less_le_trans)
  ultimately show ?case by (subst nat_str.simps) simp
qed simp

text \<open>
  The pointer has room for six digits. A commit on top of generation 999999 succeeds and reports
  generation 1000000, and from then on the store cannot be read: the pointer it wrote is refused by
  every load of the current generation.
\<close>

theorem millionth_generation_unreadable:
  assumes "commit D q s = (t, Inr c)" and "999999 \<le> base_generation q"
  shows "\<exists>e. current_generation t = Inl e \<and> load_current D t = Inl e"
proof -
  have p: "current_pointer t = Some (pointer_text (base_generation q + 1))" by (rule commit_success_pointer [OF assms(1)])
  have "10 ^ 6 \<le> base_generation q + 1" using assms(2) by simp
  then have "6 < length (nat_str (base_generation q + 1))" by (rule length_nat_str_ge)
  then have "\<not> numbered_name (generation_name (base_generation q + 1))" by (simp add: numbered_name_def generation_name_def pad_str_def)
  then show ?thesis using p by (simp add: current_generation_def load_current_def py_strip_pointer Let_def)
qed

text \<open>
  An interrupted clean-up locks the store. Recovery deletes an abandoned generation file by file;
  when that is cut off after a control file is gone and before the completion marker is, every later
  recovery fails, and with it every commit and initialisation.
\<close>

theorem interrupted_cleanup_blocks:
  assumes d: "distinct (map fst (entries s))" and e: "(n, GenDir d) \<in> set (entries s)" "numbered_name n"
    and m: "completion_marker d \<noteq> None" and gone: "\<not> complete_dir (str_nat n) d"
  shows "(\<exists>e. snd (recover s) = Inl e) \<and> (\<exists>e. snd (commit D q s) = Inl e) \<and> (\<exists>e. snd (initialize D now R s) = Inl e)"
proof -
  have "\<not> benign (n, GenDir d)" using e(2) m gone by (simp add: benign_def)
  then have "\<not> orderly s" using e(1) by (auto simp: orderly_def)
  from recover_disorderly [OF d this] obtain err where r: "snd (recover s) = Inl err" by blast
  then show ?thesis using commit_trace_fails [OF r, of D q] by (cases "recover s") (simp add: commit_eq initialize_def)
qed

subsection \<open>A sample store\<close>

definition s_dumps :: Dumps where
  "s_dumps = \<lparr>dump_snapshot = \<lambda>_. JNull, dump_registry = \<lambda>_. JNull, dump_object = \<lambda>_. JNull,
     repository_bytes = \<lambda>_. ''{}'', registry_bytes = \<lambda>_. ''{}'', receipts_bytes = \<lambda>_. ''{}''\<rparr>"

lemma s_sizes:
  "length (repository_bytes s_dumps R) < MAX_GENERATION_CONTROL_BYTES" "length (registry_bytes s_dumps r) < MAX_GENERATION_CONTROL_BYTES"
  "length (receipts_bytes s_dumps rs) < MAX_GENERATION_CONTROL_BYTES"
  by (simp_all add: s_dumps_def MAX_GENERATION_CONTROL_BYTES_def)

lemma s_room:
  "\<not> MAX_GENERATION_CONTROL_BYTES < length (repository_bytes s_dumps R) + 1"
  "\<not> MAX_GENERATION_CONTROL_BYTES < length (registry_bytes s_dumps r) + 1"
  by (simp_all add: s_dumps_def MAX_GENERATION_CONTROL_BYTES_def)

lemma s_files_fit: "files_fit s_dumps v"
  by (simp add: files_fit_def receipts_fit_def s_sizes)

text \<open>A commit that keeps the repository as it is.\<close>

definition s_request :: "nat \<Rightarrow> CrashPoint option \<Rightarrow> CommitRequest" where
  "s_request base crash = \<lparr>base_generation = base, dependencies = [],
     promotion = (\<lambda>R r. Inr \<lparr>snapshot = R, registry = r, payload_ids = []\<rparr>), receipt_factory = None,
     staging_materializer = None, crash_at = crash, staging_suffix = ''0'', commit_time = ''now'', removal_order = (\<lambda>_. [])\<rparr>"

lemma s_request_honest: "honest (s_request base crash)"
  by (simp add: honest_def s_request_def)

lemma sample_registry_built: "\<exists>r. from_identifiers (all_identifiers sample) = Inr r"
  using sample_covered by (auto simp: validate_covers_identifiers_def split: sum.splits)

theorem initialize_starts_history_witness:
  "\<exists>s r. initialize s_dumps ''now'' sample blank = (s, Inr 0) \<and> represents s_dumps s [(sample, r, [])] \<and> orderly s"
proof -
  obtain r rep where "from_identifiers (all_identifiers sample) = Inr r" "validate_repository sample = Inr rep"
    using sample_registry_built sample_validates by blast
  from initialize_starts_history [OF sample_valid this(2,1), of s_dumps "''now''"] show ?thesis by (auto simp: s_files_fit)
qed

lemma s_store:
  obtains s r rep where "represents s_dumps s [(sample, r, [])]" "orderly s" "valid_registry r" "validate_repository sample = Inr rep"
    "validate_covers_identifiers r (all_identifiers sample) = None"
proof -
  obtain r rep where r: "from_identifiers (all_identifiers sample) = Inr r" and rep: "validate_repository sample = Inr rep"
    using sample_registry_built sample_validates by blast
  note l = registry_from_identifiers [OF r]
  then have vr: "valid_registry r" by blast
  then have cov: "validate_covers_identifiers r (all_identifiers sample) = None" using l covers_identifiers_iff [OF vr] by blast
  show ?thesis using that [OF single_generation [OF sample_valid rep vr cov] vr rep cov] s_files_fit by blast
qed

theorem commit_completes_witness:
  "\<exists>s t r. commit s_dumps (s_request 0 None) s = (t, Inr \<lparr>committed = 1, commit_ids = [], commit_receipt = None\<rparr>) \<and>
     represents s_dumps t [(sample, r, []), (sample, r, [])]"
proof -
  obtain s r rep where s: "represents s_dumps s [(sample, r, [])]" "orderly s" "valid_registry r" "validate_repository sample = Inr rep"
    "validate_covers_identifiers r (all_identifiers sample) = None" by (rule s_store)
  let ?p = "\<lparr>snapshot = sample, registry = r, payload_ids = []\<rparr>"
  have "\<exists>t. commit s_dumps (s_request 0 None) s =
      (t, Inr \<lparr>committed = length [(sample, r, []) :: Version], commit_ids = payload_ids ?p, commit_receipt = None\<rparr>) \<and>
      represents s_dumps t ([(sample, r, [])] @ [next_version ?p [] None])"
    by (rule commit_completes [OF s(1,2), where payload = ?p and R = sample and reg = r and rs = "[]" and a = None])
       (use s(3-5) sample_valid s_sizes in \<open>simp_all add: s_request_def staged_issue_None build_receipt_def materialize_auxiliary_def\<close>)
  then show ?thesis by (auto simp: next_version_def)
qed

text \<open>The same commit, stopped at a crash point.\<close>

lemma s_crash:
  assumes s: "represents s_dumps s [(sample, r, [])]" "orderly s" "valid_registry r" "validate_repository sample = Inr rep"
    "validate_covers_identifiers r (all_identifiers sample) = None"
  obtains t where "commit s_dumps (s_request 0 (Some AFTER_CURRENT)) s = (t, Inl (InjectedCrash AFTER_CURRENT))"
proof -
  let ?q = "s_request 0 (Some AFTER_CURRENT)" and ?s = "s\<lparr>entries := filter (kept 0) (entries s)\<rparr>"
  have rs: "represents s_dumps ?s [(sample, r, [])]" "orderly ?s" "fst (recover s) = ?s" "snd (recover s) = Inr (Some 0)"
    using recovered_represents(1,2) [OF s(1)] s(2) recover_represented [OF s(1,2)] by simp_all
  have none: "staged_issue sample r = None" using s by (simp add: staged_issue_None)
  have room: "lookup_entry ?s (generation_name 1) = None" using recovered_room [OF s(1,2)] rs(3) by simp
  let ?p = "\<lparr>snapshot = sample, registry = r, payload_ids = []\<rparr>"
  let ?n = "staging_dir_name 1 ''0''"
  have "checked_payload s_dumps ?q ?s = Inr (sample, ?p)"
    using represents_current [OF rs(1,2)] represents_load(2) [OF rs(1,2)] s(3) sample_valid none
    by (simp add: checked_payload_def copy_payload_def s_request_def)
  then have eq: "commit_recovered s_dumps ?q ?s = stage_generation s_dumps ?q 1 ?p None ?s"
    using room by (simp add: commit_recovered_def Let_def s_request_def build_receipt_def)
  have "stands s_dumps ?s [(sample, r, [])] (put_dir ?n x (put_dir ?n y (put_dir ?n z ?s)))" for x y z
    using stands_refl [OF rs(1)] by (simp add: stands_put_staging staging_dir_name_staging)
  moreover have "orderly (put_dir ?n x (put_dir ?n y (put_dir ?n z ?s)))" for x y z
    using rs(2) by (simp add: orderly_put staging_benign staging_dir_name_staging)
  ultimately have loaded: "load_receipts (put_dir ?n x (put_dir ?n y (put_dir ?n z ?s))) 0 = Inr []" for x y z
    using represents_load(3) [OF stands_represents, of s_dumps ?s "[(sample, r, [])]"] by fastforce
  have "snd (stage_generation s_dumps ?q 1 ?p None ?s) = Inl (InjectedCrash AFTER_CURRENT)"
    using none s_sizes
    by (simp add: stage_generation_def publish_def crash_here_def Let_def s_request_def materialize_auxiliary_def loaded
        oversized_def s_room del: One_nat_def)
  then have "snd (commit_trace s_dumps ?q s) = Inl (InjectedCrash AFTER_CURRENT)"
    using commit_trace_goes_on [OF rs(4), of s_dumps ?q, unfolded rs(3)] eq by simp
  then show ?thesis using that by (simp add: commit_eq)
qed

theorem commit_atomic_witness:
  "\<exists>s t r v. commit s_dumps (s_request 0 (Some AFTER_CURRENT)) s = (t, Inl (InjectedCrash AFTER_CURRENT)) \<and>
     represents s_dumps t [(sample, r, []), v]"
proof -
  obtain s r rep where s: "represents s_dumps s [(sample, r, [])]" "orderly s" "valid_registry r" "validate_repository sample = Inr rep"
    "validate_covers_identifiers r (all_identifiers sample) = None" by (rule s_store)
  obtain t where t: "commit s_dumps (s_request 0 (Some AFTER_CURRENT)) s = (t, Inl (InjectedCrash AFTER_CURRENT))" by (rule s_crash [OF s])
  obtain v where "represents s_dumps t ([(sample, r, [])] @ [v])"
    using commit_atomic [OF s(1) _ s_request_honest, of 0 "Some AFTER_CURRENT"] t by auto
  then have "represents s_dumps t [(sample, r, []), v]" by simp
  then show ?thesis using t by blast
qed




theorem history_append_only_witness:
  "\<exists>s t ws r. (store_step s_dumps)\<^sup>*\<^sup>* s t \<and> represents s_dumps t ((sample, r, []) # ws)"
proof -
  obtain s r rep where s: "represents s_dumps s [(sample, r, [])]" by (rule s_store)
  have "s \<in> set (fst (recover_trace undefined s))"
    by (auto simp: recover_trace_def Let_def split: prod.splits sum.splits option.splits)
  then have "(store_step s_dumps)\<^sup>*\<^sup>* s s" by (blast intro: recover_step)
  from history_append_only [OF s this] this show ?thesis by auto
qed

lemma one_generation_store:
  assumes good: "good_dir D g (R, r, rs) d" "readable d" and g: "g < 10 ^ 6"
  defines "s \<equiv> \<lparr>current_pointer = Some (pointer_text g), entries = [(generation_name g, GenDir d)]\<rparr>"
  shows "recover s = (s, Inr (Some g))" "current_generation s = Inr g" "load_generation D s g = Inr (R, r)"
proof -
  have n: "numbered_name (generation_name g)" by (rule numbered_generation_name [OF g])
  have l: "lookup_entry s (generation_name g) = Some (GenDir d)" by (simp add: s_def lookup_entry_def)
  note c = good_loads [OF l good]
  note m = good_marker [OF good(1)] and p = length_pointer_text [OF g]
  have "recovered_pointer s = Inr (Some g)" using c(3) p by (simp add: recovered_pointer_def s_def py_int_pointer)
  moreover have "scan_verdict s g COMPLETE = None" using c(3) by (simp add: scan_verdict_def)
  ultimately show "recover s = (s, Inr (Some g))"
    using n m staging_not_numbered by (auto simp: recover_def s_def Let_def)
  show "current_generation s = Inr g" using n c(3) p by (simp add: current_generation_def s_def py_strip_pointer Let_def)
  show "load_generation D s g = Inr (R, r)" by (rule c(1))
qed

theorem millionth_generation_unreadable_witness:
  "\<exists>s t c e. commit s_dumps (s_request 999999 None) s = (t, Inr c) \<and> committed c = 1000000 \<and>
     current_generation t = Inl e"
proof -
  obtain s0 r rep where s0: "represents s_dumps s0 [(sample, r, [])]" "orderly s0" "valid_registry r" "validate_repository sample = Inr rep"
    "validate_covers_identifiers r (all_identifiers sample) = None" by (rule s_store)
  let ?d = "(generation_dir s_dumps ''now'' 999999 sample r [])\<lparr>completion_marker := Some COMPLETE\<rparr>"
  let ?s = "\<lparr>current_pointer = Some (pointer_text 999999), entries = [(generation_name 999999, GenDir ?d)]\<rparr>"
  let ?q = "s_request 999999 None" and ?p = "\<lparr>snapshot = sample, registry = r, payload_ids = []\<rparr>" and ?n = "staging_dir_name 1000000 ''0''"
  have good: "good_dir s_dumps 999999 (sample, r, []) ?d" by (rule generation_dir_good [OF sample_valid s0(4,3,5)])
  note readable = generation_dir_readable [OF s_files_fit]
  note one = one_generation_store [OF good readable, simplified]
  have none: "staged_issue sample r = None" using s0 by (simp add: staged_issue_None)
  have "checked_payload s_dumps ?q ?s = Inr (sample, ?p)"
    using one(2,3) s0(3) sample_valid none by (simp add: checked_payload_def copy_payload_def s_request_def)
  moreover have "lookup_entry ?s (generation_name 1000000) = None" by (simp add: lookup_entry_def generation_name_inj)
  ultimately have eq: "commit_recovered s_dumps ?q ?s = stage_generation s_dumps ?q 1000000 ?p None ?s"
    by (simp add: commit_recovered_def Let_def s_request_def build_receipt_def)
  have "generation_name 999999 \<noteq> ?n"
    using staging_not_numbered [OF staging_dir_name_staging, of 1000000 "''0''"] numbered_generation_name [of 999999] by auto
  then have "lookup_entry (put_dir ?n x (put_dir ?n y (put_dir ?n z ?s))) (generation_name 999999) = Some (GenDir ?d)" for x y z
    by (simp add: lookup_put) (simp add: lookup_entry_def)
  from good_loads(2) [OF this good readable] have "\<exists>c. snd (stage_generation s_dumps ?q 1000000 ?p None ?s) = Inr c \<and> committed c = 1000000"
    using none s_sizes
    by (simp add: stage_generation_def publish_def crash_here_def Let_def s_request_def materialize_auxiliary_def oversized_def
        s_room [simplified])
  moreover have "snd (commit_trace s_dumps ?q ?s) = snd (commit_recovered s_dumps ?q ?s)"
    using commit_trace_goes_on [of ?s "Some 999999" s_dumps ?q] one(1) by simp
  ultimately obtain t c where t: "commit s_dumps ?q ?s = (t, Inr c)" "committed c = 1000000" using eq by (auto simp: commit_eq)
  from millionth_generation_unreadable [OF t(1)] have "\<exists>e. current_generation t = Inl e"
    by (auto simp: s_request_def)
  then show ?thesis using t by blast
qed

text \<open>The store can come to this: the state \<open>torn_sample\<close> is one that a commit passes through.\<close>

theorem interrupted_cleanup_blocks_witness:
  "\<exists>s r d. represents s_dumps s [(sample, r, [])] \<and>
     (\<exists>e. snd (recover (put_dir (generation_name 1) (d\<lparr>repository_file := None\<rparr>) s)) = Inl e)"
proof -
  obtain s r rep where s: "represents s_dumps s [(sample, r, [])]" by (rule s_store)
  let ?d = "(generation_dir s_dumps ''now'' 1 sample r [])\<lparr>completion_marker := Some COMPLETE\<rparr>"
  let ?t = "put_dir (generation_name 1) (?d\<lparr>repository_file := None\<rparr>) s"
  have d: "distinct (map fst (entries ?t))" using representsD(4) [OF s] by (simp add: put_dir_def distinct_update)
  have "(generation_name 1, GenDir (?d\<lparr>repository_file := None\<rparr>)) \<in> set (entries ?t)"
    by (rule iffD1 [OF lookup_iff [OF d]]) (simp only: lookup_put if_True simp_thms)
  moreover have "numbered_name (generation_name 1)" by (rule numbered_generation_name) simp
  ultimately have "\<exists>e. snd (recover ?t) = Inl e"
    using interrupted_cleanup_blocks [OF d, of "generation_name 1" "?d\<lparr>repository_file := None\<rparr>"] by (simp add: complete_dir_def)
  then show ?thesis using s by blast
qed

text \<open>Receipts that take 64 MiB.\<close>

theorem oversized_receipts_lock_witness:
  "\<exists>D s t c. commit D (s_request 0 None) s = (t, Inr c) \<and> (\<exists>e. snd (recover t) = Inl e)"
proof -
  let ?D = "s_dumps\<lparr>receipts_bytes := \<lambda>_. replicate MAX_GENERATION_CONTROL_BYTES (CHR ''x'')\<rparr>"
  obtain r rep where r: "from_identifiers (all_identifiers sample) = Inr r" and rep: "validate_repository sample = Inr rep"
    using sample_registry_built sample_validates by blast
  note l = registry_from_identifiers [OF r]
  then have vr: "valid_registry r" by blast
  then have cov: "validate_covers_identifiers r (all_identifiers sample) = None" using l covers_identifiers_iff [OF vr] by blast
  let ?d = "(generation_dir s_dumps ''now'' 0 sample r [])\<lparr>completion_marker := Some COMPLETE\<rparr>"
  let ?s = "\<lparr>current_pointer = Some (pointer_text 0), entries = [(generation_name 0, GenDir ?d)]\<rparr>"
  let ?p = "\<lparr>snapshot = sample, registry = r, payload_ids = []\<rparr>"
  have same: "canonical_hash ?D = canonical_hash s_dumps" "registry_hash_of ?D = registry_hash_of s_dumps"
    by (simp_all add: fun_eq_iff canonical_hash_def registry_hash_of_def)
  have s: "represents ?D ?s [(sample, r, [])]" "orderly ?s"
    using single_generation [OF sample_valid rep vr cov, of s_dumps "''now''"] s_files_fit
    by (simp_all add: represents_def good_dir_def same)
  have "\<exists>t. commit ?D (s_request 0 None) ?s =
      (t, Inr \<lparr>committed = length [(sample, r, []) :: Version], commit_ids = payload_ids ?p, commit_receipt = None\<rparr>) \<and>
      (\<exists>e. current_generation t = Inl e) \<and> (\<exists>e. snd (recover t) = Inl e) \<and>
      (\<forall>q'. \<exists>e. snd (commit ?D q' t) = Inl e) \<and> (\<forall>now R'. \<exists>e. snd (initialize ?D now R' t) = Inl e)"
    by (rule oversized_receipts_lock [OF s, where payload = ?p and R = sample and reg = r and rs = "[]" and a = None])
       (use vr rep cov sample_valid s_sizes in \<open>simp_all add: s_request_def staged_issue_None build_receipt_def materialize_auxiliary_def
         next_version_def receipts_fit_def\<close>)
  then show ?thesis by blast
qed

end
