(* ===== verification/VR_Cache.thy ===== *)
theory VR_Cache
  imports VR_Receipts
begin

section \<open>The semantic proposal cache (\<open>runtime/cache.py\<close>, \<open>CacheSignature\<close> of \<open>runtime/records.py\<close>)\<close>

text \<open>
  A signature names every byte of a task that an engine sees; an accepted proposal is stored under
  the hash of its signature. An entry directory holds two files; a file that is missing or cannot be
  parsed is \<open>None\<close>. Dictionaries compare as Python compares them, without regard to order.
\<close>

record CacheSignature =
  task_type :: TaskType
  task_spec_version :: string
  prompt_hash :: string
  input_schema_hash :: string
  proposal_schema_hash :: string
  dependency_hashes :: "string strdict"
  resource_hashes :: "string strdict"
  engine_input_hash :: string
  bundle_manifest_hash :: string
  engine :: string
  engine_version :: "string option"
  safe_engine_configuration_hash :: string
  scientific_contract_version :: string
  validator_fingerprint :: string

record CacheEntry =
  stored_signature :: "CacheSignature option"
  stored_proposal :: "Json option"

type_synonym SemanticCache = "CacheEntry strdict"

definition signature_dict :: "CacheSignature \<Rightarrow> (string \<times> Json) list" where
  "signature_dict s =
     [(''task_type'', JString (TaskType_value (CacheSignature.task_type s))),
      (''task_spec_version'', JString (CacheSignature.task_spec_version s)),
      (''prompt_hash'', JString (CacheSignature.prompt_hash s)),
      (''input_schema_hash'', JString (CacheSignature.input_schema_hash s)),
      (''proposal_schema_hash'', JString (CacheSignature.proposal_schema_hash s)),
      (''dependency_hashes'', json_dict (CacheSignature.dependency_hashes s)),
      (''resource_hashes'', json_dict (CacheSignature.resource_hashes s)),
      (''engine_input_hash'', JString (CacheSignature.engine_input_hash s)),
      (''bundle_manifest_hash'', JString (bundle_manifest_hash s)),
      (''engine'', JString (CacheSignature.engine s)),
      (''engine_version'', json_optional (CacheSignature.engine_version s)),
      (''safe_engine_configuration_hash'', JString (CacheSignature.safe_engine_configuration_hash s)),
      (''scientific_contract_version'', JString (CacheSignature.scientific_contract_version s)),
      (''validator_fingerprint'', JString (CacheSignature.validator_fingerprint s))]"

definition cache_key :: "CacheSignature \<Rightarrow> string" where
  "cache_key s = removeprefix ''sha256:'' (hash_json (JObject (signature_dict s)))"

definition same_dict :: "'v strdict \<Rightarrow> 'v strdict \<Rightarrow> bool" where
  "same_dict d e \<longleftrightarrow> list_all (\<lambda>k. map_of d k = map_of e k) (map fst d @ map fst e)"

definition same_signature :: "CacheSignature \<Rightarrow> CacheSignature \<Rightarrow> bool" where
  "same_signature s t \<longleftrightarrow>
     s\<lparr>CacheSignature.dependency_hashes := [], CacheSignature.resource_hashes := []\<rparr> =
       t\<lparr>CacheSignature.dependency_hashes := [], CacheSignature.resource_hashes := []\<rparr> \<and>
     same_dict (CacheSignature.dependency_hashes s) (CacheSignature.dependency_hashes t) \<and>
     same_dict (CacheSignature.resource_hashes s) (CacheSignature.resource_hashes t)"

definition cache_get :: "SemanticCache \<Rightarrow> CacheSignature \<Rightarrow> Json option" where
  "cache_get c signature =
     (case map_of c (cache_key signature) of
        None \<Rightarrow> None
      | Some entry \<Rightarrow>
          (case (stored_signature entry, stored_proposal entry) of
             (Some stored, Some proposal) \<Rightarrow>
               if \<not> same_signature stored signature then None
               else (case proposal of JObject members \<Rightarrow> Some (JObject members) | _ \<Rightarrow> None)
           | _ \<Rightarrow> None))"

definition cache_put :: "CacheSignature \<Rightarrow> Json \<Rightarrow> SemanticCache \<Rightarrow> SemanticCache" where
  "cache_put signature proposal c =
     AList.update (cache_key signature) \<lparr>stored_signature = Some signature, stored_proposal = Some proposal\<rparr> c"

subsection \<open>A cached proposal belongs to its signature\<close>

definition wf_signature :: "CacheSignature \<Rightarrow> bool" where
  "wf_signature s \<longleftrightarrow>
     distinct (map fst (CacheSignature.dependency_hashes s)) \<and> distinct (map fst (CacheSignature.resource_hashes s))"

lemma same_dict_iff: "same_dict d e \<longleftrightarrow> map_of d = map_of e"
proof
  assume same: "same_dict d e"
  show "map_of d = map_of e"
  proof
    fix k show "map_of d k = map_of e k"
    proof (cases "k \<in> fst ` set d \<union> fst ` set e")
      case True then show ?thesis using same by (auto simp: same_dict_def list_all_iff)
    next
      case False then show ?thesis by (metis UnI1 UnI2 map_of_eq_None_iff)
    qed
  qed
qed (simp add: same_dict_def list_all_iff)

lemma json_dict_same:
  assumes d: "distinct (map fst d)" and e: "distinct (map fst e)" and eq: "map_of d = map_of e"
  shows "json_dict d = json_dict e"
proof -
  let ?v = "map (\<lambda>(k, v). (k, JString v))"
  have "set d = set e" using eq map_of_inject_set [OF d e] by simp
  then have same: "set (?v d) = set (?v e)" by simp
  have k: "distinct (map fst (sort_key fst (?v x)))" if "distinct (map fst x)" for x :: "(string \<times> string) list"
    using that by (simp add: distinct_map inj_on_def) (auto dest: eq_key_imp_eq_value [OF that])
  have "sort_key fst (?v d) = sort_key fst (?v e)"
  proof (rule map_sorted_distinct_set_unique [where f = fst])
    show "inj_on fst (set (sort_key fst (?v d)) \<union> set (sort_key fst (?v e)))"
      using k [OF d] same by (simp add: distinct_map)
    show "set (sort_key fst (?v d)) = set (sort_key fst (?v e))" using same by simp
  qed (simp, rule k [OF d], simp, rule k [OF e])
  then show ?thesis by (simp add: json_dict_def)
qed

lemma same_signature_key:
  assumes "wf_signature s" "wf_signature t" "same_signature s t"
  shows "cache_key s = cache_key t"
proof -
  let ?bare = "\<lambda>s. s\<lparr>CacheSignature.dependency_hashes := [], CacheSignature.resource_hashes := []\<rparr>"
  have bare: "?bare s = ?bare t" using assms(3) by (simp add: same_signature_def)
  have d: "json_dict (CacheSignature.dependency_hashes s) = json_dict (CacheSignature.dependency_hashes t)"
      "json_dict (CacheSignature.resource_hashes s) = json_dict (CacheSignature.resource_hashes t)"
    using assms by (auto simp: wf_signature_def same_signature_def same_dict_iff intro!: json_dict_same)
  have "signature_dict s = signature_dict t"
    using arg_cong [OF bare, of CacheSignature.task_type] arg_cong [OF bare, of CacheSignature.task_spec_version]
      arg_cong [OF bare, of CacheSignature.prompt_hash] arg_cong [OF bare, of CacheSignature.input_schema_hash]
      arg_cong [OF bare, of CacheSignature.proposal_schema_hash] arg_cong [OF bare, of CacheSignature.engine_input_hash]
      arg_cong [OF bare, of bundle_manifest_hash] arg_cong [OF bare, of CacheSignature.engine]
      arg_cong [OF bare, of CacheSignature.engine_version] arg_cong [OF bare, of CacheSignature.safe_engine_configuration_hash]
      arg_cong [OF bare, of CacheSignature.scientific_contract_version] arg_cong [OF bare, of CacheSignature.validator_fingerprint]
    by (simp add: signature_dict_def d)
  then show ?thesis by (simp add: cache_key_def)
qed

text \<open>
  C35: The cache never mixes up tasks. After a proposal was stored under a signature, a look-up finds
  it exactly under the signatures equal to that one, whatever the order of their dictionaries; a
  signature that merely hashes alike finds nothing, and all others find what they found before.
\<close>

theorem cache_lookup_exact:
  assumes "wf_signature s" and "wf_signature t"
  shows "cache_get (cache_put s (JObject p) c) t =
    (if same_signature s t then Some (JObject p) else if cache_key s = cache_key t then None else cache_get c t)"
proof (cases "same_signature s t")
  case True
  then show ?thesis using same_signature_key [OF assms] by (simp add: cache_get_def cache_put_def update_conv)
qed (simp add: cache_get_def cache_put_def update_conv)

definition s_signature :: "string strdict \<Rightarrow> CacheSignature" where
  "s_signature deps = \<lparr>CacheSignature.task_type = ASSESS_CLAIM, task_spec_version = ''1'', prompt_hash = ''p'',
     input_schema_hash = ''i'', proposal_schema_hash = ''s'', dependency_hashes = deps, resource_hashes = [],
     engine_input_hash = ''e'', bundle_manifest_hash = ''b'', engine = ''fake'', engine_version = None,
     safe_engine_configuration_hash = ''c'', scientific_contract_version = ''V1.5.1b'', validator_fingerprint = ''v''\<rparr>"

theorem cache_lookup_exact_witness:
  "cache_get (cache_put (s_signature [(''a'', ''1''), (''b'', ''2'')]) (JObject []) []) (s_signature [(''b'', ''2''), (''a'', ''1'')]) =
     Some (JObject []) \<and>
   cache_get (cache_put (s_signature [(''a'', ''1'')]) (JObject []) []) (s_signature [(''a'', ''2'')]) = None"
proof (intro conjI)
  show "cache_get (cache_put (s_signature [(''a'', ''1''), (''b'', ''2'')]) (JObject []) []) (s_signature [(''b'', ''2''), (''a'', ''1'')]) =
     Some (JObject [])"
    by (subst cache_lookup_exact) (simp_all add: wf_signature_def s_signature_def same_signature_def same_dict_def)
  have "\<not> same_signature (s_signature [(''a'', ''1'')]) (s_signature [(''a'', ''2'')])"
    by (simp add: s_signature_def same_signature_def same_dict_def)
  then show "cache_get (cache_put (s_signature [(''a'', ''1'')]) (JObject []) []) (s_signature [(''a'', ''2'')]) = None"
    by (subst cache_lookup_exact) (simp_all add: wf_signature_def s_signature_def cache_get_def [of "[]"])
qed

end
