(* ===== verification/VR_Kernel.thy ===== *)
theory VR_Kernel
  imports VR_Store VR_Cache
begin

section \<open>The task kernel (\<open>runtime/kernel.py\<close>, \<open>runtime/coupled.py\<close>)\<close>

text \<open>
  \<open>ProjectRuntime.run\<close> as a function of the generation store, the proposal cache and what the outside
  world does: for each task the bundle it was built with, for each attempt the integrity of the
  workspace, the answer of the engine, the source files at that time, and what other processes did to
  the store before the commit. An exception that leaves \<open>run\<close> is the left value of the result.
  The files written below the task directory are not part of the state; the attempt records are.
\<close>

subsection \<open>Engines, tasks and adapters\<close>

record Engine =
  engine_name :: string
  engine_version :: "string option"
  safe_configuration :: Json

text \<open>The report of a subprocess engine: its primary outcome and the failures it detected.\<close>

record AgentResult =
  execution_succeeded :: bool
  output_text :: string
  execution_error :: "string option"
  execution_report :: "(AttemptOutcome \<times> AttemptFailure list) option"

record ResourceProvenance =
  resource_id :: string
  source_path :: PyPath
  source_hash_at_snapshot :: string
  snapshot_hash :: string

text \<open>The manifest and the provenance of a task, as far as the kernel reads them.\<close>

record TaskBundle =
  task_id :: string
  base_generation :: nat
  dependencies :: "string strdict"
  instructions_hash :: string
  input_schema_hash :: string
  proposal_schema_hash :: string
  engine_input_hash :: string
  expected_bundle_manifest_hash :: string
  resources :: "ResourceProvenance list"

type_synonym SourceFiles = "PyPath \<Rightarrow> string option"

record CommitPlan =
  plan_promotion :: StorePromotion
  plan_materializer :: "(nat \<Rightarrow> PromotionPayload \<Rightarrow> AppliedTaskReceipt \<Rightarrow> StoreError + (string \<times> string) list) option"

text \<open>\<open>CoupledPromotionAdapter\<close>; a \<open>CoupledProposalValidationError\<close> is a \<open>ProposalValidationError\<close>.\<close>

record Adapter =
  adapter_task_type :: TaskType
  adapter_handler :: string
  promotion_fingerprint :: string
  rebuild_on_stale :: bool
  canonicalizes_accepted_artifact :: bool
  validate_pre_execution :: "TaskBundle \<Rightarrow> StoreError option"
  adapter_validate :: "Proposal \<Rightarrow> RepositorySnapshot \<Rightarrow> string strdict \<Rightarrow> CanonicalIdRegistry \<Rightarrow> string strdict option
    \<Rightarrow> ProposalFailure option"
  prepare_commit :: "Proposal \<Rightarrow> TaskBundle \<Rightarrow> StoreError + CommitPlan"
  verify_receipt_reuse :: "Proposal \<Rightarrow> TaskBundle \<Rightarrow> AppliedTaskReceipt \<Rightarrow> nat \<Rightarrow> RepositorySnapshot \<Rightarrow> CanonicalIdRegistry
    \<Rightarrow> string + bool \<times> string option"

text \<open>A \<open>TaskSpec\<close> with its invocation: the parser is pydantic's \<open>model_validate\<close> of the proposal class.\<close>

record TaskSpec =
  spec_type :: TaskType
  spec_version :: string
  parse_proposal :: "Json \<Rightarrow> string + Proposal"
  promotion_handler :: string
  disposition_handler :: string
  contract_problems :: "string list"
  task_invocation :: "Invocation option"

text \<open>What the kernel is built on: pydantic's dumps, the Unicode tables, \<open>json.loads\<close>, the code of the handlers.\<close>

record Platform =
  dumps_of :: Dumps
  word_table :: "nat \<Rightarrow> bool"
  casefold_table :: "nat list \<Rightarrow> nat list"
  json_loads :: "string \<Rightarrow> string + Json"
  validator_code :: string
  promotion_code :: "HandlerCode strdict"
  disposition_code :: "HandlerCode strdict"

record KernelState =
  store :: StoreState
  proposal_cache :: SemanticCache

record Attempt =
  workspace_intact :: bool
  answer :: "string + AgentResult"
  workspace_issue :: "string option"
  source_files :: SourceFiles
  other_writers :: "StoreState \<Rightarrow> StoreState"
  attempt_suffix :: string
  attempt_time :: string
  directory_order :: "string \<Rightarrow> string list"

definition SCIENTIFIC_CONTRACT_VERSION :: string where "SCIENTIFIC_CONTRACT_VERSION = ''V1.5.1b''"
definition RUNTIME_VERSION :: string where "RUNTIME_VERSION = ''1.6''"

definition PROMOTION_HANDLERS :: "string list" where
  "PROMOTION_HANDLERS =
     [''promote_discovery'', ''promote_retrieval_queries'', ''promote_claim_paper_evidence'',
      ''promote_claim_assessment'', ''promote_final_claim_validation'', ''promote_semantic_audit'']"

definition DISPOSITION_HANDLERS :: "string list" where
  "DISPOSITION_HANDLERS =
     [''interpret_positive'', ''interpret_claim_assessment'', ''interpret_final_claim_validation'',
      ''interpret_semantic_audit'', ''interpret_rendered_sentence_audit'']"

subsection \<open>Preflight\<close>

text \<open>The flags are booleans and the methods callable by the type of \<open>Adapter\<close>.\<close>

definition validate_coupled_adapter :: "Adapter \<Rightarrow> TaskType \<Rightarrow> TaskSpec \<Rightarrow> string option" where
  "validate_coupled_adapter ad requested_type sp =
     (if adapter_task_type ad \<noteq> requested_type then Some ''coupled promotion adapter task type does not match the task''
      else if adapter_handler ad \<noteq> promotion_handler sp
        then Some ''coupled promotion adapter handler does not match the TaskSpec''
      else if \<not> is_Sha256 (promotion_fingerprint ad)
        then Some ''coupled promotion adapter fingerprint is not canonical SHA-256''
      else None)"

text \<open>\<open>contract_problems\<close> are the problems with the prompt file, the models and the builders.\<close>

definition validate_task_spec_executable :: "TaskSpec \<Rightarrow> string list \<Rightarrow> string list" where
  "validate_task_spec_executable sp additional_promotion_handlers =
     contract_problems sp @
     (if promotion_handler sp \<notin> set PROMOTION_HANDLERS \<and> promotion_handler sp \<notin> set additional_promotion_handlers
      then [''promotion handler '' @ promotion_handler sp @ '' is not implemented''] else []) @
     (if disposition_handler sp \<notin> set DISPOSITION_HANDLERS
      then [''disposition handler '' @ disposition_handler sp @ '' is not implemented''] else [])"

definition preflight :: "RuntimeConfig \<Rightarrow> TaskType \<Rightarrow> TaskSpec \<Rightarrow> Adapter option \<Rightarrow> bool" where
  "preflight cfg requested_type sp ad =
     (case ad of
        None \<Rightarrow> validate_task_spec_executable sp [] = []
      | Some a \<Rightarrow> validate_coupled_adapter a requested_type sp = None \<and> enable_receipts cfg \<and>
          validate_task_spec_executable sp [adapter_handler a] = [])"

subsection \<open>Keys of a task\<close>

definition resource_hashes_of :: "TaskBundle \<Rightarrow> string strdict" where
  "resource_hashes_of b =
     fold (\<lambda>r d. AList.update (ResourceProvenance.resource_id r) (snapshot_hash r) d) (resources b) []"

definition cache_signature :: "Platform \<Rightarrow> TaskSpec \<Rightarrow> TaskBundle \<Rightarrow> Engine \<Rightarrow> CacheSignature" where
  "cache_signature P spec b e =
     \<lparr>CacheSignature.task_type = spec_type spec, CacheSignature.task_spec_version = spec_version spec,
      CacheSignature.prompt_hash = instructions_hash b, CacheSignature.input_schema_hash = TaskBundle.input_schema_hash b,
      CacheSignature.proposal_schema_hash = TaskBundle.proposal_schema_hash b,
      CacheSignature.dependency_hashes = TaskBundle.dependencies b, CacheSignature.resource_hashes = resource_hashes_of b,
      CacheSignature.engine_input_hash = TaskBundle.engine_input_hash b,
      bundle_manifest_hash = expected_bundle_manifest_hash b, CacheSignature.engine = engine_name e,
      CacheSignature.engine_version = Engine.engine_version e,
      CacheSignature.safe_engine_configuration_hash = hash_json (safe_configuration e),
      CacheSignature.scientific_contract_version = SCIENTIFIC_CONTRACT_VERSION,
      CacheSignature.validator_fingerprint = validator_code P\<rparr>"

definition engine_plan :: "RuntimeConfig \<Rightarrow> Engine list \<Rightarrow> Json" where
  "engine_plan config engines =
     JObject [(''technical_attempts_per_engine'', JInt (int (technical_attempts_per_engine config))),
       (''engines'', JArray (map (\<lambda>e. JObject [(''name'', JString (engine_name e)),
          (''version'', json_optional (Engine.engine_version e)), (''safe_configuration'', safe_configuration e)]) engines))]"

definition task_fingerprint :: "Platform \<Rightarrow> TaskSpec \<Rightarrow> Adapter option \<Rightarrow> TaskSemanticFingerprint" where
  "task_fingerprint P spec adapter =
     compute_semantic_fingerprint (promotion_code P) (disposition_code P) (validator_code P) (promotion_handler spec)
       (disposition_handler spec) SCIENTIFIC_CONTRACT_VERSION RUNTIME_VERSION (map_option promotion_fingerprint adapter)"

definition task_identity :: "RuntimeConfig \<Rightarrow> TaskSpec \<Rightarrow> TaskBundle \<Rightarrow> Engine list \<Rightarrow> InputIdentity" where
  "task_identity config spec b engines =
     \<lparr>InputIdentity.task_type = spec_type spec, InputIdentity.task_spec_version = spec_version spec,
      InputIdentity.prompt_hash = instructions_hash b, InputIdentity.input_schema_hash = TaskBundle.input_schema_hash b,
      InputIdentity.proposal_schema_hash = TaskBundle.proposal_schema_hash b,
      InputIdentity.dependency_hashes = TaskBundle.dependencies b, InputIdentity.resource_hashes = resource_hashes_of b,
      InputIdentity.engine_input_hash = TaskBundle.engine_input_hash b, engine_id = ''ordered-engine-plan'',
      InputIdentity.engine_version = Some RUNTIME_VERSION,
      InputIdentity.safe_engine_configuration_hash = hash_json (engine_plan config engines),
      contract_version = SCIENTIFIC_CONTRACT_VERSION\<rparr>"

subsection \<open>Freshness of sources, validation of a candidate\<close>

text \<open>The text of the \<open>StaleSnapshotError\<close>, if one is raised.\<close>

fun require_fresh_resources :: "SourceFiles \<Rightarrow> ResourceProvenance list \<Rightarrow> string option" where
  "require_fresh_resources files [] = None"
| "require_fresh_resources files (r # rs) =
     (case files (ResourceProvenance.source_path r) of
        None \<Rightarrow> Some (''resource '' @ ResourceProvenance.resource_id r @ '' source is no longer readable'')
      | Some content \<Rightarrow>
          if hash_file content \<noteq> source_hash_at_snapshot r
          then Some (''resource '' @ ResourceProvenance.resource_id r @ '' source changed since snapshot'')
          else require_fresh_resources files rs)"

text \<open>Everything fixed for one task: the arguments of \<open>_run_task_once\<close> and the values it computes first.\<close>

record TaskContext =
  platform :: Platform
  config :: RuntimeConfig
  spec :: TaskSpec
  adapter :: "Adapter option"
  task_bundle :: TaskBundle
  base_snapshot :: RepositorySnapshot
  base_registry :: CanonicalIdRegistry
  fingerprint :: TaskSemanticFingerprint
  identity_key :: string
  task_key :: string

definition validate_candidate_proposal ::
  "TaskContext \<Rightarrow> Proposal \<Rightarrow> RepositorySnapshot \<Rightarrow> CanonicalIdRegistry \<Rightarrow> string strdict option \<Rightarrow> ProposalFailure option" where
  "validate_candidate_proposal ctx candidate R r accepted_allocations =
     (case adapter ctx of
        Some a \<Rightarrow> adapter_validate a candidate R (TaskBundle.dependencies (task_bundle ctx)) r accepted_allocations
      | None \<Rightarrow>
          validate_proposal (word_table (platform ctx)) (casefold_table (platform ctx)) (promotion_handler (spec ctx))
            candidate R (Some (map fst (TaskBundle.dependencies (task_bundle ctx)))) (task_invocation (spec ctx)) (Some r)
            accepted_allocations)"

subsection \<open>Reuse of an accepted receipt\<close>

text \<open>A result that carries no transition.\<close>

definition failed_result :: "AttemptOutcome \<Rightarrow> string \<Rightarrow> string option \<Rightarrow> TaskAttemptRecord list \<Rightarrow> string option \<Rightarrow> RuntimeResult" where
  "failed_result result_outcome tid result_engine records why =
     \<lparr>RuntimeResult.outcome = result_outcome, RuntimeResult.task_id = tid, generation = None,
      RuntimeResult.engine = result_engine, transition = None, stale_rebuilds = 0, attempt_records = records,
      allocated_ids = [], cache_reused = False, commit_performed = False, reused_generation = None,
      receipt_reused = False, receipt_rejection_reason = why\<rparr>"

definition reused_result :: "string \<Rightarrow> nat \<Rightarrow> AppliedTaskReceipt \<Rightarrow> RuntimeResult" where
  "reused_result tid current receipt =
     \<lparr>RuntimeResult.outcome = VALID_SCIENTIFIC_RESULT, RuntimeResult.task_id = tid, generation = Some current,
      RuntimeResult.engine = Some (AppliedTaskReceipt.engine receipt), transition = Some (recorded_transition receipt),
      stale_rebuilds = 0, attempt_records = [], allocated_ids = local_ref_map receipt, cache_reused = False,
      commit_performed = False, reused_generation = Some (committed_generation receipt), receipt_reused = True,
      receipt_rejection_reason = None\<rparr>"

text \<open>The candidate: the receipt of the task key, or else the latest one of the same input identity.\<close>

definition candidate_receipt :: "TaskContext \<Rightarrow> AppliedTaskReceipt list \<Rightarrow> AppliedTaskReceipt option" where
  "candidate_receipt ctx receipts =
     (case by_last semantic_task_key receipts (task_key ctx) of
        Some r \<Rightarrow> Some r
      | None \<Rightarrow> find (\<lambda>r. input_identity_key r = identity_key ctx) (rev receipts))"

text \<open>\<open>rsplit(":", 1)[-1]\<close>.\<close>

definition after_last_colon :: "string \<Rightarrow> string" where
  "after_last_colon s = rev (takeWhile (\<lambda>c. c \<noteq> CHR '':'') (rev s))"

definition unrecorded_ids :: "AppliedTaskReceipt \<Rightarrow> string list" where
  "unrecorded_ids receipt =
     (let canonical_raw_ids = map (after_last_colon \<circ> qualified_id) (AppliedTaskReceipt.canonical_objects receipt) in
      sort (filter (\<lambda>raw_id. raw_id \<notin> set canonical_raw_ids) (map snd (local_ref_map receipt))))"

fun changed_dependency :: "Dumps \<Rightarrow> RepositorySnapshot \<Rightarrow> string strdict \<Rightarrow> string option" where
  "changed_dependency D R [] = None"
| "changed_dependency D R ((dep_id, exp_hash) # deps) =
     (case dependency_hash D R dep_id of
        None \<Rightarrow> Some (''DEPENDENCY_MISSING:'' @ dep_id)
      | Some act_hash \<Rightarrow>
          if act_hash \<noteq> exp_hash then Some (''DEPENDENCY_HASH_MISMATCH:'' @ dep_id) else changed_dependency D R deps)"

text \<open>The proposal of a receipt read again, with the transition it has today.\<close>

definition reread_proposal :: "TaskSpec \<Rightarrow> Json \<Rightarrow> string + Proposal \<times> TransitionDecision" where
  "reread_proposal sp payload =
     (case parse_proposal sp payload of
        Inl e \<Rightarrow> Inl e
      | Inr p \<Rightarrow> (case interpret_disposition (disposition_handler sp) p of Inl e \<Rightarrow> Inl e | Inr t \<Rightarrow> Inr (p, t)))"

definition adapter_reuse_issue ::
  "TaskContext \<Rightarrow> Proposal \<Rightarrow> AppliedTaskReceipt \<Rightarrow> nat \<Rightarrow> RepositorySnapshot \<Rightarrow> CanonicalIdRegistry \<Rightarrow> string option" where
  "adapter_reuse_issue ctx p receipt current R r =
     (case adapter ctx of
        None \<Rightarrow> None
      | Some a \<Rightarrow>
          (case verify_receipt_reuse a p (task_bundle ctx) receipt current R r of
             Inl e \<Rightarrow> Some (''COUPLED_RECEIPT_VALIDATION_FAILED:'' @ e)
           | Inr (True, _) \<Rightarrow> None
           | Inr (False, Some (c # cs)) \<Rightarrow> Some (c # cs)
           | Inr (False, _) \<Rightarrow> Some ''COUPLED_RECEIPT_VALIDATION_FAILED''))"

text \<open>
  The checks on a receipt whose proposal reads as before, against the locked current generation. The
  text of the exception that follows \<open>PROPOSAL_OR_REPO_VALIDATION_FAILED:\<close> is left out.
\<close>

definition receipt_effect_issue ::
  "TaskContext \<Rightarrow> SourceFiles \<Rightarrow> AppliedTaskReceipt \<Rightarrow> Proposal \<Rightarrow> nat \<Rightarrow> RepositorySnapshot \<Rightarrow> CanonicalIdRegistry \<Rightarrow> string option" where
  "receipt_effect_issue ctx files receipt p current R r =
     (case changed_dependency (dumps_of (platform ctx)) R (TaskBundle.dependencies (task_bundle ctx)) of
        Some why \<Rightarrow> Some why
      | None \<Rightarrow>
          (case require_fresh_resources files (resources (task_bundle ctx)) of
             Some e \<Rightarrow> Some (''RESOURCE_STALE:'' @ e)
           | None \<Rightarrow>
               (case verify_receipt_canonical_objects (dumps_of (platform ctx)) receipt R of
                  Some why \<Rightarrow> Some why
                | None \<Rightarrow>
                    (case (validate_candidate_proposal ctx p R r (Some (local_ref_map receipt)), validate_repository R) of
                       (None, Inr _) \<Rightarrow> adapter_reuse_issue ctx p receipt current R r
                     | _ \<Rightarrow> Some ''PROPOSAL_OR_REPO_VALIDATION_FAILED:''))))"

datatype ReceiptVerdict = ReceiptValid | ReevaluationRequired | ReceiptRejected string

definition receipt_verdict ::
  "TaskContext \<Rightarrow> SourceFiles \<Rightarrow> AppliedTaskReceipt \<Rightarrow> nat \<Rightarrow> RepositorySnapshot \<Rightarrow> CanonicalIdRegistry \<Rightarrow> ReceiptVerdict" where
  "receipt_verdict ctx files receipt current R r =
     (if hash_json (proposal_payload receipt) \<noteq> proposal_hash receipt
        then ReceiptRejected ''RECEIPT_PROPOSAL_HASH_MISMATCH''
      else if AppliedTaskReceipt.task_type receipt \<noteq> spec_type (spec ctx) then ReceiptRejected ''RECEIPT_TASK_TYPE_MISMATCH''
      else if input_identity_key receipt \<noteq> identity_key ctx then ReceiptRejected ''RECEIPT_INPUT_IDENTITY_MISMATCH''
      else
       (let drifted = combined_fingerprint (semantic_fingerprint receipt) \<noteq> combined_fingerprint (fingerprint ctx);
            unrecorded = unrecorded_ids receipt;
            unrecorded_reason = ''RECEIPT_LOCAL_REF_NOT_CANONICAL:'' @ join_with '','' unrecorded in
        case reread_proposal (spec ctx) (proposal_payload receipt) of
          Inl e \<Rightarrow>
            if drifted then ReceiptRejected ''SEMANTIC_FINGERPRINT_MISMATCH''
            else if unrecorded \<noteq> [] then ReceiptRejected unrecorded_reason
            else ReceiptRejected (''PROPOSAL_VALIDATION_FAILED:'' @ e)
        | Inr (p, now) \<Rightarrow>
            if scientific_disposition now \<noteq> scientific_disposition (recorded_transition receipt) \<or>
                downstream_eligible now \<noteq> downstream_eligible (recorded_transition receipt)
            then ReevaluationRequired
            else if drifted then ReceiptRejected ''SEMANTIC_FINGERPRINT_MISMATCH''
            else if unrecorded \<noteq> [] then ReceiptRejected unrecorded_reason
            else (case receipt_effect_issue ctx files receipt p current R r of
                None \<Rightarrow> ReceiptValid
              | Some why \<Rightarrow> ReceiptRejected why)))"

text \<open>What the locked block decides: a final result, or to go on with the reason for the rejection.\<close>

datatype ReuseDecision = ReturnResult RuntimeResult | GoOn "string option"

definition rejected_receipt :: "TaskContext \<Rightarrow> AppliedTaskReceipt \<Rightarrow> string \<Rightarrow> ReuseDecision" where
  "rejected_receipt ctx candidate why =
     (if adapter ctx \<noteq> None \<and> semantic_task_key candidate = task_key ctx
      then ReturnResult (failed_result INTERNAL_RUNTIME_FAILURE (TaskBundle.task_id (task_bundle ctx))
             (Some (AppliedTaskReceipt.engine candidate)) [] (Some why))
      else GoOn (Some why))"

definition locked_reuse :: "TaskContext \<Rightarrow> SourceFiles \<Rightarrow> AppliedTaskReceipt \<Rightarrow> StoreState \<Rightarrow> StoreError + ReuseDecision" where
  "locked_reuse ctx files candidate s =
     (case load_current (dumps_of (platform ctx)) s of
        Inl e \<Rightarrow> Inl e
      | Inr (current, R, r) \<Rightarrow>
          (case load_receipts s current of
             Inl e \<Rightarrow> Inl e
           | Inr locked_receipts \<Rightarrow>
               Inr (case by_last semantic_task_key locked_receipts (semantic_task_key candidate) of
                      None \<Rightarrow> rejected_receipt ctx candidate ''RECEIPT_NOT_IN_CURRENT_GENERATION''
                    | Some receipt \<Rightarrow>
                        (case receipt_verdict ctx files receipt current R r of
                           ReceiptValid \<Rightarrow> ReturnResult (reused_result (TaskBundle.task_id (task_bundle ctx)) current receipt)
                         | ReevaluationRequired \<Rightarrow>
                             ReturnResult (failed_result CONTRACT_IMPLEMENTATION_FAILURE (TaskBundle.task_id (task_bundle ctx))
                               (Some (AppliedTaskReceipt.engine receipt)) []
                               (Some ''ACCEPTED_RECEIPT_REEVALUATION_REQUIRED''))
                         | ReceiptRejected why \<Rightarrow> rejected_receipt ctx candidate why))))"

text \<open>The look-up before the lock, then, after whatever other processes did meanwhile, the locked block.\<close>

definition try_reuse ::
  "TaskContext \<Rightarrow> (StoreState \<Rightarrow> StoreState) \<Rightarrow> SourceFiles \<Rightarrow> StoreState \<Rightarrow> StoreState \<times> (StoreError + ReuseDecision)" where
  "try_reuse ctx others files s =
     (if \<not> enable_receipts (config ctx) then (s, Inr (GoOn None))
      else case current_generation s of
        Inl e \<Rightarrow> (s, Inl e)
      | Inr current \<Rightarrow>
          (case load_receipts s current of
             Inl e \<Rightarrow> (s, Inl e)
           | Inr receipts \<Rightarrow>
               (case candidate_receipt ctx receipts of
                  None \<Rightarrow> (s, Inr (GoOn None))
                | Some candidate \<Rightarrow> (others s, locked_reuse ctx files candidate (others s)))))"

subsection \<open>An attempt up to its proposal\<close>

text \<open>\<open>next_attempt\<close> of \<open>runtime/tasks.py\<close>: every character of the engine's name but letters, digits, \<open>_\<close>
  and \<open>-\<close> is replaced; of a character of several bytes only the first one counts.\<close>

definition safe_engine :: "string \<Rightarrow> string" where
  "safe_engine name =
     map (\<lambda>c. lower_char (if is_alpha c \<or> is_digit c \<or> c = CHR ''_'' \<or> c = CHR ''-'' then c else CHR ''_''))
       (filter (\<lambda>c. \<not> (128 \<le> (of_char c :: nat) \<and> (of_char c :: nat) < 192)) name)"

definition attempt_name :: "nat \<Rightarrow> Engine \<Rightarrow> string" where
  "attempt_name existing e = pad_str 2 (existing + 1) @ ''-'' @ safe_engine (engine_name e)"

definition attempt_record ::
  "string \<Rightarrow> string \<Rightarrow> Engine \<Rightarrow> AttemptOutcome \<Rightarrow> bool \<Rightarrow> bool \<Rightarrow> bool option \<Rightarrow> bool \<Rightarrow> string list \<Rightarrow> AttemptFailure list
    \<Rightarrow> TaskAttemptRecord" where
  "attempt_record tid aid e record_outcome formatted schematic proposal_valid accepted errors failures =
     \<lparr>TaskAttemptRecord.task_id = tid, attempt_id = aid, TaskAttemptRecord.engine = engine_name e,
      TaskAttemptRecord.engine_version = Engine.engine_version e, TaskAttemptRecord.outcome = record_outcome,
      detected_failures = failures, format_valid = formatted, schema_valid = schematic,
      proposal_validation_valid = proposal_valid, accepted_attempt = accepted, validation_errors = errors\<rparr>"

text \<open>The answer of \<open>engine.execute\<close>, with an exception turned into a failed result.\<close>

definition agent_result :: "Attempt \<Rightarrow> AgentResult" where
  "agent_result a =
     (case answer a of
        Inr result \<Rightarrow> result
      | Inl e \<Rightarrow> \<lparr>execution_succeeded = False, output_text = [], execution_error = Some e, execution_report = None\<rparr>)"

datatype EngineVerdict =
    Crashed StoreError
  | Failed TaskAttemptRecord
  | Stopped TaskAttemptRecord
  | Produced Json Proposal

text \<open>The proposal of the cache, if it still parses and validates; other exceptions leave \<open>run\<close>.\<close>

definition cached_proposal :: "TaskContext \<Rightarrow> Engine \<Rightarrow> SemanticCache \<Rightarrow> StoreError + (Json \<times> Proposal) option" where
  "cached_proposal ctx e c =
     (case cache_get c (cache_signature (platform ctx) (spec ctx) (task_bundle ctx) e) of
        None \<Rightarrow> Inr None
      | Some cached \<Rightarrow>
          (case parse_proposal (spec ctx) cached of
             Inl _ \<Rightarrow> Inr None
           | Inr candidate \<Rightarrow>
               (case validate_candidate_proposal ctx candidate (base_snapshot ctx) (base_registry ctx) None of
                  None \<Rightarrow> Inr (Some (cached, candidate))
                | Some (Raised err) \<Rightarrow> Inl (StoreException err)
                | Some _ \<Rightarrow> Inr None)))"

definition workspace_failure :: "TaskContext \<Rightarrow> Engine \<Rightarrow> string \<Rightarrow> string \<Rightarrow> EngineVerdict" where
  "workspace_failure ctx e aid err =
     Failed (attempt_record (TaskBundle.task_id (task_bundle ctx)) aid e ENGINE_WORKSPACE_INTEGRITY_FAILURE False False None False [err] [])"

definition parsed_verdict :: "TaskContext \<Rightarrow> Engine \<Rightarrow> string \<Rightarrow> string \<Rightarrow> EngineVerdict" where
  "parsed_verdict ctx e aid output =
     (let fail = (\<lambda>record_outcome formatted schematic proposal_valid err.
            Failed (attempt_record (TaskBundle.task_id (task_bundle ctx)) aid e record_outcome formatted schematic proposal_valid False [err] [])) in
      case json_loads (platform ctx) output of
        Inl err \<Rightarrow> fail ENGINE_FORMAT_FAILURE False False None err
      | Inr (JObject members) \<Rightarrow>
          (case parse_proposal (spec ctx) (JObject members) of
             Inl err \<Rightarrow> fail ENGINE_SCHEMA_FAILURE True False None err
           | Inr candidate \<Rightarrow>
               (case validate_candidate_proposal ctx candidate (base_snapshot ctx) (base_registry ctx) None of
                  None \<Rightarrow> Produced (JObject members) candidate
                | Some (ProposalValidationError err) \<Rightarrow> fail ENGINE_PROPOSAL_VALIDATION_FAILURE True True (Some False) err
                | Some AssertionError \<Rightarrow> fail ENGINE_PROPOSAL_VALIDATION_FAILURE True True (Some False) []
                | Some (Raised err) \<Rightarrow> Crashed (StoreException err)))
      | Inr _ \<Rightarrow> fail ENGINE_FORMAT_FAILURE False False None ''proposal root must be a JSON object'')"

definition executed_verdict :: "TaskContext \<Rightarrow> Engine \<Rightarrow> string \<Rightarrow> Attempt \<Rightarrow> EngineVerdict" where
  "executed_verdict ctx e aid a =
     (let result = agent_result a; tid = TaskBundle.task_id (task_bundle ctx);
          unreported =
            (if \<not> execution_succeeded result
             then Failed (attempt_record tid aid e ENGINE_EXECUTION_FAILURE False False None False
                    [case execution_error result of Some (c # cs) \<Rightarrow> c # cs | _ \<Rightarrow> ''engine execution failed''] [])
             else case workspace_issue a of
               Some err \<Rightarrow> workspace_failure ctx e aid err
             | None \<Rightarrow> parsed_verdict ctx e aid (output_text result)) in
      case execution_report result of
        None \<Rightarrow> unreported
      | Some (primary, failures) \<Rightarrow>
          if primary = VALID_SCIENTIFIC_RESULT then unreported
          else (let record = attempt_record tid aid e primary False False None False
                      (if failures = [] then [AttemptOutcome_value primary] else map AttemptFailure.message failures) failures in
                if fallback_allowed primary then Failed record else Stopped record))"

definition attempt_verdict :: "TaskContext \<Rightarrow> Engine \<Rightarrow> string \<Rightarrow> Attempt \<Rightarrow> (Json \<times> Proposal) option \<Rightarrow> EngineVerdict" where
  "attempt_verdict ctx e aid a cached =
     (case cached of
        None \<Rightarrow> executed_verdict ctx e aid a
      | Some (raw, candidate) \<Rightarrow>
          (case workspace_issue a of Some err \<Rightarrow> workspace_failure ctx e aid err | None \<Rightarrow> Produced raw candidate))"

subsection \<open>The commit of a proposal\<close>

fun CrashPoint_value :: "CrashPoint \<Rightarrow> string" where
  "CrashPoint_value BEFORE_STAGED_VALIDATION = ''before_staged_validation''"
| "CrashPoint_value DURING_GENERATION_MATERIALIZATION = ''during_generation_materialization''"
| "CrashPoint_value BEFORE_COMPLETION_MARKER = ''before_completion_marker''"
| "CrashPoint_value AFTER_COMPLETION_MARKER_BEFORE_CURRENT = ''after_completion_marker_before_current''"
| "CrashPoint_value AFTER_CURRENT = ''after_current''"
| "CrashPoint_value BEFORE_RECEIPT_CONSTRUCTION = ''before_receipt_construction''"
| "CrashPoint_value AFTER_SCIENTIFIC_STAGING_BEFORE_RECEIPT_STAGING = ''after_scientific_staging_before_receipt_staging''"

fun error_text :: "StoreError \<Rightarrow> string" where
  "error_text (InjectedCrash p) = CrashPoint_value p"
| "error_text (StaleSnapshotError m) = m"
| "error_text (StagedRepositoryValidationError m) = m"
| "error_text (ContractError m) = m"
| "error_text (StoreOSError m) = m"
| "error_text (StoreValueError m) = m"
| "error_text (UnsafeRepositoryEntryError m) = m"
| "error_text (StoreException m) = m"

fun prepare_outcome :: "StoreError \<Rightarrow> AttemptOutcome" where
  "prepare_outcome (ContractError _) = CONTRACT_IMPLEMENTATION_FAILURE"
| "prepare_outcome _ = INTERNAL_RUNTIME_FAILURE"

fun commit_outcome :: "StoreError \<Rightarrow> AttemptOutcome" where
  "commit_outcome (StaleSnapshotError _) = STALE_SNAPSHOT"
| "commit_outcome (StagedRepositoryValidationError _) = CONTRACT_IMPLEMENTATION_FAILURE"
| "commit_outcome (ContractError _) = CONTRACT_IMPLEMENTATION_FAILURE"
| "commit_outcome (InjectedCrash _) = TRANSACTION_FAILURE"
| "commit_outcome (StoreOSError _) = TRANSACTION_FAILURE"
| "commit_outcome _ = INTERNAL_RUNTIME_FAILURE"

fun promotion_error :: "PromotionFailure \<Rightarrow> StoreError" where
  "promotion_error (AllocationFailed (RegistryError.ValueError e)) = StoreValueError e"
| "promotion_error (AllocationFailed (OverflowError e)) = StoreException e"
| "promotion_error (RecordRejected e) = StoreValueError e"
| "promotion_error (MissingKey k) = StoreException k"
| "promotion_error NoNext = StoreException []"

definition ordinary_plan :: "TaskSpec \<Rightarrow> Proposal \<Rightarrow> StoreError + CommitPlan" where
  "ordinary_plan sp p =
     (case prepare_promotion (promotion_handler sp) p of
        ContractImplementationError e \<Rightarrow> Inl (ContractError e)
      | Promotion f \<Rightarrow>
          Inr \<lparr>plan_promotion = (\<lambda>R r. case f R r of Inl e \<Rightarrow> Inl (promotion_error e) | Inr payload \<Rightarrow> Inr payload),
               plan_materializer = None\<rparr>)"

text \<open>The transition and the plan: a missing disposition handler is a \<open>ContractImplementationError\<close>.\<close>

definition prepare_plan :: "TaskContext \<Rightarrow> Proposal \<Rightarrow> StoreError + TransitionDecision \<times> CommitPlan" where
  "prepare_plan ctx p =
     (case interpret_disposition (disposition_handler (spec ctx)) p of
        Inl e \<Rightarrow> Inl (if disposition_handler (spec ctx) \<in> set DISPOSITION_HANDLERS then StoreException e else ContractError e)
      | Inr t \<Rightarrow>
          (case (case adapter ctx of Some a \<Rightarrow> prepare_commit a p (task_bundle ctx) | None \<Rightarrow> ordinary_plan (spec ctx) p) of
             Inl e \<Rightarrow> Inl e
           | Inr plan \<Rightarrow> Inr (t, plan)))"

definition build_task_receipt ::
  "TaskContext \<Rightarrow> Engine \<Rightarrow> string \<Rightarrow> Json \<Rightarrow> TransitionDecision \<Rightarrow> nat \<Rightarrow> RepositorySnapshot \<Rightarrow> PromotionPayload \<Rightarrow> AppliedTaskReceipt" where
  "build_task_receipt ctx e aid raw t next_gen locked payload =
     (let canon_objects = extract_canonical_object_receipts (dumps_of (platform ctx)) locked (snapshot payload) (payload_ids payload) in
      \<lparr>input_identity_key = identity_key ctx, semantic_task_key = task_key ctx,
       AppliedTaskReceipt.task_type = spec_type (spec ctx), AppliedTaskReceipt.task_spec_version = spec_version (spec ctx),
       proposal_hash = hash_json raw, proposal_payload = raw, semantic_fingerprint = fingerprint ctx,
       source_generation = int (TaskBundle.base_generation (task_bundle ctx)), committed_generation = int next_gen,
       AppliedTaskReceipt.canonical_objects = canon_objects, local_ref_map = payload_ids payload,
       recorded_transition = t\<lparr>canonicalized :=
         (case adapter ctx of None \<Rightarrow> True
          | Some a \<Rightarrow> canon_objects \<noteq> [] \<or> payload_ids payload \<noteq> [] \<or> canonicalizes_accepted_artifact a)\<rparr>,
       AppliedTaskReceipt.engine = engine_name e, AppliedTaskReceipt.engine_version = Engine.engine_version e,
       accepted_attempt_id = TaskBundle.task_id (task_bundle ctx) @ ''/'' @ aid\<rparr>)"

text \<open>The receipt that the factory left for the materializer was built for the snapshot the commit had loaded.\<close>

definition task_materializer ::
  "TaskContext \<Rightarrow> Engine \<Rightarrow> string \<Rightarrow> Json \<Rightarrow> TransitionDecision \<Rightarrow> StoreState
    \<Rightarrow> (nat \<Rightarrow> PromotionPayload \<Rightarrow> AppliedTaskReceipt \<Rightarrow> StoreError + (string \<times> string) list) \<Rightarrow> Materializer" where
  "task_materializer ctx e aid raw t s materializer g payload =
     (if \<not> enable_receipts (config ctx) then Inl (ContractError ''coupled materialization requires the accepted receipt'')
      else case load_generation (dumps_of (platform ctx)) (fst (recover s)) (TaskBundle.base_generation (task_bundle ctx)) of
        Inl err \<Rightarrow> Inl err
      | Inr (locked, _) \<Rightarrow> materializer g payload (build_task_receipt ctx e aid raw t g locked payload))"

definition task_commit_request ::
  "TaskContext \<Rightarrow> Engine \<Rightarrow> string \<Rightarrow> Attempt \<Rightarrow> Json \<Rightarrow> TransitionDecision \<Rightarrow> CommitPlan \<Rightarrow> StoreState \<Rightarrow> CommitRequest" where
  "task_commit_request ctx e aid a raw t plan s =
     \<lparr>CommitRequest.base_generation = TaskBundle.base_generation (task_bundle ctx),
      CommitRequest.dependencies = TaskBundle.dependencies (task_bundle ctx),
      CommitRequest.promotion = (\<lambda>R r. case require_fresh_resources (source_files a) (resources (task_bundle ctx)) of
          Some err \<Rightarrow> Inl (StaleSnapshotError err)
        | None \<Rightarrow> plan_promotion plan R r),
      receipt_factory =
        (if enable_receipts (config ctx) then Some (\<lambda>g R payload. Inr (build_task_receipt ctx e aid raw t g R payload)) else None),
      staging_materializer = map_option (task_materializer ctx e aid raw t s) (plan_materializer plan),
      crash_at = None, staging_suffix = attempt_suffix a, commit_time = attempt_time a,
      removal_order = directory_order a\<rparr>"

definition terminal_failure ::
  "TaskContext \<Rightarrow> Engine \<Rightarrow> string \<Rightarrow> AttemptOutcome \<Rightarrow> string \<Rightarrow> TaskAttemptRecord list \<Rightarrow> RuntimeResult" where
  "terminal_failure ctx e aid result_outcome msg records =
     failed_result result_outcome (TaskBundle.task_id (task_bundle ctx)) (Some (engine_name e))
       (records @ [attempt_record (TaskBundle.task_id (task_bundle ctx)) aid e result_outcome True True (Some True) False [msg] []]) None"

definition accepted_result ::
  "TaskContext \<Rightarrow> Engine \<Rightarrow> string \<Rightarrow> TransitionDecision \<Rightarrow> CommitResult \<Rightarrow> bool \<Rightarrow> TaskAttemptRecord list \<Rightarrow> RuntimeResult" where
  "accepted_result ctx e aid t c cache_hit records =
     \<lparr>RuntimeResult.outcome = VALID_SCIENTIFIC_RESULT, RuntimeResult.task_id = TaskBundle.task_id (task_bundle ctx),
      generation = Some (committed c), RuntimeResult.engine = Some (engine_name e),
      transition = Some (case commit_receipt c of Some receipt \<Rightarrow> recorded_transition receipt | None \<Rightarrow> t\<lparr>canonicalized := True\<rparr>),
      stale_rebuilds = 0,
      attempt_records = records @ [attempt_record (TaskBundle.task_id (task_bundle ctx)) aid e VALID_SCIENTIFIC_RESULT True True (Some True) True [] []],
      allocated_ids = commit_ids c, cache_reused = cache_hit, commit_performed = True, reused_generation = None,
      receipt_reused = False, receipt_rejection_reason = None\<rparr>"

definition commit_attempt ::
  "TaskContext \<Rightarrow> Engine \<Rightarrow> string \<Rightarrow> Attempt \<Rightarrow> Json \<Rightarrow> Proposal \<Rightarrow> TaskAttemptRecord list \<Rightarrow> KernelState \<Rightarrow> KernelState \<times> RuntimeResult" where
  "commit_attempt ctx e aid a raw p records s =
     (let signature = cache_signature (platform ctx) (spec ctx) (task_bundle ctx) e in
      case prepare_plan ctx p of
        Inl err \<Rightarrow> (s, terminal_failure ctx e aid (prepare_outcome err) (error_text err) records)
      | Inr (t, plan) \<Rightarrow>
          (let before = other_writers a (store s);
               (after, committed) = commit (dumps_of (platform ctx)) (task_commit_request ctx e aid a raw t plan before) before in
           case committed of
             Inl err \<Rightarrow> (s\<lparr>store := after\<rparr>, terminal_failure ctx e aid (commit_outcome err) (error_text err) records)
           | Inr c \<Rightarrow>
               (\<lparr>store = after, proposal_cache = cache_put signature raw (proposal_cache s)\<rparr>,
                accepted_result ctx e aid t c (cache_get (proposal_cache s) signature \<noteq> None) records)))"

subsection \<open>The loops over attempts, engines and rebuilds\<close>

datatype AttemptVerdict = Escaped StoreError | Done RuntimeResult | Retry TaskAttemptRecord

definition run_attempt ::
  "TaskContext \<Rightarrow> Engine \<Rightarrow> string \<Rightarrow> Attempt \<Rightarrow> TaskAttemptRecord list \<Rightarrow> KernelState \<Rightarrow> KernelState \<times> AttemptVerdict" where
  "run_attempt ctx e aid a records s =
     (let tid = TaskBundle.task_id (task_bundle ctx) in
      if \<not> workspace_intact a then (s, Done (failed_result INTERNAL_RUNTIME_FAILURE tid None records None))
      else case cached_proposal ctx e (proposal_cache s) of
        Inl err \<Rightarrow> (s, Escaped err)
      | Inr cached \<Rightarrow>
          (case attempt_verdict ctx e aid a cached of
             Crashed err \<Rightarrow> (s, Escaped err)
           | Failed record \<Rightarrow> (s, Retry record)
           | Stopped record \<Rightarrow>
               (s, Done (failed_result (TaskAttemptRecord.outcome record) tid (Some (engine_name e)) (records @ [record]) None))
           | Produced raw p \<Rightarrow> (case commit_attempt ctx e aid a raw p records s of (s', result) \<Rightarrow> (s', Done result))))"

datatype LoopVerdict = Ended "StoreError + RuntimeResult" | Exhausted "TaskAttemptRecord list" AttemptOutcome

text \<open>The attempts of one engine; the number of attempts so far counts the attempt directories.\<close>

fun attempts_of_engine ::
  "TaskContext \<Rightarrow> (nat \<Rightarrow> Attempt) \<Rightarrow> Engine \<Rightarrow> nat \<Rightarrow> TaskAttemptRecord list \<Rightarrow> AttemptOutcome \<Rightarrow> KernelState \<Rightarrow> KernelState \<times> LoopVerdict" where
  "attempts_of_engine ctx world e 0 records last_outcome s = (s, Exhausted records last_outcome)"
| "attempts_of_engine ctx world e (Suc left) records last_outcome s =
     (case run_attempt ctx e (attempt_name (length records) e) (world (length records)) records s of
        (s', Escaped err) \<Rightarrow> (s', Ended (Inl err))
      | (s', Done result) \<Rightarrow> (s', Ended (Inr result))
      | (s', Retry record) \<Rightarrow> attempts_of_engine ctx world e left (records @ [record]) (TaskAttemptRecord.outcome record) s')"

fun try_engines ::
  "TaskContext \<Rightarrow> (nat \<Rightarrow> Attempt) \<Rightarrow> Engine list \<Rightarrow> string option \<Rightarrow> TaskAttemptRecord list \<Rightarrow> AttemptOutcome \<Rightarrow> KernelState
    \<Rightarrow> KernelState \<times> (StoreError + RuntimeResult)" where
  "try_engines ctx world [] last_engine records last_outcome s =
     (s, Inr (failed_result last_outcome (TaskBundle.task_id (task_bundle ctx)) last_engine records None))"
| "try_engines ctx world (e # es) last_engine records last_outcome s =
     (case attempts_of_engine ctx world e (technical_attempts_per_engine (config ctx)) records last_outcome s of
        (s', Ended result) \<Rightarrow> (s', result)
      | (s', Exhausted records' last') \<Rightarrow>
          if \<not> fallback_allowed last'
          then (s', Inr (failed_result last' (TaskBundle.task_id (task_bundle ctx)) (Some (engine_name e)) records' None))
          else try_engines ctx world es (Some (engine_name e)) records' last' s')"

text \<open>
  The world of one task: what other processes do to the store before the task is created and before
  the receipt block takes the lock, the source files there, the bundle that \<open>TaskWorkspace.create\<close>
  builds for a generation, its dependencies and resource requests, whether that bundle is found intact,
  and the attempts.
\<close>

record TaskWorld =
  create_writers :: "StoreState \<Rightarrow> StoreState"
  built_bundle :: "nat \<Rightarrow> string strdict \<Rightarrow> TaskResourceRequest list \<Rightarrow> StoreError + TaskBundle"
  bundle_intact :: bool
  lock_writers :: "StoreState \<Rightarrow> StoreState"
  lock_files :: SourceFiles
  task_attempts :: "nat \<Rightarrow> Attempt"

record TaskBuilders =
  dependency_builder :: "RepositorySnapshot \<Rightarrow> StoreError + string list"
  resource_builder :: "RepositorySnapshot \<Rightarrow> StoreError + TaskResourceRequest list"

fun dependency_dict :: "Dumps \<Rightarrow> RepositorySnapshot \<Rightarrow> string list \<Rightarrow> string strdict \<Rightarrow> StoreError + string strdict" where
  "dependency_dict D R [] d = Inr d"
| "dependency_dict D R (key # ids) d =
     (case dependency_hash D R key of
        None \<Rightarrow> Inl (StoreException (''canonical dependency '' @ key @ '' does not exist''))
      | Some h \<Rightarrow> dependency_dict D R ids (AList.update key h d))"

definition create_task :: "Platform \<Rightarrow> TaskBuilders \<Rightarrow> TaskWorld \<Rightarrow> StoreState \<Rightarrow> StoreError + TaskBundle" where
  "create_task P builders world s =
     (case load_current (dumps_of P) s of
        Inl e \<Rightarrow> Inl e
      | Inr (g, R, _) \<Rightarrow>
          (case (case dependency_builder builders R of Inl e \<Rightarrow> Inl e | Inr keys \<Rightarrow> dependency_dict (dumps_of P) R keys []) of
             Inl e \<Rightarrow> Inl e
           | Inr deps \<Rightarrow>
               (case resource_builder builders R of
                  Inl e \<Rightarrow> Inl e
                | Inr requests \<Rightarrow>
                    if validate_resource_requests requests \<noteq> None then Inl (StoreValueError ''ResourceValidationError'')
                    else (case built_bundle world g deps requests of
                        Inl e \<Rightarrow> Inl e
                      | Inr b \<Rightarrow> Inr (b\<lparr>TaskBundle.base_generation := g, TaskBundle.dependencies := deps\<rparr>)))))"

definition task_context ::
  "Platform \<Rightarrow> RuntimeConfig \<Rightarrow> TaskSpec \<Rightarrow> Adapter option \<Rightarrow> TaskBundle \<Rightarrow> Engine list \<Rightarrow> RepositorySnapshot \<Rightarrow> CanonicalIdRegistry
    \<Rightarrow> TaskContext" where
  "task_context P cfg sp ad b engines R r =
     (let ikey = compute_input_identity_key (task_identity cfg sp b engines); fp = task_fingerprint P sp ad in
      \<lparr>platform = P, config = cfg, spec = sp, adapter = ad, task_bundle = b, base_snapshot = R, base_registry = r,
       fingerprint = fp, identity_key = ikey, task_key = compute_semantic_task_key ikey fp\<rparr>)"

definition pre_execution_issue :: "TaskContext \<Rightarrow> string option \<Rightarrow> RuntimeResult option" where
  "pre_execution_issue ctx why =
     (let tid = TaskBundle.task_id (task_bundle ctx) in
      case adapter ctx of
        None \<Rightarrow> None
      | Some a \<Rightarrow>
          (case validate_pre_execution a (task_bundle ctx) of
             None \<Rightarrow> None
           | Some (StaleSnapshotError _) \<Rightarrow> Some (failed_result STALE_SNAPSHOT tid None [] why)
           | Some err \<Rightarrow>
               Some (failed_result INTERNAL_RUNTIME_FAILURE tid None []
                 (Some (''COUPLED_PRE_EXECUTION_VALIDATION_FAILED:'' @ error_text err)))))"

definition run_task_once ::
  "Platform \<Rightarrow> RuntimeConfig \<Rightarrow> TaskSpec \<Rightarrow> Adapter option \<Rightarrow> TaskBundle \<Rightarrow> TaskWorld \<Rightarrow> Engine list \<Rightarrow> KernelState
    \<Rightarrow> KernelState \<times> (StoreError + RuntimeResult)" where
  "run_task_once P cfg sp ad b world engines s =
     (if \<not> bundle_intact world
      then (s, Inr (failed_result INTERNAL_RUNTIME_FAILURE (TaskBundle.task_id b) None [] None))
      else case load_generation (dumps_of P) (store s) (TaskBundle.base_generation b) of
        Inl e \<Rightarrow> (s, Inl e)
      | Inr (R, r) \<Rightarrow>
          (let allowed = take (1 + max_fallback_engines cfg) engines;
               ctx = task_context P cfg sp ad b allowed R r in
           case try_reuse ctx (lock_writers world) (lock_files world) (store s) of
             (st, Inl e) \<Rightarrow> (s\<lparr>store := st\<rparr>, Inl e)
           | (st, Inr (ReturnResult result)) \<Rightarrow> (s\<lparr>store := st\<rparr>, Inr result)
           | (st, Inr (GoOn why)) \<Rightarrow>
               (case pre_execution_issue ctx why of
                  Some result \<Rightarrow> (s\<lparr>store := st\<rparr>, Inr result)
                | None \<Rightarrow> try_engines ctx (task_attempts world) allowed None [] ENGINE_EXECUTION_FAILURE (s\<lparr>store := st\<rparr>))))"

definition stops_rebuilding :: "RuntimeConfig \<Rightarrow> Adapter option \<Rightarrow> nat \<Rightarrow> RuntimeResult \<Rightarrow> bool" where
  "stops_rebuilding cfg ad rebuilds result \<longleftrightarrow>
     RuntimeResult.outcome result \<noteq> STALE_SNAPSHOT \<or>
     (case ad of Some a \<Rightarrow> \<not> rebuild_on_stale a | None \<Rightarrow> False) \<or> max_stale_rebuilds cfg \<le> rebuilds"

text \<open>The \<open>while True\<close> loop: \<open>worlds\<close> gives the world of each task that is built.\<close>

function run_loop ::
  "Platform \<Rightarrow> RuntimeConfig \<Rightarrow> TaskSpec \<Rightarrow> Adapter option \<Rightarrow> TaskBuilders \<Rightarrow> Engine list \<Rightarrow> (nat \<Rightarrow> TaskWorld) \<Rightarrow> nat
    \<Rightarrow> TaskAttemptRecord list \<Rightarrow> KernelState \<Rightarrow> KernelState \<times> (StoreError + RuntimeResult)" where
  "run_loop P cfg sp ad builders engines worlds rebuilds all_records s0 =
     (let s = s0\<lparr>store := create_writers (worlds rebuilds) (store s0)\<rparr> in
      case create_task P builders (worlds rebuilds) (store s) of
        Inl e \<Rightarrow> (s, Inl e)
      | Inr b \<Rightarrow>
          (case run_task_once P cfg sp ad b (worlds rebuilds) engines s of
             (s', Inl e) \<Rightarrow> (s', Inl e)
           | (s', Inr once) \<Rightarrow>
               (let records = all_records @ attempt_records once;
                    result = once\<lparr>attempt_records := records, stale_rebuilds := rebuilds\<rparr> in
                if stops_rebuilding cfg ad rebuilds result then (s', Inr result)
                else run_loop P cfg sp ad builders engines worlds (Suc rebuilds) records s')))"
  by pat_completeness auto
termination
  by (relation "measure (\<lambda>(P, cfg, sp, ad, builders, engines, worlds, rebuilds, rs, s). max_stale_rebuilds cfg - rebuilds)")
     (auto simp: stops_rebuilding_def)

declare run_loop.simps [simp del]

definition run ::
  "Platform \<Rightarrow> RuntimeConfig \<Rightarrow> TaskSpec \<Rightarrow> Adapter option \<Rightarrow> TaskBuilders \<Rightarrow> Engine list \<Rightarrow> (nat \<Rightarrow> TaskWorld) \<Rightarrow> KernelState
    \<Rightarrow> KernelState \<times> (StoreError + RuntimeResult)" where
  "run P cfg sp ad builders engines worlds s =
     (if \<not> preflight cfg (spec_type sp) sp ad then (s, Inr (failed_result TASK_TYPE_NOT_IMPLEMENTED [] None [] None))
      else if engines = [] then (s, Inl (StoreValueError ''at least one engine is required''))
      else run_loop P cfg sp ad builders engines worlds 0 [] s)"

end
