(* ===== verification/VR_Specs.thy ===== *)
theory VR_Specs
  imports VR_Kernel
begin

section \<open>The tasks and their contracts (\<open>runtime/specs.py\<close>)\<close>

text \<open>
  The table \<open>TASK_SPECS\<close> with the functions it names: what canonical records a task depends on, which
  files it takes with it, and the input its engine sees. A Python set of identifiers is a list here:
  only membership is asked, and \<open>_typed_dependency_keys\<close> sorts and removes duplicates. The models of the
  proposals are pydantic's parsers, a parameter of the table.
\<close>

subsection \<open>Dependency keys\<close>

definition typed_dependency_keys :: "string \<Rightarrow> string list \<Rightarrow> string list" where
  "typed_dependency_keys model identifiers = map (\<lambda>i. model @ '':'' @ i) (sort (fromkeys identifiers))"

definition ordered_unique_dependencies :: "string list list \<Rightarrow> string list" where
  "ordered_unique_dependencies groups = fromkeys (concat groups)"

definition no_dependencies :: "string list" where "no_dependencies = []"

definition corpus_challenger_dependencies :: "CorpusChallengerInvocation \<Rightarrow> string list" where
  "corpus_challenger_dependencies i = map (\<lambda>p. ''Paper:'' @ p) (CorpusChallengerInvocation.paper_ids i)"

definition generate_candidate_claims_dependencies :: "GenerateCandidateClaimsInvocation \<Rightarrow> string list" where
  "generate_candidate_claims_dependencies i =
     map (\<lambda>t. ''ThemeRecord:'' @ t) (GenerateCandidateClaimsInvocation.existing_theme_ids i)"

definition claim_list_dependencies :: "GenerateRetrievalQueriesInvocation \<Rightarrow> string list" where
  "claim_list_dependencies i = map (\<lambda>c. ''CandidateClaim:'' @ c) (GenerateRetrievalQueriesInvocation.claim_ids i)"

definition assess_evidence_dependencies :: "AssessEvidenceInvocation \<Rightarrow> RepositorySnapshot \<Rightarrow> string list" where
  "assess_evidence_dependencies i R =
     (let span_ids = canonical_span_refs i;
          spans = filter (\<lambda>span. RetrievedSpan.span_id span \<in> set span_ids) (retrieved_spans R);
          query_ids = map (\<lambda>span. RetrievalMetadata.query_id (retrieval span)) spans;
          paper_ids = map RetrievedSpan.paper_id spans in
      ordered_unique_dependencies
        [typed_dependency_keys ''CandidateClaim'' [AssessEvidenceIdentity.claim_id i],
         typed_dependency_keys ''RetrievalQuery'' [AssessEvidenceIdentity.query_id i],
         typed_dependency_keys ''RetrievedSpan'' span_ids,
         typed_dependency_keys ''RetrievalDisposition'' span_ids,
         typed_dependency_keys ''RetrievalQuery'' query_ids,
         typed_dependency_keys ''Paper'' paper_ids])"

definition evidence_context_dependencies :: "RepositorySnapshot \<Rightarrow> string list \<Rightarrow> string list \<Rightarrow> string list" where
  "evidence_context_dependencies R selected_evidence_ids given_papers =
     (let evidence = filter (\<lambda>item. evidence_id item \<in> set selected_evidence_ids) (evidence_records R);
          span_ids = map retrieved_span_id evidence;
          spans = filter (\<lambda>item. RetrievedSpan.span_id item \<in> set span_ids) (retrieved_spans R);
          query_ids = map (\<lambda>item. RetrievalMetadata.query_id (retrieval item)) spans;
          source_papers = given_papers @ map EvidenceRecord.paper_id evidence @ map RetrievedSpan.paper_id spans in
      ordered_unique_dependencies
        [typed_dependency_keys ''Paper'' source_papers,
         typed_dependency_keys ''EvidenceRecord'' selected_evidence_ids,
         typed_dependency_keys ''RetrievedSpan'' span_ids,
         typed_dependency_keys ''RetrievalDisposition'' span_ids,
         typed_dependency_keys ''RetrievalQuery'' query_ids])"

definition claim_evidence_context_dependencies :: "RepositorySnapshot \<Rightarrow> string list \<Rightarrow> string list" where
  "claim_evidence_context_dependencies R selected_cpe_ids =
     (let cpes = filter (\<lambda>item. ClaimPaperEvidence.claim_paper_evidence_id item \<in> set selected_cpe_ids) (claim_paper_evidence R);
          evidence_ids = concat (map ClaimPaperEvidence.evidence_ids cpes);
          paper_ids = map ClaimPaperEvidence.paper_id cpes in
      ordered_unique_dependencies
        [typed_dependency_keys ''ClaimPaperEvidence'' selected_cpe_ids,
         evidence_context_dependencies R evidence_ids paper_ids])"

definition indexed :: "RepositorySnapshot \<Rightarrow> string \<Rightarrow> bool" where
  "indexed R key \<longleftrightarrow> map_of (object_index R) key \<noteq> None"

definition aggregate_paper_evidence_dependencies ::
  "AggregatePaperEvidenceInput \<Rightarrow> RepositorySnapshot \<Rightarrow> StoreError + string list" where
  "aggregate_paper_evidence_dependencies i R =
     (let cid = AggregatePaperEvidenceInput.claim_id i; pid = AggregatePaperEvidenceInput.paper_id i;
          evidence_ids = AggregatePaperEvidenceInput.evidence_ids i;
          dependencies = ordered_unique_dependencies
            [typed_dependency_keys ''CandidateClaim'' [cid], typed_dependency_keys ''Paper'' [pid],
             typed_dependency_keys ''EvidenceRecord'' evidence_ids] in
      if \<not> distinct evidence_ids then Inl (StoreValueError ''aggregate evidence_ids must not contain duplicates'')
      else if \<not> list_all (indexed R) dependencies then Inr dependencies
      else if set evidence_ids \<noteq> evidence_id ` {e \<in> set (evidence_records R). EvidenceRecord.claim_id e = cid \<and> EvidenceRecord.paper_id e = pid}
        then Inl (StoreValueError ''aggregate evidence_ids must exactly equal all current EvidenceRecord IDs for the invocation claim and paper'')
      else Inr (ordered_unique_dependencies
        [typed_dependency_keys ''CandidateClaim'' [cid], evidence_context_dependencies R evidence_ids [pid]]))"

definition assess_claim_dependencies :: "AssessClaimInput \<Rightarrow> RepositorySnapshot \<Rightarrow> StoreError + string list" where
  "assess_claim_dependencies i R =
     (let cid = AssessClaimInput.claim_id i; cpe_ids = AssessClaimInput.claim_paper_evidence_ids i;
          dependencies = ordered_unique_dependencies
            [typed_dependency_keys ''CandidateClaim'' [cid], typed_dependency_keys ''ClaimPaperEvidence'' cpe_ids] in
      if \<not> distinct cpe_ids then Inl (StoreValueError ''claim_paper_evidence_ids must not contain duplicates'')
      else if \<not> list_all (indexed R) dependencies then Inr dependencies
      else if set cpe_ids \<noteq> ClaimPaperEvidence.claim_paper_evidence_id ` {cpe \<in> set (claim_paper_evidence R). ClaimPaperEvidence.claim_id cpe = cid}
        then Inl (StoreValueError ''claim_paper_evidence_ids must exactly equal all current CPE IDs for the invocation claim'')
      else Inr (ordered_unique_dependencies
        [typed_dependency_keys ''CandidateClaim'' [cid], claim_evidence_context_dependencies R cpe_ids]))"

definition post_assessment_claim_dependencies :: "string \<Rightarrow> RepositorySnapshot \<Rightarrow> string list" where
  "post_assessment_claim_dependencies cid R =
     (let cpe_ids = map ClaimPaperEvidence.claim_paper_evidence_id
            (filter (\<lambda>cpe. ClaimPaperEvidence.claim_id cpe = cid) (claim_paper_evidence R)) in
      ordered_unique_dependencies
        [typed_dependency_keys ''CandidateClaim'' [cid], typed_dependency_keys ''ClaimAssessment'' [cid],
         claim_evidence_context_dependencies R cpe_ids])"

definition proposition_source_dependencies :: "'a PropositionSourceSelection_scheme \<Rightarrow> RepositorySnapshot \<Rightarrow> string list" where
  "proposition_source_dependencies i R =
     (let packet_ids = claim_packet_ids i;
          packets = filter (\<lambda>item. ClaimPacket.claim_id item \<in> set packet_ids) (claim_packets R);
          claim_ids = map ClaimPacket.claim_id packets;
          claims = filter (\<lambda>item. CandidateClaim.claim_id item \<in> set claim_ids) (candidate_claims R);
          theme_ids = map CandidateClaim.theme_id claims;
          cpe_ids = concat (map ClaimPacket.claim_paper_evidence_ids packets);
          fact_ids = PropositionSourceSelection.corpus_fact_ids i;
          facts = filter (\<lambda>item. corpus_fact_id item \<in> set fact_ids) (corpus_facts R);
          corpus_paper_ids = concat (map source_paper_ids facts) in
      ordered_unique_dependencies
        [typed_dependency_keys ''ClaimPacket'' packet_ids, typed_dependency_keys ''CandidateClaim'' claim_ids,
         typed_dependency_keys ''ThemeRecord'' theme_ids, typed_dependency_keys ''ClaimAssessment'' claim_ids,
         typed_dependency_keys ''FinalClaimValidation'' claim_ids, claim_evidence_context_dependencies R cpe_ids,
         typed_dependency_keys ''CorpusFact'' fact_ids, typed_dependency_keys ''Paper'' corpus_paper_ids,
         typed_dependency_keys ''ReviewProcessFact'' (PropositionSourceSelection.process_fact_ids i)])"

text \<open>The audits of the selected propositions, one each and passing.\<close>

fun passing_audit_ids :: "RepositorySnapshot \<Rightarrow> string list \<Rightarrow> StoreError + string list" where
  "passing_audit_ids R [] = Inr []"
| "passing_audit_ids R (pid # pids) =
     (case filter (\<lambda>audit. SemanticAuditResult.target_id audit = pid) (semantic_audits R) of
        [audit] \<Rightarrow>
          if derive_semantic_audit_disposition audit \<noteq> AuditDisposition.PASS
          then Inl (StoreValueError (''proposition '' @ pid @ '' does not have a PASS semantic audit''))
          else (case passing_audit_ids R pids of
              Inl e \<Rightarrow> Inl e
            | Inr ids \<Rightarrow> Inr (SemanticAuditResult.audit_id audit # ids))
      | _ \<Rightarrow> Inl (StoreValueError (''proposition '' @ pid @ '' must have exactly one semantic audit'')))"

definition passing_proposition_dependencies :: "string list \<Rightarrow> RepositorySnapshot \<Rightarrow> StoreError + string list" where
  "passing_proposition_dependencies selected_ids R =
     (let proposition_keys = typed_dependency_keys ''PropositionRecord'' selected_ids in
      if \<not> list_all (indexed R) proposition_keys then Inr proposition_keys
      else (case passing_audit_ids R (sort (fromkeys selected_ids)) of
          Inl e \<Rightarrow> Inl e
        | Inr audit_ids \<Rightarrow>
            Inr (ordered_unique_dependencies [proposition_keys, typed_dependency_keys ''SemanticAuditResult'' audit_ids])))"

subsection \<open>Invocations\<close>

datatype TaskInvocation =
    ParseTask ParseDeepResearchInvocation
  | ChallengeTask CorpusChallengerInvocation
  | CandidatesTask GenerateCandidateClaimsInvocation
  | QueriesTask GenerateRetrievalQueriesInvocation
  | AssessEvidenceTask AssessEvidenceInvocation
  | AggregateTask AggregatePaperEvidenceInput
  | AssessClaimTask AssessClaimInput
  | ReviseClaimTask ReviseClaimInput
  | FinalClaimTask ValidateFinalClaimInvocation
  | PropositionsTask PropositionSourceSelection
  | AuditPropositionTask AuditPropositionInvocation
  | RenderTask RenderProseInput
  | AuditSentenceTask AuditRenderedSentenceInvocation

fun invocation_type :: "TaskInvocation \<Rightarrow> TaskType" where
  "invocation_type (ParseTask _) = PARSE_DEEP_RESEARCH"
| "invocation_type (ChallengeTask _) = CORPUS_CHALLENGER"
| "invocation_type (CandidatesTask _) = GENERATE_CANDIDATE_CLAIMS"
| "invocation_type (QueriesTask _) = GENERATE_RETRIEVAL_QUERIES"
| "invocation_type (AssessEvidenceTask _) = ASSESS_EVIDENCE"
| "invocation_type (AggregateTask _) = AGGREGATE_PAPER_EVIDENCE"
| "invocation_type (AssessClaimTask _) = ASSESS_CLAIM"
| "invocation_type (ReviseClaimTask _) = REVISE_CLAIM"
| "invocation_type (FinalClaimTask _) = VALIDATE_FINAL_CLAIM"
| "invocation_type (PropositionsTask _) = GENERATE_PROPOSITIONS"
| "invocation_type (AuditPropositionTask _) = AUDIT_PROPOSITION"
| "invocation_type (RenderTask _) = RENDER_PROSE"
| "invocation_type (AuditSentenceTask _) = AUDIT_RENDERED_SENTENCE"

fun task_dependencies :: "TaskInvocation \<Rightarrow> RepositorySnapshot \<Rightarrow> StoreError + string list" where
  "task_dependencies (ParseTask i) R = Inr no_dependencies"
| "task_dependencies (ChallengeTask i) R = Inr (corpus_challenger_dependencies i)"
| "task_dependencies (CandidatesTask i) R = Inr (generate_candidate_claims_dependencies i)"
| "task_dependencies (QueriesTask i) R = Inr (claim_list_dependencies i)"
| "task_dependencies (AssessEvidenceTask i) R = Inr (assess_evidence_dependencies i R)"
| "task_dependencies (AggregateTask i) R = aggregate_paper_evidence_dependencies i R"
| "task_dependencies (AssessClaimTask i) R = assess_claim_dependencies i R"
| "task_dependencies (ReviseClaimTask i) R = Inr (post_assessment_claim_dependencies (ReviseClaimInput.claim_id i) R)"
| "task_dependencies (FinalClaimTask i) R = Inr (post_assessment_claim_dependencies (ValidateFinalClaimInvocation.claim_id i) R)"
| "task_dependencies (PropositionsTask i) R = Inr (proposition_source_dependencies i R)"
| "task_dependencies (AuditPropositionTask i) R = Inr (proposition_source_dependencies i R)"
| "task_dependencies (RenderTask i) R = passing_proposition_dependencies (RenderProseInput.proposition_ids i) R"
| "task_dependencies (AuditSentenceTask i) R =
     passing_proposition_dependencies (AcceptedRenderedSentenceDraftIdentity.source_proposition_ids i) R"

subsection \<open>Resources\<close>

definition json_resource :: "string \<Rightarrow> string \<Rightarrow> PyPath \<Rightarrow> TaskResourceRequest" where
  "json_resource rid name file =
     \<lparr>TaskResourceRequest.resource_id = rid, logical_name = name, TaskResourceRequest.source_path = file,
      media_type = ''application/json''\<rparr>"

definition paper_resource :: "nat \<Rightarrow> string \<Rightarrow> PyPath \<Rightarrow> TaskResourceRequest" where
  "paper_resource ordinal pid file =
     \<lparr>TaskResourceRequest.resource_id = ''RES'' @ pad_str 4 ordinal, logical_name = pid @ ''.md'',
      TaskResourceRequest.source_path = file, media_type = ''text/markdown''\<rparr>"

definition corpus_challenger_resources :: "CorpusChallengerInvocation \<Rightarrow> StoreError + TaskResourceRequest list" where
  "corpus_challenger_resources i =
     (let ids = CorpusChallengerInvocation.paper_ids i; paths = paper_resource_paths i in
      case CorpusChallengerInvocation.discovery_artifact i of
        None \<Rightarrow>
          if paths \<noteq> [] \<or> CorpusChallengerInvocation.paper_source_hashes i \<noteq> []
          then Inl (StoreValueError ''legacy corpus challenger cannot carry partial strict resources'') else Inr []
      | Some artifact \<Rightarrow>
          if length paths < length ids then Inl (StoreValueError ''zip() argument 2 is shorter than argument 1'')
          else if length ids < length paths then Inl (StoreValueError ''zip() argument 2 is longer than argument 1'')
          else Inr (json_resource ''RES0001'' ''accepted_discovery_parse.json'' (artifact_path artifact) #
                 map (\<lambda>(ordinal, pid, file). paper_resource ordinal pid file) (zip [2..<2 + length ids] (zip ids paths))))"

definition generate_candidate_claims_resources :: "GenerateCandidateClaimsInvocation \<Rightarrow> StoreError + TaskResourceRequest list" where
  "generate_candidate_claims_resources i =
     (case (GenerateCandidateClaimsInvocation.discovery_artifact i, GenerateCandidateClaimsInvocation.challenge_artifact i) of
        (None, _) \<Rightarrow> Inr []
      | (Some _, None) \<Rightarrow> Inl (StoreException ''AssertionError'')
      | (Some discovery, Some challenge) \<Rightarrow>
          Inr [json_resource ''RES0001'' ''accepted_discovery_parse.json'' (artifact_path discovery),
               json_resource ''RES0002'' ''accepted_corpus_challenge.json'' (artifact_path challenge)])"

fun task_resources :: "TaskInvocation \<Rightarrow> StoreError + TaskResourceRequest list" where
  "task_resources (ParseTask i) =
     (case build_resource_requests (document_paths i) ''text/markdown'' of
        Inl _ \<Rightarrow> Inl (StoreValueError ''ResourceValidationError'')
      | Inr requests \<Rightarrow> Inr requests)"
| "task_resources (ChallengeTask i) = corpus_challenger_resources i"
| "task_resources (CandidatesTask i) = generate_candidate_claims_resources i"
| "task_resources (AssessEvidenceTask i) = Inr [json_resource ''RES0001'' ''retrieval_ledger.json'' (retrieval_ledger_path i)]"
| "task_resources (AuditPropositionTask i) =
     Inr [json_resource ''RES0001'' ''accepted_proposition_draft.json'' (draft_artifact_path i)]"
| "task_resources (AuditSentenceTask i) =
     Inr [json_resource ''RES0001'' ''accepted_rendered_sentence_draft.json'' (sentence_artifact_path i)]"
| "task_resources _ = Inr []"

subsection \<open>Engine inputs\<close>

datatype EngineInput =
    ParseInput ParseDeepResearchInput
  | ChallengeInput CorpusChallengerInput
  | CandidatesInput GenerateCandidateClaimsInput
  | QueriesInput GenerateRetrievalQueriesInput
  | AssessEvidenceEngineInput AssessEvidenceInput
  | AggregateInput AggregatePaperEvidenceInput
  | AssessClaimEngineInput AssessClaimInput
  | ReviseClaimEngineInput ReviseClaimInput
  | FinalClaimInput ValidateFinalClaimInvocation
  | PropositionsInput PropositionSourceSelection
  | AuditPropositionEngineInput AuditPropositionInput
  | RenderInput RenderProseInput
  | AuditSentenceInput AuditRenderedSentenceInput

text \<open>Constructing a pydantic model; a \<open>ValidationError\<close> is a \<open>ValueError\<close>.\<close>

definition built :: "bool \<Rightarrow> EngineInput \<Rightarrow> StoreError + EngineInput" where
  "built valid x = (if valid then Inr x else Inl (StoreValueError ''ValidationError''))"

definition artifact_input :: "AcceptedDiscoveryArtifactInvocation \<Rightarrow> SnapshottedResource \<Rightarrow> AcceptedDiscoveryArtifactInput" where
  "artifact_input artifact resource =
     \<lparr>AcceptedDiscoveryArtifactInput.artifact_kind = AcceptedDiscoveryArtifactInvocation.artifact_kind artifact,
      AcceptedDiscoveryArtifactInput.owner_generation = AcceptedDiscoveryArtifactInvocation.owner_generation artifact,
      AcceptedDiscoveryArtifactInput.source_generation = AcceptedDiscoveryArtifactInvocation.source_generation artifact,
      AcceptedDiscoveryArtifactInput.task_id = AcceptedDiscoveryArtifactInvocation.task_id artifact,
      AcceptedDiscoveryArtifactInput.semantic_task_key = AcceptedDiscoveryArtifactInvocation.semantic_task_key artifact,
      AcceptedDiscoveryArtifactInput.artifact_hash = AcceptedDiscoveryArtifactInvocation.artifact_hash artifact,
      AcceptedDiscoveryArtifactInput.resource_id = SnapshottedResource.resource_id resource\<rparr>"

definition corpus_challenger_engine_input ::
  "CorpusChallengerInvocation \<Rightarrow> SnapshottedResource list \<Rightarrow> StoreError + EngineInput" where
  "corpus_challenger_engine_input i snapshots =
     (let input = (\<lambda>artifact ids hashes. \<lparr>CorpusChallengerInput.topic = CorpusChallengerInvocation.topic i,
            CorpusChallengerInput.paper_ids = CorpusChallengerInvocation.paper_ids i,
            CorpusChallengerInput.discovery_artifact = artifact, paper_resource_ids = ids,
            CorpusChallengerInput.paper_source_hashes = hashes\<rparr>) in
      case CorpusChallengerInvocation.discovery_artifact i of
        None \<Rightarrow>
          if snapshots \<noteq> [] then Inl (StoreValueError ''legacy corpus challenger received unexpected resources'')
          else built (valid_CorpusChallengerInput (input None [] [])) (ChallengeInput (input None [] []))
      | Some artifact \<Rightarrow>
          (case snapshots of
             parse_resource # paper_resources \<Rightarrow>
               if length paper_resources \<noteq> length (CorpusChallengerInvocation.paper_ids i)
               then Inl (StoreValueError ''strict corpus challenger requires one parse artifact and every paper'')
               else if SnapshottedResource.resource_id parse_resource \<noteq> ''RES0001'' \<or>
                 SnapshottedResource.media_type parse_resource \<noteq> ''application/json'' \<or>
                 list_ex (\<lambda>item. SnapshottedResource.media_type item \<noteq> ''text/markdown'') paper_resources
               then Inl (StoreValueError ''corpus challenger resource layout is invalid'')
               else (let x = input (Some (artifact_input artifact parse_resource))
                        (map SnapshottedResource.resource_id paper_resources) (CorpusChallengerInvocation.paper_source_hashes i)
                 in built (valid_CorpusChallengerInput x) (ChallengeInput x))
           | [] \<Rightarrow> Inl (StoreValueError ''strict corpus challenger requires one parse artifact and every paper'')))"

definition generate_candidate_claims_engine_input ::
  "GenerateCandidateClaimsInvocation \<Rightarrow> SnapshottedResource list \<Rightarrow> StoreError + EngineInput" where
  "generate_candidate_claims_engine_input i snapshots =
     (let input = (\<lambda>discovery challenge. \<lparr>GenerateCandidateClaimsInput.topic = GenerateCandidateClaimsInvocation.topic i,
            GenerateCandidateClaimsInput.existing_theme_ids = GenerateCandidateClaimsInvocation.existing_theme_ids i,
            GenerateCandidateClaimsInput.discovery_artifact = discovery,
            GenerateCandidateClaimsInput.challenge_artifact = challenge\<rparr>) in
      case (GenerateCandidateClaimsInvocation.discovery_artifact i, GenerateCandidateClaimsInvocation.challenge_artifact i) of
        (None, _) \<Rightarrow>
          if snapshots \<noteq> [] then Inl (StoreValueError ''legacy candidate generation received unexpected resources'')
          else built (valid_GenerateCandidateClaimsInput (input None None)) (CandidatesInput (input None None))
      | (Some _, None) \<Rightarrow> Inl (StoreException ''AssertionError'')
      | (Some discovery, Some challenge) \<Rightarrow>
          if map SnapshottedResource.resource_id snapshots \<noteq> [''RES0001'', ''RES0002''] \<or>
            list_ex (\<lambda>item. SnapshottedResource.media_type item \<noteq> ''application/json'') snapshots
          then Inl (StoreValueError ''candidate generation requires the exact parse and challenge resources'')
          else (let x = input (Some (artifact_input discovery (snapshots ! 0))) (Some (artifact_input challenge (snapshots ! 1)))
            in built (valid_GenerateCandidateClaimsInput x) (CandidatesInput x)))"

definition assess_evidence_engine_input :: "AssessEvidenceInvocation \<Rightarrow> SnapshottedResource list \<Rightarrow> StoreError + EngineInput" where
  "assess_evidence_engine_input i snapshots =
     (case snapshots of
        [ledger] \<Rightarrow>
          if SnapshottedResource.resource_id ledger = ''RES0001'' \<and> SnapshottedResource.media_type ledger = ''application/json''
          then (let x = \<lparr>AssessEvidenceIdentity.source_generation = AssessEvidenceIdentity.source_generation i,
                   AssessEvidenceIdentity.claim_id = AssessEvidenceIdentity.claim_id i,
                   AssessEvidenceIdentity.query_id = AssessEvidenceIdentity.query_id i, candidate_refs = candidate_refs i,
                   canonical_span_refs = canonical_span_refs i,
                   retrieval_ledger_resource_id = SnapshottedResource.resource_id ledger\<rparr>
            in built (valid_AssessEvidenceInput x) (AssessEvidenceEngineInput x))
          else Inl (StoreValueError ''AssessEvidenceInput requires exactly the RES0001 JSON retrieval ledger'')
      | _ \<Rightarrow> Inl (StoreValueError ''AssessEvidenceInput requires exactly the RES0001 JSON retrieval ledger''))"

definition require_draft_resource :: "string \<Rightarrow> SnapshottedResource list \<Rightarrow> string \<Rightarrow> StoreError + SnapshottedResource" where
  "require_draft_resource draft_hash snapshots name =
     (case snapshots of
        [draft] \<Rightarrow>
          if SnapshottedResource.resource_id draft \<noteq> ''RES0001'' \<or> SnapshottedResource.logical_name draft \<noteq> name \<or>
            SnapshottedResource.media_type draft \<noteq> ''application/json''
          then Inl (StoreValueError (''draft input requires exactly RES0001 '' @ name @ '' JSON resource''))
          else if content_hash draft \<noteq> draft_hash
          then Inl (StoreValueError ''draft resource hash differs from draft_artifact_hash'')
          else Inr draft
      | _ \<Rightarrow> Inl (StoreValueError (''draft input requires exactly RES0001 '' @ name @ '' JSON resource'')))"

definition audit_proposition_engine_input :: "AuditPropositionInvocation \<Rightarrow> SnapshottedResource list \<Rightarrow> StoreError + EngineInput" where
  "audit_proposition_engine_input i snapshots =
     (case require_draft_resource (draft_artifact_hash i) snapshots ''accepted_proposition_draft.json'' of
        Inl e \<Rightarrow> Inl e
      | Inr resource \<Rightarrow>
          (let x = \<lparr>claim_packet_ids = claim_packet_ids i,
              PropositionSourceSelection.corpus_fact_ids = PropositionSourceSelection.corpus_fact_ids i,
              PropositionSourceSelection.process_fact_ids = PropositionSourceSelection.process_fact_ids i,
              draft_owner_generation = draft_owner_generation i, draft_source_generation = draft_source_generation i,
              draft_task_id = draft_task_id i, draft_artifact_hash = draft_artifact_hash i, draft_local_ref = draft_local_ref i,
              draft_resource_id = SnapshottedResource.resource_id resource\<rparr>
           in built (valid_AuditPropositionInput x) (AuditPropositionEngineInput x)))"

definition audit_rendered_sentence_engine_input ::
  "AuditRenderedSentenceInvocation \<Rightarrow> SnapshottedResource list \<Rightarrow> StoreError + EngineInput" where
  "audit_rendered_sentence_engine_input i snapshots =
     (case require_draft_resource (sentence_artifact_hash i) snapshots ''accepted_rendered_sentence_draft.json'' of
        Inl e \<Rightarrow> Inl e
      | Inr resource \<Rightarrow>
          (let x = \<lparr>sentence_owner_generation = sentence_owner_generation i,
              sentence_source_generation = sentence_source_generation i, sentence_task_id = sentence_task_id i,
              sentence_artifact_hash = sentence_artifact_hash i, sentence_local_ref = sentence_local_ref i,
              AcceptedRenderedSentenceDraftIdentity.source_proposition_ids =
                AcceptedRenderedSentenceDraftIdentity.source_proposition_ids i,
              sentence_resource_id = SnapshottedResource.resource_id resource\<rparr>
           in built (valid_AuditRenderedSentenceInput x) (AuditSentenceInput x)))"

text \<open>\<open>_mirror_engine_input\<close>: the same fields, and no resources.\<close>

definition mirror_engine_input :: "string \<Rightarrow> bool \<Rightarrow> EngineInput \<Rightarrow> SnapshottedResource list \<Rightarrow> StoreError + EngineInput" where
  "mirror_engine_input name valid x snapshots =
     (if snapshots \<noteq> [] then Inl (StoreValueError (name @ '' does not consume snapshotted resources'')) else built valid x)"

fun engine_input :: "TaskInvocation \<Rightarrow> SnapshottedResource list \<Rightarrow> StoreError + EngineInput" where
  "engine_input (ParseTask i) snapshots =
     (let x = \<lparr>ParseDeepResearchInput.topic = ParseDeepResearchInvocation.topic i,
         document_resource_ids = map SnapshottedResource.resource_id snapshots\<rparr>
      in built (valid_ParseDeepResearchInput x) (ParseInput x))"
| "engine_input (ChallengeTask i) snapshots = corpus_challenger_engine_input i snapshots"
| "engine_input (CandidatesTask i) snapshots = generate_candidate_claims_engine_input i snapshots"
| "engine_input (QueriesTask i) snapshots =
     (let x = \<lparr>GenerateRetrievalQueriesInput.claim_ids = GenerateRetrievalQueriesInvocation.claim_ids i\<rparr>
      in mirror_engine_input ''GenerateRetrievalQueriesInput'' (valid_GenerateRetrievalQueriesInput x) (QueriesInput x) snapshots)"
| "engine_input (AssessEvidenceTask i) snapshots = assess_evidence_engine_input i snapshots"
| "engine_input (AggregateTask i) snapshots =
     mirror_engine_input ''AggregatePaperEvidenceInput'' (valid_AggregatePaperEvidenceInput i) (AggregateInput i) snapshots"
| "engine_input (AssessClaimTask i) snapshots =
     mirror_engine_input ''AssessClaimInput'' (valid_AssessClaimInput i) (AssessClaimEngineInput i) snapshots"
| "engine_input (ReviseClaimTask i) snapshots =
     mirror_engine_input ''ReviseClaimInput'' (valid_ReviseClaimInput i) (ReviseClaimEngineInput i) snapshots"
| "engine_input (FinalClaimTask i) snapshots =
     mirror_engine_input ''ValidateFinalClaimInput'' (valid_ValidateFinalClaimInvocation i) (FinalClaimInput i) snapshots"
| "engine_input (PropositionsTask i) snapshots =
     mirror_engine_input ''GeneratePropositionsInput'' (valid_PropositionSourceSelection i) (PropositionsInput i) snapshots"
| "engine_input (AuditPropositionTask i) snapshots = audit_proposition_engine_input i snapshots"
| "engine_input (RenderTask i) snapshots =
     mirror_engine_input ''RenderProseInput'' (valid_RenderProseInput i) (RenderInput i) snapshots"
| "engine_input (AuditSentenceTask i) snapshots = audit_rendered_sentence_engine_input i snapshots"

subsection \<open>The table\<close>

fun promotion_handler_of :: "TaskType \<Rightarrow> string" where
  "promotion_handler_of PARSE_DEEP_RESEARCH = ''promote_discovery''"
| "promotion_handler_of CORPUS_CHALLENGER = ''promote_discovery''"
| "promotion_handler_of GENERATE_CANDIDATE_CLAIMS = ''promote_discovery''"
| "promotion_handler_of GENERATE_RETRIEVAL_QUERIES = ''promote_retrieval_queries''"
| "promotion_handler_of ASSESS_EVIDENCE = ''promote_evidence''"
| "promotion_handler_of AGGREGATE_PAPER_EVIDENCE = ''promote_claim_paper_evidence''"
| "promotion_handler_of ASSESS_CLAIM = ''promote_claim_assessment''"
| "promotion_handler_of REVISE_CLAIM = ''promote_revised_claim''"
| "promotion_handler_of VALIDATE_FINAL_CLAIM = ''promote_final_claim_validation''"
| "promotion_handler_of GENERATE_PROPOSITIONS = ''accept_proposition_drafts''"
| "promotion_handler_of AUDIT_PROPOSITION = ''promote_proposition_with_audit''"
| "promotion_handler_of RENDER_PROSE = ''accept_rendered_sentence_drafts''"
| "promotion_handler_of AUDIT_RENDERED_SENTENCE = ''promote_rendered_sentence_with_audit''"

fun disposition_handler_of :: "TaskType \<Rightarrow> string" where
  "disposition_handler_of ASSESS_CLAIM = ''interpret_claim_assessment''"
| "disposition_handler_of VALIDATE_FINAL_CLAIM = ''interpret_final_claim_validation''"
| "disposition_handler_of AUDIT_PROPOSITION = ''interpret_semantic_audit''"
| "disposition_handler_of AUDIT_RENDERED_SENTENCE = ''interpret_rendered_sentence_audit''"
| "disposition_handler_of _ = ''interpret_positive''"

definition version_1_tasks :: "TaskType list" where
  "version_1_tasks = [GENERATE_RETRIEVAL_QUERIES, AGGREGATE_PAPER_EVIDENCE, ASSESS_CLAIM, REVISE_CLAIM, VALIDATE_FINAL_CLAIM]"

definition spec_version_of :: "TaskType \<Rightarrow> string" where
  "spec_version_of t = (if t \<in> set version_1_tasks then ''1'' else ''2'')"

definition all_task_types :: "TaskType list" where
  "all_task_types = [PARSE_DEEP_RESEARCH, CORPUS_CHALLENGER, GENERATE_CANDIDATE_CLAIMS, GENERATE_RETRIEVAL_QUERIES,
     ASSESS_EVIDENCE, AGGREGATE_PAPER_EVIDENCE, ASSESS_CLAIM, REVISE_CLAIM, VALIDATE_FINAL_CLAIM, GENERATE_PROPOSITIONS,
     AUDIT_PROPOSITION, RENDER_PROSE, AUDIT_RENDERED_SENTENCE]"

text \<open>Pydantic's parsers of the proposal classes, and the problems with the prompt files.\<close>

record SpecModels =
  proposal_parser :: "TaskType \<Rightarrow> Json \<Rightarrow> string + Proposal"
  spec_problems :: "TaskType \<Rightarrow> string list"

fun validation_context :: "TaskInvocation \<Rightarrow> Invocation" where
  "validation_context (QueriesTask i) = QueriesInvocation i"
| "validation_context (FinalClaimTask i) = FinalClaimInvocation i"
| "validation_context _ = OtherInvocation"

definition TASK_SPECS :: "SpecModels \<Rightarrow> TaskType \<Rightarrow> Invocation option \<Rightarrow> TaskSpec" where
  "TASK_SPECS M t invocation =
     \<lparr>spec_type = t, spec_version = spec_version_of t, parse_proposal = proposal_parser M t,
      promotion_handler = promotion_handler_of t, disposition_handler = disposition_handler_of t,
      contract_problems = spec_problems M t, task_invocation = invocation\<rparr>"

definition task_spec :: "SpecModels \<Rightarrow> TaskInvocation \<Rightarrow> TaskSpec" where
  "task_spec M i = TASK_SPECS M (invocation_type i) (Some (validation_context i))"

definition task_builders :: "TaskInvocation \<Rightarrow> TaskBuilders" where
  "task_builders i = \<lparr>dependency_builder = task_dependencies i, resource_builder = (\<lambda>_. task_resources i)\<rparr>"

definition executable_task_types :: "SpecModels \<Rightarrow> TaskType list" where
  "executable_task_types M = filter (\<lambda>t. validate_task_spec_executable (TASK_SPECS M t None) [] = []) all_task_types"

end
