(* ===== verification/VR_Tasks.thy ===== *)
theory VR_Tasks
  imports VR_Specs "HOL-Library.Sublist"
begin

section \<open>Task workspaces (\<open>runtime/tasks.py\<close>)\<close>

text \<open>
  \<open>TaskWorkspace\<close>: the allocation of task directories, the snapshots of resources, the bundle that an
  engine sees with the private hashes it is checked against, and that check. The bundle is the
  dictionary of its files, from the POSIX path below \<open>bundle/\<close> to the content; the private and the
  attempt files, which only repeat values of the model, are left out. What pydantic prints for an
  object, the prompt files and the JSON schemas are arguments (\<open>TaskTexts\<close>), and so is what the file
  system answers for the sources of the resources (\<open>SourceTree\<close>).
\<close>

subsection \<open>Task directories\<close>

text \<open>The names of the entries of \<open>work/tasks\<close> that match \<open>TASK([0-9]+)\<close> count.\<close>

definition task_number :: "string \<Rightarrow> nat option" where
  "task_number name =
     (let number = removeprefix ''TASK'' name in
      if starts_with ''TASK'' name \<and> number \<noteq> [] \<and> list_all is_digit number then Some (str_nat number) else None)"

definition allocate_task_id :: "string list \<Rightarrow> string" where
  "allocate_task_id names =
     ''TASK'' @ pad_str 4 (fold (\<lambda>name maximum. case task_number name of None \<Rightarrow> maximum | Some n \<Rightarrow> max maximum n) names 0 + 1)"

subsection \<open>JSON with an indent of two\<close>

definition line_break :: "nat \<Rightarrow> string" where
  "line_break level = CHR 0x0A # replicate (2 * level) (CHR '' '')"

fun pretty_json :: "nat \<Rightarrow> Json \<Rightarrow> string" where
  "pretty_json level (JArray []) = ''[]''"
| "pretty_json level (JArray (v # vs)) =
     CHR ''['' # line_break (level + 1) @
       join_with (CHR '','' # line_break (level + 1)) (map (pretty_json (level + 1)) (v # vs)) @ line_break level @ '']''"
| "pretty_json level (JObject []) = ''{}''"
| "pretty_json level (JObject (kv # kvs)) =
     CHR ''{'' # line_break (level + 1) @
       join_with (CHR '','' # line_break (level + 1))
         (map (\<lambda>(k, d). json_string k @ '': '' @ d) (sort_key fst (map (\<lambda>(k, v). (k, pretty_json (level + 1) v)) (kv # kvs)))) @
       line_break level @ ''}''"
| "pretty_json level v = dumps v"

text \<open>The files the runtime writes end with a line break.\<close>

definition json_file :: "Json \<Rightarrow> string" where
  "json_file v = pretty_json 0 v @ [CHR 0x0A]"

subsection \<open>Snapshots of resources\<close>

record Stat =
  st_dev :: nat
  st_ino :: nat
  st_size :: nat
  st_mtime_ns :: int

text \<open>One reading of a source: its chunks, the open file before and after, and what the path names afterwards.\<close>

record SourceRead =
  read_chunks :: "string list"
  stat_before :: Stat
  stat_after :: Stat
  stat_path :: "Stat option"

record SourceTree =
  strict_path :: "PyPath \<Rightarrow> PyPath option"
  regular_file :: "PyPath \<Rightarrow> bool"
  root_path :: "PyPath \<Rightarrow> PyPath"
  source_read :: "PyPath \<Rightarrow> SourceRead option"

datatype TaskError =
    ResourceError ResourceValidationError
  | SourceMissing PyPath string
  | SourceNotRegular PyPath string
  | SourceEscapesRoots PyPath string
  | DestinationNotRelative PyPath
  | DestinationHasDots PyPath
  | SourceUnreadable PyPath
  | SnapshotSourceChanged string PyPath
  | EngineInputError StoreError
  | PromptUnreadable TaskType
  | UnsafeDependency string
  | MissingDependency string

text \<open>Below a new bundle directory there are no links, so a path that passes both checks stays inside.\<close>

definition bundle_file_path :: "PyPath \<Rightarrow> TaskError + string" where
  "bundle_file_path p =
     (if anchored p then Inl (DestinationNotRelative p)
      else if has_dotdot p then Inl (DestinationHasDots p)
      else Inr (join_with ''/'' (segments p)))"

definition inside :: "PyPath \<Rightarrow> PyPath \<Rightarrow> bool" where
  "inside root p \<longleftrightarrow> anchored root = anchored p \<and> prefix (segments root) (segments p)"

definition resolve_source :: "SourceTree \<Rightarrow> PyPath list \<Rightarrow> TaskResourceRequest \<Rightarrow> TaskError + PyPath" where
  "resolve_source F allowed_source_roots request =
     (let src = TaskResourceRequest.source_path request; rid = TaskResourceRequest.resource_id request in
      case strict_path F src of
        None \<Rightarrow> Inl (SourceMissing src rid)
      | Some resolved \<Rightarrow>
          if \<not> regular_file F resolved then Inl (SourceNotRegular resolved rid)
          else if \<not> list_ex (\<lambda>root. inside (root_path F root) resolved) allowed_source_roots
            then Inl (SourceEscapesRoots resolved rid)
          else Inr resolved)"

definition verify_source_stability :: "SourceRead \<Rightarrow> bool" where
  "verify_source_stability r \<longleftrightarrow>
     stat_after r = stat_before r \<and>
     (case stat_path r of
        None \<Rightarrow> False
      | Some current \<Rightarrow> (st_dev current, st_ino current) = (st_dev (stat_after r), st_ino (stat_after r)))"

text \<open>A resource with its private provenance, and its bytes as the file that \<open>path\<close> is in the bundle.\<close>

record Snapshot =
  snapshot_resource_of :: SnapshottedResource
  snapshot_provenance :: ResourceProvenance
  snapshot_file :: "string \<times> string"

definition snapshot_resource :: "SourceTree \<Rightarrow> PyPath list \<Rightarrow> TaskResourceRequest \<Rightarrow> TaskError + Snapshot" where
  "snapshot_resource F allowed_source_roots request =
     (let rid = TaskResourceRequest.resource_id request in
      case resource_destination rid (TaskResourceRequest.media_type request) of
        Inl e \<Rightarrow> Inl (ResourceError e)
      | Inr destination_relative \<Rightarrow>
          (case bundle_file_path destination_relative of
             Inl e \<Rightarrow> Inl e
           | Inr destination \<Rightarrow>
               (case resolve_source F allowed_source_roots request of
                  Inl e \<Rightarrow> Inl e
                | Inr resolved_source \<Rightarrow>
                    (case source_read F resolved_source of
                       None \<Rightarrow> Inl (SourceUnreadable resolved_source)
                     | Some r \<Rightarrow>
                         if \<not> verify_source_stability r then Inl (SnapshotSourceChanged rid resolved_source)
                         else (let content = concat (read_chunks r); digest = hash_bytes content in
                           Inr \<lparr>snapshot_resource_of =
                               \<lparr>SnapshottedResource.resource_id = rid, logical_name = TaskResourceRequest.logical_name request,
                                snapshot_relative_path = destination_relative,
                                SnapshottedResource.media_type = TaskResourceRequest.media_type request,
                                size_bytes = int (length content), content_hash = digest\<rparr>,
                             snapshot_provenance =
                               \<lparr>ResourceProvenance.resource_id = rid, ResourceProvenance.source_path = resolved_source,
                                source_hash_at_snapshot = digest, snapshot_hash = digest\<rparr>,
                             snapshot_file = (destination, content)\<rparr>)))))"

fun snapshot_resources :: "SourceTree \<Rightarrow> PyPath list \<Rightarrow> TaskResourceRequest list \<Rightarrow> TaskError + Snapshot list" where
  "snapshot_resources F roots [] = Inr []"
| "snapshot_resources F roots (request # requests) =
     (case snapshot_resource F roots request of
        Inl e \<Rightarrow> Inl e
      | Inr x \<Rightarrow> (case snapshot_resources F roots requests of Inl e \<Rightarrow> Inl e | Inr xs \<Rightarrow> Inr (x # xs)))"

subsection \<open>The bundle\<close>

text \<open>
  The texts that make up a bundle beside the resources: the prompt of a task type, if its file can be
  read, the schemas of its input and proposal models, and what \<open>model_dump_json(indent=2)\<close> prints.
\<close>

record TaskTexts =
  prompt_text :: "TaskType \<Rightarrow> string option"
  input_model_schema :: "TaskType \<Rightarrow> Json"
  proposal_model_schema :: "TaskType \<Rightarrow> Json"
  input_text :: "EngineInput \<Rightarrow> string"
  object_text :: "CanonicalObject \<Rightarrow> string"

type_synonym BundleFiles = "string strdict"

definition BUNDLE_PROTOCOL_SECTION :: string where
  "BUNDLE_PROTOCOL_SECTION =
     join_with [CHR 0x0A]
      [[], ''---'', [], ''# Bundle protocol'', [],
       ''- Read `input/input.json`.'',
       ''- Read resources only through the resource entries in `bundle_manifest.json`.'',
       ''- Return exactly one JSON object conforming to `contracts/proposal.schema.json`.'',
       ''- Do not emit Markdown fences or explanatory text.'',
       ''- Do not allocate canonical scientific IDs.'', []]"

definition safe_key_char :: "char \<Rightarrow> bool" where
  "safe_key_char c \<longleftrightarrow> is_alpha c \<or> is_digit c \<or> c = CHR ''_'' \<or> c = CHR '':'' \<or> c = CHR ''-''"

definition safe_name :: "string \<Rightarrow> string" where
  "safe_name key = concat (map (\<lambda>c. if c = CHR '':'' then ''__'' else [c]) key)"

definition dependency_path :: "string \<Rightarrow> string" where
  "dependency_path key = ''input/dependencies/'' @ safe_name key @ ''.json''"

definition prompt_version_of :: "TaskType \<Rightarrow> string" where
  "prompt_version_of t = (if t \<in> set version_1_tasks then ''1'' else ''2'')"

text \<open>The hash of a file of the bundle; the files that are asked for have been written.\<close>

definition file_hash :: "BundleFiles \<Rightarrow> string \<Rightarrow> string" where
  "file_hash files p = hash_file (dict_get files p [])"

definition path_and_hash :: "BundleFiles \<Rightarrow> string \<Rightarrow> (string \<times> Json) list" where
  "path_and_hash files p = [(''path'', JString p), (''sha256'', JString (file_hash files p))]"

text \<open>The loop over the dependencies, with the files and the \<open>dependency_entries\<close> so far.\<close>

fun write_dependencies ::
  "TaskTexts \<Rightarrow> RepositorySnapshot \<Rightarrow> string list \<Rightarrow> BundleFiles \<Rightarrow> Json list \<Rightarrow> TaskError + BundleFiles \<times> Json list" where
  "write_dependencies T R [] files dependency_entries = Inr (files, dependency_entries)"
| "write_dependencies T R (key # ids) files dependency_entries =
     (if key = [] \<or> \<not> list_all safe_key_char key then Inl (UnsafeDependency key)
      else case map_of (object_index R) key of
        None \<Rightarrow> Inl (MissingDependency key)
      | Some v \<Rightarrow>
          (let written = AList.update (dependency_path key) (object_text T v @ [CHR 0x0A]) files in
           write_dependencies T R ids written
             (dependency_entries @ [JObject ((''key'', JString key) # path_and_hash written (dependency_path key))])))"

definition resource_entry :: "SnapshottedResource \<Rightarrow> Json" where
  "resource_entry r =
     JObject [(''resource_id'', JString (SnapshottedResource.resource_id r)), (''logical_name'', JString (SnapshottedResource.logical_name r)),
       (''path'', JString (join_with ''/'' (segments (snapshot_relative_path r)))), (''media_type'', JString (SnapshottedResource.media_type r)),
       (''size_bytes'', JInt (size_bytes r)), (''sha256'', JString (content_hash r))]"

definition bundle_manifest :: "TaskType \<Rightarrow> BundleFiles \<Rightarrow> Json list \<Rightarrow> SnapshottedResource list \<Rightarrow> Json" where
  "bundle_manifest t files dependency_entries snapshotted =
     JObject [(''task_type'', JString (TaskType_value t)), (''task_spec_version'', JString (spec_version_of t)),
       (''prompt_version'', JString (prompt_version_of t)),
       (''instructions'', JObject (path_and_hash files ''instructions.md'')),
       (''schemas'', JObject [(''input'', JObject (path_and_hash files ''contracts/input.schema.json'')),
          (''proposal'', JObject (path_and_hash files ''contracts/proposal.schema.json''))]),
       (''engine_input'', JObject (path_and_hash files ''input/input.json'')),
       (''dependencies'', JArray dependency_entries), (''resources'', JArray (map resource_entry snapshotted))]"

subsection \<open>Directory trees\<close>

type_synonym Tree = "(string \<times> TreeEntry) list"

text \<open>The directories that \<open>create\<close> makes, and those above its files.\<close>

definition bundle_tree :: "BundleFiles \<Rightarrow> Tree" where
  "bundle_tree files =
     map (\<lambda>(p, content). (p, FileEntry content)) files @
     map (\<lambda>d. (d, DirectoryEntry))
       (fromkeys ([''contracts'', ''input'', ''input/dependencies'', ''input/resources''] @ concat (map (parent_dirs \<circ> fst) files)))"

text \<open>\<open>sorted(root.rglob("*"))\<close> compares paths part by part.\<close>

definition sorted_tree :: "Tree \<Rightarrow> Tree" where
  "sorted_tree t = sort_key (split_on (CHR ''/'') \<circ> fst) t"

definition tree_below :: "string \<Rightarrow> Tree \<Rightarrow> Tree" where
  "tree_below d t =
     map (\<lambda>(p, e). (removeprefix (d @ ''/'') p, e)) (filter (\<lambda>(p, e). starts_with (d @ ''/'') p) t)"

fun tree_file :: "string \<times> TreeEntry \<Rightarrow> (string \<times> string) option" where
  "tree_file (p, FileEntry content) = Some (p, hash_file content)"
| "tree_file _ = None"

definition file_hashes :: "Tree \<Rightarrow> string strdict" where
  "file_hashes t = List.map_filter tree_file t"

definition last_part :: "string \<Rightarrow> string" where
  "last_part p = last (split_on (CHR ''/'') p)"

subsection \<open>Creating a task\<close>

record TaskProvenance = TaskBundle +
  task_type :: TaskType
  task_spec_version :: string
  prompt_version :: string
  input_snapshot_hash :: string
  expected_immutable_files :: "string strdict"
  resource_records :: "SnapshottedResource list"

definition context_roots :: "PyPath \<Rightarrow> PyPath list \<Rightarrow> PyPath list" where
  "context_roots project_root allowed_source_roots =
     (if allowed_source_roots = [] then [project_root] else allowed_source_roots)"

definition expected_immutable :: "BundleFiles \<Rightarrow> string strdict" where
  "expected_immutable files =
     filter (\<lambda>(p, _). last_part p \<noteq> ''bundle_manifest.json'') (file_hashes (sorted_tree (bundle_tree files)))"

definition build_provenance ::
  "string \<Rightarrow> TaskType \<Rightarrow> nat \<Rightarrow> string strdict \<Rightarrow> BundleFiles \<Rightarrow> Snapshot list \<Rightarrow> TaskProvenance" where
  "build_provenance tid t g deps files snaps =
     (let expected = expected_immutable files; hash_of = (\<lambda>p. dict_get expected p []) in
      \<lparr>TaskBundle.task_id = tid, TaskBundle.base_generation = g, TaskBundle.dependencies = deps,
       TaskBundle.instructions_hash = hash_of ''instructions.md'', TaskBundle.input_schema_hash = hash_of ''contracts/input.schema.json'',
       TaskBundle.proposal_schema_hash = hash_of ''contracts/proposal.schema.json'', TaskBundle.engine_input_hash = hash_of ''input/input.json'',
       expected_bundle_manifest_hash = file_hash files ''bundle_manifest.json'', TaskBundle.resources = map snapshot_provenance snaps,
       TaskProvenance.task_type = t, task_spec_version = spec_version_of t, prompt_version = prompt_version_of t,
       input_snapshot_hash = hash_tree (sorted_tree (tree_below ''input'' (bundle_tree files))), expected_immutable_files = expected,
       resource_records = map snapshot_resource_of snaps\<rparr>)"

text \<open>The files that do not depend on the snapshot of the repository, in the order they are written.\<close>

definition fixed_files :: "TaskTexts \<Rightarrow> TaskType \<Rightarrow> string \<Rightarrow> EngineInput \<Rightarrow> BundleFiles" where
  "fixed_files T t prompt x =
     [(''input/input.json'', input_text T x @ [CHR 0x0A]), (''instructions.md'', prompt @ BUNDLE_PROTOCOL_SECTION),
      (''contracts/input.schema.json'', json_file (input_model_schema T t)),
      (''contracts/proposal.schema.json'', json_file (proposal_model_schema T t))]"

definition first_files :: "TaskTexts \<Rightarrow> TaskType \<Rightarrow> string \<Rightarrow> EngineInput \<Rightarrow> Snapshot list \<Rightarrow> BundleFiles" where
  "first_files T t prompt x snaps =
     fold (\<lambda>(p, content). AList.update p content) (map snapshot_file snaps @ fixed_files T t prompt x) []"

definition create_bundle ::
  "TaskTexts \<Rightarrow> SourceTree \<Rightarrow> PyPath list \<Rightarrow> TaskInvocation \<Rightarrow> RepositorySnapshot \<Rightarrow> string \<Rightarrow> nat \<Rightarrow> string strdict
    \<Rightarrow> TaskResourceRequest list \<Rightarrow> TaskError + BundleFiles \<times> TaskProvenance" where
  "create_bundle T F roots i R tid g deps requests =
     (let t = invocation_type i in
      case validate_resource_requests requests of
        Some e \<Rightarrow> Inl (ResourceError e)
      | None \<Rightarrow>
     (case snapshot_resources F roots requests of
        Inl e \<Rightarrow> Inl e
      | Inr snaps \<Rightarrow>
     (case engine_input i (map snapshot_resource_of snaps) of
        Inl e \<Rightarrow> Inl (EngineInputError e)
      | Inr x \<Rightarrow>
     (case prompt_text T t of
        None \<Rightarrow> Inl (PromptUnreadable t)
      | Some prompt \<Rightarrow>
     (case write_dependencies T R (map fst deps) (first_files T t prompt x snaps) [] of
        Inl e \<Rightarrow> Inl e
      | Inr (files, dependency_entries) \<Rightarrow>
          (let complete = AList.update ''bundle_manifest.json''
                 (json_file (bundle_manifest t files dependency_entries (map snapshot_resource_of snaps))) files in
           Inr (complete, build_provenance tid t g deps complete snaps)))))))"

subsection \<open>Integrity\<close>

text \<open>A \<open>BundleIntegrityError\<close>: a link, or the paths that are missing, extra and changed.\<close>

datatype IntegrityError =
    UnexpectedSymlink string
  | IntegrityMismatch "string list" "string list" "string list"

definition expected_immutable_map :: "TaskProvenance \<Rightarrow> string strdict" where
  "expected_immutable_map prov =
     AList.update ''bundle_manifest.json'' (expected_bundle_manifest_hash prov) (expected_immutable_files prov)"

fun is_symlink :: "string \<times> TreeEntry \<Rightarrow> bool" where
  "is_symlink (_, SymlinkEntry _) = True"
| "is_symlink _ = False"

definition verify_immutable_tree :: "Tree \<Rightarrow> string strdict \<Rightarrow> IntegrityError option" where
  "verify_immutable_tree t expected =
     (let actual = file_hashes (sorted_tree t);
          missing = sort (filter (\<lambda>p. p \<notin> set (map fst actual)) (map fst expected));
          extra = sort (filter (\<lambda>p. p \<notin> set (map fst expected)) (map fst actual));
          changed = sort (filter (\<lambda>p. p \<in> set (map fst actual) \<and> map_of expected p \<noteq> map_of actual p) (map fst expected)) in
      case find is_symlink (sorted_tree t) of
        Some (p, _) \<Rightarrow> Some (UnexpectedSymlink p)
      | None \<Rightarrow> if missing \<noteq> [] \<or> extra \<noteq> [] \<or> changed \<noteq> [] then Some (IntegrityMismatch missing extra changed) else None)"

text \<open>\<open>verify_bundle\<close> on the master bundle and \<open>verify_workspace\<close> on the copy of an attempt.\<close>

definition verify_workspace :: "TaskProvenance \<Rightarrow> Tree \<Rightarrow> IntegrityError option" where
  "verify_workspace prov t = verify_immutable_tree t (expected_immutable_map prov)"

subsection \<open>The workspace in the kernel\<close>

fun task_error :: "TaskError \<Rightarrow> StoreError" where
  "task_error (ResourceError _) = StoreValueError ''ResourceValidationError''"
| "task_error (SourceMissing _ _) = StoreValueError ''ResourceValidationError''"
| "task_error (SourceNotRegular _ _) = StoreValueError ''ResourceValidationError''"
| "task_error (SourceEscapesRoots _ _) = StoreValueError ''ResourceValidationError''"
| "task_error (DestinationNotRelative _) = StoreValueError ''ResourceValidationError''"
| "task_error (DestinationHasDots _) = StoreValueError ''ResourceValidationError''"
| "task_error (SourceUnreadable _) = StoreOSError []"
| "task_error (SnapshotSourceChanged _ _) = StoreException ''SNAPSHOT_SOURCE_CHANGED''"
| "task_error (EngineInputError e) = e"
| "task_error (PromptUnreadable _) = StoreOSError []"
| "task_error (UnsafeDependency key) = StoreValueError (''unsafe dependency identifier '' @ key)"
| "task_error (MissingDependency key) = StoreException (''canonical dependency '' @ key @ '' does not exist'')"

text \<open>What \<open>create_task\<close> of the kernel gets: the bundle that is built on what it passes.\<close>

definition workspace_create ::
  "TaskTexts \<Rightarrow> SourceTree \<Rightarrow> PyPath list \<Rightarrow> TaskInvocation \<Rightarrow> RepositorySnapshot \<Rightarrow> string list \<Rightarrow> nat \<Rightarrow> string strdict
    \<Rightarrow> TaskResourceRequest list \<Rightarrow> StoreError + TaskBundle" where
  "workspace_create T F roots i R names g deps requests =
     (case create_bundle T F roots i R (allocate_task_id names) g deps requests of
        Inl e \<Rightarrow> Inl (task_error e)
      | Inr (_, prov) \<Rightarrow> Inr (TaskBundle.truncate prov))"

end
