(* ===== verification/VR_Kernel_Runs.thy ===== *)
theory VR_Kernel_Runs
  imports VR_Kernel VR_Store_Spec
begin

section \<open>What a run reports and what it does to the store\<close>

text \<open>
  A run is bounded, accepts at most one attempt, the last one, and changes the repository exactly
  when it says so. The lemmas go up the loops: one attempt, the attempts of an engine, the engines,
  one task, the rebuilds.
\<close>

subsection \<open>One attempt\<close>

definition rejected_attempt :: "TaskAttemptRecord \<Rightarrow> bool" where
  "rejected_attempt r \<longleftrightarrow> fallback_allowed (TaskAttemptRecord.outcome r) \<and> \<not> accepted_attempt r"

lemma not_fallback [simp]:
  "\<not> fallback_allowed VALID_SCIENTIFIC_RESULT" "\<not> fallback_allowed STALE_SNAPSHOT"
  "\<not> fallback_allowed CONTRACT_IMPLEMENTATION_FAILURE" "\<not> fallback_allowed INTERNAL_RUNTIME_FAILURE"
  "\<not> fallback_allowed TRANSACTION_FAILURE"
  by (simp_all add: fallback_allowed_def FALLBACK_OUTCOMES_def)

lemma fallback [simp]:
  "fallback_allowed ENGINE_EXECUTION_FAILURE" "fallback_allowed ENGINE_FORMAT_FAILURE" "fallback_allowed ENGINE_SCHEMA_FAILURE"
  "fallback_allowed ENGINE_PROPOSAL_VALIDATION_FAILURE" "fallback_allowed ENGINE_WORKSPACE_INTEGRITY_FAILURE"
  by (simp_all add: fallback_allowed_def FALLBACK_OUTCOMES_def)

lemma attempt_record_fields [simp]:
  "TaskAttemptRecord.outcome (attempt_record tid aid e x f sc pv acc errs fs) = x"
  "accepted_attempt (attempt_record tid aid e x f sc pv acc errs fs) = acc"
  by (simp_all add: attempt_record_def)

lemma failed_result_fields [simp]:
  "RuntimeResult.outcome (failed_result x tid e rs why) = x" "attempt_records (failed_result x tid e rs why) = rs"
  "commit_performed (failed_result x tid e rs why) = False" "receipt_reused (failed_result x tid e rs why) = False"
  "RuntimeResult.generation (failed_result x tid e rs why) = None" "transition (failed_result x tid e rs why) = None"
  by (simp_all add: failed_result_def)

lemma workspace_failure_rejects: "workspace_failure ctx e aid err = Failed r \<Longrightarrow> rejected_attempt r"
  by (auto simp: workspace_failure_def rejected_attempt_def)

lemma workspace_failure_not_Stopped [simp]: "workspace_failure ctx e aid err \<noteq> Stopped r"
  by (simp add: workspace_failure_def)

lemma parsed_verdict_rejects:
  "parsed_verdict ctx e aid out = Failed r \<Longrightarrow> rejected_attempt r" "parsed_verdict ctx e aid out \<noteq> Stopped r"
  by (auto simp: parsed_verdict_def rejected_attempt_def Let_def split: sum.splits Json.splits option.splits ProposalFailure.splits)

lemma executed_verdict_rejects:
  "executed_verdict ctx e aid a = Failed r \<Longrightarrow> rejected_attempt r"
  "executed_verdict ctx e aid a = Stopped r \<Longrightarrow> \<not> accepted_attempt r \<and> TaskAttemptRecord.outcome r \<noteq> VALID_SCIENTIFIC_RESULT"
  by (auto simp: executed_verdict_def Let_def rejected_attempt_def workspace_failure_def
      dest: parsed_verdict_rejects(1) simp: parsed_verdict_rejects(2) split: option.splits if_splits prod.splits)

lemma attempt_verdict_rejects:
  "attempt_verdict ctx e aid a c = Failed r \<Longrightarrow> rejected_attempt r"
  "attempt_verdict ctx e aid a c = Stopped r \<Longrightarrow> \<not> accepted_attempt r \<and> TaskAttemptRecord.outcome r \<noteq> VALID_SCIENTIFIC_RESULT"
  by (auto simp: attempt_verdict_def dest: executed_verdict_rejects workspace_failure_rejects split: option.splits)

text \<open>The shape of the report of one task.\<close>

definition task_report :: "nat \<Rightarrow> RuntimeResult \<Rightarrow> bool" where
  "task_report n result \<longleftrightarrow>
     (let rs = attempt_records result in
      length rs \<le> n \<and> list_all rejected_attempt (butlast rs) \<and>
      (if commit_performed result
       then RuntimeResult.outcome result = VALID_SCIENTIFIC_RESULT \<and> \<not> receipt_reused result \<and> rs \<noteq> [] \<and>
         accepted_attempt (last rs) \<and> TaskAttemptRecord.outcome (last rs) = VALID_SCIENTIFIC_RESULT
       else list_all (\<lambda>r. \<not> accepted_attempt r) rs \<and>
         (RuntimeResult.outcome result = VALID_SCIENTIFIC_RESULT \<longleftrightarrow> receipt_reused result) \<and> (receipt_reused result \<longrightarrow> rs = []) \<and>
         (rs \<noteq> [] \<longrightarrow> rejected_attempt (last rs) \<or> TaskAttemptRecord.outcome (last rs) = RuntimeResult.outcome result)))"

lemma task_report_mono: "task_report m result \<Longrightarrow> m \<le> n \<Longrightarrow> task_report n result"
  by (auto simp: task_report_def Let_def)

lemma rejected_not_accepted: "list_all rejected_attempt rs \<Longrightarrow> list_all (\<lambda>r. \<not> accepted_attempt r) rs"
  by (auto simp: list_all_iff rejected_attempt_def)

lemma rejected_butlast: "list_all rejected_attempt rs \<Longrightarrow> list_all rejected_attempt (butlast rs)"
  by (auto simp: list_all_iff dest: in_set_butlastD)

lemma task_report_failed:
  "list_all rejected_attempt rs \<Longrightarrow> x \<noteq> VALID_SCIENTIFIC_RESULT \<Longrightarrow> length rs \<le> n \<Longrightarrow> task_report n (failed_result x tid e rs why)"
  by (simp add: task_report_def Let_def rejected_not_accepted rejected_butlast)
     (auto simp: list_all_iff)

lemma task_report_last:
  assumes "list_all rejected_attempt rs" "length rs < n" "\<not> accepted_attempt r" "TaskAttemptRecord.outcome r \<noteq> VALID_SCIENTIFIC_RESULT"
  shows "task_report n (failed_result (TaskAttemptRecord.outcome r) tid e (rs @ [r]) why)"
  using assms by (simp add: task_report_def Let_def rejected_not_accepted butlast_append)

lemma commit_outcome_failure [simp]: "commit_outcome err \<noteq> VALID_SCIENTIFIC_RESULT" "prepare_outcome err \<noteq> VALID_SCIENTIFIC_RESULT"
  by (cases err; simp)+

lemma task_report_terminal:
  assumes "list_all rejected_attempt rs" "length rs < n" "x \<noteq> VALID_SCIENTIFIC_RESULT"
  shows "task_report n (terminal_failure ctx e aid x m rs)"
  unfolding terminal_failure_def
  using task_report_last [OF assms(1,2), of "attempt_record (TaskBundle.task_id (task_bundle ctx)) aid e x True True (Some True) False [m] []"] assms(3)
  by simp

lemma task_report_accepted:
  "list_all rejected_attempt rs \<Longrightarrow> length rs < n \<Longrightarrow> task_report n (accepted_result ctx e aid t c hit rs)"
  by (simp add: task_report_def accepted_result_def Let_def butlast_append)

lemma commit_attempt_report:
  "commit_attempt ctx e aid a raw p rs s = (s', result) \<Longrightarrow> list_all rejected_attempt rs \<Longrightarrow> length rs < n \<Longrightarrow> task_report n result"
  by (auto simp: commit_attempt_def Let_def task_report_terminal task_report_accepted split: sum.splits prod.splits)

lemma run_attempt_report:
  assumes "run_attempt ctx e aid a rs s = (s', v)" and rs: "list_all rejected_attempt rs"
  shows "case v of Done result \<Rightarrow> task_report (Suc (length rs)) result | Retry r \<Rightarrow> rejected_attempt r | Escaped err \<Rightarrow> True"
  using assms(1) attempt_verdict_rejects [of ctx e aid a] rs
  by (auto simp: run_attempt_def Let_def task_report_failed task_report_last
      dest: commit_attempt_report [where n = "Suc (length rs)"] split: if_splits sum.splits EngineVerdict.splits prod.splits)

subsection \<open>The loops\<close>

lemma attempts_of_engine_report:
  assumes "attempts_of_engine ctx world e k rs lo s = (s', v)" and "list_all rejected_attempt rs" and "fallback_allowed lo"
  shows "case v of
      Ended (Inr result) \<Rightarrow> task_report (length rs + k) result
    | Ended (Inl err) \<Rightarrow> True
    | Exhausted rs' last' \<Rightarrow> list_all rejected_attempt rs' \<and> fallback_allowed last' \<and> length rs' \<le> length rs + k"
  using assms
proof (induction k arbitrary: rs lo s)
  case (Suc k)
  obtain s1 w where w: "run_attempt ctx e (attempt_name (length rs) e) (world (length rs)) rs s = (s1, w)" by fastforce
  note report = run_attempt_report [OF w Suc.prems(2)]
  show ?case
  proof (cases w)
    case (Retry r)
    then have r: "rejected_attempt r" using report by simp
    then have f: "fallback_allowed (TaskAttemptRecord.outcome r)" by (simp add: rejected_attempt_def)
    have "attempts_of_engine ctx world e k (rs @ [r]) (TaskAttemptRecord.outcome r) s1 = (s', v)"
      using Suc.prems(1) w Retry by simp
    from Suc.IH [OF this _ f] r Suc.prems(2) show ?thesis
      by (simp split: LoopVerdict.splits sum.splits)
  next
    case (Done result)
    then show ?thesis using report Suc.prems(1) w task_report_mono [of "Suc (length rs)" result] by auto
  next
    case (Escaped err)
    then show ?thesis using Suc.prems(1) w by auto
  qed
qed auto

lemma try_engines_report:
  assumes "try_engines ctx world es le rs lo s = (s', Inr result)" and "list_all rejected_attempt rs" and "fallback_allowed lo"
  shows "task_report (length rs + length es * technical_attempts_per_engine (config ctx)) result"
  using assms
proof (induction es arbitrary: le rs lo s)
  case Nil
  then show ?case by (auto intro!: task_report_failed)
next
  case (Cons e es)
  let ?k = "technical_attempts_per_engine (config ctx)"
  obtain s1 w where w: "attempts_of_engine ctx world e ?k rs lo s = (s1, w)" by fastforce
  note report = attempts_of_engine_report [OF w Cons.prems(2,3)]
  show ?case
  proof (cases w)
    case (Ended r)
    then show ?thesis using report Cons.prems(1) w by (auto intro: task_report_mono)
  next
    case (Exhausted rs' last')
    then have ok: "list_all rejected_attempt rs'" "fallback_allowed last'" "length rs' \<le> length rs + ?k" using report by simp_all
    then have "try_engines ctx world es (Some (engine_name e)) rs' last' s1 = (s', Inr result)"
      using Cons.prems(1) w Exhausted by simp
    from Cons.IH [OF this ok(1,2)] show ?thesis by (rule task_report_mono) (use ok(3) in simp)
  qed
qed

subsection \<open>One task, and the rebuilds\<close>

definition attempts_per_task :: "RuntimeConfig \<Rightarrow> nat" where
  "attempts_per_task cfg = (1 + max_fallback_engines cfg) * technical_attempts_per_engine cfg"

lemma try_reuse_report:
  assumes "try_reuse ctx f files s = (st, Inr (ReturnResult result))"
  shows "task_report n result"
  using assms
  by (auto simp: try_reuse_def locked_reuse_def rejected_receipt_def task_report_failed reused_result_def task_report_def Let_def
      split: if_splits sum.splits option.splits ReceiptVerdict.splits prod.splits)

lemma pre_execution_report: "pre_execution_issue ctx why = Some result \<Longrightarrow> task_report n result"
  by (auto simp: pre_execution_issue_def Let_def task_report_failed split: option.splits StoreError.splits)

lemma run_task_once_report:
  assumes "run_task_once P cfg sp ad b world engines s = (s', Inr result)"
  shows "task_report (attempts_per_task cfg) result"
proof -
  have bound: "length (take (1 + max_fallback_engines cfg) engines) * technical_attempts_per_engine cfg \<le> attempts_per_task cfg"
    unfolding attempts_per_task_def by (intro mult_right_mono) simp_all
  have "config (task_context P cfg sp ad b allowed R r) = cfg" for allowed R r by (simp add: task_context_def Let_def)
  then have engines: "task_report (attempts_per_task cfg) result"
    if "try_engines (task_context P cfg sp ad b (take (1 + max_fallback_engines cfg) engines) R r) w
        (take (1 + max_fallback_engines cfg) engines) None [] ENGINE_EXECUTION_FAILURE t = (s', Inr result)" for R r w t
    using try_engines_report [OF that] bound by (auto intro: task_report_mono)
  show ?thesis
    using assms unfolding run_task_once_def Let_def
    by (auto simp: task_report_failed intro: try_reuse_report pre_execution_report engines
        split: if_splits sum.splits prod.splits ReuseDecision.splits option.splits)
qed

text \<open>The shape of the report of a run: the records of earlier tasks were rejected or stale.\<close>

definition superseded :: "TaskAttemptRecord \<Rightarrow> bool" where
  "superseded r \<longleftrightarrow> \<not> accepted_attempt r \<and> (fallback_allowed (TaskAttemptRecord.outcome r) \<or> TaskAttemptRecord.outcome r = STALE_SNAPSHOT)"

definition run_report :: "RuntimeConfig \<Rightarrow> nat \<Rightarrow> RuntimeResult \<Rightarrow> bool" where
  "run_report cfg n result \<longleftrightarrow>
     (let rs = attempt_records result in
      length rs \<le> n \<and> list_all superseded (butlast rs) \<and>
      (if commit_performed result
       then RuntimeResult.outcome result = VALID_SCIENTIFIC_RESULT \<and> \<not> receipt_reused result \<and> rs \<noteq> [] \<and>
         accepted_attempt (last rs) \<and> TaskAttemptRecord.outcome (last rs) = VALID_SCIENTIFIC_RESULT
       else list_all (\<lambda>r. \<not> accepted_attempt r) rs \<and>
         (RuntimeResult.outcome result = VALID_SCIENTIFIC_RESULT \<longleftrightarrow> receipt_reused result)))"

lemma rejected_superseded: "list_all rejected_attempt rs \<Longrightarrow> list_all superseded rs"
  by (auto simp: list_all_iff rejected_attempt_def superseded_def)

lemma superseded_not_accepted: "list_all superseded rs \<Longrightarrow> list_all (\<lambda>r. \<not> accepted_attempt r) rs"
  by (auto simp: list_all_iff superseded_def)

lemma superseded_butlast: "list_all superseded rs \<Longrightarrow> list_all superseded (butlast rs)"
  by (auto simp: list_all_iff dest: in_set_butlastD)

lemma run_report_append:
  assumes "list_all superseded before" and "task_report n once"
  shows "run_report cfg (length before + n) (once\<lparr>attempt_records := before @ attempt_records once, stale_rebuilds := k\<rparr>)"
  using assms by (auto simp: run_report_def task_report_def Let_def butlast_append superseded_not_accepted superseded_butlast
      rejected_superseded)

lemma stale_task_superseded:
  assumes "task_report n once" and "RuntimeResult.outcome once = STALE_SNAPSHOT"
  shows "list_all superseded (attempt_records once)"
proof (cases "attempt_records once" rule: rev_cases)
  case (snoc rs r)
  then show ?thesis
    using assms by (auto simp: task_report_def Let_def superseded_def rejected_attempt_def list_all_iff split: if_splits)
qed simp

lemma run_loop_report:
  assumes "run_loop P cfg sp ad builders engines worlds k before s = (s', Inr result)"
    and "list_all superseded before" and "length before \<le> k * attempts_per_task cfg" and "k \<le> max_stale_rebuilds cfg"
  shows "k \<le> stale_rebuilds result \<and> stale_rebuilds result \<le> max_stale_rebuilds cfg \<and>
    run_report cfg (Suc (stale_rebuilds result) * attempts_per_task cfg) result"
  using assms
proof (induction P cfg sp ad builders engines worlds k before s rule: run_loop.induct)
  case (1 P cfg sp ad builders engines worlds k before s0)
  define s where "s = s0\<lparr>store := create_writers (worlds k) (store s0)\<rparr>"
  obtain b where b: "create_task P builders (worlds k) (store s) = Inr b"
    using "1.prems"(1) by (subst (asm) run_loop.simps) (auto simp: Let_def s_def split: sum.splits)
  obtain t once where once: "run_task_once P cfg sp ad b (worlds k) engines s = (t, Inr once)"
    using "1.prems"(1) b by (subst (asm) run_loop.simps) (auto simp: Let_def s_def split: sum.splits prod.splits)
  let ?result = "once\<lparr>attempt_records := before @ attempt_records once, stale_rebuilds := k\<rparr>"
  note report = run_task_once_report [OF once]
  have eq: "run_loop P cfg sp ad builders engines worlds k before s0 =
      (if stops_rebuilding cfg ad k ?result then (t, Inr ?result)
       else run_loop P cfg sp ad builders engines worlds (Suc k) (before @ attempt_records once) t)"
    using b once by (simp add: run_loop.simps [of P cfg sp ad builders engines worlds k before s0] s_def Let_def)
  show ?case
  proof (cases "stops_rebuilding cfg ad k ?result")
    case True
    then have "result = ?result" using "1.prems"(1) eq by simp
    moreover have "run_report cfg (Suc k * attempts_per_task cfg) ?result"
      using run_report_append [OF "1.prems"(2) report] "1.prems"(3) by (auto simp: run_report_def Let_def)
    ultimately show ?thesis using "1.prems"(4) by simp
  next
    case False
    then have stale: "RuntimeResult.outcome once = STALE_SNAPSHOT" "Suc k \<le> max_stale_rebuilds cfg"
      by (auto simp: stops_rebuilding_def)
    have "length (attempt_records once) \<le> attempts_per_task cfg" using report by (simp add: task_report_def Let_def)
    then have len: "length (before @ attempt_records once) \<le> Suc k * attempts_per_task cfg" using "1.prems"(3) by simp
    have sup: "list_all superseded (before @ attempt_records once)"
      using "1.prems"(2) stale_task_superseded [OF report stale(1)] by simp
    have loop: "run_loop P cfg sp ad builders engines worlds (Suc k) (before @ attempt_records once) t = (s', Inr result)"
      using "1.prems"(1) eq False by simp
    show ?thesis
      using "1.IH" [OF s_def b once [symmetric] refl refl refl False loop sup len stale(2)] by simp
  qed
qed

text \<open>
  C33: A run is bounded. It rebuilds the task at most \<open>max_stale_rebuilds\<close> times and records at most
  \<open>technical_attempts_per_engine\<close> attempts for each of the first \<open>1 + max_fallback_engines\<close> engines per
  task, however the engines answer and whatever other processes do to the store.
\<close>

theorem run_bounded:
  assumes "run P cfg sp ad builders engines worlds s = (s', Inr result)"
  shows "stale_rebuilds result \<le> max_stale_rebuilds cfg \<and>
    length (attempt_records result) \<le>
      Suc (stale_rebuilds result) * ((1 + max_fallback_engines cfg) * technical_attempts_per_engine cfg)"
  using assms run_loop_report [of P cfg sp ad builders engines worlds 0 "[]" s s' result]
  by (auto simp: run_def run_report_def Let_def attempts_per_task_def failed_result_def split: if_splits)

text \<open>
  C14: A run accepts at most one attempt. Every record but the last one is a rejected attempt that lets
  the next engine try, or the stale end of a task that was rebuilt; the last one is accepted exactly
  when the run committed, and then the result is valid and not taken from a receipt; a valid result
  without a commit is the reuse of a receipt.
\<close>

theorem run_accepts_once:
  assumes "run P cfg sp ad builders engines worlds s = (s', Inr result)"
  shows "list_all superseded (butlast (attempt_records result)) \<and>
    (commit_performed result \<longleftrightarrow> attempt_records result \<noteq> [] \<and> accepted_attempt (last (attempt_records result))) \<and>
    (RuntimeResult.outcome result = VALID_SCIENTIFIC_RESULT \<longleftrightarrow> commit_performed result \<noteq> receipt_reused result)"
proof -
  have "\<exists>n. run_report cfg n result"
    using assms run_loop_report [of P cfg sp ad builders engines worlds 0 "[]" s s' result]
    by (auto simp: run_def run_report_def Let_def failed_result_def split: if_splits)
  then show ?thesis by (cases "attempt_records result = []") (auto simp: run_report_def Let_def list_all_iff split: if_splits)
qed

end
