(* ===== verification/VR_Kernel_Store.thy ===== *)
theory VR_Kernel_Store
  imports VR_Kernel_Runs VR_Store_Limits
begin

section \<open>What a run does to the history of the store\<close>

subsection \<open>The commit of a task\<close>



definition honest_plan :: "CommitPlan \<Rightarrow> bool" where
  "honest_plan plan \<longleftrightarrow>
     (\<forall>R r p. plan_promotion plan R r \<noteq> Inl (InjectedCrash p)) \<and>
     (\<forall>f g x receipt p. plan_materializer plan = Some f \<longrightarrow> f g x receipt \<noteq> Inl (InjectedCrash p))"

text \<open>The plans of an adapter do not raise the exception that stands for a crash of the process.\<close>

definition honest_adapter :: "Adapter option \<Rightarrow> bool" where
  "honest_adapter ad \<longleftrightarrow> (\<forall>a p b plan. ad = Some a \<longrightarrow> prepare_commit a p b = Inr plan \<longrightarrow> honest_plan plan)"

lemma honest_adapter_None [simp]: "honest_adapter None"
  by (simp add: honest_adapter_def)









text \<open>A state that represents a history, and is orderly if \<open>z\<close>.\<close>

definition history :: "bool \<Rightarrow> Dumps \<Rightarrow> StoreState \<Rightarrow> Version list \<Rightarrow> bool" where
  "history z D s vs \<longleftrightarrow> represents D s vs \<and> (z \<longrightarrow> orderly s)"

lemma history_represents: "history z D s vs \<Longrightarrow> represents D s vs"
  by (simp add: history_def)


subsection \<open>Other processes\<close>

text \<open>What other processes may do: publish versions of their own, as long as a name is left for another,
  and leave an orderly store orderly.\<close>

definition cooperative :: "Dumps \<Rightarrow> (StoreState \<Rightarrow> StoreState) \<Rightarrow> bool" where
  "cooperative D f \<longleftrightarrow>
     (\<forall>s vs. represents D s vs \<and> length vs < 10 ^ 6 \<longrightarrow>
        (\<exists>ws. represents D (f s) (vs @ ws) \<and> length (vs @ ws) < 10 ^ 6) \<and> (orderly s \<longrightarrow> orderly (f s)))"


lemma cooperative_id: "cooperative D (\<lambda>s. s)"
  unfolding cooperative_def by (metis append_Nil2)


subsection \<open>The effect of a result\<close>







subsection \<open>The loops\<close>






lemma task_context_fields [simp]:
  "platform (task_context P cfg sp ad b es R r) = P" "config (task_context P cfg sp ad b es R r) = cfg"
  "adapter (task_context P cfg sp ad b es R r) = ad"
  by (simp_all add: task_context_def Let_def)




end
