(* ===== verification/VR_Kernel_Accept.thy ===== *)
theory VR_Kernel_Accept
  imports VR_Kernel_Store VR_Promote_Queries VR_Promote_Final
begin

section \<open>Accepted answers become versions\<close>

text \<open>
  The kernel, the promotion handlers and the store together: an answer that passes the acceptance
  check of its task is committed. For claim assessments and retrieval queries nothing else can go
  wrong in the acceptance of the answer; for final claims the staged validation of the commit can.
\<close>

subsection \<open>The version a task starts from\<close>

lemma represents_last:
  assumes r: "represents D s vs" and last: "last vs = (R, reg, rs)"
  shows "valid_snapshot R" "valid_registry reg" "\<exists>rep. validate_repository R = Inr rep"
    "validate_covers_identifiers reg (all_identifiers R) = None"
proof -
  have "length vs - 1 < length vs" "vs ! (length vs - 1) = (R, reg, rs)"
    using representsD(1) [OF r] last by (auto simp: last_conv_nth)
  then obtain d where "good_dir D (length vs - 1) (R, reg, rs) d" using representsD(5) [OF r] by metis
  then show "valid_snapshot R" "valid_registry reg" "\<exists>rep. validate_repository R = Inr rep"
    "validate_covers_identifiers reg (all_identifiers R) = None" by (auto simp: good_dir_def)
qed

lemma stale_dependency_None:
  "stale_dependency D R deps = None \<longleftrightarrow> (\<forall>(k, h) \<in> set deps. dependency_hash D R k = Some h)"
  by (induction deps) (auto split: option.splits if_splits)

lemma dependency_dict_fresh:
  "dependency_dict D R ids d = Inr deps \<Longrightarrow> \<forall>(k, h) \<in> set d. dependency_hash D R k = Some h \<Longrightarrow>
    \<forall>(k, h) \<in> set deps. dependency_hash D R k = Some h"
proof (induction ids arbitrary: d)
  case (Cons key ids)
  then obtain h where h: "dependency_hash D R key = Some h" "dependency_dict D R ids (AList.update key h d) = Inr deps"
    by (auto split: option.splits)
  have "\<forall>(k, x) \<in> set (AList.update key h d). dependency_hash D R k = Some x"
    using Cons.prems(2) h(1) by (auto dest!: update_members)
  then show ?case by (rule Cons.IH [OF h(2)])
qed simp

lemma create_task_fresh:
  assumes r: "represents (dumps_of P) s vs" "orderly s" and last: "last vs = (R, reg, rs)" and c: "create_task P builders world s = Inr b"
  shows "TaskBundle.base_generation b = length vs - 1" "stale_dependency (dumps_of P) R (TaskBundle.dependencies b) = None"
proof -
  obtain deps b' where "\<exists>keys. dependency_dict (dumps_of P) R keys [] = Inr deps"
      "b = b'\<lparr>TaskBundle.base_generation := length vs - 1, TaskBundle.dependencies := deps\<rparr>"
    using c represents_load(1) [OF r last] by (auto simp: create_task_def split: sum.splits if_splits)
  then show "TaskBundle.base_generation b = length vs - 1" "stale_dependency (dumps_of P) R (TaskBundle.dependencies b) = None"
    using dependency_dict_fresh [of "dumps_of P" R _ "[]" deps] by (auto simp: stale_dependency_None)
qed

subsection \<open>A payload that validates is committed\<close>

definition staged_ok :: "PromotionPayload \<Rightarrow> bool" where
  "staged_ok payload \<longleftrightarrow>
     valid_snapshot (snapshot payload) \<and> valid_registry (registry payload) \<and> staged_issue (snapshot payload) (registry payload) = None"

lemma assessment_staged_ok:
  assumes R: "valid_snapshot R" "\<exists>rep. validate_repository R = Inr rep" "valid_registry r" "validate_covers_identifiers r (all_identifiers R) = None"
    and acc: "validate_claim_assessment p R deps = None"
  shows "\<exists>payload. promote_claim_assessment R r p = Inr payload \<and> staged_ok payload"
proof -
  obtain rep where rep: "validate_repository R = Inr rep" using R(2) by blast
  from assessment_promotes [OF R(1) rep acc, of r] obtain payload where p: "promote_claim_assessment R r p = Inr payload"
      "valid_snapshot (snapshot payload)" "\<exists>rep'. validate_repository (snapshot payload) = Inr rep'" "registry payload = r" by blast
  moreover have "all_identifiers (snapshot payload) = all_identifiers R"
    using p(1) by (auto simp: promote_claim_assessment_def all_identifiers_def split: sum.splits)
  ultimately show ?thesis using R(3,4) by (auto simp: staged_ok_def staged_issue_None)
qed

lemma queries_staged_ok:
  assumes R: "valid_snapshot R" "\<exists>rep. validate_repository R = Inr rep" "valid_registry r" "validate_covers_identifiers r (all_identifiers R) = None"
    and acc: "validate_retrieval_queries w f q R deps (Some r) None invocation = None"
  shows "\<exists>payload. promote_retrieval_queries R r q = Inr payload \<and> staged_ok payload"
proof -
  obtain rep where rep: "validate_repository R = Inr rep" using R(2) by blast
  from queries_promote [OF R(1) rep R(3,4) acc] show ?thesis by (auto simp: staged_ok_def staged_issue_None)
qed

lemma final_claim_staged:
  assumes R: "valid_snapshot R" "\<exists>rep. validate_repository R = Inr rep" "valid_registry r" "validate_covers_identifiers r (all_identifiers R) = None"
    and acc: "validate_final_claim p R deps invocation = None"
  shows "\<exists>payload. promote_final_claim_validation R r p = Inr payload \<and> valid_snapshot (snapshot payload) \<and> valid_registry (registry payload) \<and>
    (staged_issue (snapshot payload) (registry payload) = None \<longleftrightarrow>
      (FinalClaimValidationProposal.status p = FinalClaimStatus.VALID \<longrightarrow>
        aggregated (evidence_records R) (claim_paper_evidence R) (FinalClaimValidationProposal.claim_ref p)))"
proof -
  obtain rep where rep: "validate_repository R = Inr rep" using R(2) by blast
  from final_claim_promotes [OF R(1) rep acc, of r] obtain payload where p: "promote_final_claim_validation R r p = Inr payload"
      "valid_snapshot (snapshot payload)" "registry payload = r"
      "(\<exists>rep'. validate_repository (snapshot payload) = Inr rep') \<longleftrightarrow>
        (FinalClaimValidationProposal.status p = FinalClaimStatus.VALID \<longrightarrow>
          aggregated (evidence_records R) (claim_paper_evidence R) (FinalClaimValidationProposal.claim_ref p))" by blast
  moreover have "all_identifiers (snapshot payload) = all_identifiers R"
    using p(1) by (auto simp: promote_final_claim_validation_def all_identifiers_def split: sum.splits option.splits PacketFailure.splits)
  ultimately show ?thesis using R(3,4) by (intro exI [of _ payload]) (simp add: staged_issue_None)
qed

subsection \<open>The commit of an ordinary task\<close>

text \<open>The files of a payload can be read back.\<close>

definition payload_fits :: "Dumps \<Rightarrow> PromotionPayload \<Rightarrow> bool" where
  "payload_fits D payload \<longleftrightarrow>
     length (repository_bytes D (snapshot payload)) < MAX_GENERATION_CONTROL_BYTES \<and>
     length (registry_bytes D (registry payload)) < MAX_GENERATION_CONTROL_BYTES"

text \<open>The store is orderly, and nothing has changed since the task was created, neither it nor the sources.\<close>

definition quiet_commit :: "TaskContext \<Rightarrow> Attempt \<Rightarrow> KernelState \<Rightarrow> Version list \<Rightarrow> bool" where
  "quiet_commit ctx a s vs \<longleftrightarrow>
     (case last vs of (R, reg, rs) \<Rightarrow>
       represents (dumps_of (platform ctx)) (store s) vs \<and> orderly (store s) \<and> length vs < 10 ^ 6 \<and> adapter ctx = None \<and>
       other_writers a (store s) = store s \<and> TaskBundle.base_generation (task_bundle ctx) = length vs - 1 \<and>
       stale_dependency (dumps_of (platform ctx)) R (TaskBundle.dependencies (task_bundle ctx)) = None \<and>
       require_fresh_resources (source_files a) (resources (task_bundle ctx)) = None \<and>
       base_snapshot ctx = R \<and> base_registry ctx = reg)"

lemma ordinary_commit_succeeds:
  assumes q: "quiet_commit ctx a s vs" and plan: "prepare_plan ctx p = Inr (t, plan)" and m: "plan_materializer plan = None"
    and pay: "plan_promotion plan (base_snapshot ctx) (base_registry ctx) = Inr payload" and ok: "staged_ok payload"
    and fits: "payload_fits (dumps_of (platform ctx)) payload"
  shows "\<exists>s' result. commit_attempt ctx e aid a raw p rs s = (s', result) \<and> RuntimeResult.outcome result = VALID_SCIENTIFIC_RESULT \<and>
    commit_performed result \<and> RuntimeResult.generation result = Some (length vs) \<and>
    attempt_records result = rs @ [attempt_record (TaskBundle.task_id (task_bundle ctx)) aid e VALID_SCIENTIFIC_RESULT True True (Some True) True [] []] \<and>
    (\<exists>v. represents (dumps_of (platform ctx)) (store s') (vs @ [v]) \<and> fst v = snapshot payload)"
proof -
  obtain R reg rcs where last: "last vs = (R, reg, rcs)" by (cases "last vs")
  let ?D = "dumps_of (platform ctx)" and ?q = "task_commit_request ctx e aid a raw t plan (store s)"
  have r: "represents ?D (store s) vs" "orderly (store s)" and l: "length vs < 10 ^ 6" and ad: "adapter ctx = None"
      and o: "other_writers a (store s) = store s" and base: "base_snapshot ctx = R" "base_registry ctx = reg"
    using q last by (simp_all add: quiet_commit_def)
  have prom: "CommitRequest.promotion ?q R reg = Inr payload"
    using q last pay by (simp add: quiet_commit_def task_commit_request_def)
  obtain receipt where receipt: "build_receipt ?q (length vs) R payload = Inr receipt"
    by (cases "enable_receipts (config ctx)") (auto simp: build_receipt_def task_commit_request_def)
  have aux: "materialize_auxiliary ?q (length vs) payload = Inr None"
    by (simp add: materialize_auxiliary_def task_commit_request_def m)
  obtain after where c: "commit ?D ?q (store s) = (after, Inr \<lparr>committed = length vs, commit_ids = payload_ids payload, commit_receipt = receipt\<rparr>)"
      "represents ?D after (vs @ [next_version payload rcs receipt])"
    using commit_succeeds [OF r l last _ _ prom _ _ _ _ receipt aux] q last ok fits m
    by (auto simp: quiet_commit_def staged_ok_def task_commit_request_def payload_fits_def)
  moreover have "fst (next_version payload rcs receipt) = snapshot payload" by (simp add: next_version_def)
  ultimately show ?thesis
    using plan o by (auto simp: commit_attempt_def Let_def accepted_result_def simp del: split_paired_Ex)
qed

lemma ordinary_commit_rejected:
  assumes q: "quiet_commit ctx a s vs" and plan: "prepare_plan ctx p = Inr (t, plan)"
    and pay: "plan_promotion plan (base_snapshot ctx) (base_registry ctx) = Inr payload"
    and v: "valid_snapshot (snapshot payload)" "valid_registry (registry payload)"
    and bad: "staged_issue (snapshot payload) (registry payload) \<noteq> None"
  shows "\<exists>s' result. commit_attempt ctx e aid a raw p rs s = (s', result) \<and>
    RuntimeResult.outcome result = CONTRACT_IMPLEMENTATION_FAILURE \<and> represents (dumps_of (platform ctx)) (store s') vs"
proof -
  obtain R reg rcs where last: "last vs = (R, reg, rcs)" by (cases "last vs")
  let ?D = "dumps_of (platform ctx)" and ?q = "task_commit_request ctx e aid a raw t plan (store s)"
  let ?s = "store s\<lparr>entries := filter (kept (length vs - 1)) (entries (store s))\<rparr>"
  have r: "represents ?D (store s) vs" "orderly (store s)" and o: "other_writers a (store s) = store s"
    using q last by (simp_all add: quiet_commit_def)
  note rs = recovered_represents(1) [OF r(1)] recovered_represents(2) [OF r] recover_represented [OF r]
  have prom: "CommitRequest.promotion ?q R reg = Inr payload"
    using q last pay by (simp add: quiet_commit_def task_commit_request_def)
  obtain m where m: "staged_issue (snapshot payload) (registry payload) = Some (StagedRepositoryValidationError m)"
    using bad by (auto simp: staged_issue_def split: sum.splits option.splits RegistryError.splits)
  have "checked_payload ?D ?q ?s = Inl (StagedRepositoryValidationError m)"
    using represents_current [OF rs(1,2)] represents_load(2) [OF rs(1,2) last] q last prom v m
    by (simp add: checked_payload_def copy_payload_def quiet_commit_def task_commit_request_def)
  then have "commit_recovered ?D ?q ?s = ([?s], Inl (StagedRepositoryValidationError m))" by (simp add: commit_recovered_def)
  moreover have "fst (recover (store s)) = ?s" "snd (recover (store s)) = Inr (Some (length vs - 1))" using rs(3) by simp_all
  ultimately have "commit ?D ?q (store s) = (?s, Inl (StagedRepositoryValidationError m))"
    using commit_trace_goes_on [of "store s" _ ?D ?q] by (simp add: commit_eq)
  then show ?thesis
    using plan o rs(1) by (simp add: commit_attempt_def Let_def terminal_failure_def)
qed

subsection \<open>From the answer of an engine to the result of the run\<close>

lemma ordinary_prepare:
  assumes "adapter ctx = None" "interpret_disposition (disposition_handler (spec ctx)) p = Inr t"
    and "prepare_promotion (promotion_handler (spec ctx)) p = Promotion f"
  shows "prepare_plan ctx p = Inr (t, \<lparr>plan_promotion = (\<lambda>R r. case f R r of Inl e \<Rightarrow> Inl (promotion_error e) | Inr payload \<Rightarrow> Inr payload),
    plan_materializer = None\<rparr>)"
  using assms by (simp add: prepare_plan_def ordinary_plan_def)

definition total_handlers :: "string set" where
  "total_handlers = {''promote_claim_assessment'', ''promote_retrieval_queries''}"

lemma accepted_promotion:
  assumes R: "valid_snapshot R" "\<exists>rep. validate_repository R = Inr rep" "valid_registry r" "validate_covers_identifiers r (all_identifiers R) = None"
    and ad: "adapter ctx = None" and h: "promotion_handler (spec ctx) \<in> total_handlers"
    and acc: "validate_candidate_proposal ctx p R r None = None"
  shows "\<exists>f payload. prepare_promotion (promotion_handler (spec ctx)) p = Promotion f \<and> f R r = Inr payload \<and> staged_ok payload"
proof (cases "promotion_handler (spec ctx) = ''promote_claim_assessment''")
  case True
  then obtain x where x: "p = AssessmentProposal x" "validate_claim_assessment x R (Some (map fst (TaskBundle.dependencies (task_bundle ctx)))) = None"
    using acc ad by (auto simp: validate_candidate_proposal_def validate_proposal_def split: Proposal.splits)
  from assessment_staged_ok [OF R x(2)] show ?thesis using True x(1) by (auto simp: prepare_promotion_def)
next
  case False
  then have h: "promotion_handler (spec ctx) = ''promote_retrieval_queries''" using h by (simp add: total_handlers_def)
  then obtain x where x: "p = QueryBundle x" "validate_retrieval_queries (word_table (platform ctx)) (casefold_table (platform ctx)) x R
      (Some (map fst (TaskBundle.dependencies (task_bundle ctx)))) (Some r) None (task_invocation (spec ctx)) = None"
    using acc ad by (auto simp: validate_candidate_proposal_def validate_proposal_def split: Proposal.splits)
  from queries_staged_ok [OF R x(2)] show ?thesis using h x(1) by (auto simp: prepare_promotion_def)
qed

text \<open>What the first attempt of a run has to go like: an intact workspace, nothing usable in the cache, a plain
  answer that parses to a proposal.\<close>

definition good_answer :: "TaskContext \<Rightarrow> Engine \<Rightarrow> Attempt \<Rightarrow> SemanticCache \<Rightarrow> Json \<Rightarrow> Proposal \<Rightarrow> bool" where
  "good_answer ctx e a c raw p \<longleftrightarrow>
     workspace_intact a \<and> workspace_issue a = None \<and> cached_proposal ctx e c = Inr None \<and>
     (case answer a of
        Inl err \<Rightarrow> False
      | Inr result \<Rightarrow> execution_succeeded result \<and> execution_report result = None \<and>
          json_loads (platform ctx) (output_text result) = Inr raw) \<and>
     (\<exists>members. raw = JObject members) \<and> parse_proposal (spec ctx) raw = Inr p \<and>
     validate_candidate_proposal ctx p (base_snapshot ctx) (base_registry ctx) None = None"

lemma good_answer_verdict:
  "good_answer ctx e a c raw p \<Longrightarrow> executed_verdict ctx e aid a = Produced raw p"
  by (auto simp: good_answer_def executed_verdict_def agent_result_def parsed_verdict_def Let_def split: sum.splits)

lemma good_answer_run_attempt:
  "good_answer ctx e a (proposal_cache s) raw p \<Longrightarrow> commit_attempt ctx e aid a raw p rs s = (s', result) \<Longrightarrow>
    run_attempt ctx e aid a rs s = (s', Done result)"
proof -
  assume g: "good_answer ctx e a (proposal_cache s) raw p" and c: "commit_attempt ctx e aid a raw p rs s = (s', result)"
  have "attempt_verdict ctx e aid a None = Produced raw p" using good_answer_verdict [OF g] by (simp add: attempt_verdict_def)
  moreover have "workspace_intact a" "workspace_issue a = None" "cached_proposal ctx e (proposal_cache s) = Inr None"
    using g by (simp_all add: good_answer_def)
  ultimately show ?thesis using c by (simp add: run_attempt_def Let_def)
qed

text \<open>The attempt itself: the answer is committed as the next version.\<close>

lemma answer_attempt:
  assumes r: "represents (dumps_of P) (store s) vs" "orderly (store s)" and l: "length vs < 10 ^ 6" and last: "last vs = (R, reg, rcs)"
    and quiet: "other_writers (task_attempts (worlds 0) 0) = (\<lambda>s. s)"
    and b: "create_task P builders (worlds 0) (store s) = Inr b"
    and ctx: "ctx = task_context P cfg sp None b (take (1 + max_fallback_engines cfg) (e # es)) R reg"
    and answer: "good_answer ctx e (task_attempts (worlds 0) 0) (proposal_cache s) raw p"
    and handler: "promotion_handler sp \<in> total_handlers" and t: "interpret_disposition (disposition_handler sp) p = Inr t"
    and fresh: "require_fresh_resources (source_files (task_attempts (worlds 0) 0)) (resources b) = None"
    and fits: "\<forall>f payload. prepare_promotion (promotion_handler sp) p = Promotion f \<and> f R reg = Inr payload \<longrightarrow>
      payload_fits (dumps_of P) payload"
  shows "\<exists>s' result. run_attempt ctx e (attempt_name 0 e) (task_attempts (worlds 0) 0) [] s = (s', Done result) \<and>
    RuntimeResult.outcome result = VALID_SCIENTIFIC_RESULT \<and> commit_performed result \<and>
    RuntimeResult.generation result = Some (length vs) \<and> length (attempt_records result) = 1 \<and>
    (\<exists>v. represents (dumps_of P) (store s') (vs @ [v]))"
proof -
  let ?a = "task_attempts (worlds 0) 0"
  note R = represents_last [OF r(1) last] and new = create_task_fresh [OF r last b]
  have c: "platform ctx = P" "config ctx = cfg" "adapter ctx = None" "spec ctx = sp" "task_bundle ctx = b"
      "base_snapshot ctx = R" "base_registry ctx = reg" by (simp_all add: ctx task_context_def Let_def)
  have q: "quiet_commit ctx ?a s vs"
    using r l last quiet new fresh by (simp add: quiet_commit_def c)
  have "validate_candidate_proposal ctx p R reg None = None" using answer by (simp add: good_answer_def c)
  from accepted_promotion [OF R(1,3,2,4) c(3) _ this] handler obtain f payload where
    f: "prepare_promotion (promotion_handler sp) p = Promotion f" "f R reg = Inr payload" "staged_ok payload"
    by (auto simp: c)
  have plan: "prepare_plan ctx p = Inr (t, \<lparr>plan_promotion = (\<lambda>R r. case f R r of Inl e \<Rightarrow> Inl (promotion_error e) | Inr payload \<Rightarrow> Inr payload),
      plan_materializer = None\<rparr>)" by (rule ordinary_prepare) (simp_all add: c f t)
  obtain s' result v where commit: "commit_attempt ctx e (attempt_name 0 e) ?a raw p [] s = (s', result)"
      and res: "RuntimeResult.outcome result = VALID_SCIENTIFIC_RESULT" "commit_performed result"
        "RuntimeResult.generation result = Some (length vs)" "length (attempt_records result) = 1"
        "represents (dumps_of P) (store s') (vs @ [v])"
    using ordinary_commit_succeeds [OF q plan, of payload e "attempt_name 0 e" raw "[]"] f fits by (auto simp: c simp del: split_paired_Ex)
  have "run_attempt ctx e (attempt_name 0 e) ?a [] s = (s', Done result)" by (rule good_answer_run_attempt [OF answer commit])
  then show ?thesis using res by blast
qed

lemma answer_completes:
  assumes r: "represents (dumps_of P) (store s) vs" "orderly (store s)" and l: "length vs < 10 ^ 6" and last: "last vs = (R, reg, rcs)"
    and pre: "preflight cfg (spec_type sp) sp None" and n: "valid_RuntimeConfig cfg"
    and quiet: "create_writers (worlds 0) = (\<lambda>s. s)" "other_writers (task_attempts (worlds 0) 0) = (\<lambda>s. s)"
    and b: "create_task P builders (worlds 0) (store s) = Inr b" and intact: "bundle_intact (worlds 0)"
    and ctx: "ctx = task_context P cfg sp None b (take (1 + max_fallback_engines cfg) (e # es)) R reg"
    and none: "candidate_receipt ctx rcs = None"
    and answer: "good_answer ctx e (task_attempts (worlds 0) 0) (proposal_cache s) raw p"
    and handler: "promotion_handler sp \<in> total_handlers" and t: "interpret_disposition (disposition_handler sp) p = Inr t"
    and fresh: "require_fresh_resources (source_files (task_attempts (worlds 0) 0)) (resources b) = None"
    and fits: "\<forall>f payload. prepare_promotion (promotion_handler sp) p = Promotion f \<and> f R reg = Inr payload \<longrightarrow>
      payload_fits (dumps_of P) payload"
  shows "\<exists>s' result. run P cfg sp None builders (e # es) worlds s = (s', Inr result) \<and>
    RuntimeResult.outcome result = VALID_SCIENTIFIC_RESULT \<and> commit_performed result \<and>
    RuntimeResult.generation result = Some (length vs) \<and> stale_rebuilds result = 0 \<and> length (attempt_records result) = 1 \<and>
    (\<exists>v. represents (dumps_of P) (store s') (vs @ [v]))"
proof -
  note new = create_task_fresh [OF r last b]
  have c: "config ctx = cfg" "adapter ctx = None" "task_bundle ctx = b" by (simp_all add: ctx task_context_def Let_def)
  obtain s' result v where attempt: "run_attempt ctx e (attempt_name 0 e) (task_attempts (worlds 0) 0) [] s = (s', Done result)"
      and res: "RuntimeResult.outcome result = VALID_SCIENTIFIC_RESULT" "commit_performed result"
        "RuntimeResult.generation result = Some (length vs)" "length (attempt_records result) = 1"
        "represents (dumps_of P) (store s') (vs @ [v])"
    using answer_attempt [where worlds = worlds, OF r l last quiet(2) b ctx answer handler t fresh fits] by blast
  obtain k where k: "technical_attempts_per_engine cfg = Suc k" using n by (cases "technical_attempts_per_engine cfg") (auto simp: valid_RuntimeConfig_def)
  have engines: "attempts_of_engine ctx (task_attempts (worlds 0)) e (technical_attempts_per_engine cfg) [] ENGINE_EXECUTION_FAILURE s =
      (s', Ended (Inr result))" by (simp add: k attempt)
  have reuse: "try_reuse ctx f' files (store s) = (store s, Inr (GoOn None))" for f' files
    using represents_current [OF r] represents_load(3) [OF r last] none by (simp add: try_reuse_def)
  have task: "task_context P cfg sp None b (e # take (max_fallback_engines cfg) es) R reg = ctx" by (simp add: ctx)
  have once: "run_task_once P cfg sp None b (worlds 0) (e # es) s = (s', Inr result)"
    using intact represents_load(2) [OF r last] new(1) reuse engines
    by (simp add: run_task_once_def task pre_execution_issue_def c Let_def)
  have "stops_rebuilding cfg None 0 (result\<lparr>attempt_records := attempt_records result, stale_rebuilds := 0\<rparr>)"
    using res(1) by (simp add: stops_rebuilding_def)
  then have "run P cfg sp None builders (e # es) worlds s = (s', Inr (result\<lparr>attempt_records := attempt_records result, stale_rebuilds := 0\<rparr>))"
    using pre b once quiet(1) by (simp add: run_def run_loop.simps [of P cfg sp None builders "e # es" worlds 0 "[]" s] Let_def)
  then show ?thesis
    using res by (intro exI [of _ s'] exI [of _ "result\<lparr>stale_rebuilds := 0\<rparr>"]) (simp del: split_paired_Ex, blast)
qed

text \<open>
  C5: An accepted claim assessment or retrieval query bundle completes the run. If the task of an
  ordinary run of one of these two kinds can be created on an orderly store, no earlier receipt
  stands for it, its first engine's first answer is a JSON object that parses to a proposal the
  acceptance check lets pass, the files of the promoted payload are within the limit for reading
  them back, and neither the store nor the sources change meanwhile, then the run ends with that
  attempt as its only one, valid and committed as the next generation. (For the other promotion
  handlers this does not hold: C38 for final claims, C37 for discovery.)
\<close>

theorem accepted_answer_completes:
  assumes r: "represents (dumps_of P) (store s) vs" "orderly (store s)" and l: "length vs < 10 ^ 6" and last: "last vs = (R, reg, rcs)"
    and pre: "preflight cfg (spec_type sp) sp None" and n: "valid_RuntimeConfig cfg"
    and quiet: "create_writers (worlds 0) = (\<lambda>s. s)" "other_writers (task_attempts (worlds 0) 0) = (\<lambda>s. s)"
    and b: "create_task P builders (worlds 0) (store s) = Inr b" and intact: "bundle_intact (worlds 0)"
    and ctx: "ctx = task_context P cfg sp None b (take (1 + max_fallback_engines cfg) (e # es)) R reg"
    and none: "candidate_receipt ctx rcs = None"
    and answer: "good_answer ctx e (task_attempts (worlds 0) 0) (proposal_cache s) raw p"
    and handler: "promotion_handler sp \<in> total_handlers" and t: "interpret_disposition (disposition_handler sp) p = Inr t"
    and fresh: "require_fresh_resources (source_files (task_attempts (worlds 0) 0)) (resources b) = None"
    and fits: "\<forall>f payload. prepare_promotion (promotion_handler sp) p = Promotion f \<and> f R reg = Inr payload \<longrightarrow>
      payload_fits (dumps_of P) payload"
  shows "\<exists>s' result. run P cfg sp None builders (e # es) worlds s = (s', Inr result) \<and>
    RuntimeResult.outcome result = VALID_SCIENTIFIC_RESULT \<and> commit_performed result \<and>
    RuntimeResult.generation result = Some (length vs) \<and> stale_rebuilds result = 0 \<and> length (attempt_records result) = 1 \<and>
    (\<exists>v. represents (dumps_of P) (store s') (vs @ [v]))"
  by (rule answer_completes) (fact assms)+

text \<open>
  C38: An accepted final claim can still fail at its commit. If the claim is proposed as VALID and some
  evidence record of it is not aggregated by any CPE, the acceptance check of the task lets the
  proposal pass, but the commit stops at the staged validation: the attempt ends as a contract
  implementation failure, which no further engine may retry, and the history stays as it was.
\<close>

theorem unaggregated_final_claim_fails:
  assumes q: "quiet_commit ctx a s vs" and h: "promotion_handler (spec ctx) = ''promote_final_claim_validation''"
    and t: "interpret_disposition (disposition_handler (spec ctx)) (FinalProposal p) = Inr t"
    and acc: "validate_candidate_proposal ctx (FinalProposal p) (base_snapshot ctx) (base_registry ctx) None = None"
    and valid: "FinalClaimValidationProposal.status p = FinalClaimStatus.VALID"
    and open_evidence: "\<not> aggregated (evidence_records (base_snapshot ctx)) (claim_paper_evidence (base_snapshot ctx)) (FinalClaimValidationProposal.claim_ref p)"
  shows "\<exists>s' result. commit_attempt ctx e aid a raw (FinalProposal p) rs s = (s', result) \<and>
    RuntimeResult.outcome result = CONTRACT_IMPLEMENTATION_FAILURE \<and> \<not> fallback_allowed (RuntimeResult.outcome result) \<and>
    represents (dumps_of (platform ctx)) (store s') vs"
proof -
  obtain R reg rcs where last: "last vs = (R, reg, rcs)" by (cases "last vs")
  have c: "adapter ctx = None" "base_snapshot ctx = R" "base_registry ctx = reg"
      and r: "represents (dumps_of (platform ctx)) (store s) vs" using q last by (simp_all add: quiet_commit_def)
  note R = represents_last [OF r last]
  have "validate_final_claim p R (Some (map fst (TaskBundle.dependencies (task_bundle ctx)))) (task_invocation (spec ctx)) = None"
    using acc h by (simp add: validate_candidate_proposal_def validate_proposal_def c)
  from final_claim_staged [OF R(1,3,2,4) this] obtain payload where p: "promote_final_claim_validation R reg p = Inr payload"
      "valid_snapshot (snapshot payload)" "valid_registry (registry payload)" "staged_issue (snapshot payload) (registry payload) \<noteq> None"
    using valid open_evidence by (auto simp: c)
  have "prepare_promotion (promotion_handler (spec ctx)) (FinalProposal p) = Promotion (\<lambda>R r. promote_final_claim_validation R r p)"
    by (simp add: h prepare_promotion_def)
  from ordinary_commit_rejected [OF q ordinary_prepare [OF c(1) t this] _ p(2-4), of e aid raw rs] show ?thesis
    using p(1) by (auto simp: c)
qed

end
