(* ===== verification/VR_Specs_Correct.thy ===== *)
theory VR_Specs_Correct
  imports VR_Specs VR_Kernel_Accept
begin

section \<open>What the task table guarantees\<close>

text \<open>
  The dependency builders close the records an invocation names under the references of a validated
  repository, so nothing they add can be missing; the keys cover the whole source chain of a claim, so
  a commit that passes the stale check was validated against the records the task saw; the resource
  builders and the engine inputs agree.
\<close>

subsection \<open>Keys in the index\<close>

lemma index_objects_keys: "fst ` set (index_objects vs d) = fst ` set d \<union> object_id ` set vs \<union> typed_key ` set vs"
proof (induction vs d rule: index_objects.induct)
  case (2 v vs d)
  have "fst ` set (snd (setdefault d (object_id v) v)) = insert (object_id v) (fst ` set d)"
    by (auto simp: setdefault_def map_of_eq_None_iff dest: map_of_SomeD split: option.splits intro: rev_image_eqI)
  then show ?case using 2 by (auto simp: dom_update)
qed simp

lemma indexed_iff: "indexed R key \<longleftrightarrow> key \<in> object_id ` set (VR_Repository.canonical_objects R) \<union> typed_key ` set (VR_Repository.canonical_objects R)"
  by (simp add: indexed_def map_of_eq_None_iff object_index_def index_objects_keys)

lemma indexed_typed: "v \<in> set (VR_Repository.canonical_objects R) \<Longrightarrow> typed_key v = k \<Longrightarrow> indexed R k"
  by (auto simp: indexed_iff)

lemma indexedI:
  "t \<in> set (RepositorySnapshot.themes R) \<Longrightarrow> indexed R (''ThemeRecord:'' @ ThemeRecord.theme_id t)"
  "p \<in> set (papers R) \<Longrightarrow> indexed R (''Paper:'' @ Paper.paper_id p)"
  "c \<in> set (candidate_claims R) \<Longrightarrow> indexed R (''CandidateClaim:'' @ CandidateClaim.claim_id c)"
  "q \<in> set (retrieval_queries R) \<Longrightarrow> indexed R (''RetrievalQuery:'' @ RetrievalQuery.query_id q)"
  "s \<in> set (retrieved_spans R) \<Longrightarrow> indexed R (''RetrievedSpan:'' @ RetrievedSpan.span_id s)"
  "d \<in> set (retrieval_dispositions R) \<Longrightarrow> indexed R (''RetrievalDisposition:'' @ RetrievalDisposition.span_id d)"
  "e \<in> set (evidence_records R) \<Longrightarrow> indexed R (''EvidenceRecord:'' @ evidence_id e)"
  "k \<in> set (claim_paper_evidence R) \<Longrightarrow> indexed R (''ClaimPaperEvidence:'' @ ClaimPaperEvidence.claim_paper_evidence_id k)"
  "a \<in> set (claim_assessments R) \<Longrightarrow> indexed R (''ClaimAssessment:'' @ ClaimAssessment.claim_id a)"
  "f \<in> set (final_claim_validations R) \<Longrightarrow> indexed R (''FinalClaimValidation:'' @ FinalClaimValidation.claim_id f)"
  "x \<in> set (semantic_audits R) \<Longrightarrow> indexed R (''SemanticAuditResult:'' @ SemanticAuditResult.audit_id x)"
  using indexed_typed [of "ThemeObject t" R] indexed_typed [of "PaperObject p" R] indexed_typed [of "ClaimObject c" R]
    indexed_typed [of "QueryObject q" R] indexed_typed [of "SpanObject s" R] indexed_typed [of "DispositionObject d" R]
    indexed_typed [of "EvidenceObject e" R] indexed_typed [of "CpeObject k" R] indexed_typed [of "AssessmentObject a" R]
    indexed_typed [of "FinalObject f" R] indexed_typed [of "SemanticAuditObject x" R]
  by (simp_all add: typed_key_def)

text \<open>A key with a colon that is found is the typed key of a record.\<close>

lemma indexed_typedD:
  assumes "valid_snapshot R" "indexed R (typed_key x)"
  shows "\<exists>v \<in> set (VR_Repository.canonical_objects R). type_name v = type_name x \<and> object_id v = object_id x"
proof -
  have "typed_key x \<notin> object_id ` set (VR_Repository.canonical_objects R)"
  proof
    assume "typed_key x \<in> object_id ` set (VR_Repository.canonical_objects R)"
    then obtain v where v: "v \<in> set (VR_Repository.canonical_objects R)" "object_id v = typed_key x" by auto
    have "CHR '':'' \<notin> set (object_id v)" by (rule canonical_id_no_colon [OF assms(1) v(1)])
    then show False by (simp add: v(2) typed_key_def)
  qed
  then obtain v where v: "v \<in> set (VR_Repository.canonical_objects R)" "typed_key v = typed_key x"
    using assms(2) by (auto simp: indexed_iff)
  then show ?thesis using typed_key_eqD by blast
qed

lemma indexed_spanD:
  assumes "valid_snapshot R" "indexed R (''RetrievedSpan:'' @ sid)"
  shows "\<exists>s \<in> set (retrieved_spans R). RetrievedSpan.span_id s = sid"
proof -
  obtain v where "v \<in> set (VR_Repository.canonical_objects R)" "type_name v = ''RetrievedSpan''" "object_id v = sid"
    using indexed_typedD [OF assms(1), of "SpanObject (undefined\<lparr>RetrievedSpan.span_id := sid\<rparr>)"] assms(2) by (auto simp: typed_key_def)
  then show ?thesis by (cases v rule: CanonicalObject.exhaust) auto
qed

lemma indexed_paperD:
  assumes "valid_snapshot R" "indexed R (''Paper:'' @ pid)"
  shows "pid \<in> Paper.paper_id ` set (papers R)"
proof -
  obtain v where "v \<in> set (VR_Repository.canonical_objects R)" "type_name v = ''Paper''" "object_id v = pid"
    using indexed_typedD [OF assms(1), of "PaperObject (undefined\<lparr>Paper.paper_id := pid\<rparr>)"] assms(2) by (auto simp: typed_key_def)
  then show ?thesis by (cases v rule: CanonicalObject.exhaust) auto
qed

lemma dependency_hash_indexed: "dependency_hash D R key = None \<longleftrightarrow> \<not> indexed R key"
  by (simp add: dependency_hash_def indexed_def)

subsection \<open>The keys of the builders\<close>

lemma set_typed_keys [simp]: "set (typed_dependency_keys m ids) = (\<lambda>i. m @ '':'' @ i) ` set ids"
  by (simp add: typed_dependency_keys_def)

lemma set_ordered_unique [simp]: "set (ordered_unique_dependencies gs) = (\<Union>g \<in> set gs. set g)"
  by (simp add: ordered_unique_dependencies_def)

lemma distinct_ordered_unique [simp]: "distinct (ordered_unique_dependencies gs)"
  by (simp add: ordered_unique_dependencies_def)

lemma distinct_typed_keys [simp]: "distinct (typed_dependency_keys m ids)"
  by (simp add: typed_dependency_keys_def distinct_map inj_on_def)

lemma filter_single: "filter P xs = [x] \<Longrightarrow> x \<in> set xs \<and> P x"
  using filter_set [of P xs] by auto

lemma span_keys_indexed:
  assumes c: "repository_contract R" and s: "s \<in> set (retrieved_spans R)"
  shows "indexed R (''Paper:'' @ RetrievedSpan.paper_id s)" "indexed R (''RetrievalDisposition:'' @ RetrievedSpan.span_id s)"
    "indexed R (''RetrievalQuery:'' @ RetrievalMetadata.query_id (retrieval s))"
proof -
  have rc: "retrieval_contract (candidate_claims R) (retrieval_queries R) (retrieved_spans R) (retrieval_dispositions R) (papers R)"
    using c by (simp add: repository_contract_def)
  then have "span_bound (retrieval_queries R) (papers R) s"
      "exactly_one (\<lambda>d. RetrievalDisposition.span_id d = RetrievedSpan.span_id s) (retrieval_dispositions R)"
    using s by (simp_all add: retrieval_contract_def)
  moreover from this(2) obtain d where "d \<in> set (retrieval_dispositions R)" "RetrievalDisposition.span_id d = RetrievedSpan.span_id s"
    unfolding exactly_one_def using filter_single by fast
  moreover from calculation(1) obtain q p where "q \<in> set (retrieval_queries R)" "RetrievalQuery.query_id q = RetrievalMetadata.query_id (retrieval s)"
      "p \<in> set (papers R)" "Paper.paper_id p = RetrievedSpan.paper_id s"
    by (auto simp: span_bound_def)
  ultimately show "indexed R (''Paper:'' @ RetrievedSpan.paper_id s)" "indexed R (''RetrievalDisposition:'' @ RetrievedSpan.span_id s)"
      "indexed R (''RetrievalQuery:'' @ RetrievalMetadata.query_id (retrieval s))"
    using indexedI(2,6,4) by metis+
qed

lemma evidence_context_indexed:
  assumes c: "repository_contract R" and e: "set eids \<subseteq> evidence_id ` set (evidence_records R)"
    and p: "set pids \<subseteq> Paper.paper_id ` set (papers R)" and k: "k \<in> set (evidence_context_dependencies R eids pids)"
  shows "indexed R k"
proof -
  have span: "\<exists>s \<in> set (retrieved_spans R). RetrievedSpan.span_id s = retrieved_span_id x \<and> RetrievedSpan.paper_id s = EvidenceRecord.paper_id x"
    if "x \<in> set (evidence_records R)" for x
    using c that by (auto simp: repository_contract_def evidence_contract_def evidence_bound_def)
  have "indexed R (''Paper:'' @ i)" if "i \<in> set pids" for i using that p indexedI(2) by force
  moreover have "indexed R (''EvidenceRecord:'' @ i)" if "i \<in> set eids" for i using that e indexedI(7) by force
  moreover have "indexed R (''Paper:'' @ EvidenceRecord.paper_id x)" "indexed R (''RetrievedSpan:'' @ retrieved_span_id x)"
      "indexed R (''RetrievalDisposition:'' @ retrieved_span_id x)" if "x \<in> set (evidence_records R)" for x
    using span [OF that] span_keys_indexed [OF c] indexedI(5) by metis+
  ultimately show ?thesis using k span_keys_indexed [OF c] by (auto simp: evidence_context_dependencies_def Let_def)
qed

lemma claim_evidence_context_indexed:
  assumes c: "repository_contract R" and e: "set cids \<subseteq> ClaimPaperEvidence.claim_paper_evidence_id ` set (claim_paper_evidence R)"
    and k: "k \<in> set (claim_evidence_context_dependencies R cids)"
  shows "indexed R k"
proof -
  let ?cpes = "filter (\<lambda>item. ClaimPaperEvidence.claim_paper_evidence_id item \<in> set cids) (claim_paper_evidence R)"
  have b: "cpe_bound (candidate_claims R) (papers R) (evidence_records R) x" if "x \<in> set (claim_paper_evidence R)" for x
    using c that by (simp add: repository_contract_def claim_evidence_contract_def)
  have "y \<in> evidence_id ` set (evidence_records R)"
    if x: "x \<in> set (claim_paper_evidence R)" and y: "y \<in> set (ClaimPaperEvidence.evidence_ids x)" for x y
  proof -
    obtain g where g: "g \<in> set (grouped (ClaimPaperEvidence.component_relations x))" "y \<in> set (snd g)"
    proof -
      have "y \<in> set (grouped_ids (ClaimPaperEvidence.component_relations x))" using b [OF x] y by (simp add: cpe_bound_def)
      then show thesis using that by (auto simp: grouped_ids_def)
    qed
    then have "cpe_member (evidence_records R) x (fst g) y" using b [OF x] by (auto simp: cpe_bound_def)
    then show ?thesis by (auto simp: cpe_member_def)
  qed
  moreover have "ClaimPaperEvidence.paper_id x \<in> Paper.paper_id ` set (papers R)" if "x \<in> set (claim_paper_evidence R)" for x
    using b [OF that] by (simp add: cpe_bound_def)
  ultimately have "set (concat (map ClaimPaperEvidence.evidence_ids ?cpes)) \<subseteq> evidence_id ` set (evidence_records R)"
      "set (map ClaimPaperEvidence.paper_id ?cpes) \<subseteq> Paper.paper_id ` set (papers R)" by fastforce+
  note around = evidence_context_indexed [OF c this]
  have "indexed R (''ClaimPaperEvidence:'' @ i)" if "i \<in> set cids" for i using that e indexedI(8) by force
  then show ?thesis using k around by (auto simp: claim_evidence_context_dependencies_def Let_def)
qed

lemma post_assessment_indexed:
  assumes "repository_contract R" "k \<in> set (post_assessment_claim_dependencies cid R)"
  shows "indexed R k \<or> k = ''CandidateClaim:'' @ cid \<or> k = ''ClaimAssessment:'' @ cid"
proof -
  let ?ids = "map ClaimPaperEvidence.claim_paper_evidence_id (filter (\<lambda>cpe. ClaimPaperEvidence.claim_id cpe = cid) (claim_paper_evidence R))"
  have "set ?ids \<subseteq> ClaimPaperEvidence.claim_paper_evidence_id ` set (claim_paper_evidence R)" by auto
  from claim_evidence_context_indexed [OF assms(1) this] assms(2) show ?thesis
    by (auto simp: post_assessment_claim_dependencies_def Let_def)
qed

lemma proposition_source_indexed:
  assumes c: "repository_contract R" and k: "k \<in> set (proposition_source_dependencies i R)"
  shows "indexed R k \<or> k \<in> (\<lambda>x. ''ClaimPacket:'' @ x) ` set (claim_packet_ids i) \<union>
    (\<lambda>x. ''CorpusFact:'' @ x) ` set (PropositionSourceSelection.corpus_fact_ids i) \<union>
    (\<lambda>x. ''ReviewProcessFact:'' @ x) ` set (PropositionSourceSelection.process_fact_ids i)"
proof -
  let ?packets = "filter (\<lambda>item. ClaimPacket.claim_id item \<in> set (claim_packet_ids i)) (claim_packets R)"
  have bound: "packet_bound (candidate_claims R) (claim_paper_evidence R) (claim_assessments R) (final_claim_validations R) x"
    if "x \<in> set (claim_packets R)" for x
    using c that by (simp add: repository_contract_def claim_contract_def)
  have x: "\<exists>y \<in> set (candidate_claims R). CandidateClaim.claim_id y = ClaimPacket.claim_id x"
      "\<exists>y \<in> set (claim_assessments R). ClaimAssessment.claim_id y = ClaimPacket.claim_id x"
      "\<exists>y \<in> set (final_claim_validations R). FinalClaimValidation.claim_id y = ClaimPacket.claim_id x"
      "set (ClaimPacket.claim_paper_evidence_ids x) \<subseteq> ClaimPaperEvidence.claim_paper_evidence_id ` set (claim_paper_evidence R)"
    if "x \<in> set (claim_packets R)" for x
    using bound [OF that] by (auto simp: packet_bound_def claim_cpes_def)
  have keys: "indexed R (''CandidateClaim:'' @ ClaimPacket.claim_id x)" "indexed R (''ClaimAssessment:'' @ ClaimPacket.claim_id x)"
      "indexed R (''FinalClaimValidation:'' @ ClaimPacket.claim_id x)" if "x \<in> set (claim_packets R)" for x
    using x(1-3) [OF that] indexedI(3,9,10) by metis+
  have cross: "cross_contract (RepositorySnapshot.themes R) (papers R) (candidate_claims R) (corpus_facts R)"
    using c by (simp add: repository_contract_def)
  have theme: "indexed R (''ThemeRecord:'' @ CandidateClaim.theme_id y)" if "y \<in> set (candidate_claims R)" for y
  proof -
    have "CandidateClaim.theme_id y \<in> ThemeRecord.theme_id ` set (RepositorySnapshot.themes R)"
      using cross that by (auto simp: cross_contract_def)
    then show ?thesis using indexedI(1) by force
  qed
  have paper: "indexed R (''Paper:'' @ p)" if "f \<in> set (corpus_facts R)" "p \<in> set (source_paper_ids f)" for f p
  proof -
    have "p \<in> Paper.paper_id ` set (papers R)" using cross that by (auto simp: cross_contract_def)
    then show ?thesis using indexedI(2) by force
  qed
  have "set (concat (map ClaimPacket.claim_paper_evidence_ids ?packets)) \<subseteq> ClaimPaperEvidence.claim_paper_evidence_id ` set (claim_paper_evidence R)"
    using x(4) by fastforce
  note around = claim_evidence_context_indexed [OF c this]
  show ?thesis
    using k around keys theme paper by (auto simp: proposition_source_dependencies_def Let_def)
qed

lemma passing_audits_indexed:
  "passing_audit_ids R pids = Inr aids \<Longrightarrow> a \<in> set aids \<Longrightarrow> indexed R (''SemanticAuditResult:'' @ a)"
proof (induction pids arbitrary: aids)
  case (Cons pid pids)
  then obtain audit ids where f: "filter (\<lambda>audit. target_id audit = pid) (semantic_audits R) = [audit]"
      and ids: "passing_audit_ids R pids = Inr ids" "aids = SemanticAuditResult.audit_id audit # ids"
    by (auto split: list.splits if_splits sum.splits)
  have "audit \<in> set (semantic_audits R)" using filter_single [OF f] ..
  then show ?case using Cons.IH [OF ids(1)] Cons.prems(2) ids(2) indexedI(11) by auto
qed simp

subsection \<open>Nothing a builder adds can be missing\<close>

text \<open>The keys of the records an invocation names itself.\<close>

fun named_keys :: "TaskInvocation \<Rightarrow> string list list" where
  "named_keys (ParseTask i) = []"
| "named_keys (ChallengeTask i) = [typed_dependency_keys ''Paper'' (CorpusChallengerInvocation.paper_ids i)]"
| "named_keys (CandidatesTask i) = [typed_dependency_keys ''ThemeRecord'' (GenerateCandidateClaimsInvocation.existing_theme_ids i)]"
| "named_keys (QueriesTask i) = [typed_dependency_keys ''CandidateClaim'' (GenerateRetrievalQueriesInvocation.claim_ids i)]"
| "named_keys (AssessEvidenceTask i) =
     [typed_dependency_keys ''CandidateClaim'' [AssessEvidenceIdentity.claim_id i],
      typed_dependency_keys ''RetrievalQuery'' [AssessEvidenceIdentity.query_id i],
      typed_dependency_keys ''RetrievedSpan'' (canonical_span_refs i)]"
| "named_keys (AggregateTask i) =
     [typed_dependency_keys ''CandidateClaim'' [AggregatePaperEvidenceInput.claim_id i],
      typed_dependency_keys ''Paper'' [AggregatePaperEvidenceInput.paper_id i],
      typed_dependency_keys ''EvidenceRecord'' (AggregatePaperEvidenceInput.evidence_ids i)]"
| "named_keys (AssessClaimTask i) =
     [typed_dependency_keys ''CandidateClaim'' [AssessClaimInput.claim_id i],
      typed_dependency_keys ''ClaimPaperEvidence'' (AssessClaimInput.claim_paper_evidence_ids i)]"
| "named_keys (ReviseClaimTask i) =
     [typed_dependency_keys ''CandidateClaim'' [ReviseClaimInput.claim_id i],
      typed_dependency_keys ''ClaimAssessment'' [ReviseClaimInput.claim_id i]]"
| "named_keys (FinalClaimTask i) =
     [typed_dependency_keys ''CandidateClaim'' [ValidateFinalClaimInvocation.claim_id i],
      typed_dependency_keys ''ClaimAssessment'' [ValidateFinalClaimInvocation.claim_id i]]"
| "named_keys (PropositionsTask i) =
     [typed_dependency_keys ''ClaimPacket'' (claim_packet_ids i),
      typed_dependency_keys ''CorpusFact'' (PropositionSourceSelection.corpus_fact_ids i),
      typed_dependency_keys ''ReviewProcessFact'' (PropositionSourceSelection.process_fact_ids i)]"
| "named_keys (AuditPropositionTask i) =
     [typed_dependency_keys ''ClaimPacket'' (claim_packet_ids i),
      typed_dependency_keys ''CorpusFact'' (PropositionSourceSelection.corpus_fact_ids i),
      typed_dependency_keys ''ReviewProcessFact'' (PropositionSourceSelection.process_fact_ids i)]"
| "named_keys (RenderTask i) = [typed_dependency_keys ''PropositionRecord'' (RenderProseInput.proposition_ids i)]"
| "named_keys (AuditSentenceTask i) =
     [typed_dependency_keys ''PropositionRecord'' (AcceptedRenderedSentenceDraftIdentity.source_proposition_ids i)]"

definition names_found :: "TaskInvocation \<Rightarrow> RepositorySnapshot \<Rightarrow> bool" where
  "names_found i R \<longleftrightarrow> (\<forall>g \<in> set (named_keys i). list_all (indexed R) g)"

lemma evidence_context_self:
  "set (typed_dependency_keys ''EvidenceRecord'' eids) \<subseteq> set (evidence_context_dependencies R eids pids)"
  "set (typed_dependency_keys ''Paper'' pids) \<subseteq> set (evidence_context_dependencies R eids pids)"
  by (simp_all add: evidence_context_dependencies_def Let_def del: set_typed_keys) (auto simp: image_Un)

lemma claim_context_self:
  "set (typed_dependency_keys ''ClaimPaperEvidence'' cids) \<subseteq> set (claim_evidence_context_dependencies R cids)"
  by (simp add: claim_evidence_context_dependencies_def Let_def del: set_typed_keys)

lemma list_keys: "map (\<lambda>i. m @ '':'' @ i) ids = keys \<Longrightarrow> set (typed_dependency_keys m ids) = set keys"
  by auto

lemma plain_keys:
  "set (typed_dependency_keys ''Paper'' ids) = set (map (\<lambda>p. ''Paper:'' @ p) ids)"
  "set (typed_dependency_keys ''ThemeRecord'' ids) = set (map (\<lambda>p. ''ThemeRecord:'' @ p) ids)"
  "set (typed_dependency_keys ''CandidateClaim'' ids) = set (map (\<lambda>p. ''CandidateClaim:'' @ p) ids)"
  by (rule list_keys; simp)+

text \<open>The keys the invocation names are among those of the builder.\<close>

lemma named_in_dependencies:
  assumes d: "task_dependencies i R = Inr keys" and g: "g \<in> set (named_keys i)"
  shows "set g \<subseteq> set keys"
proof (cases i)
  case (AggregateTask x)
  then show ?thesis
    using d g evidence_context_self [where R = R and eids = "AggregatePaperEvidenceInput.evidence_ids x" and pids = "[AggregatePaperEvidenceInput.paper_id x]"]
    by (auto simp: aggregate_paper_evidence_dependencies_def Let_def simp del: set_typed_keys split: if_splits)
next
  case (AssessClaimTask x)
  then show ?thesis
    using d g claim_context_self [of "AssessClaimInput.claim_paper_evidence_ids x" R]
    by (auto simp: assess_claim_dependencies_def Let_def simp del: set_typed_keys split: if_splits)
next
  case (RenderTask x)
  then show ?thesis
    using d g by (auto simp: passing_proposition_dependencies_def Let_def simp del: set_typed_keys split: if_splits sum.splits)
next
  case (AuditSentenceTask x)
  then show ?thesis
    using d g by (auto simp: passing_proposition_dependencies_def Let_def simp del: set_typed_keys split: if_splits sum.splits)
next
  case (AssessEvidenceTask x)
  then show ?thesis using d g by (auto simp: assess_evidence_dependencies_def Let_def simp del: set_typed_keys)
next
  case (ReviseClaimTask x)
  then show ?thesis using d g by (auto simp: post_assessment_claim_dependencies_def Let_def simp del: set_typed_keys)
next
  case (FinalClaimTask x)
  then show ?thesis using d g by (auto simp: post_assessment_claim_dependencies_def Let_def simp del: set_typed_keys)
next
  case (PropositionsTask x)
  then show ?thesis using d g by (auto simp: proposition_source_dependencies_def Let_def simp del: set_typed_keys)
next
  case (AuditPropositionTask x)
  then show ?thesis using d g by (auto simp: proposition_source_dependencies_def Let_def simp del: set_typed_keys)
qed (use d g in \<open>auto simp: corpus_challenger_dependencies_def generate_candidate_claims_dependencies_def claim_list_dependencies_def\<close>)

lemma aggregate_keys:
  assumes "aggregate_paper_evidence_dependencies i R = Inr keys" "names_found (AggregateTask i) R"
  shows "evidence_id ` {e \<in> set (evidence_records R). EvidenceRecord.claim_id e = AggregatePaperEvidenceInput.claim_id i \<and>
      EvidenceRecord.paper_id e = AggregatePaperEvidenceInput.paper_id i} = set (AggregatePaperEvidenceInput.evidence_ids i)"
    "keys = ordered_unique_dependencies [typed_dependency_keys ''CandidateClaim'' [AggregatePaperEvidenceInput.claim_id i],
       evidence_context_dependencies R (AggregatePaperEvidenceInput.evidence_ids i) [AggregatePaperEvidenceInput.paper_id i]]"
  using assms by (auto simp: aggregate_paper_evidence_dependencies_def Let_def names_found_def list_all_iff simp del: set_typed_keys split: if_splits)

lemma assess_claim_keys:
  assumes "assess_claim_dependencies i R = Inr keys" "names_found (AssessClaimTask i) R"
  shows "claim_cpes (claim_paper_evidence R) (AssessClaimInput.claim_id i) = set (AssessClaimInput.claim_paper_evidence_ids i)"
    "keys = ordered_unique_dependencies [typed_dependency_keys ''CandidateClaim'' [AssessClaimInput.claim_id i],
       claim_evidence_context_dependencies R (AssessClaimInput.claim_paper_evidence_ids i)]"
  using assms by (auto simp: assess_claim_dependencies_def claim_cpes_def Let_def names_found_def list_all_iff simp del: set_typed_keys split: if_splits)

lemma dependencies_indexed:
  assumes v: "valid_snapshot R" and c: "repository_contract R" and d: "task_dependencies i R = Inr keys"
    and n: "names_found i R" and k: "k \<in> set keys"
  shows "indexed R k"
proof -
  show ?thesis
  proof (cases i)
    case (AssessEvidenceTask x)
    have "indexed R (''RetrievalDisposition:'' @ sid)" if "sid \<in> set (canonical_span_refs x)" for sid
    proof -
      have "indexed R (''RetrievedSpan:'' @ sid)" using n that by (auto simp: AssessEvidenceTask names_found_def list_all_iff)
      from indexed_spanD [OF v this] span_keys_indexed(2) [OF c] show ?thesis by metis
    qed
    then show ?thesis
      using k d n span_keys_indexed [OF c] by (auto simp: AssessEvidenceTask names_found_def list_all_iff assess_evidence_dependencies_def Let_def)
  next
    case (AggregateTask x)
    note ks = aggregate_keys [of x R keys]
    have p: "set [AggregatePaperEvidenceInput.paper_id x] \<subseteq> Paper.paper_id ` set (papers R)"
      using indexed_paperD [OF v, of "AggregatePaperEvidenceInput.paper_id x"] n by (auto simp: AggregateTask names_found_def list_all_iff)
    have "set (AggregatePaperEvidenceInput.evidence_ids x) \<subseteq> evidence_id ` set (evidence_records R)"
      using ks(1) d n by (auto simp: AggregateTask)
    note around = evidence_context_indexed [OF c this p]
    show ?thesis
      using k d n ks(2) around by (auto simp: AggregateTask names_found_def list_all_iff)
  next
    case (AssessClaimTask x)
    note ks = assess_claim_keys [of x R keys]
    have "set (AssessClaimInput.claim_paper_evidence_ids x) \<subseteq> ClaimPaperEvidence.claim_paper_evidence_id ` set (claim_paper_evidence R)"
      using ks(1) d n by (auto simp: AssessClaimTask claim_cpes_def)
    note around = claim_evidence_context_indexed [OF c this]
    show ?thesis
      using k d n ks(2) around by (auto simp: AssessClaimTask names_found_def list_all_iff)
  next
    case (ReviseClaimTask x)
    then show ?thesis using k d n post_assessment_indexed [OF c, of k] by (auto simp: names_found_def list_all_iff)
  next
    case (FinalClaimTask x)
    then show ?thesis using k d n post_assessment_indexed [OF c, of k] by (auto simp: names_found_def list_all_iff)
  next
    case (PropositionsTask x)
    then show ?thesis using k d n proposition_source_indexed [OF c, of k x] by (auto simp: names_found_def list_all_iff)
  next
    case (AuditPropositionTask x)
    then show ?thesis using k d n proposition_source_indexed [OF c, of k x] by (auto simp: names_found_def list_all_iff)
  next
    case (RenderTask x)
    then show ?thesis
      using k d n passing_audits_indexed by (auto simp: names_found_def list_all_iff passing_proposition_dependencies_def Let_def split: if_splits sum.splits)
  next
    case (AuditSentenceTask x)
    then show ?thesis
      using k d n passing_audits_indexed by (auto simp: names_found_def list_all_iff passing_proposition_dependencies_def Let_def split: if_splits sum.splits)
  qed (use k d n in \<open>auto simp: names_found_def list_all_iff no_dependencies_def corpus_challenger_dependencies_def generate_candidate_claims_dependencies_def
      claim_list_dependencies_def\<close>)
qed

lemma dependencies_resolve_iff:
  assumes "valid_snapshot R" "repository_contract R" "task_dependencies i R = Inr keys"
  shows "list_all (indexed R) keys \<longleftrightarrow> names_found i R"
  using dependencies_indexed [OF assms] named_in_dependencies [OF assms(3)]
  by (auto simp: names_found_def list_all_iff)

lemma dependency_dict_total:
  "(\<exists>deps. dependency_dict D R keys d = Inr deps) \<longleftrightarrow> list_all (indexed R) keys"
proof (induction keys arbitrary: d)
  case (Cons k keys)
  then show ?case using dependency_hash_indexed [of D R k] by (cases "dependency_hash D R k") simp_all
qed simp

text \<open>
  What the builders refuse although the records exist: a selection that names a record twice or leaves
  out a current one, and propositions without exactly one audit that passes.
\<close>

definition audited :: "RepositorySnapshot \<Rightarrow> string \<Rightarrow> bool" where
  "audited R pid \<longleftrightarrow> (\<exists>audit. filter (\<lambda>a. SemanticAuditResult.target_id a = pid) (semantic_audits R) = [audit] \<and>
     derive_semantic_audit_disposition audit = AuditDisposition.PASS)"

fun selection_current :: "TaskInvocation \<Rightarrow> RepositorySnapshot \<Rightarrow> bool" where
  "selection_current (AggregateTask i) R \<longleftrightarrow>
     distinct (AggregatePaperEvidenceInput.evidence_ids i) \<and>
     set (AggregatePaperEvidenceInput.evidence_ids i) =
       evidence_id ` {e \<in> set (evidence_records R). EvidenceRecord.claim_id e = AggregatePaperEvidenceInput.claim_id i \<and>
         EvidenceRecord.paper_id e = AggregatePaperEvidenceInput.paper_id i}"
| "selection_current (AssessClaimTask i) R \<longleftrightarrow>
     distinct (AssessClaimInput.claim_paper_evidence_ids i) \<and>
     set (AssessClaimInput.claim_paper_evidence_ids i) =
       ClaimPaperEvidence.claim_paper_evidence_id ` {cpe \<in> set (claim_paper_evidence R). ClaimPaperEvidence.claim_id cpe = AssessClaimInput.claim_id i}"
| "selection_current (RenderTask i) R \<longleftrightarrow> list_all (audited R) (RenderProseInput.proposition_ids i)"
| "selection_current (AuditSentenceTask i) R \<longleftrightarrow>
     list_all (audited R) (AcceptedRenderedSentenceDraftIdentity.source_proposition_ids i)"
| "selection_current _ R \<longleftrightarrow> True"

lemma passing_audit_ids_iff: "(\<exists>ids. passing_audit_ids R pids = Inr ids) \<longleftrightarrow> list_all (audited R) pids"
proof (induction pids)
  case (Cons pid pids)
  let ?f = "filter (\<lambda>a. SemanticAuditResult.target_id a = pid) (semantic_audits R)"
  show ?case
  proof (cases "\<exists>audit. ?f = [audit]")
    case True
    then obtain audit where "?f = [audit]" by blast
    then show ?thesis using Cons.IH by (auto simp: audited_def split: sum.splits)
  next
    case False
    then have "\<not> audited R pid" by (auto simp: audited_def)
    then show ?thesis using False by (auto split: list.splits)
  qed
qed simp

lemma passing_propositions_iff:
  "list_all (indexed R) (typed_dependency_keys ''PropositionRecord'' ids) \<Longrightarrow>
    (\<exists>keys. passing_proposition_dependencies ids R = Inr keys) \<longleftrightarrow> list_all (audited R) ids"
proof -
  assume k: "list_all (indexed R) (typed_dependency_keys ''PropositionRecord'' ids)"
  have "list_all (audited R) (sort (fromkeys ids)) \<longleftrightarrow> list_all (audited R) ids" by (simp add: list_all_iff)
  then show ?thesis
    using k passing_audit_ids_iff [of R "sort (fromkeys ids)"]
    by (auto simp: passing_proposition_dependencies_def Let_def split: sum.splits)
qed

lemma builder_answers_iff:
  assumes n: "names_found i R"
  shows "(\<exists>keys. task_dependencies i R = Inr keys) \<longleftrightarrow> selection_current i R"
proof (cases i)
  case (AggregateTask x)
  then show ?thesis
    using n by (auto simp: names_found_def aggregate_paper_evidence_dependencies_def Let_def list_all_iff simp del: set_typed_keys)
next
  case (AssessClaimTask x)
  then show ?thesis
    using n by (auto simp: names_found_def assess_claim_dependencies_def Let_def list_all_iff simp del: set_typed_keys)
next
  case (RenderTask x)
  then show ?thesis using n passing_propositions_iff by (simp add: names_found_def)
next
  case (AuditSentenceTask x)
  then show ?thesis using n passing_propositions_iff by (simp add: names_found_def)
qed simp_all

text \<open>
  C22: When a task can be created. On an orderly store whose last version is a validated repository,
  with the builders of the task table, if the bundle itself can be built whatever the dependencies and
  resources, creating a task succeeds exactly if every record its invocation names is there, the
  selection is current - an aggregation or an assessment names each evidence record, or each paper's
  evidence, of its claim once and leaves none out, and the propositions to be rendered, or of a
  sentence to be audited, have exactly one audit each, which passes - and the resource requests can be
  built and are well-formed. No record that a builder adds for provenance can be missing.
\<close>

theorem task_creation_exact:
  assumes r: "represents (dumps_of P) s vs" "orderly s" and last: "last vs = (R, reg, rcs)"
    and w: "\<And>g deps requests. \<exists>b. built_bundle world g deps requests = Inr b"
  shows "(\<exists>b. create_task P (task_builders i) world s = Inr b) \<longleftrightarrow>
    names_found i R \<and> selection_current i R \<and>
    (\<exists>requests. task_resources i = Inr requests \<and> validate_resource_requests requests = None)"
proof -
  note R = represents_last [OF r(1) last]
  have c: "repository_contract R" using R(3) validate_repository_InrD by blast
  note load = represents_load(1) [OF r last]
  have w': "built_bundle world g deps requests \<noteq> Inl e" for g deps requests e using w [of g deps requests] by auto
  have deps: "(\<exists>keys d. task_dependencies i R = Inr keys \<and> dependency_dict (dumps_of P) R keys [] = Inr d) \<longleftrightarrow>
      names_found i R \<and> selection_current i R"
    using dependency_dict_total [of "dumps_of P" R _ "[]"] dependencies_resolve_iff [OF R(1) c] builder_answers_iff [of i R] by metis
  have "(\<exists>b. create_task P (task_builders i) world s = Inr b) \<longleftrightarrow>
      (\<exists>keys d requests. task_dependencies i R = Inr keys \<and> dependency_dict (dumps_of P) R keys [] = Inr d \<and>
         task_resources i = Inr requests \<and> validate_resource_requests requests = None)"
    using load w' by (auto simp: create_task_def task_builders_def split: sum.splits)
  then show ?thesis using deps by blast
qed

subsection \<open>The source chain of a claim\<close>

fun claim_of_task :: "TaskInvocation \<Rightarrow> string option" where
  "claim_of_task (AssessClaimTask i) = Some (AssessClaimInput.claim_id i)"
| "claim_of_task (ReviseClaimTask i) = Some (ReviseClaimInput.claim_id i)"
| "claim_of_task (FinalClaimTask i) = Some (ValidateFinalClaimInvocation.claim_id i)"
| "claim_of_task _ = None"

lemma typed_mem:
  "x \<in> set ids \<Longrightarrow> ''Paper:'' @ x \<in> set (typed_dependency_keys ''Paper'' ids)"
  "x \<in> set ids \<Longrightarrow> ''EvidenceRecord:'' @ x \<in> set (typed_dependency_keys ''EvidenceRecord'' ids)"
  "x \<in> set ids \<Longrightarrow> ''RetrievedSpan:'' @ x \<in> set (typed_dependency_keys ''RetrievedSpan'' ids)"
  "x \<in> set ids \<Longrightarrow> ''RetrievalDisposition:'' @ x \<in> set (typed_dependency_keys ''RetrievalDisposition'' ids)"
  "x \<in> set ids \<Longrightarrow> ''RetrievalQuery:'' @ x \<in> set (typed_dependency_keys ''RetrievalQuery'' ids)"
  "x \<in> set ids \<Longrightarrow> ''ClaimPaperEvidence:'' @ x \<in> set (typed_dependency_keys ''ClaimPaperEvidence'' ids)"
  by simp_all

lemma group_mem: "k \<in> set g \<Longrightarrow> g \<in> set gs \<Longrightarrow> k \<in> set (ordered_unique_dependencies gs)"
  by auto

lemma evidence_context_chain:
  assumes e: "e \<in> set (evidence_records R)" "evidence_id e \<in> set eids"
    and s: "s \<in> set (retrieved_spans R)" "RetrievedSpan.span_id s = retrieved_span_id e"
  shows "{''EvidenceRecord:'' @ evidence_id e, ''RetrievedSpan:'' @ RetrievedSpan.span_id s,
      ''RetrievalDisposition:'' @ RetrievedSpan.span_id s, ''RetrievalQuery:'' @ RetrievalMetadata.query_id (retrieval s),
      ''Paper:'' @ EvidenceRecord.paper_id e, ''Paper:'' @ RetrievedSpan.paper_id s} \<subseteq> set (evidence_context_dependencies R eids pids)"
proof -
  let ?E = "filter (\<lambda>item. evidence_id item \<in> set eids) (evidence_records R)"
  let ?S = "filter (\<lambda>item. RetrievedSpan.span_id item \<in> set (map retrieved_span_id ?E)) (retrieved_spans R)"
  let ?P = "pids @ map EvidenceRecord.paper_id ?E @ map RetrievedSpan.paper_id ?S"
  have "e \<in> set ?E" using e by simp
  then have s': "RetrievedSpan.span_id s \<in> set (map retrieved_span_id ?E)" using s(2) by auto
  then have S: "s \<in> set ?S" using s(1) by simp
  then have "RetrievalMetadata.query_id (retrieval s) \<in> set (map (\<lambda>item. RetrievalMetadata.query_id (retrieval item)) ?S)"
      "EvidenceRecord.paper_id e \<in> set ?P" "RetrievedSpan.paper_id s \<in> set ?P" using \<open>e \<in> set ?E\<close> by auto
  note ks = typed_mem(2) [OF e(2)] typed_mem(3) [OF s'] typed_mem(4) [OF s'] typed_mem(5) [OF this(1)] typed_mem(1) [OF this(2)] typed_mem(1) [OF this(3)]
  show ?thesis
    unfolding evidence_context_dependencies_def Let_def
    by (intro insert_subsetI empty_subsetI; rule group_mem; (rule ks)?; simp only: list.set insert_iff simp_thms)
qed

definition chain_keys :: "ClaimPaperEvidence \<Rightarrow> EvidenceRecord \<Rightarrow> RetrievedSpan \<Rightarrow> string set" where
  "chain_keys cpe e s = {''ClaimPaperEvidence:'' @ ClaimPaperEvidence.claim_paper_evidence_id cpe, ''EvidenceRecord:'' @ evidence_id e,
     ''RetrievedSpan:'' @ RetrievedSpan.span_id s, ''RetrievalDisposition:'' @ RetrievedSpan.span_id s,
     ''RetrievalQuery:'' @ RetrievalMetadata.query_id (retrieval s), ''Paper:'' @ EvidenceRecord.paper_id e, ''Paper:'' @ RetrievedSpan.paper_id s}"

lemma claim_context_chain:
  assumes k: "cpe \<in> set (claim_paper_evidence R)" "ClaimPaperEvidence.claim_paper_evidence_id cpe \<in> set cids"
    and e: "e \<in> set (evidence_records R)" "evidence_id e \<in> set (ClaimPaperEvidence.evidence_ids cpe)"
    and s: "s \<in> set (retrieved_spans R)" "RetrievedSpan.span_id s = retrieved_span_id e"
  shows "chain_keys cpe e s \<subseteq> set (claim_evidence_context_dependencies R cids)"
proof -
  let ?cpes = "filter (\<lambda>item. ClaimPaperEvidence.claim_paper_evidence_id item \<in> set cids) (claim_paper_evidence R)"
  have "evidence_id e \<in> set (concat (map ClaimPaperEvidence.evidence_ids ?cpes))" using k e(2) by auto
  note around = evidence_context_chain [OF e(1) this s, of "map ClaimPaperEvidence.paper_id ?cpes"]
  have "set (evidence_context_dependencies R (concat (map ClaimPaperEvidence.evidence_ids ?cpes)) (map ClaimPaperEvidence.paper_id ?cpes))
      \<subseteq> set (claim_evidence_context_dependencies R cids)"
    by (simp add: claim_evidence_context_dependencies_def Let_def)
  moreover have "''ClaimPaperEvidence:'' @ ClaimPaperEvidence.claim_paper_evidence_id cpe \<in> set (claim_evidence_context_dependencies R cids)"
    using subsetD [OF claim_context_self typed_mem(6) [OF k(2)]] .
  ultimately show ?thesis using around unfolding chain_keys_def by (intro insert_subsetI) (simp_all only: insert_subset; blast)+
qed

lemma claim_task_chain:
  assumes "claim_of_task i = Some cid" "task_dependencies i R = Inr keys" "names_found i R"
    and "cpe \<in> set (claim_paper_evidence R)" "ClaimPaperEvidence.claim_id cpe = cid"
    and "e \<in> set (evidence_records R)" "evidence_id e \<in> set (ClaimPaperEvidence.evidence_ids cpe)"
    and "s \<in> set (retrieved_spans R)" "RetrievedSpan.span_id s = retrieved_span_id e"
  shows "chain_keys cpe e s \<subseteq> set keys"
proof -
  note ch = claim_context_chain [OF assms(4) _ assms(6-9)]
  have m: "ClaimPaperEvidence.claim_paper_evidence_id cpe \<in> claim_cpes (claim_paper_evidence R) cid"
    using assms(4,5) by (auto simp: claim_cpes_def)
  show ?thesis
  proof (cases i)
    case (AssessClaimTask x)
    then show ?thesis using assms(1-3) assess_claim_keys [of x R keys] m ch [of "AssessClaimInput.claim_paper_evidence_ids x"] by auto
  qed (use assms(1,2) m ch [of "map ClaimPaperEvidence.claim_paper_evidence_id (filter (\<lambda>cpe. ClaimPaperEvidence.claim_id cpe = cid) (claim_paper_evidence R))"]
      in \<open>auto simp: post_assessment_claim_dependencies_def claim_cpes_def Let_def\<close>)
qed

lemma dependency_dict_keys:
  "dependency_dict D R keys d = Inr deps \<Longrightarrow> fst ` set deps = fst ` set d \<union> set keys"
proof (induction keys arbitrary: d)
  case (Cons k keys)
  then show ?case by (auto simp: dom_update split: option.splits)
qed simp

text \<open>
  C15: A claim is judged on the evidence it is committed with. A task that assesses, revises or finally
  validates a claim records the hash of every record of the claim's source chain: its CPEs, their
  evidence records, the retrieved spans, their dispositions, queries and papers. If the stale check
  of the commit passes on a later repository, each of these records has there the hash it had when
  the task was created.
\<close>

theorem claim_chain_unchanged:
  assumes "claim_of_task i = Some cid" and "task_dependencies i R = Inr keys" and "dependency_dict D R keys [] = Inr deps"
    and "stale_dependency D R' deps = None"
    and "cpe \<in> set (claim_paper_evidence R)" and "ClaimPaperEvidence.claim_id cpe = cid"
    and "e \<in> set (evidence_records R)" and "evidence_id e \<in> set (ClaimPaperEvidence.evidence_ids cpe)"
    and "s \<in> set (retrieved_spans R)" and "RetrievedSpan.span_id s = retrieved_span_id e"
    and "key \<in> chain_keys cpe e s"
  shows "dependency_hash D R key \<noteq> None \<and> dependency_hash D R' key = dependency_hash D R key"
proof -
  have ix: "list_all (indexed R) keys" using dependency_dict_total assms(3) by blast
  then have "names_found i R"
    using named_in_dependencies [OF assms(2)] by (auto simp: names_found_def list_all_iff)
  from claim_task_chain [OF assms(1,2) this assms(5-10)] assms(11) have "key \<in> set keys" by blast
  then obtain h where "(key, h) \<in> set deps" using dependency_dict_keys [OF assms(3)] by force
  moreover have "\<forall>(k, h) \<in> set deps. dependency_hash D R k = Some h"
    by (rule dependency_dict_fresh [OF assms(3)]) simp
  moreover have "\<forall>(k, h) \<in> set deps. dependency_hash D R' k = Some h"
    using assms(4) by (simp add: stale_dependency_None)
  ultimately show ?thesis by fastforce
qed

end
