(* ===== verification/VR_Tasks_Correct.thy ===== *)
theory VR_Tasks_Correct
  imports VR_Tasks VR_Specs_Correct
begin

section \<open>What the task workspace guarantees\<close>

text \<open>
  Task directories are new; the integrity check lets a directory tree pass exactly when it holds no
  link and its files have the expected hashes; and canonical keys consist of characters that make
  safe file names.
\<close>

subsection \<open>Task identifiers\<close>

lemma task_number_pad: "task_number (''TASK'' @ pad_str 4 n) = Some n"
proof -
  have "pad_str 4 n \<noteq> []" using length_pad_str_ge [of 4 n] by auto
  then show ?thesis
    by (simp add: task_number_def pad_str_digits str_nat_pad_str removeprefix_append [of "''TASK''", simplified] starts_with_def)
qed

lemma fold_maximum_ge:
  "m \<le> fold (\<lambda>name maximum. case f name of None \<Rightarrow> maximum | Some n \<Rightarrow> max maximum n) names (m :: nat)"
proof (induction names arbitrary: m)
  case (Cons name names)
  have "m \<le> (case f name of None \<Rightarrow> m | Some n \<Rightarrow> max m n)" by (simp split: option.split)
  from order_trans [OF this Cons.IH] show ?case by simp
qed simp

lemma fold_maximum:
  "name \<in> set names \<Longrightarrow> f name = Some k \<Longrightarrow>
    k \<le> fold (\<lambda>name maximum. case f name of None \<Rightarrow> maximum | Some n \<Rightarrow> max maximum n) names (m :: nat)"
proof (induction names arbitrary: m)
  case (Cons x names)
  then show ?case
    using fold_maximum_ge [of "max m k" f names] by auto
qed simp

text \<open>
  A task gets a directory of its own. The identifier that is allocated next to the existing
  entries of the tasks directory is well-formed and is the name of none of them.
\<close>

theorem task_directory_fresh:
  "is_TaskId (allocate_task_id names) \<and> allocate_task_id names \<notin> set names"
proof
  show "is_TaskId (allocate_task_id names)"
    unfolding is_TaskId_def tagged_iff digits_at_least_def allocate_task_id_def
    by (intro exI conjI, rule refl, rule length_pad_str_ge, rule pad_str_digits)
  show "allocate_task_id names \<notin> set names"
  proof
    assume "allocate_task_id names \<in> set names"
    from fold_maximum [OF this, of task_number _ 0] show False
      by (simp add: allocate_task_id_def task_number_pad [simplified])
  qed
qed

subsection \<open>The integrity check\<close>

definition file_hash_at :: "Tree \<Rightarrow> string \<Rightarrow> string option" where
  "file_hash_at t p = (case map_of t p of Some (FileEntry content) \<Rightarrow> Some (hash_file content) | _ \<Rightarrow> None)"

lemma file_hashes_simps [simp]:
  "file_hashes [] = []"
  "file_hashes ((p, FileEntry content) # t) = (p, hash_file content) # file_hashes t"
  "file_hashes ((p, SymlinkEntry target) # t) = file_hashes t"
  "file_hashes ((p, DirectoryEntry) # t) = file_hashes t"
  "file_hashes ((p, OtherEntry) # t) = file_hashes t"
  by (simp_all add: file_hashes_def)

lemma file_hashes_keys: "fst ` set (file_hashes t) \<subseteq> fst ` set t"
proof (induction t)
  case (Cons x t)
  then show ?case by (cases x; cases "snd x") auto
qed simp

lemma map_of_file_hashes: "distinct (map fst t) \<Longrightarrow> map_of (file_hashes t) p = file_hash_at t p"
proof (induction t)
  case (Cons x t)
  have "p = fst x \<Longrightarrow> map_of (file_hashes t) p = None"
    using Cons.prems file_hashes_keys [of t] by (auto simp: map_of_eq_None_iff)
  then show ?case using Cons by (cases x; cases "snd x") (auto simp: file_hash_at_def)
qed (simp add: file_hash_at_def)

lemma distinct_file_hashes: "distinct (map fst t) \<Longrightarrow> distinct (map fst (file_hashes t))"
proof (induction t)
  case (Cons x t)
  then show ?case using file_hashes_keys [of t] by (cases x; cases "snd x") auto
qed simp

lemma sorted_tree_props [simp]:
  "set (sorted_tree t) = set t" "distinct (map fst (sorted_tree t)) \<longleftrightarrow> distinct (map fst t)"
  by (simp_all add: sorted_tree_def distinct_map)

lemma map_of_sorted_tree: "distinct (map fst t) \<Longrightarrow> map_of (sorted_tree t) = map_of t"
  by (rule map_of_inject_set [THEN iffD2]) simp_all

lemma file_hash_at_sorted: "distinct (map fst t) \<Longrightarrow> file_hash_at (sorted_tree t) p = file_hash_at t p"
  by (simp add: file_hash_at_def map_of_sorted_tree)

lemma sort_Nil_iff: "sort xs = [] \<longleftrightarrow> xs = []"
  by (metis set_sort set_empty)

lemma verify_immutable_tree_None:
  assumes "distinct (map fst t)"
  shows "verify_immutable_tree t expected = None \<longleftrightarrow> list_all (\<lambda>x. \<not> is_symlink x) t \<and> (\<forall>p. file_hash_at t p = map_of expected p)"
proof -
  let ?actual = "file_hashes (sorted_tree t)"
  have a: "map_of ?actual p = file_hash_at t p" for p
    using assms by (simp add: map_of_file_hashes file_hash_at_sorted)
  have l: "find is_symlink (sorted_tree t) = None \<longleftrightarrow> list_all (\<lambda>x. \<not> is_symlink x) t"
    by (auto simp: find_None_iff list_all_iff)
  have dom: "p \<in> set (map fst d) \<longleftrightarrow> map_of d p \<noteq> None" for p and d :: "(string \<times> 'v) list"
    by (simp add: map_of_eq_None_iff)
  define missing where "missing = filter (\<lambda>p. p \<notin> set (map fst ?actual)) (map fst expected)"
  define extra where "extra = filter (\<lambda>p. p \<notin> set (map fst expected)) (map fst ?actual)"
  define changed where "changed = filter (\<lambda>p. p \<in> set (map fst ?actual) \<and> map_of expected p \<noteq> map_of ?actual p) (map fst expected)"
  note parts = missing_def extra_def changed_def
  have r: "missing = [] \<and> extra = [] \<and> changed = [] \<longleftrightarrow> (\<forall>p. map_of ?actual p = map_of expected p)" (is "?l \<longleftrightarrow> ?r")
  proof
    assume ?l
    then have l: "\<And>p. p \<in> set (map fst expected) \<Longrightarrow> p \<in> set (map fst ?actual)" "\<And>p. p \<in> set (map fst ?actual) \<Longrightarrow> p \<in> set (map fst expected)"
        "\<And>p. p \<in> set (map fst expected) \<Longrightarrow> p \<in> set (map fst ?actual) \<Longrightarrow> map_of expected p = map_of ?actual p"
      unfolding parts filter_empty_conv by blast+
    show ?r
    proof
      fix p
      show "map_of ?actual p = map_of expected p"
        using l [of p] unfolding dom by (cases "map_of expected p"; cases "map_of ?actual p") auto
    qed
  next
    assume r: ?r
    have m: "p \<in> set (map fst ?actual) \<longleftrightarrow> p \<in> set (map fst expected)" for p unfolding dom using r by simp
    have "set (map fst ?actual) = set (map fst expected)" using m by blast
    then show ?l unfolding parts filter_empty_conv by (simp add: r del: set_map)
  qed
  have "verify_immutable_tree t expected =
      (case find is_symlink (sorted_tree t) of
         Some (p, _) \<Rightarrow> Some (UnexpectedSymlink p)
       | None \<Rightarrow> if missing \<noteq> [] \<or> extra \<noteq> [] \<or> changed \<noteq> [] then Some (IntegrityMismatch (sort missing) (sort extra) (sort changed)) else None)"
    unfolding verify_immutable_tree_def Let_def parts [symmetric] sort_Nil_iff ..
  then show ?thesis using l r unfolding a by (cases "find is_symlink (sorted_tree t)") auto
qed

subsection \<open>Characters of canonical keys\<close>

definition ident_char :: "char \<Rightarrow> bool" where
  "ident_char c \<longleftrightarrow> safe_key_char c \<and> c \<noteq> CHR ''_'' \<and> c \<noteq> CHR '':''"

lemma digit_ident: "is_digit c \<Longrightarrow> ident_char c"
  by (auto simp: ident_char_def safe_key_char_def is_digit_def)

lemma ident_chars [simp]:
  "ident_char (CHR ''A'')" "ident_char (CHR ''B'')" "ident_char (CHR ''C'')" "ident_char (CHR ''D'')" "ident_char (CHR ''E'')"
  "ident_char (CHR ''F'')" "ident_char (CHR ''H'')" "ident_char (CHR ''L'')" "ident_char (CHR ''M'')" "ident_char (CHR ''N'')"
  "ident_char (CHR ''O'')" "ident_char (CHR ''P'')" "ident_char (CHR ''Q'')" "ident_char (CHR ''R'')" "ident_char (CHR ''S'')"
  "ident_char (CHR ''T'')" "ident_char (CHR ''U'')" "ident_char (CHR ''-'')"
  by (simp_all add: ident_char_def safe_key_char_def is_alpha_def)

lemma tagged_ident:
  assumes "tagged p ok s" "\<And>t. ok t \<Longrightarrow> list_all is_digit t" "list_all ident_char p"
  shows "list_all ident_char s"
proof -
  from assms(1) obtain t where "s = p @ t" "ok t" by (auto simp: tagged_def starts_with_iff)
  with assms(2,3) show ?thesis by (auto simp: list_all_iff dest: digit_ident)
qed

lemma tagged_id_ident:
  "is_ThemeId s \<Longrightarrow> list_all ident_char s" "is_PaperId s \<Longrightarrow> list_all ident_char s" "is_ClaimId s \<Longrightarrow> list_all ident_char s"
  "is_SpanId s \<Longrightarrow> list_all ident_char s" "is_EvidenceId s \<Longrightarrow> list_all ident_char s" "is_CorpusFactId s \<Longrightarrow> list_all ident_char s"
  "is_ProcessFactId s \<Longrightarrow> list_all ident_char s" "is_PropositionId s \<Longrightarrow> list_all ident_char s"
  "is_SemanticAuditId s \<Longrightarrow> list_all ident_char s" "is_SentenceId s \<Longrightarrow> list_all ident_char s"
  "is_SentenceAuditId s \<Longrightarrow> list_all ident_char s"
  unfolding is_ThemeId_def is_PaperId_def is_ClaimId_def is_SpanId_def is_EvidenceId_def is_CorpusFactId_def
    is_ProcessFactId_def is_PropositionId_def is_SemanticAuditId_def is_SentenceId_def is_SentenceAuditId_def
  by (erule tagged_ident; simp add: digits_exactly_def digits_at_least_def)+

lemma is_QueryId_ident: "is_QueryId s \<Longrightarrow> list_all ident_char s"
proof -
  assume "is_QueryId s"
  then obtain code ordinal where "query_match s = Some (code, ordinal)" by (auto simp: is_QueryId_def)
  from query_match_inverse [OF this] obtain claim where q: "is_ClaimId claim" "s = query_id_text claim code ordinal"
      "list_all is_digit ordinal" "code \<in> fst ` set QUERY_INTENT_CODES" by blast
  moreover have "list_all ident_char code" using q(4) by (auto simp: QUERY_INTENT_CODES_def)
  moreover have "list_all ident_char ordinal" using q(3) by (auto simp: list_all_iff dest: digit_ident)
  ultimately show ?thesis
    using tagged_id_ident(3) [OF q(1)] by (simp add: query_id_text_def)
qed

lemma is_ClaimPaperEvidenceId_ident: "is_ClaimPaperEvidenceId s \<Longrightarrow> list_all ident_char s"
proof -
  assume i: "is_ClaimPaperEvidenceId s"
  then have l: "length s = 15" and t: "take 4 s = ''CPE-''" and c: "is_ClaimId (take 5 (drop 4 s))"
    and n: "s ! 9 = CHR ''-''" and p: "is_PaperId (drop 10 s)" by (simp_all add: is_ClaimPaperEvidenceId_def)
  have s: "s = take 4 s @ take 5 (drop 4 s) @ [s ! 9] @ drop 10 s"
    using l by (simp add: numeral_eq_Suc length_Suc_conv) (elim exE conjE, simp)
  show ?thesis
    by (subst s, unfold list_all_append) (simp add: t n tagged_id_ident(2) [OF p] tagged_id_ident(3) [OF c])
qed

lemma canonical_id_kind:
  assumes "valid_snapshot R" "v \<in> set (VR_Repository.canonical_objects R)"
  shows "\<exists>kind \<in> {is_ThemeId, is_PaperId, is_ClaimId, is_QueryId, is_SpanId, is_EvidenceId, is_ClaimPaperEvidenceId, is_CorpusFactId,
      is_ProcessFactId, is_PropositionId, is_SemanticAuditId, is_SentenceId, is_SentenceAuditId}. kind (object_id v)"
    by (cases v; use assms in \<open>auto simp: valid_snapshot_def list_all_iff valid_ThemeRecord_def valid_CandidateClaim_def valid_RetrievalQuery_def
          valid_RetrievedSpan_def valid_RetrievalDisposition_def valid_EvidenceRecord_def valid_ClaimPaperEvidence_def
          valid_ClaimAssessment_def valid_FinalClaimValidation_def valid_ClaimPacket_def valid_CorpusFact_def
          valid_ReviewProcessFact_def valid_PropositionRecord_def valid_SemanticAuditResult_def
          valid_RenderedSentence_def valid_RenderedSentenceAudit_def dest: valid_Paper_id\<close>)

lemma canonical_id_ident:
  assumes "valid_snapshot R" "v \<in> set (VR_Repository.canonical_objects R)"
  shows "list_all ident_char (object_id v)"
  using canonical_id_kind [OF assms] by (auto dest: tagged_id_ident is_QueryId_ident is_ClaimPaperEvidenceId_ident)

definition plain_key :: "string \<Rightarrow> bool" where
  "plain_key key \<longleftrightarrow> key \<noteq> [] \<and> list_all safe_key_char key \<and> CHR ''_'' \<notin> set key"

lemma ident_plain: "list_all ident_char s \<Longrightarrow> list_all safe_key_char s \<and> CHR ''_'' \<notin> set s"
  by (auto simp: list_all_iff ident_char_def)

lemma canonical_id_nonempty: "valid_snapshot R \<Longrightarrow> v \<in> set (VR_Repository.canonical_objects R) \<Longrightarrow> object_id v \<noteq> []"
  by (drule (1) canonical_id_kind)
    (auto simp: is_ThemeId_def is_PaperId_def is_ClaimId_def is_SpanId_def is_EvidenceId_def is_CorpusFactId_def is_ProcessFactId_def
      is_PropositionId_def is_SemanticAuditId_def is_SentenceId_def is_SentenceAuditId_def tagged_def starts_with_def is_QueryId_def
      query_match_def is_ClaimPaperEvidenceId_def)

lemma type_name_plain: "list_all ident_char (type_name v)"
  by (cases v) (simp_all add: ident_char_def safe_key_char_def is_alpha_def)

lemma indexed_plain:
  assumes "valid_snapshot R" "indexed R key"
  shows "plain_key key"
proof -
  obtain v where v: "v \<in> set (VR_Repository.canonical_objects R)" "key = object_id v \<or> key = typed_key v"
    using assms(2) by (auto simp: indexed_iff)
  note i = ident_plain [OF canonical_id_ident [OF assms(1) v(1)]] ident_plain [OF type_name_plain [of v]] canonical_id_nonempty [OF assms(1) v(1)]
  have "safe_key_char (CHR '':'')" by (simp add: safe_key_char_def)
  then show ?thesis using v(2) i by (auto simp: plain_key_def typed_key_def)
qed

end
