(* ===== verification/VR_Tasks_Bundle.thy ===== *)
theory VR_Tasks_Bundle
  imports VR_Tasks_Correct
begin

section \<open>What a task bundle holds\<close>

text \<open>
  No file of a bundle is written over another one, and the bundle holds the records and the resources
  it was built from; the integrity check lets a directory tree pass exactly when its files are those
  of the bundle; the freshness check of the commit compares the sources with the bytes in the bundle.
\<close>

subsection \<open>Paths in a bundle\<close>

lemma split_on_plain: "c \<notin> set s \<Longrightarrow> split_on c s = [s]"
proof -
  assume "c \<notin> set s"
  then have "dropWhile (\<lambda>x. x \<noteq> c) s = []" "takeWhile (\<lambda>x. x \<noteq> c) s = s" by (auto simp: dropWhile_eq_Nil_conv takeWhile_eq_all_conv)
  then show ?thesis by (subst split_on.simps) simp
qed

lemma split_on_append: "c \<notin> set s \<Longrightarrow> split_on c (s @ c # t) = s # split_on c t"
proof -
  assume "c \<notin> set s"
  then have "dropWhile (\<lambda>x. x \<noteq> c) (s @ c # t) = c # t" "takeWhile (\<lambda>x. x \<noteq> c) (s @ c # t) = s"
    by (auto simp: dropWhile_append3) (subst takeWhile_append2, auto)
  then show ?thesis by (subst split_on.simps) simp
qed

lemma safe_name_chars: "list_all safe_key_char key \<Longrightarrow> CHR ''/'' \<notin> set (safe_name key)"
  by (auto simp: safe_name_def list_all_iff safe_key_char_def is_alpha_def is_digit_def)

lemma safe_name_inj: "CHR ''_'' \<notin> set k \<Longrightarrow> CHR ''_'' \<notin> set l \<Longrightarrow> safe_name k = safe_name l \<Longrightarrow> k = l"
proof (induction k arbitrary: l)
  case Nil
  then show ?case by (cases l) (auto simp: safe_name_def split: if_splits)
next
  case (Cons c k)
  then show ?case by (cases l) (auto simp: safe_name_def split: if_splits)
qed

lemma safe_name_underscores:
  "CHR ''_'' \<notin> set k \<Longrightarrow> even (length (filter (\<lambda>c. c = CHR ''_'') (safe_name k)))"
  by (induction k) (auto simp: safe_name_def)

lemma dependency_path_inj: "plain_key k \<Longrightarrow> plain_key l \<Longrightarrow> dependency_path k = dependency_path l \<Longrightarrow> k = l"
  using safe_name_inj [of k l] by (simp add: dependency_path_def plain_key_def)

lemma last_part_dependency: "plain_key k \<Longrightarrow> last_part (dependency_path k) \<noteq> ''bundle_manifest.json''"
proof
  assume k: "plain_key k" and l: "last_part (dependency_path k) = ''bundle_manifest.json''"
  have "CHR ''/'' \<notin> set (safe_name k @ ''.json'')" using k safe_name_chars by (simp add: plain_key_def)
  then have "last_part (dependency_path k) = safe_name k @ ''.json''"
    using split_on_append [of "CHR ''/''" "''input''" "''dependencies/'' @ safe_name k @ ''.json''"]
      split_on_append [of "CHR ''/''" "''dependencies''" "safe_name k @ ''.json''"] split_on_plain [of "CHR ''/''" "safe_name k @ ''.json''"]
    by (simp add: last_part_def dependency_path_def)
  with l have "safe_name k = ''bundle_manifest''" by (simp add: append_eq_append_conv [where us = "''.json''" and vs = "''.json''"])
  then show False using safe_name_underscores [of k] k by (simp add: plain_key_def)
qed

lemma update_new: "k \<notin> fst ` set d \<Longrightarrow> AList.update k v d = d @ [(k, v)]"
  by (induction d) auto

lemma fold_update_new:
  "distinct (map fst (d @ xs)) \<Longrightarrow> fold (\<lambda>(p, content). AList.update p content) xs d = d @ xs"
proof (induction xs arbitrary: d)
  case (Cons x xs)
  then have "AList.update (fst x) (snd x) d = d @ [x]" by (simp add: update_new)
  then show ?case using Cons.IH [of "d @ [x]"] Cons.prems by (simp add: case_prod_beta)
qed simp

definition resource_path :: "TaskResourceRequest \<Rightarrow> string" where
  "resource_path q =
     ''input/resources/'' @ TaskResourceRequest.resource_id q @ ''/content'' @ dict_get MEDIA_EXTENSIONS (TaskResourceRequest.media_type q) []"

text \<open>What the snapshot of a request is.\<close>

definition snapshot_meets :: "SourceTree \<Rightarrow> PyPath list \<Rightarrow> TaskResourceRequest \<Rightarrow> Snapshot \<Rightarrow> bool" where
  "snapshot_meets F roots q x \<longleftrightarrow>
     is_ResourceId (TaskResourceRequest.resource_id q) \<and> TaskResourceRequest.media_type q \<in> fst ` set MEDIA_EXTENSIONS \<and>
     (\<exists>p r. resolve_source F roots q = Inr p \<and> source_read F p = Some r \<and> verify_source_stability r \<and>
        snapshot_file x = (resource_path q, concat (read_chunks r)) \<and>
        snapshot_provenance x = \<lparr>ResourceProvenance.resource_id = TaskResourceRequest.resource_id q, ResourceProvenance.source_path = p,
          source_hash_at_snapshot = hash_bytes (concat (read_chunks r)), snapshot_hash = hash_bytes (concat (read_chunks r))\<rparr>)"

lemma snapshot_resource_meets: "snapshot_resource F roots q = Inr x \<Longrightarrow> snapshot_meets F roots q x"
  by (auto dest: map_of_SomeD intro: rev_image_eqI simp: snapshot_resource_def snapshot_meets_def Let_def resource_destination_def path_join_def relative_path_def
      bundle_file_path_def resource_path_def dict_get_def split: sum.splits option.splits if_splits)

lemma snapshot_resources_meet: "snapshot_resources F roots qs = Inr xs \<Longrightarrow> list_all2 (snapshot_meets F roots) qs xs"
proof (induction qs arbitrary: xs)
  case (Cons q qs)
  then show ?case by (auto dest: snapshot_resource_meets split: sum.splits)
qed simp

lemma resource_path_inj:
  assumes "is_ResourceId (TaskResourceRequest.resource_id q)" "is_ResourceId (TaskResourceRequest.resource_id q')"
    and "resource_path q = resource_path q'"
  shows "TaskResourceRequest.resource_id q = TaskResourceRequest.resource_id q'"
proof -
  have "takeWhile (\<lambda>c. c \<noteq> CHR ''/'') (drop 16 (resource_path q)) = TaskResourceRequest.resource_id q"
    if "is_ResourceId (TaskResourceRequest.resource_id q)" for q
    using is_ResourceId_segment [OF that] by (simp add: resource_path_def is_segment_def) (subst takeWhile_append2, auto)
  from this [OF assms(1)] this [OF assms(2)] assms(3) show ?thesis by simp
qed

lemma snapshot_files_distinct:
  assumes "list_all2 (snapshot_meets F roots) qs xs" "distinct (map TaskResourceRequest.resource_id qs)"
  shows "distinct (map (fst \<circ> snapshot_file) xs)"
proof -
  have "map (fst \<circ> snapshot_file) xs = map resource_path qs"
    using assms(1) by induction (auto simp: snapshot_meets_def)
  moreover have "list_all (\<lambda>q. is_ResourceId (TaskResourceRequest.resource_id q)) qs"
    using assms(1) by induction (auto simp: snapshot_meets_def)
  then have "inj_on resource_path (set qs)"
    unfolding inj_on_def list_all_iff using resource_path_inj distinct_map_eqD [OF assms(2)] by blast
  ultimately show ?thesis using assms(2) by (simp add: distinct_map)
qed

text \<open>The files of the dependencies.\<close>

definition dependency_file :: "TaskTexts \<Rightarrow> RepositorySnapshot \<Rightarrow> string \<Rightarrow> string \<times> string" where
  "dependency_file T R key = (dependency_path key, object_text T (the (map_of (object_index R) key)) @ [CHR 0x0A])"

lemma write_dependencies_indexed:
  "write_dependencies T R ks files es = Inr out \<Longrightarrow> k \<in> set ks \<Longrightarrow> indexed R k"
  by (induction ks arbitrary: files es) (auto simp: indexed_def Let_def split: if_splits option.splits)

lemma write_dependencies_files:
  assumes "write_dependencies T R ks files es = Inr (files', es')" "distinct ks" "\<forall>k \<in> set ks. plain_key k"
    and "\<forall>k \<in> set ks. dependency_path k \<notin> fst ` set files"
  shows "files' = files @ map (dependency_file T R) ks"
  using assms
proof (induction ks arbitrary: files es)
  case (Cons k ks)
  then obtain v where v: "map_of (object_index R) k = Some v"
      "write_dependencies T R ks (AList.update (dependency_path k) (object_text T v @ [CHR 0x0A]) files)
        (es @ [JObject ((''key'', JString k) # path_and_hash (AList.update (dependency_path k) (object_text T v @ [CHR 0x0A]) files)
          (dependency_path k))]) = Inr (files', es')"
    by (auto simp: Let_def split: if_splits option.splits)
  have new: "AList.update (dependency_path k) (object_text T v @ [CHR 0x0A]) files = files @ [dependency_file T R k]"
    using Cons.prems(4) v(1) by (simp add: update_new dependency_file_def)
  have "\<forall>l \<in> set ks. dependency_path l \<notin> fst ` set (files @ [dependency_file T R k])"
    using Cons.prems by (auto simp: dependency_file_def dest: dependency_path_inj)
  from Cons.IH [OF v(2) [unfolded new] _ _ this] Cons.prems(2,3) show ?case by simp
qed simp

text \<open>The whole bundle, in the order it is written.\<close>

definition bundle_files :: "TaskTexts \<Rightarrow> RepositorySnapshot \<Rightarrow> TaskType \<Rightarrow> string \<Rightarrow> EngineInput \<Rightarrow> Snapshot list \<Rightarrow> string list \<Rightarrow> Json \<Rightarrow> BundleFiles" where
  "bundle_files T R t prompt x snaps ks manifest =
     map snapshot_file snaps @ fixed_files T t prompt x @ map (dependency_file T R) ks @ [(''bundle_manifest.json'', json_file manifest)]"

definition bundle_path :: "string \<Rightarrow> bool" where
  "bundle_path p \<longleftrightarrow>
     p \<in> {''input/input.json'', ''instructions.md'', ''contracts/input.schema.json'', ''contracts/proposal.schema.json'', ''bundle_manifest.json''} \<or>
     (\<exists>k. plain_key k \<and> p = dependency_path k) \<or>
     (\<exists>rid ext. is_ResourceId rid \<and> ext \<in> snd ` set MEDIA_EXTENSIONS \<and> p = ''input/resources/'' @ rid @ ''/content'' @ ext)"

lemma create_bundle_InrD:
  assumes "create_bundle T F roots i R tid g deps qs = Inr (files, prov)" "valid_snapshot R" "distinct (map fst deps)"
  obtains snaps prompt x manifest where
    "list_all2 (snapshot_meets F roots) qs snaps" "distinct (map TaskResourceRequest.resource_id qs)"
    "engine_input i (map snapshot_resource_of snaps) = Inr x" "prompt_text T (invocation_type i) = Some prompt"
    "\<forall>k \<in> fst ` set deps. indexed R k" "distinct (map fst files)"
    "files = bundle_files T R (invocation_type i) prompt x snaps (map fst deps) manifest"
    "prov = build_provenance tid (invocation_type i) g deps files snaps"
proof -
  from assms(1) obtain snaps x prompt body es where
    v: "validate_resource_requests qs = None" "snapshot_resources F roots qs = Inr snaps"
      "engine_input i (map snapshot_resource_of snaps) = Inr x" "prompt_text T (invocation_type i) = Some prompt"
      "write_dependencies T R (map fst deps) (first_files T (invocation_type i) prompt x snaps) [] = Inr (body, es)"
    and f: "files = AList.update ''bundle_manifest.json''
        (json_file (bundle_manifest (invocation_type i) body es (map snapshot_resource_of snaps))) body"
    and p: "prov = build_provenance tid (invocation_type i) g deps files snaps"
    by (auto simp: create_bundle_def Let_def split: option.splits sum.splits)
  note meets = snapshot_resources_meet [OF v(2)]
  have d: "distinct (map TaskResourceRequest.resource_id qs)" using v(1) by (simp add: validate_resource_requests_def validate_requests_loop_None)
  note ix = write_dependencies_indexed [OF v(5)]
  then have plain: "\<forall>k \<in> set (map fst deps). plain_key k" using indexed_plain [OF assms(2)] by blast
  have paths: "map (fst \<circ> snapshot_file) snaps = map resource_path qs"
    using meets by induction (auto simp: snapshot_meets_def)
  note sd = snapshot_files_distinct [OF meets d]
  let ?fixed = "fixed_files T (invocation_type i) prompt x"
  have snap_paths: "fst ` snapshot_file ` set snaps = resource_path ` set qs"
    using arg_cong [OF paths, of set] by (simp add: image_image)
  have apart_resource: "resource_path q \<notin> fst ` set ?fixed" "resource_path q \<noteq> dependency_path k" "resource_path q \<noteq> ''bundle_manifest.json''" for q k
    by (simp_all add: fixed_files_def resource_path_def dependency_path_def)
  have "set (map fst (map snapshot_file snaps)) \<inter> set (map fst ?fixed) = {}"
    unfolding set_map snap_paths using apart_resource(1) by blast
  moreover have "distinct (map fst ?fixed)" by (simp add: fixed_files_def)
  ultimately have first_distinct: "distinct (map fst (map snapshot_file snaps @ ?fixed))"
    using sd by (simp only: map_append distinct_append map_map comp_assoc simp_thms)
  then have first: "first_files T (invocation_type i) prompt x snaps = map snapshot_file snaps @ ?fixed"
    using fold_update_new [of "[]"] by (simp only: first_files_def append_Nil)
  have "dependency_path k \<notin> fst ` set ?fixed" for k by (simp add: fixed_files_def dependency_path_def)
  then have apart: "dependency_path k \<notin> fst ` set (map snapshot_file snaps @ ?fixed)" for k
    unfolding set_append set_map image_Un snap_paths using apart_resource(2) by (metis UnE imageE)
  have body: "body = map snapshot_file snaps @ ?fixed @ map (dependency_file T R) (map fst deps)"
    using write_dependencies_files [OF v(5) assms(3) plain] apart plain unfolding first by simp
  have body_distinct: "distinct (map fst body)"
  proof -
    have "distinct (map (fst \<circ> dependency_file T R) (map fst deps))"
      by (rule distinct_map [THEN iffD2])
        (use assms(3) plain in \<open>auto simp: inj_on_def dependency_file_def dest: dependency_path_inj\<close>)
    moreover have "map fst (map (dependency_file T R) (map fst deps)) = map dependency_path (map fst deps)"
      by (simp add: dependency_file_def)
    then have "set (map fst (map snapshot_file snaps @ ?fixed)) \<inter> set (map fst (map (dependency_file T R) (map fst deps))) = {}"
    proof (intro equals0I, elim IntE)
      fix p assume p: "p \<in> set (map fst (map snapshot_file snaps @ ?fixed))"
        and "p \<in> set (map fst (map (dependency_file T R) (map fst deps)))"
      then have "p \<in> dependency_path ` fst ` set deps" by (simp add: dependency_file_def image_image)
      then obtain k where "p = dependency_path k" by (elim imageE)
      then show False using apart p by (simp only: set_map not_True_eq_False)
    qed
    ultimately have "distinct (map fst ((map snapshot_file snaps @ ?fixed) @ map (dependency_file T R) (map fst deps)))"
      using first_distinct by (simp only: map_append [of fst "map snapshot_file snaps @ ?fixed"] distinct_append map_map comp_assoc simp_thms)
    then show ?thesis by (simp only: body append_assoc)
  qed
  define m where "m = ''bundle_manifest.json''"
  have m: "m \<notin> fst ` set ?fixed" "m \<noteq> dependency_path k" "m \<noteq> resource_path q" for k q
    by (simp_all add: m_def fixed_files_def dependency_path_def resource_path_def)
  have "m \<notin> fst ` set body"
    unfolding body set_append set_map image_Un snap_paths by (auto simp: dependency_file_def m simp del: set_map)
  then have "''bundle_manifest.json'' \<notin> fst ` set body" by (simp only: m_def not_False_eq_True)
  from update_new [OF this] have files: "files = body @ [(''bundle_manifest.json'',
      json_file (bundle_manifest (invocation_type i) body es (map snapshot_resource_of snaps)))]" unfolding f .
  have "distinct (map fst (body @ [(name, content)]))" if "name \<notin> fst ` set body" for name and content :: string
    using body_distinct that by simp
  then have "distinct (map fst files)" unfolding files using \<open>''bundle_manifest.json'' \<notin> fst ` set body\<close> .
  moreover have "files = bundle_files T R (invocation_type i) prompt x snaps (map fst deps)
      (bundle_manifest (invocation_type i) body es (map snapshot_resource_of snaps))"
    unfolding files bundle_files_def by (simp only: body append_assoc)
  ultimately
  show thesis using that meets d v(3,4) ix p by (metis set_map)
qed

subsection \<open>The tree of a bundle\<close>

lemma bundle_path_dependency: "plain_key k \<Longrightarrow> bundle_path (dependency_path k)"
  unfolding bundle_path_def by (rule disjI2, rule disjI1, rule exI) simp

lemma bundle_path_resource:
  "is_ResourceId rid \<Longrightarrow> ext \<in> snd ` set MEDIA_EXTENSIONS \<Longrightarrow> bundle_path (''input/resources/'' @ rid @ ''/content'' @ ext)"
  unfolding bundle_path_def by (rule disjI2, rule disjI2, rule exI [of _ rid], rule exI [of _ ext]) simp

lemma bundle_path_manifest: "bundle_path ''bundle_manifest.json''"
  unfolding bundle_path_def by (rule disjI1) simp

lemma bundle_files_paths:
  assumes "list_all2 (snapshot_meets F roots) qs snaps" "\<forall>k \<in> set ks. plain_key k"
    and "(p, content) \<in> set (bundle_files T R t prompt x snaps ks manifest)"
  shows "bundle_path p"
proof -
  have "list_all (\<lambda>s. bundle_path (fst (snapshot_file s))) snaps"
    using assms(1)
  proof induction
    case (Cons q qs s snaps)
    then obtain ext where "map_of MEDIA_EXTENSIONS (TaskResourceRequest.media_type q) = Some ext"
      using weak_map_of_SomeI by (fastforce simp: snapshot_meets_def)
    then have "dict_get MEDIA_EXTENSIONS (TaskResourceRequest.media_type q) [] = ext" "ext \<in> snd ` set MEDIA_EXTENSIONS"
      by (auto simp: dict_get_def dest: map_of_SomeD intro: rev_image_eqI)
    then have "bundle_path (resource_path q)"
      unfolding resource_path_def using Cons.hyps(1) by (intro bundle_path_resource) (simp_all add: snapshot_meets_def)
    then show ?case using Cons by (auto simp: snapshot_meets_def)
  qed simp
  note snaps = this
  have fixed: "bundle_path q" if "q \<in> fst ` set (fixed_files T t prompt x)" for q
    using that by (auto simp: fixed_files_def bundle_path_def)
  consider "(p, content) \<in> snapshot_file ` set snaps" | "(p, content) \<in> set (fixed_files T t prompt x)"
    | k where "k \<in> set ks" "(p, content) = dependency_file T R k" | "p = ''bundle_manifest.json''"
    using assms(3) unfolding bundle_files_def by auto
  then show ?thesis
  proof cases
    case 1
    then obtain s where "s \<in> set snaps" "fst (snapshot_file s) = p" by (metis imageE fst_conv)
    then show ?thesis using snaps by (auto simp: list_all_iff)
  next
    case 2
    from rev_image_eqI [OF this, of p fst] fixed show ?thesis by simp
  next
    case 3
    then show ?thesis using assms(2) bundle_path_dependency by (simp add: dependency_file_def)
  qed (simp only: bundle_path_manifest)
qed

lemma fixed_path_dirs:
  "parent_dirs ''input/input.json'' = [''input'']" "parent_dirs ''instructions.md'' = []" "parent_dirs ''bundle_manifest.json'' = []"
  "parent_dirs ''contracts/input.schema.json'' = [''contracts'']" "parent_dirs ''contracts/proposal.schema.json'' = [''contracts'']"
  by code_simp+

lemma dependency_path_dirs:
  assumes "plain_key k"
  shows "parent_dirs (dependency_path k) = [''input'', ''input/dependencies'']"
proof -
  have "CHR ''/'' \<notin> set (safe_name k @ ''.json'')" using assms safe_name_chars by (simp add: plain_key_def)
  then have "split_on (CHR ''/'') (dependency_path k) = [''input'', ''dependencies'', safe_name k @ ''.json'']"
    using split_on_append [of "CHR ''/''" "''input''" "''dependencies/'' @ safe_name k @ ''.json''"]
      split_on_append [of "CHR ''/''" "''dependencies''" "safe_name k @ ''.json''"] split_on_plain [of "CHR ''/''" "safe_name k @ ''.json''"]
    by (simp add: dependency_path_def)
  then show ?thesis by (simp add: parent_dirs_def path_parts_def dependency_path_def upt_rec [of 1] upt_rec [of 2])
qed

lemma resource_path_parts:
  assumes "is_ResourceId rid" "ext \<in> snd ` set MEDIA_EXTENSIONS"
  shows "split_on (CHR ''/'') (''input/resources/'' @ rid @ ''/content'' @ ext) = [''input'', ''resources'', rid, ''content'' @ ext]"
proof -
  have r: "CHR ''/'' \<notin> set rid" "CHR ''/'' \<notin> set (''content'' @ ext)"
    using is_ResourceId_segment [OF assms(1)] assms(2) by (auto simp: is_segment_def MEDIA_EXTENSIONS_def)
  show ?thesis
    using split_on_append [of "CHR ''/''" "''input''" "''resources/'' @ rid @ ''/content'' @ ext"]
      split_on_append [of "CHR ''/''" "''resources''" "rid @ ''/content'' @ ext"]
      split_on_append [OF r(1), of "''content'' @ ext"] split_on_plain [OF r(2)] by simp
qed

lemma resource_path_dirs:
  assumes "is_ResourceId rid" "ext \<in> snd ` set MEDIA_EXTENSIONS"
  shows "parent_dirs (''input/resources/'' @ rid @ ''/content'' @ ext) = [''input'', ''input/resources'', ''input/resources/'' @ rid]"
  using resource_path_parts [OF assms] by (simp add: parent_dirs_def path_parts_def upt_rec [of 1] upt_rec [of 2] upt_rec [of 3])

text \<open>Files have a dot in their paths, directories do not.\<close>

lemma bundle_path_dots:
  assumes "bundle_path p"
  shows "CHR ''.'' \<in> set p \<and> (\<forall>d \<in> set (parent_dirs p). CHR ''.'' \<notin> set d) \<and>
    (last_part p = ''bundle_manifest.json'' \<longleftrightarrow> p = ''bundle_manifest.json'')"
  using assms unfolding bundle_path_def
proof (elim disjE exE conjE)
  assume "p \<in> {''input/input.json'', ''instructions.md'', ''contracts/input.schema.json'', ''contracts/proposal.schema.json'', ''bundle_manifest.json''}"
  moreover have "last_part ''input/input.json'' = ''input.json''" "last_part ''instructions.md'' = ''instructions.md''"
      "last_part ''contracts/input.schema.json'' = ''input.schema.json''" "last_part ''contracts/proposal.schema.json'' = ''proposal.schema.json''"
      "last_part ''bundle_manifest.json'' = ''bundle_manifest.json''" by code_simp+
  ultimately show ?thesis by (elim insertE emptyE) (simp_all add: fixed_path_dirs)
next
  fix k assume k: "plain_key k" "p = dependency_path k"
  show ?thesis using last_part_dependency [OF k(1)] by (simp add: k(2) dependency_path_dirs [OF k(1)]) (simp add: dependency_path_def)
next
  fix rid ext assume r: "is_ResourceId rid" "ext \<in> snd ` set MEDIA_EXTENSIONS" "p = ''input/resources/'' @ rid @ ''/content'' @ ext"
  have "CHR ''.'' \<notin> set rid" using r(1) by (fastforce simp: is_ResourceId_def tagged_iff digits_at_least_def list_all_iff is_digit_def)
  moreover have "CHR ''.'' \<in> set ext" using r(2) by (auto simp: MEDIA_EXTENSIONS_def)
  ultimately show ?thesis unfolding r(3) last_part_def resource_path_dirs [OF r(1,2)] resource_path_parts [OF r(1,2)] by simp
qed

lemma map_of_map_snd: "map_of (map (\<lambda>(p, content). (p, f content)) xs) q = map_option f (map_of xs q)"
  by (induction xs) auto

lemma bundle_tree_distinct:
  assumes "distinct (map fst files)" "\<forall>p \<in> fst ` set files. bundle_path p"
  shows "distinct (map fst (bundle_tree files))"
proof -
  let ?dirs = "fromkeys ([''contracts'', ''input'', ''input/dependencies'', ''input/resources''] @ concat (map (parent_dirs \<circ> fst) files))"
  have "map fst (bundle_tree files) = map fst files @ ?dirs" by (simp add: bundle_tree_def comp_def case_prod_beta del: fromkeys.simps)
  moreover have "CHR ''.'' \<in> set p" if "p \<in> set (map fst files)" for p using that assms(2) bundle_path_dots by auto
  moreover have "CHR ''.'' \<notin> set d" if "d \<in> set ?dirs" for d
    using that assms(2) bundle_path_dots by (fastforce simp del: fromkeys.simps)
  ultimately show ?thesis using assms(1) by (auto simp del: fromkeys.simps)
qed

lemma bundle_tree_files:
  assumes "distinct (map fst files)" "\<forall>p \<in> fst ` set files. bundle_path p"
  shows "file_hash_at (bundle_tree files) q = map_option hash_file (map_of files q)"
proof -
  have "map_of (map (\<lambda>d. (d, DirectoryEntry)) ds) q \<in> {None, Some DirectoryEntry}" for ds by (induction ds) auto
  then show ?thesis
    using bundle_tree_distinct [OF assms]
    by (cases "map_of files q") (force simp: file_hash_at_def bundle_tree_def map_of_map_snd map_add_def split: option.splits)+
qed

lemma map_of_filter_pair: "map_of (filter (\<lambda>(p, _). P p) xs) q = (if P q then map_of xs q else None)"
  by (induction xs) auto

lemma expected_files:
  assumes "distinct (map fst files)" "\<forall>p \<in> fst ` set files. bundle_path p" "''bundle_manifest.json'' \<in> fst ` set files"
  shows "map_of (expected_immutable_map (build_provenance tid t g deps files snaps)) q = map_option hash_file (map_of files q)"
proof -
  define m where "m = ''bundle_manifest.json''"
  have e: "map_of (expected_immutable files) q = (if last_part q \<noteq> m then map_option hash_file (map_of files q) else None)" for q
    using assms bundle_tree_distinct [OF assms(1,2)]
    by (simp add: expected_immutable_def map_of_filter_pair map_of_file_hashes file_hash_at_sorted bundle_tree_files m_def)
  have "map_of (expected_immutable_map (build_provenance tid t g deps files snaps)) q =
      (if q = m then Some (file_hash files m) else map_of (expected_immutable files) q)"
    by (simp add: expected_immutable_map_def build_provenance_def Let_def update_conv m_def)
  moreover have "last_part q = m \<longleftrightarrow> q = m" if "map_of files q \<noteq> None"
  proof -
    have "bundle_path q" using that assms(2) by (force dest: map_of_SomeD)
    then show ?thesis using bundle_path_dots by (simp add: m_def)
  qed
  moreover obtain content where "map_of files m = Some content"
    using assms(3) by (metis m_def map_of_eq_None_iff option.exhaust)
  ultimately show ?thesis by (cases "map_of files q") (auto simp: e file_hash_def dict_get_def)
qed

lemma created_paths:
  assumes "create_bundle T F roots i R tid g deps qs = Inr (files, prov)" "valid_snapshot R" "distinct (map fst deps)"
  shows "distinct (map fst files)" "\<forall>p \<in> fst ` set files. bundle_path p" "''bundle_manifest.json'' \<in> fst ` set files"
proof -
  from create_bundle_InrD [OF assms] obtain snaps prompt x manifest where
    m: "list_all2 (snapshot_meets F roots) qs snaps" and ix: "\<forall>k \<in> fst ` set deps. indexed R k" and d: "distinct (map fst files)"
    and f: "files = bundle_files T R (invocation_type i) prompt x snaps (map fst deps) manifest" by metis
  have "\<forall>k \<in> set (map fst deps). plain_key k" using ix indexed_plain [OF assms(2)] by simp
  from bundle_files_paths [OF m this] show "\<forall>p \<in> fst ` set files. bundle_path p" unfolding f by fastforce
  show "distinct (map fst files)" by fact
  show "''bundle_manifest.json'' \<in> fst ` set files" unfolding f bundle_files_def set_append image_Un by simp
qed

lemma created_verify:
  assumes "create_bundle T F roots i R tid g deps qs = Inr (files, prov)" "valid_snapshot R" "distinct (map fst deps)"
  shows "distinct (map fst t) \<Longrightarrow> verify_workspace prov t = None \<longleftrightarrow>
      list_all (\<lambda>x. \<not> is_symlink x) t \<and> (\<forall>p. file_hash_at t p = map_option hash_file (map_of files p))"
    and "distinct (map fst (bundle_tree files)) \<and> verify_workspace prov (bundle_tree files) = None"
proof -
  note paths = created_paths [OF assms]
  from create_bundle_InrD [OF assms] obtain snaps where p: "prov = build_provenance tid (invocation_type i) g deps files snaps" by metis
  note e = expected_files [OF paths, of tid "invocation_type i" g deps snaps, folded p]
  show iff: "verify_workspace prov t = None \<longleftrightarrow>
      list_all (\<lambda>x. \<not> is_symlink x) t \<and> (\<forall>p. file_hash_at t p = map_option hash_file (map_of files p))" if "distinct (map fst t)" for t
    using that by (simp add: verify_workspace_def verify_immutable_tree_None e)
  have "list_all (\<lambda>x. \<not> is_symlink x) (bundle_tree files)" by (auto simp: bundle_tree_def list_all_iff)
  then show "distinct (map fst (bundle_tree files)) \<and> verify_workspace prov (bundle_tree files) = None"
    using bundle_tree_distinct [OF paths(1,2)] iff [of "bundle_tree files"] bundle_tree_files [OF paths(1,2)] by blast
qed

text \<open>
  C10: The integrity check knows the bundle. A bundle that was created for a well-formed repository
  passes the check, and another directory tree passes it exactly when it holds no symbolic link and
  has files at the same paths, each with the same hash as in the bundle: a file that is changed,
  removed or added is noticed, an added empty directory is not.
\<close>

theorem bundle_integrity_exact:
  assumes "create_bundle T F roots i R tid g deps qs = Inr (files, prov)" and "valid_snapshot R" and "distinct (map fst deps)"
    and "distinct (map fst t)"
  shows "verify_workspace prov (bundle_tree files) = None \<and>
    (verify_workspace prov t = None \<longleftrightarrow>
       list_all (\<lambda>x. \<not> is_symlink x) t \<and> (\<forall>p. file_hash_at t p = map_option hash_file (map_of files p)))"
  using created_verify(1) [OF assms] created_verify(2) [OF assms(1-3)] by blast

text \<open>
  C11: A bundle holds what the task was built from. No file is written over another one: beside the
  five fixed files there is one for each dependency, with the text of the record the repository has
  under its key, and one for each resource, with the bytes of one stable reading of a regular file
  below an allowed root.
\<close>

theorem bundle_complete:
  assumes "create_bundle T F roots i R tid g deps qs = Inr (files, prov)" and "valid_snapshot R" and "distinct (map fst deps)"
  shows "distinct (map fst files) \<and> length files = 5 + length deps + length qs \<and>
    (\<forall>(key, h) \<in> set deps. \<exists>v. map_of (object_index R) key = Some v \<and>
       map_of files (dependency_path key) = Some (object_text T v @ [CHR 0x0A])) \<and>
    (\<forall>q \<in> set qs. \<exists>p r. resolve_source F roots q = Inr p \<and> source_read F p = Some r \<and> verify_source_stability r \<and>
       map_of files (resource_path q) = Some (concat (read_chunks r)))"
proof -
  from create_bundle_InrD [OF assms] obtain snaps prompt x manifest where
    m: "list_all2 (snapshot_meets F roots) qs snaps" and ix: "\<forall>k \<in> fst ` set deps. indexed R k" and d: "distinct (map fst files)"
    and f: "files = bundle_files T R (invocation_type i) prompt x snaps (map fst deps) manifest" by metis
  have mem: "map_of files p = Some c" if "(p, c) \<in> set files" for p c using d that by simp
  have "length files = 5 + length deps + length qs" using list_all2_lengthD [OF m] by (simp add: f bundle_files_def fixed_files_def)
  moreover have "\<exists>v. map_of (object_index R) key = Some v \<and> map_of files (dependency_path key) = Some (object_text T v @ [CHR 0x0A])"
    if "(key, h) \<in> set deps" for key h
  proof -
    have "indexed R key" using ix that by force
    then obtain v where v: "map_of (object_index R) key = Some v" by (auto simp: indexed_def)
    have "key \<in> fst ` set deps" using that by (rule rev_image_eqI) simp
    then have "dependency_file T R key \<in> set files" unfolding f bundle_files_def set_append set_map
      by (intro UnI2 UnI1 imageI)
    then show ?thesis using v mem by (simp add: dependency_file_def)
  qed
  moreover have "\<exists>p r. resolve_source F roots q = Inr p \<and> source_read F p = Some r \<and> verify_source_stability r \<and>
       map_of files (resource_path q) = Some (concat (read_chunks r))" if q: "q \<in> set qs" for q
  proof -
    obtain j where j: "j < length qs" "qs ! j = q" using q by (auto simp: in_set_conv_nth)
    then have s: "snaps ! j \<in> set snaps" "snapshot_meets F roots q (snaps ! j)"
      using list_all2_nthD [OF m j(1)] list_all2_lengthD [OF m] by simp_all
    have "snapshot_file (snaps ! j) \<in> set files" using s(1) by (simp add: f bundle_files_def)
    then show ?thesis using s(2) mem by (auto simp: snapshot_meets_def)
  qed
  ultimately show ?thesis using d by blast
qed

definition fresh_resource :: "SourceFiles \<Rightarrow> ResourceProvenance \<Rightarrow> bool" where
  "fresh_resource now r \<longleftrightarrow>
     (\<exists>content. now (ResourceProvenance.source_path r) = Some content \<and> hash_file content = source_hash_at_snapshot r)"

lemma require_fresh_None: "require_fresh_resources now rs = None \<longleftrightarrow> (\<forall>r \<in> set rs. fresh_resource now r)"
  by (induction rs) (auto simp: fresh_resource_def split: option.splits)

text \<open>
  C12: The freshness check compares the sources with the bundle. For a created task it passes exactly
  when each source can still be read where it was resolved and has the hash of the file that the
  bundle holds for it.
\<close>

theorem source_freshness_exact:
  assumes "create_bundle T F roots i R tid g deps qs = Inr (files, prov)" and "valid_snapshot R" and "distinct (map fst deps)"
  shows "require_fresh_resources now (TaskBundle.resources prov) = None \<longleftrightarrow>
    (\<forall>q \<in> set qs. \<exists>p source copy. resolve_source F roots q = Inr p \<and> now p = Some source \<and>
       map_of files (resource_path q) = Some copy \<and> hash_file source = hash_file copy)"
proof -
  from create_bundle_InrD [OF assms] obtain snaps prompt x manifest where
    m: "list_all2 (snapshot_meets F roots) qs snaps" and d: "distinct (map fst files)"
    and f: "files = bundle_files T R (invocation_type i) prompt x snaps (map fst deps) manifest"
    and p: "prov = build_provenance tid (invocation_type i) g deps files snaps" by metis
  have mem: "map_of files (resource_path q) = Some (snd (snapshot_file s))" if "s \<in> set snaps" "snapshot_meets F roots q s" for q s
  proof -
    have "snapshot_file s \<in> set files" using that(1) by (simp add: f bundle_files_def)
    then show ?thesis using d that(2) by (auto simp: snapshot_meets_def)
  qed
  have each: "fresh_resource now (snapshot_provenance s) \<longleftrightarrow>
      (\<exists>p source copy. resolve_source F roots q = Inr p \<and> now p = Some source \<and>
         map_of files (resource_path q) = Some copy \<and> hash_file source = hash_file copy)"
    if "s \<in> set snaps" "snapshot_meets F roots q s" for q s
    using mem [OF that] that(2) by (auto simp: snapshot_meets_def fresh_resource_def hash_file_def)
  have "require_fresh_resources now (TaskBundle.resources prov) = None \<longleftrightarrow> (\<forall>s \<in> set snaps. fresh_resource now (snapshot_provenance s))"
    by (simp add: require_fresh_None p build_provenance_def Let_def)
  also have "\<dots> \<longleftrightarrow> (\<forall>q \<in> set qs. \<exists>p source copy. resolve_source F roots q = Inr p \<and> now p = Some source \<and>
       map_of files (resource_path q) = Some copy \<and> hash_file source = hash_file copy)"
    unfolding all_set_conv_all_nth list_all2_lengthD [OF m]
    by (intro all_cong1 imp_cong refl each nth_mem list_all2_nthD2 [OF m])
  finally show ?thesis .
qed

subsection \<open>The workspace of an attempt\<close>

text \<open>
  An attempt whose workspace is the tree \<open>before\<close> when the attempt starts and \<open>after\<close> when the engine has
  answered: what the kernel asks of it are the two runs of \<open>verify_workspace\<close>.
\<close>

definition workspace_seen :: "TaskProvenance \<Rightarrow> Tree \<Rightarrow> Tree \<Rightarrow> Attempt \<Rightarrow> bool" where
  "workspace_seen prov before after a \<longleftrightarrow>
     (workspace_intact a \<longleftrightarrow> verify_workspace prov before = None) \<and>
     (workspace_issue a = None \<longleftrightarrow> verify_workspace prov after = None)"

lemma produced_workspace: "attempt_verdict ctx e aid a cached = Produced raw p \<Longrightarrow> workspace_issue a = None"
  by (auto simp: attempt_verdict_def executed_verdict_def workspace_failure_def Let_def split: option.splits if_splits)

lemma run_attempt_produced:
  assumes "run_attempt ctx e aid a rs s = (s', Done result)" "commit_performed result"
  shows "workspace_intact a \<and> workspace_issue a = None"
  using assms
  by (auto simp: run_attempt_def Let_def failed_result_def split: if_splits sum.splits EngineVerdict.splits dest: produced_workspace)

text \<open>
  C9: Only an untouched workspace commits. If an attempt ends with a commit, then before and after the
  engine ran its workspace held no link and exactly the files of the bundle, each with the hash it
  has there: the proposal answers the task that was built, whoever wrote into the workspace.
\<close>

theorem commit_needs_untouched_workspace:
  assumes "create_bundle T F roots i R tid g deps qs = Inr (files, prov)" and "valid_snapshot R" and "distinct (map fst deps)"
    and "distinct (map fst before)" and "distinct (map fst after)" and "workspace_seen prov before after a"
    and "run_attempt ctx e aid a rs s = (s', Done result)" and "commit_performed result"
  shows "\<forall>t \<in> {before, after}. list_all (\<lambda>x. \<not> is_symlink x) t \<and> (\<forall>p. file_hash_at t p = map_option hash_file (map_of files p))"
proof -
  from run_attempt_produced [OF assms(7,8)] assms(6) have "verify_workspace prov before = None" "verify_workspace prov after = None"
    by (simp_all add: workspace_seen_def)
  then show ?thesis using created_verify(1) [OF assms(1-3)] assms(4,5) by blast
qed

end
