(* ===== verification/VR_Specs_Scope.thy ===== *)
theory VR_Specs_Scope
  imports VR_Specs_Correct
begin

section \<open>Dependency scope, engine inputs and executable tasks\<close>

text \<open>
  The parts of the table fit together: the scope check of a validator never rejects what the builder
  of the same task collected, the input of the engine can be built from the resources the task asked
  for, and the tasks that run without an adapter are those whose handlers exist.
\<close>

subsection \<open>The scope check\<close>

lemma scope_Some: "require_dependency_scope (Some keys) k what = None \<longleftrightarrow> k \<in> set keys"
  by (simp add: require_dependency_scope_def)

lemma scope_None [simp]: "require_dependency_scope None k what = None"
  by (simp add: require_dependency_scope_def)

lemma claim_key: "''CandidateClaim:'' @ cid \<in> set (typed_dependency_keys ''CandidateClaim'' [cid])"
  "''ClaimAssessment:'' @ cid \<in> set (typed_dependency_keys ''ClaimAssessment'' [cid])"
  by simp_all

lemma aggregate_scope:
  assumes n: "names_found (AggregateTask x) R" and d: "aggregate_paper_evidence_dependencies x R = Inr keys"
    and p: "ClaimPaperEvidenceProposal.claim_ref p = AggregatePaperEvidenceInput.claim_id x"
      "ClaimPaperEvidenceProposal.paper_ref p = AggregatePaperEvidenceInput.paper_id x"
  shows "validate_claim_paper_evidence p R (Some keys) = None \<longleftrightarrow> validate_claim_paper_evidence p R None = None"
proof -
  let ?cid = "AggregatePaperEvidenceInput.claim_id x" and ?pid = "AggregatePaperEvidenceInput.paper_id x"
    and ?ids = "AggregatePaperEvidenceInput.evidence_ids x"
  have keys: "keys = ordered_unique_dependencies [typed_dependency_keys ''CandidateClaim'' [?cid], evidence_context_dependencies R ?ids [?pid]]"
    and ids: "complete_evidence_refs R ?cid ?pid = set ?ids"
    using aggregate_keys [OF d n] by (simp_all add: complete_evidence_refs_def)
  have c: "''CandidateClaim:'' @ ?cid \<in> set keys" unfolding keys by (rule group_mem [OF claim_key(1)]) simp
  have q: "''Paper:'' @ ?pid \<in> set keys"
    unfolding keys by (rule group_mem [OF subsetD [OF evidence_context_self(2) [of "[?pid]" R ?ids] typed_mem(1)]]) simp_all
  have e: "''EvidenceRecord:'' @ eid \<in> set keys" if "eid \<in> set ?ids" for eid
    unfolding keys by (rule group_mem [OF subsetD [OF evidence_context_self(1) [of ?ids R "[?pid]"] typed_mem(2) [OF that]]]) simp
  show ?thesis
  proof (cases "set (evidence_refs p) = set ?ids")
    case True
    have "first_error (evidence_ref_issue R (Some keys)) (evidence_refs p) = None \<longleftrightarrow>
        first_error (evidence_ref_issue R None) (evidence_refs p) = None"
      using e True by (auto simp: first_error_None evidence_ref_issue_def scope_Some)
    then show ?thesis using c q by (simp add: validate_claim_paper_evidence_def Let_def p scope_Some)
  next
    case False
    then show ?thesis by (simp add: validate_claim_paper_evidence_def Let_def p ids)
  qed
qed

lemma final_scope:
  assumes p: "FinalClaimValidationProposal.claim_ref p = cid"
  shows "validate_final_claim p R (Some (post_assessment_claim_dependencies cid R)) invocation = None \<longleftrightarrow>
    validate_final_claim p R None invocation = None"
proof -
  let ?cpes = "map ClaimPaperEvidence.claim_paper_evidence_id (filter (\<lambda>cpe. ClaimPaperEvidence.claim_id cpe = cid) (claim_paper_evidence R))"
  let ?keys = "post_assessment_claim_dependencies cid R"
  have keys: "?keys = ordered_unique_dependencies [typed_dependency_keys ''CandidateClaim'' [cid],
      typed_dependency_keys ''ClaimAssessment'' [cid], claim_evidence_context_dependencies R ?cpes]"
    by (simp add: post_assessment_claim_dependencies_def Let_def)
  have c: "''CandidateClaim:'' @ cid \<in> set ?keys" "''ClaimAssessment:'' @ cid \<in> set ?keys"
    unfolding keys by (rule group_mem [OF claim_key(1)], simp, rule group_mem [OF claim_key(2)], simp)
  have k: "''ClaimPaperEvidence:'' @ kid \<in> set ?keys" if "kid \<in> set ?cpes" for kid
    unfolding keys by (rule group_mem [OF subsetD [OF claim_context_self [of ?cpes R] typed_mem(6) [OF that]]]) simp
  have rel: "final_relation_issue R (Some ?keys) cid relation = None \<longleftrightarrow> final_relation_issue R None cid relation = None" for relation
  proof (cases "by_last ClaimPaperEvidence.claim_paper_evidence_id (claim_paper_evidence R)
      (FinalPaperRelationProposal.claim_paper_evidence_ref relation)")
    case None
    then show ?thesis by (simp add: final_relation_issue_def Let_def)
  next
    case (Some cpe)
    have "FinalPaperRelationProposal.claim_paper_evidence_ref relation \<in> set ?cpes" if "ClaimPaperEvidence.claim_id cpe = cid"
      using by_last_SomeD [OF Some] that by (auto intro!: rev_image_eqI [of cpe])
    then show ?thesis
      using Some k [of "FinalPaperRelationProposal.claim_paper_evidence_ref relation"]
      by (simp add: final_relation_issue_def Let_def scope_Some) blast
  qed
  then show ?thesis using c by (simp add: validate_final_claim_def Let_def p scope_Some rel split: option.split)
qed

text \<open>
  C23: The dependency scope of a task never stands in the way of a proposal about the task's own claim.
  With the keys that the builder of the table collects, the acceptance check of a claim-paper
  evidence, claim assessment or final claim proposal for the claim (and paper) of the invocation lets
  a proposal pass exactly when it would pass with no scope at all.
\<close>

theorem dependency_scope_complete:
  assumes n: "names_found i R" and d: "task_dependencies i R = Inr keys"
  shows "case i of
      AggregateTask x \<Rightarrow> \<forall>p. ClaimPaperEvidenceProposal.claim_ref p = AggregatePaperEvidenceInput.claim_id x \<and>
          ClaimPaperEvidenceProposal.paper_ref p = AggregatePaperEvidenceInput.paper_id x \<longrightarrow>
          (validate_claim_paper_evidence p R (Some keys) = None \<longleftrightarrow> validate_claim_paper_evidence p R None = None)
    | AssessClaimTask x \<Rightarrow> \<forall>p. ClaimAssessmentProposal.claim_ref p = AssessClaimInput.claim_id x \<longrightarrow>
          (validate_claim_assessment p R (Some keys) = None \<longleftrightarrow> validate_claim_assessment p R None = None)
    | FinalClaimTask x \<Rightarrow> \<forall>p invocation. FinalClaimValidationProposal.claim_ref p = ValidateFinalClaimInvocation.claim_id x \<longrightarrow>
          (validate_final_claim p R (Some keys) invocation = None \<longleftrightarrow> validate_final_claim p R None invocation = None)
    | _ \<Rightarrow> True"
proof (cases i)
  case (AggregateTask x)
  then show ?thesis using aggregate_scope [of x R keys] n d by simp
next
  case (AssessClaimTask x)
  have keys: "keys = ordered_unique_dependencies [typed_dependency_keys ''CandidateClaim'' [AssessClaimInput.claim_id x],
       claim_evidence_context_dependencies R (AssessClaimInput.claim_paper_evidence_ids x)]"
    using assess_claim_keys(2) [of x R keys] n d by (simp add: AssessClaimTask)
  have "''CandidateClaim:'' @ AssessClaimInput.claim_id x \<in> set keys"
    unfolding keys by (rule group_mem [OF claim_key(1)]) simp
  then show ?thesis
    by (simp add: AssessClaimTask validate_claim_assessment_def Let_def scope_Some)
next
  case (FinalClaimTask x)
  then show ?thesis using final_scope d by auto
qed simp_all

subsection \<open>Engine inputs\<close>

fun valid_invocation :: "TaskInvocation \<Rightarrow> bool" where
  "valid_invocation (ParseTask i) = valid_ParseDeepResearchInvocation i"
| "valid_invocation (ChallengeTask i) = valid_CorpusChallengerInvocation i"
| "valid_invocation (CandidatesTask i) = valid_GenerateCandidateClaimsInvocation i"
| "valid_invocation (QueriesTask i) = valid_GenerateRetrievalQueriesInvocation i"
| "valid_invocation (AssessEvidenceTask i) = valid_AssessEvidenceIdentity i"
| "valid_invocation (AggregateTask i) = valid_AggregatePaperEvidenceInput i"
| "valid_invocation (AssessClaimTask i) = valid_AssessClaimInput i"
| "valid_invocation (ReviseClaimTask i) = valid_ReviseClaimInput i"
| "valid_invocation (FinalClaimTask i) = valid_ValidateFinalClaimInvocation i"
| "valid_invocation (PropositionsTask i) = valid_PropositionSourceSelection i"
| "valid_invocation (AuditPropositionTask i) = valid_AuditPropositionInvocation i"
| "valid_invocation (RenderTask i) = valid_RenderProseInput i"
| "valid_invocation (AuditSentenceTask i) = valid_AuditRenderedSentenceInvocation i"

text \<open>A snapshot of a request keeps its number, name and media type.\<close>

definition snapshot_of :: "TaskResourceRequest \<Rightarrow> SnapshottedResource \<Rightarrow> bool" where
  "snapshot_of q r \<longleftrightarrow>
     SnapshottedResource.resource_id r = TaskResourceRequest.resource_id q \<and>
     SnapshottedResource.logical_name r = TaskResourceRequest.logical_name q \<and>
     SnapshottedResource.media_type r = TaskResourceRequest.media_type q"

text \<open>The draft of an audit task has to be the one whose hash the invocation names.\<close>

fun draft_unchanged :: "TaskInvocation \<Rightarrow> SnapshottedResource list \<Rightarrow> bool" where
  "draft_unchanged (AuditPropositionTask i) rs = list_all (\<lambda>r. content_hash r = draft_artifact_hash i) rs"
| "draft_unchanged (AuditSentenceTask i) rs = list_all (\<lambda>r. content_hash r = sentence_artifact_hash i) rs"
| "draft_unchanged _ rs = True"

lemma built_Inr [simp]: "(\<exists>y. built v x = Inr y) \<longleftrightarrow> v"
  by (simp add: built_def)

lemma artifact_input_valid:
  "valid_AcceptedDiscoveryArtifactInvocation a \<Longrightarrow> is_ResourceId (SnapshottedResource.resource_id r) \<Longrightarrow>
    valid_AcceptedDiscoveryArtifactInput (artifact_input a r)"
  by (simp add: valid_AcceptedDiscoveryArtifactInvocation_def valid_AcceptedDiscoveryArtifactInput_def artifact_input_def
      AcceptedDiscoveryArtifactInvocation_validator_def AcceptedDiscoveryArtifactInput_validator_def)

lemma fixed_ids: "is_ResourceId ''RES0001''" "is_ResourceId ''RES0002''"
  by code_simp+

lemma snapshot_maps:
  "list_all2 snapshot_of qs rs \<Longrightarrow>
    map SnapshottedResource.resource_id rs = map TaskResourceRequest.resource_id qs \<and>
    map SnapshottedResource.media_type rs = map TaskResourceRequest.media_type qs \<and> length rs = length qs"
  by (induction rule: list_all2_induct) (auto simp: snapshot_of_def)

lemma parse_input_built:
  assumes v: "valid_ParseDeepResearchInvocation i" and q: "build_resource_requests (document_paths i) ''text/markdown'' = Inr requests"
    and s: "list_all2 snapshot_of requests snaps"
  shows "\<exists>x. engine_input (ParseTask i) snaps = Inr x"
proof -
  have r: "requests = requests_of ''text/markdown'' 1 (document_paths i)" using q by (simp add: build_resource_requests_iff)
  have "list_all is_ResourceId (map TaskResourceRequest.resource_id requests)"
    by (auto simp: r requests_of_def list_all_iff request_of_def resource_id_shape [simplified])
  then have "list_all is_ResourceId (map SnapshottedResource.resource_id snaps)" "length snaps = length (document_paths i)"
    using snapshot_maps [OF s] by (simp_all add: r)
  then show ?thesis
    using v by (simp add: Let_def valid_ParseDeepResearchInput_def valid_ParseDeepResearchInvocation_def list_within_def)
qed

lemma challenge_input_built:
  assumes v: "valid_CorpusChallengerInvocation i" and q: "corpus_challenger_resources i = Inr requests"
    and s: "list_all2 snapshot_of requests snaps"
  shows "\<exists>x. corpus_challenger_engine_input i snaps = Inr x"
proof (cases "CorpusChallengerInvocation.discovery_artifact i")
  case None
  then have "snaps = []" using q s by (auto simp: corpus_challenger_resources_def Let_def split: if_splits)
  then show ?thesis
    using v None by (simp add: corpus_challenger_engine_input_def Let_def valid_CorpusChallengerInput_def valid_CorpusChallengerInvocation_def list_within_def)
next
  case (Some a)
  let ?ids = "CorpusChallengerInvocation.paper_ids i" and ?paths = "paper_resource_paths i"
  define rest where "rest = map (\<lambda>(ordinal, pid, file). paper_resource ordinal pid file) (zip [2..<2 + length ?ids] (zip ?ids ?paths))"
  have l: "length ?paths = length ?ids" and r: "requests = json_resource ''RES0001'' ''accepted_discovery_parse.json'' (artifact_path a) # rest"
    using q Some by (auto simp: rest_def corpus_challenger_resources_def Let_def split: if_splits)
  obtain p ps where snaps: "snaps = p # ps" "snapshot_of (json_resource ''RES0001'' ''accepted_discovery_parse.json'' (artifact_path a)) p"
      "list_all2 snapshot_of rest ps"
    using s r by (auto simp: list_all2_Cons1)
  have "list_all is_ResourceId (map TaskResourceRequest.resource_id rest)" "list_all (\<lambda>m. m = ''text/markdown'') (map TaskResourceRequest.media_type rest)"
    by (auto simp: rest_def list_all_iff paper_resource_def resource_id_shape [simplified])
  moreover have "length rest = length ?ids" using l by (simp add: rest_def del: upt_Suc)
  ultimately have ps: "list_all is_ResourceId (map SnapshottedResource.resource_id ps)" "length ps = length ?ids"
      "list_all (\<lambda>m. m = ''text/markdown'') (map SnapshottedResource.media_type ps)"
    using snapshot_maps [OF snaps(3)] by simp_all
  have p: "SnapshottedResource.resource_id p = ''RES0001''" "SnapshottedResource.media_type p = ''application/json''"
    using snaps(2) by (simp_all add: snapshot_of_def json_resource_def)
  have "valid_AcceptedDiscoveryArtifactInput (artifact_input a p)"
    using v Some p fixed_ids by (simp add: artifact_input_valid valid_CorpusChallengerInvocation_def)
  then show ?thesis
    using v ps p
    by (simp add: corpus_challenger_engine_input_def Some snaps(1) Let_def valid_CorpusChallengerInput_def
        valid_CorpusChallengerInvocation_def list_within_def list_all_iff list_ex_iff)
qed

lemma candidates_input_built:
  assumes v: "valid_GenerateCandidateClaimsInvocation i" and q: "generate_candidate_claims_resources i = Inr requests"
    and s: "list_all2 snapshot_of requests snaps"
  shows "\<exists>x. generate_candidate_claims_engine_input i snaps = Inr x"
proof (cases "GenerateCandidateClaimsInvocation.discovery_artifact i")
  case None
  then have "snaps = []" using q s by (auto simp: generate_candidate_claims_resources_def)
  then show ?thesis
    using v None by (simp add: generate_candidate_claims_engine_input_def Let_def valid_GenerateCandidateClaimsInput_def
        valid_GenerateCandidateClaimsInvocation_def)
next
  case (Some a)
  then obtain b where b: "GenerateCandidateClaimsInvocation.challenge_artifact i = Some b"
      "requests = [json_resource ''RES0001'' ''accepted_discovery_parse.json'' (artifact_path a),
        json_resource ''RES0002'' ''accepted_corpus_challenge.json'' (artifact_path b)]"
    using q by (auto simp: generate_candidate_claims_resources_def split: option.splits)
  then obtain x y where xy: "snaps = [x, y]" "SnapshottedResource.resource_id x = ''RES0001''" "SnapshottedResource.media_type x = ''application/json''"
      "SnapshottedResource.resource_id y = ''RES0002''" "SnapshottedResource.media_type y = ''application/json''"
    using s by (auto simp: list_all2_Cons1 snapshot_of_def json_resource_def)
  have "valid_AcceptedDiscoveryArtifactInput (artifact_input a x)" "valid_AcceptedDiscoveryArtifactInput (artifact_input b y)"
    using v Some b(1) xy fixed_ids by (simp_all add: artifact_input_valid valid_GenerateCandidateClaimsInvocation_def)
  then show ?thesis
    using v by (simp add: generate_candidate_claims_engine_input_def Some b(1) xy Let_def valid_GenerateCandidateClaimsInput_def
        valid_GenerateCandidateClaimsInvocation_def)
qed

text \<open>
  The input of the engine can always be built. If the invocation is valid and the snapshots are
  those of the resources the same task asked for, the engine input is constructed without an error,
  except that an audit task fails exactly when the bytes of its draft no longer have the hash that the
  invocation names.
\<close>

theorem engine_input_built:
  assumes v: "valid_invocation i" and q: "task_resources i = Inr requests" and s: "list_all2 snapshot_of requests snaps"
  shows "(\<exists>x. engine_input i snaps = Inr x) \<longleftrightarrow> draft_unchanged i snaps"
proof (cases i)
  case (ParseTask x)
  then show ?thesis using parse_input_built [of x requests snaps] assms by (auto split: sum.splits)
next
  case (ChallengeTask x)
  then show ?thesis using challenge_input_built [of x requests snaps] assms by auto
next
  case (CandidatesTask x)
  then show ?thesis using candidates_input_built [of x requests snaps] assms by auto
next
  case (AssessEvidenceTask x)
  then obtain r where "snaps = [r]" "snapshot_of (json_resource ''RES0001'' ''retrieval_ledger.json'' (retrieval_ledger_path x)) r"
    using q s by (auto simp: list_all2_Cons1)
  then show ?thesis
    using v fixed_ids
    by (auto simp: AssessEvidenceTask assess_evidence_engine_input_def snapshot_of_def json_resource_def Let_def
        valid_AssessEvidenceInput_def valid_AssessEvidenceIdentity_def AssessEvidenceIdentity_validator_def split: sum.splits)
next
  case (AuditPropositionTask x)
  then obtain r where "snaps = [r]" "snapshot_of (json_resource ''RES0001'' ''accepted_proposition_draft.json'' (draft_artifact_path x)) r"
    using q s by (auto simp: list_all2_Cons1)
  then show ?thesis
    using v fixed_ids
    by (auto simp: AuditPropositionTask audit_proposition_engine_input_def require_draft_resource_def snapshot_of_def json_resource_def Let_def
        valid_AuditPropositionInput_def valid_AuditPropositionInvocation_def valid_AcceptedPropositionDraftIdentity_def
        valid_PropositionSourceSelection_def PropositionSourceSelection_validator_def AcceptedPropositionDraftIdentity_validator_def)
next
  case (AuditSentenceTask x)
  then obtain r where "snaps = [r]" "snapshot_of (json_resource ''RES0001'' ''accepted_rendered_sentence_draft.json'' (sentence_artifact_path x)) r"
    using q s by (auto simp: list_all2_Cons1)
  then show ?thesis
    using v fixed_ids
    by (auto simp: AuditSentenceTask audit_rendered_sentence_engine_input_def require_draft_resource_def snapshot_of_def json_resource_def
        Let_def valid_AuditRenderedSentenceInput_def valid_AuditRenderedSentenceInvocation_def
        valid_AcceptedRenderedSentenceDraftIdentity_def AcceptedRenderedSentenceDraftIdentity_validator_def)
qed (use v q s in \<open>auto simp: mirror_engine_input_def Let_def valid_GenerateRetrievalQueriesInvocation_def
      valid_GenerateRetrievalQueriesInput_def\<close>)

subsection \<open>Executable tasks\<close>

text \<open>
  What runs without an adapter. Provided that its prompt file and models are in place, a task type
  passes the preflight of the plain kernel exactly if it is one of seven; evidence assessment, claim
  revision, propositions and prose have no handler in the promotion module and need an adapter that
  brings its own.
\<close>

theorem executable_task_types_exact:
  "set (executable_task_types M) =
     {t. spec_problems M t = [] \<and> t \<in> {PARSE_DEEP_RESEARCH, CORPUS_CHALLENGER, GENERATE_CANDIDATE_CLAIMS, GENERATE_RETRIEVAL_QUERIES,
        AGGREGATE_PAPER_EVIDENCE, ASSESS_CLAIM, VALIDATE_FINAL_CLAIM}}"
proof -
  have "t \<in> set all_task_types" for t by (cases t) (simp_all add: all_task_types_def)
  moreover have "validate_task_spec_executable (TASK_SPECS M t None) [] = [] \<longleftrightarrow> spec_problems M t = [] \<and>
      t \<in> {PARSE_DEEP_RESEARCH, CORPUS_CHALLENGER, GENERATE_CANDIDATE_CLAIMS, GENERATE_RETRIEVAL_QUERIES,
        AGGREGATE_PAPER_EVIDENCE, ASSESS_CLAIM, VALIDATE_FINAL_CLAIM}" for t
    by (cases t) (simp_all add: validate_task_spec_executable_def TASK_SPECS_def PROMOTION_HANDLERS_def DISPOSITION_HANDLERS_def)
  ultimately show ?thesis by (auto simp: executable_task_types_def)
qed

end
