(* ===== verification/VR_Kernel_Samples.thy ===== *)
theory VR_Kernel_Samples
  imports VR_Specs_Scope VR_Promote_Samples
begin

section \<open>The kernel theorems on the sample repository\<close>

text \<open>
  A store whose only generation is a stage of the sample repository, one engine whose answer is read
  as a fixed proposal, and no other process: a claim assessment that is committed, and a final claim
  that the acceptance check lets pass and the staged validation stops.
\<close>

subsection \<open>Stores of one generation\<close>

lemma one_generation:
  assumes "valid_snapshot R" "validate_repository R = Inr rep" "valid_registry r" "validate_covers_identifiers r (all_identifiers R) = None"
  obtains s where "represents s_dumps s [(R, r, [])]" "orderly s"
  using that single_generation [OF assms] s_files_fit by blast

definition s_platform :: Platform where
  "s_platform = \<lparr>dumps_of = s_dumps, word_table = ascii_word, casefold_table = (\<lambda>t. t), json_loads = (\<lambda>_. Inr (JObject [])),
     validator_code = ''v'', promotion_code = [], disposition_code = []\<rparr>"

definition s_engine :: Engine where
  "s_engine = \<lparr>engine_name = ''mock'', engine_version = None, safe_configuration = JNull\<rparr>"

definition s_attempt :: Attempt where
  "s_attempt = \<lparr>workspace_intact = True, answer = Inr \<lparr>execution_succeeded = True, output_text = ''{}'', execution_error = None,
       execution_report = None\<rparr>, workspace_issue = None, source_files = (\<lambda>_. None), other_writers = (\<lambda>s. s),
     attempt_suffix = ''0'', attempt_time = ''now'', directory_order = (\<lambda>_. [])\<rparr>"

definition s_bundle :: TaskBundle where
  "s_bundle = \<lparr>TaskBundle.task_id = ''TASK000001'', TaskBundle.base_generation = 0, TaskBundle.dependencies = [], instructions_hash = [],
     TaskBundle.input_schema_hash = [], TaskBundle.proposal_schema_hash = [], TaskBundle.engine_input_hash = [],
     expected_bundle_manifest_hash = [], resources = []\<rparr>"

definition s_world :: TaskWorld where
  "s_world = \<lparr>create_writers = (\<lambda>s. s), built_bundle = (\<lambda>_ _ _. Inr s_bundle), bundle_intact = True, lock_writers = (\<lambda>s. s),
     lock_files = (\<lambda>_. None), task_attempts = (\<lambda>_. s_attempt)\<rparr>"

text \<open>Every answer is read as the assessment of the sample claim.\<close>

definition s_models :: SpecModels where
  "s_models = \<lparr>proposal_parser = (\<lambda>_ _. Inr (AssessmentProposal p_assessment)), spec_problems = (\<lambda>_. [])\<rparr>"

definition i_assess :: TaskInvocation where
  "i_assess = AssessClaimTask \<lparr>AssessClaimInput.claim_id = ''C0001'', AssessClaimInput.claim_paper_evidence_ids = [''CPE-C0001-P0001'']\<rparr>"

subsection \<open>An assessment that is committed\<close>

abbreviation assess_repo :: RepositorySnapshot where "assess_repo \<equiv> staged [s_cpe] []"

lemma staged_covered:
  assumes "set cpes \<subseteq> {s_cpe}"
  shows "validate_covers_identifiers sample_registry (all_identifiers (staged cpes as)) = None"
proof -
  have "set (all_identifiers (staged cpes as)) \<subseteq> set (all_identifiers sample)"
    using assms by (auto simp: all_identifiers_def staged_def sample_def)
  then show ?thesis using sample_covered by (auto simp: covers_identifiers_iff [OF sample_registry_valid])
qed

lemma assess_repo_ok: "valid_snapshot assess_repo" "repository_contract assess_repo"
  using staged_valid [of "[s_cpe]" "[]"] staged_validates [of "[s_cpe]" "[]"] validate_repository_InrD by auto

lemma s_payload_fits: "payload_fits (dumps_of s_platform) payload"
  by (simp add: payload_fits_def s_platform_def s_sizes)

lemma assess_store:
  obtains s where "represents s_dumps s [(assess_repo, sample_registry, [])]" "orderly s"
proof -
  obtain rep where "validate_repository assess_repo = Inr rep" using staged_validates [of "[s_cpe]" "[]"] by auto
  then show ?thesis
    using one_generation [OF assess_repo_ok(1) _ sample_registry_valid staged_covered] that by auto
qed

lemma assess_names: "names_found i_assess assess_repo"
proof -
  have "s_claim \<in> set (candidate_claims assess_repo)" "s_cpe \<in> set (claim_paper_evidence assess_repo)" by simp_all
  from indexedI(3) [OF this(1)] indexedI(8) [OF this(2)] show ?thesis by (simp add: names_found_def i_assess_def list_all_iff)
qed

lemma assess_claim_error:
  "assess_claim_dependencies i R = Inl e \<Longrightarrow> distinct (AssessClaimInput.claim_paper_evidence_ids i) \<Longrightarrow>
    set (AssessClaimInput.claim_paper_evidence_ids i) \<noteq> claim_cpes (claim_paper_evidence R) (AssessClaimInput.claim_id i)"
  by (simp add: assess_claim_dependencies_def claim_cpes_def Let_def split: if_splits)

lemma assess_dependencies:
  obtains keys where "task_dependencies i_assess assess_repo = Inr keys"
proof (cases "task_dependencies i_assess assess_repo")
  case (Inl e)
  have "claim_cpes [s_cpe] ''C0001'' = {''CPE-C0001-P0001''}" by (auto simp: claim_cpes_def)
  then show ?thesis using assess_claim_error Inl by (fastforce simp: i_assess_def)
qed (rule that)

lemma assess_deps:
  obtains keys deps where "task_dependencies i_assess assess_repo = Inr keys" "dependency_dict s_dumps assess_repo keys [] = Inr deps"
    "''CandidateClaim:C0001'' \<in> fst ` set deps"
proof -
  obtain keys where k: "task_dependencies i_assess assess_repo = Inr keys" by (rule assess_dependencies)
  have "list_all (indexed assess_repo) keys"
    using dependencies_resolve_iff [OF assess_repo_ok k] assess_names by simp
  then obtain deps where d: "dependency_dict s_dumps assess_repo keys [] = Inr deps" using dependency_dict_total by blast
  have "''CandidateClaim:C0001'' \<in> set keys"
    using named_in_dependencies [OF k, of "typed_dependency_keys ''CandidateClaim'' [''C0001'']"] by (simp add: i_assess_def)
  then show ?thesis using that [OF k d] dependency_dict_keys [OF d] by simp
qed

abbreviation assess_context :: "TaskBundle \<Rightarrow> TaskContext" where
  "assess_context b \<equiv> task_context s_platform default_RuntimeConfig (task_spec s_models i_assess) None b
     (take (1 + max_fallback_engines default_RuntimeConfig) [s_engine]) assess_repo sample_registry"

text \<open>Everything that \<open>answer_completes\<close> asks for.\<close>

definition assess_ready :: "StoreState \<Rightarrow> TaskBundle \<Rightarrow> bool" where
  "assess_ready s b \<longleftrightarrow>
     represents (dumps_of s_platform) s [(assess_repo, sample_registry, [])] \<and> orderly s \<and>
     preflight default_RuntimeConfig (spec_type (task_spec s_models i_assess)) (task_spec s_models i_assess) None \<and>
     valid_RuntimeConfig default_RuntimeConfig \<and> create_writers s_world = (\<lambda>s. s) \<and>
     other_writers (task_attempts s_world 0) = (\<lambda>s. s) \<and> bundle_intact s_world \<and>
     create_task s_platform (task_builders i_assess) s_world s = Inr b \<and> candidate_receipt (assess_context b) [] = None \<and>
     good_answer (assess_context b) s_engine (task_attempts s_world 0) [] (JObject []) (AssessmentProposal p_assessment) \<and>
     promotion_handler (task_spec s_models i_assess) \<in> total_handlers \<and>
     interpret_disposition (disposition_handler (task_spec s_models i_assess)) (AssessmentProposal p_assessment) =
       Inr (interpret_claim_assessment p_assessment) \<and>
     require_fresh_resources (source_files (task_attempts s_world 0)) (resources b) = None"

lemma assess_case: obtains s b where "assess_ready s b"
proof -
  obtain s where s: "represents s_dumps s [(assess_repo, sample_registry, [])]" and o: "orderly s" by (rule assess_store)
  obtain keys deps where k: "task_dependencies i_assess assess_repo = Inr keys" and d: "dependency_dict s_dumps assess_repo keys [] = Inr deps"
      and c: "''CandidateClaim:C0001'' \<in> fst ` set deps" by (rule assess_deps)
  let ?b = "s_bundle\<lparr>TaskBundle.base_generation := 0, TaskBundle.dependencies := deps\<rparr>"
  have dep: "dependency_builder (task_builders i_assess) assess_repo = Inr keys" "resource_builder (task_builders i_assess) assess_repo = Inr []"
    using k by (simp_all add: task_builders_def i_assess_def)
  have b: "create_task s_platform (task_builders i_assess) s_world s = Inr ?b"
    using represents_load(1) [OF s o, of assess_repo sample_registry "[]"] dep d
    by (simp add: create_task_def s_platform_def s_world_def validate_resource_requests_def)
  have acc: "validate_claim_assessment p_assessment assess_repo (Some (map fst deps)) = None"
    using p_assessment_record c
    by (simp add: validate_claim_assessment_def Let_def p_assessment_def require_dependency_scope_def
        has_claim_descendants_def cited_in_propositions_def)
  show ?thesis
    by (rule that [of s ?b], unfold assess_ready_def, intro conjI)
       (use s o b acc in \<open>simp_all add: s_platform_def s_world_def s_attempt_def s_bundle_def preflight_def task_spec_def TASK_SPECS_def
          i_assess_def s_models_def validate_task_spec_executable_def PROMOTION_HANDLERS_def DISPOSITION_HANDLERS_def
          valid_RuntimeConfig_def default_RuntimeConfig_def candidate_receipt_def by_last_def good_answer_def cached_proposal_def cache_get_def
          task_context_def Let_def validate_candidate_proposal_def validate_proposal_def total_handlers_def interpret_disposition_def\<close>)
qed

abbreviation sample_run :: "StoreState \<Rightarrow> KernelState \<times> (StoreError + RuntimeResult)" where
  "sample_run s \<equiv> run s_platform default_RuntimeConfig (task_spec s_models i_assess) None (task_builders i_assess) [s_engine] (\<lambda>_. s_world)
     \<lparr>store = s, proposal_cache = []\<rparr>"

lemma assess_run:
  obtains s s' result where "represents (dumps_of s_platform) s [(assess_repo, sample_registry, [])]" "sample_run s = (s', Inr result)"
    "RuntimeResult.outcome result = VALID_SCIENTIFIC_RESULT" "commit_performed result" "RuntimeResult.generation result = Some 1"
proof -
  obtain s b where c: "assess_ready s b" by (rule assess_case)
  have "\<exists>s' result. sample_run s = (s', Inr result) \<and>
    RuntimeResult.outcome result = VALID_SCIENTIFIC_RESULT \<and> commit_performed result \<and>
    RuntimeResult.generation result = Some (length [(assess_repo, sample_registry, [] :: AppliedTaskReceipt list)]) \<and>
    stale_rebuilds result = 0 \<and> length (attempt_records result) = 1 \<and>
    (\<exists>v. represents (dumps_of s_platform) (store s') ([(assess_repo, sample_registry, [])] @ [v]))"
    by (rule answer_completes [where ctx = "assess_context b" and b = b and R = assess_repo and reg = sample_registry and rcs = "[]"
          and raw = "JObject []" and p = "AssessmentProposal p_assessment" and t = "interpret_claim_assessment p_assessment"])
       (use c in \<open>simp_all add: assess_ready_def s_payload_fits\<close>)
  then show ?thesis using that c unfolding assess_ready_def by auto
qed

theorem accepted_answer_completes_witness:
  "\<exists>s s' result v. sample_run s = (s', Inr result) \<and>
     RuntimeResult.outcome result = VALID_SCIENTIFIC_RESULT \<and> RuntimeResult.generation result = Some 1 \<and>
     represents (dumps_of s_platform) (store s') [(assess_repo, sample_registry, []), v]"
proof -
  obtain s b where c: "assess_ready s b" by (rule assess_case)
  have "\<exists>s' result. sample_run s = (s', Inr result) \<and>
    RuntimeResult.outcome result = VALID_SCIENTIFIC_RESULT \<and> commit_performed result \<and>
    RuntimeResult.generation result = Some (length [(assess_repo, sample_registry, [] :: AppliedTaskReceipt list)]) \<and>
    stale_rebuilds result = 0 \<and> length (attempt_records result) = 1 \<and>
    (\<exists>v. represents (dumps_of s_platform) (store s') ([(assess_repo, sample_registry, [])] @ [v]))"
    by (rule accepted_answer_completes [where ctx = "assess_context b" and b = b and R = assess_repo and reg = sample_registry and rcs = "[]"
          and raw = "JObject []" and p = "AssessmentProposal p_assessment" and t = "interpret_claim_assessment p_assessment"])
       (use c in \<open>simp_all add: assess_ready_def s_payload_fits\<close>)
  then obtain s' result v where "sample_run s = (s', Inr result)" "RuntimeResult.outcome result = VALID_SCIENTIFIC_RESULT"
      "RuntimeResult.generation result = Some 1" "represents (dumps_of s_platform) (store s') [(assess_repo, sample_registry, []), v]"
    by auto
  then show ?thesis by blast
qed

theorem run_bounded_witness:
  "\<exists>s s' result. sample_run s = (s', Inr result) \<and> stale_rebuilds result \<le> 3 \<and> length (attempt_records result) \<le> 12"
proof -
  obtain s s' result where r: "sample_run s = (s', Inr result)" by (rule assess_run)
  have "Suc (stale_rebuilds result) * 3 \<le> 12" "stale_rebuilds result \<le> 3"
    using run_bounded [OF r] by (simp_all add: default_RuntimeConfig_def)
  then show ?thesis using r run_bounded [OF r] by (fastforce simp: default_RuntimeConfig_def)
qed

theorem run_accepts_once_witness:
  "\<exists>s s' result. sample_run s = (s', Inr result) \<and> accepted_attempt (last (attempt_records result)) \<and>
     RuntimeResult.outcome result = VALID_SCIENTIFIC_RESULT \<and> \<not> receipt_reused result"
proof -
  obtain s s' result where r: "sample_run s = (s', Inr result)"
    "RuntimeResult.outcome result = VALID_SCIENTIFIC_RESULT" "commit_performed result" by (rule assess_run)
  then show ?thesis using run_accepts_once [OF r(1)] by blast
qed


subsection \<open>The task table\<close>

text \<open>The assessment of the sample claim, and one that names its only CPE twice.\<close>

definition i_twice :: TaskInvocation where
  "i_twice = AssessClaimTask \<lparr>AssessClaimInput.claim_id = ''C0001'',
     AssessClaimInput.claim_paper_evidence_ids = [''CPE-C0001-P0001'', ''CPE-C0001-P0001'']\<rparr>"

theorem task_creation_exact_witness:
  "\<exists>s. represents s_dumps s [(assess_repo, sample_registry, [])] \<and>
     (\<exists>b. create_task s_platform (task_builders i_assess) s_world s = Inr b) \<and> names_found i_twice assess_repo \<and>
     \<not> (\<exists>b. create_task s_platform (task_builders i_twice) s_world s = Inr b)"
proof -
  obtain s where s: "represents s_dumps s [(assess_repo, sample_registry, [])]" and o: "orderly s" by (rule assess_store)
  have r: "represents (dumps_of s_platform) s [(assess_repo, sample_registry, [])]" using s by (simp add: s_platform_def)
  have w: "\<exists>b. built_bundle s_world g deps requests = Inr b" for g deps requests by (simp add: s_world_def)
  have "claim_cpes [s_cpe] ''C0001'' = {''CPE-C0001-P0001''}" by (auto simp: claim_cpes_def)
  then have current: "selection_current i_assess assess_repo" "\<not> selection_current i_twice assess_repo"
    by (simp_all add: i_assess_def i_twice_def claim_cpes_def)
  have names: "names_found i_twice assess_repo"
    using assess_names by (simp add: names_found_def i_assess_def i_twice_def list_all_iff)
  have requests: "\<exists>requests. task_resources i_assess = Inr requests \<and> validate_resource_requests requests = None"
    by (simp add: i_assess_def validate_resource_requests_def)
  note exact = task_creation_exact [OF r o _ w, of assess_repo sample_registry "[]"]
  have "\<exists>b. create_task s_platform (task_builders i_assess) s_world s = Inr b"
    using exact [of i_assess] assess_names current(1) requests by simp
  moreover have "\<not> (\<exists>b. create_task s_platform (task_builders i_twice) s_world s = Inr b)"
    using exact [of i_twice] current(2) by simp
  ultimately show ?thesis using s names by blast
qed

theorem claim_chain_unchanged_witness:
  "\<exists>deps. stale_dependency s_dumps assess_repo deps = None \<and>
     dependency_hash s_dumps assess_repo ''RetrievedSpan:R0001'' = Some (hash_json JNull)"
proof -
  obtain keys deps where k: "task_dependencies i_assess assess_repo = Inr keys" and d: "dependency_dict s_dumps assess_repo keys [] = Inr deps"
    by (rule assess_deps)
  have st: "stale_dependency s_dumps assess_repo deps = None"
    using dependency_dict_fresh [OF d] by (simp add: stale_dependency_None)
  have m: "s_cpe \<in> set (claim_paper_evidence assess_repo)" "ClaimPaperEvidence.claim_id s_cpe = ''C0001''" "s_evidence \<in> set (evidence_records assess_repo)"
      "evidence_id s_evidence \<in> set (ClaimPaperEvidence.evidence_ids s_cpe)" "s_span ''R0001'' \<in> set (retrieved_spans assess_repo)"
      "RetrievedSpan.span_id (s_span ''R0001'') = retrieved_span_id s_evidence"
    by (simp_all add: staged_def sample_def s_cpe_def s_evidence_def s_span_def)
  have key: "''RetrievedSpan:R0001'' \<in> chain_keys s_cpe s_evidence (s_span ''R0001'')"
    by (simp add: chain_keys_def s_span_def)
  have "claim_of_task i_assess = Some ''C0001''" by (simp add: i_assess_def)
  from claim_chain_unchanged [OF this k d st m key] have "dependency_hash s_dumps assess_repo ''RetrievedSpan:R0001'' \<noteq> None" by blast
  then show ?thesis using st by (auto simp: dependency_hash_def s_dumps_def)
qed

theorem dependency_scope_complete_witness:
  "\<exists>keys. task_dependencies i_assess assess_repo = Inr keys \<and> validate_claim_assessment p_assessment assess_repo (Some keys) = None"
proof -
  obtain keys where k: "task_dependencies i_assess assess_repo = Inr keys" by (rule assess_dependencies)
  have "validate_claim_assessment p_assessment assess_repo None = None"
    using p_assessment_record
    by (simp add: validate_claim_assessment_def Let_def p_assessment_def require_dependency_scope_def
        has_claim_descendants_def cited_in_propositions_def)
  then show ?thesis
    using dependency_scope_complete [OF assess_names k] k by (auto simp: i_assess_def p_assessment_def)
qed

definition s_draft_task :: AuditPropositionInvocation where
  "s_draft_task = \<lparr>claim_packet_ids = [''C0001''], PropositionSourceSelection.corpus_fact_ids = [],
     PropositionSourceSelection.process_fact_ids = [], draft_owner_generation = 2, draft_source_generation = 1,
     draft_task_id = ''TASK0001'', draft_artifact_hash = VR_Ids.candidate_claim_hash ''d'', draft_local_ref = ''p1'',
     draft_artifact_path = \<lparr>anchored = True, segments = [''draft.json'']\<rparr>\<rparr>"

definition s_draft :: "string \<Rightarrow> SnapshottedResource" where
  "s_draft h = \<lparr>SnapshottedResource.resource_id = ''RES0001'', logical_name = ''accepted_proposition_draft.json'',
     snapshot_relative_path = relative_path [''input''], media_type = ''application/json'', size_bytes = 1, content_hash = h\<rparr>"

theorem engine_input_built_witness:
  "(\<exists>x. engine_input (AuditPropositionTask s_draft_task) [s_draft (VR_Ids.candidate_claim_hash ''d'')] = Inr x) \<and>
   \<not> (\<exists>x. engine_input (AuditPropositionTask s_draft_task) [s_draft ''other''] = Inr x)"
proof -
  have ids: "is_DraftTaskId ''TASK0001''" "is_LocalRef ''p1''" "\<not> has_canonical_numeric_id ''p1'' ''PR''" by code_simp+
  have v: "valid_invocation (AuditPropositionTask s_draft_task)"
    by (simp add: s_draft_task_def valid_AuditPropositionInvocation_def valid_AcceptedPropositionDraftIdentity_def
        valid_PropositionSourceSelection_def list_within_def MAX_DRAFT_TASK_ITEMS_def sample_ids ids
        PropositionSourceSelection_validator_def AcceptedPropositionDraftIdentity_validator_def consecutive_generations_def
        AuditPropositionInvocation_validator_def private_path_check_def has_dotdot_def candidate_claim_hash_is_Sha256)
  have s: "list_all2 snapshot_of [json_resource ''RES0001'' ''accepted_proposition_draft.json'' (draft_artifact_path s_draft_task)] [s_draft h]" for h
    by (simp add: snapshot_of_def json_resource_def s_draft_def)
  have neq: "''other'' \<noteq> VR_Ids.candidate_claim_hash ''d''"
  proof -
    have "\<not> is_Sha256 ''other''" by code_simp
    then show ?thesis using candidate_claim_hash_is_Sha256 [of "''d''"] by metis
  qed
  show ?thesis
    using engine_input_built [OF v _ s, of "VR_Ids.candidate_claim_hash ''d''"] engine_input_built [OF v _ s, of "''other''"] neq
    by (simp add: s_draft_def s_draft_task_def)
qed

subsection \<open>A final claim that fails at its commit\<close>

text \<open>The second span of the sample assessed as evidence of its own, which no CPE aggregates.\<close>

definition open_repo :: RepositorySnapshot where
  "open_repo = (staged [s_cpe] [s_assessment])\<lparr>
     retrieval_dispositions := [s_assessed, s_assessed\<lparr>RetrievalDisposition.span_id := ''R0002''\<rparr>],
     evidence_records := [s_evidence, s_evidence\<lparr>evidence_id := ''E0002'', retrieved_span_id := ''R0002''\<rparr>]\<rparr>"

lemma open_repo_fields [simp]:
  "RepositorySnapshot.themes open_repo = [s_theme]" "papers open_repo = [s_paper]" "candidate_claims open_repo = [s_claim]"
  "retrieval_queries open_repo = [s_query]" "retrieved_spans open_repo = [s_span ''R0001'', s_span ''R0002'']"
  "retrieval_dispositions open_repo = [s_assessed, s_assessed\<lparr>RetrievalDisposition.span_id := ''R0002''\<rparr>]"
  "evidence_records open_repo = [s_evidence, s_evidence\<lparr>evidence_id := ''E0002'', retrieved_span_id := ''R0002''\<rparr>]"
  "claim_paper_evidence open_repo = [s_cpe]" "claim_assessments open_repo = [s_assessment]"
  "final_claim_validations open_repo = []" "claim_packets open_repo = []" "corpus_facts open_repo = []" "process_facts open_repo = []"
  "proposition_records open_repo = []" "semantic_audits open_repo = []" "rendered_sentences open_repo = []"
  "rendered_sentence_audits open_repo = []"
  by (simp_all add: open_repo_def staged_def sample_def)

lemma open_repo_valid: "valid_snapshot open_repo"
proof -
  have "is_EvidenceId ''E0002''" by code_simp
  then show ?thesis
    using sample_valid
    by (simp add: valid_snapshot_def) (simp add: sample_def sample_records sample_ids valid_RetrievalDisposition_def
        RetrievalDisposition_validator_def valid_EvidenceRecord_def EvidenceQuality_validator_def)
qed

lemma open_repo_contract: "repository_contract open_repo"
proof -
  have rel: "VR_Val_Retrieval.canonical_rel (retrieval_dispositions open_repo) = {}" by (auto simp: VR_Val_Retrieval.canonical_rel_def s_assessed_def)
  have "retrieval_contract (candidate_claims open_repo) (retrieval_queries open_repo) (retrieved_spans open_repo)
      (retrieval_dispositions open_repo) (papers open_repo)"
    unfolding retrieval_contract_def rel
    by (simp add: sample_records query_bound_def span_bound_def disposition_bound_def exactly_one_def sample_parse acyclic_def)
  moreover have "evidence_contract (candidate_claims open_repo) (retrieval_queries open_repo) (retrieved_spans open_repo)
      (retrieval_dispositions open_repo) (evidence_records open_repo)"
    by (simp add: evidence_contract_def sample_records evidence_bound_def assessed_def grouped_by_def exactly_one_def)
  moreover have "claim_evidence_contract (candidate_claims open_repo) (papers open_repo) (evidence_records open_repo) (claim_paper_evidence open_repo)"
    by (simp add: claim_evidence_contract_def sample_records cpe_bound_def cpe_member_def grouped_ids_def grouped_def)
  moreover have "claim_contract (candidate_claims open_repo) (claim_paper_evidence open_repo) (claim_assessments open_repo)
      (final_claim_validations open_repo) (claim_packets open_repo)"
    by (simp add: claim_contract_def s_assessment_def s_claim_def s_cpe_def)
  ultimately show ?thesis
    using sample_contract_base
    by (simp add: repository_contract_def evidence_closed_def proposition_contract_def prose_contract_def sample_def)
qed

definition open_registry :: CanonicalIdRegistry where
  "open_registry = sample_registry\<lparr>counters := AList.update IdKind.EVIDENCE 2 (counters sample_registry)\<rparr>"

lemma open_registry_valid: "valid_registry open_registry"
  unfolding valid_registry_def by code_simp

lemma open_covered: "validate_covers_identifiers open_registry (all_identifiers open_repo) = None"
proof -
  have ids: "all_identifiers open_repo = [''T0001'', ''P0001'', ''C0001'', ''Q-C0001-SUP-01'', ''R0001'', ''R0002'', ''E0001'', ''E0002'',
     ''CPE-C0001-P0001'']" by (simp add: all_identifiers_def sample_records)
  show ?thesis unfolding ids by code_simp
qed

definition open_context :: TaskContext where
  "open_context = (task_context s_platform default_RuntimeConfig (TASK_SPECS s_models VALIDATE_FINAL_CLAIM None) None
     (s_bundle\<lparr>TaskBundle.dependencies := map (\<lambda>k. (k, hash_json JNull))
        [''CandidateClaim:C0001'', ''ClaimAssessment:C0001'', ''ClaimPaperEvidence:CPE-C0001-P0001'']\<rparr>)
     [s_engine] open_repo open_registry)"

theorem unaggregated_final_claim_fails_witness:
  "\<exists>s s' result. represents s_dumps s [(open_repo, open_registry, [])] \<and>
     validate_candidate_proposal open_context (FinalProposal p_final) open_repo open_registry None = None \<and>
     commit_attempt open_context s_engine ''01-mock'' s_attempt JNull (FinalProposal p_final) [] \<lparr>store = s, proposal_cache = []\<rparr> = (s', result) \<and>
     RuntimeResult.outcome result = CONTRACT_IMPLEMENTATION_FAILURE \<and> represents s_dumps (store s') [(open_repo, open_registry, [])]"
proof -
  obtain rep where rep: "validate_repository open_repo = Inr rep" using open_repo_contract validate_repository_iff by blast
  obtain s where s: "represents s_dumps s [(open_repo, open_registry, [])]" and o: "orderly s"
    by (rule one_generation [OF open_repo_valid rep open_registry_valid open_covered])
  have pk: "valid_ClaimPacket s_packet" using sample_valid by (simp add: valid_snapshot_def sample_def)
  then have pk: "claim_packet_for_validation open_repo s_final = Inr (Some s_packet)"
    by (simp add: claim_packet_for_validation_def s_final_def s_packet_def s_claim_def s_assessment_def s_cpe_def first_by_def construct_def)
  have cpes: "claim_cpes (claim_paper_evidence open_repo) ''C0001'' = {''CPE-C0001-P0001''}" by (auto simp: claim_cpes_def)
  let ?keys = "[''CandidateClaim:C0001'', ''ClaimAssessment:C0001'', ''ClaimPaperEvidence:CPE-C0001-P0001'']"
  have acc: "validate_final_claim p_final open_repo (Some ?keys) None = None"
    using p_final_record pk cpes
    by (simp add: validate_final_claim_def Let_def p_final_def final_invocation_issue_def require_dependency_scope_def
        final_relation_issue_def by_last_def first_by_def final_change_issue_def cited_in_propositions_def reject_if_def and_then_def)
  have keys: "indexed open_repo (''CandidateClaim:C0001'')" "indexed open_repo (''ClaimAssessment:C0001'')"
      "indexed open_repo (''ClaimPaperEvidence:CPE-C0001-P0001'')"
    using indexedI(3) [of s_claim open_repo] indexedI(9) [of s_assessment open_repo] indexedI(8) [of s_cpe open_repo] by simp_all
  have hash: "dependency_hash s_dumps open_repo k = Some (hash_json JNull)" if "indexed open_repo k" for k
    using that by (auto simp: dependency_hash_def indexed_def s_dumps_def)
  have q: "quiet_commit open_context s_attempt \<lparr>store = s, proposal_cache = []\<rparr> [(open_repo, open_registry, [])]"
    using s o keys by (simp add: quiet_commit_def open_context_def task_context_def Let_def s_platform_def s_attempt_def s_bundle_def
        stale_dependency_None hash)
  have v: "validate_candidate_proposal open_context (FinalProposal p_final) open_repo open_registry None = None"
    using acc by (simp add: validate_candidate_proposal_def validate_proposal_def open_context_def task_context_def Let_def TASK_SPECS_def s_bundle_def)
  have "\<exists>s' result. commit_attempt open_context s_engine ''01-mock'' s_attempt JNull (FinalProposal p_final) [] \<lparr>store = s, proposal_cache = []\<rparr> =
      (s', result) \<and> RuntimeResult.outcome result = CONTRACT_IMPLEMENTATION_FAILURE \<and> \<not> fallback_allowed (RuntimeResult.outcome result) \<and>
      represents (dumps_of (platform open_context)) (store s') [(open_repo, open_registry, [])]"
    by (rule unaggregated_final_claim_fails [OF q, where t = "interpret_final_claim_validation p_final"])
       (use v in \<open>simp_all add: open_context_def task_context_def Let_def TASK_SPECS_def interpret_disposition_def p_final_def
          aggregated_def s_evidence_def s_cpe_def\<close>)
  then show ?thesis using s v by (auto simp: open_context_def task_context_def Let_def s_platform_def)
qed

end
