(* ===== verification/VR_Tasks_Samples.thy ===== *)
theory VR_Tasks_Samples
  imports VR_Tasks_Bundle VR_Kernel_Samples
begin

section \<open>A bundle on the sample repository\<close>

text \<open>
  A parse task with one document below the project root and one record as its dependency, on which the
  theorems about bundles apply.
\<close>

definition s_texts :: TaskTexts where
  "s_texts = \<lparr>prompt_text = (\<lambda>_. Some ''prompt''), input_model_schema = (\<lambda>_. JObject []), proposal_model_schema = (\<lambda>_. JObject []),
     input_text = (\<lambda>_. ''{}''), object_text = (\<lambda>_. ''{}'')\<rparr>"

definition s_stat :: Stat where
  "s_stat = \<lparr>st_dev = 1, st_ino = 7, st_size = 4, st_mtime_ns = 0\<rparr>"

definition s_source_path :: PyPath where
  "s_source_path = \<lparr>anchored = True, segments = [''project'', ''report.md'']\<rparr>"

definition s_sources :: SourceTree where
  "s_sources = \<lparr>strict_path = Some, regular_file = (\<lambda>_. True), root_path = (\<lambda>p. p),
     source_read = (\<lambda>_. Some \<lparr>read_chunks = [''te'', ''xt''], stat_before = s_stat, stat_after = s_stat, stat_path = Some s_stat\<rparr>)\<rparr>"

definition s_roots :: "PyPath list" where
  "s_roots = context_roots \<lparr>anchored = True, segments = [''project'']\<rparr> []"

definition i_parse :: TaskInvocation where
  "i_parse = ParseTask \<lparr>ParseDeepResearchInvocation.topic = ''topic'', document_paths = [s_source_path]\<rparr>"

definition s_requests :: "TaskResourceRequest list" where
  "s_requests = requests_of ''text/markdown'' 1 [s_source_path]"

abbreviation s_deps :: "string strdict" where
  "s_deps \<equiv> [(''CandidateClaim:C0001'', ''h'')]"

lemma s_requests_valid: "validate_resource_requests s_requests = None"
  by (simp add: s_requests_def validate_resource_requests_def validate_requests_loop_None request_of_def s_source_path_def
      path_name_def path_like_def MEDIA_EXTENSIONS_def char_of_def)

lemma s_snapshots: "\<exists>x. snapshot_resources s_sources s_roots s_requests = Inr [x] \<and>
    SnapshottedResource.resource_id (snapshot_resource_of x) = ''RES0001''"
proof -
  have "resource_destination ''RES0001'' ''text/markdown'' = Inr (relative_path [''input'', ''resources'', ''RES0001'', ''content.md''])"
    by code_simp
  moreover have "''RES'' @ pad_str 4 1 = ''RES0001''" by code_simp
  ultimately show ?thesis
    by (simp add: s_requests_def request_of_def snapshot_resource_def Let_def bundle_file_path_def relative_path_def has_dotdot_def
        resolve_source_def s_sources_def s_roots_def context_roots_def inside_def s_source_path_def verify_source_stability_def)
qed

lemma s_created:
  obtains files prov where "create_bundle s_texts s_sources s_roots i_parse sample ''TASK0001'' 0 s_deps s_requests = Inr (files, prov)"
proof -
  obtain x where x: "snapshot_resources s_sources s_roots s_requests = Inr [x]" "SnapshottedResource.resource_id (snapshot_resource_of x) = ''RES0001''"
    using s_snapshots by blast
  have "is_ResourceId ''RES0001''" by code_simp
  then obtain y where y: "engine_input i_parse (map snapshot_resource_of [x]) = Inr y"
    by (simp add: i_parse_def Let_def x(2) built_def valid_ParseDeepResearchInput_def is_DiscoveryText_def text_within_def utf8_length_def
        list_within_def MAX_DISCOVERY_TEXT_CHARS_def MAX_DISCOVERY_RESOURCES_def)
  have "indexed sample ''CandidateClaim:C0001''" using indexedI(3) [of s_claim sample] by (simp add: sample_def)
  then obtain v where v: "map_of (object_index sample) ''CandidateClaim:C0001'' = Some v" by (auto simp: indexed_def)
  have key: "list_all safe_key_char ''CandidateClaim:C0001''" by code_simp
  have out: "\<exists>out. write_dependencies s_texts sample [''CandidateClaim:C0001''] fs [] = Inr out" for fs
    using v by (simp only: write_dependencies.simps key Let_def option.case if_False simp_thms list.distinct) blast
  have "map fst s_deps = [''CandidateClaim:C0001'']" by simp
  then obtain files' es where w: "write_dependencies s_texts sample (map fst s_deps)
      (first_files s_texts (invocation_type i_parse) ''prompt'' y [x]) [] = Inr (files', es)"
    using out [of "first_files s_texts (invocation_type i_parse) ''prompt'' y [x]"] by (simp only: split_paired_Ex) blast
  have "prompt_text s_texts (invocation_type i_parse) = Some ''prompt''" by (simp add: s_texts_def)
  then have "\<exists>files prov. create_bundle s_texts s_sources s_roots i_parse sample ''TASK0001'' 0 s_deps s_requests = Inr (files, prov)"
    using s_requests_valid x(1) y w by (simp add: create_bundle_def Let_def del: list.map)
  then show thesis using that by blast
qed

theorem bundle_complete_witness:
  "\<exists>files prov. create_bundle s_texts s_sources s_roots i_parse sample ''TASK0001'' 0 s_deps s_requests = Inr (files, prov) \<and>
     length files = 7 \<and> map_of files (resource_path (hd s_requests)) = Some ''text''"
proof -
  obtain files prov where c: "create_bundle s_texts s_sources s_roots i_parse sample ''TASK0001'' 0 s_deps s_requests = Inr (files, prov)"
    by (rule s_created)
  have q: "hd s_requests \<in> set s_requests" "length s_requests = 1" by (simp_all add: s_requests_def)
  have "distinct (map fst s_deps)" by simp
  note complete = bundle_complete [OF c sample_valid this]
  from complete have "length files = 7" using q(2) by simp
  moreover from complete q(1) obtain p r where "source_read s_sources p = Some r"
      "map_of files (resource_path (hd s_requests)) = Some (concat (read_chunks r))" by blast
  ultimately show ?thesis using c by (auto simp: s_sources_def)
qed

theorem bundle_integrity_exact_witness:
  "\<exists>files prov. create_bundle s_texts s_sources s_roots i_parse sample ''TASK0001'' 0 s_deps s_requests = Inr (files, prov) \<and>
     verify_workspace prov (bundle_tree files) = None \<and> verify_workspace prov [(''x'', SymlinkEntry ''y'')] \<noteq> None"
proof -
  obtain files prov where c: "create_bundle s_texts s_sources s_roots i_parse sample ''TASK0001'' 0 s_deps s_requests = Inr (files, prov)"
    by (rule s_created)
  from bundle_integrity_exact [OF c sample_valid, of "[(''x'', SymlinkEntry ''y'')]"] c show ?thesis by auto
qed

theorem source_freshness_exact_witness:
  "\<exists>files prov. create_bundle s_texts s_sources s_roots i_parse sample ''TASK0001'' 0 s_deps s_requests = Inr (files, prov) \<and>
     require_fresh_resources (\<lambda>_. None) (TaskBundle.resources prov) \<noteq> None"
proof -
  obtain files prov where c: "create_bundle s_texts s_sources s_roots i_parse sample ''TASK0001'' 0 s_deps s_requests = Inr (files, prov)"
    by (rule s_created)
  have "s_requests \<noteq> []" by (simp add: s_requests_def)
  with source_freshness_exact [OF c sample_valid, of "\<lambda>_. None"] c show ?thesis by auto
qed

theorem commit_needs_untouched_workspace_witness:
  "\<exists>files prov ctx s s' result.
     create_bundle s_texts s_sources s_roots i_parse sample ''TASK0001'' 0 s_deps s_requests = Inr (files, prov) \<and>
     run_attempt ctx s_engine (attempt_name 0 s_engine) s_attempt [] s = (s', Done result) \<and> commit_performed result \<and>
     file_hash_at (bundle_tree files) ''instructions.md'' = map_option hash_file (map_of files ''instructions.md'')"
proof -
  obtain files prov where c: "create_bundle s_texts s_sources s_roots i_parse sample ''TASK0001'' 0 s_deps s_requests = Inr (files, prov)"
    by (rule s_created)
  have d: "distinct (map fst s_deps)" by simp
  note tree = created_verify(2) [OF c sample_valid d]
  then have seen: "workspace_seen prov (bundle_tree files) (bundle_tree files) s_attempt" by (simp add: workspace_seen_def s_attempt_def)
  obtain s b where a: "assess_ready s b" by (rule assess_case)
  have "\<exists>s' result. run_attempt (assess_context b) s_engine (attempt_name 0 s_engine) (task_attempts s_world 0) [] \<lparr>store = s, proposal_cache = []\<rparr> =
      (s', Done result) \<and> RuntimeResult.outcome result = VALID_SCIENTIFIC_RESULT \<and> commit_performed result \<and>
      RuntimeResult.generation result = Some (length [(assess_repo, sample_registry, [] :: AppliedTaskReceipt list)]) \<and>
      length (attempt_records result) = 1 \<and>
      (\<exists>v. represents (dumps_of s_platform) (store s') ([(assess_repo, sample_registry, [])] @ [v]))"
    by (rule answer_attempt [where ctx = "assess_context b" and b = b and R = assess_repo and reg = sample_registry and rcs = "[]"
          and raw = "JObject []" and p = "AssessmentProposal p_assessment" and t = "interpret_claim_assessment p_assessment"
          and worlds = "\<lambda>_. s_world" and builders = "task_builders i_assess" and sp = "task_spec s_models i_assess" and es = "[]"
          and P = s_platform and cfg = default_RuntimeConfig])
       (use a in \<open>simp_all add: assess_ready_def s_payload_fits\<close>)
  then obtain s' result where run: "run_attempt (assess_context b) s_engine (attempt_name 0 s_engine) s_attempt []
      \<lparr>store = s, proposal_cache = []\<rparr> = (s', Done result)" "commit_performed result" by (auto simp: s_world_def)
  from commit_needs_untouched_workspace [OF c sample_valid d _ _ seen run] tree c run show ?thesis by blast
qed

end
