(* ===== verification/VR_Text.thy ===== *)
theory VR_Text
  imports VR_Json VR_Models Complex_Main
begin

section \<open>Unicode text, the regular expressions of retrieval, doubles\<close>

text \<open>
  What \<open>library/retrieval.py\<close> and \<open>library/graph.py\<close> use of Python that the other components do
  not: text addressed by code point, \<open>str.find\<close>, \<open>strip\<close>, \<open>split\<close>, three regular expressions, the
  quotient of two small integers as a double, and \<open>str\<close> of a decoded JSON value.

  \<^item> A text is the list of its code points (\<open>ustr\<close>); \<open>utf8\<close> is its encoding, the representation of
    the other components. Slices and offsets count code points, as in the code.
  \<^item> What depends on the Unicode tables of the interpreter is the record \<open>Unicode\<close>: which code
    points \<open>\w\<close> matches, which are printable, and the full case folding of a code point. Nothing
    is assumed of them. \<open>str.isspace\<close> is written out.
  \<^item> A double is its mantissa and exponent in lowest form, as in \<open>VR_Models\<close>; \<open>float_div\<close>
    rounds to the nearest, ties to even.
\<close>

type_synonym ustr = "nat list"

record Unicode =
  word_char :: "nat \<Rightarrow> bool"
  printable_char :: "nat \<Rightarrow> bool"
  fold_char :: "nat \<Rightarrow> ustr"

definition casefold :: "Unicode \<Rightarrow> ustr \<Rightarrow> ustr" where
  "casefold u s = concat (map (fold_char u) s)"

definition ascii :: "string \<Rightarrow> ustr" where
  "ascii s = map of_char s"

subsection \<open>UTF-8\<close>

definition utf8_char :: "nat \<Rightarrow> string" where
  "utf8_char c =
     (if c < 128 then [char_of c]
      else if c < 2048 then [char_of (192 + c div 64), char_of (128 + c mod 64)]
      else if c < 65536 then
        [char_of (224 + c div 4096), char_of (128 + c div 64 mod 64), char_of (128 + c mod 64)]
      else [char_of (240 + c div 262144), char_of (128 + c div 4096 mod 64),
            char_of (128 + c div 64 mod 64), char_of (128 + c mod 64)])"

definition utf8 :: "ustr \<Rightarrow> string" where
  "utf8 s = concat (map utf8_char s)"

definition scalar_text :: "ustr \<Rightarrow> bool" where
  "scalar_text s \<longleftrightarrow> list_all (\<lambda>c. c < 1114112) s"

text \<open>The decoder of one code point: the texts of two code points are never prefixes of each other.\<close>

definition utf8_next :: "string \<Rightarrow> nat" where
  "utf8_next s =
     (let b = (\<lambda>i. of_char (s ! i) :: nat) in
      if b 0 < 128 then b 0
      else if b 0 < 224 then (b 0 - 192) * 64 + (b 1 - 128)
      else if b 0 < 240 then (b 0 - 224) * 4096 + (b 1 - 128) * 64 + (b 2 - 128)
      else (b 0 - 240) * 262144 + (b 1 - 128) * 4096 + (b 2 - 128) * 64 + (b 3 - 128))"

lemma of_char_of_small: "n < 256 \<Longrightarrow> (of_char (char_of n :: char) :: nat) = n"
  by simp

lemma utf8_bounds:
  fixes c :: nat
  assumes "c < 1114112"
  shows "c div 262144 < 5" "c < 2048 \<Longrightarrow> c div 64 < 32" "c < 65536 \<Longrightarrow> c div 4096 < 16"
  using assms by (simp_all add: less_mult_imp_div_less)

lemma utf8_parts:
  fixes c :: nat
  shows "c div 64 * 64 + c mod 64 = c"
    and "c div 4096 * 4096 + c div 64 mod 64 * 64 + c mod 64 = c"
    and "c div 262144 * 262144 + c div 4096 mod 64 * 4096 + c div 64 mod 64 * 64 + c mod 64 = c"
proof -
  have s: "x div 64 * 64 + x mod 64 = x" for x :: nat by (rule div_mult_mod_eq)
  have d: "c div 4096 = c div 64 div 64" "c div 262144 = c div 4096 div 64" by (simp_all add: div_mult2_eq [symmetric])
  show a: "c div 64 * 64 + c mod 64 = c" by (rule s)
  have b: "c div 4096 * 64 + c div 64 mod 64 = c div 64" unfolding d(1) by (rule s)
  have "c div 4096 * 4096 + c div 64 mod 64 * 64 = (c div 4096 * 64 + c div 64 mod 64) * 64" by simp
  then have e: "c div 4096 * 4096 + c div 64 mod 64 * 64 + c mod 64 = c" unfolding b using a by simp
  show "c div 4096 * 4096 + c div 64 mod 64 * 64 + c mod 64 = c" by (rule e)
  have "c div 262144 * 262144 + c div 4096 mod 64 * 4096 = (c div 4096 div 64 * 64 + c div 4096 mod 64) * 4096"
    unfolding d(2) add_mult_distrib by simp
  then show "c div 262144 * 262144 + c div 4096 mod 64 * 4096 + c div 64 mod 64 * 64 + c mod 64 = c"
    unfolding s using e by simp
qed

lemma utf8_next_bytes:
  "a < 128 \<Longrightarrow> utf8_next (char_of a # r) = a"
  "a < 32 \<Longrightarrow> b < 64 \<Longrightarrow> utf8_next (char_of (192 + a) # char_of (128 + b) # r) = a * 64 + b"
  "a < 16 \<Longrightarrow> b < 64 \<Longrightarrow> c < 64 \<Longrightarrow>
     utf8_next (char_of (224 + a) # char_of (128 + b) # char_of (128 + c) # r) = a * 4096 + b * 64 + c"
  "a < 5 \<Longrightarrow> b < 64 \<Longrightarrow> c < 64 \<Longrightarrow> d < 64 \<Longrightarrow>
     utf8_next (char_of (240 + a) # char_of (128 + b) # char_of (128 + c) # char_of (128 + d) # r)
       = a * 262144 + b * 4096 + c * 64 + d"
  by (simp_all add: utf8_next_def numeral_2_eq_2 numeral_3_eq_3)

lemma utf8_next_char:
  assumes "c < 1114112"
  shows "utf8_next (utf8_char c @ r) = c"
proof -
  note b = utf8_bounds [OF assms]
  have m: "x mod 64 < 64" for x :: nat by simp
  consider "c < 128" | "128 \<le> c" "c < 2048" | "2048 \<le> c" "c < 65536" | "65536 \<le> c" by linarith
  then show ?thesis
  proof cases
    case 1
    then show ?thesis by (simp only: utf8_char_def if_True append_Cons utf8_next_bytes(1))
  next
    case 2
    then have "\<not> c < 128" "c < 2048" by linarith+
    then show ?thesis
      by (simp only: utf8_char_def if_True if_False append_Cons append_Nil utf8_next_bytes(2) [OF b(2) m] utf8_parts)
  next
    case 3
    then have "\<not> c < 128" "\<not> c < 2048" "c < 65536" by linarith+
    then show ?thesis
      by (simp only: utf8_char_def if_True if_False append_Cons append_Nil utf8_next_bytes(3) [OF b(3) m m] utf8_parts)
  next
    case 4
    then have "\<not> c < 128" "\<not> c < 2048" "\<not> c < 65536" by linarith+
    then show ?thesis
      by (simp only: utf8_char_def if_True if_False append_Cons append_Nil utf8_next_bytes(4) [OF b(1) m m m] utf8_parts)
  qed
qed

lemma utf8_simps [simp]: "utf8 [] = []" "utf8 (c # s) = utf8_char c @ utf8 s" "utf8 (s @ t) = utf8 s @ utf8 t"
  by (simp_all add: utf8_def)

lemma utf8_char_nonempty [simp]: "utf8_char c \<noteq> []"
  by (simp add: utf8_char_def)

lemma utf8_Nil_iff [simp]: "utf8 s = [] \<longleftrightarrow> s = []"
  by (cases s) simp_all

lemma utf8_inject:
  "scalar_text s \<Longrightarrow> scalar_text t \<Longrightarrow> utf8 s = utf8 t \<longleftrightarrow> s = t"
proof (induction s arbitrary: t)
  case Nil
  then show ?case by (metis utf8_Nil_iff utf8_simps(1))
next
  case (Cons c s)
  show ?case
  proof (cases t)
    case (Cons d t')
    have "c = d" if "utf8 (c # s) = utf8 t"
      using that utf8_next_char [of c "utf8 s"] utf8_next_char [of d "utf8 t'"] Cons.prems
      by (simp add: Cons scalar_text_def)
    then show ?thesis using Cons.IH [of t'] Cons.prems by (auto simp: Cons scalar_text_def)
  qed simp
qed

lemma utf8_length_byte:
  fixes n :: nat
  shows
  "n < 128 \<or> 192 \<le> n \<and> n < 256 \<Longrightarrow> utf8_length (char_of n # s) = Suc (utf8_length s)"
  "n < 64 \<Longrightarrow> utf8_length (char_of (128 + n) # s) = utf8_length s"
  by (auto simp: utf8_length_def)

lemma utf8_length_char:
  assumes "c < 1114112"
  shows "utf8_length (utf8_char c) = 1"
proof -
  note b = utf8_bounds [OF assms]
  have m: "x mod 64 < 64" for x :: nat by simp
  have l': "utf8_length (char_of (192 + c div 64) # s) = Suc (utf8_length s)" if "c < 2048" for s
    by (rule utf8_length_byte(1)) (use b(2) [OF that] in simp)
  have l'': "utf8_length (char_of (224 + c div 4096) # s) = Suc (utf8_length s)" if "c < 65536" for s
    by (rule utf8_length_byte(1)) (use b(3) [OF that] in simp)
  have l4: "utf8_length (char_of (240 + c div 262144) # s) = Suc (utf8_length s)" for s
    by (rule utf8_length_byte(1)) (use b(1) in simp)
  have e: "utf8_length [] = 0" by (simp add: utf8_length_def)
  note bytes = utf8_char_def if_True if_False utf8_length_byte(2) [OF m] e One_nat_def
  show ?thesis
  proof (cases "c < 128")
    case True
    show ?thesis by (simp only: bytes True utf8_length_byte(1) [OF disjI1 [OF True]])
  next
    case a: False
    show ?thesis
    proof (cases "c < 2048")
      case True
      show ?thesis by (simp only: bytes a True l' [OF True])
    next
      case b: False
      show ?thesis
      proof (cases "c < 65536")
        case True
        show ?thesis by (simp only: bytes a b True l'' [OF True])
      qed (simp only: bytes a b l4)
    qed
  qed
qed

lemma utf8_length_append: "utf8_length (s @ t) = utf8_length s + utf8_length t"
  by (simp add: utf8_length_def)

lemma utf8_length_utf8: "scalar_text s \<Longrightarrow> utf8_length (utf8 s) = length s"
proof (induction s)
  case (Cons c s)
  then show ?case by (simp add: scalar_text_def utf8_length_append utf8_length_char)
qed (simp add: utf8_length_def)

subsection \<open>Whitespace, slices, search\<close>

definition py_space :: "nat \<Rightarrow> bool" where
  "py_space c \<longleftrightarrow> 9 \<le> c \<and> c \<le> 13 \<or> 28 \<le> c \<and> c \<le> 32 \<or> c = 133 \<or> c = 160 \<or> c = 5760 \<or>
     8192 \<le> c \<and> c \<le> 8202 \<or> c = 8232 \<or> c = 8233 \<or> c = 8239 \<or> c = 8287 \<or> c = 12288"

definition u_strip :: "ustr \<Rightarrow> ustr" where
  "u_strip s = rev (dropWhile py_space (rev (dropWhile py_space s)))"

function u_split :: "ustr \<Rightarrow> ustr list" where
  "u_split s =
     (let t = dropWhile py_space s in
      if t = [] then []
      else takeWhile (\<lambda>c. \<not> py_space c) t # u_split (dropWhile (\<lambda>c. \<not> py_space c) t))"
  by pat_completeness auto
termination
proof (relation "measure length", goal_cases)
  case (2 s t)
  then obtain x xs where t: "t = x # xs" and "\<not> py_space x"
    by (metis hd_dropWhile list.exhaust_sel)
  then have "length (dropWhile (\<lambda>c. \<not> py_space c) t) < length t"
    by (simp add: length_dropWhile_le less_Suc_eq_le)
  also have "\<dots> \<le> length s" using 2(1) by (simp add: length_dropWhile_le)
  finally show ?case by simp
qed simp

declare u_split.simps [simp del]

text \<open>\<open>text[a:b]\<close> for \<open>0 \<le> a \<le> b\<close>.\<close>

definition slice :: "ustr \<Rightarrow> nat \<Rightarrow> nat \<Rightarrow> ustr" where
  "slice t a b = take (b - a) (drop a t)"

lemma length_slice [simp]: "b \<le> length t \<Longrightarrow> length (slice t a b) = b - a"
  by (simp add: slice_def)

lemma slice_slice: "a + i \<le> a + j \<Longrightarrow> a + j \<le> b \<Longrightarrow> slice (slice t a b) i j = slice t (a + i) (a + j)"
  by (simp add: slice_def drop_take min_def add.commute)

lemma nth_slice: "a + i < b \<Longrightarrow> b \<le> length t \<Longrightarrow> slice t a b ! i = t ! (a + i)"
  by (simp add: slice_def)

lemma scalar_slice: "scalar_text t \<Longrightarrow> scalar_text (slice t a b)"
  by (auto simp: scalar_text_def slice_def list_all_iff dest: in_set_takeD in_set_dropD)

text \<open>\<open>text.find(sub, start)\<close>, \<open>None\<close> for -1.\<close>

fun find_in :: "ustr \<Rightarrow> ustr \<Rightarrow> nat \<Rightarrow> nat option" where
  "find_in sub [] i = (if sub = [] then Some i else None)"
| "find_in sub (c # cs) i =
     (if take (length sub) (c # cs) = sub then Some i else find_in sub cs (Suc i))"

definition text_find :: "ustr \<Rightarrow> ustr \<Rightarrow> nat \<Rightarrow> nat option" where
  "text_find t sub start = (if length t < start then None else find_in sub (drop start t) start)"

definition occurs_at :: "ustr \<Rightarrow> ustr \<Rightarrow> nat \<Rightarrow> bool" where
  "occurs_at t sub i \<longleftrightarrow> i + length sub \<le> length t \<and> slice t i (i + length sub) = sub"

definition contains :: "ustr \<Rightarrow> ustr \<Rightarrow> bool" where
  "contains t sub \<longleftrightarrow> text_find t sub 0 \<noteq> None"

lemma occurs_at_Cons: "occurs_at (c # t) sub (Suc i) = occurs_at t sub i"
  by (simp add: occurs_at_def slice_def)

lemma occurs_at_0: "occurs_at t sub 0 \<longleftrightarrow> take (length sub) t = sub"
  by (auto simp: occurs_at_def slice_def dest: arg_cong [where f = length])

lemma find_in_Some: "find_in sub t k = Some i \<longleftrightarrow>
    (\<exists>j. i = k + j \<and> occurs_at t sub j \<and> (\<forall>l < j. \<not> occurs_at t sub l))"
proof (induction sub t k rule: find_in.induct)
  case (1 sub k)
  then show ?case by (auto simp: occurs_at_def slice_def)
next
  case (2 sub c cs k)
  show ?case
  proof (cases "take (length sub) (c # cs) = sub")
    case True
    then have "occurs_at (c # cs) sub 0" by (simp only: occurs_at_0)
    then have "(\<exists>j. i = k + j \<and> occurs_at (c # cs) sub j \<and> (\<forall>l < j. \<not> occurs_at (c # cs) sub l)) \<longleftrightarrow> i = k"
      by (metis add.right_neutral gr_zeroI not_less_zero)
    then show ?thesis using True by auto
  next
    case False
    then have 0: "\<not> occurs_at (c # cs) sub 0" by (simp only: occurs_at_0 not_False_eq_True)
    have "(\<exists>j. i = k + j \<and> occurs_at (c # cs) sub j \<and> (\<forall>l < j. \<not> occurs_at (c # cs) sub l)) \<longleftrightarrow>
        (\<exists>j. i = Suc k + j \<and> occurs_at cs sub j \<and> (\<forall>l < j. \<not> occurs_at cs sub l))"
    proof
      assume "\<exists>j. i = k + j \<and> occurs_at (c # cs) sub j \<and> (\<forall>l < j. \<not> occurs_at (c # cs) sub l)"
      then obtain j where j: "i = k + j" "occurs_at (c # cs) sub j" "\<forall>l < j. \<not> occurs_at (c # cs) sub l" by blast
      then obtain m where "j = Suc m" using 0 by (cases j) auto
      moreover from this have "\<not> occurs_at cs sub l" if "l < m" for l
        using j(3) that by (auto simp: occurs_at_Cons dest: spec [where x = "Suc l"])
      ultimately show "\<exists>j. i = Suc k + j \<and> occurs_at cs sub j \<and> (\<forall>l < j. \<not> occurs_at cs sub l)"
        using j by (auto simp: occurs_at_Cons)
    next
      assume "\<exists>j. i = Suc k + j \<and> occurs_at cs sub j \<and> (\<forall>l < j. \<not> occurs_at cs sub l)"
      then obtain j where j: "i = Suc k + j" "occurs_at cs sub j" "\<forall>l < j. \<not> occurs_at cs sub l" by blast
      have "\<not> occurs_at (c # cs) sub l" if "l < Suc j" for l
        using that j(3) 0 by (cases l) (auto simp: occurs_at_Cons)
      then show "\<exists>j. i = k + j \<and> occurs_at (c # cs) sub j \<and> (\<forall>l < j. \<not> occurs_at (c # cs) sub l)"
        using j by (intro exI [of _ "Suc j"]) (auto simp: occurs_at_Cons)
    qed
    then show ?thesis using False 2 by simp
  qed
qed

lemma find_in_None: "find_in sub t k = None \<longleftrightarrow> (\<forall>i. \<not> occurs_at t sub i)"
proof
  assume "find_in sub t k = None"
  then have "\<not> (\<exists>j. occurs_at t sub j \<and> (\<forall>l < j. \<not> occurs_at t sub l))"
    by (metis find_in_Some option.distinct(1))
  then show "\<forall>i. \<not> occurs_at t sub i" by (metis exists_least_iff)
next
  assume "\<forall>i. \<not> occurs_at t sub i"
  then show "find_in sub t k = None" by (metis find_in_Some option.exhaust)
qed

lemma occurs_at_drop: "k \<le> length t \<Longrightarrow> occurs_at (drop k t) sub i = occurs_at t sub (k + i)"
  by (auto simp: occurs_at_def slice_def add.commute)

lemma text_find_Some:
  "text_find t sub k = Some i \<longleftrightarrow> k \<le> i \<and> k \<le> length t \<and> occurs_at t sub i \<and> (\<forall>j. k \<le> j \<and> j < i \<longrightarrow> \<not> occurs_at t sub j)"
proof (cases "k \<le> length t")
  case True
  have "(\<exists>j. i = k + j \<and> occurs_at t sub (k + j) \<and> (\<forall>l < j. \<not> occurs_at t sub (k + l))) \<longleftrightarrow>
      k \<le> i \<and> occurs_at t sub i \<and> (\<forall>j. k \<le> j \<and> j < i \<longrightarrow> \<not> occurs_at t sub j)"
    by (auto simp: le_iff_add)
  then show ?thesis using True by (simp add: text_find_def find_in_Some occurs_at_drop not_less)
qed (simp add: text_find_def)

lemma text_find_None: "k \<le> length t \<Longrightarrow> text_find t sub k = None \<longleftrightarrow> (\<forall>i \<ge> k. \<not> occurs_at t sub i)"
  by (auto simp: text_find_def find_in_None occurs_at_drop le_iff_add)

subsection \<open>Regular expressions\<close>

text \<open>\<open>re.findall(r"[^\W_]+", s)\<close>: the maximal runs of word characters other than the underscore.\<close>

function char_runs :: "(nat \<Rightarrow> bool) \<Rightarrow> ustr \<Rightarrow> ustr list" where
  "char_runs p s =
     (let t = dropWhile (\<lambda>c. \<not> p c) s in
      if t = [] then [] else takeWhile p t # char_runs p (dropWhile p t))"
  by pat_completeness auto
termination
proof (relation "measure (length \<circ> snd)", goal_cases)
  case (2 p s t)
  then obtain x xs where t: "t = x # xs" and "p x"
    by (metis hd_dropWhile list.exhaust_sel)
  then have "length (dropWhile p t) < length t"
    by (simp add: length_dropWhile_le less_Suc_eq_le)
  also have "\<dots> \<le> length s" using 2(1) by (simp add: length_dropWhile_le)
  finally show ?case by simp
qed simp

declare char_runs.simps [simp del]

definition find_words :: "Unicode \<Rightarrow> ustr \<Rightarrow> ustr list" where
  "find_words u s = char_runs (\<lambda>c. word_char u c \<and> c \<noteq> 95) s"

text \<open>\<open>re.finditer(r"(?m)^#+[^\n]*", s)\<close>: the lines that begin with \<open>#\<close>, with their offsets.\<close>

function hash_lines :: "ustr \<Rightarrow> nat \<Rightarrow> (nat \<times> ustr) list" where
  "hash_lines s i =
     (let l = takeWhile (\<lambda>c. c \<noteq> 10) s; rest = drop (Suc (length l)) s in
      if s = [] then []
      else (if l \<noteq> [] \<and> hd l = 35 then [(i, l)] else []) @ hash_lines rest (i + Suc (length l)))"
  by pat_completeness auto
termination by (relation "measure (length \<circ> fst)") auto

declare hash_lines.simps [simp del]

text \<open>The length of \<open>r"\r?\n[ \t]*\r?\n"\<close> matched at the beginning of the text.\<close>

definition drop_cr :: "ustr \<Rightarrow> ustr" where
  "drop_cr s = (case s of c # cs \<Rightarrow> if c = 13 then cs else s | [] \<Rightarrow> [])"

definition match_separator :: "ustr \<Rightarrow> nat option" where
  "match_separator s =
     (case drop_cr s of
        c # cs \<Rightarrow>
          if c \<noteq> 10 then None
          else (case drop_cr (dropWhile (\<lambda>c. c = 32 \<or> c = 9) cs) of
                  d # ds \<Rightarrow> if d = 10 then Some (length s - length ds) else None
                | [] \<Rightarrow> None)
      | [] \<Rightarrow> None)"

lemma drop_cr_split: "\<exists>p. s = p @ drop_cr s \<and> set p \<subseteq> {13}"
proof (cases "\<exists>cs. s = 13 # cs")
  case True
  then show ?thesis by (intro exI [of _ "[13]"]) (auto simp: drop_cr_def)
next
  case False
  then show ?thesis by (intro exI [of _ "[]"]) (auto simp: drop_cr_def split: list.splits)
qed

lemma match_separator_Some:
  assumes "match_separator s = Some n"
  shows "0 < n \<and> n \<le> length s \<and> (\<forall>c \<in> set (take n s). py_space c)"
proof -
  from assms obtain cs where a: "drop_cr s = 10 # cs"
    by (auto simp: match_separator_def split: list.splits if_splits)
  with assms obtain ds where b: "drop_cr (dropWhile (\<lambda>c. c = 32 \<or> c = 9) cs) = 10 # ds" "n = length s - length ds"
    by (auto simp: match_separator_def split: list.splits if_splits)
  let ?r = "dropWhile (\<lambda>c. c = 32 \<or> c = 9) cs"
  obtain p where p: "s = p @ 10 # cs" "set p \<subseteq> {13}" using drop_cr_split [of s] unfolding a by blast
  obtain q where q: "?r = q @ 10 # ds" "set q \<subseteq> {13}" using drop_cr_split [of ?r] unfolding b(1) by blast
  have c: "cs = takeWhile (\<lambda>c. c = 32 \<or> c = 9) cs @ q @ 10 # ds"
    using takeWhile_dropWhile_id [of "\<lambda>c. c = 32 \<or> c = 9" cs] unfolding q(1) by simp
  let ?m = "p @ 10 # takeWhile (\<lambda>c. c = 32 \<or> c = 9) cs @ q @ [10]"
  have s: "s = ?m @ ds" using p(1) c by simp
  then have n: "n = length ?m" using b(2) by (metis add_diff_cancel_right' length_append)
  then have t: "take n s = ?m" using s by (metis append_eq_conv_conj)
  have "py_space c" if "c \<in> set ?m" for c
  proof -
    have "py_space 13" "py_space 10" "py_space 32" "py_space 9" by (simp_all add: py_space_def)
    moreover have "c \<in> {13, 10, 32, 9}" using that p(2) q(2) by (auto dest: set_takeWhileD)
    ultimately show ?thesis by blast
  qed
  moreover have "0 < n" using n by simp
  moreover have "n \<le> length s" using n s by (metis length_append le_add1)
  ultimately show ?thesis using t by simp
qed

text \<open>\<open>re.finditer\<close> of the separator: the leftmost matches, one after the other.\<close>

function separators :: "ustr \<Rightarrow> nat \<Rightarrow> (nat \<times> nat) list" where
  "separators s i =
     (if s = [] then []
      else case match_separator s of
             None \<Rightarrow> separators (tl s) (Suc i)
           | Some n \<Rightarrow> (i, i + n) # separators (drop n s) (i + n))"
  by pat_completeness auto
termination
proof (relation "measure (length \<circ> fst)", goal_cases)
  case (3 s i n)
  then show ?case using match_separator_Some [of s n] by (cases s) auto
qed auto

declare separators.simps [simp del]

subsection \<open>Doubles\<close>

definition float_value :: "pyfloat \<Rightarrow> rat" where
  "float_value f =
     (case f of (m, e) \<Rightarrow> if 0 \<le> e then of_int m * 2 ^ nat e else of_int m / 2 ^ nat (- e))"

text \<open>The pair is the double's own: 53 bits of mantissa, or subnormal, or zero.\<close>

definition canonical_float :: "pyfloat \<Rightarrow> bool" where
  "canonical_float f =
     (case f of (m, e) \<Rightarrow> m = 0 \<and> e = 0 \<or> 2 ^ 52 \<le> \<bar>m\<bar> \<and> \<bar>m\<bar> < 2 ^ 53 \<or> m \<noteq> 0 \<and> \<bar>m\<bar> < 2 ^ 52 \<and> e = - 1074)"

function float_shift :: "nat \<Rightarrow> nat \<Rightarrow> nat \<Rightarrow> nat" where
  "float_shift m n k = (if m = 0 \<or> 2 ^ 52 * n \<le> m * 2 ^ k then k else float_shift m n (Suc k))"
  by pat_completeness auto
termination
proof (relation "measure (\<lambda>(m, n, k). 2 ^ 52 * n - m * 2 ^ k)", goal_cases)
  case (2 m n k)
  define c :: nat where "c = 2 ^ 52 * n"
  from 2 have "m * 2 ^ k < c" "0 < m * 2 ^ k" unfolding c_def not_le [symmetric] by simp_all
  then have "c - m * 2 ^ Suc k < c - m * 2 ^ k" by (intro diff_less_mono2) simp_all
  then show ?case unfolding c_def by (simp only: in_measure prod.case)
qed simp

declare float_shift.simps [simp del]

definition round_div :: "nat \<Rightarrow> nat \<Rightarrow> nat" where
  "round_div a n =
     (let d = a div n; r = a mod n in if 2 * r < n \<or> (2 * r = n \<and> even d) then d else Suc d)"

text \<open>\<open>m / n\<close> for integers \<open>0 \<le> m \<le> n\<close>, \<open>0 < n\<close>.\<close>

definition float_div :: "nat \<Rightarrow> nat \<Rightarrow> pyfloat" where
  "float_div m n =
     (if m = 0 then (0, 0)
      else let k = float_shift m n 52; q = round_div (m * 2 ^ k) n in
        if q = 2 ^ 53 then (2 ^ 52, 1 - int k) else (int q, - int k))"

lemma float_shift_le: "0 < m \<Longrightarrow> 2 ^ 52 * n \<le> m * 2 ^ float_shift m n k"
  by (induction m n k rule: float_shift.induct) (subst (1) float_shift.simps, simp)

lemma float_shift_ge: "k \<le> float_shift m n k"
proof (induction m n k rule: float_shift.induct)
  case (1 m n k)
  then show ?case by (subst float_shift.simps) auto
qed

lemma float_shift_less:
  "0 < m \<Longrightarrow> m * 2 ^ k \<le> 2 ^ 52 * n \<Longrightarrow> m * 2 ^ float_shift m n k < 2 ^ 53 * n \<or> n = 0"
proof (induction m n k rule: float_shift.induct)
  case (1 m n k)
  show ?case
  proof (cases "2 ^ 52 * n \<le> m * 2 ^ k")
    case True
    then show ?thesis using 1(3) by (subst float_shift.simps) auto
  next
    case False
    then have f: "float_shift m n k = float_shift m n (Suc k)"
      using 1(2) by (subst float_shift.simps) simp
    show ?thesis
    proof (cases "m * 2 ^ Suc k \<le> 2 ^ 52 * n")
      case True
      then show ?thesis using 1(1) [OF _ 1(2) True] False 1(2) f by simp
    next
      case big: False
      then have "float_shift m n (Suc k) = Suc k" by (subst float_shift.simps) auto
      then show ?thesis using False f by simp
    qed
  qed
qed

lemma round_div_bounds:
  assumes "0 < n" "b * n \<le> a"
  shows "b \<le> round_div a n"
proof -
  have "b \<le> a div n" using assms by (metis div_le_mono nonzero_mult_div_cancel_right not_gr_zero)
  then show ?thesis by (simp add: round_div_def Let_def)
qed

lemma round_div_le:
  assumes "0 < n" "a \<le> c * n"
  shows "round_div a n \<le> c"
proof (cases "a div n < c")
  case True
  then show ?thesis by (simp add: round_div_def Let_def)
next
  case False
  have "a div n \<le> c" using assms by (metis div_le_mono nonzero_mult_div_cancel_right not_gr_zero)
  with False have d: "a div n = c" by simp
  then have "a mod n = 0" using assms by (metis add_le_same_cancel1 div_mult_mod_eq le_zero_eq)
  then show ?thesis using d assms(1) by (simp add: round_div_def)
qed

lemma float_div_unit:
  assumes "0 < m" "m \<le> n"
  shows "canonical_float (float_div m n) \<and> 0 < float_value (float_div m n) \<and> float_value (float_div m n) \<le> 1"
proof -
  define k where "k = float_shift m n 52"
  define q where "q = round_div (m * 2 ^ k) n"
  have n: "0 < n" using assms by simp
  have k: "52 \<le> k" unfolding k_def by (rule float_shift_ge)
  have lo: "2 ^ 52 \<le> q" unfolding q_def k_def
    by (rule round_div_bounds [OF n]) (use float_shift_le assms in simp)
  have "m * 2 ^ k < 2 ^ 53 * n" using float_shift_less [of m 52 n] assms n by (simp add: k_def)
  then have hi: "q \<le> 2 ^ 53" unfolding q_def by (intro round_div_le [OF n]) simp
  have one: "q \<le> 2 ^ k" unfolding q_def by (rule round_div_le [OF n]) (use assms(2) in simp)
  then have "rat_of_nat q \<le> 2 ^ k" by (metis of_nat_le_iff of_nat_numeral of_nat_power)
  then have v: "rat_of_nat q / 2 ^ k \<le> 1" by simp
  have d: "float_div m n = (if q = 2 ^ 53 then (2 ^ 52, 1 - int k) else (int q, - int k))"
    using assms by (simp add: float_div_def k_def q_def Let_def)
  have i: "int q < 2 ^ 53" if "q \<noteq> 2 ^ 53"
    using that hi by (metis nat_less_le of_nat_less_iff of_nat_numeral of_nat_power)
  have j: "2 ^ 52 \<le> int q" using lo by (metis of_nat_le_iff of_nat_numeral of_nat_power)
  show ?thesis
  proof (cases "q = 2 ^ 53")
    case True
    have "\<not> 0 \<le> 1 - int k" "nat (- (1 - int k)) = k - 1" using k by simp_all
    then have f: "float_value (2 ^ 52, 1 - int k) = 2 ^ 52 / 2 ^ (k - 1)" by (simp add: float_value_def)
    have "(2::rat) ^ k = 2 * 2 ^ (k - 1)" using k by (simp add: power_eq_if)
    then have "(2::rat) ^ 52 / 2 ^ (k - 1) = rat_of_nat q / 2 ^ k" by (simp add: True)
    then show ?thesis using v d True f by (simp add: canonical_float_def)
  next
    case False
    have "float_value (int q, - int k) = rat_of_nat q / 2 ^ k" using k by (simp add: float_value_def)
    moreover have "0 < rat_of_nat q" using lo by (simp add: Suc_le_lessD)
    ultimately show ?thesis using v d False i j by (simp add: canonical_float_def)
  qed
qed

end
