(* ===== verification/VR_Retrieval.thy ===== *)
theory VR_Retrieval
  imports VR_Text
begin

section \<open>Retrieval candidates, the ledger and the text retriever (\<open>library/retrieval.py\<close>)\<close>

text \<open>
  A retrieval candidate (\<open>RawCandidateHit\<close>) is a slice of a locked paper with the hashes that
  prove it; a ledger lists the candidates of one query in ranked order and says which of them may
  be promoted. \<open>text_search\<close> is \<open>DeterministicTextRetriever._search_with_accounting\<close>: the
  paragraphs of every locked paper, in order, each scored by the share of the query's terms it
  contains and kept in two bounded lists. Every candidate is built by its constructor, so a field
  constraint that fails ends the search with an error, as the pydantic class does.

  The corpus is the one \<open>VerifiedCorpus\<close> holds after its lock was verified: generation, hash of
  the lock, raw path, raw hash and text of each paper, bibliography keys, and the decoded graph
  export when the lock names one. Texts of papers are decoded strictly and queries come from parsed
  records, so neither holds a lone surrogate; a text that does, which only an escape in the graph
  export can bring in, is encoded here like any other, where \<open>str.encode\<close> raises.
\<close>

definition MAX_TOP_K :: nat where "MAX_TOP_K = 100"
definition MAX_QUERY_TERMS :: nat where "MAX_QUERY_TERMS = 64"
definition MAX_CANDIDATE_CHARS :: nat where "MAX_CANDIDATE_CHARS = 16384"
definition MAX_CONTEXT_CHARS :: nat where "MAX_CONTEXT_CHARS = 16384"
definition MAX_INVALID_DIAGNOSTICS :: nat where "MAX_INVALID_DIAGNOSTICS = 100"
definition MAX_QUERY_CHARS :: nat where "MAX_QUERY_CHARS = 4096"
definition MAX_QUERY_UTF8_BYTES :: nat where "MAX_QUERY_UTF8_BYTES = 16384"
definition MAX_LEDGER_HITS :: nat where "MAX_LEDGER_HITS = 2 * MAX_TOP_K + 2 * MAX_INVALID_DIAGNOSTICS"
definition MAX_LEDGER_METADATA_CHARS :: nat where "MAX_LEDGER_METADATA_CHARS = 4096"
definition MAX_TRUNCATED_CANDIDATES :: nat where "MAX_TRUNCATED_CANDIDATES = 2 ^ 63 - 1"
definition MAX_EXTENSION_BACKEND_RESULTS :: nat where
  "MAX_EXTENSION_BACKEND_RESULTS = MAX_TOP_K + MAX_INVALID_DIAGNOSTICS"

lemmas retrieval_bounds = MAX_TOP_K_def MAX_QUERY_TERMS_def MAX_CANDIDATE_CHARS_def MAX_CONTEXT_CHARS_def
  MAX_INVALID_DIAGNOSTICS_def MAX_QUERY_CHARS_def MAX_QUERY_UTF8_BYTES_def MAX_LEDGER_HITS_def
  MAX_LEDGER_METADATA_CHARS_def MAX_EXTENSION_BACKEND_RESULTS_def

datatype CandidateHitOrigin = GRAPH | TEXT_BASELINE | BOTH

definition CandidateHitOrigin_value :: "CandidateHitOrigin \<Rightarrow> string" where
  "CandidateHitOrigin_value o' = (case o' of GRAPH \<Rightarrow> ''graph'' | TEXT_BASELINE \<Rightarrow> ''text_baseline'' | BOTH \<Rightarrow> ''both'')"

subsection \<open>Candidates\<close>

record RawCandidateHit =
  candidate_key :: string
  paper_id :: string
  raw_md_path :: string
  query_id :: string
  query_text_hash :: string
  intent :: RetrievalIntent
  origin :: CandidateHitOrigin
  source_text :: ustr
  start_offset :: "nat option"
  end_offset :: "nat option"
  source_span_hash :: "string option"
  context_text :: "ustr option"
  context_start_offset :: "nat option"
  context_end_offset :: "nat option"
  context_utf8_hash :: "string option"
  "section" :: "ustr option"
  upstream_node_id :: "ustr option"
  upstream_relation :: "ustr option"
  score :: pyfloat
  is_valid :: bool
  validation_error :: "string option"

definition metadata_text :: "ustr option \<Rightarrow> bool" where
  "metadata_text = opt_all (\<lambda>s. length s \<le> MAX_LEDGER_METADATA_CHARS)"

text \<open>The field constraints; \<open>ge=0\<close> on an offset is its type, and the offset unit is a constant.\<close>

definition RawCandidateHit_fields :: "RawCandidateHit \<Rightarrow> bool" where
  "RawCandidateHit_fields h \<longleftrightarrow>
     is_Sha256 (candidate_key h) \<and> is_PaperId (RawCandidateHit.paper_id h) \<and>
     RawCandidateHit.raw_md_path h \<noteq> '''' \<and> utf8_length (RawCandidateHit.raw_md_path h) \<le> MAX_LEDGER_METADATA_CHARS \<and>
     is_QueryId (RawCandidateHit.query_id h) \<and> is_Sha256 (query_text_hash h) \<and>
     RawCandidateHit.source_text h \<noteq> [] \<and> length (RawCandidateHit.source_text h) \<le> MAX_CANDIDATE_CHARS \<and>
     opt_all (\<lambda>n. 0 < n) (RawCandidateHit.end_offset h) \<and>
     opt_all is_Sha256 (RawCandidateHit.source_span_hash h) \<and>
     opt_all (\<lambda>t. t \<noteq> [] \<and> length t \<le> MAX_CONTEXT_CHARS) (context_text h) \<and>
     opt_all (\<lambda>n. 0 < n) (context_end_offset h) \<and> opt_all is_Sha256 (context_utf8_hash h) \<and>
     metadata_text (RawCandidateHit.section h) \<and> metadata_text (upstream_node_id h) \<and> metadata_text (upstream_relation h) \<and>
     canonical_float (score h) \<and> 0 \<le> float_value (score h) \<and> float_value (score h) \<le> 1 \<and>
     opt_all (\<lambda>e. utf8_length e \<le> MAX_LEDGER_METADATA_CHARS) (validation_error h)"

definition no_context :: "RawCandidateHit \<Rightarrow> bool" where
  "no_context h \<longleftrightarrow> context_text h = None \<and> context_start_offset h = None \<and>
     context_end_offset h = None \<and> context_utf8_hash h = None"

definition full_context :: "RawCandidateHit \<Rightarrow> bool" where
  "full_context h \<longleftrightarrow> context_text h \<noteq> None \<and> context_start_offset h \<noteq> None \<and>
     context_end_offset h \<noteq> None \<and> context_utf8_hash h \<noteq> None"

text \<open>The branch of a valid candidate, and of an invalid one.\<close>

definition valid_hit_checks :: "RawCandidateHit \<Rightarrow> string option" where
  "valid_hit_checks h =
     (let a = the (RawCandidateHit.start_offset h); b = the (RawCandidateHit.end_offset h);
          ca = the (context_start_offset h); cb = the (context_end_offset h);
          body = the (context_text h); src = RawCandidateHit.source_text h in
      raise_if (RawCandidateHit.start_offset h = None \<or> RawCandidateHit.source_span_hash h = None)
        ''valid candidates require offsets and a source-span hash''
     (raise_if (\<not> full_context h) ''valid candidates require bounded source context''
     (raise_if (validation_error h \<noteq> None) ''valid candidates cannot carry a validation error''
     (raise_if (b - a \<noteq> length src) ''valid candidate offsets must span exactly the source text''
     (raise_if (the (RawCandidateHit.source_span_hash h) \<noteq> hash_bytes (utf8 src))
        ''valid candidate source-span hash must match the source text''
     (raise_if (\<not> (ca \<le> a \<and> a < b \<and> b \<le> cb)) ''candidate context must contain the source span''
     (raise_if (cb - ca \<noteq> length body) ''candidate context offsets must span exactly the context text''
     (raise_if (slice body (a - ca) (b - ca) \<noteq> src) ''candidate context does not contain its source text''
     (raise_if (the (context_utf8_hash h) \<noteq> hash_bytes (utf8 body))
        ''candidate context UTF-8 hash does not match its text'' None)))))))))"

definition invalid_hit_checks :: "RawCandidateHit \<Rightarrow> string option" where
  "invalid_hit_checks h =
     raise_if (absent (validation_error h)) ''invalid candidates require a validation error''
    (raise_if (\<not> no_context h) ''invalid candidates cannot carry source context'' None)"

definition provenance_checks :: "RawCandidateHit \<Rightarrow> string option" where
  "provenance_checks h =
     (if origin h = TEXT_BASELINE then
        raise_if (upstream_node_id h \<noteq> None \<or> upstream_relation h \<noteq> None)
          ''text candidates cannot carry graph provenance'' None
      else raise_if (upstream_node_id h = None \<or> upstream_relation h = None)
          ''graph-derived candidates require graph provenance'' None)"

definition offset_checks :: "RawCandidateHit \<Rightarrow> string option" where
  "offset_checks h =
     (let a = RawCandidateHit.start_offset h; b = RawCandidateHit.end_offset h in
      raise_if ((a = None) \<noteq> (b = None)) ''candidate offsets must both be present or absent''
     (raise_if (a \<noteq> None \<and> b \<noteq> None \<and> the b \<le> the a) ''candidate end_offset must be greater than start_offset''
     (raise_if (\<not> no_context h \<and> \<not> full_context h) ''candidate context fields must be present together'' None)))"

definition RawCandidateHit_validator :: "RawCandidateHit \<Rightarrow> string option" where
  "RawCandidateHit_validator h =
     (case parse_query_id (RawCandidateHit.query_id h) of
        Inl e \<Rightarrow> Some e
      | Inr (_, encoded_intent, _) \<Rightarrow>
          raise_if (encoded_intent \<noteq> RetrievalIntent_value (RawCandidateHit.intent h))
            ''query ID intent and candidate intent disagree''
         (case offset_checks h of Some e \<Rightarrow> Some e
          | None \<Rightarrow>
            (case (if is_valid h then valid_hit_checks h else invalid_hit_checks h) of Some e \<Rightarrow> Some e
             | None \<Rightarrow> provenance_checks h)))"

definition valid_RawCandidateHit :: "RawCandidateHit \<Rightarrow> bool" where
  "valid_RawCandidateHit h \<longleftrightarrow> RawCandidateHit_fields h \<and> RawCandidateHit_validator h = None"

text \<open>The constructor call: pydantic's \<open>ValidationError\<close>, or the candidate.\<close>

definition new_hit :: "RawCandidateHit \<Rightarrow> string + RawCandidateHit" where
  "new_hit h =
     (if \<not> RawCandidateHit_fields h then Inl ''field constraint''
      else case RawCandidateHit_validator h of Some e \<Rightarrow> Inl e | None \<Rightarrow> Inr h)"

lemma new_hit_Inr [simp]: "new_hit h = Inr h' \<longleftrightarrow> h' = h \<and> valid_RawCandidateHit h"
  by (auto simp: new_hit_def valid_RawCandidateHit_def split: option.splits)

subsection \<open>Ranking and the ledger\<close>

definition rank_score :: "RawCandidateHit \<Rightarrow> rat" where
  "rank_score h = - float_value (score h)"

definition valid_hit_order_key :: "RawCandidateHit \<Rightarrow> rat \<times> string \<times> nat \<times> string" where
  "valid_hit_order_key h =
     (rank_score h, RawCandidateHit.paper_id h, the (RawCandidateHit.start_offset h), candidate_key h)"

definition invalid_hit_order_key :: "RawCandidateHit \<Rightarrow> rat \<times> string \<times> string \<times> ustr \<times> ustr \<times> string" where
  "invalid_hit_order_key h =
     (rank_score h, RawCandidateHit.paper_id h, candidate_key h,
      (case upstream_node_id h of None \<Rightarrow> [] | Some s \<Rightarrow> s),
      (case upstream_relation h of None \<Rightarrow> [] | Some s \<Rightarrow> s),
      (case validation_error h of None \<Rightarrow> '''' | Some s \<Rightarrow> s))"

record RetrievalLedger =
  source_generation :: nat
  query_id :: string
  query_text_hash :: string
  corpus_lock_hash :: string
  requested_top_k :: nat
  max_query_terms :: nat
  total_candidates :: nat
  valid_candidates :: nat
  invalid_candidates :: nat
  text_truncated_valid_candidates :: nat
  text_truncated_invalid_candidates :: nat
  graph_truncated_valid_candidates :: nat
  graph_truncated_invalid_candidates :: nat
  selected_candidate_keys :: "string list"
  excluded_by_budget_candidate_keys :: "string list"
  raw_hits :: "RawCandidateHit list"

definition RetrievalLedger_fields :: "RetrievalLedger \<Rightarrow> bool" where
  "RetrievalLedger_fields l \<longleftrightarrow>
     is_QueryId (RetrievalLedger.query_id l) \<and> is_Sha256 (RetrievalLedger.query_text_hash l) \<and>
     is_Sha256 (corpus_lock_hash l) \<and>
     1 \<le> requested_top_k l \<and> requested_top_k l \<le> MAX_TOP_K \<and>
     1 \<le> max_query_terms l \<and> max_query_terms l \<le> MAX_QUERY_TERMS \<and>
     text_truncated_valid_candidates l \<le> MAX_TRUNCATED_CANDIDATES \<and>
     text_truncated_invalid_candidates l \<le> MAX_TRUNCATED_CANDIDATES \<and>
     graph_truncated_valid_candidates l \<le> MAX_TRUNCATED_CANDIDATES \<and>
     graph_truncated_invalid_candidates l \<le> MAX_TRUNCATED_CANDIDATES \<and>
     list_all is_Sha256 (selected_candidate_keys l) \<and> list_all is_Sha256 (excluded_by_budget_candidate_keys l)"

definition ordered_valid :: "RawCandidateHit list \<Rightarrow> RawCandidateHit list" where
  "ordered_valid hits = sort_key valid_hit_order_key (filter is_valid hits)"

definition ordered_invalid :: "RawCandidateHit list \<Rightarrow> RawCandidateHit list" where
  "ordered_invalid hits = sort_key invalid_hit_order_key (filter (\<lambda>h. \<not> is_valid h) hits)"

definition RetrievalLedger_validator :: "RetrievalLedger \<Rightarrow> string option" where
  "RetrievalLedger_validator l =
     (let hits = raw_hits l; valid = length (filter is_valid hits); invalid = length hits - valid;
          selected = selected_candidate_keys l; excluded = excluded_by_budget_candidate_keys l;
          ranked = ordered_valid hits; k = requested_top_k l in
      raise_if (MAX_LEDGER_HITS < length hits) ''retrieval ledger exceeds its bounded hit limit''
     (raise_if (2 * MAX_TOP_K < valid \<or> 2 * MAX_INVALID_DIAGNOSTICS < invalid)
        ''retrieval ledger exceeds its per-class hit limits''
     (raise_if (total_candidates l \<noteq> length hits) ''retrieval ledger total does not equal raw_hits''
     (raise_if (valid_candidates l \<noteq> valid \<or> invalid_candidates l \<noteq> invalid)
        ''retrieval ledger validity counts do not match raw_hits''
     (raise_if (list_ex (\<lambda>h. RawCandidateHit.query_id h \<noteq> RetrievalLedger.query_id l) hits)
        ''retrieval ledger contains a hit for another query''
     (raise_if (list_ex (\<lambda>h. RawCandidateHit.query_text_hash h \<noteq> RetrievalLedger.query_text_hash l) hits)
        ''retrieval ledger contains a hit for another query text''
     (raise_if (\<not> distinct (map candidate_key hits)) ''retrieval candidate keys must be unique across all raw hits''
     (raise_if (k < length selected) ''retrieval ledger selects more than the promotion budget''
     (raise_if (\<not> distinct selected \<or> \<not> distinct excluded) ''retrieval ledger candidate classifications must be unique''
     (raise_if (set selected \<inter> set excluded \<noteq> {}) ''selected and over-budget candidates must be disjoint''
     (raise_if (set selected \<union> set excluded \<noteq> set (map candidate_key (filter is_valid hits)))
        ''selected and over-budget candidates must partition valid raw hits''
     (raise_if (selected \<noteq> map candidate_key (take k ranked) \<or> excluded \<noteq> map candidate_key (drop k ranked))
        ''retrieval ledger selection does not match deterministic ranking''
     (raise_if (hits \<noteq> ranked @ ordered_invalid hits)
        ''retrieval ledger hits are not in deterministic order'' None)))))))))))))"

definition valid_RetrievalLedger :: "RetrievalLedger \<Rightarrow> bool" where
  "valid_RetrievalLedger l \<longleftrightarrow>
     RetrievalLedger_fields l \<and> list_all valid_RawCandidateHit (raw_hits l) \<and> RetrievalLedger_validator l = None"

subsection \<open>Queries, sections, paragraphs, context\<close>

definition u_query_text_hash :: "ustr \<Rightarrow> string" where
  "u_query_text_hash query = hash_bytes (utf8 query)"

definition query_terms :: "Unicode \<Rightarrow> ustr \<Rightarrow> nat \<Rightarrow> string + ustr list" where
  "query_terms u query max_terms =
     (if MAX_QUERY_CHARS < length query \<or> MAX_QUERY_UTF8_BYTES < length (utf8 query)
      then Inl ''retrieval query exceeds its deterministic text budget''
      else if \<not> (1 \<le> max_terms \<and> max_terms \<le> MAX_QUERY_TERMS)
      then Inl ''max_terms must be between 1 and 64''
      else Inr (take max_terms (fromkeys (filter (\<lambda>t. 2 < length t) (map (casefold u) (find_words u query))))))"

definition JOffset :: "nat option \<Rightarrow> Json" where
  "JOffset x = (case x of None \<Rightarrow> JNull | Some n \<Rightarrow> JInt (int n))"

definition make_candidate_key ::
  "string \<Rightarrow> string \<Rightarrow> string \<Rightarrow> string \<Rightarrow> ustr \<Rightarrow> nat option \<Rightarrow> nat option \<Rightarrow> CandidateHitOrigin \<Rightarrow> string" where
  "make_candidate_key pid raw_hash qid query_hash src a b org =
     hash_json (JObject
       [(''paper_id'', JString pid), (''raw_md_hash'', JString raw_hash), (''query_id'', JString qid),
        (''query_text_hash'', JString query_hash), (''source_text'', JString (utf8 src)),
        (''start_offset'', JOffset a), (''end_offset'', JOffset b),
        (''origin'', JString (CandidateHitOrigin_value org))])"

definition heading_index :: "ustr \<Rightarrow> (nat \<times> ustr) list" where
  "heading_index t =
     filter (\<lambda>(_, heading). heading \<noteq> [])
       (map (\<lambda>(i, l). (i, u_strip (dropWhile (\<lambda>c. c = 35) l))) (hash_lines t 0))"

definition section_at :: "(nat \<times> ustr) list \<Rightarrow> nat \<Rightarrow> ustr option" where
  "section_at idx off =
     (let position = length (takeWhile (\<lambda>(i, _). i \<le> off) idx) in
      if 0 < position then Some (snd (idx ! (position - 1))) else None)"

function skip_left :: "ustr \<Rightarrow> nat \<Rightarrow> nat \<Rightarrow> nat" where
  "skip_left t a b = (if a < b \<and> py_space (t ! a) then skip_left t (Suc a) b else a)"
  by pat_completeness auto
termination by (relation "measure (\<lambda>(t, a, b). b - a)") auto

fun skip_right :: "ustr \<Rightarrow> nat \<Rightarrow> nat \<Rightarrow> nat" where
  "skip_right t a 0 = 0"
| "skip_right t a (Suc b) = (if a < Suc b \<and> py_space (t ! b) then skip_right t a b else Suc b)"

declare skip_left.simps [simp del]

definition trimmed :: "ustr \<Rightarrow> nat \<Rightarrow> nat \<Rightarrow> (nat \<times> nat) list" where
  "trimmed t a b =
     (let a' = skip_left t a b; b' = skip_right t a' b in if a' < b' then [(a', b')] else [])"

fun slices_between :: "ustr \<Rightarrow> (nat \<times> nat) list \<Rightarrow> nat \<Rightarrow> (nat \<times> nat) list" where
  "slices_between t [] a = trimmed t a (length t)"
| "slices_between t ((b, c) # seps) a = trimmed t a b @ slices_between t seps c"

definition paragraph_slices :: "ustr \<Rightarrow> (nat \<times> nat) list" where
  "paragraph_slices t = slices_between t (separators t 0) 0"

definition bounded_context_slice :: "ustr \<Rightarrow> nat \<Rightarrow> nat \<Rightarrow> string + (nat \<times> nat \<times> ustr)" where
  "bounded_context_slice t a b =
     (if \<not> (a < b \<and> b \<le> length t) then Inl ''source offsets are outside the raw Markdown''
      else if MAX_CONTEXT_CHARS < b - a then Inl ''source span exceeds the context size limit''
      else let remaining = MAX_CONTEXT_CHARS - (b - a);
               before = min a (remaining div 2);
               after = min (length t - b) (remaining - before);
               remaining1 = remaining - (before + after);
               extra = min (a - before) remaining1;
               before1 = before + extra;
               remaining2 = remaining1 - extra;
               after1 = after + min (length t - b - after) remaining2;
               ca = a - before1; cb = b + after1
           in Inr (ca, cb, slice t ca cb))"

subsection \<open>The text retriever\<close>

record VerifiedCorpus =
  generation :: nat
  lock_hash :: string
  paper_texts :: "(string \<times> string \<times> string \<times> ustr) list"
  bibliography_keys :: "(ustr \<times> string) list"

text \<open>\<open>values.append(value); values.sort(key=key)\<close>, and one too many is dropped.\<close>

definition retain_best :: "nat \<Rightarrow> ('a \<Rightarrow> 'k::linorder) \<Rightarrow> 'a list \<Rightarrow> 'a \<Rightarrow> 'a list" where
  "retain_best limit key values x =
     (let vs = sort_key key (values @ [x]) in if limit < length vs then butlast vs else vs)"

record SearchState =
  valid_hits :: "RawCandidateHit list"
  invalid_hits :: "RawCandidateHit list"
  valid_seen :: nat
  invalid_seen :: nat

definition empty_search :: SearchState where
  "empty_search = \<lparr>valid_hits = [], invalid_hits = [], valid_seen = 0, invalid_seen = 0\<rparr>"

record SearchBatch =
  batch_hits :: "RawCandidateHit list"
  truncated_valid_candidates :: nat
  truncated_invalid_candidates :: nat

definition empty_batch :: SearchBatch where
  "empty_batch = \<lparr>batch_hits = [], truncated_valid_candidates = 0, truncated_invalid_candidates = 0\<rparr>"

definition search_batch :: "SearchState \<Rightarrow> SearchBatch" where
  "search_batch st =
     \<lparr>batch_hits = valid_hits st @ invalid_hits st,
      truncated_valid_candidates = valid_seen st - length (valid_hits st),
      truncated_invalid_candidates = invalid_seen st - length (invalid_hits st)\<rparr>"

definition text_valid_key :: "RawCandidateHit \<Rightarrow> rat \<times> string \<times> nat \<times> string" where
  "text_valid_key h =
     (rank_score h, RawCandidateHit.paper_id h,
      (case RawCandidateHit.start_offset h of None \<Rightarrow> 0 | Some a \<Rightarrow> a), candidate_key h)"

definition short_invalid_key :: "RawCandidateHit \<Rightarrow> rat \<times> string \<times> string" where
  "short_invalid_key h = (rank_score h, RawCandidateHit.paper_id h, candidate_key h)"

fun fold_result :: "('s \<Rightarrow> 'a \<Rightarrow> 'e + 's) \<Rightarrow> 'a list \<Rightarrow> 's \<Rightarrow> 'e + 's" where
  "fold_result f [] s = Inr s"
| "fold_result f (x # xs) s = (case f s x of Inl e \<Rightarrow> Inl e | Inr s' \<Rightarrow> fold_result f xs s')"

text \<open>One candidate that was built is counted and kept.\<close>

definition keep_hit ::
  "(RawCandidateHit \<Rightarrow> rat \<times> string \<times> nat \<times> string) \<Rightarrow> nat \<Rightarrow> SearchState \<Rightarrow> RawCandidateHit \<Rightarrow> SearchState" where
  "keep_hit key limit st h =
     (if is_valid h then st\<lparr>valid_seen := Suc (valid_seen st), valid_hits := retain_best limit key (valid_hits st) h\<rparr>
      else st\<lparr>invalid_seen := Suc (invalid_seen st),
              invalid_hits := retain_best MAX_INVALID_DIAGNOSTICS short_invalid_key (invalid_hits st) h\<rparr>)"

definition matched_terms :: "Unicode \<Rightarrow> ustr list \<Rightarrow> ustr \<Rightarrow> nat" where
  "matched_terms u terms s = (let lowered = casefold u s in length (filter (contains lowered) terms))"

record TextQuery =
  terms :: "ustr list"
  id_text :: string
  text_hash :: string
  wanted :: RetrievalIntent

text \<open>The candidate of a matching paragraph that is too long, and of one that fits.\<close>

definition oversized_hit :: "TextQuery \<Rightarrow> nat \<Rightarrow> string \<times> string \<times> string \<times> ustr \<Rightarrow> ustr \<Rightarrow> RawCandidateHit" where
  "oversized_hit q matched paper src =
     (case paper of (pid, raw_path, raw_hash, _) \<Rightarrow>
      let bounded = take MAX_CANDIDATE_CHARS src in
      \<lparr>candidate_key = make_candidate_key pid raw_hash (id_text q) (text_hash q) bounded None None TEXT_BASELINE,
       paper_id = pid, raw_md_path = raw_path, query_id = id_text q, query_text_hash = text_hash q,
       intent = wanted q, origin = TEXT_BASELINE, source_text = bounded, start_offset = None, end_offset = None,
       source_span_hash = None, context_text = None, context_start_offset = None, context_end_offset = None,
       context_utf8_hash = None, section = None, upstream_node_id = None, upstream_relation = None,
       score = float_div matched (length (terms q)), is_valid = False,
       validation_error = Some ''matching paragraph exceeds the runtime candidate size limit''\<rparr>)"

definition located_hit ::
  "TextQuery \<Rightarrow> pyfloat \<Rightarrow> CandidateHitOrigin \<Rightarrow> string \<times> string \<times> string \<times> ustr \<Rightarrow> ustr \<Rightarrow> nat \<Rightarrow> nat
    \<Rightarrow> nat \<times> nat \<times> ustr \<Rightarrow> ustr option \<Rightarrow> ustr option \<Rightarrow> RawCandidateHit" where
  "located_hit q sc org paper src a b window node relation =
     (case paper of (pid, raw_path, raw_hash, body) \<Rightarrow> case window of (ca, cb, around) \<Rightarrow>
      \<lparr>candidate_key = make_candidate_key pid raw_hash (id_text q) (text_hash q) src (Some a) (Some b) org,
       paper_id = pid, raw_md_path = raw_path, query_id = id_text q, query_text_hash = text_hash q,
       intent = wanted q, origin = org, source_text = src, start_offset = Some a, end_offset = Some b,
       source_span_hash = Some (hash_bytes (utf8 src)), context_text = Some around,
       context_start_offset = Some ca, context_end_offset = Some cb,
       context_utf8_hash = Some (hash_bytes (utf8 around)), section = section_at (heading_index body) a,
       upstream_node_id = node, upstream_relation = relation,
       score = sc, is_valid = True, validation_error = None\<rparr>)"

definition text_step ::
  "Unicode \<Rightarrow> TextQuery \<Rightarrow> nat \<Rightarrow> SearchState \<Rightarrow> (string \<times> string \<times> string \<times> ustr) \<times> nat \<times> nat \<Rightarrow> string + SearchState" where
  "text_step u q limit st item =
     (case item of (paper, a, b) \<Rightarrow>
      let body = snd (snd (snd paper)); src = slice body a b; matched = matched_terms u (terms q) src in
      if matched = 0 then Inr st
      else if MAX_CANDIDATE_CHARS < length src then
        (case new_hit (oversized_hit q matched paper src) of
           Inl e \<Rightarrow> Inl e | Inr h \<Rightarrow> Inr (keep_hit text_valid_key limit st h))
      else (case bounded_context_slice body a b of
              Inl e \<Rightarrow> Inl e
            | Inr window \<Rightarrow>
                (case new_hit (located_hit q (float_div matched (length (terms q))) TEXT_BASELINE paper src a b
                         window None None) of
                   Inl e \<Rightarrow> Inl e | Inr h \<Rightarrow> Inr (keep_hit text_valid_key limit st h))))"

definition text_items :: "VerifiedCorpus \<Rightarrow> ((string \<times> string \<times> string \<times> ustr) \<times> nat \<times> nat) list" where
  "text_items corpus =
     concat (map (\<lambda>paper. map (Pair paper) (paragraph_slices (snd (snd (snd paper)))))
       (sort_key fst (paper_texts corpus)))"

text \<open>The checks both retrievers make before they look at a paper.\<close>

definition search_query ::
  "Unicode \<Rightarrow> ustr \<Rightarrow> string \<Rightarrow> RetrievalIntent \<Rightarrow> nat \<Rightarrow> nat \<Rightarrow> string + TextQuery" where
  "search_query u query qid want valid_limit max_terms =
     (if \<not> (1 \<le> valid_limit \<and> valid_limit \<le> MAX_TOP_K) then Inl ''valid_limit must be between 1 and 100''
      else if \<not> (1 \<le> max_terms \<and> max_terms \<le> MAX_QUERY_TERMS)
      then Inl ''max_query_terms must be between 1 and 64''
      else case parse_query_id qid of
             Inl e \<Rightarrow> Inl e
           | Inr (_, encoded_intent, _) \<Rightarrow>
               if encoded_intent \<noteq> RetrievalIntent_value want
               then Inl ''query ID intent does not match requested retrieval intent''
               else case query_terms u query max_terms of
                      Inl e \<Rightarrow> Inl e
                    | Inr ts \<Rightarrow> Inr \<lparr>terms = ts, id_text = qid, text_hash = u_query_text_hash query, wanted = want\<rparr>)"

definition text_search ::
  "Unicode \<Rightarrow> VerifiedCorpus \<Rightarrow> ustr \<Rightarrow> string \<Rightarrow> RetrievalIntent \<Rightarrow> nat \<Rightarrow> nat \<Rightarrow> string + SearchBatch" where
  "text_search u corpus query qid want valid_limit max_terms =
     (case search_query u query qid want valid_limit max_terms of
        Inl e \<Rightarrow> Inl e
      | Inr q \<Rightarrow>
          if terms q = [] then Inr empty_batch
          else case fold_result (text_step u q valid_limit) (text_items corpus) empty_search of
                 Inl e \<Rightarrow> Inl e | Inr st \<Rightarrow> Inr (search_batch st))"

end
