(* ===== verification/VR_Paragraphs.thy ===== *)
theory VR_Paragraphs
  imports VR_Retrieval "HOL-Library.Multiset"
begin

section \<open>Bounded ranking, paragraphs and context windows\<close>

text \<open>
  Three routines of the text retriever against what they are for. Keeping the best candidates one
  at a time is the truncation of the full stable ranking: \<open>bounded_ranking\<close> is the contract the
  search relies on, \<open>retain_best\<close> meets it for the order of valid and of invalid candidates. The
  paragraphs are the parts of the text between blank lines, without their surrounding whitespace.
  The context window is the largest the budget and the text allow around a span.
\<close>

subsection \<open>Keeping the best\<close>

locale bounded_ranking =
  fixes keep :: "'a list \<Rightarrow> 'a \<Rightarrow> 'a list" and limit :: nat and key :: "'a \<Rightarrow> 'k::linorder"
  assumes keep_step: "keep (take limit (sort_key key xs)) x = take limit (sort_key key (xs @ [x]))"
begin

lemma kept_from: "foldl keep (take limit (sort_key key xs)) ys = take limit (sort_key key (xs @ ys))"
proof (induction ys arbitrary: xs)
  case (Cons y ys)
  show ?case using Cons.IH [of "xs @ [y]"] by (simp add: keep_step)
qed simp

lemma kept: "foldl keep [] ys = take limit (sort_key key ys)"
  using kept_from [of "[]" ys] by simp

lemma kept_length: "length (foldl keep [] ys) = min limit (length ys)"
  by (simp add: kept min.commute)

lemma kept_best:
  assumes "x \<in> set (foldl keep [] ys)" "y \<in> set ys" "y \<notin> set (foldl keep [] ys)"
  shows "key x \<le> key y"
proof -
  let ?S = "sort_key key ys"
  have "y \<in> set (drop limit ?S)"
    using assms(2,3) unfolding kept by (metis Un_iff append_take_drop_id set_append set_sort)
  moreover have "sorted (map key (take limit ?S @ drop limit ?S))" by simp
  ultimately show ?thesis using assms(1) unfolding kept map_append sorted_append by auto
qed

end

lemma sort_key_resort: "sort_key key (sort_key key xs @ ys) = sort_key key (xs @ ys)"
proof (rule properties_for_sort_key)
  show "mset (sort_key key (xs @ ys)) = mset (sort_key key xs @ ys)" by simp
  show "filter (\<lambda>x. key k = key x) (sort_key key (xs @ ys)) = filter (\<lambda>x. key k = key x) (sort_key key xs @ ys)" for k
    by (simp add: sort_key_stable eq_commute [of "key k"])
qed simp

lemma sorted_between:
  "sorted (map f xs) \<Longrightarrow> sorted (map f ys) \<Longrightarrow> \<forall>y \<in> set xs. f y \<le> f x \<Longrightarrow> \<forall>y \<in> set ys. f x \<le> f y \<Longrightarrow>
     sorted (map f (xs @ x # ys))"
  by (auto simp: sorted_append intro: order_trans)

lemma sort_key_snoc:
  assumes "sorted (map key S)"
  shows "sort_key key (S @ [x]) = takeWhile (\<lambda>y. key y \<le> key x) S @ x # dropWhile (\<lambda>y. key y \<le> key x) S"
proof (rule properties_for_sort_key)
  let ?A = "takeWhile (\<lambda>y. key y \<le> key x) S" and ?B = "dropWhile (\<lambda>y. key y \<le> key x) S"
  have S: "?A @ ?B = S" by (rule takeWhile_dropWhile_id)
  have "mset ?A + mset ?B = mset S" by (metis S mset_append)
  then show "mset (?A @ x # ?B) = mset (S @ [x])" by simp
  have s: "sorted (map key (?A @ ?B))" using assms by (simp only: S)
  have B: "key x < key y" if "y \<in> set ?B" for y
  proof (cases ?B)
    case (Cons z zs)
    then have "\<not> key z \<le> key x" using hd_dropWhile [of "\<lambda>y. key y \<le> key x" S] by simp
    moreover have "key z \<le> key y" using s that by (auto simp: Cons sorted_append)
    ultimately show ?thesis by simp
  next
    case Nil
    then show ?thesis using that by (simp only: list.set empty_iff)
  qed
  have A: "key y \<le> key x" if "y \<in> set ?A" for y using that by (auto dest: set_takeWhileD)
  have "sorted (map key ?A)" "sorted (map key ?B)" using s unfolding map_append sorted_append by blast+
  then show "sorted (map key (?A @ x # ?B))"
    by (rule sorted_between) (use A B in \<open>blast intro: less_imp_le\<close>)+
  show "filter (\<lambda>y. key k = key y) (?A @ x # ?B) = filter (\<lambda>y. key k = key y) (S @ [x])" for k
  proof -
    have "filter (\<lambda>y. key k = key y) S = filter (\<lambda>y. key k = key y) ?A @ filter (\<lambda>y. key k = key y) ?B"
      by (metis S filter_append)
    moreover have "filter (\<lambda>y. key k = key y) ?B = []" if "key k = key x"
      using that B by (force simp: filter_empty_conv)
    ultimately show ?thesis by simp
  qed
qed

lemma takeWhile_take: "takeWhile P (take n xs) = take n (takeWhile P xs)"
  by (induction xs arbitrary: n) (auto simp: take_Cons')

lemma dropWhile_take: "dropWhile P (take n xs) = take (n - length (takeWhile P xs)) (dropWhile P xs)"
proof (induction xs arbitrary: n)
  case (Cons x xs)
  show ?case by (cases n) (auto simp: Cons.IH dest: set_takeWhileD)
qed simp

lemma take_sort_snoc:
  assumes "sorted (map key S)"
  shows "take n (sort_key key (take n S @ [x])) = take n (sort_key key (S @ [x]))"
proof -
  let ?A = "takeWhile (\<lambda>y. key y \<le> key x) S" and ?B = "dropWhile (\<lambda>y. key y \<le> key x) S"
  have t: "sorted (map key (take n S))" using assms by (simp add: sorted_wrt_take take_map [symmetric])
  have "take n (take n ?A @ x # take (n - length ?A) ?B) = take n (?A @ x # ?B)"
  proof (cases "n \<le> length ?A")
    case False
    then show ?thesis by (simp add: take_Cons' min_def)
  qed simp
  then show ?thesis unfolding sort_key_snoc [OF assms] sort_key_snoc [OF t] takeWhile_take dropWhile_take .
qed

lemma retain_best_step:
  "retain_best n key (take n (sort_key key xs)) x = take n (sort_key key (xs @ [x]))"
proof -
  let ?vs = "sort_key key (take n (sort_key key xs) @ [x])"
  have "length ?vs \<le> Suc n" by simp
  then have "retain_best n key (take n (sort_key key xs)) x = take n ?vs"
    by (auto simp: retain_best_def Let_def butlast_conv_take)
  then show ?thesis by (simp add: take_sort_snoc sort_key_resort)
qed

interpretation valid_ranking: bounded_ranking "retain_best n text_valid_key" n text_valid_key for n
  by unfold_locales (rule retain_best_step)

interpretation invalid_ranking:
  bounded_ranking "retain_best MAX_INVALID_DIAGNOSTICS short_invalid_key" MAX_INVALID_DIAGNOSTICS short_invalid_key
  by unfold_locales (rule retain_best_step)

subsection \<open>The context window\<close>

lemma window_length:
  fixes a b n m r p q r1 e q1 :: nat
  assumes "a < b" "b \<le> n" "b - a + r = m" "p \<le> a" "q \<le> n - b" "p + q \<le> r"
    and "r1 = r - (p + q)" "e = min (a - p) r1" "q1 = q + min (n - b - q) (r1 - e)"
  shows "(b + q1) - (a - (p + e)) = min n m"
proof (cases "a - p \<le> r1")
  case True
  then have "e = a - p" using assms(8) by simp
  show ?thesis
  proof (cases "n - b - q \<le> r1 - e")
    case t: True
    then show ?thesis using assms True \<open>e = a - p\<close> by (simp add: min_def)
  next
    case False
    then have "m \<le> n" "b + q1 = m" using assms True \<open>e = a - p\<close> by arith+
    then show ?thesis using assms(4) \<open>e = a - p\<close> by simp
  qed
next
  case False
  then have "e = r1" "q1 = q" using assms(8,9) by simp_all
  then have "m \<le> n" "(b + q1) - (a - (p + e)) = m" using assms(1-7) False by arith+
  then show ?thesis by simp
qed

text \<open>
  Every span within the limit has its context. For a non-empty span inside the text of at most
  \<open>MAX_CONTEXT_CHARS\<close> code points the window is a slice of the text that contains the span, and it
  is as long as the budget and the text allow: no context is lost at either end of a paper.
\<close>

lemma context_window:
  assumes "a < b" "b \<le> length t" "b - a \<le> MAX_CONTEXT_CHARS"
  shows "\<exists>ca cb. bounded_context_slice t a b = Inr (ca, cb, slice t ca cb) \<and>
    ca \<le> a \<and> b \<le> cb \<and> cb \<le> length t \<and> cb - ca = min (length t) MAX_CONTEXT_CHARS"
proof -
  define r where "r = MAX_CONTEXT_CHARS - (b - a)"
  define p where "p = min a (r div 2)"
  define q where "q = min (length t - b) (r - p)"
  define r1 where "r1 = r - (p + q)"
  define e where "e = min (a - p) r1"
  define q1 where "q1 = q + min (length t - b - q) (r1 - e)"
  have "bounded_context_slice t a b = Inr (a - (p + e), b + q1, slice t (a - (p + e)) (b + q1))"
  proof -
    have "\<not> \<not> (a < b \<and> b \<le> length t)" "\<not> MAX_CONTEXT_CHARS < b - a" using assms by simp_all
    then show ?thesis
      unfolding q1_def e_def r1_def q_def p_def r_def bounded_context_slice_def Let_def by (simp only: if_False)
  qed
  moreover have "p \<le> a" "q \<le> length t - b" unfolding p_def q_def by simp_all
  moreover have "p \<le> r" unfolding p_def by (simp add: min.coboundedI2)
  then have "p + q \<le> r" unfolding q_def by simp
  moreover have "e \<le> a - p" unfolding e_def by (rule min.cobounded1)
  moreover have "q + min (length t - b - q) (r1 - e) \<le> q + (length t - b - q)"
    by (intro add_left_mono min.cobounded1)
  then have "q1 \<le> length t - b" using le_add_diff_inverse [OF \<open>q \<le> length t - b\<close>] by (simp only: q1_def)
  moreover have "(b + q1) - (a - (p + e)) = min (length t) MAX_CONTEXT_CHARS"
    by (rule window_length [OF assms(1,2) _ \<open>p \<le> a\<close> \<open>q \<le> length t - b\<close> \<open>p + q \<le> r\<close> r1_def e_def q1_def])
       (use assms in \<open>simp add: r_def\<close>)
  moreover have "a - (p + e) \<le> a" "b \<le> b + q1" by simp_all
  moreover have "b + q1 \<le> length t" using \<open>q1 \<le> length t - b\<close> assms(2) by simp
  ultimately show ?thesis by blast
qed

subsection \<open>Paragraphs\<close>

lemma skip_left_props:
  "a \<le> b \<Longrightarrow> a \<le> skip_left t a b \<and> skip_left t a b \<le> b \<and>
     (\<forall>i. a \<le> i \<and> i < skip_left t a b \<longrightarrow> py_space (t ! i)) \<and>
     (skip_left t a b < b \<longrightarrow> \<not> py_space (t ! skip_left t a b))"
proof (induction t a b rule: skip_left.induct)
  case (1 t a b)
  show ?case
  proof (cases "a < b \<and> py_space (t ! a)")
    case True
    then have e: "skip_left t a b = skip_left t (Suc a) b" by (subst skip_left.simps) simp
    have "py_space (t ! i)" if "a \<le> i" "i < skip_left t a b" for i
      using 1 True that unfolding e by (cases "i = a") auto
    then show ?thesis using 1 True unfolding e by auto
  next
    case False
    then have "skip_left t a b = a" by (subst skip_left.simps) auto
    then show ?thesis using False 1(2) by auto
  qed
qed

lemma skip_right_props:
  "a \<le> b \<Longrightarrow> a \<le> skip_right t a b \<and> skip_right t a b \<le> b \<and>
     (\<forall>i. skip_right t a b \<le> i \<and> i < b \<longrightarrow> py_space (t ! i)) \<and>
     (a < skip_right t a b \<longrightarrow> \<not> py_space (t ! (skip_right t a b - 1)))"
proof (induction t a b rule: skip_right.induct)
  case (2 t a b)
  show ?case
  proof (cases "a < Suc b \<and> py_space (t ! b)")
    case True
    then show ?thesis using 2 by (auto simp: less_Suc_eq)
  next
    case False
    then show ?thesis using 2(2) by auto
  qed
qed simp

text \<open>Ordered disjoint intervals, none of them empty, between two positions.\<close>

fun intervals :: "nat \<Rightarrow> (nat \<times> nat) list \<Rightarrow> nat \<Rightarrow> bool" where
  "intervals a [] n \<longleftrightarrow> a \<le> n"
| "intervals a ((b, c) # r) n \<longleftrightarrow> a \<le> b \<and> b < c \<and> intervals c r n"

definition covered :: "(nat \<times> nat) list \<Rightarrow> nat \<Rightarrow> bool" where
  "covered xs i \<longleftrightarrow> (\<exists>(b, c) \<in> set xs. b \<le> i \<and> i < c)"

lemma covered_simps [simp]:
  "\<not> covered [] i" "covered ((b, c) # xs) i \<longleftrightarrow> b \<le> i \<and> i < c \<or> covered xs i"
  "covered (xs @ ys) i \<longleftrightarrow> covered xs i \<or> covered ys i"
  by (auto simp: covered_def)

lemma intervals_le: "intervals a xs n \<Longrightarrow> a \<le> n"
  by (induction a xs n rule: intervals.induct) auto

lemma intervals_bounds: "intervals a xs n \<Longrightarrow> (b, c) \<in> set xs \<Longrightarrow> a \<le> b \<and> b < c \<and> c \<le> n"
proof (induction a xs n rule: intervals.induct)
  case (2 a b' c' r n)
  then show ?case using intervals_le [of c' r n] by (cases "(b, c) = (b', c')") auto
qed simp

lemma intervals_append: "intervals a xs m \<Longrightarrow> intervals m ys n \<Longrightarrow> intervals a (xs @ ys) n"
proof (induction a xs m rule: intervals.induct)
  case (1 a m)
  then show ?case by (cases ys) auto
qed auto

lemma intervals_sorted: "intervals a xs n \<Longrightarrow> sorted_wrt (\<lambda>(_, c) (b', _). c \<le> b') xs"
  by (induction a xs n rule: intervals.induct) (auto dest: intervals_bounds)

lemma intervals_unique:
  "intervals a xs n \<Longrightarrow> (b, c) \<in> set xs \<Longrightarrow> (b', c') \<in> set xs \<Longrightarrow> b \<le> i \<Longrightarrow> i < c \<Longrightarrow> b' \<le> i \<Longrightarrow> i < c' \<Longrightarrow>
     b = b' \<and> c = c'"
  by (induction a xs n rule: intervals.induct) (auto dest: intervals_bounds)

text \<open>An interval of the text with no whitespace at its ends.\<close>

definition tight :: "ustr \<Rightarrow> nat \<times> nat \<Rightarrow> bool" where
  "tight t ab \<longleftrightarrow> (case ab of (a, b) \<Rightarrow> \<not> py_space (t ! a) \<and> \<not> py_space (t ! (b - 1)))"

lemma trimmed_props:
  assumes "a \<le> b"
  shows "intervals a (trimmed t a b) b \<and> (\<forall>ab \<in> set (trimmed t a b). tight t ab) \<and>
    (\<forall>i. a \<le> i \<and> i < b \<and> \<not> py_space (t ! i) \<longrightarrow> covered (trimmed t a b) i)"
proof -
  let ?a = "skip_left t a b"
  let ?b = "skip_right t ?a b"
  note l = skip_left_props [OF assms, of t]
  then have "?a \<le> b" by blast
  note r = skip_right_props [OF this, of t]
  show ?thesis
  proof (cases "?a < ?b")
    case True
    then have "?a < b" using r by linarith
    moreover have "covered [(?a, ?b)] i" if "a \<le> i" "i < b" "\<not> py_space (t ! i)" for i
      using l r that by (auto simp: not_less [symmetric])
    ultimately show ?thesis using True l r by (auto simp: trimmed_def Let_def tight_def)
  next
    case False
    then have e: "?a = ?b" using r by simp
    have "py_space (t ! i)" if "a \<le> i" "i < b" for i
      using l r that unfolding e [symmetric] by (cases "i < ?a") auto
    then show ?thesis using False assms by (auto simp: trimmed_def Let_def)
  qed
qed

lemma slices_between_props:
  assumes "intervals a seps (length t)" "\<forall>i. covered seps i \<longrightarrow> py_space (t ! i)"
  shows "intervals a (slices_between t seps a) (length t) \<and> (\<forall>ab \<in> set (slices_between t seps a). tight t ab) \<and>
    (\<forall>i. a \<le> i \<and> i < length t \<and> \<not> py_space (t ! i) \<longrightarrow> covered (slices_between t seps a) i)"
  using assms
proof (induction t seps a rule: slices_between.induct)
  case (1 t a)
  then show ?case using trimmed_props [of a "length t" t] by simp
next
  case (2 t b c seps a)
  have p: "a \<le> b" "b < c" "intervals c seps (length t)" using 2(2) by simp_all
  note tr = trimmed_props [OF p(1), of t]
  have r: "intervals c (slices_between t seps c) (length t) \<and> (\<forall>ab \<in> set (slices_between t seps c). tight t ab) \<and>
    (\<forall>i. c \<le> i \<and> i < length t \<and> \<not> py_space (t ! i) \<longrightarrow> covered (slices_between t seps c) i)"
    by (rule 2(1) [OF p(3)]) (use 2(3) in auto)
  have "intervals b (slices_between t seps c) (length t)"
    using r p(2) by (cases "slices_between t seps c") (auto dest: intervals_le)
  then have "intervals a (slices_between t ((b, c) # seps) a) (length t)"
    using tr by (auto intro: intervals_append)
  moreover have "covered (slices_between t ((b, c) # seps) a) i"
    if "a \<le> i" "i < length t" "\<not> py_space (t ! i)" for i
  proof -
    have "\<not> (b \<le> i \<and> i < c)" using 2(3) that by auto
    then show ?thesis using tr r that by (auto simp: not_less)
  qed
  ultimately show ?case using tr r by auto
qed

lemma separators_props:
  "intervals i (separators s i) (i + length s) \<and>
   (\<forall>j. covered (separators s i) j \<longrightarrow> py_space (s ! (j - i))) \<and>
   (\<forall>j < length s. \<not> covered (separators s i) (i + j) \<longrightarrow> match_separator (drop j s) = None)"
proof (induction s i rule: separators.induct)
  case (1 s i)
  show ?case
  proof (cases "s = []")
    case True
    then show ?thesis by (subst (1 2 3) separators.simps) simp
  next
    case ne: False
    show ?thesis
    proof (cases "match_separator s")
      case None
      obtain c cs where s: "s = c # cs" using ne by (cases s) auto
      have e: "separators (c # cs) i = separators cs (Suc i)" using None s by (subst separators.simps) simp
      have IH: "intervals (Suc i) (separators cs (Suc i)) (Suc i + length cs) \<and>
          (\<forall>j. covered (separators cs (Suc i)) j \<longrightarrow> py_space (cs ! (j - Suc i))) \<and>
          (\<forall>j < length cs. \<not> covered (separators cs (Suc i)) (Suc i + j) \<longrightarrow> match_separator (drop j cs) = None)"
        using 1(1) [OF ne None] by (simp add: s)
      have ge: "Suc i \<le> j" if "covered (separators cs (Suc i)) j" for j
        using that IH by (auto simp: covered_def dest: intervals_bounds)
      have "py_space (s ! (j - i))" if "covered (separators s i) j" for j
      proof -
        have "j - i = Suc (j - Suc i)" using ge [of j] that by (simp add: e s)
        then show ?thesis using IH that by (simp add: s e)
      qed
      moreover have "match_separator (drop j s) = None" if "j < length s" "\<not> covered (separators s i) (i + j)" for j
        using that IH None by (cases j) (simp_all add: s e)
      moreover have "intervals i (separators s i) (i + length s)"
        using IH unfolding e s by (cases "separators cs (Suc i)") auto
      ultimately show ?thesis by blast
    next
      case (Some n)
      note m = match_separator_Some [OF Some]
      have e: "separators s i = (i, i + n) # separators (drop n s) (i + n)"
        using Some ne by (subst separators.simps) simp
      have IH: "intervals (i + n) (separators (drop n s) (i + n)) (i + n + length (drop n s)) \<and>
          (\<forall>j. covered (separators (drop n s) (i + n)) j \<longrightarrow> py_space (drop n s ! (j - (i + n)))) \<and>
          (\<forall>j < length (drop n s). \<not> covered (separators (drop n s) (i + n)) (i + n + j) \<longrightarrow>
             match_separator (drop j (drop n s)) = None)"
        by (rule 1(2) [OF ne Some])
      have ge: "i + n \<le> j" if "covered (separators (drop n s) (i + n)) j" for j
        using that IH by (auto simp: covered_def dest: intervals_bounds)
      have "py_space (s ! (j - i))" if "covered (separators s i) j" for j
      proof (cases "i \<le> j \<and> j < i + n")
        case True
        then have "s ! (j - i) \<in> set (take n s)"
          using m by (metis add.commute in_set_conv_nth length_take less_diff_conv2 min.absorb2 nth_take)
        then show ?thesis using m by blast
      next
        case False
        then have c: "covered (separators (drop n s) (i + n)) j" using that by (auto simp: e)
        then have "n + (j - (i + n)) = j - i" using ge by fastforce
        then show ?thesis using IH c m by (metis nth_drop)
      qed
      moreover have "match_separator (drop j s) = None" if "j < length s" "\<not> covered (separators s i) (i + j)" for j
      proof -
        have j: "n \<le> j" "\<not> covered (separators (drop n s) (i + n)) (i + j)" using that(2) by (auto simp: e)
        then have "match_separator (drop (j - n) (drop n s)) = None"
          using IH that(1) by (auto dest: spec [where x = "j - n"])
        then show ?thesis using j(1) by simp
      qed
      moreover have "intervals i (separators s i) (i + length s)"
        using IH m by (simp add: e)
      ultimately show ?thesis by blast
    qed
  qed
qed

lemma slices_between_gap:
  assumes "intervals a seps n" "n = length t" "(b, c) \<in> set (slices_between t seps a)" "b \<le> i" "i < c"
  shows "\<not> covered seps i"
  using assms
proof (induction t seps a rule: slices_between.induct)
  case (2 t x y seps a)
  have p: "a \<le> x" "x < y" "intervals y seps n" using 2(2) by simp_all
  from 2(4) consider "(b, c) \<in> set (trimmed t a x)" | "(b, c) \<in> set (slices_between t seps y)" by auto
  then show ?case
  proof cases
    case 1
    then have "c \<le> x" using trimmed_props [OF p(1), of t] intervals_bounds by blast
    then have "i < x" using 2(6) by simp
    moreover have "\<not> covered seps i"
      using p \<open>i < x\<close> by (auto simp: covered_def dest: intervals_bounds)
    ultimately show ?thesis by simp
  next
    case b: 2
    have "y \<le> b"
    proof -
      have "intervals y' (slices_between t seps y') (length t)" if "intervals y' seps (length t)" for y'
        using that
      proof (induction t seps y' rule: slices_between.induct)
        case (1 t a)
        then show ?case using trimmed_props [of a "length t" t] by simp
      next
        case (2 t b c seps a)
        have "intervals b (slices_between t seps c) (length t)"
          using 2 by (cases "slices_between t seps c") (auto dest: intervals_le)
        then show ?case using 2(2) trimmed_props [of a b t] by (auto intro: intervals_append)
      qed
      then show ?thesis using b p(3) 2(3) intervals_bounds by blast
    qed
    then show ?thesis using 2(1) [OF p(3) 2(3) b 2(5,6)] 2(5) p(2) by simp
  qed
qed simp

lemma paragraph_intervals: "intervals 0 (paragraph_slices t) (length t)"
  using separators_props [of 0 t] slices_between_props [of 0 "separators t 0" t] by (simp add: paragraph_slices_def)

text \<open>
  C19: The paragraphs are what lies between blank lines. They are disjoint and in order, none is
  empty, none begins or ends with whitespace, no blank line begins inside one, and every code point
  that is not whitespace lies in one of them: no text of a paper is lost to the search.
\<close>

theorem paragraph_slices_exact:
  "sorted_wrt (\<lambda>(_, c) (b', _). c \<le> b') (paragraph_slices t) \<and>
   (\<forall>(a, b) \<in> set (paragraph_slices t).
      a < b \<and> b \<le> length t \<and> \<not> py_space (t ! a) \<and> \<not> py_space (t ! (b - 1)) \<and>
      (\<forall>i \<in> {a..<b}. match_separator (drop i t) = None)) \<and>
   (\<forall>i \<in> {..<length t}. py_space (t ! i) \<or> covered (paragraph_slices t) i)"
proof -
  note s = separators_props [of 0 t]
  have iv: "intervals 0 (separators t 0) (length t)" using s by simp
  have sp: "\<forall>i. covered (separators t 0) i \<longrightarrow> py_space (t ! i)" using s by simp
  note p = slices_between_props [OF iv sp, folded paragraph_slices_def]
  have "match_separator (drop i t) = None" if "(a, b) \<in> set (paragraph_slices t)" "a \<le> i" "i < b" for a b i
  proof -
    have "\<not> covered (separators t 0) i"
      by (rule slices_between_gap [OF iv refl]) (use that in \<open>simp_all add: paragraph_slices_def\<close>)
    moreover have "i < length t" using that intervals_bounds [OF conjunct1 [OF p] that(1)] by simp
    ultimately show ?thesis using s by simp
  qed
  moreover have "a < b" "b \<le> length t" if "(a, b) \<in> set (paragraph_slices t)" for a b
    using intervals_bounds [OF conjunct1 [OF p] that] by simp_all
  moreover have "\<not> py_space (t ! a)" "\<not> py_space (t ! (b - 1))" if "(a, b) \<in> set (paragraph_slices t)" for a b
    using conjunct1 [OF conjunct2 [OF p]] that by (auto simp: tight_def)
  ultimately have "\<forall>(a, b) \<in> set (paragraph_slices t).
      a < b \<and> b \<le> length t \<and> \<not> py_space (t ! a) \<and> \<not> py_space (t ! (b - 1)) \<and>
      (\<forall>i \<in> {a..<b}. match_separator (drop i t) = None)"
    by (intro ballI, unfold split_paired_all prod.case) (simp add: atLeastLessThan_iff)
  moreover have "\<forall>i \<in> {..<length t}. py_space (t ! i) \<or> covered (paragraph_slices t) i"
    using conjunct2 [OF conjunct2 [OF p]] by auto
  ultimately show ?thesis using intervals_sorted [OF conjunct1 [OF p]] by blast
qed

end
