(* ===== verification/VR_Search.thy ===== *)
theory VR_Search
  imports VR_Paragraphs
begin

section \<open>What the text retriever returns\<close>

text \<open>
  The search against its specification: the candidates of the corpus are its matching paragraphs;
  the search returns the best of them in rank order, and its two counters are the number it left
  out. A candidate that it returns as valid is a slice of a locked paper with its context, which
  is what the constructor of \<open>RawCandidateHit\<close> checks. The only thing that can end a search of a
  well-formed corpus is a heading longer than a candidate may carry.
\<close>

lemma hash_bytes_Sha256 [simp]: "is_Sha256 (hash_bytes s)"
  using sha256_hexdigest_shape by (simp add: is_Sha256_def hash_bytes_def starts_with_def)

lemma make_candidate_key_Sha256 [simp]: "is_Sha256 (make_candidate_key p r q h s a b og)"
  by (simp add: make_candidate_key_def hash_json_def)

subsection \<open>The specification\<close>

definition paragraph_hit ::
  "Unicode \<Rightarrow> TextQuery \<Rightarrow> (string \<times> string \<times> string \<times> ustr) \<times> nat \<times> nat \<Rightarrow> RawCandidateHit option" where
  "paragraph_hit u q item =
     (case item of (paper, a, b) \<Rightarrow>
      let body = snd (snd (snd paper)); src = slice body a b; matched = matched_terms u (terms q) src in
      if matched = 0 then None
      else if MAX_CANDIDATE_CHARS < length src then Some (oversized_hit q matched paper src)
      else (case bounded_context_slice body a b of
              Inl _ \<Rightarrow> None
            | Inr window \<Rightarrow> Some (located_hit q (float_div matched (length (terms q))) TEXT_BASELINE paper src a b
                                 window None None)))"

definition text_candidates :: "Unicode \<Rightarrow> VerifiedCorpus \<Rightarrow> TextQuery \<Rightarrow> RawCandidateHit list" where
  "text_candidates u corpus q = List.map_filter (paragraph_hit u q) (text_items corpus)"

definition ranked_batch ::
  "(RawCandidateHit \<Rightarrow> rat \<times> string \<times> nat \<times> string) \<Rightarrow> nat \<Rightarrow> RawCandidateHit list \<Rightarrow> SearchBatch" where
  "ranked_batch key limit hits =
     (let valid = filter is_valid hits; invalid = filter (\<lambda>h. \<not> is_valid h) hits in
      \<lparr>batch_hits = take limit (sort_key key valid) @
         take MAX_INVALID_DIAGNOSTICS (sort_key short_invalid_key invalid),
       truncated_valid_candidates = length valid - limit,
       truncated_invalid_candidates = length invalid - MAX_INVALID_DIAGNOSTICS\<rparr>)"

definition corpus_fields :: "VerifiedCorpus \<Rightarrow> bool" where
  "corpus_fields corpus \<longleftrightarrow>
     (\<forall>(pid, path, _, _) \<in> set (paper_texts corpus). is_PaperId pid \<and> path \<noteq> '''' \<and> utf8_length path \<le> MAX_LEDGER_METADATA_CHARS)"

definition short_headings :: "VerifiedCorpus \<Rightarrow> bool" where
  "short_headings corpus \<longleftrightarrow>
     (\<forall>(_, _, _, body) \<in> set (paper_texts corpus). \<forall>(_, heading) \<in> set (heading_index body).
        length heading \<le> MAX_LEDGER_METADATA_CHARS)"

subsection \<open>Searching is ranking\<close>

lemma keep_hits:
  "foldl (keep_hit key n) st hs =
     \<lparr>valid_hits = foldl (retain_best n key) (valid_hits st) (filter is_valid hs),
      invalid_hits = foldl (retain_best MAX_INVALID_DIAGNOSTICS short_invalid_key) (invalid_hits st)
        (filter (\<lambda>h. \<not> is_valid h) hs),
      valid_seen = valid_seen st + length (filter is_valid hs),
      invalid_seen = invalid_seen st + length (filter (\<lambda>h. \<not> is_valid h) hs)\<rparr>"
  by (induction hs arbitrary: st) (auto simp: keep_hit_def)

lemma fold_result_hits:
  assumes "\<And>st item. item \<in> set items \<Longrightarrow>
      step st item = (case pick item of None \<Rightarrow> Inr st
        | Some h \<Rightarrow> (case new_hit h of Inl e \<Rightarrow> Inl e | Inr h' \<Rightarrow> Inr (keep st h')))"
  shows "fold_result step items st =
    (case traverse_result new_hit (List.map_filter pick items) of Inl e \<Rightarrow> Inl e | Inr hs \<Rightarrow> Inr (foldl keep st hs))"
  using assms
proof (induction items arbitrary: st)
  case (Cons item items)
  have IH: "fold_result step items s =
    (case traverse_result new_hit (List.map_filter pick items) of Inl e \<Rightarrow> Inl e | Inr hs \<Rightarrow> Inr (foldl keep s hs))" for s
    by (rule Cons.IH) (use Cons.prems in auto)
  show ?case
  proof (cases "pick item")
    case None
    then show ?thesis using Cons.prems [of item st] IH by (simp add: List.map_filter_simps)
  next
    case (Some h)
    then show ?thesis
      using Cons.prems [of item st] IH
      by (cases "new_hit h"; cases "traverse_result new_hit (List.map_filter pick items)")
         (simp_all add: List.map_filter_simps del: new_hit_Inr)
  qed
qed (simp add: List.map_filter_simps)

lemma traverse_new_hit: "list_all valid_RawCandidateHit hs \<Longrightarrow> traverse_result new_hit hs = Inr hs"
  by (induction hs) (auto split: sum.splits simp: new_hit_def valid_RawCandidateHit_def)

lemma traverse_new_hit_Inl: "\<not> list_all valid_RawCandidateHit hs \<Longrightarrow> \<exists>e. traverse_result new_hit hs = Inl e"
proof -
  assume n: "\<not> list_all valid_RawCandidateHit hs"
  have "traverse_result new_hit hs \<noteq> Inr ys" for ys
    using n by (auto simp: traverse_result_Inr_iff list_all2_conv_all_nth list_all_length)
  then show ?thesis by (metis old.sum.exhaust)
qed

lemma ranked_keep:
  assumes "list_all valid_RawCandidateHit hs"
    and "\<And>xs. foldl (retain_best n key) [] xs = take n (sort_key key xs)"
  shows "search_batch (foldl (keep_hit key n) empty_search hs) = ranked_batch key n hs"
  unfolding keep_hits search_batch_def ranked_batch_def empty_search_def Let_def
  by (simp add: assms(2) invalid_ranking.kept min_def)

text \<open>The paragraphs of the corpus are slices of its papers.\<close>

lemma text_items_props:
  assumes "(paper, a, b) \<in> set (text_items corpus)"
  shows "paper \<in> set (paper_texts corpus) \<and> a < b \<and> b \<le> length (snd (snd (snd paper)))"
  using assms intervals_bounds [OF paragraph_intervals] unfolding text_items_def by auto

lemma text_step_pick:
  assumes "item \<in> set (text_items corpus)"
  shows "text_step u q n st item = (case paragraph_hit u q item of None \<Rightarrow> Inr st
    | Some h \<Rightarrow> (case new_hit h of Inl e \<Rightarrow> Inl e | Inr h' \<Rightarrow> Inr (keep_hit text_valid_key n st h')))"
proof -
  obtain paper a b where i: "item = (paper, a, b)" by (cases item) auto
  note p = text_items_props [OF assms [unfolded i]]
  let ?body = "snd (snd (snd paper))"
  let ?src = "slice ?body a b"
  show ?thesis
  proof (cases "matched_terms u (terms q) ?src = 0 \<or> MAX_CANDIDATE_CHARS < length ?src")
    case True
    then show ?thesis unfolding i text_step_def paragraph_hit_def Let_def prod.case
      by (elim disjE) (simp_all split: if_splits)
  next
    case False
    then have "b - a \<le> MAX_CONTEXT_CHARS" using p by (simp add: retrieval_bounds)
    then obtain w where "bounded_context_slice ?body a b = Inr w" using context_window p by blast
    then show ?thesis using False unfolding i text_step_def paragraph_hit_def Let_def prod.case by simp
  qed
qed

subsection \<open>The candidates are valid\<close>

definition good_query :: "TextQuery \<Rightarrow> bool" where
  "good_query q \<longleftrightarrow>
     (\<exists>c n. parse_query_id (id_text q) = Inr (c, RetrievalIntent_value (wanted q), n)) \<and> is_Sha256 (text_hash q)"

definition paper_fields :: "string \<times> string \<times> string \<times> ustr \<Rightarrow> bool" where
  "paper_fields paper \<longleftrightarrow> is_PaperId (fst paper) \<and> fst (snd paper) \<noteq> '''' \<and>
     utf8_length (fst (snd paper)) \<le> MAX_LEDGER_METADATA_CHARS"

definition unit_score :: "pyfloat \<Rightarrow> bool" where
  "unit_score f \<longleftrightarrow> canonical_float f \<and> 0 \<le> float_value f \<and> float_value f \<le> 1"

lemma unit_score_div: "0 < m \<Longrightarrow> m \<le> n \<Longrightarrow> unit_score (float_div m n)"
  using float_div_unit [of m n] by (simp add: unit_score_def)

lemma search_query_good:
  assumes "search_query u query qid want k m = Inr q"
  shows "good_query q" "id_text q = qid" "wanted q = want" "text_hash q = u_query_text_hash query" "1 \<le> k" "k \<le> MAX_TOP_K"
  using assms
  by (auto simp: search_query_def good_query_def u_query_text_hash_def split: if_splits sum.splits)

lemma good_query_id: "good_query q \<Longrightarrow> is_QueryId (id_text q)"
  by (auto simp: good_query_def parse_query_id_def is_QueryId_def split: option.splits)

lemma matched_terms_le: "matched_terms u ts s \<le> length ts"
  by (simp add: matched_terms_def Let_def)

lemma oversized_hit_valid:
  assumes "good_query q" "paper_fields paper" "0 < n" "n \<le> length (terms q)" "MAX_CANDIDATE_CHARS < length src"
  shows "valid_RawCandidateHit (oversized_hit q n paper src) \<and> \<not> is_valid (oversized_hit q n paper src)"
proof -
  obtain pid path h body where p: "paper = (pid, path, h, body)" by (cases paper) auto
  obtain c k where qi: "parse_query_id (id_text q) = Inr (c, RetrievalIntent_value (wanted q), k)"
    using assms(1) by (auto simp: good_query_def)
  define msg where "msg = ''matching paragraph exceeds the runtime candidate size limit''"
  have "length msg \<le> MAX_LEDGER_METADATA_CHARS" by (simp add: msg_def retrieval_bounds)
  then have msg: "utf8_length msg \<le> MAX_LEDGER_METADATA_CHARS" using utf8_length_le [of msg] by linarith
  have m: "msg \<noteq> ''''" by (simp add: msg_def)
  have b: "take MAX_CANDIDATE_CHARS src \<noteq> []" "length (take MAX_CANDIDATE_CHARS src) \<le> MAX_CANDIDATE_CHARS"
    using assms(5) by (auto simp: retrieval_bounds)
  show ?thesis
    using assms(1,2) unit_score_div [OF assms(3,4)] good_query_id [OF assms(1)] b msg m qi
    unfolding p oversized_hit_def msg_def [symmetric] prod.case Let_def
    by (simp add: valid_RawCandidateHit_def RawCandidateHit_fields_def RawCandidateHit_validator_def
        raise_if_def offset_checks_def invalid_hit_checks_def provenance_checks_def no_context_def full_context_def
        good_query_def paper_fields_def unit_score_def metadata_text_def absent_def Let_def del: take_eq_Nil)
qed

lemma located_hit_valid:
  assumes "good_query q" "paper_fields paper" "unit_score sc"
    and b: "a < b" "b \<le> length (snd (snd (snd paper)))" "b - a \<le> MAX_CANDIDATE_CHARS"
    and src: "src = slice (snd (snd (snd paper))) a b"
    and w: "bounded_context_slice (snd (snd (snd paper))) a b = Inr window"
    and sec: "metadata_text (section_at (heading_index (snd (snd (snd paper)))) a)"
    and nr: "metadata_text node" "metadata_text rel"
    and prov: "if og = TEXT_BASELINE then node = None \<and> rel = None else node \<noteq> None \<and> rel \<noteq> None"
  shows "valid_RawCandidateHit (located_hit q sc og paper src a b window node rel)"
proof -
  obtain pid path h body where p: "paper = (pid, path, h, body)" by (cases paper) auto
  obtain c k where qi: "parse_query_id (id_text q) = Inr (c, RetrievalIntent_value (wanted q), k)"
    using assms(1) by (auto simp: good_query_def)
  have "b - a \<le> MAX_CONTEXT_CHARS" using b(3) by (simp add: retrieval_bounds)
  then obtain ca cb where w': "window = (ca, cb, slice body ca cb)" and cw: "ca \<le> a" "b \<le> cb" "cb \<le> length body"
      "cb - ca = min (length body) MAX_CONTEXT_CHARS"
    using context_window [of a b body] b w by (auto simp: p)
  have l: "length src = b - a" "src \<noteq> []" using src b by (auto simp: p slice_def)
  have wl: "length (slice body ca cb) = cb - ca" "slice body ca cb \<noteq> []" "cb - ca \<le> MAX_CONTEXT_CHARS" "0 < cb"
    using cw b by (auto simp: slice_def)
  have ss: "slice (slice body ca cb) (a - ca) (b - ca) = src"
    using slice_slice [of ca "a - ca" "b - ca" cb body] cw b src by (simp add: p)
  have og: "provenance_checks (located_hit q sc og paper src a b window node rel) = None"
    using prov by (cases "og = TEXT_BASELINE") (simp_all add: provenance_checks_def p located_hit_def w')
  have v: "valid_hit_checks (located_hit q sc og paper src a b window node rel) = None"
    using l wl ss cw b(1) by (simp add: valid_hit_checks_def located_hit_def p w' full_context_def Let_def)
  show ?thesis
    using assms(1-3) good_query_id [OF assms(1)] l wl b qi sec nr v og
    by (simp add: valid_RawCandidateHit_def RawCandidateHit_fields_def RawCandidateHit_validator_def
        raise_if_def offset_checks_def no_context_def full_context_def located_hit_def p w'
        good_query_def paper_fields_def unit_score_def Let_def)
qed

lemma section_at_mem: "section_at idx off = Some h \<Longrightarrow> \<exists>i. (i, h) \<in> set idx"
proof -
  assume s: "section_at idx off = Some h"
  let ?n = "length (takeWhile (\<lambda>(i, _). i \<le> off) idx)"
  have n: "0 < ?n" "h = snd (idx ! (?n - 1))" using s by (auto simp: section_at_def Let_def split: if_splits)
  have "?n \<le> length idx" by (rule length_takeWhile_le)
  then have "?n - 1 < length idx" using n(1) by linarith
  then have "idx ! (?n - 1) \<in> set idx" by (rule nth_mem)
  then show ?thesis using n(2) by (metis prod.collapse)
qed

lemma short_sections:
  assumes "short_headings corpus" "paper \<in> set (paper_texts corpus)"
  shows "metadata_text (section_at (heading_index (snd (snd (snd paper)))) a)"
  using assms section_at_mem [of "heading_index (snd (snd (snd paper)))" a]
  by (cases "section_at (heading_index (snd (snd (snd paper)))) a")
     (fastforce simp: metadata_text_def short_headings_def)+

lemma paragraph_hit_cases:
  assumes "paragraph_hit u q (paper, a, b) = Some h"
  shows "let body = snd (snd (snd paper)); src = slice body a b; n = matched_terms u (terms q) src in
    0 < n \<and> (MAX_CANDIDATE_CHARS < length src \<and> h = oversized_hit q n paper src \<or>
      length src \<le> MAX_CANDIDATE_CHARS \<and>
      (\<exists>w. bounded_context_slice body a b = Inr w \<and>
        h = located_hit q (float_div n (length (terms q))) TEXT_BASELINE paper src a b w None None))"
  using assms by (auto simp: paragraph_hit_def Let_def split: if_splits sum.splits)

lemma paragraph_hit_valid:
  assumes "good_query q" "corpus_fields corpus" "short_headings corpus"
    and i: "(paper, a, b) \<in> set (text_items corpus)" and h: "paragraph_hit u q (paper, a, b) = Some h"
  shows "valid_RawCandidateHit h"
proof -
  note p = text_items_props [OF i]
  have pf: "paper_fields paper" using p assms(2) by (cases paper) (fastforce simp: corpus_fields_def paper_fields_def)
  let ?src = "slice (snd (snd (snd paper))) a b"
  let ?n = "matched_terms u (terms q) ?src"
  from paragraph_hit_cases [OF h] have n: "0 < ?n" and
    c: "MAX_CANDIDATE_CHARS < length ?src \<and> h = oversized_hit q ?n paper ?src \<or>
      length ?src \<le> MAX_CANDIDATE_CHARS \<and> (\<exists>w. bounded_context_slice (snd (snd (snd paper))) a b = Inr w \<and>
        h = located_hit q (float_div ?n (length (terms q))) TEXT_BASELINE paper ?src a b w None None)"
    by (simp_all add: Let_def)
  from c show ?thesis
  proof (elim disjE conjE exE)
    assume "MAX_CANDIDATE_CHARS < length ?src" "h = oversized_hit q ?n paper ?src"
    then show ?thesis using oversized_hit_valid [OF assms(1) pf n matched_terms_le] by simp
  next
    fix w assume l: "length ?src \<le> MAX_CANDIDATE_CHARS" and w: "bounded_context_slice (snd (snd (snd paper))) a b = Inr w"
      and h: "h = located_hit q (float_div ?n (length (terms q))) TEXT_BASELINE paper ?src a b w None None"
    show ?thesis unfolding h
      by (rule located_hit_valid [OF assms(1) pf unit_score_div [OF n matched_terms_le] _ _ _ refl w])
         (use p l assms(3) in \<open>simp_all add: short_sections metadata_text_def [symmetric]\<close>, simp_all add: metadata_text_def)
  qed
qed

lemma text_fold:
  "fold_result (text_step u q n) (text_items corpus) st =
    (case traverse_result new_hit (text_candidates u corpus q) of
       Inl e \<Rightarrow> Inl e | Inr hs \<Rightarrow> Inr (foldl (keep_hit text_valid_key n) st hs))"
  unfolding text_candidates_def by (rule fold_result_hits) (rule text_step_pick)

lemma text_search_eq:
  assumes "search_query u query qid want k m = Inr q" "list_all valid_RawCandidateHit (text_candidates u corpus q)"
  shows "text_search u corpus query qid want k m = Inr (ranked_batch text_valid_key k (text_candidates u corpus q))"
proof (cases "terms q = []")
  case True
  have n: "matched_terms u [] s = 0" for s by (simp add: matched_terms_def)
  have "paragraph_hit u q i = None" for i by (cases i) (simp add: paragraph_hit_def True n)
  then have "text_candidates u corpus q = []"
    by (simp add: text_candidates_def List.map_filter_def)
  then show ?thesis using assms(1) True by (simp add: text_search_def ranked_batch_def empty_batch_def)
next
  case False
  have "fold_result (text_step u q k) (text_items corpus) empty_search =
      Inr (foldl (keep_hit text_valid_key k) empty_search (text_candidates u corpus q))"
    using traverse_new_hit [OF assms(2)] by (simp add: text_fold)
  then show ?thesis
    using assms(1) False ranked_keep [OF assms(2) valid_ranking.kept] by (simp add: text_search_def)
qed

text \<open>
  C8: The text search returns the top of the full ranking. For a query that passes the checks and a
  corpus of well-formed papers whose headings fit a candidate, the search ends without an error: it
  returns the first \<open>valid_limit\<close> valid candidates of the stable ranking of all matching paragraphs,
  by score, paper, offset and key, then the first hundred diagnostics, and its counters are exactly
  the numbers of candidates left out. Keeping two bounded lists while scanning loses nothing.
\<close>

theorem text_search_ranked:
  assumes "search_query u query qid want k m = Inr q" and "corpus_fields corpus" and "short_headings corpus"
  shows "text_search u corpus query qid want k m = Inr (ranked_batch text_valid_key k (text_candidates u corpus q))"
proof (rule text_search_eq [OF assms(1)])
  show "list_all valid_RawCandidateHit (text_candidates u corpus q)"
    using paragraph_hit_valid [OF search_query_good(1) [OF assms(1)] assms(2,3)]
    by (auto simp: list_all_iff text_candidates_def List.map_filter_def)
qed

text \<open>
  C40: A long heading ends the search of the whole corpus. If one matching paragraph of one paper
  is no longer than a candidate may be and stands under a heading of more than 4096 code points, the
  constructor of its candidate raises and the search returns an error, whatever else the corpus holds.
\<close>

theorem long_heading_blocks_search:
  assumes "search_query u query qid want k m = Inr q" and "(paper, a, b) \<in> set (text_items corpus)"
    and "matched_terms u (terms q) (slice (snd (snd (snd paper))) a b) \<noteq> 0" and "b - a \<le> MAX_CANDIDATE_CHARS"
    and "section_at (heading_index (snd (snd (snd paper)))) a = Some h" and "MAX_LEDGER_METADATA_CHARS < length h"
  shows "\<exists>e. text_search u corpus query qid want k m = Inl e"
proof -
  note p = text_items_props [OF assms(2)]
  let ?src = "slice (snd (snd (snd paper))) a b"
  obtain w where w: "bounded_context_slice (snd (snd (snd paper))) a b = Inr w"
    using context_window p assms(4) by (metis MAX_CANDIDATE_CHARS_def MAX_CONTEXT_CHARS_def)
  let ?h = "located_hit q (float_div (matched_terms u (terms q) ?src) (length (terms q))) TEXT_BASELINE paper ?src a b w None None"
  have "paragraph_hit u q (paper, a, b) = Some ?h"
    using assms(3,4) p w by (simp add: paragraph_hit_def Let_def)
  then have m: "?h \<in> set (text_candidates u corpus q)"
    using assms(2) by (force simp: text_candidates_def List.map_filter_def)
  have "\<not> valid_RawCandidateHit ?h"
    using assms(5,6) by (cases paper, cases w)
      (simp add: valid_RawCandidateHit_def RawCandidateHit_fields_def located_hit_def metadata_text_def)
  then have "\<not> list_all valid_RawCandidateHit (text_candidates u corpus q)" using m by (auto simp: list_all_iff)
  then obtain e where "traverse_result new_hit (text_candidates u corpus q) = Inl e" using traverse_new_hit_Inl by blast
  then have "fold_result (text_step u q k) (text_items corpus) empty_search = Inl e"
    by (simp add: text_fold)
  moreover have "terms q \<noteq> []" using assms(3) by (auto simp: matched_terms_def)
  ultimately show ?thesis using assms(1) by (simp add: text_search_def)
qed

end
