(* ===== verification/VR_Graph.thy ===== *)
theory VR_Graph
  imports VR_Search
begin

section \<open>The graph retriever and the retrieval coordinator (\<open>library/graph.py\<close>, \<open>library/retrieval.py\<close>)\<close>

text \<open>
  \<open>ReadOnlyGraphAdapter\<close> inspects the decoded graph export and yields the nodes that mention all
  terms of a query; \<open>graph_search\<close> is \<open>GraphAssistedRetriever._search_with_accounting\<close>: the
  evidence strings of those nodes, located in the text of the node's paper. \<open>retrieve\<close> is
  \<open>UnifiedRetrievalCoordinator.retrieve\<close>, which merges the two candidate lists and builds the ledger.
  The value \<open>json.loads\<close> returns for the bytes of the export is the input; \<open>None\<close> is a failure
  to decode. \<open>graph_hit\<close> computes the fields of a candidate; the step that keeps it runs its constructor,
  which may raise. Evidence is taken to hold no lone surrogate: the code raises when it hashes one.
\<close>

subsection \<open>Decoded JSON and \<open>str\<close>\<close>

datatype PyJson =
    PNone
  | PBool bool
  | PInt int
  | PFloat string
  | PStr ustr
  | PList "PyJson list"
  | PDict "(ustr \<times> PyJson) list"

definition hex_digits :: "nat \<Rightarrow> nat \<Rightarrow> ustr" where
  "hex_digits width c = map (\<lambda>i. of_char (hex_char (c div 16 ^ (width - 1 - i) mod 16))) [0..<width]"

definition repr_char :: "Unicode \<Rightarrow> nat \<Rightarrow> nat \<Rightarrow> ustr" where
  "repr_char u quote c =
     (if c = quote \<or> c = 92 then [92, c]
      else if c = 9 then ascii [CHR 0x5C, CHR ''t'']
      else if c = 10 then ascii [CHR 0x5C, CHR ''n'']
      else if c = 13 then ascii [CHR 0x5C, CHR ''r'']
      else if c < 32 \<or> c = 127 then ascii [CHR 0x5C, CHR ''x''] @ hex_digits 2 c
      else if c < 127 then [c]
      else if printable_char u c then [c]
      else if c < 256 then ascii [CHR 0x5C, CHR ''x''] @ hex_digits 2 c
      else if c < 65536 then ascii [CHR 0x5C, CHR ''u''] @ hex_digits 4 c
      else ascii [CHR 0x5C, CHR ''U''] @ hex_digits 8 c)"

definition repr_str :: "Unicode \<Rightarrow> ustr \<Rightarrow> ustr" where
  "repr_str u s =
     (let quote = (if 39 \<in> set s \<and> 34 \<notin> set s then 34 else 39) in
      quote # concat (map (repr_char u quote) s) @ [quote])"

definition join_u :: "ustr \<Rightarrow> ustr list \<Rightarrow> ustr" where
  "join_u sep xs = (case xs of [] \<Rightarrow> [] | y # ys \<Rightarrow> y @ concat (map (\<lambda>z. sep @ z) ys))"

fun py_repr :: "Unicode \<Rightarrow> PyJson \<Rightarrow> ustr" where
  "py_repr u PNone = ascii ''None''"
| "py_repr u (PBool b) = ascii (if b then ''True'' else ''False'')"
| "py_repr u (PInt i) = ascii (int_str i)"
| "py_repr u (PFloat r) = ascii r"
| "py_repr u (PStr s) = repr_str u s"
| "py_repr u (PList vs) = ascii ''['' @ join_u (ascii '', '') (map (py_repr u) vs) @ ascii '']''"
| "py_repr u (PDict kvs) =
     ascii ''{'' @ join_u (ascii '', '') (map (\<lambda>(k, d). repr_str u k @ ascii '': '' @ d)
       (map (\<lambda>(k, v). (k, py_repr u v)) kvs)) @ ascii ''}''"

definition py_str :: "Unicode \<Rightarrow> PyJson \<Rightarrow> ustr" where
  "py_str u v = (case v of PStr s \<Rightarrow> s | _ \<Rightarrow> py_repr u v)"

type_synonym PyDict = "(ustr \<times> PyJson) list"

definition is_dict :: "PyJson \<Rightarrow> bool" where
  "is_dict v = (case v of PDict _ \<Rightarrow> True | _ \<Rightarrow> False)"

definition items_of :: "PyJson \<Rightarrow> PyDict" where
  "items_of v = (case v of PDict d \<Rightarrow> d | _ \<Rightarrow> [])"

text \<open>\<open>d.get(k, d.get(k2))\<close> and a list or the one element of a list.\<close>

definition get_or :: "PyDict \<Rightarrow> string \<Rightarrow> string \<Rightarrow> PyJson option" where
  "get_or d k k2 = (case map_of d (ascii k) of Some v \<Rightarrow> Some v | None \<Rightarrow> map_of d (ascii k2))"

definition as_list :: "PyJson \<Rightarrow> PyJson list" where
  "as_list v = (case v of PList vs \<Rightarrow> vs | _ \<Rightarrow> [v])"

text \<open>\<open>.get\<close> with the default \<open>None\<close> does not tell a null from a missing key.\<close>

definition not_none :: "PyJson option \<Rightarrow> PyJson option" where
  "not_none v = (case v of Some PNone \<Rightarrow> None | _ \<Rightarrow> v)"

subsection \<open>Inspecting the export\<close>

datatype GraphSchemaStatus = SUPPORTED | UNSUPPORTED_GRAPH_SCHEMA

record GraphSchemaReport =
  root_type :: string
  container_keys :: "ustr list"
  node_count :: nat
  edge_count :: nat
  node_id_field :: string
  edge_source_field :: string
  edge_target_field :: string
  node_fields_observed :: "ustr list"
  edge_fields_observed :: "ustr list"
  relation_labels :: "ustr list"
  extraction_classes :: "ustr list"
  duplicate_node_ids :: "ustr list"
  dangling_endpoints :: "(nat \<times> string \<times> ustr) list"
  has_nested_evidence :: bool
  schema_status :: GraphSchemaStatus

definition unsupported_report :: "string \<Rightarrow> ustr list \<Rightarrow> GraphSchemaReport" where
  "unsupported_report rt keys =
     \<lparr>root_type = rt, container_keys = keys, node_count = 0, edge_count = 0, node_id_field = '''',
      edge_source_field = '''', edge_target_field = '''', node_fields_observed = [],
      edge_fields_observed = [], relation_labels = [], extraction_classes = [], duplicate_node_ids = [],
      dangling_endpoints = [], has_nested_evidence = False, schema_status = UNSUPPORTED_GRAPH_SCHEMA\<rparr>"

definition type_name_of :: "PyJson \<Rightarrow> string" where
  "type_name_of v =
     (case v of PNone \<Rightarrow> ''invalid_json'' | PBool _ \<Rightarrow> ''bool'' | PInt _ \<Rightarrow> ''int'' | PFloat _ \<Rightarrow> ''float''
      | PStr _ \<Rightarrow> ''str'' | PList _ \<Rightarrow> ''list'' | PDict _ \<Rightarrow> ''dict'')"

text \<open>\<open>sorted(set(xs))\<close>.\<close>

definition sorted_set :: "ustr list \<Rightarrow> ustr list" where
  "sorted_set xs = sort (remdups xs)"

text \<open>The loop over the nodes: the IDs seen so far and the repeated ones.\<close>

fun scan_node_ids :: "Unicode \<Rightarrow> PyDict list \<Rightarrow> ustr list \<Rightarrow> ustr list \<Rightarrow> ustr list \<times> ustr list" where
  "scan_node_ids u [] seen dups = (seen, dups)"
| "scan_node_ids u (node # nodes) seen dups =
     (case map_of node (ascii ''id'') of
        None \<Rightarrow> scan_node_ids u nodes seen dups
      | Some v \<Rightarrow>
          let nid = py_str u v in
          scan_node_ids u nodes (nid # seen) (if nid \<in> set seen then dups @ [nid] else dups))"

definition nested_evidence :: "PyDict \<Rightarrow> bool" where
  "nested_evidence node =
     (map_of node (ascii ''id'') \<noteq> None \<and>
      (case map_of node (ascii ''attributes'') of
         Some (PDict attributes) \<Rightarrow>
           list_ex (\<lambda>(_, v). list_ex (\<lambda>x. is_dict x \<and> map_of (items_of x) (ascii ''evidence'') \<noteq> None) (as_list v)) attributes
       | _ \<Rightarrow> False))"

definition endpoint_dangling :: "Unicode \<Rightarrow> ustr list \<Rightarrow> nat \<Rightarrow> string \<Rightarrow> PyJson option \<Rightarrow> (nat \<times> string \<times> ustr) list" where
  "endpoint_dangling u ids i endpoint v =
     (case not_none v of
        None \<Rightarrow> []
      | Some w \<Rightarrow> if py_str u w \<in> set ids then [] else [(i, endpoint, py_str u w)])"

definition edge_dangling :: "Unicode \<Rightarrow> ustr list \<Rightarrow> nat \<times> PyDict \<Rightarrow> (nat \<times> string \<times> ustr) list" where
  "edge_dangling u ids ie =
     (case ie of (i, edge) \<Rightarrow>
        endpoint_dangling u ids i ''source'' (get_or edge ''source'' ''_src'') @
        endpoint_dangling u ids i ''target'' (get_or edge ''target'' ''_tgt''))"

definition uses_alias :: "string \<Rightarrow> string \<Rightarrow> PyDict list \<Rightarrow> string" where
  "uses_alias name alias edges =
     (if list_ex (\<lambda>e. map_of e (ascii name) = None \<and> map_of e (ascii alias) \<noteq> None) edges then alias else name)"

definition labels_of :: "Unicode \<Rightarrow> (PyDict \<Rightarrow> PyJson option) \<Rightarrow> PyDict list \<Rightarrow> ustr list" where
  "labels_of u pick edges = sorted_set (List.map_filter (\<lambda>e. map_option (py_str u) (not_none (pick e))) edges)"

definition inspect_items :: "Unicode \<Rightarrow> ustr list \<Rightarrow> PyDict list \<Rightarrow> PyDict list \<Rightarrow> GraphSchemaReport" where
  "inspect_items u keys nodes edges =
     (let (ids, duplicates) = scan_node_ids u nodes [] [];
          dangling = concat (map (edge_dangling u ids) (enumerate 0 edges)) in
      \<lparr>root_type = ''dict'', container_keys = keys, node_count = length nodes, edge_count = length edges,
       node_id_field = ''id'', edge_source_field = uses_alias ''source'' ''_src'' edges,
       edge_target_field = uses_alias ''target'' ''_tgt'' edges,
       node_fields_observed = sorted_set (concat (map (map fst) nodes)),
       edge_fields_observed = sorted_set (concat (map (map fst) edges)),
       relation_labels = labels_of u (\<lambda>e. map_of e (ascii ''relation'')) edges,
       extraction_classes = labels_of u (\<lambda>e. get_or e ''extraction_class'' ''confidence'') edges,
       duplicate_node_ids = sorted_set duplicates, dangling_endpoints = dangling,
       has_nested_evidence = list_ex nested_evidence nodes,
       schema_status =
         (if duplicates \<noteq> [] \<or> dangling \<noteq> [] \<or> list_ex (\<lambda>n. map_of n (ascii ''id'') = None) nodes
          then UNSUPPORTED_GRAPH_SCHEMA else SUPPORTED)\<rparr>)"

text \<open>\<open>inspect\<close>: the report, and the nodes when the adapter keeps the data.\<close>

definition inspect_graph :: "Unicode \<Rightarrow> PyJson option \<Rightarrow> GraphSchemaReport \<times> PyDict list option" where
  "inspect_graph u data =
     (case data of
        Some (PDict d) \<Rightarrow>
          let keys = sort (map fst d) in
          (case (map_of d (ascii ''nodes''), get_or d ''links'' ''edges'') of
             (Some (PList nodes), Some (PList edges)) \<Rightarrow>
               if list_ex (\<lambda>x. \<not> is_dict x) (nodes @ edges) then (unsupported_report ''dict'' keys, None)
               else (inspect_items u keys (map items_of nodes) (map items_of edges), Some (map items_of nodes))
           | _ \<Rightarrow> (unsupported_report ''dict'' keys, None))
      | Some v \<Rightarrow> (unsupported_report (type_name_of v) [], None)
      | None \<Rightarrow> (unsupported_report ''invalid_json'' [], None))"

definition graph_nodes :: "Unicode \<Rightarrow> PyJson option \<Rightarrow> string + PyDict list" where
  "graph_nodes u data =
     (case inspect_graph u data of
        (report, Some nodes) \<Rightarrow>
          if schema_status report = SUPPORTED then Inr nodes else Inl ''cannot use an unsupported graph export''
      | _ \<Rightarrow> Inl ''cannot use an unsupported graph export'')"

definition searchable_text :: "Unicode \<Rightarrow> PyDict \<Rightarrow> ustr" where
  "searchable_text u node =
     casefold u (join_u [32] (map (\<lambda>field. case map_of node (ascii field) of None \<Rightarrow> [] | Some v \<Rightarrow> py_str u v)
       [''id'', ''label'', ''norm_label'']))"

definition iter_candidates :: "Unicode \<Rightarrow> PyJson option \<Rightarrow> ustr \<Rightarrow> string + PyDict list" where
  "iter_candidates u data query =
     (let ts = map (casefold u) (u_split query) in
      if ts = [] then Inr []
      else case graph_nodes u data of
             Inl e \<Rightarrow> Inl e
           | Inr nodes \<Rightarrow> Inr (filter (\<lambda>node. list_all (contains (searchable_text u node)) ts) nodes))"

definition find_candidates :: "Unicode \<Rightarrow> PyJson option \<Rightarrow> ustr \<Rightarrow> int \<Rightarrow> string + PyDict list" where
  "find_candidates u data query max_results =
     (if \<not> (1 \<le> max_results \<and> max_results \<le> 10000) then Inl ''graph result limit must be between 1 and 10000''
      else case iter_candidates u data query of Inl e \<Rightarrow> Inl e | Inr nodes \<Rightarrow> Inr (take (nat max_results) nodes))"

subsection \<open>The graph retriever\<close>

definition GRAPH_SCORE :: pyfloat where
  "GRAPH_SCORE = (8106479329266893, - 53)"

definition graph_valid_key :: "RawCandidateHit \<Rightarrow> rat \<times> string \<times> nat \<times> string" where
  "graph_valid_key h =
     (rank_score h, RawCandidateHit.paper_id h,
      (case RawCandidateHit.start_offset h of None \<Rightarrow> 2 ^ 63 | Some a \<Rightarrow> a), candidate_key h)"

text \<open>Where the evidence of an item is: its text, its offset when it is located, or what is wrong.\<close>

datatype Located = At nat | Unlocated string

definition locate_evidence :: "ustr \<Rightarrow> ustr \<Rightarrow> ustr \<times> Located" where
  "locate_evidence body evidence =
     (if MAX_CANDIDATE_CHARS < length evidence
      then (take MAX_CANDIDATE_CHARS evidence, Unlocated ''graph evidence exceeds the runtime candidate size limit'')
      else (evidence,
        (case text_find body evidence 0 of
           None \<Rightarrow> Unlocated ''graph evidence text is not an exact raw Markdown slice''
         | Some a \<Rightarrow>
             if text_find body evidence (Suc a) \<noteq> None
             then Unlocated ''graph evidence text occurs multiple times in raw Markdown''
             else At a)))"

definition unlocated_hit ::
  "TextQuery \<Rightarrow> string \<times> string \<times> string \<times> ustr \<Rightarrow> ustr \<Rightarrow> string \<Rightarrow> ustr option \<Rightarrow> ustr option \<Rightarrow> RawCandidateHit" where
  "unlocated_hit q paper evidence msg node relation =
     (case paper of (pid, raw_path, raw_hash, _) \<Rightarrow>
      \<lparr>candidate_key = make_candidate_key pid raw_hash (id_text q) (text_hash q) evidence None None GRAPH,
       paper_id = pid, raw_md_path = raw_path, query_id = id_text q, query_text_hash = text_hash q,
       intent = wanted q, origin = GRAPH, source_text = evidence, start_offset = None, end_offset = None,
       source_span_hash = None, context_text = None, context_start_offset = None, context_end_offset = None,
       context_utf8_hash = None, section = None, upstream_node_id = node, upstream_relation = relation,
       score = GRAPH_SCORE, is_valid = False, validation_error = Some msg\<rparr>)"

definition graph_hit ::
  "TextQuery \<Rightarrow> string \<times> string \<times> string \<times> ustr \<Rightarrow> ustr option \<Rightarrow> ustr \<Rightarrow> ustr \<Rightarrow> string + RawCandidateHit" where
  "graph_hit q paper node relation evidence0 =
     (let body = snd (snd (snd paper)) in
      case locate_evidence body evidence0 of
        (evidence, Unlocated msg) \<Rightarrow> Inr (unlocated_hit q paper evidence msg node (Some relation))
      | (evidence, At a) \<Rightarrow>
          (case bounded_context_slice body a (a + length evidence) of
             Inl e \<Rightarrow> Inl e
           | Inr window \<Rightarrow> Inr (located_hit q GRAPH_SCORE GRAPH paper evidence a (a + length evidence) window node
                              (Some relation))))"

text \<open>The evidence items of one node, in the order the loops reach them: relation and stripped text.\<close>

definition item_evidence :: "PyJson \<Rightarrow> ustr option" where
  "item_evidence item =
     (case map_of (items_of item) (ascii ''evidence'') of
        Some (PStr s) \<Rightarrow> if u_strip s = [] then None else Some (u_strip s)
      | _ \<Rightarrow> None)"

definition evidence_items :: "PyDict \<Rightarrow> (ustr \<times> ustr) list" where
  "evidence_items node =
     (case map_of node (ascii ''attributes'') of
        Some (PDict attributes) \<Rightarrow>
          concat (map (\<lambda>(relation, raw). map (Pair relation) (List.map_filter item_evidence (as_list raw)))
            (sort_key fst attributes))
      | _ \<Rightarrow> [])"

definition citekey_paper :: "Unicode \<Rightarrow> VerifiedCorpus \<Rightarrow> PyDict \<Rightarrow> (string \<times> string \<times> string \<times> ustr) option" where
  "citekey_paper u corpus node =
     (let citekey = casefold u (case get_or node ''citekey'' ''id'' of None \<Rightarrow> [] | Some v \<Rightarrow> py_str u v) in
      case by_last (\<lambda>(k, _). casefold u k) (filter (\<lambda>(k, _). k \<noteq> []) (bibliography_keys corpus)) citekey of
        None \<Rightarrow> None
      | Some (_, pid) \<Rightarrow> map_option (Pair pid) (map_of (paper_texts corpus) pid))"

definition node_name :: "Unicode \<Rightarrow> PyDict \<Rightarrow> ustr option" where
  "node_name u node =
     (let s = (case map_of node (ascii ''id'') of None \<Rightarrow> [] | Some v \<Rightarrow> py_str u v) in
      if s = [] then None else Some s)"

definition graph_items ::
  "Unicode \<Rightarrow> VerifiedCorpus \<Rightarrow> PyDict list \<Rightarrow> ((string \<times> string \<times> string \<times> ustr) \<times> ustr option \<times> ustr \<times> ustr) list" where
  "graph_items u corpus nodes =
     concat (map (\<lambda>node.
       case citekey_paper u corpus node of
         None \<Rightarrow> []
       | Some paper \<Rightarrow> map (\<lambda>(relation, evidence). (paper, node_name u node, relation, evidence)) (evidence_items node))
       nodes)"

definition graph_step ::
  "TextQuery \<Rightarrow> nat \<Rightarrow> SearchState \<Rightarrow> (string \<times> string \<times> string \<times> ustr) \<times> ustr option \<times> ustr \<times> ustr
    \<Rightarrow> string + SearchState" where
  "graph_step q limit st item =
     (case item of (paper, node, relation, evidence) \<Rightarrow>
      case graph_hit q paper node relation evidence of
        Inl e \<Rightarrow> Inl e
      | Inr h \<Rightarrow> (case new_hit h of Inl e \<Rightarrow> Inl e | Inr h' \<Rightarrow> Inr (keep_hit graph_valid_key limit st h')))"

definition graph_search ::
  "Unicode \<Rightarrow> VerifiedCorpus \<Rightarrow> PyJson option \<Rightarrow> ustr \<Rightarrow> string \<Rightarrow> RetrievalIntent \<Rightarrow> nat \<Rightarrow> nat \<Rightarrow> string + SearchBatch" where
  "graph_search u corpus data query qid want valid_limit max_terms =
     (case search_query u query qid want valid_limit max_terms of
        Inl e \<Rightarrow> Inl e
      | Inr q \<Rightarrow>
          if terms q = [] then Inr empty_batch
          else case iter_candidates u data (join_u [32] (terms q)) of
                 Inl e \<Rightarrow> Inl e
               | Inr nodes \<Rightarrow>
                   (case fold_result (graph_step q valid_limit) (graph_items u corpus nodes) empty_search of
                      Inl e \<Rightarrow> Inl e | Inr st \<Rightarrow> Inr (search_batch st)))"

text \<open>\<open>_bounded_backend_batch\<close> for a backend that has only the public \<open>search\<close>.\<close>

definition extension_batch :: "RawCandidateHit list \<Rightarrow> string + SearchBatch" where
  "extension_batch results =
     (let returned = take (MAX_EXTENSION_BACKEND_RESULTS + 1) results in
      if MAX_EXTENSION_BACKEND_RESULTS < length returned
      then Inl ''retrieval extension backend exceeded its bounded result limit''
      else let valid = ordered_valid returned; invalid = ordered_invalid returned in
        Inr \<lparr>batch_hits = take MAX_TOP_K valid @ take MAX_INVALID_DIAGNOSTICS invalid,
             truncated_valid_candidates = length valid - length (take MAX_TOP_K valid),
             truncated_invalid_candidates = length invalid - length (take MAX_INVALID_DIAGNOSTICS invalid)\<rparr>)"

subsection \<open>The coordinator\<close>

definition span_key :: "RawCandidateHit \<Rightarrow> string \<times> nat \<times> nat \<times> string" where
  "span_key h = (RawCandidateHit.paper_id h, the (RawCandidateHit.start_offset h),
     the (RawCandidateHit.end_offset h), the (RawCandidateHit.source_span_hash h))"

definition raw_hash_of :: "VerifiedCorpus \<Rightarrow> string \<Rightarrow> string" where
  "raw_hash_of corpus pid = (case map_of (paper_texts corpus) pid of Some (_, h, _) \<Rightarrow> h | None \<Rightarrow> '''')"

definition max_float :: "pyfloat \<Rightarrow> pyfloat \<Rightarrow> pyfloat" where
  "max_float x y = (if float_value x < float_value y then y else x)"

definition both_hit :: "VerifiedCorpus \<Rightarrow> string \<Rightarrow> string \<Rightarrow> RawCandidateHit \<Rightarrow> RawCandidateHit \<Rightarrow> RawCandidateHit" where
  "both_hit corpus qid query_hash prior hit =
     (let g = (if origin hit = GRAPH then hit else prior) in
      prior\<lparr>origin := BOTH, score := max_float (score prior) (score hit),
        upstream_node_id := upstream_node_id g, upstream_relation := upstream_relation g,
        candidate_key := make_candidate_key (RawCandidateHit.paper_id prior)
          (raw_hash_of corpus (RawCandidateHit.paper_id prior)) qid query_hash (RawCandidateHit.source_text prior)
          (RawCandidateHit.start_offset prior) (RawCandidateHit.end_offset prior) BOTH\<rparr>)"

fun merge_hits ::
  "VerifiedCorpus \<Rightarrow> string \<Rightarrow> string \<Rightarrow> RawCandidateHit list \<Rightarrow> ((string \<times> nat \<times> nat \<times> string) \<times> RawCandidateHit) list
    \<Rightarrow> ((string \<times> nat \<times> nat \<times> string) \<times> RawCandidateHit) list" where
  "merge_hits corpus qid query_hash [] merged = merged"
| "merge_hits corpus qid query_hash (hit # hits) merged =
     merge_hits corpus qid query_hash hits
       (case map_of merged (span_key hit) of
          None \<Rightarrow> merged @ [(span_key hit, hit)]
        | Some prior \<Rightarrow>
            if origin prior \<noteq> origin hit
            then AList.update (span_key hit) (both_hit corpus qid query_hash prior hit) merged
            else merged)"

definition build_ledger ::
  "VerifiedCorpus \<Rightarrow> string \<Rightarrow> string \<Rightarrow> nat \<Rightarrow> nat \<Rightarrow> SearchBatch \<Rightarrow> SearchBatch \<Rightarrow> RawCandidateHit list
    \<Rightarrow> RawCandidateHit list \<Rightarrow> RetrievalLedger" where
  "build_ledger corpus qid query_hash top_k max_terms text_batch graph_batch ranked invalid =
     (let hits = take top_k ranked @ drop top_k ranked @ invalid in
      \<lparr>source_generation = generation corpus, query_id = qid, query_text_hash = query_hash,
       corpus_lock_hash = lock_hash corpus, requested_top_k = top_k, max_query_terms = max_terms,
       total_candidates = length hits, valid_candidates = length ranked, invalid_candidates = length invalid,
       text_truncated_valid_candidates = truncated_valid_candidates text_batch,
       text_truncated_invalid_candidates = truncated_invalid_candidates text_batch,
       graph_truncated_valid_candidates = truncated_valid_candidates graph_batch,
       graph_truncated_invalid_candidates = truncated_invalid_candidates graph_batch,
       selected_candidate_keys = map candidate_key (take top_k ranked),
       excluded_by_budget_candidate_keys = map candidate_key (drop top_k ranked),
       raw_hits = hits\<rparr>)"

definition new_ledger :: "RetrievalLedger \<Rightarrow> string + RetrievalLedger" where
  "new_ledger l =
     (if \<not> RetrievalLedger_fields l then Inl ''field constraint''
      else case RetrievalLedger_validator l of Some e \<Rightarrow> Inl e | None \<Rightarrow> Inr l)"

definition merge_batches ::
  "VerifiedCorpus \<Rightarrow> ustr \<Rightarrow> string \<Rightarrow> nat \<Rightarrow> nat \<Rightarrow> SearchBatch \<Rightarrow> SearchBatch
    \<Rightarrow> string + RawCandidateHit list \<times> RetrievalLedger" where
  "merge_batches corpus query qid top_k max_terms text_batch graph_batch =
     (let hits = batch_hits text_batch @ batch_hits graph_batch; query_hash = u_query_text_hash query in
      if \<not> distinct (map candidate_key hits) then Inl ''retrieval backends emitted duplicate candidate keys''
      else let ranked = sort_key valid_hit_order_key (map snd (merge_hits corpus qid query_hash (filter is_valid hits) []));
               invalid = ordered_invalid hits in
        case new_ledger (build_ledger corpus qid query_hash top_k max_terms text_batch graph_batch ranked invalid) of
          Inl e \<Rightarrow> Inl e
        | Inr ledger \<Rightarrow> Inr (take top_k ranked, ledger))"

text \<open>The graph retriever exists when the lock names a graph object; \<open>graph\<close> is its decoded content.\<close>

definition retrieve ::
  "Unicode \<Rightarrow> VerifiedCorpus \<Rightarrow> PyJson option option \<Rightarrow> ustr \<Rightarrow> string \<Rightarrow> RetrievalIntent \<Rightarrow> nat \<Rightarrow> nat
    \<Rightarrow> string + RawCandidateHit list \<times> RetrievalLedger" where
  "retrieve u corpus graph query qid want top_k max_terms =
     (if \<not> (1 \<le> top_k \<and> top_k \<le> MAX_TOP_K) then Inl ''top_k must be between 1 and 100''
      else if \<not> (1 \<le> max_terms \<and> max_terms \<le> MAX_QUERY_TERMS) then Inl ''max_query_terms must be between 1 and 64''
      else case text_search u corpus query qid want MAX_TOP_K max_terms of
             Inl e \<Rightarrow> Inl e
           | Inr text_batch \<Rightarrow>
               (case (case graph of None \<Rightarrow> Inr empty_batch
                      | Some data \<Rightarrow> graph_search u corpus data query qid want MAX_TOP_K max_terms) of
                  Inl e \<Rightarrow> Inl e
                | Inr graph_batch \<Rightarrow> merge_batches corpus query qid top_k max_terms text_batch graph_batch))"

end
