(* ===== verification/VR_Ledger.thy ===== *)
theory VR_Ledger
  imports VR_Graph
begin

section \<open>What the graph retriever and the coordinator return\<close>

text \<open>
  Graph evidence becomes a valid candidate exactly when it occurs once in the paper's text, at the
  offset of that occurrence. Merging the two backends keeps each located span once and yields a
  ledger that passes its own validator. The merge refuses two candidates of the same key: a graph
  export that cites one passage under two relations makes that refusal certain.
\<close>

subsection \<open>Locating evidence\<close>

lemma occurs_at_bound: "occurs_at t s i \<Longrightarrow> s \<noteq> [] \<Longrightarrow> i < length t"
  by (cases s) (auto simp: occurs_at_def)

lemma locate_evidence_At:
  assumes "ev \<noteq> []" "length ev \<le> MAX_CANDIDATE_CHARS"
  shows "locate_evidence body ev = (ev, At a) \<longleftrightarrow> occurs_at body ev a \<and> (\<forall>i. occurs_at body ev i \<longrightarrow> i = a)"
proof (cases "text_find body ev 0")
  case None
  then have "\<not> occurs_at body ev i" for i using text_find_None [of 0 body ev] by simp
  then show ?thesis using None assms by (simp add: locate_evidence_def)
next
  case (Some b)
  then have b: "occurs_at body ev b" "\<forall>j < b. \<not> occurs_at body ev j" by (simp_all add: text_find_Some)
  have "Suc b \<le> length body" using occurs_at_bound [OF b(1) assms(1)] by simp
  note f = text_find_None [OF this, of ev]
  have n: "text_find body ev (Suc b) = None \<longleftrightarrow> (\<forall>i. occurs_at body ev i \<longrightarrow> i = b)"
  proof
    assume a: "text_find body ev (Suc b) = None"
    show "\<forall>i. occurs_at body ev i \<longrightarrow> i = b"
    proof (intro allI impI)
      fix i assume "occurs_at body ev i"
      then have "\<not> Suc b \<le> i" "\<not> i < b" using a f b(2) by blast+
      then show "i = b" by simp
    qed
  next
    assume a: "\<forall>i. occurs_at body ev i \<longrightarrow> i = b"
    then show "text_find body ev (Suc b) = None" unfolding f by fastforce
  qed
  show ?thesis
  proof (cases "text_find body ev (Suc b) = None")
    case True
    then have l: "locate_evidence body ev = (ev, At b)" using Some assms(2) by (simp add: locate_evidence_def)
    have u: "\<forall>i. occurs_at body ev i \<longrightarrow> i = b" by (rule n [THEN iffD1, OF True])
    have "b = a \<longleftrightarrow> occurs_at body ev a \<and> (\<forall>i. occurs_at body ev i \<longrightarrow> i = a)"
    proof
      assume e: "b = a"
      show "occurs_at body ev a \<and> (\<forall>i. occurs_at body ev i \<longrightarrow> i = a)"
        by (rule conjI [OF b(1) [unfolded e] u [unfolded e]])
    next
      assume "occurs_at body ev a \<and> (\<forall>i. occurs_at body ev i \<longrightarrow> i = a)"
      from spec [OF conjunct2 [OF this], of b] show "b = a" by (rule mp) (rule b(1))
    qed
    then show ?thesis unfolding l by simp
  next
    case False
    then obtain msg where l: "locate_evidence body ev = (ev, Unlocated msg)" using Some assms(2) by (auto simp: locate_evidence_def)
    have "\<not> (\<forall>i. occurs_at body ev i \<longrightarrow> i = b)" using n False by simp
    then obtain i where i: "occurs_at body ev i" "i \<noteq> b" by blast
    have "\<not> (\<forall>i. occurs_at body ev i \<longrightarrow> i = a)"
    proof
      assume x: "\<forall>i. occurs_at body ev i \<longrightarrow> i = a"
      have "i = a" "b = a" using spec [OF x, of i] spec [OF x, of b] i(1) b(1) by iprover+
      then show False using i(2) by iprover
    qed
    then show ?thesis unfolding l by simp
  qed
qed

lemma locate_evidence_short:
  "length ev \<le> MAX_CANDIDATE_CHARS \<Longrightarrow> \<exists>l. locate_evidence body ev = (ev, l)"
  by (auto simp: locate_evidence_def)

text \<open>Graph evidence always yields a candidate: the window of a located one exists.\<close>

lemma graph_hit_total:
  assumes "ev \<noteq> []"
  shows "(\<exists>msg. snd (locate_evidence (snd (snd (snd paper))) ev) = Unlocated msg \<and>
      graph_hit q paper node rel ev =
        Inr (unlocated_hit q paper (fst (locate_evidence (snd (snd (snd paper))) ev)) msg node (Some rel))) \<or>
    (\<exists>a w. length ev \<le> MAX_CANDIDATE_CHARS \<and> locate_evidence (snd (snd (snd paper))) ev = (ev, At a) \<and>
      bounded_context_slice (snd (snd (snd paper))) a (a + length ev) = Inr w \<and>
      a + length ev \<le> length (snd (snd (snd paper))) \<and> slice (snd (snd (snd paper))) a (a + length ev) = ev \<and>
      graph_hit q paper node rel ev =
        Inr (located_hit q GRAPH_SCORE GRAPH paper ev a (a + length ev) w node (Some rel)))"
proof (cases "locate_evidence (snd (snd (snd paper))) ev")
  case (Pair ev' l)
  show ?thesis
  proof (cases l)
    case (Unlocated msg)
    then show ?thesis using Pair by (simp add: graph_hit_def Let_def)
  next
    case (At a)
    then have len: "length ev \<le> MAX_CANDIDATE_CHARS" and "ev' = ev"
      using Pair by (auto simp: locate_evidence_def split: if_splits)
    then have o: "occurs_at (snd (snd (snd paper))) ev a"
      using Pair At locate_evidence_At [OF assms len] by simp
    then have b: "a < a + length ev" "a + length ev \<le> length (snd (snd (snd paper)))"
      "slice (snd (snd (snd paper))) a (a + length ev) = ev" using assms by (auto simp: occurs_at_def)
    have "(a + length ev) - a \<le> MAX_CONTEXT_CHARS" using len by (simp add: retrieval_bounds)
    then obtain w where "bounded_context_slice (snd (snd (snd paper))) a (a + length ev) = Inr w"
      using context_window b by blast
    then show ?thesis using Pair At b len \<open>ev' = ev\<close> by (cases w) (simp add: graph_hit_def Let_def)
  qed
qed

text \<open>
  C18: Graph evidence is trusted only when it identifies one place. For a non-empty evidence text that
  fits a candidate, the retriever builds a candidate; it is valid exactly when the text occurs at one
  and only one offset of the paper, and then it carries that offset and that text.
\<close>

theorem graph_evidence_located:
  assumes "ev \<noteq> []" and "length ev \<le> MAX_CANDIDATE_CHARS"
  shows "\<exists>h. graph_hit q paper node rel ev = Inr h \<and>
    (is_valid h \<longleftrightarrow> (\<exists>!i. occurs_at (snd (snd (snd paper))) ev i)) \<and>
    (\<forall>i. is_valid h \<longrightarrow> occurs_at (snd (snd (snd paper))) ev i \<longrightarrow>
       RawCandidateHit.start_offset h = Some i \<and> RawCandidateHit.source_text h = ev)"
  using graph_hit_total [OF assms(1), of paper q node rel]
proof (elim disjE exE conjE)
  fix msg assume m: "snd (locate_evidence (snd (snd (snd paper))) ev) = Unlocated msg"
    and h: "graph_hit q paper node rel ev =
      Inr (unlocated_hit q paper (fst (locate_evidence (snd (snd (snd paper))) ev)) msg node (Some rel))"
  have "locate_evidence (snd (snd (snd paper))) ev \<noteq> (ev, At a)" for a using m by auto
  then have n: "\<not> (\<exists>!i. occurs_at (snd (snd (snd paper))) ev i)"
    unfolding locate_evidence_At [OF assms] by blast
  have "\<not> is_valid (unlocated_hit q paper e msg node (Some rel))" for e
    by (cases paper) (simp add: unlocated_hit_def)
  then show ?thesis using h n by blast
next
  fix a w assume l: "locate_evidence (snd (snd (snd paper))) ev = (ev, At a)"
    and h: "graph_hit q paper node rel ev =
      Inr (located_hit q GRAPH_SCORE GRAPH paper ev a (a + length ev) w node (Some rel))"
  have "occurs_at (snd (snd (snd paper))) ev a" "\<forall>i. occurs_at (snd (snd (snd paper))) ev i \<longrightarrow> i = a"
    using l by (simp_all add: locate_evidence_At [OF assms])
  moreover have "is_valid (located_hit q GRAPH_SCORE GRAPH paper ev a (a + length ev) w node (Some rel))"
    "RawCandidateHit.start_offset (located_hit q GRAPH_SCORE GRAPH paper ev a (a + length ev) w node (Some rel)) = Some a"
    "RawCandidateHit.source_text (located_hit q GRAPH_SCORE GRAPH paper ev a (a + length ev) w node (Some rel)) = ev"
    by (cases paper, cases w, simp add: located_hit_def)+
  ultimately show ?thesis using h by blast
qed

subsection \<open>The graph search is a ranking\<close>

definition graph_candidate ::
  "TextQuery \<Rightarrow> (string \<times> string \<times> string \<times> ustr) \<times> ustr option \<times> ustr \<times> ustr \<Rightarrow> RawCandidateHit option" where
  "graph_candidate q item =
     (case item of (paper, node, relation, evidence) \<Rightarrow>
      (case graph_hit q paper node relation evidence of Inl _ \<Rightarrow> None | Inr h \<Rightarrow> Some h))"

definition graph_key :: "TextQuery \<Rightarrow> string \<times> string \<times> string \<times> ustr \<Rightarrow> ustr \<Rightarrow> string" where
  "graph_key q paper evidence =
     (case paper of (pid, _, raw_hash, body) \<Rightarrow>
      case locate_evidence body evidence of
        (ev, Unlocated _) \<Rightarrow> make_candidate_key pid raw_hash (id_text q) (text_hash q) ev None None GRAPH
      | (ev, At a) \<Rightarrow>
          make_candidate_key pid raw_hash (id_text q) (text_hash q) ev (Some a) (Some (a + length ev)) GRAPH)"

lemma graph_hit_key: "graph_hit q paper node rel ev = Inr h \<Longrightarrow> candidate_key h = graph_key q paper ev"
  by (cases paper) (auto simp: graph_hit_def graph_key_def unlocated_hit_def located_hit_def Let_def
      split: prod.splits Located.splits sum.splits)

definition graph_candidates :: "Unicode \<Rightarrow> VerifiedCorpus \<Rightarrow> TextQuery \<Rightarrow> PyDict list \<Rightarrow> RawCandidateHit list" where
  "graph_candidates u corpus q nodes = List.map_filter (graph_candidate q) (graph_items u corpus nodes)"

lemma map_filter_total: "\<forall>x \<in> set xs. f x \<noteq> None \<Longrightarrow> List.map_filter f xs = map (\<lambda>x. the (f x)) xs"
  by (induction xs) (auto simp: List.map_filter_simps)

lemma item_evidence_nonempty: "item_evidence item = Some e \<Longrightarrow> e \<noteq> []"
  by (auto simp: item_evidence_def split: option.splits PyJson.splits if_splits)

lemma evidence_items_nonempty: "(relation, e) \<in> set (evidence_items node) \<Longrightarrow> e \<noteq> []"
  unfolding evidence_items_def List.map_filter_def
  by (auto dest: item_evidence_nonempty split: option.splits PyJson.splits)

lemma graph_items_nonempty: "(paper, node, relation, e) \<in> set (graph_items u corpus nodes) \<Longrightarrow> e \<noteq> []"
  by (auto simp: graph_items_def dest: evidence_items_nonempty split: option.splits)

lemma graph_fold:
  "fold_result (graph_step q n) (graph_items u corpus nodes) st =
    (case traverse_result new_hit (graph_candidates u corpus q nodes) of
       Inl e \<Rightarrow> Inl e | Inr hs \<Rightarrow> Inr (foldl (keep_hit graph_valid_key n) st hs))"
  unfolding graph_candidates_def
proof (rule fold_result_hits)
  fix st item assume i: "item \<in> set (graph_items u corpus nodes)"
  obtain paper node relation e where e: "item = (paper, node, relation, e)" by (cases item) auto
  then have "e \<noteq> []" using i graph_items_nonempty by blast
  from graph_hit_total [OF this] obtain h where "graph_hit q paper node relation e = Inr h" by blast
  then show "graph_step q n st item = (case graph_candidate q item of None \<Rightarrow> Inr st
      | Some h \<Rightarrow> (case new_hit h of Inl e \<Rightarrow> Inl e | Inr h' \<Rightarrow> Inr (keep_hit graph_valid_key n st h')))"
    by (simp add: graph_step_def graph_candidate_def e)
qed

interpretation graph_ranking: bounded_ranking "retain_best n graph_valid_key" n graph_valid_key for n
  by unfold_locales (rule retain_best_step)

lemma graph_search_eq:
  assumes "search_query u query qid want k m = Inr q" "terms q \<noteq> []"
    and "iter_candidates u data (join_u [32] (terms q)) = Inr nodes"
    and "list_all valid_RawCandidateHit (graph_candidates u corpus q nodes)"
  shows "graph_search u corpus data query qid want k m =
    Inr (ranked_batch graph_valid_key k (graph_candidates u corpus q nodes))"
  using assms(1-3) ranked_keep [OF assms(4) graph_ranking.kept] traverse_new_hit [OF assms(4)]
  by (simp add: graph_search_def graph_fold)

text \<open>
  C39: One passage cited twice blocks the query. If the nodes a query reaches cite the same evidence
  text of the same paper in two places, under two relations or nodes, the two candidates have the same
  key and the coordinator refuses the whole query, although each backend succeeded. (This is for nodes
  that yield at most a hundred candidates, so that none is cut off, each of which its constructor
  lets pass.)
\<close>

theorem repeated_evidence_blocks_retrieval:
  assumes "search_query u query qid want MAX_TOP_K m = Inr q" and "1 \<le> k" and "k \<le> MAX_TOP_K"
    and "text_search u corpus query qid want MAX_TOP_K m = Inr tb"
    and "terms q \<noteq> []" and "iter_candidates u data (join_u [32] (terms q)) = Inr nodes"
    and "list_all valid_RawCandidateHit (graph_candidates u corpus q nodes)"
    and "length (graph_candidates u corpus q nodes) \<le> 100"
    and "i < j" and "j < length (graph_items u corpus nodes)"
    and "graph_items u corpus nodes ! i = (paper, n1, r1, ev)"
    and "graph_items u corpus nodes ! j = (paper, n2, r2, ev)"
  shows "retrieve u corpus (Some data) query qid want k m = Inl ''retrieval backends emitted duplicate candidate keys''"
proof -
  let ?items = "graph_items u corpus nodes" and ?hits = "graph_candidates u corpus q nodes"
  have "?items ! j \<in> set ?items" using assms(10) by (rule nth_mem)
  then have ne: "ev \<noteq> []" unfolding assms(12) by (rule graph_items_nonempty)
  have all: "\<exists>h. graph_candidate q it = Some h" if "it \<in> set ?items" for it
  proof -
    obtain p n r e where it: "it = (p, n, r, e)" by (cases it) auto
    then have "e \<noteq> []" using that graph_items_nonempty by blast
    from graph_hit_total [OF this, of p q n r] show ?thesis by (auto simp: graph_candidate_def it)
  qed
  then have "\<forall>it \<in> set ?items. graph_candidate q it \<noteq> None" by auto
  then have hits: "?hits = map (\<lambda>it. the (graph_candidate q it)) ?items"
    unfolding graph_candidates_def by (rule map_filter_total)
  have "candidate_key (the (graph_candidate q (paper, n, r, ev))) = graph_key q paper ev" for n r
    using graph_hit_total [OF ne, of paper q n r] graph_hit_key [of q paper n r ev]
    by (cases "graph_hit q paper n r ev") (simp_all add: graph_candidate_def)
  note key = this
  have "\<not> distinct (map candidate_key ?hits)"
  proof
    assume "distinct (map candidate_key ?hits)"
    moreover have "i < length (map candidate_key ?hits)" "j < length (map candidate_key ?hits)"
      using assms(9,10) by (simp_all add: hits)
    moreover have "map candidate_key ?hits ! i = map candidate_key ?hits ! j"
      using assms(9-12) key by (simp add: hits)
    ultimately have "i = j" by (simp only: nth_eq_iff_index_eq)
    then show False using assms(9) by simp
  qed
  moreover have g: "graph_search u corpus data query qid want MAX_TOP_K m = Inr (ranked_batch graph_valid_key MAX_TOP_K ?hits)"
    by (rule graph_search_eq [OF assms(1,5,6,7)])
  moreover have "mset (batch_hits (ranked_batch graph_valid_key MAX_TOP_K ?hits)) = mset ?hits"
  proof -
    have "length (filter P ?hits) \<le> 100" for P using assms(8) le_trans [OF length_filter_le] by blast
    then show ?thesis by (simp add: ranked_batch_def Let_def retrieval_bounds)
  qed
  then have "mset (map candidate_key (batch_hits (ranked_batch graph_valid_key MAX_TOP_K ?hits))) = mset (map candidate_key ?hits)"
    by simp
  ultimately have "\<not> distinct (map candidate_key (batch_hits (ranked_batch graph_valid_key MAX_TOP_K ?hits)))"
    using mset_eq_imp_distinct_iff by blast
  moreover have "1 \<le> m \<and> m \<le> MAX_QUERY_TERMS"
    using assms(1) by (auto simp: search_query_def split: if_splits)
  ultimately show ?thesis
    using assms(2-4) g by (simp add: retrieve_def merge_batches_def Let_def)
qed

subsection \<open>Merging\<close>

text \<open>What a backend hands to the coordinator.\<close>

definition own_hit :: "string \<Rightarrow> string \<Rightarrow> RawCandidateHit \<Rightarrow> bool" where
  "own_hit qid query_hash h \<longleftrightarrow> valid_RawCandidateHit h \<and> RawCandidateHit.query_id h = qid \<and>
     RawCandidateHit.query_text_hash h = query_hash"

definition good_batch :: "string \<Rightarrow> string \<Rightarrow> SearchBatch \<Rightarrow> bool" where
  "good_batch qid query_hash b \<longleftrightarrow>
     (\<forall>h \<in> set (batch_hits b). own_hit qid query_hash h \<and> origin h \<noteq> BOTH) \<and>
     length (filter is_valid (batch_hits b)) \<le> MAX_TOP_K \<and>
     length (filter (\<lambda>h. \<not> is_valid h) (batch_hits b)) \<le> MAX_INVALID_DIAGNOSTICS \<and>
     truncated_valid_candidates b \<le> MAX_TRUNCATED_CANDIDATES \<and>
     truncated_invalid_candidates b \<le> MAX_TRUNCATED_CANDIDATES"

lemma valid_hit_provenance:
  "valid_RawCandidateHit h \<Longrightarrow> provenance_checks h = None"
  by (auto simp: valid_RawCandidateHit_def RawCandidateHit_validator_def split: sum.splits option.splits if_splits)

lemma both_hit_fields:
  "is_valid (both_hit corpus qid qh prior hit) = is_valid prior"
  "span_key (both_hit corpus qid qh prior hit) = span_key prior"
  "RawCandidateHit.query_id (both_hit corpus qid qh prior hit) = RawCandidateHit.query_id prior"
  "RawCandidateHit.query_text_hash (both_hit corpus qid qh prior hit) = RawCandidateHit.query_text_hash prior"
  by (simp_all add: both_hit_def Let_def span_key_def)

lemma both_hit_own:
  assumes "own_hit qid qh prior" "own_hit qid qh hit" "is_valid prior" "origin hit \<noteq> BOTH" "origin prior \<noteq> origin hit"
  shows "own_hit qid qh (both_hit corpus qid qh prior hit)"
proof -
  define g where "g = (if origin hit = GRAPH then hit else prior)"
  have v: "valid_RawCandidateHit prior" "valid_RawCandidateHit hit" using assms(1,2) by (simp_all add: own_hit_def)
  have "origin g \<noteq> TEXT_BASELINE" using assms(4,5) by (cases "origin hit") (simp_all add: g_def)
  moreover have gv: "valid_RawCandidateHit g" using v by (simp add: g_def)
  ultimately have up: "upstream_node_id g \<noteq> None" "upstream_relation g \<noteq> None"
    using valid_hit_provenance [of g] by (simp_all add: provenance_checks_def)
  have gm: "metadata_text (upstream_node_id g)" "metadata_text (upstream_relation g)"
    using gv by (simp_all add: valid_RawCandidateHit_def RawCandidateHit_fields_def)
  let ?b = "both_hit corpus qid qh prior hit"
  have s: "canonical_float (score ?b) \<and> 0 \<le> float_value (score ?b) \<and> float_value (score ?b) \<le> 1"
    using v by (simp add: both_hit_def Let_def max_float_def valid_RawCandidateHit_def RawCandidateHit_fields_def)
  have "RawCandidateHit_fields ?b"
    using v(1) gm s by (simp add: both_hit_def Let_def g_def [symmetric] valid_RawCandidateHit_def RawCandidateHit_fields_def)
  moreover have "RawCandidateHit_validator ?b = None"
  proof -
    have "offset_checks ?b = offset_checks prior" "valid_hit_checks ?b = valid_hit_checks prior"
      by (simp_all add: both_hit_def Let_def offset_checks_def valid_hit_checks_def no_context_def full_context_def)
    moreover have "RawCandidateHit.query_id ?b = RawCandidateHit.query_id prior"
      "RawCandidateHit.intent ?b = RawCandidateHit.intent prior" by (simp_all add: both_hit_def Let_def)
    moreover have "provenance_checks ?b = None"
      using up by (simp add: provenance_checks_def both_hit_def Let_def g_def [symmetric])
    moreover have "RawCandidateHit_validator prior = None" using v(1) by (simp add: valid_RawCandidateHit_def)
    ultimately show ?thesis
      using assms(3) by (auto simp: RawCandidateHit_validator_def both_hit_fields split: sum.splits option.splits)
  qed
  ultimately show ?thesis using assms(1) by (simp add: own_hit_def valid_RawCandidateHit_def both_hit_fields)
qed

definition merged_ok :: "string \<Rightarrow> string \<Rightarrow> ((string \<times> nat \<times> nat \<times> string) \<times> RawCandidateHit) list \<Rightarrow> bool" where
  "merged_ok qid qh merged \<longleftrightarrow> distinct (map fst merged) \<and>
     (\<forall>(k, h) \<in> set merged. k = span_key h \<and> is_valid h \<and> own_hit qid qh h)"

lemma merged_ok_update:
  assumes "merged_ok qid qh merged" "k = span_key h" "is_valid h" "own_hit qid qh h"
  shows "merged_ok qid qh (AList.update k h merged)"
proof -
  have "(k', h') = (k, h) \<or> (k', h') \<in> set merged" if "(k', h') \<in> set (AList.update k h merged)" for k' h'
    using that by (induction merged) (auto split: if_splits)
  then show ?thesis using assms distinct_update [of merged k h] unfolding merged_ok_def by blast
qed

lemma merge_hits_props:
  assumes "merged_ok qid qh merged" "\<forall>h \<in> set hits. is_valid h \<and> own_hit qid qh h \<and> origin h \<noteq> BOTH"
  shows "merged_ok qid qh (merge_hits corpus qid qh hits merged) \<and>
    fst ` set (merge_hits corpus qid qh hits merged) = fst ` set merged \<union> span_key ` set hits \<and>
    length (merge_hits corpus qid qh hits merged) \<le> length merged + length hits"
  using assms
proof (induction hits arbitrary: merged)
  case (Cons hit hits)
  let ?m = "case map_of merged (span_key hit) of
          None \<Rightarrow> merged @ [(span_key hit, hit)]
        | Some prior \<Rightarrow>
            if origin prior \<noteq> origin hit
            then AList.update (span_key hit) (both_hit corpus qid qh prior hit) merged
            else merged"
  have h: "is_valid hit" "own_hit qid qh hit" "origin hit \<noteq> BOTH" using Cons.prems(2) by simp_all
  have "merged_ok qid qh ?m \<and> fst ` set ?m = insert (span_key hit) (fst ` set merged) \<and> length ?m \<le> Suc (length merged)"
  proof (cases "map_of merged (span_key hit)")
    case None
    then have m: "?m = merged @ [(span_key hit, hit)]" by simp
    have "span_key hit \<notin> fst ` set merged" using None by (simp add: map_of_eq_None_iff)
    then show ?thesis using Cons.prems(1) h unfolding m by (auto simp: merged_ok_def)
  next
    case (Some prior)
    then have p: "(span_key hit, prior) \<in> set merged" by (rule map_of_SomeD)
    then have pr: "span_key hit = span_key prior" "is_valid prior" "own_hit qid qh prior"
      using Cons.prems(1) by (auto simp: merged_ok_def)
    have k: "span_key hit \<in> fst ` set merged" using p by force
    have "length (AList.update (span_key hit) x merged) \<le> Suc (length merged)" for x
      by (induction merged) auto
    moreover have "fst ` set (AList.update (span_key hit) x merged) = fst ` set merged" for x
      using k by (simp add: dom_update insert_absorb)
    ultimately show ?thesis
      using Some k Cons.prems(1) merged_ok_update [OF Cons.prems(1), of "span_key hit" "both_hit corpus qid qh prior hit"]
        both_hit_own [OF pr(3) h(2) pr(2) h(3)] pr
      by (auto simp: both_hit_fields insert_absorb)
  qed
  note m = this
  have r: "\<forall>h \<in> set hits. is_valid h \<and> own_hit qid qh h \<and> origin h \<noteq> BOTH" using Cons.prems(2) by simp
  have e: "merge_hits corpus qid qh (hit # hits) merged = merge_hits corpus qid qh hits ?m" by (rule merge_hits.simps)
  note IH = Cons.IH [OF conjunct1 [OF m] r]
  show ?case
    unfolding e
  proof (intro conjI)
    show "merged_ok qid qh (merge_hits corpus qid qh hits ?m)" using IH by blast
    have "fst ` set (merge_hits corpus qid qh hits ?m) = insert (span_key hit) (fst ` set merged) \<union> span_key ` set hits"
      using IH m by (simp only:)
    then show "fst ` set (merge_hits corpus qid qh hits ?m) = fst ` set merged \<union> span_key ` set (hit # hits)" by auto
    show "length (merge_hits corpus qid qh hits ?m) \<le> length merged + length (hit # hits)"
      using IH m by (simp only: list.size) linarith
  qed
qed simp

lemma sort_key_sorted_id: "sorted (map f xs) \<Longrightarrow> sort_key f xs = xs"
  by (rule properties_for_sort_key) simp_all

lemma ledger_validates:
  assumes ranked: "list_all is_valid ranked" "sorted (map valid_hit_order_key ranked)"
    and invalid: "list_all (\<lambda>h. \<not> is_valid h) invalid" "sorted (map invalid_hit_order_key invalid)"
    and own: "\<forall>h \<in> set ranked \<union> set invalid. own_hit qid qh h"
    and d: "distinct (map candidate_key (ranked @ invalid))"
    and n: "length ranked \<le> 2 * MAX_TOP_K" "length invalid \<le> 2 * MAX_INVALID_DIAGNOSTICS"
    and l: "l = build_ledger corpus qid qh k m tb gb ranked invalid"
  shows "RetrievalLedger_validator l = None \<and> list_all valid_RawCandidateHit (raw_hits l) \<and> raw_hits l = ranked @ invalid"
proof -
  have hits: "raw_hits l = ranked @ invalid" by (simp add: l build_ledger_def Let_def append_assoc [symmetric])
  have f: "filter is_valid (ranked @ invalid) = ranked" "filter (\<lambda>h. \<not> is_valid h) (ranked @ invalid) = invalid"
    using ranked(1) invalid(1) by (simp_all add: list_all_iff filter_id_conv filter_empty_conv)
  have o: "ordered_valid (ranked @ invalid) = ranked" "ordered_invalid (ranked @ invalid) = invalid"
    unfolding ordered_valid_def ordered_invalid_def f using ranked(2) invalid(2) by (simp_all add: sort_key_sorted_id)
  have dr: "distinct (map candidate_key (take k ranked) @ map candidate_key (drop k ranked))"
    using d by (metis append_take_drop_id distinct_append map_append)
  have u: "set (map candidate_key (take k ranked)) \<union> set (map candidate_key (drop k ranked)) = set (map candidate_key ranked)"
    by (metis append_take_drop_id map_append set_append)
  have q: "\<not> list_ex (\<lambda>h. RawCandidateHit.query_id h \<noteq> qid) (ranked @ invalid)"
    "\<not> list_ex (\<lambda>h. RawCandidateHit.query_text_hash h \<noteq> qh) (ranked @ invalid)"
    using own by (auto simp: list_ex_iff own_hit_def)
  have len: "length (ranked @ invalid) \<le> MAX_LEDGER_HITS" using n by (simp add: MAX_LEDGER_HITS_def)
  have sl: "requested_top_k l = k" "selected_candidate_keys l = map candidate_key (take k ranked)"
    "excluded_by_budget_candidate_keys l = map candidate_key (drop k ranked)"
    "total_candidates l = length (ranked @ invalid)" "valid_candidates l = length ranked"
    "invalid_candidates l = length invalid" "RetrievalLedger.query_id l = qid" "RetrievalLedger.query_text_hash l = qh"
    by (simp_all add: l build_ledger_def Let_def)
  have "RetrievalLedger_validator l = None"
    unfolding RetrievalLedger_validator_def hits Let_def f o sl raise_if_None
    using d dr u q len n by (auto simp: not_less simp del: distinct_map)
  then show ?thesis using own by (auto simp: hits list_all_iff own_hit_def)
qed

text \<open>
  Merging two bounded batches of well-formed candidates of one query fails exactly when a key is
  repeated, among their candidates or among the merged candidates and the diagnostics.
\<close>

lemma merged_ledger_valid:
  assumes "good_batch qid (u_query_text_hash query) tb" and "good_batch qid (u_query_text_hash query) gb"
    and "is_QueryId qid" and "is_Sha256 (lock_hash corpus)"
    and "1 \<le> k" and "k \<le> MAX_TOP_K" and "1 \<le> m" and "m \<le> MAX_QUERY_TERMS"
  shows "let hits = batch_hits tb @ batch_hits gb;
      merged = map snd (merge_hits corpus qid (u_query_text_hash query) (filter is_valid hits) []);
      invalid = filter (\<lambda>h. \<not> is_valid h) hits;
      fresh = distinct (map candidate_key hits) \<and> distinct (map candidate_key (merged @ invalid)) in
    case merge_batches corpus query qid k m tb gb of
      Inl _ \<Rightarrow> \<not> fresh
    | Inr (selected, ledger) \<Rightarrow> fresh \<and> valid_RetrievalLedger ledger \<and>
        selected = take k (ordered_valid (raw_hits ledger)) \<and>
        distinct (map span_key (filter is_valid (raw_hits ledger))) \<and>
        span_key ` set (filter is_valid (raw_hits ledger)) = span_key ` set (filter is_valid hits) \<and>
        set (filter (\<lambda>h. \<not> is_valid h) (raw_hits ledger)) = set invalid"
proof -
  let ?qh = "u_query_text_hash query"
  define hits where "hits = batch_hits tb @ batch_hits gb"
  define merged where "merged = merge_hits corpus qid ?qh (filter is_valid hits) []"
  define invalid where "invalid = filter (\<lambda>h. \<not> is_valid h) hits"
  define ranked where "ranked = sort_key valid_hit_order_key (map snd merged)"
  have own: "own_hit qid ?qh h" "origin h \<noteq> BOTH" if "h \<in> set hits" for h
    using that assms(1,2) by (auto simp: hits_def good_batch_def)
  have a: "merged_ok qid ?qh []" by (simp add: merged_ok_def)
  have b: "\<forall>h \<in> set (filter is_valid hits). is_valid h \<and> own_hit qid ?qh h \<and> origin h \<noteq> BOTH" using own by simp
  have mp: "merged_ok qid ?qh merged" "fst ` set merged = span_key ` set (filter is_valid hits)"
      "length merged \<le> length (filter is_valid hits)"
    using merge_hits_props [OF a b, of corpus] by (simp_all add: merged_def)
  have mv: "is_valid h" "own_hit qid ?qh h" if "h \<in> set ranked" for h
    using that mp(1) by (auto simp: ranked_def merged_ok_def)
  have sk: "map span_key (map snd merged) = map fst merged"
    using mp(1) by (auto simp: merged_ok_def)
  have n: "length ranked \<le> 2 * MAX_TOP_K" "length (ordered_invalid hits) \<le> 2 * MAX_INVALID_DIAGNOSTICS"
    using assms(1,2) mp(3) by (auto simp: ranked_def ordered_invalid_def hits_def good_batch_def)
  define l where "l = build_ledger corpus qid ?qh k m tb gb ranked (ordered_invalid hits)"
  have fields: "RetrievalLedger_fields l"
  proof -
    have "is_Sha256 (candidate_key h)" if "h \<in> set ranked" for h
      using mv(2) [OF that] by (simp add: own_hit_def valid_RawCandidateHit_def RawCandidateHit_fields_def)
    then have "list_all is_Sha256 (map candidate_key (take k ranked))" "list_all is_Sha256 (map candidate_key (drop k ranked))"
      by (auto simp: list_all_iff dest: in_set_takeD in_set_dropD)
    moreover have "is_Sha256 ?qh" by (simp add: u_query_text_hash_def)
    ultimately show ?thesis
      using assms by (simp add: RetrievalLedger_fields_def l_def build_ledger_def Let_def good_batch_def)
  qed
  have mi: "mset (map candidate_key (ranked @ ordered_invalid hits)) = mset (map candidate_key (map snd merged @ invalid))"
    by (simp add: ranked_def ordered_invalid_def invalid_def image_mset.compositionality)
  then have di: "distinct (map candidate_key (ranked @ ordered_invalid hits)) \<longleftrightarrow> distinct (map candidate_key (map snd merged @ invalid))"
    by (rule mset_eq_imp_distinct_iff)
  have rest: "RetrievalLedger_validator l = None \<and> list_all valid_RawCandidateHit (raw_hits l) \<and> raw_hits l = ranked @ ordered_invalid hits"
    if "distinct (map candidate_key (map snd merged @ invalid))"
  proof (rule ledger_validates [where qid = qid and qh = ?qh, OF _ _ _ _ _ _ n l_def])
    show "list_all is_valid ranked" using mv by (simp add: list_all_iff)
    show "list_all (\<lambda>h. \<not> is_valid h) (ordered_invalid hits)" by (simp add: list_all_iff ordered_invalid_def)
    show "\<forall>h \<in> set ranked \<union> set (ordered_invalid hits). own_hit qid ?qh h"
      using mv own by (auto simp: ordered_invalid_def)
    show "distinct (map candidate_key (ranked @ ordered_invalid hits))" using that di by blast
  qed (simp_all add: ranked_def ordered_invalid_def)
  have bad: "RetrievalLedger_validator l \<noteq> None" if "\<not> distinct (map candidate_key (map snd merged @ invalid))"
  proof -
    have "raw_hits l = ranked @ ordered_invalid hits" by (simp add: l_def build_ledger_def Let_def append_assoc [symmetric])
    then have "\<not> distinct (map candidate_key (raw_hits l))" using that di by simp
    then show ?thesis by (simp add: RetrievalLedger_validator_def Let_def del: distinct_map)
  qed
  define fresh where "fresh = distinct (map candidate_key (map snd merged @ invalid))"
  have nl: "new_ledger l = (if fresh then Inr l else Inl (the (RetrievalLedger_validator l)))"
    using fields rest bad unfolding fresh_def [symmetric] by (cases fresh) (auto simp: new_ledger_def)
  have e: "merge_batches corpus query qid k m tb gb =
      (if \<not> distinct (map candidate_key hits) then Inl ''retrieval backends emitted duplicate candidate keys''
       else case new_ledger l of Inl e \<Rightarrow> Inl e | Inr ledger \<Rightarrow> Inr (take k ranked, ledger))"
    by (simp only: merge_batches_def Let_def l_def ranked_def merged_def hits_def)
  have rh: "filter is_valid (ranked @ ordered_invalid hits) = ranked"
    "filter (\<lambda>h. \<not> is_valid h) (ranked @ ordered_invalid hits) = ordered_invalid hits"
    using mv by (auto simp: ordered_invalid_def filter_id_conv filter_empty_conv)
  have ov: "ordered_valid (ranked @ ordered_invalid hits) = ranked"
    unfolding ordered_valid_def rh by (rule sort_key_sorted_id) (simp add: ranked_def)
  have spans: "distinct (map span_key ranked)" "span_key ` set ranked = span_key ` set (filter is_valid hits)"
  proof -
    have "mset (map span_key ranked) = mset (map fst merged)" unfolding sk [symmetric] by (simp add: ranked_def image_mset.compositionality)
    then show "distinct (map span_key ranked)"
      using mp(1) mset_eq_imp_distinct_iff [of "map span_key ranked" "map fst merged"] by (simp only: merged_ok_def)
    have "set (map span_key ranked) = set (map fst merged)"
      using \<open>mset (map span_key ranked) = mset (map fst merged)\<close> by (rule mset_eq_setD)
    then show "span_key ` set ranked = span_key ` set (filter is_valid hits)" using mp(2) by simp
  qed
  have inv: "set (ordered_invalid hits) = set invalid" by (simp add: ordered_invalid_def invalid_def)
  have result: "valid_RetrievalLedger l \<and> take k ranked = take k (ordered_valid (raw_hits l)) \<and>
      distinct (map span_key (filter is_valid (raw_hits l))) \<and>
      span_key ` set (filter is_valid (raw_hits l)) = span_key ` set (filter is_valid hits) \<and>
      set (filter (\<lambda>h. \<not> is_valid h) (raw_hits l)) = set invalid" if fresh
  proof -
    have r: "RetrievalLedger_validator l = None" "list_all valid_RawCandidateHit (raw_hits l)"
      "raw_hits l = ranked @ ordered_invalid hits" using rest [folded fresh_def] that by blast+
    have "valid_RetrievalLedger l" using fields r(1,2) by (simp only: valid_RetrievalLedger_def simp_thms)
    then show ?thesis using spans inv unfolding r(3) rh ov by (intro conjI) simp_all
  qed
  show ?thesis
    unfolding Let_def hits_def [symmetric] merged_def [symmetric] invalid_def [symmetric] e nl fresh_def [symmetric]
    using result by (cases "distinct (map candidate_key hits)"; cases fresh) simp_all
qed

subsection \<open>The whole retrieval\<close>

lemma filter_parts:
  assumes "\<And>x. x \<in> set xs \<Longrightarrow> P x" "\<And>x. x \<in> set ys \<Longrightarrow> \<not> P x"
  shows "filter P (xs @ ys) = xs" "filter (\<lambda>x. \<not> P x) (xs @ ys) = ys"
  using assms by (simp_all add: filter_id_conv filter_empty_conv)

lemma mem_map_filter: "y \<in> set (List.map_filter f xs) \<longleftrightarrow> (\<exists>x \<in> set xs. f x = Some y)"
  by (force simp: List.map_filter_def)

lemma ranked_batch_filters:
  "filter is_valid (batch_hits (ranked_batch key n hs)) = take n (sort_key key (filter is_valid hs))"
  "filter (\<lambda>h. \<not> is_valid h) (batch_hits (ranked_batch key n hs)) =
     take MAX_INVALID_DIAGNOSTICS (sort_key short_invalid_key (filter (\<lambda>h. \<not> is_valid h) hs))"
  "set (batch_hits (ranked_batch key n hs)) \<subseteq> set hs"
proof -
  have v: "is_valid h" if "h \<in> set (take n (sort_key key (filter is_valid hs)))" for h
    using in_set_takeD [OF that] by simp
  have i: "\<not> is_valid h" if "h \<in> set (take k (sort_key short_invalid_key (filter (\<lambda>h. \<not> is_valid h) hs)))" for h k
    using in_set_takeD [OF that] by simp
  show "filter is_valid (batch_hits (ranked_batch key n hs)) = take n (sort_key key (filter is_valid hs))"
    unfolding ranked_batch_def Let_def SearchBatch.simps by (rule filter_parts(1), erule v, erule i)
  show "filter (\<lambda>h. \<not> is_valid h) (batch_hits (ranked_batch key n hs)) =
     take MAX_INVALID_DIAGNOSTICS (sort_key short_invalid_key (filter (\<lambda>h. \<not> is_valid h) hs))"
    unfolding ranked_batch_def Let_def SearchBatch.simps by (rule filter_parts(2), erule v, erule i)
  show "set (batch_hits (ranked_batch key n hs)) \<subseteq> set hs"
    by (auto simp: ranked_batch_def Let_def dest: in_set_takeD)
qed

definition counted :: "SearchBatch \<Rightarrow> bool" where
  "counted b \<longleftrightarrow> truncated_valid_candidates b \<le> MAX_TRUNCATED_CANDIDATES \<and>
     truncated_invalid_candidates b \<le> MAX_TRUNCATED_CANDIDATES"

lemma ranked_batch_good:
  assumes "list_all valid_RawCandidateHit hs" "counted (ranked_batch key MAX_TOP_K hs)"
    and "\<And>h. h \<in> set hs \<Longrightarrow> RawCandidateHit.query_id h = qid \<and> RawCandidateHit.query_text_hash h = qh \<and> origin h \<noteq> BOTH"
  shows "good_batch qid qh (ranked_batch key MAX_TOP_K hs)"
proof -
  have "own_hit qid qh h \<and> origin h \<noteq> BOTH" if "h \<in> set (batch_hits (ranked_batch key MAX_TOP_K hs))" for h
    using ranked_batch_filters(3) [of key MAX_TOP_K hs] that assms(1,3) by (auto simp: own_hit_def list_all_iff)
  then show ?thesis
    using assms(2) unfolding good_batch_def ranked_batch_filters counted_def by simp
qed

lemma traverse_new_hit_InrD: "traverse_result new_hit hs = Inr hs' \<Longrightarrow> hs' = hs \<and> list_all valid_RawCandidateHit hs"
  using traverse_new_hit traverse_new_hit_Inl by (metis Inr_inject sum.distinct(1))

lemma good_empty_batch: "good_batch qid qh empty_batch"
  by (simp add: good_batch_def empty_batch_def)

lemma text_batch_good:
  assumes "text_search u corpus query qid want MAX_TOP_K m = Inr b" "counted b"
  shows "good_batch qid (u_query_text_hash query) b"
proof -
  obtain q where q: "search_query u query qid want MAX_TOP_K m = Inr q"
    using assms(1) by (auto simp: text_search_def split: sum.splits)
  note g = search_query_good [OF q]
  show ?thesis
  proof (cases "terms q = []")
    case True
    then show ?thesis using assms(1) q by (simp add: text_search_def good_empty_batch)
  next
    case False
    let ?hs = "text_candidates u corpus q"
    obtain hs where hs: "traverse_result new_hit ?hs = Inr hs"
      using assms(1) q False by (auto simp: text_search_def text_fold split: sum.splits)
    note v = traverse_new_hit_InrD [OF hs]
    then have b: "b = ranked_batch text_valid_key MAX_TOP_K ?hs"
      using text_search_eq [OF q] assms(1) by simp
    have "RawCandidateHit.query_id h = qid \<and> RawCandidateHit.query_text_hash h = u_query_text_hash query \<and> origin h \<noteq> BOTH"
      if h: "h \<in> set ?hs" for h
    proof -
      obtain item where "paragraph_hit u q item = Some h"
        using h unfolding text_candidates_def mem_map_filter by blast
      moreover obtain paper x y where "item = (paper, x, y)" by (cases item)
      ultimately have "paragraph_hit u q (paper, x, y) = Some h" by simp
      from paragraph_hit_cases [OF this] show ?thesis
        using g by (cases paper) (auto simp: Let_def oversized_hit_def located_hit_def split: prod.splits)
    qed
    then show ?thesis unfolding b by (intro ranked_batch_good) (use v assms(2) b in simp_all)
  qed
qed

lemma graph_batch_good:
  assumes "graph_search u corpus data query qid want MAX_TOP_K m = Inr b" "counted b"
  shows "good_batch qid (u_query_text_hash query) b"
proof -
  obtain q where q: "search_query u query qid want MAX_TOP_K m = Inr q"
    using assms(1) by (auto simp: graph_search_def split: sum.splits)
  note g = search_query_good [OF q]
  show ?thesis
  proof (cases "terms q = []")
    case True
    then show ?thesis using assms(1) q by (simp add: graph_search_def good_empty_batch)
  next
    case False
    then obtain nodes where n: "iter_candidates u data (join_u [32] (terms q)) = Inr nodes"
      using assms(1) q by (auto simp: graph_search_def split: sum.splits)
    let ?hs = "graph_candidates u corpus q nodes"
    obtain hs where hs: "traverse_result new_hit ?hs = Inr hs"
      using assms(1) q False n by (auto simp: graph_search_def graph_fold split: sum.splits)
    note v = traverse_new_hit_InrD [OF hs]
    then have b: "b = ranked_batch graph_valid_key MAX_TOP_K ?hs"
      using graph_search_eq [OF q False n] assms(1) by simp
    have "RawCandidateHit.query_id h = qid \<and> RawCandidateHit.query_text_hash h = u_query_text_hash query \<and> origin h \<noteq> BOTH"
      if h: "h \<in> set ?hs" for h
    proof -
      obtain item where "item \<in> set (graph_items u corpus nodes)" "graph_candidate q item = Some h"
        using h unfolding graph_candidates_def mem_map_filter by blast
      moreover obtain paper node rel ev where "item = (paper, node, rel, ev)" by (cases item)
      ultimately have i: "(paper, node, rel, ev) \<in> set (graph_items u corpus nodes)"
          "graph_candidate q (paper, node, rel, ev) = Some h" by simp_all
      from graph_hit_total [OF graph_items_nonempty [OF i(1)], of paper q node rel] show ?thesis
        using g i(2) by (cases paper) (auto simp: graph_candidate_def unlocated_hit_def located_hit_def split: prod.splits)
    qed
    then show ?thesis unfolding b by (intro ranked_batch_good) (use v assms(2) b in simp_all)
  qed
qed

text \<open>
  C7: The coordinator merges what the backends return into a ledger that validates. Once the text
  search and the graph search have each returned - either may fail before that, on an unsupported
  graph, say, or on a long heading (C40) - the coordinator fails exactly if two of their candidates,
  or of the candidates and diagnostics left after the merge, have the same key (as in C39);
  otherwise the ledger passes every check of its class, lists each located span that a backend
  returned once and no other, and every diagnostic, and the selection is its first \<open>top_k\<close>
  candidates in rank order.
\<close>

theorem retrieval_ledger_valid:
  assumes "text_search u corpus query qid want MAX_TOP_K m = Inr tb" and "counted tb"
    and "(case graph of None \<Rightarrow> Inr empty_batch
          | Some data \<Rightarrow> graph_search u corpus data query qid want MAX_TOP_K m) = Inr gb" and "counted gb"
    and "is_Sha256 (lock_hash corpus)" and "1 \<le> k" and "k \<le> MAX_TOP_K"
  shows "let hits = batch_hits tb @ batch_hits gb;
      merged = map snd (merge_hits corpus qid (u_query_text_hash query) (filter is_valid hits) []);
      invalid = filter (\<lambda>h. \<not> is_valid h) hits;
      fresh = distinct (map candidate_key hits) \<and> distinct (map candidate_key (merged @ invalid)) in
    case retrieve u corpus graph query qid want k m of
      Inl _ \<Rightarrow> \<not> fresh
    | Inr (selected, ledger) \<Rightarrow> fresh \<and> valid_RetrievalLedger ledger \<and>
        selected = take k (ordered_valid (raw_hits ledger)) \<and>
        distinct (map span_key (filter is_valid (raw_hits ledger))) \<and>
        span_key ` set (filter is_valid (raw_hits ledger)) = span_key ` set (filter is_valid hits) \<and>
        set (filter (\<lambda>h. \<not> is_valid h) (raw_hits ledger)) = set invalid"
proof -
  obtain q where q: "search_query u query qid want MAX_TOP_K m = Inr q"
    using assms(1) by (auto simp: text_search_def split: sum.splits)
  then have m: "1 \<le> m" "m \<le> MAX_QUERY_TERMS" by (auto simp: search_query_def split: if_splits)
  have qid: "is_QueryId qid" using good_query_id [OF search_query_good(1) [OF q]] search_query_good(2) [OF q] by simp
  have g: "good_batch qid (u_query_text_hash query) gb"
    using assms(3,4) graph_batch_good by (cases graph) (auto simp: good_empty_batch)
  have "retrieve u corpus graph query qid want k m = merge_batches corpus query qid k m tb gb"
    using assms(1,3,6,7) m by (simp add: retrieve_def)
  then show ?thesis
    using merged_ledger_valid [OF text_batch_good [OF assms(1,2)] g qid assms(5-7) m] by simp
qed

end
