(* ===== verification/VR_Retrieval_Samples.thy ===== *)
theory VR_Retrieval_Samples
  imports VR_Ledger VR_Samples
begin

section \<open>Concrete retrievals\<close>

text \<open>
  A locked paper of two paragraphs, a graph export that cites one of them twice, and a query: the
  theorems on retrieval applied to them.
\<close>

lemma unlocated_hit_valid:
  assumes "good_query q" "paper_fields paper" "ev \<noteq> []" "length ev \<le> MAX_CANDIDATE_CHARS"
    and "msg \<noteq> ''''" "length msg \<le> MAX_LEDGER_METADATA_CHARS"
    and "metadata_text node" "metadata_text rel" "node \<noteq> None" "rel \<noteq> None"
  shows "valid_RawCandidateHit (unlocated_hit q paper ev msg node rel)"
proof -
  obtain pid path h body where p: "paper = (pid, path, h, body)" by (cases paper) auto
  obtain c k where qi: "parse_query_id (id_text q) = Inr (c, RetrievalIntent_value (wanted q), k)"
    using assms(1) by (auto simp: good_query_def)
  have "utf8_length msg \<le> MAX_LEDGER_METADATA_CHARS" using utf8_length_le [of msg] assms(6) by linarith
  moreover have "unit_score GRAPH_SCORE"
    by (simp add: unit_score_def GRAPH_SCORE_def canonical_float_def float_value_def)
  ultimately show ?thesis
    using assms good_query_id [OF assms(1)] qi
    unfolding p unlocated_hit_def prod.case
    by (simp add: valid_RawCandidateHit_def RawCandidateHit_fields_def RawCandidateHit_validator_def
        raise_if_def offset_checks_def invalid_hit_checks_def provenance_checks_def no_context_def full_context_def
        good_query_def paper_fields_def unit_score_def absent_def Let_def) (simp add: metadata_text_def)
qed

lemma locate_message:
  "snd (locate_evidence body ev) = Unlocated msg \<Longrightarrow> msg \<noteq> '''' \<and> length msg \<le> MAX_LEDGER_METADATA_CHARS"
  by (auto simp: locate_evidence_def retrieval_bounds split: if_splits option.splits)

lemma locate_text:
  "ev \<noteq> [] \<Longrightarrow> fst (locate_evidence body ev) \<noteq> [] \<and> length (fst (locate_evidence body ev)) \<le> MAX_CANDIDATE_CHARS"
  by (auto simp: locate_evidence_def MAX_CANDIDATE_CHARS_def)

text \<open>The graph search of a well-formed export ends, and is the top of its full ranking.\<close>

lemma graph_candidates_valid:
  assumes "good_query q" "corpus_fields corpus" "short_headings corpus"
    and names: "\<And>paper node rel ev. (paper, node, rel, ev) \<in> set (graph_items u corpus nodes) \<Longrightarrow>
      paper \<in> set (paper_texts corpus) \<and> node \<noteq> None \<and> metadata_text node \<and> length rel \<le> MAX_LEDGER_METADATA_CHARS"
  shows "list_all valid_RawCandidateHit (graph_candidates u corpus q nodes)"
  unfolding list_all_iff
proof
  fix h assume "h \<in> set (graph_candidates u corpus q nodes)"
  then obtain item where it: "item \<in> set (graph_items u corpus nodes)" "graph_candidate q item = Some h"
    unfolding graph_candidates_def mem_map_filter by blast
  obtain paper node rel ev where i: "item = (paper, node, rel, ev)" by (cases item)
  note nm = names [OF it(1) [unfolded i]]
  have ne: "ev \<noteq> []" using it(1) graph_items_nonempty unfolding i by blast
  have pf: "paper_fields paper" using nm assms(2) by (cases paper) (fastforce simp: corpus_fields_def paper_fields_def)
  have rel: "metadata_text (Some rel)" "metadata_text node" using nm by (simp_all add: metadata_text_def)
  from graph_hit_total [OF ne, of paper q node rel] show "valid_RawCandidateHit h"
  proof (elim disjE exE conjE)
    fix msg assume m: "snd (locate_evidence (snd (snd (snd paper))) ev) = Unlocated msg"
      and g: "graph_hit q paper node rel ev =
        Inr (unlocated_hit q paper (fst (locate_evidence (snd (snd (snd paper))) ev)) msg node (Some rel))"
    have "h = unlocated_hit q paper (fst (locate_evidence (snd (snd (snd paper))) ev)) msg node (Some rel)"
      using it(2) g by (simp add: i graph_candidate_def)
    then show ?thesis
      using unlocated_hit_valid [OF assms(1) pf _ _ _ _ rel(2,1)] locate_text [OF ne] locate_message [OF m] nm by simp
  next
    fix a w assume len: "length ev \<le> MAX_CANDIDATE_CHARS"
      and w: "bounded_context_slice (snd (snd (snd paper))) a (a + length ev) = Inr w"
      and b: "a + length ev \<le> length (snd (snd (snd paper)))" "slice (snd (snd (snd paper))) a (a + length ev) = ev"
      and g: "graph_hit q paper node rel ev =
        Inr (located_hit q GRAPH_SCORE GRAPH paper ev a (a + length ev) w node (Some rel))"
    have h: "h = located_hit q GRAPH_SCORE GRAPH paper ev a (a + length ev) w node (Some rel)"
      using it(2) g by (simp add: i graph_candidate_def)
    have s: "unit_score GRAPH_SCORE"
      by (simp add: unit_score_def GRAPH_SCORE_def canonical_float_def float_value_def)
    show ?thesis unfolding h
      by (rule located_hit_valid [OF assms(1) pf s _ b(1) _ b(2) [symmetric] w _ rel(2,1)])
         (use ne len nm short_sections [OF assms(3)] in simp_all)
  qed
qed

definition ret_unicode :: Unicode where
  "ret_unicode =
     \<lparr>word_char = (\<lambda>c. 48 \<le> c \<and> c \<le> 57 \<or> 65 \<le> c \<and> c \<le> 90 \<or> c = 95 \<or> 97 \<le> c \<and> c \<le> 122),
      printable_char = (\<lambda>c. False), fold_char = (\<lambda>c. [if 65 \<le> c \<and> c \<le> 90 then c + 32 else c])\<rparr>"

definition ret_body :: ustr where
  "ret_body = ascii ''Cats.'' @ [10, 10] @ ascii ''Dogs''"

definition ret_corpus :: VerifiedCorpus where
  "ret_corpus = \<lparr>generation = 1, lock_hash = hash_bytes ''lock'',
     paper_texts = [(''P0001'', ''raw.md'', hash_bytes ''raw'', ret_body)],
     bibliography_keys = [(ascii ''Smith2020'', ''P0001'')]\<rparr>"

definition ret_query :: ustr where
  "ret_query = ascii ''the Cats''"

definition ret_text_query :: TextQuery where
  "ret_text_query = \<lparr>terms = [ascii ''the'', ascii ''cats''], id_text = ''Q-C0001-SUP-01'',
     text_hash = u_query_text_hash ret_query, wanted = RetrievalIntent.SUPPORT\<rparr>"

lemma ret_words: "find_words ret_unicode ret_query = [ascii ''the'', ascii ''Cats'']"
  by (simp add: find_words_def ret_query_def ret_unicode_def ascii_def char_runs.simps)

lemma ret_search_query:
  "search_query ret_unicode ret_query ''Q-C0001-SUP-01'' RetrievalIntent.SUPPORT MAX_TOP_K MAX_QUERY_TERMS = Inr ret_text_query"
proof -
  have "query_terms ret_unicode ret_query MAX_QUERY_TERMS = Inr [ascii ''the'', ascii ''cats'']"
    by (simp add: query_terms_def ret_words retrieval_bounds)
       (simp add: ret_query_def ret_unicode_def ascii_def casefold_def utf8_char_def)
  then show ?thesis
    by (simp add: search_query_def ret_text_query_def retrieval_bounds sample_parse)
qed

lemma ret_body: "ret_body = [67, 97, 116, 115, 46, 10, 10, 68, 111, 103, 115]"
  by (simp add: ret_body_def ascii_def)

lemma ret_separators: "separators ret_body 0 = [(5, 7)]"
  by (simp add: ret_body separators.simps match_separator_def drop_cr_def numeral_eq_Suc)

lemma skip_right_unfold:
  "skip_right t a b = (if a < b \<and> py_space (t ! (b - 1)) then skip_right t a (b - 1) else b)"
  by (cases b) simp_all

lemma ret_visible: "\<not> py_space 67" "\<not> py_space 46" "\<not> py_space 68" "\<not> py_space 115"
  by (simp_all add: py_space_def)

lemma ret_trimmed: "trimmed ret_body 0 5 = [(0, 5)]" "trimmed ret_body 7 11 = [(7, 11)]"
  by (simp_all add: ret_body trimmed_def skip_left.simps [of _ 0] skip_left.simps [of _ 7] ret_visible
      skip_right_unfold [of _ _ 5] skip_right_unfold [of _ _ 11])

lemma ret_slices: "paragraph_slices ret_body = [(0, 5), (7, 11)]"
proof -
  have "length ret_body = 11" by (simp add: ret_body)
  then show ?thesis unfolding paragraph_slices_def ret_separators by (simp add: ret_trimmed)
qed

lemma ret_headings: "heading_index ret_body = []"
  by (simp add: heading_index_def ret_body hash_lines.simps)

lemma ret_fields: "corpus_fields ret_corpus" "short_headings ret_corpus"
proof -
  have "utf8_length ''raw.md'' \<le> MAX_LEDGER_METADATA_CHARS"
    by (rule le_trans [OF utf8_length_le]) (simp add: retrieval_bounds)
  then show "corpus_fields ret_corpus" by (simp add: corpus_fields_def ret_corpus_def sample_ids)
  show "short_headings ret_corpus" by (simp add: short_headings_def ret_corpus_def ret_headings)
qed

lemma paragraph_slices_exact_witness:
  "sorted_wrt (\<lambda>(_, c) (b', _). c \<le> b') (paragraph_slices ret_body) \<and>
   7 < (11 :: nat) \<and> 11 \<le> length ret_body \<and> \<not> py_space (ret_body ! 7) \<and> \<not> py_space (ret_body ! (11 - 1)) \<and>
   match_separator (drop 8 ret_body) = None \<and> (py_space (ret_body ! 3) \<or> covered (paragraph_slices ret_body) 3)"
proof -
  note t = paragraph_slices_exact [of ret_body]
  have "(7, 11) \<in> set (paragraph_slices ret_body)" by (simp add: ret_slices)
  from bspec [OF conjunct1 [OF conjunct2 [OF t]] this] have p: "7 < (11 :: nat) \<and> 11 \<le> length ret_body \<and>
      \<not> py_space (ret_body ! 7) \<and> \<not> py_space (ret_body ! (11 - 1)) \<and>
      (\<forall>i \<in> {7..<11}. match_separator (drop i ret_body) = None)" unfolding prod.case .
  have "(3 :: nat) \<in> {..<length ret_body}" by (simp add: ret_body)
  from bspec [OF conjunct2 [OF conjunct2 [OF t]] this] have c: "py_space (ret_body ! 3) \<or> covered (paragraph_slices ret_body) 3" .
  have "(8 :: nat) \<in> {7..<11}" by simp
  then have m: "match_separator (drop 8 ret_body) = None" using p by blast
  show ?thesis using conjunct1 [OF t] p m c by iprover
qed

lemma text_search_ranked_witness:
  "text_search ret_unicode ret_corpus ret_query ''Q-C0001-SUP-01'' RetrievalIntent.SUPPORT MAX_TOP_K MAX_QUERY_TERMS =
     Inr (ranked_batch text_valid_key MAX_TOP_K (text_candidates ret_unicode ret_corpus ret_text_query))"
  by (rule text_search_ranked [OF ret_search_query ret_fields])

lemma ret_dogs: "occurs_at ret_body (ascii ''Dogs'') i \<longleftrightarrow> i = 7"
proof -
  have "i = 0 \<or> i = 1 \<or> i = 2 \<or> i = 3 \<or> i = 4 \<or> i = 5 \<or> i = 6 \<or> i = 7" if "i + 4 \<le> 11" using that by arith
  then show ?thesis by (auto simp: occurs_at_def slice_def ret_body ascii_def)
qed

lemma graph_evidence_located_witness:
  "\<exists>h. graph_hit ret_text_query (''P0001'', ''raw.md'', hash_bytes ''raw'', ret_body) None (ascii ''supports'') (ascii ''Dogs'') = Inr h \<and>
    is_valid h \<and> RawCandidateHit.start_offset h = Some 7 \<and> RawCandidateHit.source_text h = ascii ''Dogs''"
proof -
  let ?p = "(''P0001'', ''raw.md'', hash_bytes ''raw'', ret_body)"
  have "ascii ''Dogs'' \<noteq> []" "length (ascii ''Dogs'') \<le> MAX_CANDIDATE_CHARS" by (simp_all add: ascii_def retrieval_bounds)
  from graph_evidence_located [OF this, of ret_text_query ?p None "ascii ''supports''"] obtain h where
    h: "graph_hit ret_text_query ?p None (ascii ''supports'') (ascii ''Dogs'') = Inr h"
      "is_valid h \<longleftrightarrow> (\<exists>!i. i = (7 :: nat))"
      "\<forall>i. is_valid h \<longrightarrow> i = 7 \<longrightarrow> RawCandidateHit.start_offset h = Some i \<and> RawCandidateHit.source_text h = ascii ''Dogs''"
    unfolding snd_conv ret_dogs by blast
  then show ?thesis by blast
qed

subsection \<open>A passage cited twice\<close>

definition ret_item :: PyJson where
  "ret_item = PList [PDict [(ascii ''evidence'', PStr (ascii ''Dogs''))]]"

definition ret_node :: PyDict where
  "ret_node = [(ascii ''id'', PStr (ascii ''smith2020'')), (ascii ''label'', PStr (ascii ''The cats'')),
     (ascii ''attributes'', PDict [(ascii ''supports'', ret_item), (ascii ''mentions'', ret_item)])]"

definition ret_graph :: "PyJson option" where
  "ret_graph = Some (PDict [(ascii ''nodes'', PList [PDict ret_node]), (ascii ''links'', PList [])])"

definition ret_paper :: "string \<times> string \<times> string \<times> ustr" where
  "ret_paper = (''P0001'', ''raw.md'', hash_bytes ''raw'', ret_body)"

lemma ret_nodes: "iter_candidates ret_unicode ret_graph (join_u [32] [ascii ''the'', ascii ''cats'']) = Inr [ret_node]"
proof -
  have ts: "map (casefold ret_unicode) (u_split (join_u [32] [ascii ''the'', ascii ''cats''])) = [ascii ''the'', ascii ''cats'']"
    by (simp add: join_u_def ascii_def u_split.simps py_space_def casefold_def ret_unicode_def)
  have "searchable_text ret_unicode ret_node = ascii ''smith2020 the cats ''"
    by (simp add: searchable_text_def ret_node_def py_str_def join_u_def ascii_def casefold_def ret_unicode_def)
  then have "list_all (contains (searchable_text ret_unicode ret_node)) [ascii ''the'', ascii ''cats'']"
    by (simp add: contains_def text_find_def ascii_def)
  moreover have "graph_nodes ret_unicode ret_graph = Inr [ret_node]"
    by (simp add: graph_nodes_def inspect_graph_def ret_graph_def ret_node_def inspect_items_def get_or_def is_dict_def
        items_of_def ascii_def Let_def)
  ultimately show ?thesis unfolding iter_candidates_def ts Let_def by simp
qed

lemma ret_evidence: "evidence_items ret_node = [(ascii ''mentions'', ascii ''Dogs''), (ascii ''supports'', ascii ''Dogs'')]"
proof -
  have "item_evidence (PDict [(ascii ''evidence'', PStr (ascii ''Dogs''))]) = Some (ascii ''Dogs'')"
    by (simp add: item_evidence_def items_of_def u_strip_def ascii_def py_space_def)
  then show ?thesis
    by (simp add: evidence_items_def ret_node_def ret_item_def as_list_def List.map_filter_def ascii_def)
qed

lemma ret_node_name: "node_name ret_unicode ret_node = Some (ascii ''smith2020'')"
  by (simp add: node_name_def ret_node_def py_str_def ascii_def)

lemma ret_citekey: "citekey_paper ret_unicode ret_corpus ret_node = Some ret_paper"
proof -
  have "casefold ret_unicode (case get_or ret_node ''citekey'' ''id'' of None \<Rightarrow> [] | Some v \<Rightarrow> py_str ret_unicode v) =
      casefold ret_unicode (ascii ''Smith2020'')"
    by (simp add: get_or_def ret_node_def py_str_def casefold_def ret_unicode_def ascii_def)
  then show ?thesis
    by (simp add: citekey_paper_def Let_def ret_corpus_def by_last_def ret_paper_def ascii_def)
qed

lemma ret_graph_items: "graph_items ret_unicode ret_corpus [ret_node] =
    [(ret_paper, Some (ascii ''smith2020''), ascii ''mentions'', ascii ''Dogs''),
     (ret_paper, Some (ascii ''smith2020''), ascii ''supports'', ascii ''Dogs'')]"
  by (simp add: graph_items_def ret_citekey ret_evidence ret_node_name)

lemma ret_graph_valid: "list_all valid_RawCandidateHit (graph_candidates ret_unicode ret_corpus ret_text_query [ret_node])"
proof (rule graph_candidates_valid [OF search_query_good(1) [OF ret_search_query] ret_fields])
  fix paper node rel ev assume "(paper, node, rel, ev) \<in> set (graph_items ret_unicode ret_corpus [ret_node])"
  then show "paper \<in> set (paper_texts ret_corpus) \<and> node \<noteq> None \<and> metadata_text node \<and> length rel \<le> MAX_LEDGER_METADATA_CHARS"
    unfolding ret_graph_items by (auto simp: ret_paper_def ret_corpus_def metadata_text_def ascii_def retrieval_bounds)
qed

lemma ret_text_batch:
  "text_search ret_unicode ret_corpus ret_query ''Q-C0001-SUP-01'' RetrievalIntent.SUPPORT MAX_TOP_K MAX_QUERY_TERMS =
     Inr (ranked_batch text_valid_key MAX_TOP_K (text_candidates ret_unicode ret_corpus ret_text_query))"
proof (rule text_search_eq [OF ret_search_query])
  show "list_all valid_RawCandidateHit (text_candidates ret_unicode ret_corpus ret_text_query)"
    unfolding list_all_iff
  proof
    fix h assume "h \<in> set (text_candidates ret_unicode ret_corpus ret_text_query)"
    then obtain item where it: "item \<in> set (text_items ret_corpus)" "paragraph_hit ret_unicode ret_text_query item = Some h"
      unfolding text_candidates_def mem_map_filter by blast
    obtain paper a b where "item = (paper, a, b)" by (cases item)
    then show "valid_RawCandidateHit h"
      using paragraph_hit_valid [OF search_query_good(1) [OF ret_search_query] ret_fields] it by blast
  qed
qed

lemma ret_terms: "terms ret_text_query = [ascii ''the'', ascii ''cats'']"
  by (simp add: ret_text_query_def)

lemma repeated_evidence_blocks_retrieval_witness:
  "retrieve ret_unicode ret_corpus (Some ret_graph) ret_query ''Q-C0001-SUP-01'' RetrievalIntent.SUPPORT 10 MAX_QUERY_TERMS =
     Inl ''retrieval backends emitted duplicate candidate keys''"
proof (rule repeated_evidence_blocks_retrieval [OF ret_search_query _ _ ret_text_batch _ _ ret_graph_valid,
    where i = 0 and j = 1 and paper = ret_paper and ev = "ascii ''Dogs''" and ?n1.0 = "Some (ascii ''smith2020'')"
      and ?n2.0 = "Some (ascii ''smith2020'')" and ?r1.0 = "ascii ''mentions''" and ?r2.0 = "ascii ''supports''"])
  show "length (graph_candidates ret_unicode ret_corpus ret_text_query [ret_node]) \<le> 100"
    unfolding graph_candidates_def List.map_filter_def ret_graph_items
    by (rule le_trans [OF length_filter_le [THEN order.trans [OF eq_refl [OF length_map]]]]) simp
qed (simp_all add: retrieval_bounds ret_terms ret_nodes ret_graph_items)

lemma ret_text_hits: "length (text_candidates ret_unicode ret_corpus ret_text_query) \<le> 2"
proof -
  have "length (text_items ret_corpus) = 2" by (simp add: text_items_def ret_corpus_def ret_slices)
  then show ?thesis
    unfolding text_candidates_def List.map_filter_def by (simp add: le_trans [OF length_filter_le])
qed

subsection \<open>A retrieval without a graph\<close>

lemma retrieval_ledger_valid_witness:
  "\<exists>tb. text_search ret_unicode ret_corpus ret_query ''Q-C0001-SUP-01'' RetrievalIntent.SUPPORT MAX_TOP_K MAX_QUERY_TERMS = Inr tb \<and>
    (let hits = batch_hits tb @ batch_hits empty_batch;
      merged = map snd (merge_hits ret_corpus ''Q-C0001-SUP-01'' (u_query_text_hash ret_query) (filter is_valid hits) []);
      invalid = filter (\<lambda>h. \<not> is_valid h) hits;
      fresh = distinct (map candidate_key hits) \<and> distinct (map candidate_key (merged @ invalid)) in
    case retrieve ret_unicode ret_corpus None ret_query ''Q-C0001-SUP-01'' RetrievalIntent.SUPPORT 10 MAX_QUERY_TERMS of
      Inl _ \<Rightarrow> \<not> fresh
    | Inr (selected, ledger) \<Rightarrow> fresh \<and> valid_RetrievalLedger ledger \<and>
        selected = take 10 (ordered_valid (raw_hits ledger)) \<and>
        distinct (map span_key (filter is_valid (raw_hits ledger))) \<and>
        span_key ` set (filter is_valid (raw_hits ledger)) = span_key ` set (filter is_valid hits) \<and>
        set (filter (\<lambda>h. \<not> is_valid h) (raw_hits ledger)) = set invalid)"
proof -
  let ?tb = "ranked_batch text_valid_key MAX_TOP_K (text_candidates ret_unicode ret_corpus ret_text_query)"
  have "length (filter P (text_candidates ret_unicode ret_corpus ret_text_query)) \<le> 2" for P
    by (rule le_trans [OF length_filter_le ret_text_hits])
  then have "length (filter P (text_candidates ret_unicode ret_corpus ret_text_query)) - 100 = 0" for P
    by (metis diff_is_0_eq le_trans numeral_le_iff semiring_norm(68,69,71,72,73))
  then have tb: "counted ?tb" by (simp add: counted_def ranked_batch_def Let_def retrieval_bounds)
  have e: "counted empty_batch" by (simp add: counted_def empty_batch_def)
  have "is_Sha256 (lock_hash ret_corpus)" by (simp add: ret_corpus_def)
  from retrieval_ledger_valid [OF ret_text_batch tb _ e this, of None 10] show ?thesis
    by (intro exI [of _ ?tb] conjI ret_text_batch) (simp add: retrieval_bounds)
qed

subsection \<open>A long heading\<close>

definition long_body :: "nat \<Rightarrow> ustr" where
  "long_body n = 35 # replicate n 97 @ [10, 10, 67, 97, 116, 115]"

lemma separators_letters: "separators (replicate n 97 @ s) i = separators s (i + n)"
  by (induction n arbitrary: i) (simp_all add: separators.simps [of "97 # _"] match_separator_def drop_cr_def)

lemma long_separators: "separators (long_body n) 0 = [(Suc n, n + 3)]"
  by (simp add: long_body_def separators.simps [of "35 # _"] separators_letters match_separator_def drop_cr_def
      separators.simps [of "10 # _"] separators.simps [of "67 # _"] separators.simps [of "97 # _"]
      separators.simps [of "116 # _"] separators.simps [of "115 # _"] separators.simps [of "[]"])

lemma long_nth: "k < 4 \<Longrightarrow> long_body n ! (n + 3 + k) = [67, 97, 116, 115] ! k" "long_body n ! 0 = 35"
  "0 < n \<Longrightarrow> long_body n ! n = 97"
  by (simp_all add: long_body_def nth_append nth_Cons')

lemma long_slice: "(n + 3, n + 7) \<in> set (paragraph_slices (long_body n))"
proof -
  have l: "length (long_body n) = n + 7" by (simp add: long_body_def)
  have f: "\<not> py_space (long_body n ! (n + 3))" "\<not> py_space (long_body n ! (n + 6))"
    using long_nth(1) [of 0 n] long_nth(1) [of 3 n] by (simp_all add: ret_visible add.commute)
  have "trimmed (long_body n) (n + 3) (n + 7) = [(n + 3, n + 7)]"
    using f by (simp add: trimmed_def skip_left.simps [of _ "n + 3"] skip_right_unfold [of _ _ "n + 7"] add.commute [of 6 n])
  then show ?thesis unfolding paragraph_slices_def long_separators by (simp add: l)
qed

lemma dropWhile_replicate: "\<not> p x \<Longrightarrow> dropWhile p (replicate k x) = replicate k x"
  by (cases k) simp_all

lemma long_heading: "section_at (heading_index (long_body n)) (n + 3) = Some (replicate n 97)" if "0 < n"
proof -
  have t: "takeWhile (\<lambda>c. c \<noteq> 10) (long_body n) = 35 # replicate n 97"
    by (simp add: long_body_def takeWhile_append)
  have d: "drop (Suc (length (35 # replicate n (97::nat)))) (long_body n) = [10, 67, 97, 116, 115]"
    by (simp add: long_body_def)
  have h: "hash_lines (long_body n) 0 = (0, 35 # replicate n 97) # hash_lines [10, 67, 97, 116, 115] (n + 2)"
    by (subst hash_lines.simps, simp only: t d Let_def) (simp add: long_body_def)
  have s: "\<not> py_space 97" by (simp add: py_space_def)
  then have "u_strip (replicate n 97) = replicate n 97"
    by (simp only: u_strip_def dropWhile_replicate rev_replicate not_False_eq_True)
  moreover have "dropWhile (\<lambda>c. c = 35) (replicate n (97::nat)) = replicate n 97" using that by (cases n) simp_all
  moreover have "hash_lines [10, 67, 97, 116, 115] (n + 2) = []" by (simp add: hash_lines.simps)
  ultimately show ?thesis using that by (simp add: heading_index_def h section_at_def)
qed

definition long_paper :: "string \<times> string \<times> string \<times> ustr" where
  "long_paper = (''P0001'', ''raw.md'', hash_bytes ''raw'', long_body 4097)"

definition long_corpus :: VerifiedCorpus where
  "long_corpus = ret_corpus\<lparr>paper_texts := [long_paper]\<rparr>"

lemma long_heading_blocks_search_witness:
  "\<exists>e. text_search ret_unicode long_corpus ret_query ''Q-C0001-SUP-01'' RetrievalIntent.SUPPORT MAX_TOP_K MAX_QUERY_TERMS = Inl e"
proof (rule long_heading_blocks_search [OF ret_search_query])
  have b: "snd (snd (snd long_paper)) = long_body 4097" by (simp add: long_paper_def)
  show "(long_paper, 4097 + 3, 4097 + 7) \<in> set (text_items long_corpus)"
    using long_slice [of 4097] by (simp add: text_items_def long_corpus_def b)
  have "slice (long_body 4097) (4097 + 3) (4097 + 7) = [67, 97, 116, 115]"
    by (simp add: slice_def long_body_def)
  then show "matched_terms ret_unicode (terms ret_text_query) (slice (snd (snd (snd long_paper))) (4097 + 3) (4097 + 7)) \<noteq> 0"
    unfolding b by (simp add: matched_terms_def ret_terms casefold_def ret_unicode_def contains_def text_find_def ascii_def)
  show "section_at (heading_index (snd (snd (snd long_paper)))) (4097 + 3) = Some (replicate 4097 97)"
    unfolding b by (rule long_heading) simp
qed (simp_all add: retrieval_bounds)

end
