(* ===== verification/Spec2Isabelle.thy ===== *)
theory Spec2Isabelle
  imports VR_Registry VR_Bundles VR_Promote_Gaps VR_Store_Limits VR_Tasks_Samples VR_Retrieval_Samples
begin

text \<open>
  \<^bold>\<open>VibeReview: the literature-review repository and the runtime that changes it\<close>

  VibeReview (\<open>src/src/vibereview/\<close>) turns a corpus of papers into a literature review every sentence
  of which is licensed by recorded evidence. Scientific state is a repository of immutable records;
  language models only write proposals; the deterministic runtime validates a proposal, promotes it
  to canonical records with identifiers it allocates itself, and commits the result as a new
  generation on disk. This development models that deterministic core.

  \<^bold>\<open>Theories and the code they model\<close>

  \<^item> \<open>VR_Prelude\<close>: lists, dictionaries with insertion order (\<open>strdict\<close>), decimal text, and the
    depth-first and pointer-chasing facts the components share.
  \<^item> \<open>VR_Enums\<close>, \<open>VR_Ids\<close>, \<open>VR_Issues\<close>, \<open>VR_Models\<close>: \<open>enums.py\<close>, \<open>ids.py\<close>, \<open>errors.py\<close> and
    \<open>models.py\<close>. A pydantic class is a record with a predicate \<open>valid_X\<close> for its field constraints
    and a function \<open>X_validator\<close> for its model validator, which returns the first error.
  \<^item> \<open>VR_Val_Identity\<close>, \<open>VR_Val_Retrieval\<close>, \<open>VR_Val_Claims\<close>, \<open>VR_Val_Prose\<close>, \<open>VR_Repository\<close>:
    \<open>validators.py\<close> and \<open>RepositorySnapshot\<close> of \<open>runtime/state.py\<close>. Each collector is a function to
    the list of issues it reports, in order; each is proved equivalent to a declarative contract,
    and \<open>VR_Repository\<close> draws the end-to-end guarantees from the contracts together.
  \<^item> \<open>VR_Registry\<close>: \<open>runtime/registry.py\<close>, the allocation of canonical identifiers.
  \<^item> \<open>VR_Records\<close>, \<open>VR_Proposals\<close>, \<open>VR_Bundles\<close>: \<open>runtime/records.py\<close> and \<open>runtime/dto.py\<close>, the
    records of tasks and attempts, snapshotted resources, invocations and proposals.
  \<^item> \<open>VR_Promotion\<close>, \<open>VR_Promote\<close>: \<open>runtime/promotion.py\<close>, the acceptance checks of proposals and
    the promotion of each to a new repository. \<open>VR_Upsert\<close> and \<open>VR_Promote_Claims\<close>, \<open>_Final\<close>,
    \<open>_Queries\<close>, \<open>_Discovery\<close>, \<open>_Gaps\<close> hold the proofs that what is accepted promotes, and where it does not.
  \<^item> \<open>VR_Hashing\<close>, \<open>VR_Json\<close>, \<open>VR_Receipts\<close>: SHA-256, canonical JSON and the hashes of
    \<open>runtime/hashing.py\<close>, and the keys and receipts of \<open>runtime/receipts.py\<close>.
  \<^item> \<open>VR_Store\<close>: \<open>runtime/repository.py\<close>, the generation store, with its read limits. A commit and a
    recovery are lists of the states they pass through, one for each file or directory written or
    deleted, in any order of deletion within a directory. \<open>VR_Store_Correct\<close> relates a directory to the
    history of versions it stands for (\<open>represents\<close>) and says when it is \<open>orderly\<close>, that is, when recovery
    succeeds; \<open>VR_Store_Recovery\<close> shows that no deletion touches the history and that recovery fails on
    any other state; \<open>VR_Store_Commit\<close> does the same for commits. \<open>VR_Store_Spec\<close> states the contract
    of a versioned store as a locale, interprets it on the model and derives atomicity, what a crash
    leaves, and the growth of the history; \<open>VR_Store_Limits\<close> holds initialisation, the success of a
    commit, and three situations in which the store cannot be read any more: the millionth
    generation, receipts above the read limit, and an interrupted clean-up.
  \<^item> \<open>VR_Cache\<close>: \<open>runtime/cache.py\<close>, the proposal cache; a look-up finds exactly what was stored under an
    equal signature.
  \<^item> \<open>VR_Kernel\<close>: \<open>runtime/kernel.py\<close> and \<open>runtime/coupled.py\<close>, the whole of \<open>ProjectRuntime.run\<close>:
    preflight, creation of the task, reuse of an accepted receipt, the attempts of the engines, the
    commit, and the loops over attempts, engines and rebuilds. \<open>VR_Kernel_Runs\<close> bounds a run and
    shows that it accepts at most one attempt; \<open>VR_Kernel_Store\<close> shows that a run refines one step of
    the version history, next to other processes that publish versions of their own;
    \<open>VR_Kernel_Accept\<close> shows when an answer completes the run, and one that cannot.
  \<^item> \<open>VR_Specs\<close>: \<open>runtime/specs.py\<close>, the table of the thirteen tasks with their dependency keys, resources
    and engine inputs. \<open>VR_Specs_Correct\<close> shows when a task can be created and that a claim's source
    chain is guarded by its dependencies; \<open>VR_Specs_Scope\<close> that this scope rejects no proposal about the
    task's own claim, that the engine input can be built, and which tasks run without an adapter.
  \<^item> \<open>VR_Tasks\<close>: \<open>runtime/tasks.py\<close>, the task workspace: directories, snapshots of resources, the bundle and
    its integrity check. \<open>VR_Tasks_Correct\<close> characterises the check and the allocation of directories;
    \<open>VR_Tasks_Bundle\<close> shows what a bundle holds, that the check knows exactly its files, and that the kernel
    commits only out of an untouched workspace.
  \<^item> \<open>VR_Text\<close>: text by code point with its UTF-8 encoding, the regular expressions of retrieval, and
    quotients of small integers as doubles.
  \<^item> \<open>VR_Retrieval\<close>, \<open>VR_Graph\<close>: \<open>library/retrieval.py\<close> and \<open>library/graph.py\<close>, retrieval candidates and
    ledgers with their checks, the text retriever, the inspection of a graph export and its retriever, and
    the coordinator that merges the two. \<open>VR_Paragraphs\<close> shows what the paragraphs of a text are and states
    the contract of a bounded ranked list as a locale, interpreted on the lists of both retrievers;
    \<open>VR_Search\<close> shows that the text search is the top of the full ranking, \<open>VR_Ledger\<close> which graph evidence
    is located and that a merged ledger validates; both show a query that fails for one bad passage.
  \<^item> \<open>VR_Samples\<close>, \<open>VR_Promote_Samples\<close>, \<open>VR_Kernel_Samples\<close>, \<open>VR_Tasks_Samples\<close>, \<open>VR_Retrieval_Samples\<close>: a small repository and proposals on which the theorems apply.

  \<^bold>\<open>Conventions\<close>

  Text is a list of bytes in UTF-8, and in the retrieval theories, where offsets count code points, the
  list of its code points. A double is its mantissa and exponent. Python exceptions are left values of sums or errors in an option.
  Counters are mathematical integers, as in Python. A dictionary is an association list in insertion
  order. Python sets that only serve membership tests are lists or sets.

  \<^bold>\<open>Parameters\<close>

  The Unicode tables behind \<open>\\w\<close>, \<open>casefold\<close> and \<open>repr\<close>, the value \<open>json.loads\<close> returns for a graph export, the size of a serialised bundle, the JSON that
  pydantic dumps for a record and the bytes of the control files (\<open>Dumps\<close>), the order in which a
  directory is listed, what \<open>inspect\<close> shows of a handler, time stamps and random
  suffixes are arguments of the definitions that use them; nothing is assumed of them unless a
  theorem says so. \<open>Platform\<close> and \<open>SpecModels\<close> collect what the kernel is built on: these tables,
  \<open>json.loads\<close>, pydantic's parsers and the code of the handlers. A \<open>TaskWorld\<close> says what happens around
  one task: the bundle that is built, the answers of the engines, the source files, and a function on
  the store for what other processes do at each point where the writer lock is free. The theorems
  about the history ask of these functions only that they append versions and leave an orderly store
  orderly (\<open>cooperative\<close>), and of an
  adapter only that its plans do not raise the exception that stands for a crash (\<open>honest_adapter\<close>).

  \<^bold>\<open>Bounds\<close>

  No definition needs fuel: the two searches of the validators (theme hierarchy, canonical pointers)
  and the rebuild loop of the kernel carry termination measures. Six-digit generation names bound the histories of the store theorems
  by \<open>10 ^ 6\<close>; \<open>millionth_generation_unreadable\<close> shows that the bound is needed. Control files are bounded
  by the 64 MiB of \<open>MAX_GENERATION_CONTROL_BYTES\<close> wherever they are read; \<open>receipts_fit\<close> and
  \<open>payload_fits\<close> are the hypotheses that a version stays below it. CPython's recursion limit is not modelled.

  \<^bold>\<open>Not modelled\<close>

  Engines, subprocesses and the sandbox (\<open>runtime/execution.py\<close>, \<open>confinement.py\<close>, \<open>credentials.py\<close> and
  their neighbours): operating-system effects around an engine whose answer is an argument here. The
  file-system defences against processes outside the writer lock, and crashes of \<open>initialize\<close>, which
  is one step. The adapters, journals and packets
  of the synthetic pilot (\<open>runtime/draft_transitions.py\<close>, \<open>pilot_*.py\<close>, \<open>library/pilot_*.py\<close>), for which any
  adapter stands in the kernel. The rest of \<open>library/\<close>, which reads Git checkouts and operator files and
  imports papers: the corpus of a retrieval is the value \<open>VerifiedCorpus\<close> holds after its lock was verified.
  Prompt texts (\<open>prompting/\<close>). \<open>PROJECT.json\<close> lists every module with its status.
\<close>

end
